(* ===== verification/Py_Prelude.thy ===== *)
theory Py_Prelude
  imports Complex_Main "HOL-Library.List_Lexorder" "HOL-Library.Char_ord" "HOL-Library.Sublist"
begin

text \<open>
  The Python values, exceptions and standard-library operations the other theories share.

  A \<open>str\<close> is a list of characters, each read as the Unicode code point of the same number, so
  the model covers strings of code points below 256. A JSON value is a \<open>pyval\<close>; a \<open>dict\<close> is
  its list of items in insertion order, with distinct keys wherever the code built it. A
  \<open>float\<close> carries its exact value and the text \<open>repr\<close> prints for it. A raised exception is
  the left side of a sum: \<open>PyExc\<close> with the class name and the text \<open>str(exc)\<close> gives.

  The lemma collections declared here gather the rewriting rules of every component:
  \<open>py_simps\<close> for Python values, \<open>record_simps\<close> for recorded frames, \<open>check_defs\<close> for the
  definitions of the checks.
\<close>

named_theorems py_simps
named_theorems record_simps
named_theorems check_defs

section \<open>Values and exceptions\<close>

datatype py_exc = PyExc (exc_name: string) (exc_text: string)

type_synonym 'a py = "py_exc + 'a"

datatype pyfloat = Finite rat string | PosInf | NegInf | NaN

datatype pyval =
    VNone
  | VBool bool
  | VInt int
  | VFloat pyfloat
  | VStr string
  | VList "pyval list"
  | VDict "(string \<times> pyval) list"

type_synonym pydict = "(string \<times> pyval) list"

abbreviation sq :: string where
  "sq \<equiv> [CHR 0x27]"

abbreviation dq :: string where
  "dq \<equiv> [CHR 0x22]"

abbreviation IndexError :: py_exc where
  "IndexError \<equiv> PyExc ''IndexError'' ''tuple index out of range''"

abbreviation AssertionError :: py_exc where
  "AssertionError \<equiv> PyExc ''AssertionError'' ''''"

abbreviation StopIteration :: py_exc where
  "StopIteration \<equiv> PyExc ''StopIteration'' ''''"

section \<open>Results\<close>

fun py_bind :: "'a py \<Rightarrow> ('a \<Rightarrow> 'b py) \<Rightarrow> 'b py" where
  "py_bind (Inl e) f = Inl e"
| "py_bind (Inr x) f = f x"

text \<open>A list display whose elements are evaluated from left to right: the first error wins.\<close>

fun collect :: "'a py list \<Rightarrow> 'a list py" where
  "collect [] = Inr []"
| "collect (x # xs) = py_bind x (\<lambda>y. py_bind (collect xs) (\<lambda>ys. Inr (y # ys)))"

lemma py_bind_Inr_iff [py_simps]:
  "py_bind x f = Inr y \<longleftrightarrow> (\<exists>z. x = Inr z \<and> f z = Inr y)"
  by (cases x) auto

lemma py_bind_Inl_iff [py_simps]:
  "py_bind x f = Inl e \<longleftrightarrow> x = Inl e \<or> (\<exists>z. x = Inr z \<and> f z = Inl e)"
  by (cases x) auto

lemma collect_map_Inr [simp]: "collect (map (\<lambda>x. Inr (f x)) xs) = Inr (map f xs)"
  by (induction xs) auto

lemma collect_Inr_iff: "collect xs = Inr ys \<longleftrightarrow> xs = map Inr ys"
  by (induction xs arbitrary: ys) (auto simp: py_simps)

section \<open>Dictionaries\<close>

definition dict_get :: "string \<Rightarrow> pydict \<Rightarrow> pyval" where
  "dict_get k d = (case map_of d k of None \<Rightarrow> VNone | Some v \<Rightarrow> v)"

definition has_key :: "string \<Rightarrow> pydict \<Rightarrow> bool" where
  "has_key k d \<longleftrightarrow> map_of d k \<noteq> None"

definition dict_keys :: "pydict \<Rightarrow> string list" where
  "dict_keys d = map fst d"

lemma has_key_iff [simp]: "has_key k d \<longleftrightarrow> k \<in> fst ` set d"
  by (simp add: has_key_def map_of_eq_None_iff)

lemma dict_get_Nil [simp]: "dict_get k [] = VNone"
  by (simp add: dict_get_def)

lemma dict_get_Cons [simp]: "dict_get k ((k', v) # d) = (if k = k' then v else dict_get k d)"
  by (simp add: dict_get_def)

lemma dict_get_has_key: "dict_get k d \<noteq> VNone \<Longrightarrow> k \<in> fst ` set d"
  by (induction d) (auto split: if_splits)

fun is_dict :: "pyval \<Rightarrow> bool" where
  "is_dict (VDict _) = True"
| "is_dict _ = False"

fun is_list :: "pyval \<Rightarrow> bool" where
  "is_list (VList _) = True"
| "is_list _ = False"

fun is_str :: "pyval \<Rightarrow> bool" where
  "is_str (VStr _) = True"
| "is_str _ = False"

fun is_bool :: "pyval \<Rightarrow> bool" where
  "is_bool (VBool _) = True"
| "is_bool _ = False"

text \<open>\<open>isinstance(value, int)\<close> holds of a \<open>bool\<close>; the code's integer test excludes it.\<close>

fun is_int :: "pyval \<Rightarrow> bool" where
  "is_int (VInt _) = True"
| "is_int _ = False"

fun dict_of :: "pyval \<Rightarrow> pydict option" where
  "dict_of (VDict d) = Some d"
| "dict_of _ = None"

fun str_of :: "pyval \<Rightarrow> string option" where
  "str_of (VStr s) = Some s"
| "str_of _ = None"

lemma is_dict_iff: "is_dict v \<longleftrightarrow> (\<exists>d. v = VDict d)"
  by (cases v) auto

lemma is_list_iff: "is_list v \<longleftrightarrow> (\<exists>xs. v = VList xs)"
  by (cases v) auto

lemma is_str_iff: "is_str v \<longleftrightarrow> (\<exists>s. v = VStr s)"
  by (cases v) auto

lemma is_bool_iff: "is_bool v \<longleftrightarrow> (\<exists>b. v = VBool b)"
  by (cases v) auto

lemma is_int_iff: "is_int v \<longleftrightarrow> (\<exists>n. v = VInt n)"
  by (cases v) auto

lemma dict_of_eq_Some [simp]: "dict_of v = Some d \<longleftrightarrow> v = VDict d"
  by (cases v) auto

lemma str_of_eq_Some [simp]: "str_of v = Some s \<longleftrightarrow> v = VStr s"
  by (cases v) auto

lemmas is_iffs = is_dict_iff is_list_iff is_str_iff is_bool_iff is_int_iff

section \<open>Truth, equality and hashing\<close>

fun truthy :: "pyval \<Rightarrow> bool" where
  "truthy VNone = False"
| "truthy (VBool b) = b"
| "truthy (VInt n) = (n \<noteq> 0)"
| "truthy (VFloat (Finite q t)) = (q \<noteq> 0)"
| "truthy (VFloat _) = True"
| "truthy (VStr s) = (s \<noteq> [])"
| "truthy (VList xs) = (xs \<noteq> [])"
| "truthy (VDict d) = (d \<noteq> [])"

text \<open>Comparison of any value with an \<open>int\<close>: \<open>True == 1 == 1.0\<close>.\<close>

fun eq_int :: "pyval \<Rightarrow> int \<Rightarrow> bool" where
  "eq_int (VInt m) n = (m = n)"
| "eq_int (VBool b) n = ((if b then 1 else 0) = n)"
| "eq_int (VFloat (Finite q t)) n = (q = of_int n)"
| "eq_int _ n = False"

text \<open>A list or a dict cannot be looked up in a set.\<close>

fun unhashable :: "pyval \<Rightarrow> string option" where
  "unhashable (VList _) = Some ''list''"
| "unhashable (VDict _) = Some ''dict''"
| "unhashable _ = None"

fun type_name :: "pyval \<Rightarrow> string" where
  "type_name VNone = ''NoneType''"
| "type_name (VBool _) = ''bool''"
| "type_name (VInt _) = ''int''"
| "type_name (VFloat _) = ''float''"
| "type_name (VStr _) = ''str''"
| "type_name (VList _) = ''list''"
| "type_name (VDict _) = ''dict''"

definition unhashable_error :: "string \<Rightarrow> py_exc" where
  "unhashable_error t = PyExc ''TypeError'' (''unhashable type: '' @ sq @ t @ sq)"

text \<open>\<open>value in {...}\<close> for a set of strings.\<close>

definition in_str_set :: "pyval \<Rightarrow> string list \<Rightarrow> bool py" where
  "in_str_set v xs = (case unhashable v of
     Some t \<Rightarrow> Inl (unhashable_error t)
   | None \<Rightarrow> Inr (\<exists>s \<in> set xs. v = VStr s))"

text \<open>Iterating over a value: a string gives its characters, a dict its keys.\<close>

fun iter_values :: "pyval \<Rightarrow> pyval list py" where
  "iter_values (VList xs) = Inr xs"
| "iter_values (VStr s) = Inr (map (\<lambda>c. VStr [c]) s)"
| "iter_values (VDict d) = Inr (map (\<lambda>kv. VStr (fst kv)) d)"
| "iter_values v = Inl (PyExc ''TypeError'' (sq @ type_name v @ sq @ '' object is not iterable''))"

text \<open>Setting a key of a dictionary: an existing key keeps its place.\<close>

fun dict_put :: "'k \<Rightarrow> 'v \<Rightarrow> ('k \<times> 'v) list \<Rightarrow> ('k \<times> 'v) list" where
  "dict_put k v [] = [(k, v)]"
| "dict_put k v ((k', v') # d) = (if k = k' then (k, v) # d else (k', v') # dict_put k v d)"

end
