(* ===== verification/Findings.thy ===== *)
theory Findings
  imports Py_Text
begin

text \<open>
  \<open>validator/findings.py\<close>: the verdicts a check reaches, what they rest on, and the finding
  that carries one into the report.
\<close>

datatype verdict = PASS | FAIL | WARN | SKIPPED | NOT_APPLICABLE | TOOL_ERROR

datatype evidence = MACHINE | HUMAN

fun verdict_value :: "verdict \<Rightarrow> string" where
  "verdict_value PASS = ''PASS''"
| "verdict_value FAIL = ''FAIL''"
| "verdict_value WARN = ''WARN''"
| "verdict_value SKIPPED = ''SKIPPED''"
| "verdict_value NOT_APPLICABLE = ''N/A''"
| "verdict_value TOOL_ERROR = ''TOOL_ERROR''"

fun evidence_value :: "evidence \<Rightarrow> string" where
  "evidence_value MACHINE = ''machine''"
| "evidence_value HUMAN = ''human''"

record finding =
  fi_id :: string
  fi_verdict :: verdict
  fi_spec_ref :: string
  fi_message :: string
  fi_evidence :: evidence
  fi_frames :: "int list"

definition finding_to_json :: "finding \<Rightarrow> pydict" where
  "finding_to_json f = [
     (''evidence'', VStr (evidence_value (fi_evidence f))),
     (''frames'', VList (map VInt (fi_frames f))),
     (''id'', VStr (fi_id f)),
     (''message'', VStr (fi_message f)),
     (''spec_ref'', VStr (fi_spec_ref f)),
     (''verdict'', VStr (verdict_value (fi_verdict f)))]"

text \<open>
  \<open>_finding\<close> of the three check modules: the reference of a check is looked up in the module's
  \<open>SPEC_REFS\<close>, so an id the table lacks raises.
\<close>

definition key_error :: "string \<Rightarrow> py_exc" where
  "key_error k = PyExc ''KeyError'' (repr_str k)"

definition ref_finding ::
  "(string \<times> string) list \<Rightarrow> string \<Rightarrow> verdict \<Rightarrow> string \<Rightarrow> int list \<Rightarrow> finding py" where
  "ref_finding refs check_id v msg frames = (case map_of refs check_id of
     None \<Rightarrow> Inl (key_error check_id)
   | Some ref \<Rightarrow> Inr \<lparr>fi_id = check_id, fi_verdict = v, fi_spec_ref = ref, fi_message = msg,
                      fi_evidence = MACHINE, fi_frames = frames\<rparr>)"

text \<open>
  The contract of a check's result: when it returns, it reports exactly the ids it stands for,
  in order, and every finding satisfies \<open>P\<close>. Two such \<open>P\<close>: a finding cites only frames it was
  given, and a failure cites at least one.
\<close>

definition reports :: "(finding \<Rightarrow> bool) \<Rightarrow> string list \<Rightarrow> finding list py \<Rightarrow> bool" where
  "reports P cids r \<longleftrightarrow> (\<forall>fs. r = Inr fs \<longrightarrow> map fi_id fs = cids \<and> list_all P fs)"

definition cites :: "int set \<Rightarrow> finding \<Rightarrow> bool" where
  "cites ids f \<longleftrightarrow> set (fi_frames f) \<subseteq> ids"

definition backed :: "finding \<Rightarrow> bool" where
  "backed f \<longleftrightarrow> (fi_verdict f = FAIL \<longrightarrow> fi_frames f \<noteq> [])"

lemma verdict_value_inj: "verdict_value v = verdict_value w \<longleftrightarrow> v = w"
  by (cases v; cases w) simp_all

lemma ref_finding_Inr_iff [py_simps]:
  "ref_finding refs c v msg frames = Inr f \<longleftrightarrow>
     (\<exists>ref. map_of refs c = Some ref \<and>
        f = \<lparr>fi_id = c, fi_verdict = v, fi_spec_ref = ref, fi_message = msg,
             fi_evidence = MACHINE, fi_frames = frames\<rparr>)"
  by (auto simp: ref_finding_def split: option.splits)

lemma ref_finding_known:
  "map_of refs c = Some ref \<Longrightarrow> ref_finding refs c v msg frames =
     Inr \<lparr>fi_id = c, fi_verdict = v, fi_spec_ref = ref, fi_message = msg,
          fi_evidence = MACHINE, fi_frames = frames\<rparr>"
  by (simp add: ref_finding_def)

lemma reportsI:
  "(\<And>fs. r = Inr fs \<Longrightarrow> map fi_id fs = cids \<and> list_all P fs) \<Longrightarrow> reports P cids r"
  by (simp add: reports_def)

lemma reports_Inl [simp]: "reports P cids (Inl e)"
  by (simp add: reports_def)

lemma reports_Inr [simp]: "reports P cids (Inr fs) \<longleftrightarrow> map fi_id fs = cids \<and> list_all P fs"
  by (simp add: reports_def)

lemma reports_bind:
  "(\<And>x. r = Inr x \<Longrightarrow> reports P cids (f x)) \<Longrightarrow> reports P cids (py_bind r f)"
  by (cases r) auto

lemma cites_simp [simp]:
  "cites ids \<lparr>fi_id = c, fi_verdict = v, fi_spec_ref = r, fi_message = m, fi_evidence = e,
              fi_frames = fr\<rparr> \<longleftrightarrow> set fr \<subseteq> ids"
  by (simp add: cites_def)

lemma backed_simp [simp]:
  "backed \<lparr>fi_id = c, fi_verdict = v, fi_spec_ref = r, fi_message = m, fi_evidence = e,
           fi_frames = fr\<rparr> \<longleftrightarrow> (v = FAIL \<longrightarrow> fr \<noteq> [])"
  by (simp add: backed_def)

end
