(* ===== verification/Recorder.thy ===== *)
theory Recorder
  imports Findings
begin

text \<open>
  \<open>validator/recorder.py\<close>: the frames, violations and events of a run, recorded in order and
  redacted as they are recorded. Decoding JSON text is the argument \<open>loads\<close> of the operations
  that need it; printing to the verbose stream and writing the log file are not modelled.
\<close>

section \<open>Recorded data\<close>

record recorded_frame =
  fr_id :: int
  fr_connection :: int
  fr_client_id :: "string option"
  fr_direction :: string
  fr_phase :: string
  fr_monotonic_us :: int
  fr_size :: int
  fr_message :: "pydict option"
  fr_binary_type :: "int option"
  fr_error :: "string option"

definition inbound :: "recorded_frame \<Rightarrow> bool" where
  "inbound f \<longleftrightarrow> fr_direction f = ''in''"

definition frame_type :: "recorded_frame \<Rightarrow> string option" where
  "frame_type f = (case fr_message f of None \<Rightarrow> None | Some m \<Rightarrow> str_of (dict_get ''type'' m))"

definition payload :: "recorded_frame \<Rightarrow> pydict option" where
  "payload f = (case fr_message f of None \<Rightarrow> None | Some m \<Rightarrow> dict_of (dict_get ''payload'' m))"

text \<open>\<open>frame.payload or {}\<close>, which the checks read everywhere.\<close>

definition payload_or :: "recorded_frame \<Rightarrow> pydict" where
  "payload_or f = (case payload f of None \<Rightarrow> [] | Some p \<Rightarrow> p)"

fun opt_str :: "string option \<Rightarrow> pyval" where
  "opt_str None = VNone"
| "opt_str (Some s) = VStr s"

definition frame_to_json :: "recorded_frame \<Rightarrow> pydict" where
  "frame_to_json f = [
     (''client_id'', opt_str (fr_client_id f)),
     (''connection'', VInt (fr_connection f)),
     (''direction'', VStr (fr_direction f)),
     (''id'', VInt (fr_id f)),
     (''monotonic_us'', VInt (fr_monotonic_us f)),
     (''phase'', VStr (fr_phase f)),
     (''size'', VInt (fr_size f))]
   @ (case fr_message f of None \<Rightarrow> [] | Some m \<Rightarrow> [(''message'', VDict m)])
   @ (case fr_binary_type f of None \<Rightarrow> [] | Some b \<Rightarrow> [(''binary_type'', VInt b)])
   @ (case fr_error f of None \<Rightarrow> [] | Some e \<Rightarrow> [(''error'', VStr e)])"

record recorded_noncompliance =
  nc_connection :: "int option"
  nc_client_id :: "string option"
  nc_reason :: string
  nc_monotonic_us :: int
  nc_after_frame :: "int option"

datatype event_kind = KEYED | CREDENTIAL_MISMATCH | CLOSED | PAIRING_FAILED

record recorded_event =
  ev_connection :: int
  ev_client_id :: string
  ev_kind :: event_kind
  ev_after_frame :: "int option"
  ev_psk_category :: "string option"
  ev_detail :: "string option"

text \<open>What aiosendspin hands to the observers; \<open>of_data\<close> is the frame's bytes.\<close>

record observed_frame =
  of_connection :: int
  of_client_id :: "string option"
  of_direction :: string
  of_phase :: string
  of_monotonic_us :: int
  of_data :: "nat list"
  of_error :: "string option"

record observed_noncompliance =
  on_connection :: "int option"
  on_client_id :: "string option"
  on_reason :: string
  on_monotonic_us :: int

record recorder =
  rc_frames :: "recorded_frame list"
  rc_noncompliance :: "recorded_noncompliance list"
  rc_events :: "recorded_event list"
  rc_tool_errors :: "string list"
  rc_secrets :: "string list"
  rc_changed :: bool

definition new_recorder :: recorder where
  "new_recorder = \<lparr>rc_frames = [], rc_noncompliance = [], rc_events = [], rc_tool_errors = [],
     rc_secrets = [], rc_changed = False\<rparr>"

section \<open>Redaction\<close>

definition REDACTED :: string where
  "REDACTED = ''<redacted>''"

definition is_secret_field :: "string \<Rightarrow> bool" where
  "is_secret_field key \<longleftrightarrow> key \<in> set [''long_term_psk'', ''wrapped_psk'', ''wrapped_nonce_B''] \<or>
     starts_with key ''pake_msg_'' \<or> ends_with key ''_kc''"

definition length_marker :: "nat \<Rightarrow> string" where
  "length_marker n = ''<redacted:'' @ nat_str n @ ''>''"

fun redact_field :: "pyval \<Rightarrow> string" where
  "redact_field (VStr s) = length_marker (length s)"
| "redact_field _ = REDACTED"

text \<open>Longest first; the order of the secrets of one length is that of the set's iteration.\<close>

definition longest_first :: "string list \<Rightarrow> string list" where
  "longest_first secrets = sort_key (\<lambda>s. - int (length s)) secrets"

definition redact_text :: "string list \<Rightarrow> string \<Rightarrow> string" where
  "redact_text secrets text =
     foldl (\<lambda>t secret. py_replace secret REDACTED t) text (longest_first secrets)"

fun redact :: "string list \<Rightarrow> pyval \<Rightarrow> pyval"
  and redact_items :: "string list \<Rightarrow> pyval list \<Rightarrow> pyval list"
  and redact_pairs :: "string list \<Rightarrow> pydict \<Rightarrow> pydict" where
  "redact S (VDict d) = VDict (redact_pairs S d)"
| "redact S (VList xs) = VList (redact_items S xs)"
| "redact S (VStr s) = VStr (redact_text S s)"
| "redact S v = v"
| "redact_items S [] = []"
| "redact_items S (x # xs) = redact S x # redact_items S xs"
| "redact_pairs S [] = []"
| "redact_pairs S ((k, v) # d) =
     (k, if is_secret_field k then VStr (redact_field v) else redact S v) # redact_pairs S d"

text \<open>
  The length a redacted secret field keeps. \<open>int()\<close> refuses more than 4300 digits.
\<close>

definition redacted_length :: "pyval \<Rightarrow> nat option py" where
  "redacted_length v = (case v of
     VStr s \<Rightarrow>
       (let ds = drop 10 (take (length s - 1) s) in
        if s = ''<redacted:'' @ ds @ ''>'' \<and> ds \<noteq> [] \<and> list_all is_digit ds
        then (if length ds > 4300
              then Inl (PyExc ''ValueError'' (''Exceeds the limit (4300 digits) for integer string conversion: value has '' @ nat_str (length ds) @ '' digits; use sys.set_int_max_str_digits() to increase the limit''))
              else Inr (Some (parse_nat ds)))
        else Inr None)
   | _ \<Rightarrow> Inr None)"

section \<open>Observers\<close>

definition add_secret :: "string \<Rightarrow> recorder \<Rightarrow> recorder" where
  "add_secret secret r = (if secret = [] then r
     else r\<lparr>rc_secrets := List.insert secret (rc_secrets r)\<rparr>)"

definition notify :: "recorder \<Rightarrow> recorder" where
  "notify r = r\<lparr>rc_changed := True\<rparr>"

text \<open>One turn of \<open>wait_until\<close>: \<open>None\<close> when it returns, else the state it waits in.\<close>

definition wait_until_turn :: "(recorder \<Rightarrow> bool) \<Rightarrow> recorder \<Rightarrow> recorder option" where
  "wait_until_turn condition r = (if condition r then None else Some (r\<lparr>rc_changed := False\<rparr>))"

definition last_frame :: "recorder \<Rightarrow> int option \<Rightarrow> int option" where
  "last_frame r connection =
     map_option fr_id (find (\<lambda>f. Some (fr_connection f) = connection) (rev (rc_frames r)))"

definition json_message_byte :: nat where
  "json_message_byte = 0"

text \<open>
  \<open>loads\<close> stands for \<open>json.loads(text.decode("utf-8"))\<close>: the value, or the exception it raises.
  The two exceptions the code catches make an undecoded frame; any other escapes.
\<close>

definition decode :: "(nat list \<Rightarrow> pyval py) \<Rightarrow> recorder \<Rightarrow> observed_frame \<Rightarrow> recorded_frame py" where
  "decode loads r f = (
     let base = \<lparr>fr_id = int (length (rc_frames r)) + 1, fr_connection = of_connection f,
                 fr_client_id = of_client_id f, fr_direction = of_direction f,
                 fr_phase = of_phase f, fr_monotonic_us = of_monotonic_us f,
                 fr_size = int (length (of_data f)), fr_message = None, fr_binary_type = None,
                 fr_error = None\<rparr>;
         parse = (\<lambda>text. case loads text of
            Inl e \<Rightarrow>
              if exc_name e \<in> set [''UnicodeDecodeError'', ''JSONDecodeError'']
              then Inr (base\<lparr>fr_error := Some (''not a JSON message: '' @ exc_text e)\<rparr>)
              else Inl e
          | Inr (VDict d) \<Rightarrow> Inr (base\<lparr>fr_message := Some (redact_pairs (rc_secrets r) d)\<rparr>)
          | Inr _ \<Rightarrow> Inr (base\<lparr>fr_error := Some ''not a JSON object''\<rparr>))
     in case of_error f of
          Some err \<Rightarrow> Inr (base\<lparr>fr_error := Some (redact_text (rc_secrets r) err)\<rparr>)
        | None \<Rightarrow>
            if of_phase f = ''cleartext'' then parse (of_data f)
            else (case of_data f of
                    [] \<Rightarrow> Inr base
                  | b # rest \<Rightarrow>
                      if b = json_message_byte then parse rest
                      else Inr (base\<lparr>fr_binary_type := Some (int b)\<rparr>)))"

definition observe_frame ::
  "(nat list \<Rightarrow> pyval py) \<Rightarrow> observed_frame \<Rightarrow> recorder \<Rightarrow> recorder" where
  "observe_frame loads f r0 = (
     let r = r0\<lparr>rc_changed := True\<rparr> in
     case decode loads r f of
       Inl e \<Rightarrow> r\<lparr>rc_tool_errors := rc_tool_errors r @
         [''could not record frame '' @ nat_str (length (rc_frames r) + 1) @ '' on connection ''
          @ int_str (of_connection f) @ '': '' @ exc_name e @ '': '' @ exc_text e]\<rparr>
     | Inr recorded \<Rightarrow> r\<lparr>rc_frames := rc_frames r @ [recorded]\<rparr>)"

definition observe_noncompliance :: "observed_noncompliance \<Rightarrow> recorder \<Rightarrow> recorder" where
  "observe_noncompliance o' r0 = (
     let r = r0\<lparr>rc_changed := True\<rparr> in
     r\<lparr>rc_noncompliance := rc_noncompliance r @
        [\<lparr>nc_connection = on_connection o', nc_client_id = on_client_id o',
          nc_reason = redact_text (rc_secrets r) (on_reason o'),
          nc_monotonic_us = on_monotonic_us o',
          nc_after_frame = last_frame r (on_connection o')\<rparr>]\<rparr>)"

definition observe_event ::
  "int \<Rightarrow> string \<Rightarrow> event_kind \<Rightarrow> string option \<Rightarrow> string option \<Rightarrow> recorder \<Rightarrow> recorder" where
  "observe_event connection client_id kind psk_category detail r0 = (
     let r = r0\<lparr>rc_changed := True\<rparr> in
     r\<lparr>rc_events := rc_events r @
        [\<lparr>ev_connection = connection, ev_client_id = client_id, ev_kind = kind,
          ev_after_frame = last_frame r (Some connection), ev_psk_category = psk_category,
          ev_detail = map_option (redact_text (rc_secrets r)) detail\<rparr>]\<rparr>)"


section \<open>A run of the recorder\<close>

datatype recorder_op =
    ObserveFrame observed_frame
  | ObserveNoncompliance observed_noncompliance
  | ObserveEvent int string event_kind "string option" "string option"
  | AddSecret string
  | Notify

fun apply_op :: "(nat list \<Rightarrow> pyval py) \<Rightarrow> recorder_op \<Rightarrow> recorder \<Rightarrow> recorder" where
  "apply_op loads (ObserveFrame f) r = observe_frame loads f r"
| "apply_op loads (ObserveNoncompliance o') r = observe_noncompliance o' r"
| "apply_op loads (ObserveEvent c i k p d) r = observe_event c i k p d r"
| "apply_op loads (AddSecret s) r = add_secret s r"
| "apply_op loads Notify r = notify r"

definition run_recorder :: "(nat list \<Rightarrow> pyval py) \<Rightarrow> recorder_op list \<Rightarrow> recorder \<Rightarrow> recorder" where
  "run_recorder loads ops r = fold (apply_op loads) ops r"

text \<open>An append-only log: an operation never rewrites or drops what was recorded.\<close>

locale append_log =
  fixes entries :: "'s \<Rightarrow> 'e list" and step :: "'op \<Rightarrow> 's \<Rightarrow> 's"
  assumes appends: "prefix (entries s) (entries (step x s))"
begin

lemma run_keeps: "prefix (entries s) (entries (fold step xs s))"
proof (induction xs arbitrary: s)
  case Nil
  show ?case by simp
next
  case (Cons x xs)
  have "prefix (entries (step x s)) (entries (fold step xs (step x s)))" by (rule Cons.IH)
  with appends [of s x] show ?case by (simp add: prefix_order.trans)
qed

lemma run_keeps_nth: "i < length (entries s) \<Longrightarrow> entries (fold step xs s) ! i = entries s ! i"
  by (metis run_keeps nth_append prefix_def)

end

text \<open>A log whose entries are numbered from 1 in recording order.\<close>

locale numbered_log = append_log entries step
  for entries :: "'s \<Rightarrow> 'e list" and step :: "'op \<Rightarrow> 's \<Rightarrow> 's" +
  fixes number :: "'e \<Rightarrow> int"
  assumes numbers: "entries (step x s) = entries s \<or>
    (\<exists>e. entries (step x s) = entries s @ [e] \<and> number e = int (length (entries s)) + 1)"
begin

definition numbered :: "'s \<Rightarrow> bool" where
  "numbered s \<longleftrightarrow> map number (entries s) = map int [1..<Suc (length (entries s))]"

lemma step_numbered: "numbered s \<Longrightarrow> numbered (step x s)"
  using numbers [of x s] by (auto simp: numbered_def)

lemma run_numbered: "numbered s \<Longrightarrow> numbered (fold step xs s)"
  by (induction xs arbitrary: s) (simp_all add: step_numbered)

lemma numbered_sorted: "numbered s \<Longrightarrow> sorted_wrt (<) (map number (entries s))"
  by (simp add: numbered_def sorted_wrt_map del: upt_Suc)

end

lemma observe_frame_frames:
  "rc_frames (observe_frame loads f r) = rc_frames r \<or>
   (\<exists>e. rc_frames (observe_frame loads f r) = rc_frames r @ [e] \<and>
        fr_id e = int (length (rc_frames r)) + 1)"
  by (auto simp: observe_frame_def decode_def Let_def
      split: sum.splits option.splits list.splits if_splits pyval.splits)

lemma apply_op_frames:
  "rc_frames (apply_op loads x r) = rc_frames r \<or>
   (\<exists>e. rc_frames (apply_op loads x r) = rc_frames r @ [e] \<and>
        fr_id e = int (length (rc_frames r)) + 1)"
proof (cases x)
  case (ObserveFrame f)
  then show ?thesis using observe_frame_frames [of loads f r] by simp
qed (auto simp: observe_noncompliance_def observe_event_def add_secret_def notify_def Let_def)

lemma observe_frame_others [simp]:
  "rc_events (observe_frame loads f r) = rc_events r"
  "rc_noncompliance (observe_frame loads f r) = rc_noncompliance r"
  "rc_secrets (observe_frame loads f r) = rc_secrets r"
  by (auto simp: observe_frame_def Let_def split: sum.splits)

interpretation frame_log: numbered_log rc_frames "apply_op loads" fr_id for loads
proof
  fix s x
  show "prefix (rc_frames s) (rc_frames (apply_op loads x s))"
    using apply_op_frames [of loads x s] by auto
  show "rc_frames (apply_op loads x s) = rc_frames s \<or>
    (\<exists>e. rc_frames (apply_op loads x s) = rc_frames s @ [e] \<and>
         fr_id e = int (length (rc_frames s)) + 1)"
    by (rule apply_op_frames)
qed

interpretation event_log: append_log rc_events "apply_op loads" for loads
proof
  fix s x
  show "prefix (rc_events s) (rc_events (apply_op loads x s))"
    by (cases x) (auto simp: observe_noncompliance_def observe_event_def add_secret_def notify_def Let_def)
qed

interpretation violation_log: append_log rc_noncompliance "apply_op loads" for loads
proof
  fix s x
  show "prefix (rc_noncompliance s) (rc_noncompliance (apply_op loads x s))"
    by (cases x) (auto simp: observe_noncompliance_def observe_event_def add_secret_def notify_def Let_def)
qed

section \<open>What redaction keeps secret\<close>

text \<open>Two values a peer cannot be told apart by: they differ only under secret fields, there in
  strings of one length or in non-strings.\<close>

fun same_public :: "pyval \<Rightarrow> pyval \<Rightarrow> bool"
  and same_public_items :: "pyval list \<Rightarrow> pyval list \<Rightarrow> bool"
  and same_public_pairs :: "pydict \<Rightarrow> pydict \<Rightarrow> bool" where
  "same_public (VDict d) w = (case w of VDict e \<Rightarrow> same_public_pairs d e | _ \<Rightarrow> False)"
| "same_public (VList xs) w = (case w of VList ys \<Rightarrow> same_public_items xs ys | _ \<Rightarrow> False)"
| "same_public v w = (v = w)"
| "same_public_items [] ys = (ys = [])"
| "same_public_items (x # xs) ys =
     (case ys of [] \<Rightarrow> False | y # zs \<Rightarrow> same_public x y \<and> same_public_items xs zs)"
| "same_public_pairs [] e = (e = [])"
| "same_public_pairs ((k, v) # d) e = (case e of [] \<Rightarrow> False | (k', w) # e' \<Rightarrow>
     k = k' \<and> (if is_secret_field k then redact_field v = redact_field w else same_public v w)
     \<and> same_public_pairs d e')"

lemma redact_same_public:
  "same_public v w \<Longrightarrow> redact S v = redact S w"
  "same_public_items xs ys \<Longrightarrow> redact_items S xs = redact_items S ys"
  "same_public_pairs d e \<Longrightarrow> redact_pairs S d = redact_pairs S e"
  by (induction v w and xs ys and d e rule: same_public_same_public_items_same_public_pairs.induct)
    (auto split: pyval.splits list.splits if_splits)

lemma redact_field_eq: "length s = length t \<Longrightarrow> redact_field (VStr s) = redact_field (VStr t)"
  by simp

lemma drop_take_marker:
  "drop 10 (take (length (length_marker n) - 1) (length_marker n)) = nat_str n"
  by (simp add: length_marker_def)

lemma redacted_length_marker:
  "length (nat_str n) \<le> 4300 \<Longrightarrow> redacted_length (VStr (length_marker n)) = Inr (Some n)"
  using drop_take_marker [of n]
  by (simp add: redacted_length_def Let_def nat_str_nonempty nat_str_digits parse_nat_str
      del: One_nat_def) (simp add: length_marker_def)

text \<open>
  A secret whose occurrences the replacement text cannot make up: it has no angle bracket and is no part
  of the word between them. A code, a token and a key in base64 are such secrets.
\<close>

definition clean_secret :: "string \<Rightarrow> bool" where
  "clean_secret s \<longleftrightarrow> s \<noteq> [] \<and> CHR ''<'' \<notin> set s \<and> CHR ''>'' \<notin> set s \<and> \<not> contains s ''redacted''"

lemma contains_append: "contains p t \<Longrightarrow> contains p (s @ t)"
  by (induction s) auto

lemma contains_drop: "contains p (drop n t) \<Longrightarrow> contains p t"
  by (metis append_take_drop_id contains_append)

lemma contains_split:
  "p \<noteq> [] \<Longrightarrow> c \<notin> set p \<Longrightarrow> contains p (xs @ c # t) \<Longrightarrow> contains p xs \<or> contains p t"
proof (induction xs)
  case Nil
  then have "take (length p) (c # t) \<noteq> p" by (cases p) auto
  with Nil.prems(3) show ?case by simp
next
  case (Cons x xs)
  show ?case
  proof (cases "take (length p) (x # xs @ c # t) = p")
    case True
    have "length p \<le> length (x # xs)"
    proof (rule ccontr)
      assume "\<not> length p \<le> length (x # xs)"
      then have "c \<in> set (take (length p - length (x # xs)) (c # t))" by (cases "length p - length (x # xs)") auto
      then have "c \<in> set (take (length p) ((x # xs) @ c # t))" by (simp only: take_append set_append Un_iff simp_thms)
      with True Cons.prems(2) show False by simp
    qed
    with True have "take (length p) (x # xs) = p" by (simp add: take_append [of _ "x # xs", simplified])
    then show ?thesis by simp
  next
    case False
    with Cons.prems(3) have "contains p (xs @ c # t)" by simp
    then show ?thesis using Cons.IH [OF Cons.prems(1,2)] by auto
  qed
qed

lemma contains_after_clean:
  assumes "clean_secret p" and "contains p (REDACTED @ t)"
  shows "contains p t"
proof -
  note p = assms(1) [unfolded clean_secret_def]
  have "contains p ([] @ CHR ''<'' # ''redacted'' @ CHR ''>'' # t)" using assms(2) by (simp add: REDACTED_def)
  then have "contains p (''redacted'' @ CHR ''>'' # t)" using contains_split p by (metis contains.simps(1))
  then show ?thesis using contains_split p by metis
qed

lemma prefix_before_replace:
  "s \<noteq> [] \<Longrightarrow> CHR ''<'' \<notin> set p \<Longrightarrow>
   take (length p) (py_replace s REDACTED t) = p \<Longrightarrow> take (length p) t = p"
proof (induction s REDACTED t arbitrary: p rule: py_replace.induct)
  case (1 old)
  then show ?case by auto
next
  case (2 old c cs)
  show ?case
  proof (cases p)
    case Nil
    then show ?thesis by simp
  next
    case (Cons a p')
    show ?thesis
    proof (cases "take (length old) (c # cs) = old")
      case True
      with 2 Cons have "a = hd REDACTED" by (auto simp: REDACTED_def)
      with 2 Cons show ?thesis by (simp add: REDACTED_def)
    next
      case False
      with 2 Cons have "a = c" "take (length p') (py_replace old REDACTED cs) = p'" by auto
      with 2 Cons False have "take (length p') cs = p'" by simp
      with Cons \<open>a = c\<close> show ?thesis by simp
    qed
  qed
qed

lemma contains_before_replace:
  "s \<noteq> [] \<Longrightarrow> clean_secret p \<Longrightarrow> contains p (py_replace s REDACTED t) \<Longrightarrow> contains p t"
proof (induction s REDACTED t rule: py_replace.induct)
  case (1 old)
  then show ?case by auto
next
  case (2 old c cs)
  show ?case
  proof (cases "take (length old) (c # cs) = old")
    case True
    with 2 have "contains p (py_replace old REDACTED (drop (length old) (c # cs)))"
      by (auto dest: contains_after_clean)
    with 2 True have "contains p (drop (length old) (c # cs))" by blast
    then show ?thesis by (rule contains_drop)
  next
    case False
    have eq: "py_replace old REDACTED (c # cs) = c # py_replace old REDACTED cs"
      using 2 False by simp
    show ?thesis
    proof (cases "take (length p) (py_replace old REDACTED (c # cs)) = p")
      case True
      with 2 have "take (length p) (c # cs) = p"
        by (metis clean_secret_def prefix_before_replace)
      then show ?thesis by simp
    next
      case no: False
      with 2 eq have "contains p (py_replace old REDACTED cs)" by simp
      with 2 False show ?thesis by simp
    qed
  qed
qed

lemma replaced_gone: "clean_secret s \<Longrightarrow> \<not> contains s (py_replace s REDACTED t)"
proof (induction s REDACTED t rule: py_replace.induct)
  case (1 old)
  then show ?case by (auto simp: clean_secret_def)
next
  case (2 old c cs)
  from 2 have ne: "old \<noteq> []" by (simp add: clean_secret_def)
  show ?case
  proof (cases "take (length old) (c # cs) = old")
    case True
    with 2 ne have "\<not> contains old (py_replace old REDACTED (drop (length old) (c # cs)))" by blast
    with 2 True ne show ?thesis
      by (auto dest: contains_after_clean)
  next
    case False
    have eq: "py_replace old REDACTED (c # cs) = c # py_replace old REDACTED cs"
      using ne False by simp
    with False 2 ne have "take (length old) (c # py_replace old REDACTED cs) \<noteq> old"
      by (metis clean_secret_def prefix_before_replace)
    with 2 ne False eq show ?thesis by simp
  qed
qed

lemma foldl_replace_gone:
  "(\<forall>s \<in> set ss. s \<noteq> []) \<Longrightarrow> clean_secret p \<Longrightarrow> p \<in> set ss \<or> \<not> contains p t \<Longrightarrow>
   \<not> contains p (foldl (\<lambda>t s. py_replace s REDACTED t) t ss)"
proof (induction ss arbitrary: t)
  case Nil
  then show ?case by simp
next
  case (Cons s ss)
  have "p \<in> set ss \<or> \<not> contains p (py_replace s REDACTED t)"
    using Cons.prems by (auto dest: replaced_gone contains_before_replace)
  with Cons show ?case by simp
qed

lemma redact_text_gone:
  "(\<forall>s \<in> set S. s \<noteq> []) \<Longrightarrow> clean_secret p \<Longrightarrow> p \<in> set S \<Longrightarrow> \<not> contains p (redact_text S t)"
  unfolding redact_text_def longest_first_def by (rule foldl_replace_gone) auto

text \<open>Every string value of a message, object keys left out.\<close>

fun string_values :: "pyval \<Rightarrow> string list"
  and item_strings :: "pyval list \<Rightarrow> string list"
  and pair_strings :: "pydict \<Rightarrow> string list" where
  "string_values (VStr s) = [s]"
| "string_values (VList xs) = item_strings xs"
| "string_values (VDict d) = pair_strings d"
| "string_values _ = []"
| "item_strings [] = []"
| "item_strings (x # xs) = string_values x @ item_strings xs"
| "pair_strings [] = []"
| "pair_strings ((k, v) # d) = string_values v @ pair_strings d"

lemma redact_field_cases: "redact_field v = REDACTED \<or> (\<exists>n. redact_field v = length_marker n)"
  by (cases v) auto

lemma redact_field_strings:
  "clean_secret p \<Longrightarrow> \<not> contains p (redact_field v) \<or> (\<exists>n. redact_field v = length_marker n)"
  using contains_after_clean [of p "[]"] redact_field_cases [of v]
  by (auto simp: clean_secret_def)

lemma redact_strings:
  assumes "\<forall>s \<in> set S. s \<noteq> []" and "clean_secret p" and "p \<in> set S"
  shows "\<forall>x \<in> set (string_values (redact S v)). \<not> contains p x \<or> (\<exists>n. x = length_marker n)"
    and "\<forall>x \<in> set (item_strings (redact_items S xs)). \<not> contains p x \<or> (\<exists>n. x = length_marker n)"
    and "\<forall>x \<in> set (pair_strings (redact_pairs S d)). \<not> contains p x \<or> (\<exists>n. x = length_marker n)"
  using assms
  by (induction S v and S xs and S d rule: redact_redact_items_redact_pairs.induct)
    (auto simp: redact_text_gone dest: redact_field_strings)

end
