(* ===== verification/Recorder_Facts.thy ===== *)
theory Recorder_Facts
  imports Recorder
begin

text \<open>
  What \<open>Recorder\<close> keeps secret over a whole run: a registered secret is in no message recorded
  afterwards, and two observations that differ only in secrets are recorded alike.
\<close>

section \<open>Secrets over a run\<close>

definition secrets_ok :: "recorder \<Rightarrow> bool" where
  "secrets_ok r \<longleftrightarrow> list_all (\<lambda>s. s \<noteq> []) (rc_secrets r)"

definition frame_strings :: "recorded_frame \<Rightarrow> string list" where
  "frame_strings f = (case fr_message f of None \<Rightarrow> [] | Some m \<Rightarrow> pair_strings m)"

text \<open>A string in which a registered secret can no longer be read.\<close>

definition shows_no :: "string \<Rightarrow> string \<Rightarrow> bool" where
  "shows_no p x \<longleftrightarrow> \<not> contains p x \<or> (\<exists>n. x = length_marker n)"

lemma apply_op_secrets:
  "set (rc_secrets r) \<subseteq> set (rc_secrets (apply_op loads x r))"
  "secrets_ok r \<Longrightarrow> secrets_ok (apply_op loads x r)"
  by (cases x; auto simp: secrets_ok_def list_all_iff observe_noncompliance_def observe_event_def
      add_secret_def notify_def Let_def)+

lemma decode_hides:
  assumes "secrets_ok r" and "clean_secret p" and "p \<in> set (rc_secrets r)" and "decode loads r f = Inr g"
  shows "list_all (shows_no p) (frame_strings g)"
proof -
  have s: "\<forall>s \<in> set (rc_secrets r). s \<noteq> []" using assms(1) by (simp add: secrets_ok_def list_all_iff)
  show ?thesis
    using assms(4) redact_strings(3) [OF s assms(2,3)]
    by (auto simp: decode_def Let_def frame_strings_def list_all_iff shows_no_def
        split: option.splits if_splits sum.splits pyval.splits list.splits)
qed

text \<open>
  What was recorded between two states of a recorder shows nothing of \<open>p\<close>: no string value of a message, no
  reason of a violation and no detail of an event. Object keys are recorded as they are.
\<close>

definition detail_without :: "string \<Rightarrow> recorded_event \<Rightarrow> bool" where
  "detail_without p e \<longleftrightarrow> (case ev_detail e of None \<Rightarrow> True | Some d \<Rightarrow> \<not> contains p d)"

definition hidden_between :: "string \<Rightarrow> recorder \<Rightarrow> recorder \<Rightarrow> bool" where
  "hidden_between p r r' \<longleftrightarrow> (\<exists>frames violations events.
     rc_frames r' = rc_frames r @ frames \<and> rc_noncompliance r' = rc_noncompliance r @ violations
     \<and> rc_events r' = rc_events r @ events
     \<and> list_all (\<lambda>f. list_all (shows_no p) (frame_strings f)) frames
     \<and> list_all (\<lambda>v. \<not> contains p (nc_reason v)) violations \<and> list_all (detail_without p) events)"

lemma hidden_refl: "rc_frames r' = rc_frames r \<Longrightarrow> rc_noncompliance r' = rc_noncompliance r \<Longrightarrow> rc_events r' = rc_events r \<Longrightarrow>
   hidden_between p r r'"
  by (simp add: hidden_between_def)

lemma hidden_trans: "hidden_between p r r' \<Longrightarrow> hidden_between p r' r'' \<Longrightarrow> hidden_between p r r''"
  unfolding hidden_between_def
proof (elim exE conjE)
  fix fs vs es fs' vs' es'
  assume "rc_frames r' = rc_frames r @ fs" "rc_noncompliance r' = rc_noncompliance r @ vs" "rc_events r' = rc_events r @ es"
    "rc_frames r'' = rc_frames r' @ fs'" "rc_noncompliance r'' = rc_noncompliance r' @ vs'" "rc_events r'' = rc_events r' @ es'"
    "list_all (\<lambda>f. list_all (shows_no p) (frame_strings f)) fs" "list_all (\<lambda>f. list_all (shows_no p) (frame_strings f)) fs'"
    "list_all (\<lambda>v. \<not> contains p (nc_reason v)) vs" "list_all (\<lambda>v. \<not> contains p (nc_reason v)) vs'"
    "list_all (detail_without p) es" "list_all (detail_without p) es'"
  then show "\<exists>fs vs es. rc_frames r'' = rc_frames r @ fs \<and> rc_noncompliance r'' = rc_noncompliance r @ vs
     \<and> rc_events r'' = rc_events r @ es \<and> list_all (\<lambda>f. list_all (shows_no p) (frame_strings f)) fs
     \<and> list_all (\<lambda>v. \<not> contains p (nc_reason v)) vs \<and> list_all (detail_without p) es"
    by (intro exI [of _ "fs @ fs'"] exI [of _ "vs @ vs'"] exI [of _ "es @ es'"]) simp
qed

lemma apply_op_hides:
  assumes "secrets_ok r" and "clean_secret p" and "p \<in> set (rc_secrets r)"
  shows "hidden_between p r (apply_op loads x r)"
proof -
  have s: "\<forall>s \<in> set (rc_secrets r). s \<noteq> []" using assms(1) by (simp add: secrets_ok_def list_all_iff)
  note gone = redact_text_gone [OF s assms(2,3)]
  show ?thesis
  proof (cases x)
    case (ObserveFrame f)
    have "secrets_ok (r\<lparr>rc_changed := True\<rparr>)" "p \<in> set (rc_secrets (r\<lparr>rc_changed := True\<rparr>))"
      using assms by (simp_all add: secrets_ok_def)
    note hide = decode_hides [OF this(1) assms(2) this(2)]
    show ?thesis
      using hide [of loads f]
      by (auto simp: ObserveFrame observe_frame_def hidden_between_def Let_def split: sum.splits)
  next
    case (ObserveNoncompliance v)
    then show ?thesis by (simp add: observe_noncompliance_def hidden_between_def Let_def gone)
  next
    case (ObserveEvent n c k q d)
    then show ?thesis
      by (simp add: observe_event_def hidden_between_def detail_without_def Let_def gone split: option.split)
  qed (auto simp: add_secret_def notify_def intro: hidden_refl)
qed

lemma run_hides:
  "secrets_ok r \<Longrightarrow> clean_secret p \<Longrightarrow> p \<in> set (rc_secrets r) \<Longrightarrow> hidden_between p r (run_recorder loads ops r)"
proof (induction ops arbitrary: r)
  case Nil
  then show ?case by (simp add: run_recorder_def hidden_refl)
next
  case (Cons x ops)
  have "secrets_ok (apply_op loads x r)" "p \<in> set (rc_secrets (apply_op loads x r))"
    using apply_op_secrets [where r = r] Cons.prems by blast+
  then have "hidden_between p (apply_op loads x r) (run_recorder loads (x # ops) r)"
    using Cons.IH Cons.prems(2) by (simp add: run_recorder_def)
  then show ?case using apply_op_hides Cons.prems by (blast intro: hidden_trans)
qed

lemma run_secrets_ok: "secrets_ok r \<Longrightarrow> secrets_ok (run_recorder loads ops r)"
  by (induction ops arbitrary: r) (simp_all add: run_recorder_def apply_op_secrets(2))

text \<open>Two observations of one size that differ only in secrets leave the same recorder.\<close>

lemma decode_same_public:
  assumes "of_error f = None" and "of_phase f = ''cleartext''"
    and "loads (of_data f) = Inr (VDict d)" and "loads bytes = Inr (VDict e)"
    and "length bytes = length (of_data f)" and "same_public_pairs d e"
  shows "observe_frame loads (f\<lparr>of_data := bytes\<rparr>) r = observe_frame loads f r"
  using assms redact_same_public(3) [OF assms(6)]
  by (simp add: observe_frame_def decode_def Let_def)

end
