(* ===== verification/Noncompliance_Refs.thy ===== *)
theory Noncompliance_Refs
  imports Py_Text
begin

text \<open>
  \<open>validator/noncompliance_refs.py\<close>: the table that cites the spec for each reason the strict
  server gives, and its lookup. The patterns use a small part of \<open>re\<close>: literal text, \<open>(.+)\<close>,
  a choice of literals, and one negative lookahead; \<open>fullmatch\<close> decides them by trying every
  split, as the backtracking matcher does.
\<close>

section \<open>Patterns\<close>

datatype ahead =
    ThenEnd string
  | ThenBoundary string

datatype pat =
    Lit string
  | AnyPlus
  | Alt "string list"
  | NotAhead "ahead list"

definition is_word_char :: "char \<Rightarrow> bool" where
  "is_word_char c \<longleftrightarrow> (let n = of_char c :: nat in
     (48 \<le> n \<and> n \<le> 57) \<or> (65 \<le> n \<and> n \<le> 90) \<or> n = 95 \<or> (97 \<le> n \<and> n \<le> 122)
     \<or> n \<in> {170, 178, 179, 181, 185, 186, 188, 189, 190}
     \<or> (192 \<le> n \<and> n \<noteq> 215 \<and> n \<noteq> 247))"

fun looks_at :: "ahead \<Rightarrow> string \<Rightarrow> bool" where
  "looks_at (ThenEnd l) s = (s = l)"
| "looks_at (ThenBoundary l) s =
     (starts_with s l \<and> (case drop (length l) s of [] \<Rightarrow> True | c # _ \<Rightarrow> \<not> is_word_char c))"

fun any_plus :: "(string \<Rightarrow> bool) \<Rightarrow> string \<Rightarrow> bool" where
  "any_plus k [] = False"
| "any_plus k (c # cs) = (c \<noteq> CHR 0x0A \<and> (k cs \<or> any_plus k cs))"

primrec fullmatch :: "pat list \<Rightarrow> string \<Rightarrow> bool" where
  "fullmatch [] = (\<lambda>s. s = [])"
| "fullmatch (p # ps) = (\<lambda>s. case p of
     Lit l \<Rightarrow> starts_with s l \<and> fullmatch ps (drop (length l) s)
   | AnyPlus \<Rightarrow> any_plus (fullmatch ps) s
   | Alt ls \<Rightarrow> list_ex (\<lambda>l. starts_with s l \<and> fullmatch ps (drop (length l) s)) ls
   | NotAhead las \<Rightarrow> \<not> list_ex (\<lambda>a. looks_at a s) las \<and> fullmatch ps s)"

section \<open>The table\<close>

definition refs_1 :: "(pat list \<times> string option) list" where
  "refs_1 = [
     ([AnyPlus, Lit '' sent '', Alt [''a boolean'', ''a number'', ''a string''], Lit ('' for '' @ sq), AnyPlus, Lit ''' instead of an integer''], Some ''messaging.md:24''),
     ([AnyPlus, Lit '' sent '', Alt [''a boolean'', ''a number'', ''a string''], Lit '' instead of an integer''], Some ''messaging.md:24''),
     ([AnyPlus, Lit '' sent '', Alt [''a string'', ''an integer''], Lit ('' for '' @ sq), AnyPlus, Lit ''' instead of a boolean''], Some ''messaging.md:24''),
     ([AnyPlus, Lit '' sent '', Alt [''a string'', ''an integer''], Lit '' instead of a boolean''], Some ''messaging.md:24''),
     ([AnyPlus, Lit '' sent '', Alt [''an integer'', ''a number''], Lit ('' for '' @ sq), AnyPlus, Lit ''' instead of a string''], Some ''messaging.md:24''),
     ([AnyPlus, Lit '' sent '', Alt [''an integer'', ''a number''], Lit '' instead of a string''], Some ''messaging.md:24''),
     ([AnyPlus, Lit '' sent '', Alt [''an object''], Lit ('' for '' @ sq), AnyPlus, Lit ''' instead of an array''], Some ''messaging.md:24''),
     ([AnyPlus, Lit '' sent '', Alt [''an object''], Lit '' instead of an array''], Some ''messaging.md:24''),
     ([AnyPlus, Lit '' sent '', Alt [''null''], Lit ('' for '' @ sq), AnyPlus, Lit ''' instead of a value''], Some ''messaging.md:22''),
     ([AnyPlus, Lit '' sent '', Alt [''null''], Lit '' instead of a value''], Some ''messaging.md:22''),
     ([Lit ''Noise message 2 data is not canonical base64url''], Some ''messaging.md:164''),
     ([Lit ''Noise message 2 payload is not the literal bytes {}''], Some ''messaging.md:171''),
     ([Lit ''Pairing PSK client/pair-finalize sent without client/pair-init''], Some ''pairing.md:59''),
     ([Lit (''client-stream/start announced codec '' @ sq), Alt [''opus'', ''flac'', ''pcm''], Lit ''', which server/hello did not list''], Some ''roles/source/v1.md:20''),
     ([Lit ''client/hello artwork declared the removed 'bmp' format''], Some ''roles/artwork/v1.md:13''),
     ([Lit ''client/hello artwork used pre-rename dimension keys: '', AnyPlus], Some ''messaging.md:28, roles/artwork/v1.md:14-15''),
     ([Lit ''client/hello declared artwork@v1_support, superseded by the client/state artwork object''], Some ''messaging.md:28, roles/artwork/v1.md:10''),
     ([Lit ''client/hello declared player supported_commands, superseded by client/state''], Some ''messaging.md:28, roles/player/v1.md:50''),
     ([Lit ''client/hello declared visualizer stream configuration, superseded by client/state''], Some ''messaging.md:28, roles/visualizer/v1.md:19''),
     ([Lit ''client/hello did not offer the pairing_psk method''], Some ''messaging.md:219, pairing.md:309''),
     ([Lit ''client/hello listed roles not of the form role@version''], Some ''messaging.md:208''),
     ([Lit ''client/hello listed roles without their required support object, not activating: '', AnyPlus], Some ''messaging.md:216-218, messaging.md:225''),
     ([Lit ''client/hello offered qr_code without a display out_channel''], Some ''pairing.md:315''),
     ([Lit ''client/hello offered the pre-rename PIN pairing methods''], Some ''messaging.md:28, pairing.md:311, pairing.md:313, pairing.md:319''),
     ([Lit ''client/hello omitted the required supported_pair_methods''], Some ''messaging.md:219''),
     ([Lit ''client/hello omitted the required unpaired_access.enabled''], Some ''messaging.md:220-221''),
     ([Lit ''client/hello player@v1_support listed neither flac nor pcm''], Some ''roles/player/v1.md:20''),
     ([Lit ''client/hello sent a mac_address not in lowercase colon-separated form''], Some ''messaging.md:207''),
     ([Lit ''client/hello sent a malformed pair-method descriptor''], Some ''pairing.md:309-315''),
     ([Lit ''client/hello sent support objects for unlisted roles: '', AnyPlus], Some ''messaging.md:216-218''),
     ([Lit ''client/hello sent supported_pair_methods as a list''], Some ''messaging.md:219''),
     ([Lit ''client/hello sent the removed trust_level key''], Some ''messaging.md:28''),
     ([Lit ''client/hello used unversioned support keys: '', AnyPlus], Some ''messaging.md:223''),
     ([Lit ''client/init client_id is not canonical base64url''], Some ''messaging.md:145''),
     ([Lit ''client/pair-retry omitted the required payload object''], Some ''pairing.md:375''),
     ([Lit ''client/pair-retry sent a payload that is not an object''], Some ''pairing.md:375''),
     ([Lit ''client/state after server/activate has an active artwork role but no artwork state''], Some ''messaging.md:297''),
     ([Lit ''client/state after server/activate has an active player role but no player state''], Some ''messaging.md:297''),
     ([Lit ''client/state after server/activate has an active source role but no source state''], Some ''messaging.md:297''),
     ([Lit ''client/state after server/activate has an active visualizer role but no visualizer state''], Some ''messaging.md:297''),
     ([Lit ''client/state artwork declared the removed 'bmp' format''], Some ''roles/artwork/v1.md:13''),
     ([Lit ''client/state artwork used pre-rename dimension keys: '', AnyPlus], Some ''messaging.md:28, roles/artwork/v1.md:14-15''),
     ([Lit ''client/state declared the pre-rename 'set_static_delay' command''], Some ''roles/player/v1.md:50''),
     ([Lit ''client/state declared unrecognized supported_commands''], Some ''roles/player/v1.md:50''),
     ([Lit ''client/state omitted muted despite declaring the mute command''], Some ''roles/player/v1.md:46'')]"

definition refs_2 :: "(pat list \<times> string option) list" where
  "refs_2 = [
     ([Lit ''client/state omitted required player timing fields''], Some ''roles/player/v1.md:47-49''),
     ([Lit ''client/state omitted required supported_commands''], Some ''roles/player/v1.md:50''),
     ([Lit ''client/state omitted the required 'available' field''], Some ''messaging.md:301''),
     ([Lit ''client/state omitted volume despite declaring the volume command''], Some ''roles/player/v1.md:45''),
     ([Lit ''client/state preferred a format not in the client's declared supported_formats''], Some ''roles/player/v1.md:51''),
     ([Lit ''client/state reported available: false before client-stream/end''], Some ''roles/source/v1.md:73''),
     ([Lit ''client/state requested visualizer 'spectrum' without a spectrum configuration''], Some ''roles/visualizer/v1.md:28''),
     ([Lit ''client/state sent a non-positive visualizer rate_max''], Some ''roles/visualizer/v1.md:27''),
     ([Lit ''client/state source signal sent without line_sense support''], Some ''roles/source/v1.md:40''),
     ([Lit ''client/state used legacy player.state instead of top-level available''], Some ''messaging.md:28, messaging.md:303''),
     ([Lit ''client/state used the legacy top-level 'state' field''], Some ''messaging.md:28, messaging.md:303''),
     ([Lit ''client/state used the pre-rename 'static_delay_ms' key''], Some ''messaging.md:28, roles/player/v1.md:47''),
     ([Lit ''client/state visualizer types contained non-string entries''], Some ''roles/visualizer/v1.md:26''),
     ([Lit ''client dialed the server while advertising _sendspin._tcp''], Some ''connection.md:21''),
     ([Lit ''client sent client_stream/end, superseded by client-stream/end''], Some ''roles/source/v1.md:53''),
     ([Lit ''client sent client_stream/start, superseded by client-stream/start''], Some ''roles/source/v1.md:106''),
     ([Lit ''client-stream/start FLAC codec_header must contain STREAMINFO''], Some ''roles/source/v1.md:93''),
     ([Lit ''client-stream/start announced a pcm bit_depth that is not a whole number of bytes''], Some ''roles/source/v1.md:88''),
     ([Lit ''client-stream/start announced an unsupported bit_depth''], None),
     ([Lit ''client-stream/start announced an unsupported channels count''], None),
     ([Lit ''client-stream/start announced an unsupported sample_rate''], None),
     ([Lit ''client-stream/start codec_header is not valid Base64''], Some ''roles/source/v1.md:96''),
     ([Lit ''client-stream/start sent a codec_header for opus''], Some ''roles/source/v1.md:94''),
     ([Lit ''client-stream/start sent a codec_header for pcm''], Some ''roles/source/v1.md:92''),
     ([Lit ''client-stream/start sent without a preceding source start command''], Some ''roles/source/v1.md:63''),
     ([Lit ''client_kc is not canonical base64url''], Some ''pairing.md:381''),
     ([Lit ''commit_B is not canonical base64url''], Some ''pairing.md:341''),
     ([Lit ''connected unencrypted (transition mode)''], Some ''connection.md:66, messaging.md:16''),
     ([Lit ''did not send the '', Alt [''player'', ''source'', ''artwork'', ''visualizer''], Lit '' client/state object after server/activate in time''], Some ''messaging.md:297''),
     ([Lit ''did not send client/goodbye after server/unpair in time''], Some ''messaging.md:456''),
     ([Lit ''did not send the required initial client/state in time''], Some ''messaging.md:297, messaging.md:299''),
     ([Lit ''fragment used legacy binary message IDs 2/3''], Some ''messaging.md:76-77''),
     ([Lit ''initial client/state has an active artwork role but no artwork state''], Some ''messaging.md:297''),
     ([Lit ''initial client/state has an active player role but no player state''], Some ''messaging.md:297''),
     ([Lit ''initial client/state has an active source role but no source state''], Some ''messaging.md:297''),
     ([Lit ''initial client/state has an active visualizer role but no visualizer state''], Some ''messaging.md:297''),
     ([Lit ''initial client/state omitted the required 'available' field''], Some ''messaging.md:301''),
     ([Lit ''long_term_psk is not canonical base64url''], Some ''pairing.md:390''),
     ([Lit ''nonce_B is not canonical base64url''], Some ''messaging.md:28, pairing.md:382''),
     ([Lit ''pair/abort sent the pre-rename pin_mismatch reason''], Some ''pairing.md:403, pairing.md:407''),
     ([Lit ''pake_msg_2 is not canonical base64url''], Some ''pairing.md:361''),
     ([Lit ''sent '', Alt [''client/pair-auth'', ''client/pair-confirm'', ''client/pair-finalize'', ''client/pair-retry''], Lit '' before client/pair-init''], Some ''pairing.md:325''),
     ([Lit ''sent '', Alt [''client/pair-init'', ''client/pair-pending''], Lit '' with a pairing_index ahead of the server's count''], Some ''pairing.md:327''),
     ([Lit ''sent '', Alt [''client/pair-pending'', ''client/pair-init'', ''client/pair-finalize'', ''client/pair-auth'', ''client/pair-confirm'', ''client/pair-retry'', ''pair/abort''], Lit '' before any pairing server/activate''], Some ''pairing.md:325''),
     ([Lit ''sent a malformed '', NotAhead [ThenEnd ''client/state'', ThenBoundary ''client/command''], AnyPlus], Some ''messaging.md:24''),
     ([Lit ''sent a controller command the server did not offer''], Some ''roles/controller/v1.md:13''),
     ([Lit ''sent a malformed client/command controller object''], Some ''roles/controller/v1.md:12-17''),
     ([Lit ''sent a malformed client/state''], Some ''messaging.md:303-309'')]"

definition refs_3 :: "(pat list \<times> string option) list" where
  "refs_3 = [
     ([Lit ''sent a message before the first server/activate''], Some ''messaging.md:14''),
     ([Lit ''sent a message before the server/activate that follows a re-handshake''], Some ''connection.md:153''),
     ([Lit ''sent a message that is not a valid message envelope''], Some ''messaging.md:24''),
     ([Lit ''sent a message without a payload object''], Some ''messaging.md:24''),
     ([Lit ''sent a pcm source audio chunk that is not a whole number of frames''], Some ''roles/source/v1.md:92''),
     ([Lit ''sent a second client/hello after the hello exchange''], Some ''messaging.md:198''),
     ([Lit ''sent a server-to-client binary message type''], Some ''messaging.md:36''),
     ([Lit ''sent a server-to-client message''], Some ''messaging.md:26''),
     ([Lit ''sent a source audio chunk longer than 150 ms''], Some ''roles/source/v1.md:114''),
     ([Lit ''sent a source audio chunk shorter than its header''], Some ''roles/source/v1.md:108-109''),
     ([Lit ''sent a source audio chunk that failed to decode''], Some ''roles/source/v1.md:90''),
     ([Lit ''sent a stream/request-format artwork object, superseded by the client/state artwork object''], Some ''roles/artwork/v1.md:11''),
     ([Lit ''sent a stream/request-format player object, superseded by the client/state player format''], Some ''roles/player/v1.md:51''),
     ([Lit ''sent a stream/request-format visualizer object, superseded by the client/state visualizer object''], Some ''roles/visualizer/v1.md:19''),
     ([Lit ''sent a stream/request-format without a role object''], None),
     ([Lit ''sent an empty flac or opus source audio chunk''], Some ''roles/source/v1.md:93-94''),
     ([Lit ''sent an unsolicited management/result''], None),
     ([Lit ''sent client/init after the connection was established''], Some ''messaging.md:143''),
     ([Lit ''sent client/pair-retry past the pairing round limit''], Some ''pairing.md:185''),
     ([Lit ''sent management/result (deprecated management activity)''], None),
     ([Lit ''sent noise/handshake outside a re-handshake''], Some ''messaging.md:162, messaging.md:177''),
     ([Lit ''sent source audio while reporting available: false''], Some ''roles/source/v1.md:104''),
     ([Lit ''sent source audio without an open input stream''], Some ''roles/source/v1.md:104''),
     ([Lit ''stream/request-format artwork channel: format, width and height are required for source '', Alt [''album'', ''artist'']], Some ''roles/artwork/v1.md:13-15''),
     ([Lit ''stream/request-format artwork dimensions must be positive: '', Alt [''width'', ''height'', ''width, height'']], None),
     ([Lit ''stream/request-format artwork requested the removed 'bmp' format''], Some ''roles/artwork/v1.md:13''),
     ([Lit ''stream/request-format artwork used pre-rename dimension keys: '', AnyPlus], Some ''messaging.md:28, roles/artwork/v1.md:14-15''),
     ([Lit ''stream/request-format requested a format not in the client's declared supported_formats''], Some ''roles/player/v1.md:51''),
     ([Lit ''stream/request-format set buffer_capacity, not a visualizer field here''], Some ''messaging.md:28, roles/visualizer/v1.md:15''),
     ([Lit ''stream/request-format targeted an unknown artwork channel''], None),
     ([Lit ''stream/request-format visualizer fields must be positive: '', Alt [''rate_max'', ''buffer_capacity'', ''rate_max, buffer_capacity'']], Some ''roles/visualizer/v1.md:27''),
     ([Lit ''unencrypted client/hello omitted required version''], Some ''messaging.md:146''),
     ([Lit ''wrapped_nonce_B is not canonical base64url''], Some ''pairing.md:382''),
     ([Lit ''wrapped_psk is not canonical base64url''], Some ''pairing.md:391'')]"

definition noncompliance_refs :: "(pat list \<times> string option) list" where
  "noncompliance_refs = refs_1 @ refs_2 @ refs_3"

section \<open>Lookup\<close>

definition UnmappedReasonError :: "string \<Rightarrow> py_exc" where
  "UnmappedReasonError reason = PyExc ''UnmappedReasonError'' reason"

fun first_ref :: "(pat list \<times> string option) list \<Rightarrow> string \<Rightarrow> string option py" where
  "first_ref [] reason = Inl (UnmappedReasonError reason)"
| "first_ref ((pattern, ref) # rows) reason =
     (if fullmatch pattern reason then Inr ref else first_ref rows reason)"

definition spec_ref_for :: "string \<Rightarrow> string option py" where
  "spec_ref_for reason = first_ref noncompliance_refs reason"

section \<open>Facts\<close>

lemma any_plus_iff:
  "any_plus k s \<longleftrightarrow> (\<exists>a b. s = a @ b \<and> a \<noteq> [] \<and> CHR 0x0A \<notin> set a \<and> k b)"
proof (induction s)
  case Nil
  show ?case by simp
next
  case (Cons c cs)
  have "(\<exists>a b. c # cs = a @ b \<and> a \<noteq> [] \<and> CHR 0x0A \<notin> set a \<and> k b) \<longleftrightarrow>
        c \<noteq> CHR 0x0A \<and> (\<exists>a b. cs = a @ b \<and> CHR 0x0A \<notin> set a \<and> k b)" (is "?l \<longleftrightarrow> ?r")
  proof
    assume ?l
    then obtain a b where "c # cs = a @ b" "a \<noteq> []" "CHR 0x0A \<notin> set a" "k b" by blast
    then show ?r by (cases a) auto
  next
    assume ?r
    then obtain a b where "c \<noteq> CHR 0x0A" "cs = a @ b" "CHR 0x0A \<notin> set a" "k b" by blast
    then show ?l by (intro exI [of _ "c # a"] exI [of _ b]) auto
  qed
  moreover have "(\<exists>a b. cs = a @ b \<and> CHR 0x0A \<notin> set a \<and> k b) \<longleftrightarrow>
      k cs \<or> (\<exists>a b. cs = a @ b \<and> a \<noteq> [] \<and> CHR 0x0A \<notin> set a \<and> k b)"
    by (metis append_Nil list.set(1) empty_iff)
  ultimately show ?case using Cons.IH by simp
qed

lemma fullmatch_Lit [simp]:
  "fullmatch (Lit l # ps) s \<longleftrightarrow> starts_with s l \<and> fullmatch ps (drop (length l) s)"
  by simp

lemma fullmatch_AnyPlus [simp]: "fullmatch (AnyPlus # ps) s \<longleftrightarrow> any_plus (fullmatch ps) s"
  by simp

lemma fullmatch_Alt [simp]:
  "fullmatch (Alt ls # ps) s \<longleftrightarrow>
     list_ex (\<lambda>l. starts_with s l \<and> fullmatch ps (drop (length l) s)) ls"
  by simp

text \<open>A match of a pattern that ends in a literal ends in that literal.\<close>

lemma fullmatch_last_Lit: "fullmatch (ps @ [Lit l]) s \<Longrightarrow> \<exists>t. s = t @ l"
proof (induction ps arbitrary: s)
  case Nil
  then show ?case by (auto simp: starts_with_def)
next
  case (Cons p ps)
  have suffix: "\<exists>t. s = t @ l" if "\<exists>t. drop n s = t @ l" for n
    using that by (metis append.assoc append_take_drop_id)
  show ?case
  proof (cases p)
    case (Lit l')
    with Cons show ?thesis by (auto intro: suffix)
  next
    case AnyPlus
    with Cons.prems obtain a b where "s = a @ b" "fullmatch (ps @ [Lit l]) b"
      by (auto simp: any_plus_iff)
    with Cons.IH [of b] show ?thesis by auto
  next
    case (Alt ls)
    with Cons show ?thesis by (auto simp: list_ex_iff intro: suffix)
  next
    case (NotAhead las)
    with Cons show ?thesis by auto
  qed
qed

lemma first_ref_append:
  "first_ref (xs @ ys) reason =
     (if list_ex (\<lambda>row. fullmatch (fst row) reason) xs then first_ref xs reason
      else first_ref ys reason)"
  by (induction xs) auto

lemma first_ref_Inr:
  "first_ref rows reason = Inr ref \<Longrightarrow>
     \<exists>pattern. (pattern, ref) \<in> set rows \<and> fullmatch pattern reason"
  by (induction rows) (auto split: if_splits)

lemma first_ref_Inl_iff:
  "first_ref rows reason = Inl e \<longleftrightarrow>
     e = UnmappedReasonError reason \<and> (\<forall>row \<in> set rows. \<not> fullmatch (fst row) reason)"
proof (induction rows)
  case Nil
  show ?case by auto
next
  case (Cons row rows)
  then show ?case by (cases row; cases "fullmatch (fst row) reason") auto
qed

definition ends_in :: "pat list \<Rightarrow> char option" where
  "ends_in ps = (if ps = [] then None
     else case last ps of Lit l \<Rightarrow> (if l = [] then None else Some (last l)) | _ \<Rightarrow> None)"

lemma no_match_end: "ends_in ps = Some c \<Longrightarrow> last s \<noteq> c \<Longrightarrow> \<not> fullmatch ps s"
proof
  assume "ends_in ps = Some c" "last s \<noteq> c" "fullmatch ps s"
  then obtain l where "ps = butlast ps @ [Lit l]" "l \<noteq> []" "last l = c"
    unfolding ends_in_def
    by (cases "last ps") (auto split: if_splits, metis append_butlast_last_id)
  with \<open>fullmatch ps s\<close> \<open>last s \<noteq> c\<close> show False
    by (metis fullmatch_last_Lit last_appendR)
qed

end
