(* ===== verification/Checks.thy ===== *)
theory Checks
  imports Recorder Noncompliance_Refs
begin

text \<open>
  \<open>validator/checks.py\<close>: the machine checks over the frames of one recorded connection, the
  runner that applies them in order, and the session's verdict. A check that indexes, looks up or
  iterates what a client sent can raise, so every check returns a sum, and the runner turns an
  exception into a \<open>TOOL_ERROR\<close> finding.
\<close>

section \<open>Tables\<close>

definition CORE_REFS :: "(string \<times> string) list" where
  "CORE_REFS = [
     (''CORE-INIT-001'', ''messaging.md:5, messaging.md:16''),
     (''CORE-INIT-002'', ''messaging.md:145''),
     (''CORE-INIT-003'', ''messaging.md:146''),
     (''CORE-INIT-004'', ''messaging.md:147, connection.md:78-81''),
     (''CORE-INIT-005'', ''messaging.md:28, messaging.md:141-147''),
     (''CORE-NOISE-001'', ''messaging.md:171''),
     (''CORE-ORDER-001'', ''messaging.md:14''),
     (''CORE-HELLO-001'', ''messaging.md:11, messaging.md:198''),
     (''CORE-HELLO-002'', ''messaging.md:216-218, messaging.md:225''),
     (''CORE-HELLO-003'', ''template.md:124, template.md:146''),
     (''CORE-HELLO-004'', ''messaging.md:219, pairing.md:305-319''),
     (''CORE-HELLO-005'', ''messaging.md:220-221''),
     (''CORE-HELLO-006'', ''messaging.md:28, messaging.md:202-223''),
     (''CORE-HELLO-007'', ''connection.md:19''),
     (''CORE-STATE-001'', ''messaging.md:297-299''),
     (''CORE-STATE-002'', ''messaging.md:301-303''),
     (''CORE-STATE-003'', ''messaging.md:306-309, template.md:134''),
     (''CORE-TIME-001'', ''messaging.md:281'')]"

definition STRICT_CHECK_ID :: string where
  "STRICT_CHECK_ID = ''CORE-STRICT-001''"

definition RECORDER_CHECK_ID :: string where
  "RECORDER_CHECK_ID = ''CORE-RECORDER-001''"

definition NOISE_PAYLOAD_REASON :: string where
  "NOISE_PAYLOAD_REASON = ''Noise message 2 payload is not the literal bytes {}''"

definition SUITES :: "string list" where
  "SUITES = [''25519_ChaChaPoly_SHA256'', ''25519_AESGCM_SHA256'']"

definition SUPPORT_OBJECT_ROLES :: "string list" where
  "SUPPORT_OBJECT_ROLES = [''player@v1'', ''source@v1'', ''visualizer@v1'']"

definition STATE_OBJECT_ROLES :: "string list" where
  "STATE_OBJECT_ROLES = [''player'', ''source'', ''artwork'', ''visualizer'']"

definition HELLO_FIELDS :: "string list" where
  "HELLO_FIELDS = [''name'', ''device_info'', ''supported_roles'', ''supported_pair_methods'',
     ''unpaired_access'']"

definition DEVICE_INFO_FIELDS :: "string list" where
  "DEVICE_INFO_FIELDS = [''product_name'', ''manufacturer'', ''software_version'', ''mac_address'']"

definition CODE_PAIR_METHODS :: "string list" where
  "CODE_PAIR_METHODS = [''static_pairing_code'', ''dynamic_pairing_code'']"

definition PAIR_METHOD_FIELDS :: "(string \<times> string list) list" where
  "PAIR_METHOD_FIELDS = [
     (''pairing_psk'', [''locations'']),
     (''static_pairing_code'', [''locations'']),
     (''dynamic_pairing_code'', [''out_channels'', ''formats''])]"

text \<open>\<open>[A-Za-z0-9_-]{43}\<close> and \<open>[^@\s]+@[^@\s]+\<close>, as full matches.\<close>

definition is_base64url_char :: "char \<Rightarrow> bool" where
  "is_base64url_char c \<longleftrightarrow> is_ascii_upper c \<or> is_ascii_lower c \<or> is_digit c \<or> c \<in> set ''_-''"

definition match_client_id :: "string \<Rightarrow> bool" where
  "match_client_id s \<longleftrightarrow> length s = 43 \<and> list_all is_base64url_char s"

definition role_part :: "string \<Rightarrow> bool" where
  "role_part s \<longleftrightarrow> s \<noteq> [] \<and> list_all (\<lambda>c. c \<noteq> CHR ''@'' \<and> \<not> is_space c) s"

definition match_role :: "string \<Rightarrow> bool" where
  "match_role s \<longleftrightarrow> CHR ''@'' \<in> set s \<and> role_part (partition_head (CHR ''@'') s)
     \<and> role_part (partition_tail (CHR ''@'') s)"

definition SUPPORT_SUFFIX :: string where
  "SUPPORT_SUFFIX = ''_support''"

section \<open>Connection records\<close>

record connection_record =
  cr_number :: int
  cr_frames :: "recorded_frame list"
  cr_noncompliance :: "recorded_noncompliance list"
  cr_events :: "recorded_event list"

definition inbound_of :: "connection_record \<Rightarrow> string \<Rightarrow> string \<Rightarrow> recorded_frame list" where
  "inbound_of c message_type phase = filter
     (\<lambda>f. inbound f \<and> fr_phase f = phase \<and> frame_type f = Some message_type) (cr_frames c)"

definition outbound_of :: "connection_record \<Rightarrow> string \<Rightarrow> string \<Rightarrow> recorded_frame list" where
  "outbound_of c message_type phase = filter
     (\<lambda>f. \<not> inbound f \<and> fr_phase f = phase \<and> frame_type f = Some message_type) (cr_frames c)"

definition connection_of ::
  "int \<Rightarrow> recorded_frame list \<Rightarrow> recorded_noncompliance list \<Rightarrow> recorded_event list
   \<Rightarrow> connection_record" where
  "connection_of number frames noncompliance events =
     \<lparr>cr_number = number,
      cr_frames = filter (\<lambda>f. fr_connection f = number) frames,
      cr_noncompliance = filter (\<lambda>n. nc_connection n = Some number) noncompliance,
      cr_events = filter (\<lambda>e. ev_connection e = number) events\<rparr>"

definition rejected :: "connection_record \<Rightarrow> bool" where
  "rejected c \<longleftrightarrow> cr_noncompliance c \<noteq> []"

definition closed :: "connection_record \<Rightarrow> bool" where
  "closed c \<longleftrightarrow> list_ex (\<lambda>e. ev_kind e = CLOSED) (cr_events c)"

text \<open>\<open>next(iter(xs), None)\<close>.\<close>

definition first_of :: "'a list \<Rightarrow> 'a option" where
  "first_of xs = (case xs of [] \<Rightarrow> None | x # _ \<Rightarrow> Some x)"

type_synonym check = "connection_record \<Rightarrow> finding list py"

section \<open>Helpers\<close>

definition core_finding :: "string \<Rightarrow> verdict \<Rightarrow> string \<Rightarrow> recorded_frame list \<Rightarrow> finding py" where
  "core_finding check_id v msg frames = ref_finding CORE_REFS check_id v msg (map fr_id frames)"

definition one :: "finding py \<Rightarrow> finding list py" where
  "one f = collect [f]"

definition strict_finding :: "recorded_noncompliance \<Rightarrow> finding" where
  "strict_finding obs = (
     let frames = (case nc_after_frame obs of None \<Rightarrow> [] | Some i \<Rightarrow> [i]);
         mk = (\<lambda>v ref msg. \<lparr>fi_id = STRICT_CHECK_ID, fi_verdict = v, fi_spec_ref = ref,
                            fi_message = msg @ nc_reason obs, fi_evidence = MACHINE,
                            fi_frames = frames\<rparr>)
     in case spec_ref_for (nc_reason obs) of
          Inl _ \<Rightarrow> mk TOOL_ERROR ''-''
            ''aiosendspin rejected the client for a reason with no known spec reference: ''
        | Inr None \<Rightarrow> mk TOOL_ERROR ''-''
            ''aiosendspin rejected the client for something spec 1.0.0-rc1 does not forbid: ''
        | Inr (Some ref) \<Rightarrow> mk FAIL ref ''aiosendspin rejected the client: '')"

definition not_reached :: "string \<Rightarrow> finding py" where
  "not_reached check_id = core_finding check_id NOT_APPLICABLE
     ''not reached: the connection ended at an earlier failure'' []"

definition client_init :: "connection_record \<Rightarrow> recorded_frame option py" where
  "client_init c = (case cr_frames c of
     [] \<Rightarrow> Inl IndexError
   | f # _ \<Rightarrow> Inr (if inbound f \<and> fr_phase f = ''cleartext'' \<and> frame_type f = Some ''client/init''
                   then Some f else None))"

definition no_client_init :: "string \<Rightarrow> finding py" where
  "no_client_init check_id = core_finding check_id NOT_APPLICABLE ''no client/init to judge'' []"

definition judge_client_init ::
  "connection_record \<Rightarrow> string \<Rightarrow> (pydict \<Rightarrow> bool py) \<Rightarrow> string \<Rightarrow> (pydict \<Rightarrow> string)
   \<Rightarrow> finding list py" where
  "judge_client_init c check_id holds passed failed =
     py_bind (client_init c) (\<lambda>init. case init of
       None \<Rightarrow> one (no_client_init check_id)
     | Some f \<Rightarrow> py_bind (holds (payload_or f)) (\<lambda>ok.
         if ok then one (core_finding check_id PASS passed [f])
         else one (core_finding check_id FAIL (failed (payload_or f)) [f])))"

definition client_hello :: "connection_record \<Rightarrow> recorded_frame option" where
  "client_hello c = first_of (inbound_of c ''client/hello'' ''transport'')"

definition no_client_hello :: "string \<Rightarrow> finding py" where
  "no_client_hello check_id = core_finding check_id NOT_APPLICABLE ''no client/hello to judge'' []"

definition initial_state :: "connection_record \<Rightarrow> recorded_frame option" where
  "initial_state c = first_of (inbound_of c ''client/state'' ''transport'')"

text \<open>\<open>value or []\<close>, iterated, keeping the strings.\<close>

definition activated_roles :: "recorded_frame \<Rightarrow> string list py" where
  "activated_roles f = (
     let active = dict_get ''active_roles'' (payload_or f) in
     py_bind (iter_values (if truthy active then active else VList []))
       (\<lambda>vs. Inr (List.map_filter str_of vs)))"

definition active_roles :: "connection_record \<Rightarrow> recorded_frame option \<Rightarrow> string list py" where
  "active_roles c before = (
     let acts = takeWhile (\<lambda>a. case before of None \<Rightarrow> True | Some b \<Rightarrow> \<not> fr_id a > fr_id b)
                  (outbound_of c ''server/activate'' ''transport'')
     in py_bind (collect (map activated_roles acts)) (\<lambda>rs. Inr (concat rs)))"

definition roles_of :: "pydict \<Rightarrow> string list" where
  "roles_of p = (case dict_get ''supported_roles'' p of
     VList vs \<Rightarrow> List.map_filter str_of vs | _ \<Rightarrow> [])"

definition undefined_keys :: "pydict \<Rightarrow> string list \<Rightarrow> bool \<Rightarrow> string list" where
  "undefined_keys obj allowed custom =
     sort (filter (\<lambda>k. k \<notin> set allowed \<and> \<not> (custom \<and> starts_with k ''_'')) (dict_keys obj))"

definition kind_of :: "pyval \<Rightarrow> string" where
  "kind_of v = (if v = VNone then ''missing'' else ''a '' @ type_name v)"

definition what_is :: "recorded_frame \<Rightarrow> string" where
  "what_is f = (case frame_type f of
     Some t \<Rightarrow> t
   | None \<Rightarrow> (case fr_error f of
       Some e \<Rightarrow> ''a frame that did not decode: '' @ e
     | None \<Rightarrow> (case fr_binary_type f of
         Some b \<Rightarrow> ''a binary message of type '' @ int_str b
       | None \<Rightarrow> ''a JSON message without a type'')))"

definition method_fields :: "string \<Rightarrow> string list" where
  "method_fields method = (case map_of PAIR_METHOD_FIELDS method of None \<Rightarrow> [] | Some fs \<Rightarrow> fs)"

definition descriptor_field_problems :: "string \<Rightarrow> pydict \<Rightarrow> string \<Rightarrow> string list" where
  "descriptor_field_problems method descriptor field = (
     let required = (if method = ''dynamic_pairing_code'' then method_fields method else []) in
     if \<not> has_key field descriptor
     then (if field \<in> set required then [method @ ''.'' @ field @ '' is missing''] else [])
     else (case dict_get field descriptor of
             VList vs \<Rightarrow> if list_all is_str vs then []
                         else [method @ ''.'' @ field @ '' is not a list of strings'']
           | _ \<Rightarrow> [method @ ''.'' @ field @ '' is not a list of strings'']))"

definition dynamic_problems :: "string \<Rightarrow> pydict \<Rightarrow> string list" where
  "dynamic_problems method descriptor = (
     case dict_get ''formats'' descriptor of
       VList formats \<Rightarrow>
         (if formats = [] then [method @ ''.formats is empty''] else [])
         @ (if VStr ''qr_code'' \<in> set formats \<and>
               \<not> (case dict_get ''out_channels'' descriptor of
                    VList channels \<Rightarrow> VStr ''display'' \<in> set channels | _ \<Rightarrow> False)
            then [method @ '' offers qr_code without a display out_channel''] else [])
     | _ \<Rightarrow> [])"

definition descriptor_problems :: "string \<Rightarrow> pyval \<Rightarrow> string list" where
  "descriptor_problems method descriptor = (case descriptor of
     VDict d \<Rightarrow>
       map (\<lambda>key. method @ ''.'' @ key @ '' is not a defined descriptor field'')
         (undefined_keys d (method_fields method) False)
       @ concat (map (descriptor_field_problems method d) (sort (method_fields method)))
       @ (if method = ''dynamic_pairing_code'' then dynamic_problems method d else [])
   | _ \<Rightarrow> [method @ '' descriptor is '' @ kind_of descriptor @ '', not an object''])"

section \<open>The checks\<close>

definition check_opens_with_client_init :: check where
  "check_opens_with_client_init c = (case cr_frames c of
     [] \<Rightarrow> Inl IndexError
   | first # _ \<Rightarrow> py_bind (client_init c) (\<lambda>init.
       if init = None
       then one (core_finding ''CORE-INIT-001'' FAIL
              (''the client's first frame was not a client/init message ('' @ what_is first @ '')'')
              [first])
       else one (core_finding ''CORE-INIT-001'' PASS ''the client opened with client/init'' [first])))"

definition check_client_id :: check where
  "check_client_id c = judge_client_init c ''CORE-INIT-002''
     (\<lambda>p. Inr (case dict_get ''client_id'' p of VStr s \<Rightarrow> match_client_id s | _ \<Rightarrow> False))
     ''client_id is 43 characters of base64url without padding''
     (\<lambda>p. ''client_id '' @ py_repr (dict_get ''client_id'' p) @ '' is not 43 characters of ''
          @ ''base64url without padding'')"

definition check_init_version :: check where
  "check_init_version c = judge_client_init c ''CORE-INIT-003''
     (\<lambda>p. Inr (is_int (dict_get ''version'' p) \<and> eq_int (dict_get ''version'' p) 1))
     ''version is 1''
     (\<lambda>p. ''version is '' @ py_repr (dict_get ''version'' p) @ '', not the integer 1'')"

definition check_init_suite :: check where
  "check_init_suite c = judge_client_init c ''CORE-INIT-004''
     (\<lambda>p. in_str_set (dict_get ''suite'' p) SUITES)
     ''suite is a defined Noise suite''
     (\<lambda>p. ''suite '' @ py_repr (dict_get ''suite'' p) @ '' is not one of '' @ join '', '' (sort SUITES))"

definition check_init_fields :: check where
  "check_init_fields c = py_bind (client_init c) (\<lambda>init. case init of
     None \<Rightarrow> one (no_client_init ''CORE-INIT-005'')
   | Some f \<Rightarrow> (case fr_message f of
       None \<Rightarrow> Inl AssertionError
     | Some m \<Rightarrow>
         (let bad = undefined_keys m [''type'', ''payload''] False
                @ map (\<lambda>key. ''payload.'' @ key)
                    (undefined_keys (payload_or f) [''client_id'', ''version'', ''suite''] False)
          in if bad \<noteq> []
             then one (core_finding ''CORE-INIT-005'' FAIL
                    (''client/init carries undefined fields: '' @ join '', '' bad) [f])
             else one (core_finding ''CORE-INIT-005'' PASS ''client/init has no undefined fields'' [f]))))"

definition check_noise_message_2 :: check where
  "check_noise_message_2 c = (
     let rejection = find (\<lambda>n. nc_reason n = NOISE_PAYLOAD_REASON) (cr_noncompliance c) in
     case first_of (inbound_of c ''noise/handshake'' ''cleartext'') of
       None \<Rightarrow>
         if outbound_of c ''server/error'' ''cleartext'' \<noteq> []
         then one (core_finding ''CORE-NOISE-001'' NOT_APPLICABLE
                ''the validator answered the opening frame with server/error'' [])
         else one (core_finding ''CORE-NOISE-001'' TOOL_ERROR
                ''the client sent no Noise message 2, so its payload was not seen'' [])
     | Some message_2 \<Rightarrow> (case rejection of
         Some r \<Rightarrow> one (core_finding ''CORE-NOISE-001'' FAIL (nc_reason r) [message_2])
       | None \<Rightarrow>
           if list_ex (\<lambda>f. fr_phase f = ''transport'' \<and> \<not> inbound f) (cr_frames c)
           then one (core_finding ''CORE-NOISE-001'' PASS
                  ''Noise message 2 carried {} and the handshake completed'' [message_2])
           else one (core_finding ''CORE-NOISE-001'' TOOL_ERROR
                  ''the handshake ended after Noise message 2 for a reason the validator cannot see''
                  [message_2])))"

definition early_frames :: "recorded_frame list \<Rightarrow> recorded_frame list" where
  "early_frames transport = filter
     (\<lambda>f. inbound f \<and> frame_type f \<notin> {Some ''client/hello'', Some ''client/goodbye''})
     (takeWhile (\<lambda>f. \<not> (\<not> inbound f \<and> frame_type f = Some ''server/activate'')) transport)"

definition check_nothing_before_activation :: check where
  "check_nothing_before_activation c = (
     let transport = filter (\<lambda>f. fr_phase f = ''transport'') (cr_frames c);
         early = early_frames transport
     in if transport = []
        then one (core_finding ''CORE-ORDER-001'' NOT_APPLICABLE ''the handshake never completed'' [])
        else if early \<noteq> []
        then one (core_finding ''CORE-ORDER-001'' FAIL
               (''the client sent '' @ join '', '' (map what_is early)
                @ '' before the initial server/activate'') early)
        else one (core_finding ''CORE-ORDER-001'' PASS
               ''the client sent nothing but its hello before activation'' []))"

definition check_hello_sent :: check where
  "check_hello_sent c = (
     case first_of (inbound_of c ''client/hello'' ''transport'') of
       Some hello \<Rightarrow> one (core_finding ''CORE-HELLO-001'' PASS ''the client sent client/hello'' [hello])
     | None \<Rightarrow> (case first_of (outbound_of c ''server/hello'' ''transport'') of
         None \<Rightarrow> one (core_finding ''CORE-HELLO-001'' NOT_APPLICABLE
                   ''the validator sent no server/hello'' [])
       | Some server_hello \<Rightarrow> (case first_of (inbound_of c ''client/goodbye'' ''transport'') of
           Some goodbye \<Rightarrow> one (core_finding ''CORE-HELLO-001'' NOT_APPLICABLE
                             ''the client said goodbye before its hello'' [goodbye])
         | None \<Rightarrow>
             if rejected c then one (not_reached ''CORE-HELLO-001'')
             else one (core_finding ''CORE-HELLO-001'' FAIL
                    ''the client never answered server/hello with client/hello'' [server_hello]))))"

definition support_problems :: "pydict \<Rightarrow> string list" where
  "support_problems p = (
     let roles = roles_of p in
     map (\<lambda>role. role @ '' is listed without its '' @ role @ SUPPORT_SUFFIX @ '' object'')
       (filter (\<lambda>role. \<not> is_dict (dict_get (role @ SUPPORT_SUFFIX) p))
         (sort (filter (\<lambda>r. r \<in> set roles) SUPPORT_OBJECT_ROLES)))
     @ map (\<lambda>key. key @ '' is sent for a role version not in supported_roles'')
       (filter (\<lambda>key. ends_with key SUPPORT_SUFFIX \<and> CHR ''@'' \<in> set key
                      \<and> removesuffix key SUPPORT_SUFFIX \<notin> set roles)
         (sort (dict_keys p))))"

definition check_hello_support_objects :: check where
  "check_hello_support_objects c = (case client_hello c of
     None \<Rightarrow> one (no_client_hello ''CORE-HELLO-002'')
   | Some hello \<Rightarrow>
       (let problems = support_problems (payload_or hello) in
        if problems \<noteq> []
        then one (core_finding ''CORE-HELLO-002'' FAIL (join ''; '' problems) [hello])
        else one (core_finding ''CORE-HELLO-002'' PASS
               ''every listed role version has the support object it requires'' [hello])))"

definition check_hello_roles :: check where
  "check_hello_roles c = (case client_hello c of
     None \<Rightarrow> one (no_client_hello ''CORE-HELLO-003'')
   | Some hello \<Rightarrow> (case dict_get ''supported_roles'' (payload_or hello) of
       VList roles \<Rightarrow>
         (let malformed = filter (\<lambda>v. \<not> (case v of VStr s \<Rightarrow> match_role s | _ \<Rightarrow> False)) roles in
          if malformed \<noteq> []
          then one (core_finding ''CORE-HELLO-003'' FAIL
                 (''roles not of the form <role>@<version>: '' @ join '', '' (map py_repr malformed))
                 [hello])
          else one (core_finding ''CORE-HELLO-003'' PASS ''every role is <role>@<version>'' [hello]))
     | v \<Rightarrow> one (core_finding ''CORE-HELLO-003'' FAIL
              (''supported_roles is '' @ kind_of v @ '', not a list'') [hello])))"

definition pair_method_problems :: "pydict \<Rightarrow> string list" where
  "pair_method_problems methods =
     (if \<not> has_key ''pairing_psk'' methods then [''pairing_psk is not offered''] else [])
     @ (if length (filter (\<lambda>m. has_key m methods) CODE_PAIR_METHODS) > 1
        then [''both static_pairing_code and dynamic_pairing_code are offered''] else [])
     @ concat (map (\<lambda>m. descriptor_problems m (dict_get m methods))
         (sort (filter (\<lambda>m. has_key m methods) (map fst PAIR_METHOD_FIELDS))))"

definition check_hello_pair_methods :: check where
  "check_hello_pair_methods c = (case client_hello c of
     None \<Rightarrow> one (no_client_hello ''CORE-HELLO-004'')
   | Some hello \<Rightarrow> (case dict_get ''supported_pair_methods'' (payload_or hello) of
       VDict methods \<Rightarrow>
         (let problems = pair_method_problems methods in
          if problems \<noteq> []
          then one (core_finding ''CORE-HELLO-004'' FAIL (join ''; '' problems) [hello])
          else one (core_finding ''CORE-HELLO-004'' PASS
                 (''pairing methods are well formed: '' @ join '', '' (sort (dict_keys methods)))
                 [hello]))
     | v \<Rightarrow> one (core_finding ''CORE-HELLO-004'' FAIL
              (''supported_pair_methods is '' @ kind_of v @ '', not an object'') [hello])))"

definition check_hello_unpaired_access :: check where
  "check_hello_unpaired_access c = (case client_hello c of
     None \<Rightarrow> one (no_client_hello ''CORE-HELLO-005'')
   | Some hello \<Rightarrow>
       (let access = dict_get ''unpaired_access'' (payload_or hello);
            bad = one (core_finding ''CORE-HELLO-005'' FAIL
                    (''unpaired_access is '' @ py_repr access
                     @ '', not an object with a boolean enabled'') [hello])
        in case access of
             VDict d \<Rightarrow> (case dict_get ''enabled'' d of
                 VBool b \<Rightarrow> one (core_finding ''CORE-HELLO-005'' PASS
                     (''unpaired_access.enabled is '' @ (if b then ''true'' else ''false'')) [hello])
               | _ \<Rightarrow> bad)
           | _ \<Rightarrow> bad))"

definition hello_defined :: "pydict \<Rightarrow> string list" where
  "hello_defined p = HELLO_FIELDS
     @ map (\<lambda>role. role @ SUPPORT_SUFFIX) SUPPORT_OBJECT_ROLES
     @ map (\<lambda>role. role @ SUPPORT_SUFFIX)
         (filter (\<lambda>role. starts_with role ''_''
                        \<or> starts_with (partition_tail (CHR ''@'') role) ''_'') (roles_of p))"

definition nested_undefined :: "pydict \<Rightarrow> string \<Rightarrow> string list \<Rightarrow> string list" where
  "nested_undefined p name defined = (case dict_get name p of
     VDict d \<Rightarrow> map (\<lambda>key. ''payload.'' @ name @ ''.'' @ key) (undefined_keys d defined False)
   | _ \<Rightarrow> [])"

definition hello_undefined :: "pydict \<Rightarrow> pydict \<Rightarrow> string list" where
  "hello_undefined message p =
     undefined_keys message [''type'', ''payload''] False
     @ map (\<lambda>key. ''payload.'' @ key) (undefined_keys p (hello_defined p) True)
     @ nested_undefined p ''device_info'' DEVICE_INFO_FIELDS
     @ nested_undefined p ''unpaired_access'' [''enabled'']"

definition check_hello_fields :: check where
  "check_hello_fields c = (case client_hello c of
     None \<Rightarrow> one (no_client_hello ''CORE-HELLO-006'')
   | Some hello \<Rightarrow> (case fr_message hello of
       None \<Rightarrow> Inl AssertionError
     | Some m \<Rightarrow>
         (let bad = hello_undefined m (payload_or hello) in
          if bad \<noteq> []
          then one (core_finding ''CORE-HELLO-006'' FAIL
                 (''client/hello carries undefined fields: '' @ join '', '' bad) [hello])
          else one (core_finding ''CORE-HELLO-006'' PASS ''client/hello has no undefined fields''
                 [hello]))))"

definition check_hello_name_matches_txt :: "string option \<Rightarrow> check" where
  "check_hello_name_matches_txt txt_name c = (case txt_name of
     None \<Rightarrow> one (core_finding ''CORE-HELLO-007'' NOT_APPLICABLE
               ''the client was not discovered over mDNS with a TXT name'' [])
   | Some txt \<Rightarrow> (case client_hello c of
       None \<Rightarrow> one (no_client_hello ''CORE-HELLO-007'')
     | Some hello \<Rightarrow>
         (let name = dict_get ''name'' (payload_or hello) in
          if name \<noteq> VStr txt
          then one (core_finding ''CORE-HELLO-007'' WARN
                 (''client/hello name '' @ py_repr name @ '' differs from TXT name '' @ repr_str txt)
                 [hello])
          else one (core_finding ''CORE-HELLO-007'' PASS ''client/hello name matches the TXT name''
                 [hello]))))"

definition check_initial_state_sent :: check where
  "check_initial_state_sent c = (
     case first_of (outbound_of c ''server/activate'' ''transport'') of
       None \<Rightarrow> one (core_finding ''CORE-STATE-001'' NOT_APPLICABLE
                 ''the validator never activated the client'' [])
     | Some activation \<Rightarrow> py_bind (active_roles c (initial_state c)) (\<lambda>roles.
         if roles = []
         then one (core_finding ''CORE-STATE-001'' NOT_APPLICABLE
                ''no roles are active, so no initial client/state is owed'' [activation])
         else (case initial_state c of
           Some state \<Rightarrow> one (core_finding ''CORE-STATE-001'' PASS
                           ''the client sent client/state after activation'' [activation, state])
         | None \<Rightarrow>
             (case first_of (filter (\<lambda>f. fr_id f > fr_id activation)
                              (inbound_of c ''client/goodbye'' ''transport'')) of
                Some goodbye \<Rightarrow> one (core_finding ''CORE-STATE-001'' NOT_APPLICABLE
                    ''the client said goodbye before reporting its state'' [goodbye])
              | None \<Rightarrow>
                  if rejected c then one (not_reached ''CORE-STATE-001'')
                  else one (core_finding ''CORE-STATE-001'' FAIL
                         (''no client/state followed activating ''
                          @ join '', '' (sorted_set roles)) [activation])))))"

definition check_state_available :: check where
  "check_state_available c = (
     let states = inbound_of c ''client/state'' ''transport'';
         missing = filter (\<lambda>f. \<not> is_bool (dict_get ''available'' (payload_or f))) states
     in if states = []
        then one (core_finding ''CORE-STATE-002'' NOT_APPLICABLE ''no client/state was sent'' [])
        else if missing \<noteq> []
        then one (core_finding ''CORE-STATE-002'' FAIL
               ''client/state without a boolean available'' missing)
        else one (core_finding ''CORE-STATE-002'' PASS
               (''all '' @ nat_str (length states) @ '' client/state messages carry available'')
               (take 1 states)))"

definition inactive_objects :: "string list \<Rightarrow> pydict \<Rightarrow> string list" where
  "inactive_objects roles p = (
     let families = map (partition_head (CHR ''@'')) roles in
     sort (filter (\<lambda>k. k \<notin> set families \<and> has_key k p) STATE_OBJECT_ROLES))"

definition check_state_role_objects :: check where
  "check_state_role_objects c = (case initial_state c of
     None \<Rightarrow> one (core_finding ''CORE-STATE-003'' NOT_APPLICABLE ''no client/state was sent'' [])
   | Some state \<Rightarrow> py_bind (active_roles c (Some state)) (\<lambda>roles.
       let inactive = inactive_objects roles (payload_or state) in
       if inactive \<noteq> []
       then one (core_finding ''CORE-STATE-003'' FAIL
              (''client/state carries objects for inactive roles: '' @ join '', '' inactive) [state])
       else one (core_finding ''CORE-STATE-003'' PASS
              ''client/state carries objects for active roles only'' [state])))"

definition check_time_integer :: check where
  "check_time_integer c = (
     let times = inbound_of c ''client/time'' ''transport'';
         bad = filter (\<lambda>f. \<not> is_int (dict_get ''client_transmitted'' (payload_or f))) times
     in if times = []
        then one (core_finding ''CORE-TIME-001'' NOT_APPLICABLE ''no client/time was sent'' [])
        else if bad \<noteq> []
        then one (core_finding ''CORE-TIME-001'' FAIL
               ''client/time without an integer client_transmitted'' bad)
        else one (core_finding ''CORE-TIME-001'' PASS
               (''all '' @ nat_str (length times) @ '' client/time messages carry an integer'')
               (take 1 times)))"

definition CHECKS :: "(string \<times> check) list" where
  "CHECKS = [
     (''CORE-INIT-001'', check_opens_with_client_init),
     (''CORE-INIT-002'', check_client_id),
     (''CORE-INIT-003'', check_init_version),
     (''CORE-INIT-004'', check_init_suite),
     (''CORE-INIT-005'', check_init_fields),
     (''CORE-NOISE-001'', check_noise_message_2),
     (''CORE-ORDER-001'', check_nothing_before_activation),
     (''CORE-HELLO-001'', check_hello_sent),
     (''CORE-HELLO-002'', check_hello_support_objects),
     (''CORE-HELLO-003'', check_hello_roles),
     (''CORE-HELLO-004'', check_hello_pair_methods),
     (''CORE-HELLO-005'', check_hello_unpaired_access),
     (''CORE-HELLO-006'', check_hello_fields),
     (''CORE-HELLO-007'', check_hello_name_matches_txt None),
     (''CORE-STATE-001'', check_initial_state_sent),
     (''CORE-STATE-002'', check_state_available),
     (''CORE-STATE-003'', check_state_role_objects),
     (''CORE-TIME-001'', check_time_integer)]"

section \<open>Running them\<close>

definition run_check :: "connection_record \<Rightarrow> string \<times> check \<Rightarrow> finding list py" where
  "run_check c entry = (case snd entry c of
     Inr fs \<Rightarrow> Inr fs
   | Inl e \<Rightarrow> one (core_finding (fst entry) TOOL_ERROR
       (''the check failed: '' @ exc_name e @ '': '' @ exc_text e) []))"

definition run_checks :: "string option \<Rightarrow> connection_record \<Rightarrow> finding list py" where
  "run_checks txt_name c =
     py_bind (collect (map (run_check c)
         (dict_put ''CORE-HELLO-007'' (check_hello_name_matches_txt txt_name) CHECKS)))
       (\<lambda>fss. Inr (concat fss))"

definition check_noncompliance :: "recorded_noncompliance list \<Rightarrow> finding list" where
  "check_noncompliance noncompliance = (
     if noncompliance = []
     then [\<lparr>fi_id = STRICT_CHECK_ID, fi_verdict = PASS, fi_spec_ref = ''-'',
            fi_message = ''aiosendspin's strict mode accepted every message'',
            fi_evidence = MACHINE, fi_frames = []\<rparr>]
     else map strict_finding (filter (\<lambda>n. nc_reason n \<noteq> NOISE_PAYLOAD_REASON) noncompliance))"

definition judge_session ::
  "recorded_frame list \<Rightarrow> recorded_noncompliance list \<Rightarrow> string list \<Rightarrow> int \<Rightarrow> int list
   \<Rightarrow> string option \<Rightarrow> finding list py" where
  "judge_session frames noncompliance tool_errors connection later_connections txt_name = (
     let record = connection_of connection frames noncompliance [];
         judged = connection # later_connections
     in py_bind (run_checks txt_name record) (\<lambda>fs. Inr (fs
          @ check_noncompliance
              (filter (\<lambda>n. nc_connection n \<in> Some ` set judged) noncompliance)
          @ map (\<lambda>err. \<lparr>fi_id = RECORDER_CHECK_ID, fi_verdict = TOOL_ERROR, fi_spec_ref = ''-'',
                        fi_message = err, fi_evidence = MACHINE, fi_frames = []\<rparr>) tool_errors)))"

end
