(* ===== verification/Check_Facts.thy ===== *)
theory Check_Facts
  imports Checks
begin

text \<open>
  What the checks of \<open>Checks\<close> promise: each reports exactly its own id, cites only frames of the
  connection it judged, and backs a failure with a frame; the runner therefore reports every id
  once, whatever the connection. Then the verdicts of the single checks, stated over the frames.
\<close>

section \<open>Findings of the core checks\<close>

definition core_fi :: "string \<Rightarrow> verdict \<Rightarrow> string \<Rightarrow> recorded_frame list \<Rightarrow> finding" where
  "core_fi cid v msg fs = \<lparr>fi_id = cid, fi_verdict = v, fi_spec_ref = the (map_of CORE_REFS cid),
     fi_message = msg, fi_evidence = MACHINE, fi_frames = map fr_id fs\<rparr>"

lemma core_fi_sel [simp]:
  "fi_id (core_fi cid v msg fs) = cid"
  "fi_verdict (core_fi cid v msg fs) = v"
  "fi_message (core_fi cid v msg fs) = msg"
  "fi_frames (core_fi cid v msg fs) = map fr_id fs"
  by (simp_all add: core_fi_def)

lemma core_fi_cites [simp]: "cites ids (core_fi cid v msg fs) \<longleftrightarrow> fr_id ` set fs \<subseteq> ids"
  by (simp add: core_fi_def)

lemma core_fi_backed [simp]: "backed (core_fi cid v msg fs) \<longleftrightarrow> (v = FAIL \<longrightarrow> fs \<noteq> [])"
  by (simp add: core_fi_def)

lemma core_finding_known:
  "cid \<in> fst ` set CORE_REFS \<Longrightarrow> core_finding cid v msg fs = Inr (core_fi cid v msg fs)"
  by (auto simp: core_finding_def core_fi_def ref_finding_def map_of_eq_None_iff
      split: option.splits)

lemma core_ids_known:
  "''CORE-INIT-001'' \<in> fst ` set CORE_REFS" "''CORE-INIT-002'' \<in> fst ` set CORE_REFS"
  "''CORE-INIT-003'' \<in> fst ` set CORE_REFS" "''CORE-INIT-004'' \<in> fst ` set CORE_REFS"
  "''CORE-INIT-005'' \<in> fst ` set CORE_REFS" "''CORE-NOISE-001'' \<in> fst ` set CORE_REFS"
  "''CORE-ORDER-001'' \<in> fst ` set CORE_REFS" "''CORE-HELLO-001'' \<in> fst ` set CORE_REFS"
  "''CORE-HELLO-002'' \<in> fst ` set CORE_REFS" "''CORE-HELLO-003'' \<in> fst ` set CORE_REFS"
  "''CORE-HELLO-004'' \<in> fst ` set CORE_REFS" "''CORE-HELLO-005'' \<in> fst ` set CORE_REFS"
  "''CORE-HELLO-006'' \<in> fst ` set CORE_REFS" "''CORE-HELLO-007'' \<in> fst ` set CORE_REFS"
  "''CORE-STATE-001'' \<in> fst ` set CORE_REFS" "''CORE-STATE-002'' \<in> fst ` set CORE_REFS"
  "''CORE-STATE-003'' \<in> fst ` set CORE_REFS" "''CORE-TIME-001'' \<in> fst ` set CORE_REFS"
  by (simp_all add: CORE_REFS_def)

lemmas core_finding_simps [simp] = core_ids_known [THEN core_finding_known]

lemma one_Inr [simp]: "one (Inr f) = Inr [f]"
  by (simp add: one_def)

lemma first_of_Some: "first_of xs = Some x \<Longrightarrow> x \<in> set xs"
  by (auto simp: first_of_def split: list.splits)

lemma first_of_None [simp]: "first_of xs = None \<longleftrightarrow> xs = []"
  by (auto simp: first_of_def split: list.splits)

lemma set_inbound_of:
  "f \<in> set (inbound_of c t p) \<longleftrightarrow> f \<in> set (cr_frames c) \<and> inbound f \<and> fr_phase f = p
     \<and> frame_type f = Some t"
  by (auto simp: inbound_of_def)

lemma set_outbound_of:
  "f \<in> set (outbound_of c t p) \<longleftrightarrow> f \<in> set (cr_frames c) \<and> \<not> inbound f \<and> fr_phase f = p
     \<and> frame_type f = Some t"
  by (auto simp: outbound_of_def)

lemma client_init_Inr:
  "client_init c = Inr (Some f) \<longleftrightarrow> (\<exists>rest. cr_frames c = f # rest) \<and> inbound f
     \<and> fr_phase f = ''cleartext'' \<and> frame_type f = Some ''client/init''"
  by (auto simp: client_init_def split: list.splits)

lemma client_init_None:
  "client_init c = Inr None \<longleftrightarrow> (\<exists>f rest. cr_frames c = f # rest \<and>
     \<not> (inbound f \<and> fr_phase f = ''cleartext'' \<and> frame_type f = Some ''client/init''))"
  by (auto simp: client_init_def split: list.splits)

lemma client_hello_Some:
  "client_hello c = Some f \<Longrightarrow> f \<in> set (cr_frames c) \<and> inbound f \<and> fr_phase f = ''transport''
     \<and> frame_type f = Some ''client/hello''"
  by (auto simp: client_hello_def set_inbound_of dest!: first_of_Some)

lemma initial_state_Some:
  "initial_state c = Some f \<Longrightarrow> f \<in> set (cr_frames c) \<and> inbound f \<and> fr_phase f = ''transport''
     \<and> frame_type f = Some ''client/state''"
  by (auto simp: initial_state_def set_inbound_of dest!: first_of_Some)

lemma early_frames_subset: "set (early_frames fs) \<subseteq> set fs"
  by (auto simp: early_frames_def dest: set_takeWhileD)

abbreviation frame_ids :: "connection_record \<Rightarrow> int set" where
  "frame_ids c \<equiv> fr_id ` set (cr_frames c)"

abbreviation core_ok :: "connection_record \<Rightarrow> finding \<Rightarrow> bool" where
  "core_ok c \<equiv> \<lambda>f. cites (frame_ids c) f \<and> backed f"

lemmas core_defs =
  no_client_init_def no_client_hello_def not_reached_def Let_def

lemma judge_client_init_reports:
  assumes "cid \<in> fst ` set CORE_REFS"
  shows "reports (core_ok c) [cid] (judge_client_init c cid holds passed failed)"
  unfolding judge_client_init_def
  by (rule reports_bind)
    (auto simp: core_defs core_finding_known [OF assms] client_init_Inr
      intro!: reports_bind split: option.splits)

lemma check_opens_reports: "reports (core_ok c) [''CORE-INIT-001''] (check_opens_with_client_init c)"
  by (auto simp: check_opens_with_client_init_def intro!: reports_bind split: list.splits)

lemma check_client_id_reports: "reports (core_ok c) [''CORE-INIT-002''] (check_client_id c)"
  unfolding check_client_id_def by (rule judge_client_init_reports) (rule core_ids_known)

lemma check_init_version_reports: "reports (core_ok c) [''CORE-INIT-003''] (check_init_version c)"
  unfolding check_init_version_def by (rule judge_client_init_reports) (rule core_ids_known)

lemma check_init_suite_reports: "reports (core_ok c) [''CORE-INIT-004''] (check_init_suite c)"
  unfolding check_init_suite_def by (rule judge_client_init_reports) (rule core_ids_known)

lemma check_init_fields_reports: "reports (core_ok c) [''CORE-INIT-005''] (check_init_fields c)"
  unfolding check_init_fields_def
  by (rule reports_bind) (auto simp: core_defs client_init_Inr split: option.splits)

lemma check_noise_reports: "reports (core_ok c) [''CORE-NOISE-001''] (check_noise_message_2 c)"
  by (auto simp: check_noise_message_2_def Let_def set_inbound_of
      dest!: first_of_Some split: option.splits)

lemma check_order_reports:
  "reports (core_ok c) [''CORE-ORDER-001''] (check_nothing_before_activation c)"
  using early_frames_subset [of "filter (\<lambda>f. fr_phase f = ''transport'') (cr_frames c)"]
  by (auto simp: check_nothing_before_activation_def Let_def)

lemma check_hello_sent_reports: "reports (core_ok c) [''CORE-HELLO-001''] (check_hello_sent c)"
  by (auto simp: check_hello_sent_def not_reached_def set_inbound_of set_outbound_of
      dest!: first_of_Some split: option.splits)

lemma check_support_reports:
  "reports (core_ok c) [''CORE-HELLO-002''] (check_hello_support_objects c)"
  by (auto simp: check_hello_support_objects_def core_defs dest: client_hello_Some split: option.splits)

lemma check_roles_reports: "reports (core_ok c) [''CORE-HELLO-003''] (check_hello_roles c)"
  by (auto simp: check_hello_roles_def core_defs dest: client_hello_Some
      split: option.splits pyval.splits)

lemma check_methods_reports:
  "reports (core_ok c) [''CORE-HELLO-004''] (check_hello_pair_methods c)"
  by (auto simp: check_hello_pair_methods_def core_defs dest: client_hello_Some
      split: option.splits pyval.splits)

lemma check_unpaired_reports:
  "reports (core_ok c) [''CORE-HELLO-005''] (check_hello_unpaired_access c)"
  by (auto simp: check_hello_unpaired_access_def core_defs dest: client_hello_Some
      split: option.splits pyval.splits)

lemma check_fields_reports: "reports (core_ok c) [''CORE-HELLO-006''] (check_hello_fields c)"
  by (auto simp: check_hello_fields_def core_defs dest: client_hello_Some split: option.splits)

lemma check_name_reports:
  "reports (core_ok c) [''CORE-HELLO-007''] (check_hello_name_matches_txt txt c)"
  by (auto simp: check_hello_name_matches_txt_def core_defs dest: client_hello_Some
      split: option.splits)

lemma check_state_sent_reports:
  "reports (core_ok c) [''CORE-STATE-001''] (check_initial_state_sent c)"
  by (auto simp: check_initial_state_sent_def core_defs set_inbound_of set_outbound_of
      intro!: reports_bind dest!: first_of_Some initial_state_Some split: option.splits)

lemma check_available_reports:
  "reports (core_ok c) [''CORE-STATE-002''] (check_state_available c)"
  by (auto simp: check_state_available_def Let_def set_inbound_of dest: in_set_takeD)

lemma check_objects_reports:
  "reports (core_ok c) [''CORE-STATE-003''] (check_state_role_objects c)"
  by (auto simp: check_state_role_objects_def Let_def
      intro!: reports_bind dest: initial_state_Some split: option.splits)

lemma check_time_reports: "reports (core_ok c) [''CORE-TIME-001''] (check_time_integer c)"
  by (auto simp: check_time_integer_def Let_def set_inbound_of dest: in_set_takeD)


section \<open>The runner\<close>

text \<open>
  The contract between the runner and the checks in its table: each entry reports the id it is
  filed under, on findings that satisfy \<open>good\<close>, or raises; a tool error satisfies \<open>good\<close> too.
\<close>

locale check_table =
  fixes table :: "(string \<times> check) list" and good :: "connection_record \<Rightarrow> finding \<Rightarrow> bool"
  assumes entry_reports: "(cid, chk) \<in> set table \<Longrightarrow> reports (good c) [cid] (chk c)"
    and entry_known: "(cid, chk) \<in> set table \<Longrightarrow> cid \<in> fst ` set CORE_REFS"
    and tool_error_good: "good c (core_fi cid TOOL_ERROR msg [])"
begin

lemma run_entry:
  assumes "entry \<in> set table"
  shows "\<exists>f. run_check c entry = Inr [f] \<and> fi_id f = fst entry \<and> good c f"
proof -
  obtain cid chk where e: "entry = (cid, chk)" by (cases entry)
  with assms have r: "reports (good c) [cid] (chk c)" and k: "cid \<in> fst ` set CORE_REFS"
    by (auto dest: entry_reports entry_known)
  show ?thesis
  proof (cases "chk c")
    case (Inl exc)
    then show ?thesis
      by (simp add: run_check_def e core_finding_known [OF k] tool_error_good)
  next
    case (Inr fs)
    with r show ?thesis by (auto simp: run_check_def e map_eq_Cons_conv)
  qed
qed

lemma run_entries:
  "set entries \<subseteq> set table \<Longrightarrow>
   \<exists>fs. collect (map (run_check c) entries) = Inr (map (\<lambda>f. [f]) fs) \<and>
        map fi_id fs = map fst entries \<and> list_all (good c) fs"
proof (induction entries)
  case Nil
  show ?case by simp
next
  case (Cons e es)
  then obtain fs where fs: "collect (map (run_check c) es) = Inr (map (\<lambda>f. [f]) fs)"
    "map fi_id fs = map fst es" "list_all (good c) fs" by auto
  from Cons.prems obtain f where f: "run_check c e = Inr [f]" "fi_id f = fst e" "good c f"
    using run_entry [of e c] by auto
  from fs f show ?case by (intro exI [of _ "f # fs"]) simp
qed

lemma concat_singletons: "concat (map (\<lambda>f. [f]) fs) = fs"
  by (induction fs) simp_all

lemma run_table:
  "\<exists>fs. py_bind (collect (map (run_check c) table)) (\<lambda>fss. Inr (concat fss)) = Inr fs \<and>
        map fi_id fs = map fst table \<and> list_all (good c) fs"
  using run_entries [of table c] by (auto simp: concat_singletons)

end

lemma CHECKS_put:
  "dict_put ''CORE-HELLO-007'' chk CHECKS =
     map (\<lambda>(cid, k). (cid, if cid = ''CORE-HELLO-007'' then chk else k)) CHECKS"
  by (simp add: CHECKS_def)

lemmas core_check_reports =
  check_opens_reports check_client_id_reports check_init_version_reports check_init_suite_reports
  check_init_fields_reports check_noise_reports check_order_reports check_hello_sent_reports
  check_support_reports check_roles_reports check_methods_reports check_unpaired_reports
  check_fields_reports check_name_reports check_state_sent_reports check_available_reports
  check_objects_reports check_time_reports

interpretation core_table: check_table
  "dict_put ''CORE-HELLO-007'' (check_hello_name_matches_txt txt_name) CHECKS" core_ok
  for txt_name
proof
  fix cid :: string and chk :: check and c :: connection_record
  assume "(cid, chk) \<in> set (dict_put ''CORE-HELLO-007'' (check_hello_name_matches_txt txt_name) CHECKS)"
  then show "reports (core_ok c) [cid] (chk c)" and "cid \<in> fst ` set CORE_REFS"
    unfolding CHECKS_put
    by (auto simp: CHECKS_def core_ids_known core_check_reports)
next
  fix c cid msg
  show "core_ok c (core_fi cid TOOL_ERROR msg [])" by simp
qed

lemma run_checks_reports:
  "\<exists>fs. run_checks txt_name c = Inr fs \<and> map fi_id fs = map fst CHECKS \<and> list_all (core_ok c) fs"
proof -
  have ids: "map fst (dict_put ''CORE-HELLO-007'' (check_hello_name_matches_txt txt_name) CHECKS)
      = map fst CHECKS"
    by (simp add: CHECKS_put case_prod_beta)
  show ?thesis
    using core_table.run_table [of c txt_name] unfolding ids run_checks_def .
qed


section \<open>Verdicts of the single checks\<close>

definition verdict_of :: "finding list py \<Rightarrow> verdict option" where
  "verdict_of r = (case r of Inr [f] \<Rightarrow> Some (fi_verdict f) | _ \<Rightarrow> None)"

lemma verdict_of_one [simp]: "verdict_of (Inr [f]) = Some (fi_verdict f)"
  by (simp add: verdict_of_def)

lemma verdict_of_Inl [simp]: "verdict_of (Inl e) = None"
  by (simp add: verdict_of_def)

definition is_activation :: "recorded_frame \<Rightarrow> bool" where
  "is_activation f \<longleftrightarrow> \<not> inbound f \<and> frame_type f = Some ''server/activate''"

lemma early_frames_nth:
  "f \<in> set (early_frames fs) \<longleftrightarrow>
     (\<exists>i < length fs. fs ! i = f \<and> inbound f
        \<and> frame_type f \<noteq> Some ''client/hello'' \<and> frame_type f \<noteq> Some ''client/goodbye''
        \<and> (\<forall>j < i. \<not> is_activation (fs ! j)))"
proof (induction fs)
  case Nil
  show ?case by (simp add: early_frames_def)
next
  case (Cons g gs)
  have ex: "(\<exists>i < length (g # gs). P i) \<longleftrightarrow> P 0 \<or> (\<exists>i < length gs. P (Suc i))" for P
    by (auto simp: less_Suc_eq_0_disj)
  have all: "(\<forall>j < Suc i. Q j) \<longleftrightarrow> Q 0 \<and> (\<forall>j < i. Q (Suc j))" for i Q
    by (auto simp: less_Suc_eq_0_disj)
  have "f \<in> set (early_frames (g # gs)) \<longleftrightarrow>
     (g = f \<and> inbound f \<and> frame_type f \<noteq> Some ''client/hello''
       \<and> frame_type f \<noteq> Some ''client/goodbye'') \<or> (\<not> is_activation g \<and> f \<in> set (early_frames gs))"
    by (auto simp: early_frames_def is_activation_def)
  then show ?case
    unfolding ex all using Cons.IH by auto
qed

text \<open>The client spoke before the first activation, other than to say hello or goodbye.\<close>

definition speaks_early :: "recorded_frame list \<Rightarrow> bool" where
  "speaks_early fs \<longleftrightarrow> (\<exists>i < length fs. inbound (fs ! i)
     \<and> frame_type (fs ! i) \<noteq> Some ''client/hello''
     \<and> frame_type (fs ! i) \<noteq> Some ''client/goodbye''
     \<and> (\<forall>j < i. \<not> is_activation (fs ! j)))"

lemma early_frames_Nil_iff: "early_frames fs = [] \<longleftrightarrow> \<not> speaks_early fs"
proof -
  have "early_frames fs = [] \<longleftrightarrow> (\<forall>f. f \<notin> set (early_frames fs))" by auto
  then show ?thesis unfolding early_frames_nth speaks_early_def by auto
qed

lemma order_verdict:
  "verdict_of (check_nothing_before_activation c) = Some
     (let tr = filter (\<lambda>f. fr_phase f = ''transport'') (cr_frames c) in
      if tr = [] then NOT_APPLICABLE else if speaks_early tr then FAIL else PASS)"
  by (simp add: check_nothing_before_activation_def Let_def early_frames_Nil_iff)

lemma suite_raises:
  assumes "client_init c = Inr (Some f)" and "unhashable (dict_get ''suite'' (payload_or f)) = Some t"
  shows "run_check c (''CORE-INIT-004'', check_init_suite) =
    Inr [core_fi ''CORE-INIT-004'' TOOL_ERROR
      (''the check failed: TypeError: unhashable type: '' @ sq @ t @ sq) []]"
  using assms
  by (simp add: run_check_def check_init_suite_def judge_client_init_def in_str_set_def
      unhashable_error_def)

lemma no_dict_get: "dict_get k d = VDict e \<Longrightarrow> k \<in> fst ` set d"
  by (rule dict_get_has_key) simp

lemma support_problems_Nil_iff:
  "support_problems p = [] \<longleftrightarrow>
     (\<forall>role \<in> set SUPPORT_OBJECT_ROLES. role \<in> set (roles_of p) \<longrightarrow>
        is_dict (dict_get (role @ SUPPORT_SUFFIX) p))
     \<and> (\<forall>role. CHR ''@'' \<in> set role \<longrightarrow> has_key (role @ SUPPORT_SUFFIX) p \<longrightarrow>
          role \<in> set (roles_of p))"
proof -
  have at: "CHR ''@'' \<in> set (role @ SUPPORT_SUFFIX) \<longleftrightarrow> CHR ''@'' \<in> set role" for role
    by (simp add: SUPPORT_SUFFIX_def)
  have ends: "ends_with k SUPPORT_SUFFIX \<Longrightarrow> \<exists>role. k = role @ SUPPORT_SUFFIX" for k
    unfolding ends_with_def by (metis append_take_drop_id)
  have "(\<forall>k \<in> set (dict_keys p). \<not> (ends_with k SUPPORT_SUFFIX \<and> CHR ''@'' \<in> set k
            \<and> removesuffix k SUPPORT_SUFFIX \<notin> set (roles_of p))) \<longleftrightarrow>
        (\<forall>role. CHR ''@'' \<in> set role \<longrightarrow> has_key (role @ SUPPORT_SUFFIX) p \<longrightarrow>
          role \<in> set (roles_of p))" (is "?l \<longleftrightarrow> ?r")
  proof
    assume l: ?l
    show ?r
    proof (intro allI impI)
      fix role
      assume "CHR ''@'' \<in> set role" "has_key (role @ SUPPORT_SUFFIX) p"
      moreover from this have "role @ SUPPORT_SUFFIX \<in> set (dict_keys p)"
        by (simp add: dict_keys_def)
      ultimately show "role \<in> set (roles_of p)"
        using l at by (metis ends_with_append removesuffix_append)
    qed
  next
    assume r: ?r
    show ?l
    proof (intro ballI notI)
      fix k
      assume k: "k \<in> set (dict_keys p)"
        and bad: "ends_with k SUPPORT_SUFFIX \<and> CHR ''@'' \<in> set k
          \<and> removesuffix k SUPPORT_SUFFIX \<notin> set (roles_of p)"
      obtain role where role: "k = role @ SUPPORT_SUFFIX" using bad ends by blast
      with k have "has_key (role @ SUPPORT_SUFFIX) p" by (simp add: dict_keys_def)
      with r bad role at show False by (metis removesuffix_append)
    qed
  qed
  then show ?thesis
    by (auto simp: support_problems_def Let_def filter_empty_conv)
qed

lemma support_verdict:
  "verdict_of (check_hello_support_objects c) = Some (case client_hello c of
      None \<Rightarrow> NOT_APPLICABLE
    | Some hello \<Rightarrow>
        if support_problems (payload_or hello) = [] then PASS else FAIL)"
  by (simp add: check_hello_support_objects_def core_defs split: option.splits)

lemma check_noncompliance_members:
  "noncompliance \<noteq> [] \<Longrightarrow>
   check_noncompliance noncompliance =
     map strict_finding (filter (\<lambda>n. nc_reason n \<noteq> NOISE_PAYLOAD_REASON) noncompliance)"
  by (simp add: check_noncompliance_def)

lemma strict_finding_verdict:
  "fi_verdict (strict_finding n) = FAIL \<longleftrightarrow> (\<exists>ref. spec_ref_for (nc_reason n) = Inr (Some ref))"
  "fi_verdict (strict_finding n) \<noteq> FAIL \<Longrightarrow> fi_verdict (strict_finding n) = TOOL_ERROR"
  by (auto simp: strict_finding_def Let_def split: sum.splits option.splits)

lemma judge_session_Inr:
  assumes "run_checks txt_name (connection_of connection frames noncompliance []) = Inr fs"
  shows "judge_session frames noncompliance tool_errors connection later txt_name = Inr (fs
     @ check_noncompliance (filter (\<lambda>n. nc_connection n \<in> Some ` set (connection # later)) noncompliance)
     @ map (\<lambda>err. \<lparr>fi_id = RECORDER_CHECK_ID, fi_verdict = TOOL_ERROR, fi_spec_ref = ''-'',
              fi_message = err, fi_evidence = MACHINE, fi_frames = []\<rparr>) tool_errors)"
  using assms by (simp add: judge_session_def Let_def)

lemma connection_of_cong:
  assumes "filter (\<lambda>f. fr_connection f = k) frames = filter (\<lambda>f. fr_connection f = k) frames'"
    and "filter (\<lambda>n. nc_connection n = Some k) nc = filter (\<lambda>n. nc_connection n = Some k) nc'"
  shows "connection_of k frames nc [] = connection_of k frames' nc' []"
  using assms by (simp add: connection_of_def)

lemma filter_weaken:
  assumes "filter P xs = filter P ys" and "\<And>x. Q x \<Longrightarrow> P x"
  shows "filter Q xs = filter Q ys"
proof -
  have "filter Q xs = filter Q (filter P xs)" for xs
    using assms(2) by (induction xs) auto
  then show ?thesis using assms(1) by metis
qed

end
