(* ===== verification/Pairing_Token.thy ===== *)
theory Pairing_Token
  imports Py_Text
begin

text \<open>
  \<open>_vendor/aiosendspin/noise/pairing_token.py\<close>: the \<open>SP:\<close> tokens a client shows, with the
  standard library's base32 and unpadded base64url underneath. A byte is an integer from 0 to
  255. Encoding a PSK token from its base64url \<open>client_id\<close> is not modelled; decoding one is.
\<close>

section \<open>Positional numbers\<close>

type_synonym bytes = "int list"

definition from_digits :: "int \<Rightarrow> int list \<Rightarrow> int" where
  "from_digits b ds = foldl (\<lambda>a d. b * a + d) 0 ds"

fun to_digits :: "int \<Rightarrow> nat \<Rightarrow> int \<Rightarrow> int list" where
  "to_digits b 0 n = []"
| "to_digits b (Suc k) n = to_digits b k (n div b) @ [n mod b]"

definition digit_below :: "int \<Rightarrow> int \<Rightarrow> bool" where
  "digit_below b d \<longleftrightarrow> 0 \<le> d \<and> d < b"

lemma length_to_digits [simp]: "length (to_digits b k n) = k"
  by (induction k arbitrary: n) auto

lemma to_digits_below: "0 < b \<Longrightarrow> list_all (digit_below b) (to_digits b k n)"
  by (induction k arbitrary: n) (auto simp: digit_below_def)

lemma from_digits_snoc: "from_digits b (ds @ [d]) = b * from_digits b ds + d"
  by (simp add: from_digits_def)

lemma from_to_digits: "0 < b \<Longrightarrow> 0 \<le> n \<Longrightarrow> n < b ^ k \<Longrightarrow> from_digits b (to_digits b k n) = n"
proof (induction k arbitrary: n)
  case 0
  then show ?case by (simp add: from_digits_def)
next
  case (Suc k)
  have "b * (n div b) \<le> n"
    using Suc.prems pos_mod_sign [of b n] mult_div_mod_eq [of b n] by linarith
  moreover have "n < b * b ^ k" using Suc.prems(3) by (simp only: power_Suc)
  ultimately have "b * (n div b) < b * b ^ k" by (rule order.strict_trans1)
  then have "n div b < b ^ k" using Suc.prems(1) by (simp only: mult_less_cancel_left_pos)
  moreover from Suc.prems have "0 \<le> n div b" by (simp add: pos_imp_zdiv_nonneg_iff)
  ultimately have "n div b < b ^ k" "0 \<le> n div b" by simp_all
  with Suc show ?case by (simp add: from_digits_snoc)
qed

lemma to_from_digits:
  "0 < b \<Longrightarrow> length ds = k \<Longrightarrow> list_all (digit_below b) ds \<Longrightarrow> to_digits b k (from_digits b ds) = ds"
proof (induction k arbitrary: ds)
  case 0
  then show ?case by simp
next
  case (Suc k)
  then obtain es e where ds: "ds = es @ [e]" by (cases ds rule: rev_cases) auto
  with Suc have "to_digits b k (from_digits b es) = es" "0 \<le> e" "e < b"
    by (simp_all add: digit_below_def)
  with Suc.prems show ?case by (simp add: ds from_digits_snoc)
qed

lemma from_digits_bounds:
  "0 < b \<Longrightarrow> list_all (digit_below b) ds \<Longrightarrow> 0 \<le> from_digits b ds \<and> from_digits b ds < b ^ length ds"
proof (induction ds rule: rev_induct)
  case Nil
  show ?case by (simp add: from_digits_def)
next
  case (snoc d ds)
  then have "0 \<le> from_digits b ds" "from_digits b ds + 1 \<le> b ^ length ds" "0 \<le> d" "d < b"
    by (simp_all add: digit_below_def)
  moreover from this have "b * (from_digits b ds + 1) \<le> b * b ^ length ds"
    using snoc.prems(1) by (intro mult_left_mono) auto
  ultimately show ?case using snoc.prems(1) by (simp add: from_digits_snoc algebra_simps)
qed

section \<open>Base32 and base64url\<close>

definition b32_alphabet :: string where
  "b32_alphabet = ''ABCDEFGHIJKLMNOPQRSTUVWXYZ234567''"

definition b64url_alphabet :: string where
  "b64url_alphabet = ''ABCDEFGHIJKLMNOPQRSTUVWXYZabcdefghijklmnopqrstuvwxyz0123456789-_''"

definition b32_char :: "int \<Rightarrow> char" where
  "b32_char d = b32_alphabet ! nat d"

fun index_in :: "char \<Rightarrow> string \<Rightarrow> int option" where
  "index_in c [] = None"
| "index_in c (x # xs) = (if c = x then Some 0 else map_option (\<lambda>i. i + 1) (index_in c xs))"

definition b32_val :: "char \<Rightarrow> int option" where
  "b32_val c = index_in c b32_alphabet"

text \<open>\<open>base64.b32encode\<close>: quanta of five bytes, eight characters each, the last one padded.\<close>

definition b32_quantum :: "bytes \<Rightarrow> string" where
  "b32_quantum bs = map b32_char (to_digits 32 8 (from_digits 256 bs))"

definition b32_kept :: "nat \<Rightarrow> nat" where
  "b32_kept n = (if n = 1 then 2 else if n = 2 then 4 else if n = 3 then 5 else if n = 4 then 7 else 8)"

fun b32encode :: "bytes \<Rightarrow> string" where
  "b32encode (a # b # c # d # e # rest) = b32_quantum [a, b, c, d, e] @ b32encode rest"
| "b32encode [] = []"
| "b32encode bs = take (b32_kept (length bs)) (b32_quantum (bs @ replicate (5 - length bs) 0))
     @ replicate (8 - b32_kept (length bs)) (CHR ''='')"

text \<open>
  \<open>base64.b32decode\<close>: \<open>None\<close> for \<open>binascii.Error\<close>. The padding is stripped first; each quantum
  gives five bytes, and the last keeps as many as its padding leaves.
\<close>

definition rstrip_eq :: "string \<Rightarrow> string" where
  "rstrip_eq s = rev (dropWhile (\<lambda>c. c = CHR ''='') (rev s))"

fun read_quanta :: "nat \<Rightarrow> string \<Rightarrow> bytes option" where
  "read_quanta 0 s = Some []"
| "read_quanta (Suc fuel) s = (if s = [] then Some []
     else (case those (map b32_val (take 8 s)) of
       None \<Rightarrow> None
     | Some ds \<Rightarrow> map_option ((@) (to_digits 256 5
            (from_digits 32 (ds @ replicate (8 - length ds) 0)))) (read_quanta fuel (drop 8 s))))"

definition b32decode :: "string \<Rightarrow> bytes option" where
  "b32decode s = (
     let body = rstrip_eq s; pad = length s - length body in
     if length s mod 8 \<noteq> 0 then None
     else (case read_quanta (length body) body of
       None \<Rightarrow> None
     | Some decoded \<Rightarrow>
         if pad \<notin> {0, 1, 3, 4, 6} then None
         else if pad \<noteq> 0 \<and> decoded \<noteq> []
         then Some (take (length decoded - 5 + (43 - 5 * pad) div 8) decoded)
         else Some decoded))"

text \<open>\<open>base64.urlsafe_b64encode(data).rstrip(b"=")\<close>.\<close>

fun b64url_encode :: "bytes \<Rightarrow> string" where
  "b64url_encode (a # b # c # rest) =
     map (\<lambda>d. b64url_alphabet ! nat d) (to_digits 64 4 (from_digits 256 [a, b, c])) @ b64url_encode rest"
| "b64url_encode [] = []"
| "b64url_encode bs = take (length bs + 1) (map (\<lambda>d. b64url_alphabet ! nat d)
     (to_digits 64 4 (from_digits 256 (bs @ replicate (3 - length bs) 0))))"

section \<open>Tokens\<close>

definition TOKEN_PREFIX :: string where
  "TOKEN_PREFIX = ''SP:''"

definition PSK_TOKEN_VERSION :: char where
  "PSK_TOKEN_VERSION = CHR ''0''"

definition PAIRING_CODE_TOKEN_VERSION :: char where
  "PAIRING_CODE_TOKEN_VERSION = CHR ''1''"

definition QR_CODE_SIZE :: nat where
  "QR_CODE_SIZE = 24"

definition KEY_SIZE :: nat where
  "KEY_SIZE = 32"

definition PSK_TOKEN_SIZE :: nat where
  "PSK_TOKEN_SIZE = KEY_SIZE + 32"

record psk_token =
  pt_client_id :: string
  pt_pairing_psk :: "bytes"

definition value_error :: "string \<Rightarrow> py_exc" where
  "value_error msg = PyExc ''ValueError'' msg"

definition swap_char :: "char \<Rightarrow> char \<Rightarrow> string \<Rightarrow> string" where
  "swap_char a b s = map (\<lambda>c. if c = a then b else c) s"

definition ascii_upper :: "char \<Rightarrow> char" where
  "ascii_upper c = (if is_ascii_lower c then char_of ((of_char c :: nat) - 32) else c)"

definition encode_token :: "char \<Rightarrow> bytes \<Rightarrow> string" where
  "encode_token version bytes =
     TOKEN_PREFIX @ version # swap_char (CHR ''2'') (CHR ''9'') (rstrip_eq (b32encode bytes))"

definition decode_token :: "string \<Rightarrow> char \<Rightarrow> bytes py" where
  "decode_token value expect_version = (
     let text = strip value;
         upper = removeprefix (map ascii_upper text) TOKEN_PREFIX
     in if \<not> list_all is_ascii text then Inl (value_error ''malformed pairing token'')
        else (case upper of
          [] \<Rightarrow> Inl (value_error ''malformed pairing token'')
        | version # body \<Rightarrow>
            if version \<noteq> expect_version
            then Inl (value_error ''unsupported pairing token version'')
            else (case b32decode (swap_char (CHR ''9'') (CHR ''2'') body
                         @ replicate (nat ((- int (length body)) mod 8)) (CHR ''='')) of
                    None \<Rightarrow> Inl (value_error ''malformed pairing token'')
                  | Some bytes \<Rightarrow> Inr bytes)))"

definition decode_psk_token :: "string \<Rightarrow> psk_token py" where
  "decode_psk_token value = py_bind (decode_token value PSK_TOKEN_VERSION) (\<lambda>p.
     if length p < PSK_TOKEN_SIZE then Inl (value_error ''malformed pairing token'')
     else Inr \<lparr>pt_client_id = b64url_encode (take KEY_SIZE p),
               pt_pairing_psk = drop KEY_SIZE (take PSK_TOKEN_SIZE p)\<rparr>)"

definition encode_pairing_code_token :: "bytes \<Rightarrow> string py" where
  "encode_pairing_code_token code =
     (if length code \<noteq> QR_CODE_SIZE
      then Inl (value_error (''pairing code must be '' @ nat_str QR_CODE_SIZE @ '' bytes, got ''
             @ nat_str (length code)))
      else Inr (encode_token PAIRING_CODE_TOKEN_VERSION code))"

definition decode_pairing_code_token :: "string \<Rightarrow> bytes py" where
  "decode_pairing_code_token value = py_bind (decode_token value PAIRING_CODE_TOKEN_VERSION) (\<lambda>p.
     if length p < QR_CODE_SIZE then Inl (value_error ''malformed pairing token'')
     else Inr (take QR_CODE_SIZE p))"


section \<open>Round trips\<close>

abbreviation is_bytes :: "bytes \<Rightarrow> bool" where
  "is_bytes \<equiv> list_all (digit_below 256)"

lemma index_in_nth:
  "distinct xs \<Longrightarrow> i < length xs \<Longrightarrow> index_in (xs ! i) xs = Some (int i)"
proof (induction xs arbitrary: i)
  case Nil
  then show ?case by simp
next
  case (Cons x xs)
  then show ?case by (cases i) auto
qed

lemma b32_val_char: "digit_below 32 d \<Longrightarrow> b32_val (b32_char d) = Some d"
proof -
  assume d: "digit_below 32 d"
  have "distinct b32_alphabet" by (simp add: b32_alphabet_def)
  have "length b32_alphabet = 32" by (simp add: b32_alphabet_def)
  with d have "nat d < length b32_alphabet" by (simp add: digit_below_def nat_less_iff)
  then show ?thesis
    using index_in_nth [of b32_alphabet "nat d"] \<open>distinct b32_alphabet\<close> d
    by (simp add: b32_val_def b32_char_def digit_below_def)
qed

lemma b32_char_not: "digit_below 32 d \<Longrightarrow> b32_char d \<noteq> CHR ''=''"
proof
  assume "digit_below 32 d" and eq: "b32_char d = CHR ''=''"
  then have "b32_val (CHR ''='') = Some d" using b32_val_char by metis
  then show False by (simp add: b32_val_def b32_alphabet_def)
qed

lemma those_b32:
  "list_all (digit_below 32) ds \<Longrightarrow> those (map b32_val (map b32_char ds)) = Some ds"
  by (induction ds) (simp_all add: b32_val_char)

lemma to_digits_shift:
  "0 < b \<Longrightarrow> to_digits b (k + j) (b ^ j * m) = to_digits b k m @ replicate j 0"
  by (induction j) (simp_all add: mult.assoc replicate_append_same)

lemma from_digits_zeros: "from_digits b (ds @ replicate j 0) = b ^ j * from_digits b ds"
proof (induction j)
  case 0
  show ?case by simp
next
  case (Suc j)
  have "ds @ replicate (Suc j) 0 = (ds @ replicate j 0) @ [0]"
    by (simp add: replicate_append_same)
  then show ?case using Suc by (simp only: from_digits_snoc) simp
qed

lemma quantum_digits:
  "length bs = 5 \<Longrightarrow> is_bytes bs \<Longrightarrow>
   to_digits 256 5 (from_digits 32 (to_digits 32 8 (from_digits 256 bs))) = bs"
  using from_digits_bounds [of 256 bs] from_to_digits [of 32 "from_digits 256 bs" 8]
    to_from_digits [of 256 bs 5]
  by simp

text \<open>The characters a quantum loses to padding stand for zero digits.\<close>

lemma short_quantum:
  assumes "0 < length bs" and "length bs < 5"
  shows "\<exists>ds. length ds = b32_kept (length bs) \<and>
    to_digits 32 8 (from_digits 256 (bs @ replicate (5 - length bs) 0))
      = ds @ replicate (8 - b32_kept (length bs)) 0"
proof -
  let ?m = "from_digits 256 bs"
  consider "length bs = 1" | "length bs = 2" | "length bs = 3" | "length bs = 4"
    using assms by linarith
  then show ?thesis
  proof cases
    case 1
    have "to_digits 32 8 (256 ^ 4 * ?m) = to_digits 32 2 (4 * ?m) @ replicate 6 0"
      using to_digits_shift [of 32 2 6 "4 * ?m"] by simp
    then show ?thesis
      by (intro exI [of _ "to_digits 32 2 (4 * ?m)"])
        (simp only: from_digits_zeros 1 b32_kept_def, simp)
  next
    case 2
    have "to_digits 32 8 (256 ^ 3 * ?m) = to_digits 32 4 (16 * ?m) @ replicate 4 0"
      using to_digits_shift [of 32 4 4 "16 * ?m"] by simp
    then show ?thesis
      by (intro exI [of _ "to_digits 32 4 (16 * ?m)"])
        (simp only: from_digits_zeros 2 b32_kept_def, simp)
  next
    case 3
    have "to_digits 32 8 (256 ^ 2 * ?m) = to_digits 32 5 (2 * ?m) @ replicate 3 0"
      using to_digits_shift [of 32 5 3 "2 * ?m"] by simp
    then show ?thesis
      by (intro exI [of _ "to_digits 32 5 (2 * ?m)"])
        (simp only: from_digits_zeros 3 b32_kept_def, simp)
  next
    case 4
    have "to_digits 32 8 (256 ^ 1 * ?m) = to_digits 32 7 (8 * ?m) @ replicate 1 0"
      using to_digits_shift [of 32 7 1 "8 * ?m"] by simp
    then show ?thesis
      by (intro exI [of _ "to_digits 32 7 (8 * ?m)"])
        (simp only: from_digits_zeros 4 b32_kept_def, simp)
  qed
qed


text \<open>The text of \<open>b32encode\<close> before its padding.\<close>

fun b32_body :: "bytes \<Rightarrow> string" where
  "b32_body (a # b # c # d # e # rest) = b32_quantum [a, b, c, d, e] @ b32_body rest"
| "b32_body [] = []"
| "b32_body bs = take (b32_kept (length bs)) (b32_quantum (bs @ replicate (5 - length bs) 0))"

fun b32_pad :: "bytes \<Rightarrow> nat" where
  "b32_pad (a # b # c # d # e # rest) = b32_pad rest"
| "b32_pad [] = 0"
| "b32_pad bs = 8 - b32_kept (length bs)"

lemma b32encode_body: "b32encode bs = b32_body bs @ replicate (b32_pad bs) (CHR ''='')"
  by (induction bs rule: b32_body.induct) simp_all

lemma quantum_chars: "list_all (\<lambda>c. c \<noteq> CHR ''='') (b32_quantum bs)"
  using to_digits_below [of 32 8 "from_digits 256 bs"]
  by (auto simp: b32_quantum_def list_all_iff dest: b32_char_not)

lemma body_chars: "list_all (\<lambda>c. c \<noteq> CHR ''='') (b32_body bs)"
  using quantum_chars
  by (induction bs rule: b32_body.induct) (auto simp: list_all_iff dest: in_set_takeD)

lemma rstrip_eq_append:
  "list_all (\<lambda>c. c \<noteq> CHR ''='') s \<Longrightarrow> rstrip_eq (s @ replicate n (CHR ''='')) = s"
proof -
  assume "list_all (\<lambda>c. c \<noteq> CHR ''='') s"
  moreover have "dropWhile (\<lambda>c. c = CHR ''='') (replicate n (CHR ''='') @ xs)
      = dropWhile (\<lambda>c. c = CHR ''='') xs" for xs
    by (induction n) simp_all
  ultimately show ?thesis
    by (cases s rule: rev_cases) (simp_all add: rstrip_eq_def)
qed

lemma length_quantum [simp]: "length (b32_quantum bs) = 8"
  by (simp add: b32_quantum_def)

lemma those_quantum:
  "those (map b32_val (take k (b32_quantum bs))) = Some (take k (to_digits 32 8 (from_digits 256 bs)))"
proof -
  have "list_all (digit_below 32) (take k (to_digits 32 8 (from_digits 256 bs)))"
    using to_digits_below [of 32 8 "from_digits 256 bs"] by (auto simp: list_all_iff dest: in_set_takeD)
  then show ?thesis unfolding b32_quantum_def take_map by (rule those_b32)
qed

lemma quantum_tail:
  assumes "0 < length bs" "length bs < 5" "is_bytes bs"
  shows "to_digits 256 5 (from_digits 32
      (take (b32_kept (length bs)) (to_digits 32 8 (from_digits 256 (bs @ replicate (5 - length bs) 0)))
       @ replicate (8 - b32_kept (length bs)) 0)) = bs @ replicate (5 - length bs) 0"
proof -
  obtain ds where ds: "length ds = b32_kept (length bs)"
    "to_digits 32 8 (from_digits 256 (bs @ replicate (5 - length bs) 0))
      = ds @ replicate (8 - b32_kept (length bs)) 0"
    using short_quantum [OF assms(1,2)] by blast
  have "is_bytes (bs @ replicate (5 - length bs) 0)"
    using assms(3) by (auto simp: list_all_iff digit_below_def)
  with assms(2) have "to_digits 256 5 (from_digits 32 (ds @ replicate (8 - b32_kept (length bs)) 0))
      = bs @ replicate (5 - length bs) 0"
    using quantum_digits [of "bs @ replicate (5 - length bs) 0"] unfolding ds(2) by simp
  then show ?thesis unfolding ds(2) using ds(1) by simp
qed


definition zero_fill :: "bytes \<Rightarrow> bytes" where
  "zero_fill bs = replicate (nat ((- int (length bs)) mod 5)) 0"

lemma read_quanta_step:
  "s \<noteq> [] \<Longrightarrow> read_quanta (Suc fuel) s = (case those (map b32_val (take 8 s)) of
       None \<Rightarrow> None
     | Some ds \<Rightarrow> map_option ((@) (to_digits 256 5
            (from_digits 32 (ds @ replicate (8 - length ds) 0)))) (read_quanta fuel (drop 8 s)))"
  by simp

lemma read_quanta_tail:
  assumes "0 < length bs" "length bs < 5" "is_bytes bs"
  shows "read_quanta (Suc fuel) (take (b32_kept (length bs))
      (b32_quantum (bs @ replicate (5 - length bs) 0))) = Some (bs @ replicate (5 - length bs) 0)"
proof -
  let ?k = "b32_kept (length bs)"
  let ?q = "b32_quantum (bs @ replicate (5 - length bs) 0)"
  have k: "0 < ?k" "?k \<le> 8" by (auto simp: b32_kept_def)
  then have ne: "take ?k ?q \<noteq> []" by (metis length_quantum length_0_conv take_eq_Nil not_less_eq zero_less_Suc less_numeral_extra(3) zero_neq_numeral)
  have t8: "take 8 (take ?k ?q) = take ?k ?q" "drop 8 (take ?k ?q) = []" using k by simp_all
  have r0: "read_quanta fuel [] = Some []" by (cases fuel) simp_all
  have len: "length (take ?k (to_digits 32 8 n)) = ?k" for n using k by simp
  show ?thesis
    unfolding read_quanta_step [OF ne] t8 those_quantum r0
    using quantum_tail [OF assms] len by simp
qed

lemma read_quanta_short:
  assumes "0 < length bs" "length bs < 5" "is_bytes bs"
  shows "read_quanta (Suc fuel) (b32_body bs) = Some (bs @ zero_fill bs)"
proof -
  have "b32_body bs = take (b32_kept (length bs)) (b32_quantum (bs @ replicate (5 - length bs) 0))"
    using assms(1,2) by (cases bs rule: b32_body.cases) simp_all
  moreover have "zero_fill bs = replicate (5 - length bs) 0"
    using assms(1,2) by (cases bs rule: b32_body.cases) (simp_all add: zero_fill_def)
  ultimately show ?thesis using read_quanta_tail [OF assms] by simp
qed

lemma read_quanta_body:
  "is_bytes bs \<Longrightarrow> length bs \<le> fuel \<Longrightarrow> read_quanta (Suc fuel) (b32_body bs) = Some (bs @ zero_fill bs)"
proof (induction bs arbitrary: fuel rule: b32_body.induct)
  case (1 a b c d e rest)
  let ?bs = "[a, b, c, d, e]"
  from 1 obtain f where f: "fuel = Suc f" "length rest \<le> f" by (cases fuel) auto
  have q: "take 8 (b32_quantum ?bs @ b32_body rest) = take 8 (b32_quantum ?bs)"
    "drop 8 (b32_quantum ?bs @ b32_body rest) = b32_body rest" by simp_all
  have ne: "b32_quantum ?bs @ b32_body rest \<noteq> []"
    by (metis append_is_Nil_conv length_0_conv length_quantum zero_neq_numeral)
  have z: "zero_fill (a # b # c # d # e # rest) = zero_fill rest"
  proof -
    have "(- int (length rest) - 5) mod 5 = (- int (length rest)) mod 5" by presburger
    then show ?thesis by (simp add: zero_fill_def algebra_simps)
  qed
  have d: "to_digits 256 5 (from_digits 32 (to_digits 32 8 (from_digits 256 ?bs))) = ?bs"
    using 1 by (intro quantum_digits) auto
  have "is_bytes rest" using 1 by simp
  then have "read_quanta (Suc f) (b32_body rest) = Some (rest @ zero_fill rest)"
    using f(2) by (rule "1.IH")
  then have "read_quanta fuel (b32_body rest) = Some (rest @ zero_fill rest)"
    by (simp only: f(1))
  then show ?case
    unfolding b32_body.simps(1) read_quanta_step [OF ne] q those_quantum z
    using d by simp
next
  case 2
  then show ?case by (simp add: zero_fill_def)
qed (rule read_quanta_short, simp, simp, assumption)+


text \<open>Length and padding, by the last quantum.\<close>

definition last_kept :: "nat \<Rightarrow> nat" where
  "last_kept r = (if r = 0 then 0 else b32_kept r)"

definition last_pad :: "nat \<Rightarrow> nat" where
  "last_pad r = (if r = 0 then 0 else 8 - b32_kept r)"

lemma last_table:
  "last_kept 0 = 0" "last_kept (Suc 0) = 2" "last_kept 2 = 4" "last_kept 3 = 5" "last_kept 4 = 7"
  "last_pad 0 = 0" "last_pad (Suc 0) = 6" "last_pad 2 = 4" "last_pad 3 = 3" "last_pad 4 = 1"
  by (simp_all add: last_kept_def last_pad_def b32_kept_def)

lemma body_length:
  "length (b32_body bs) = 8 * (length bs div 5) + last_kept (length bs mod 5)"
  "b32_pad bs = last_pad (length bs mod 5)"
proof (induction bs rule: b32_body.induct)
  case (1 a b c d e rest)
  have "length (a # b # c # d # e # rest) = length rest + 5" by simp
  then have l: "length (a # b # c # d # e # rest) div 5 = Suc (length rest div 5)"
    "length (a # b # c # d # e # rest) mod 5 = length rest mod 5" by simp_all
  { case 1 show ?case unfolding l using "1.IH"(1) by simp }
  { case 2 show ?case unfolding l using "1.IH"(2) by simp }
qed (simp_all add: last_kept_def last_pad_def b32_kept_def)

lemma zero_fill_length: "length (zero_fill bs) = (if length bs mod 5 = 0 then 0 else 5 - length bs mod 5)"
proof -
  have m: "int (length bs) mod 5 = int (length bs mod 5)" by (simp add: zmod_int)
  have "(- int (length bs)) mod 5 = (if length bs mod 5 = 0 then 0 else 5 - int (length bs mod 5))"
    using zmod_zminus1_eq_if [of "int (length bs)" 5] unfolding m by simp
  moreover have "nat (5 - int (length bs mod 5)) = 5 - length bs mod 5" by linarith
  ultimately show ?thesis by (simp add: zero_fill_def)
qed

lemma mod5_cases:
  obtains "length bs mod 5 = 0" | "length bs mod 5 = Suc 0" | "length bs mod 5 = 2"
    | "length bs mod 5 = 3" | "length bs mod 5 = 4"
proof -
  have "length bs mod 5 < 5" by simp
  then show ?thesis using that by linarith
qed

lemma pad_mod: "nat ((- int (8 * q + k)) mod 8) = (if k = 0 then 0 else 8 - k)" if "k < 8" for k q :: nat
proof -
  have "int (8 * q + k) mod 8 = int k" using that by simp
  then have "(- int (8 * q + k)) mod 8 = (if k = 0 then 0 else 8 - int k)"
    using zmod_zminus1_eq_if [of "int (8 * q + k)" 8] by simp
  moreover have "nat (8 - int k) = 8 - k" by linarith
  ultimately show ?thesis by simp
qed

lemma body_pad:
  "nat ((- int (length (b32_body bs))) mod 8) = b32_pad bs"
  "(length (b32_body bs) + b32_pad bs) mod 8 = 0"
  "b32_pad bs \<in> {0, 1, 3, 4, 6}"
  "b32_pad bs = 0 \<Longrightarrow> zero_fill bs = []"
  "b32_pad bs \<noteq> 0 \<Longrightarrow> length (bs @ zero_fill bs) - 5 + (43 - 5 * b32_pad bs) div 8 = length bs"
proof -
  define q where "q = length bs div 5"
  have len: "length bs = 5 * q + length bs mod 5" by (simp add: q_def)
  show "nat ((- int (length (b32_body bs))) mod 8) = b32_pad bs"
    unfolding body_length q_def [symmetric]
    by (rule mod5_cases [of bs]) (simp_all only: last_table pad_mod, simp_all)
  show "(length (b32_body bs) + b32_pad bs) mod 8 = 0"
    unfolding body_length by (rule mod5_cases [of bs]) (simp_all add: last_table)
  show "b32_pad bs \<in> {0, 1, 3, 4, 6}"
    unfolding body_length by (rule mod5_cases [of bs]) (simp_all add: last_table)
  show "zero_fill bs = []" if "b32_pad bs = 0"
  proof -
    have "length bs mod 5 = 0"
      using that unfolding body_length by - (rule mod5_cases [of bs]; simp add: last_table)
    then show ?thesis using zero_fill_length [of bs] by simp
  qed
  show "length (bs @ zero_fill bs) - 5 + (43 - 5 * b32_pad bs) div 8 = length bs" if "b32_pad bs \<noteq> 0"
    using that unfolding body_length length_append zero_fill_length
    by - (rule mod5_cases [of bs]; use len in \<open>simp add: last_table\<close>)
qed

lemma body_longer: "bs \<noteq> [] \<Longrightarrow> length bs < length (b32_body bs)"
proof -
  assume "bs \<noteq> []"
  then have "0 < length bs" by simp
  moreover have "length bs = 5 * (length bs div 5) + length bs mod 5" by simp
  ultimately show ?thesis
    unfolding body_length by - (rule mod5_cases [of bs]; simp only: last_table; linarith)
qed

lemma body_Nil_iff: "b32_body bs = [] \<Longrightarrow> bs = []"
  using body_longer [of bs] by (cases bs) auto

lemma b32decode_body:
  assumes "is_bytes bs"
  shows "b32decode (b32_body bs @ replicate (b32_pad bs) (CHR ''='')) = Some bs"
proof -
  let ?s = "b32_body bs @ replicate (b32_pad bs) (CHR ''='')"
  have r: "rstrip_eq ?s = b32_body bs" by (rule rstrip_eq_append) (rule body_chars)
  have p: "length ?s - length (b32_body bs) = b32_pad bs" by simp
  have m: "length ?s mod 8 = 0" using body_pad(2) [of bs] by simp
  have q: "read_quanta (length (b32_body bs)) (b32_body bs) = Some (bs @ zero_fill bs)"
  proof (cases "b32_body bs = []")
    case True
    then show ?thesis using body_Nil_iff [of bs] by (simp add: zero_fill_def)
  next
    case False
    have "length bs < length (b32_body bs) \<or> bs = []" using body_longer [of bs] by blast
    with False obtain f where "length (b32_body bs) = Suc f" "length bs \<le> f"
      by (cases "length (b32_body bs)") auto
    then show ?thesis using read_quanta_body [OF assms] by simp
  qed
  show ?thesis
    using body_pad(3) [of bs] body_pad(4) [of bs] body_pad(5) [of bs]
    unfolding b32decode_def Let_def r p m q
    by (cases "b32_pad bs = 0") auto
qed

lemma b32_roundtrip: "is_bytes bs \<Longrightarrow> b32decode (b32encode bs) = Some bs"
  unfolding b32encode_body by (rule b32decode_body)

definition token_char :: "char \<Rightarrow> bool" where
  "token_char c \<longleftrightarrow> c \<in> set ''ABCDEFGHIJKLMNOPQRSTUVWXYZ0123456789:''"

lemma token_char_facts:
  "token_char c \<Longrightarrow> ascii_upper c = c" "token_char c \<Longrightarrow> is_ascii c" "token_char c \<Longrightarrow> \<not> is_space c"
proof -
  have "list_all (\<lambda>c. ascii_upper c = c \<and> is_ascii c \<and> \<not> is_space c) ''ABCDEFGHIJKLMNOPQRSTUVWXYZ0123456789:''"
    by code_simp
  then show "token_char c \<Longrightarrow> ascii_upper c = c" "token_char c \<Longrightarrow> is_ascii c"
    "token_char c \<Longrightarrow> \<not> is_space c"
    unfolding token_char_def list_all_iff by blast+
qed

lemma strip_no_space: "list_all (\<lambda>c. \<not> is_space c) s \<Longrightarrow> strip s = s"
proof -
  have d: "list_all (\<lambda>c. \<not> is_space c) t \<Longrightarrow> dropWhile is_space t = t" for t
    by (cases t) auto
  assume s: "list_all (\<lambda>c. \<not> is_space c) s"
  then have "list_all (\<lambda>c. \<not> is_space c) (rev s)" by (simp add: list_all_iff)
  with s show ?thesis by (simp add: strip_def d)
qed

lemma b32_char_mem: "digit_below 32 d \<Longrightarrow> b32_char d \<in> set b32_alphabet"
proof -
  assume d: "digit_below 32 d"
  have "length b32_alphabet = 32" by (simp add: b32_alphabet_def)
  with d show ?thesis by (auto simp: b32_char_def digit_below_def nat_less_iff intro: nth_mem)
qed

lemma body_alphabet: "set (b32_body bs) \<subseteq> set b32_alphabet"
proof -
  have q: "set (b32_quantum xs) \<subseteq> set b32_alphabet" for xs
    using to_digits_below [of 32 8 "from_digits 256 xs"]
    by (auto simp: b32_quantum_def list_all_iff intro: b32_char_mem)
  show ?thesis
  proof (induction bs rule: b32_body.induct)
    case (1 a b c d e rest)
    with q [of "[a, b, c, d, e]"] show ?case by simp
  qed (use q in \<open>auto dest: in_set_takeD\<close>)
qed

lemma swap_back: "CHR ''9'' \<notin> set s \<Longrightarrow>
  swap_char (CHR ''9'') (CHR ''2'') (swap_char (CHR ''2'') (CHR ''9'') s) = s"
  by (induction s) (auto simp: swap_char_def)

lemma swapped_token_chars:
  "set s \<subseteq> set b32_alphabet \<Longrightarrow> list_all token_char (swap_char (CHR ''2'') (CHR ''9'') s)"
proof -
  have "list_all (\<lambda>c. token_char (if c = CHR ''2'' then CHR ''9'' else c)) b32_alphabet"
    by code_simp
  then show "set s \<subseteq> set b32_alphabet \<Longrightarrow> ?thesis"
    unfolding swap_char_def list_all_iff set_map by blast
qed

lemma encode_token_body:
  "encode_token version bs = TOKEN_PREFIX @ version # swap_char (CHR ''2'') (CHR ''9'') (b32_body bs)"
  by (simp add: encode_token_def b32encode_body rstrip_eq_append body_chars)

lemma encode_token_chars:
  assumes "version \<in> {CHR ''0'', CHR ''1''}"
  shows "list_all token_char (encode_token version bs)"
proof -
  have "list_all token_char TOKEN_PREFIX" "token_char (CHR ''0'')" "token_char (CHR ''1'')"
    by code_simp+
  then show ?thesis
    unfolding encode_token_body
    using swapped_token_chars [OF body_alphabet [of bs]] assms by auto
qed

lemma strip_encode_token:
  "version \<in> {CHR ''0'', CHR ''1''} \<Longrightarrow> strip (encode_token version bs) = encode_token version bs"
  using encode_token_chars [of version bs]
  by (auto simp: list_all_iff token_char_facts intro: strip_no_space)

lemma token_roundtrip:
  assumes "is_bytes bs" and "version \<in> {CHR ''0'', CHR ''1''}"
  shows "decode_token (encode_token version bs) version = Inr bs"
proof -
  let ?b = "swap_char (CHR ''2'') (CHR ''9'') (b32_body bs)"
  let ?t = "TOKEN_PREFIX @ version # ?b"
  have chars: "list_all token_char ?t"
    using encode_token_chars [OF assms(2), of bs] unfolding encode_token_body .
  then have t: "strip ?t = ?t" "map ascii_upper ?t = ?t" "list_all is_ascii ?t"
    by (auto simp: list_all_iff token_char_facts intro!: strip_no_space map_idI)
  have "CHR ''9'' \<notin> set b32_alphabet" by code_simp
  then have nine: "CHR ''9'' \<notin> set (b32_body bs)"
    using body_alphabet [of bs] by blast
  have len: "length ?b = length (b32_body bs)" by (simp add: swap_char_def)
  have up: "removeprefix (map ascii_upper ?t) TOKEN_PREFIX = version # ?b"
    unfolding t by (simp add: removeprefix_def)
  have dec: "b32decode (swap_char (CHR ''9'') (CHR ''2'') ?b
      @ replicate (nat ((- int (length ?b)) mod 8)) (CHR ''='')) = Some bs"
    unfolding len swap_back [OF nine] body_pad(1) by (rule b32decode_body [OF assms(1)])
  show ?thesis
    unfolding encode_token_body decode_token_def Let_def t(1) up
    using t(3) dec by simp
qed

section \<open>The tokens\<close>

lemma decode_psk_encoded:
  assumes "is_bytes key" and "is_bytes psk" and "length key = KEY_SIZE"
    and "length psk = PSK_TOKEN_SIZE - KEY_SIZE"
  shows "decode_psk_token (encode_token PSK_TOKEN_VERSION (key @ psk)) =
    Inr \<lparr>pt_client_id = b64url_encode key, pt_pairing_psk = psk\<rparr>"
proof -
  have "decode_token (encode_token PSK_TOKEN_VERSION (key @ psk)) PSK_TOKEN_VERSION = Inr (key @ psk)"
    using assms(1,2) by (intro token_roundtrip) (auto simp: PSK_TOKEN_VERSION_def)
  moreover have "KEY_SIZE \<le> PSK_TOKEN_SIZE" by (simp add: PSK_TOKEN_SIZE_def)
  ultimately show ?thesis
    using assms(3,4) by (simp add: decode_psk_token_def)
qed

lemma code_token_roundtrip:
  assumes "is_bytes code" and "length code = QR_CODE_SIZE"
  shows "encode_pairing_code_token code = Inr (encode_token PAIRING_CODE_TOKEN_VERSION code)"
    and "decode_pairing_code_token (encode_token PAIRING_CODE_TOKEN_VERSION code) = Inr code"
proof -
  have "decode_token (encode_token PAIRING_CODE_TOKEN_VERSION code) PAIRING_CODE_TOKEN_VERSION = Inr code"
    using assms(1) by (intro token_roundtrip) (auto simp: PAIRING_CODE_TOKEN_VERSION_def)
  then show "decode_pairing_code_token (encode_token PAIRING_CODE_TOKEN_VERSION code) = Inr code"
    using assms(2) by (simp add: decode_pairing_code_token_def)
qed (simp add: encode_pairing_code_token_def assms(2))

lemma read_quanta_bytes: "read_quanta n s = Some bs \<Longrightarrow> is_bytes bs"
proof (induction n s arbitrary: bs rule: read_quanta.induct)
  case (2 fuel s)
  then show ?case
    by (cases "s = []") (auto simp: to_digits_below split: option.splits)
qed simp

lemma decode_token_bytes: "decode_token value v = Inr bs \<Longrightarrow> is_bytes bs"
  by (auto simp: decode_token_def b32decode_def Let_def list_all_iff
      dest!: read_quanta_bytes in_set_takeD split: if_splits list.splits option.splits)

lemma decode_code_bytes:
  "decode_pairing_code_token value = Inr code \<Longrightarrow> is_bytes code \<and> length code = QR_CODE_SIZE"
  by (auto simp: decode_pairing_code_token_def py_simps list_all_iff
      dest!: decode_token_bytes in_set_takeD split: if_splits)

lemma strip_strip [simp]: "strip (strip s) = strip s"
proof -
  have d: "t = [] \<or> \<not> is_space (hd t) \<Longrightarrow> dropWhile is_space t = t" for t
    by (cases t) auto
  have hd_drop: "dropWhile is_space t = [] \<or> \<not> is_space (hd (dropWhile is_space t))" for t
    using hd_dropWhile [of is_space t] by blast
  define u where "u = dropWhile is_space s"
  define v where "v = rev (dropWhile is_space (rev u))"
  have "v = [] \<or> \<not> is_space (hd v)"
  proof (cases "v = []")
    case False
    then obtain w where w: "u = v @ w"
      unfolding v_def by (metis dropWhile_append2 rev_append rev_rev_ident takeWhile_dropWhile_id)
    then have h: "hd v = hd u" "u \<noteq> []" using False by simp_all
    from h(2) have "\<not> is_space (hd u)" using hd_drop [of s] unfolding u_def by blast
    with h(1) show ?thesis by metis
  qed simp
  then have "dropWhile is_space v = v" by (rule d)
  moreover have "dropWhile is_space (rev v) = rev v"
    unfolding v_def using hd_drop [of "rev u"] by (intro d) simp
  ultimately show ?thesis by (simp add: strip_def u_def [symmetric] v_def [symmetric])
qed

lemma decode_token_strip: "decode_token (strip value) v = decode_token value v"
  by (simp add: decode_token_def)

lemma exact_token:
  "(\<exists>code. decode_pairing_code_token text = Inr code \<and> encode_pairing_code_token code = Inr (strip text))
   \<longleftrightarrow> (\<exists>code. is_bytes code \<and> length code = QR_CODE_SIZE
         \<and> strip text = encode_token PAIRING_CODE_TOKEN_VERSION code)"
proof
  assume "\<exists>code. decode_pairing_code_token text = Inr code \<and> encode_pairing_code_token code = Inr (strip text)"
  then show "\<exists>code. is_bytes code \<and> length code = QR_CODE_SIZE
         \<and> strip text = encode_token PAIRING_CODE_TOKEN_VERSION code"
    using decode_code_bytes code_token_roundtrip(1) by fastforce
next
  assume "\<exists>code. is_bytes code \<and> length code = QR_CODE_SIZE
         \<and> strip text = encode_token PAIRING_CODE_TOKEN_VERSION code"
  then obtain code where code: "is_bytes code" "length code = QR_CODE_SIZE"
    "strip text = encode_token PAIRING_CODE_TOKEN_VERSION code" by blast
  have "decode_pairing_code_token text = decode_pairing_code_token (strip text)"
    by (simp add: decode_pairing_code_token_def decode_token_strip)
  with code code_token_roundtrip [OF code(1,2)]
  show "\<exists>code. decode_pairing_code_token text = Inr code \<and> encode_pairing_code_token code = Inr (strip text)"
    by auto
qed

end
