(* ===== verification/Suite_Checks.thy ===== *)
theory Suite_Checks
  imports Checks Pairing_Token
begin

text \<open>
  \<open>validator/suite_checks.py\<close>: the checks of the unpaired, pairing and post-pairing suites over
  the frames and events of one connection. As in \<open>Checks\<close>, a check that can raise returns the
  exception.
\<close>

section \<open>Tables\<close>

definition SUITE_REFS :: "(string \<times> string) list" where
  "SUITE_REFS = [
     (''UNPAIRED-001'', ''connection.md:105, connection.md:119''),
     (''UNPAIRED-002'', ''messaging.md:251-253, messaging.md:257''),
     (''UNPAIRED-003'', ''pairing.md:47, messaging.md:297-299''),
     (''UNPAIRED-004'', ''messaging.md:251-255''),
     (''PAIR-PSK-001'', ''pairing.md:246-268''),
     (''PAIR-PSK-002'', ''pairing.md:86-95''),
     (''PAIR-PSK-003'', ''pairing.md:79, pairing.md:83, connection.md:147-151''),
     (''PAIR-PSK-004'', ''pairing.md:59, pairing.md:84, pairing.md:327, pairing.md:338-341''),
     (''PAIR-PSK-005'', ''pairing.md:59, pairing.md:388-390''),
     (''PAIR-PSK-006'', ''pairing.md:3, pairing.md:23, connection.md:147-151''),
     (''PAIR-PSK-007'', ''messaging.md:239-241, connection.md:151''),
     (''POSTPAIR-001'', ''connection.md:119-121, pairing.md:23''),
     (''POSTPAIR-002'', ''connection.md:119, connection.md:123-129''),
     (''POSTPAIR-003'', ''messaging.md:450-456, messaging.md:473''),
     (''POSTPAIR-004'', ''messaging.md:456, connection.md:125''),
     (''POSTPAIR-005'', ''pairing.md:23''),
     (''POSTPAIR-006'', ''roles/player/v1.md:59'')]"

definition LONG_TERM :: string where "LONG_TERM = ''long_term''"
definition PAIRING :: string where "PAIRING = ''pairing''"
definition SENTINEL :: string where "SENTINEL = ''sentinel''"
definition FALLBACK :: string where "FALLBACK = ''sentinel_fallback''"

definition KEYING_NAMES :: "(string \<times> string) list" where
  "KEYING_NAMES = [
     (LONG_TERM, ''the long-term PSK''),
     (PAIRING, ''the pairing PSK''),
     (SENTINEL, ''the Sentinel PSK''),
     (FALLBACK, ''a Sentinel fallback from the long-term PSK'')]"

definition REFERENCED :: "(string \<times> string) list" where
  "REFERENCED = [
     (LONG_TERM, ''the long-term PSK''),
     (PAIRING, ''the pairing PSK''),
     (SENTINEL, ''the Sentinel PSK''),
     (FALLBACK, ''the long-term PSK'')]"

definition REFUSALS :: "string list" where
  "REFUSALS = [''pair/abort'', ''client/goodbye'']"

definition PAIRING_MESSAGES :: "string list" where
  "PAIRING_MESSAGES = [''client/pair-init'', ''client/pair-pending'', ''client/pair-auth'',
     ''client/pair-confirm'', ''client/pair-retry'']"

section \<open>Helpers\<close>

definition suite_finding :: "string \<Rightarrow> verdict \<Rightarrow> string \<Rightarrow> recorded_frame list \<Rightarrow> finding py" where
  "suite_finding check_id v msg frames = ref_finding SUITE_REFS check_id v msg (map fr_id frames)"

definition n_a :: "string \<Rightarrow> string \<Rightarrow> finding py" where
  "n_a check_id msg = suite_finding check_id NOT_APPLICABLE msg []"

definition suite_not_reached :: "string \<Rightarrow> finding py" where
  "suite_not_reached check_id =
     n_a check_id ''not reached: the connection ended at an earlier failure''"

definition lookup_key :: "(string \<times> 'a) list \<Rightarrow> string \<Rightarrow> 'a py" where
  "lookup_key d k = (case map_of d k of None \<Rightarrow> Inl (key_error k) | Some v \<Rightarrow> Inr v)"

definition is_in :: "string \<Rightarrow> recorded_frame \<Rightarrow> bool" where
  "is_in message_type f \<longleftrightarrow> inbound f \<and> fr_phase f = ''transport'' \<and> frame_type f = Some message_type"

definition is_out :: "string \<Rightarrow> recorded_frame \<Rightarrow> bool" where
  "is_out message_type f \<longleftrightarrow>
     \<not> inbound f \<and> fr_phase f = ''transport'' \<and> frame_type f = Some message_type"

definition describe :: "recorded_frame \<Rightarrow> string" where
  "describe f = (
     let reason = dict_get ''reason'' (payload_or f);
         name = (case frame_type f of None \<Rightarrow> ''None'' | Some t \<Rightarrow> t)
     in if reason \<noteq> VNone then name @ '' '' @ py_repr reason else name)"

definition first_after ::
  "connection_record \<Rightarrow> int \<Rightarrow> (recorded_frame \<Rightarrow> bool) \<Rightarrow> recorded_frame option" where
  "first_after c since holds = find (\<lambda>f. fr_id f > since \<and> holds f) (cr_frames c)"

definition first_inbound ::
  "connection_record \<Rightarrow> recorded_frame \<Rightarrow> string list option \<Rightarrow> recorded_frame option" where
  "first_inbound c after types = first_after c (fr_id after)
     (\<lambda>f. inbound f \<and> fr_phase f = ''transport'' \<and> frame_type f \<noteq> Some ''client/time''
        \<and> (case types of None \<Rightarrow> True | Some ts \<Rightarrow> frame_type f \<in> Some ` set ts))"

definition activities :: "pydict \<Rightarrow> pyval list" where
  "activities p = (case dict_get ''activities'' p of VList vs \<Rightarrow> vs | _ \<Rightarrow> [])"

definition unpaired_access :: "connection_record \<Rightarrow> bool option" where
  "unpaired_access c = (case first_of (inbound_of c ''client/hello'' ''transport'') of
     None \<Rightarrow> None
   | Some hello \<Rightarrow> (case dict_get ''unpaired_access'' (payload_or hello) of
       VDict d \<Rightarrow> (case dict_get ''enabled'' d of VBool b \<Rightarrow> Some b | _ \<Rightarrow> None)
     | _ \<Rightarrow> None))"

definition not_run :: "string list \<Rightarrow> verdict \<Rightarrow> string \<Rightarrow> finding list py" where
  "not_run check_ids v msg = collect (map (\<lambda>cid. suite_finding cid v msg []) check_ids)"

fun count_pairings :: "int \<Rightarrow> int \<Rightarrow> recorded_frame list \<Rightarrow> int" where
  "count_pairings upto_id count [] = count"
| "count_pairings upto_id count (f # fs) = (
     if fr_id f > upto_id then count
     else if \<not> inbound f \<and> frame_type f = Some ''noise/handshake'' then count_pairings upto_id 0 fs
     else if is_out ''server/activate'' f \<and> VStr ''pairing'' \<in> set (activities (payload_or f))
     then count_pairings upto_id (count + 1) fs
     else count_pairings upto_id count fs)"

definition pairing_activations_since_handshake ::
  "connection_record \<Rightarrow> recorded_frame \<Rightarrow> int" where
  "pairing_activations_since_handshake c activation =
     count_pairings (fr_id activation) 0 (cr_frames c)"

definition first_outbound_activation ::
  "connection_record \<Rightarrow> (pydict \<Rightarrow> bool) \<Rightarrow> recorded_frame option" where
  "first_outbound_activation c holds =
     find (\<lambda>f. holds (payload_or f)) (outbound_of c ''server/activate'' ''transport'')"

text \<open>\<open>next((x for x in xs if holds(x)), None)\<close> where \<open>holds\<close> can raise.\<close>

fun find_py :: "('a \<Rightarrow> bool py) \<Rightarrow> 'a list \<Rightarrow> 'a option py" where
  "find_py holds [] = Inr None"
| "find_py holds (x # xs) = py_bind (holds x) (\<lambda>b. if b then Inr (Some x) else find_py holds xs)"

text \<open>\<open>(value or {}).get(key)\<close>: a truthy value that is no dict has no \<open>get\<close>.\<close>

definition get_in :: "pyval \<Rightarrow> string \<Rightarrow> pyval py" where
  "get_in v key = (case v of
     VDict d \<Rightarrow> Inr (dict_get key d)
   | _ \<Rightarrow> if truthy v
         then Inl (PyExc ''AttributeError''
                (sq @ type_name v @ sq @ '' object has no attribute '' @ sq @ ''get'' @ sq))
         else Inr VNone)"

definition pairing_activation :: "connection_record \<Rightarrow> int \<Rightarrow> recorded_frame option py" where
  "pairing_activation c since = find_py
     (\<lambda>f. if fr_id f > since \<and> is_out ''server/activate'' f
             \<and> VStr ''pairing'' \<in> set (activities (payload_or f))
          then py_bind (get_in (dict_get ''pairing'' (payload_or f)) ''method'')
                 (\<lambda>m. Inr (m = VStr ''pairing_psk''))
          else Inr False)
     (cr_frames c)"

definition output_delay :: "recorded_frame \<Rightarrow> int option" where
  "output_delay f = (case dict_get ''player'' (payload_or f) of
     VDict d \<Rightarrow> (case dict_get ''output_delay_ms'' d of VInt n \<Rightarrow> Some n | _ \<Rightarrow> None)
   | _ \<Rightarrow> None)"

definition keyed_events :: "connection_record \<Rightarrow> recorded_event list" where
  "keyed_events c = filter (\<lambda>e. ev_kind e = KEYED) (cr_events c)"

definition event_frame :: "recorded_event \<Rightarrow> int" where
  "event_frame e = (case ev_after_frame e of None \<Rightarrow> 0 | Some i \<Rightarrow> i)"

definition initial_keying :: "connection_record \<Rightarrow> string option" where
  "initial_keying c = (case first_of (keyed_events c) of
     None \<Rightarrow> None
   | Some keyed \<Rightarrow>
       if list_ex (\<lambda>e. ev_kind e = CREDENTIAL_MISMATCH) (cr_events c) then Some FALLBACK
       else ev_psk_category keyed)"

definition judge_keying ::
  "connection_record \<Rightarrow> string \<Rightarrow> string \<Rightarrow> string \<Rightarrow> string option \<Rightarrow> finding list py" where
  "judge_keying c check_id expected passed kept = (
     let message_1 = first_of (outbound_of c ''noise/handshake'' ''cleartext'') in
     case initial_keying c of
       None \<Rightarrow>
         (case message_1 of
            None \<Rightarrow> one (suite_not_reached check_id)
          | Some m1 \<Rightarrow>
              if rejected c \<or> list_ex (\<lambda>f. fr_phase f = ''transport'') (cr_frames c)
              then one (suite_not_reached check_id)
              else py_bind (lookup_key KEYING_NAMES expected) (\<lambda>name.
                (case first_of (inbound_of c ''noise/handshake'' ''cleartext'') of
                   None \<Rightarrow> one (suite_finding check_id FAIL
                     (''the client did not answer Noise message 1, expected to match '' @ name) [m1])
                 | Some m2 \<Rightarrow> one (suite_finding check_id FAIL
                     (''the client's Noise message 2 did not verify, expected to match '' @ name)
                     [m1, m2]))))
     | Some keying \<Rightarrow>
         (let frames = (case message_1 of None \<Rightarrow> [] | Some m1 \<Rightarrow> [m1]) in
          if keying = expected then one (suite_finding check_id PASS passed frames)
          else py_bind (lookup_key REFERENCED keying) (\<lambda>got.
               py_bind (lookup_key REFERENCED expected) (\<lambda>want.
               if got \<noteq> want
               then one (suite_finding check_id TOOL_ERROR
                      (''the validator referenced '' @ got @ '', not '' @ want
                       @ '', so the step tested nothing'') frames)
               else (case (if keying = LONG_TERM then kept else None) of
                  Some text \<Rightarrow> one (suite_finding check_id FAIL text frames)
                | None \<Rightarrow> py_bind (lookup_key KEYING_NAMES keying) (\<lambda>name.
                           py_bind (lookup_key KEYING_NAMES expected) (\<lambda>other.
                           one (suite_finding check_id FAIL
                             (''the session was keyed by '' @ name @ '', not '' @ other) frames))))))))"

definition judge_refusal ::
  "connection_record \<Rightarrow> string \<Rightarrow> recorded_frame \<Rightarrow> string \<Rightarrow> finding list py" where
  "judge_refusal c check_id activation reason = (
     case first_inbound c activation (Some [''client/goodbye'']) of
       Some goodbye \<Rightarrow>
         (let said = dict_get ''reason'' (payload_or goodbye) in
          if said = VStr reason
          then one (suite_finding check_id PASS
                 (''the client refused the activation with client/goodbye '' @ repr_str reason)
                 [activation, goodbye])
          else one (suite_finding check_id FAIL
                 (''the client refused the activation with goodbye '' @ py_repr said @ '', not ''
                  @ repr_str reason) [activation, goodbye]))
     | None \<Rightarrow>
         if rejected c then one (suite_not_reached check_id)
         else (case first_inbound c activation None of
           Some response \<Rightarrow> one (suite_finding check_id FAIL
             (''the client answered the activation with '' @ describe response
              @ '', not client/goodbye '' @ repr_str reason) [activation, response])
         | None \<Rightarrow> one (suite_finding check_id FAIL
             (''the client ''
              @ (if closed c then ''closed the connection'' else ''kept the connection open'')
              @ '' without client/goodbye '' @ repr_str reason) [activation])))"

definition judge_abort :: "connection_record \<Rightarrow> recorded_frame \<Rightarrow> finding list py" where
  "judge_abort c activation = (
     case first_inbound c activation (Some REFUSALS) of
       None \<Rightarrow> one (suite_finding ''UNPAIRED-004'' FAIL
         (''the client answered with nothing, not pair/abort 'method_not_supported'' @ sq) [activation])
     | Some response \<Rightarrow>
         if frame_type response \<noteq> Some ''pair/abort''
         then one (suite_finding ''UNPAIRED-004'' FAIL
                (''the client answered with '' @ describe response
                 @ '', not pair/abort 'method_not_supported'' @ sq) [activation, response])
         else (let reason = dict_get ''reason'' (payload_or response) in
           if reason \<noteq> VStr ''method_not_supported''
           then one (suite_finding ''UNPAIRED-004'' FAIL
                  (''the client aborted with '' @ py_repr reason
                   @ '', not 'method_not_supported'' @ sq) [activation, response])
           else if closed c
           then one (suite_finding ''UNPAIRED-004'' FAIL
                  ''the client aborted with 'method_not_supported' but closed the connection''
                  [activation, response])
           else one (suite_finding ''UNPAIRED-004'' PASS
                  ''the client aborted with 'method_not_supported' and kept the connection''
                  [activation, response])))"

section \<open>The pairing token and the unpaired suite\<close>

definition check_pairing_token :: "string \<Rightarrow> string option \<Rightarrow> finding list py" where
  "check_pairing_token token client_id = (case decode_psk_token token of
     Inl err \<Rightarrow> collect [
       suite_finding ''PAIR-PSK-001'' FAIL (''the pairing token does not decode: '' @ exc_text err) [],
       suite_finding ''PAIR-PSK-002'' NOT_APPLICABLE ''no decoded token to compare'' []]
   | Inr decoded \<Rightarrow>
       (let decodes = suite_finding ''PAIR-PSK-001'' PASS ''the pairing token decodes as version 0'' []
        in case client_id of
          None \<Rightarrow> collect [decodes,
            suite_finding ''PAIR-PSK-002'' NOT_APPLICABLE ''the client sent no client_id'' []]
        | Some cid \<Rightarrow>
            if pt_client_id decoded \<noteq> cid
            then collect [decodes,
              suite_finding ''PAIR-PSK-002'' FAIL
                (''the token's client_key is '' @ pt_client_id decoded
                 @ '', not the connected client_id '' @ cid) []]
            else collect [decodes,
              suite_finding ''PAIR-PSK-002'' PASS
                ''the token's client_key is the connected client_id'' []]))"

definition check_sentinel_handshake :: check where
  "check_sentinel_handshake c = judge_keying c ''UNPAIRED-001'' SENTINEL
     ''the client completed the handshake on the Sentinel PSK'' None"

definition check_pairing_required :: check where
  "check_pairing_required c = (
     if unpaired_access c \<noteq> Some False
     then one (n_a ''UNPAIRED-002'' ''the client/hello did not report unpaired access disabled'')
     else (case first_outbound_activation c (\<lambda>p. VStr ''playback'' \<in> set (activities p)) of
       None \<Rightarrow> one (n_a ''UNPAIRED-002'' ''the validator did not declare playback'')
     | Some activation \<Rightarrow> judge_refusal c ''UNPAIRED-002'' activation ''pairing_required''))"

definition check_unpaired_playback :: check where
  "check_unpaired_playback c = (
     if unpaired_access c \<noteq> Some True
     then one (n_a ''UNPAIRED-003'' ''the client/hello did not report unpaired access enabled'')
     else (case first_outbound_activation c (\<lambda>p. truthy (dict_get ''active_roles'' p)) of
       None \<Rightarrow> one (suite_finding ''UNPAIRED-003'' TOOL_ERROR
         ''the validator activated no roles, though unpaired access is enabled'' [])
     | Some activation \<Rightarrow>
         (case first_inbound c activation (Some (''client/state'' # REFUSALS)) of
            Some response \<Rightarrow>
              if frame_type response = Some ''client/state''
              then one (suite_finding ''UNPAIRED-003'' PASS
                     ''the client accepted the unpaired activation and sent client/state''
                     [activation, response])
              else one (suite_finding ''UNPAIRED-003'' FAIL
                     (''the client refused an admissible unpaired activation with ''
                      @ describe response) [activation, response])
          | None \<Rightarrow>
              if rejected c then one (suite_not_reached ''UNPAIRED-003'')
              else py_bind (iter_values (let roles = dict_get ''active_roles'' (payload_or activation)
                                         in if truthy roles then roles else VList []))
                (\<lambda>roles. one (suite_finding ''UNPAIRED-003'' FAIL
                   (''no client/state followed the unpaired activation of ''
                    @ join '', '' (map py_str roles)) [activation])))))"

definition check_inadmissible_activation :: check where
  "check_inadmissible_activation c = (
     case first_outbound_activation c (\<lambda>p. VStr ''pairing'' \<in> set (activities p)) of
       None \<Rightarrow> one (n_a ''UNPAIRED-004'' ''the validator sent no inadmissible activation'')
     | Some activation \<Rightarrow> (case unpaired_access c of
         Some False \<Rightarrow> judge_refusal c ''UNPAIRED-004'' activation ''unauthorized''
       | Some True \<Rightarrow> judge_abort c activation
       | None \<Rightarrow> one (n_a ''UNPAIRED-004'' ''the client/hello did not report unpaired access'')))"

section \<open>The pairing suite\<close>

definition check_pairing_rehandshake :: "int \<Rightarrow> check" where
  "check_pairing_rehandshake since c = (
     case first_after c since (is_out ''noise/handshake'') of
       None \<Rightarrow> one (n_a ''PAIR-PSK-003'' ''the validator did not re-handshake to the pairing PSK'')
     | Some message_1 \<Rightarrow> (case first_after c (fr_id message_1) (is_in ''noise/handshake'') of
         None \<Rightarrow>
           if rejected c then one (suite_not_reached ''PAIR-PSK-003'')
           else one (suite_finding ''PAIR-PSK-003'' FAIL
                  (''the client did not answer the re-handshake onto its pairing PSK, which it ''
                   @ ''must keep among its handshake candidates'') [message_1])
       | Some message_2 \<Rightarrow> py_bind (pairing_activation c (fr_id message_2)) (\<lambda>activation.
           if activation = None
           then if rejected c then one (suite_not_reached ''PAIR-PSK-003'')
                else one (suite_finding ''PAIR-PSK-003'' FAIL
                       ''the client's Noise message 2 did not verify under its pairing PSK''
                       [message_1, message_2])
           else one (suite_finding ''PAIR-PSK-003'' PASS
                  ''the client completed the re-handshake onto its pairing PSK''
                  [message_1, message_2]))))"

definition pair_init_problems :: "pydict \<Rightarrow> int \<Rightarrow> string list" where
  "pair_init_problems p expected_index = (
     let index = dict_get ''pairing_index'' p in
     (if \<not> eq_int index expected_index \<or> is_bool index
      then [''pairing_index is '' @ py_repr index @ '', not '' @ int_str expected_index] else [])
     @ (if has_key ''commit_B'' p
        then [''it carries commit_B, which only the dynamic pairing code flow sends''] else []))"

definition check_pair_init :: "int \<Rightarrow> check" where
  "check_pair_init since c = py_bind (pairing_activation c since) (\<lambda>found. case found of
     None \<Rightarrow> one (n_a ''PAIR-PSK-004'' ''the validator sent no pairing_psk activation'')
   | Some activation \<Rightarrow>
       (case first_inbound c activation
               (Some ([''client/pair-init'', ''client/pair-finalize''] @ REFUSALS)) of
          None \<Rightarrow>
            if rejected c then one (suite_not_reached ''PAIR-PSK-004'')
            else one (suite_finding ''PAIR-PSK-004'' FAIL
                   ''the client did not answer the pairing activation with client/pair-init''
                   [activation])
        | Some response \<Rightarrow>
            if frame_type response \<noteq> Some ''client/pair-init''
            then one (suite_finding ''PAIR-PSK-004'' FAIL
                   (''the client answered the pairing activation with '' @ describe response
                    @ '', not client/pair-init'') [activation, response])
            else (let expected_index = pairing_activations_since_handshake c activation;
                      problems = pair_init_problems (payload_or response) expected_index
                  in if problems \<noteq> []
                     then one (suite_finding ''PAIR-PSK-004'' FAIL (join ''; '' problems)
                            [activation, response])
                     else one (suite_finding ''PAIR-PSK-004'' PASS
                            (''the client started the attempt with client/pair-init, pairing_index ''
                             @ int_str expected_index) [activation, response]))))"

definition finalize_problems :: "pydict \<Rightarrow> string list" where
  "finalize_problems p =
     (if \<not> is_str (dict_get ''long_term_psk'' p)
      then [''client/pair-finalize carries no long_term_psk string''] else [])
     @ (if has_key ''wrapped_psk'' p
        then [''client/pair-finalize carries wrapped_psk, which only code flows send''] else [])"

definition check_pair_finalize :: "int \<Rightarrow> check" where
  "check_pair_finalize since c = (
     case first_after c since (is_in ''client/pair-init'') of
       None \<Rightarrow> one (n_a ''PAIR-PSK-005'' ''the client sent no client/pair-init'')
     | Some pair_init \<Rightarrow>
         (case first_inbound c pair_init
                 (Some (''client/pair-finalize'' # PAIRING_MESSAGES @ REFUSALS)) of
            None \<Rightarrow>
              if rejected c then one (suite_not_reached ''PAIR-PSK-005'')
              else one (suite_finding ''PAIR-PSK-005'' FAIL
                     ''the client did not follow client/pair-init with client/pair-finalize''
                     [pair_init])
          | Some finalize \<Rightarrow>
              if frame_type finalize \<noteq> Some ''client/pair-finalize''
              then one (suite_finding ''PAIR-PSK-005'' FAIL
                     (''the client did not follow client/pair-init with client/pair-finalize, but ''
                      @ describe finalize) [pair_init, finalize])
              else if finalize_problems (payload_or finalize) \<noteq> []
              then one (suite_finding ''PAIR-PSK-005'' FAIL
                     (join ''; '' (finalize_problems (payload_or finalize))) [pair_init, finalize])
              else (case first_after c (fr_id finalize) (is_out ''server/pair-finalize'') of
                 None \<Rightarrow> one (suite_finding ''PAIR-PSK-005'' FAIL
                   (''aiosendspin did not accept the long_term_psk: it is not a 32-byte key in ''
                    @ ''43 characters of base64url, or it reuses the pairing or Sentinel PSK'')
                   [finalize])
               | Some acknowledged \<Rightarrow> one (suite_finding ''PAIR-PSK-005'' PASS
                   ''the client delivered a valid long_term_psk right after client/pair-init''
                   [pair_init, finalize, acknowledged]))))"

definition check_promotion :: "int \<Rightarrow> check" where
  "check_promotion since c = (
     case first_after c since (is_out ''server/pair-finalize'') of
       None \<Rightarrow> one (n_a ''PAIR-PSK-006'' ''the pairing did not reach server/pair-finalize'')
     | Some acknowledged \<Rightarrow>
         (case first_after c (fr_id acknowledged) (is_out ''noise/handshake'') of
            None \<Rightarrow> one (n_a ''PAIR-PSK-006'' ''the validator did not re-handshake after the finalize'')
          | Some message_1 \<Rightarrow>
              (case first_after c (fr_id message_1) (is_in ''noise/handshake'') of
                 None \<Rightarrow>
                   if rejected c then one (suite_not_reached ''PAIR-PSK-006'')
                   else one (suite_finding ''PAIR-PSK-006'' FAIL
                     ''the client did not answer the re-handshake to the long-term PSK it delivered''
                     [acknowledged, message_1])
               | Some message_2 \<Rightarrow>
                   if (case first_of (filter (\<lambda>e. event_frame e > fr_id acknowledged) (keyed_events c)) of
                         None \<Rightarrow> False | Some keyed \<Rightarrow> ev_psk_category keyed = Some LONG_TERM)
                   then one (suite_finding ''PAIR-PSK-006'' PASS
                          ''the client re-handshook to the long-term PSK it delivered''
                          [message_1, message_2])
                   else one (suite_finding ''PAIR-PSK-006'' FAIL
                          (''the re-handshake after server/pair-finalize did not key the session ''
                           @ ''with the long-term PSK'') [message_1, message_2]))))"

definition check_paired_activation :: "int \<Rightarrow> check" where
  "check_paired_activation since c = (
     let activation =
       (case first_after c since (is_out ''server/pair-finalize'') of
          None \<Rightarrow> None
        | Some acknowledged \<Rightarrow> (case first_after c (fr_id acknowledged) (is_in ''noise/handshake'') of
            None \<Rightarrow> None
          | Some message_2 \<Rightarrow> first_after c (fr_id message_2) (is_out ''server/activate'')))
     in case activation of
       None \<Rightarrow> one (n_a ''PAIR-PSK-007'' ''no activation followed a long-term re-handshake'')
     | Some act \<Rightarrow> (case first_inbound c act (Some REFUSALS) of
         Some refusal \<Rightarrow> one (suite_finding ''PAIR-PSK-007'' FAIL
           (''the client refused the paired activation with '' @ describe refusal) [act, refusal])
       | None \<Rightarrow>
           if closed c
           then one (suite_finding ''PAIR-PSK-007'' FAIL
                  ''the connection ended after the paired activation'' [act])
           else one (suite_finding ''PAIR-PSK-007'' PASS
                  ''the client accepted the activation on the paired session'' [act])))"

section \<open>The post-pairing suite\<close>

definition check_long_term_reconnect :: check where
  "check_long_term_reconnect c = judge_keying c ''POSTPAIR-001'' LONG_TERM
     ''the client matched the long-term PSK from pairing, bound to this server_id'' None"

definition check_forgotten_reconnect :: check where
  "check_forgotten_reconnect c = (
     case first_outbound_activation c (\<lambda>p. VStr ''playback'' \<in> set (activities p)
              \<or> truthy (dict_get ''active_roles'' p)) of
       Some declared \<Rightarrow> one (suite_finding ''POSTPAIR-002'' TOOL_ERROR
         ''the validator activated playback or roles on a forgotten client'' [declared])
     | None \<Rightarrow> judge_keying c ''POSTPAIR-002'' SENTINEL
         ''the client accepted the Sentinel handshake from a server that forgot it'' None)"

definition check_unpair_goodbye :: check where
  "check_unpair_goodbye c = (
     case first_of (outbound_of c ''server/unpair'' ''transport'') of
       None \<Rightarrow> one (n_a ''POSTPAIR-003'' ''the validator sent no server/unpair'')
     | Some unpair \<Rightarrow>
         (let keyed = filter (\<lambda>e. event_frame e < fr_id unpair) (keyed_events c) in
          if keyed = [] \<or> ev_psk_category (last keyed) \<noteq> Some LONG_TERM
          then one (n_a ''POSTPAIR-003'' ''the session was not keyed by the long-term PSK'')
          else (case first_inbound c unpair (Some [''client/goodbye'']) of
            None \<Rightarrow> one (suite_finding ''POSTPAIR-003'' FAIL
              (''the client did not answer server/unpair with client/goodbye 'unpaired'' @ sq) [unpair])
          | Some goodbye \<Rightarrow>
              (let reason = dict_get ''reason'' (payload_or goodbye) in
               if reason \<noteq> VStr ''unpaired''
               then one (suite_finding ''POSTPAIR-003'' FAIL
                      (''the client answered server/unpair with goodbye '' @ py_repr reason
                       @ '', not 'unpaired'' @ sq) [unpair, goodbye])
               else one (suite_finding ''POSTPAIR-003'' PASS
                      (''the client answered server/unpair with client/goodbye 'unpaired'' @ sq)
                      [unpair, goodbye])))))"

definition check_record_dropped :: check where
  "check_record_dropped c = judge_keying c ''POSTPAIR-004'' FALLBACK
     ''the client no longer holds the unpaired record and fell back to the Sentinel''
     (Some ''the client still holds the pairing record it was told to drop by server/unpair'')"

definition check_restart_keeps_pairing :: check where
  "check_restart_keeps_pairing c = judge_keying c ''POSTPAIR-005'' LONG_TERM
     ''the client kept its pairing record across the restart'' None"

definition check_restart_keeps_output_delay ::
  "connection_record \<Rightarrow> connection_record \<Rightarrow> int option \<Rightarrow> finding list py" where
  "check_restart_keeps_output_delay before after commanded = (case commanded of
     None \<Rightarrow> one (n_a ''POSTPAIR-006''
       (''the validator could not set an output delay: the player does not offer ''
        @ ''set_output_delay, or did not report the delay it was set to''))
   | Some delay \<Rightarrow>
       (case first_of (filter (\<lambda>f. output_delay f = Some delay)
               (inbound_of before ''client/state'' ''transport'')) of
          None \<Rightarrow> Inl StopIteration
        | Some echo \<Rightarrow>
            (case first_of (filter (\<lambda>f. output_delay f \<noteq> None)
                    (inbound_of after ''client/state'' ''transport'')) of
               None \<Rightarrow> one (n_a ''POSTPAIR-006'' ''the client reported no player output_delay_ms after'')
             | Some state \<Rightarrow>
                 (let now = the (output_delay state) in
                  if now \<noteq> delay
                  then one (suite_finding ''POSTPAIR-006'' FAIL
                         (''output_delay_ms was set to '' @ int_str delay
                          @ '' before the restart and is '' @ int_str now @ '' after'') [echo, state])
                  else one (suite_finding ''POSTPAIR-006'' PASS
                         (''output_delay_ms stayed '' @ int_str now @ '' across the restart'')
                         [echo, state])))))"

end
