(* ===== verification/Suite_Facts.thy ===== *)
theory Suite_Facts
  imports Suite_Checks Check_Facts
begin

text \<open>
  What the suite checks of \<open>Suite_Checks\<close> promise: the helpers that search the frames, the
  contract each check keeps with the report, and the verdicts of the keying, token, pairing-index
  and output-delay checks.
\<close>

section \<open>Searching the frames\<close>

lemma find_Some_split:
  "find P xs = Some x \<longleftrightarrow> (\<exists>us vs. xs = us @ x # vs \<and> P x \<and> (\<forall>u \<in> set us. \<not> P u))"
proof (induction xs)
  case Nil
  show ?case by simp
next
  case (Cons y ys)
  have "(\<exists>us vs. y # ys = us @ x # vs \<and> P x \<and> (\<forall>u \<in> set us. \<not> P u)) \<longleftrightarrow>
     (y = x \<and> P x) \<or> (\<not> P y \<and> (\<exists>us vs. ys = us @ x # vs \<and> P x \<and> (\<forall>u \<in> set us. \<not> P u)))"
    (is "?l \<longleftrightarrow> ?r")
  proof
    assume ?l
    then obtain us vs where e: "y # ys = us @ x # vs" "P x" "\<forall>u \<in> set us. \<not> P u" by blast
    then show ?r by (cases us) auto
  next
    assume ?r
    then consider "y = x" "P x" | us vs where "\<not> P y" "ys = us @ x # vs" "P x" "\<forall>u \<in> set us. \<not> P u"
      by blast
    then show ?l
    proof cases
      case 1
      then show ?thesis by (intro exI [of _ "[]"] exI [of _ ys]) simp
    next
      case 2
      then show ?thesis by (intro exI [of _ "y # us"] exI [of _ vs]) simp
    qed
  qed
  then show ?case using Cons.IH by auto
qed

lemma first_after_Some:
  "first_after c since P = Some f \<Longrightarrow> f \<in> set (cr_frames c) \<and> since < fr_id f \<and> P f"
  unfolding first_after_def find_Some_split by auto

lemma first_after_None: "first_after c since P = None \<longleftrightarrow> (\<forall>f \<in> set (cr_frames c). since < fr_id f \<longrightarrow> \<not> P f)"
  by (auto simp: first_after_def find_None_iff)

lemma first_inbound_Some:
  "first_inbound c a ts = Some f \<Longrightarrow> f \<in> set (cr_frames c) \<and> fr_id a < fr_id f \<and> inbound f
     \<and> (\<forall>l. ts = Some l \<longrightarrow> frame_type f \<in> Some ` set l)"
  unfolding first_inbound_def by (drule first_after_Some) auto

lemma first_activation_Some:
  "first_outbound_activation c P = Some f \<Longrightarrow> f \<in> set (cr_frames c) \<and> P (payload_or f)"
  unfolding first_outbound_activation_def find_Some_split
  by (metis in_set_conv_decomp set_outbound_of)

lemma find_py_Some: "find_py P xs = Inr (Some x) \<Longrightarrow> x \<in> set xs \<and> P x = Inr True"
  by (induction xs) (auto simp: py_simps split: if_splits)

lemma pairing_activation_Some:
  "pairing_activation c since = Inr (Some f) \<Longrightarrow> f \<in> set (cr_frames c) \<and> since < fr_id f
     \<and> is_out ''server/activate'' f"
  unfolding pairing_activation_def by (drule find_py_Some) (auto split: if_splits)

lemma first_of_Nil [simp]: "first_of [] = None"
  by (simp add: first_of_def)

lemmas suite_search =
  first_after_Some first_inbound_Some first_activation_Some pairing_activation_Some first_of_Some

section \<open>The contract with the report\<close>

text \<open>
  A module's \<open>_finding\<close>: for the ids its table knows it makes a machine finding over the frames it
  is given.
\<close>

locale finding_maker =
  fixes make :: "string \<Rightarrow> verdict \<Rightarrow> string \<Rightarrow> recorded_frame list \<Rightarrow> finding py"
    and table :: "(string \<times> string) list"
  assumes make_known: "cid \<in> fst ` set table \<Longrightarrow> make cid v msg fs = Inr \<lparr>fi_id = cid,
      fi_verdict = v, fi_spec_ref = the (map_of table cid), fi_message = msg,
      fi_evidence = MACHINE, fi_frames = map fr_id fs\<rparr>"
begin

lemma one_reports:
  "cid \<in> fst ` set table \<Longrightarrow>
   reports P [cid] (one (make cid v msg fs)) \<longleftrightarrow> P \<lparr>fi_id = cid, fi_verdict = v,
      fi_spec_ref = the (map_of table cid), fi_message = msg, fi_evidence = MACHINE,
      fi_frames = map fr_id fs\<rparr>"
  by (simp add: make_known one_def)

lemma one_cites:
  "cid \<in> fst ` set table \<Longrightarrow>
   reports (cites ids) [cid] (one (make cid v msg fs)) \<longleftrightarrow> fr_id ` set fs \<subseteq> ids"
  by (simp add: one_reports)

lemma one_verdict:
  "cid \<in> fst ` set table \<Longrightarrow> verdict_of (one (make cid v msg fs)) = Some v"
  by (simp add: make_known one_def)

lemma one_returns: "cid \<in> fst ` set table \<Longrightarrow> \<exists>f. one (make cid v msg fs) = Inr [f] \<and> fi_id f = cid"
  by (simp add: make_known one_def)

end

interpretation core_maker: finding_maker core_finding CORE_REFS
  by unfold_locales
    (auto simp: core_finding_def ref_finding_def map_of_eq_None_iff split: option.splits)

interpretation suite_maker: finding_maker suite_finding SUITE_REFS
  by unfold_locales
    (auto simp: suite_finding_def ref_finding_def map_of_eq_None_iff split: option.splits)

definition suite_ids :: "string list" where
  "suite_ids = map fst SUITE_REFS"

lemma suite_table_ids: "list_all (\<lambda>i. i \<in> set (map fst SUITE_REFS))
   [''UNPAIRED-001'', ''UNPAIRED-002'', ''UNPAIRED-003'', ''UNPAIRED-004'',
    ''PAIR-PSK-001'', ''PAIR-PSK-002'', ''PAIR-PSK-003'', ''PAIR-PSK-004'',
    ''PAIR-PSK-005'', ''PAIR-PSK-006'', ''PAIR-PSK-007'', ''POSTPAIR-001'',
    ''POSTPAIR-002'', ''POSTPAIR-003'', ''POSTPAIR-004'', ''POSTPAIR-005'',
    ''POSTPAIR-006'']"
  by code_simp

lemma suite_ids_known:
  "''UNPAIRED-001'' \<in> fst ` set SUITE_REFS" "''UNPAIRED-002'' \<in> fst ` set SUITE_REFS"
  "''UNPAIRED-003'' \<in> fst ` set SUITE_REFS" "''UNPAIRED-004'' \<in> fst ` set SUITE_REFS"
  "''PAIR-PSK-001'' \<in> fst ` set SUITE_REFS" "''PAIR-PSK-002'' \<in> fst ` set SUITE_REFS"
  "''PAIR-PSK-003'' \<in> fst ` set SUITE_REFS" "''PAIR-PSK-004'' \<in> fst ` set SUITE_REFS"
  "''PAIR-PSK-005'' \<in> fst ` set SUITE_REFS" "''PAIR-PSK-006'' \<in> fst ` set SUITE_REFS"
  "''PAIR-PSK-007'' \<in> fst ` set SUITE_REFS" "''POSTPAIR-001'' \<in> fst ` set SUITE_REFS"
  "''POSTPAIR-002'' \<in> fst ` set SUITE_REFS" "''POSTPAIR-003'' \<in> fst ` set SUITE_REFS"
  "''POSTPAIR-004'' \<in> fst ` set SUITE_REFS" "''POSTPAIR-005'' \<in> fst ` set SUITE_REFS"
  "''POSTPAIR-006'' \<in> fst ` set SUITE_REFS"
  using suite_table_ids by simp_all

lemmas suite_one_simps [simp] =
  suite_ids_known [THEN suite_maker.one_cites] suite_ids_known [THEN suite_maker.one_verdict]

lemmas suite_defs = n_a_def suite_not_reached_def

text \<open>What a suite check reports: its id, over frames of its connection.\<close>

abbreviation reports_of :: "connection_record \<Rightarrow> string \<Rightarrow> finding list py \<Rightarrow> bool" where
  "reports_of c cid r \<equiv> reports (cites (frame_ids c)) [cid] r"

lemma judge_keying_reports:
  assumes "cid \<in> fst ` set SUITE_REFS"
  shows "reports_of c cid (judge_keying c cid expected passed kept)"
  by (auto simp: judge_keying_def Let_def suite_defs suite_maker.one_cites [OF assms]
      set_inbound_of set_outbound_of dest!: suite_search intro!: reports_bind
      split: option.splits if_splits)

lemma judge_refusal_reports:
  assumes "cid \<in> fst ` set SUITE_REFS" and "activation \<in> set (cr_frames c)"
  shows "reports_of c cid (judge_refusal c cid activation reason)"
  using assms(2)
  by (auto simp: judge_refusal_def Let_def suite_defs suite_maker.one_cites [OF assms(1)]
      dest!: suite_search split: option.splits)

lemma judge_abort_reports:
  "activation \<in> set (cr_frames c) \<Longrightarrow> reports_of c ''UNPAIRED-004'' (judge_abort c activation)"
  by (auto simp: judge_abort_def Let_def dest!: suite_search split: option.splits)

lemma keying_check_reports:
  "reports_of c ''UNPAIRED-001'' (check_sentinel_handshake c)"
  "reports_of c ''POSTPAIR-001'' (check_long_term_reconnect c)"
  "reports_of c ''POSTPAIR-004'' (check_record_dropped c)"
  "reports_of c ''POSTPAIR-005'' (check_restart_keeps_pairing c)"
  by (simp_all add: check_sentinel_handshake_def check_long_term_reconnect_def
      check_record_dropped_def check_restart_keeps_pairing_def judge_keying_reports suite_ids_known)

lemma forgotten_reports: "reports_of c ''POSTPAIR-002'' (check_forgotten_reconnect c)"
  by (auto simp: check_forgotten_reconnect_def intro: judge_keying_reports suite_ids_known
      dest!: suite_search split: option.splits)

lemma pairing_required_reports: "reports_of c ''UNPAIRED-002'' (check_pairing_required c)"
  by (auto simp: check_pairing_required_def suite_defs intro: judge_refusal_reports suite_ids_known
      dest!: suite_search split: option.splits)

lemma unpaired_playback_reports: "reports_of c ''UNPAIRED-003'' (check_unpaired_playback c)"
  by (auto simp: check_unpaired_playback_def suite_defs dest!: suite_search intro!: reports_bind
      split: option.splits)

lemma inadmissible_reports: "reports_of c ''UNPAIRED-004'' (check_inadmissible_activation c)"
  by (auto simp: check_inadmissible_activation_def suite_defs dest!: suite_search
      intro: judge_refusal_reports judge_abort_reports suite_ids_known split: option.splits bool.splits)

lemma rehandshake_reports: "reports_of c ''PAIR-PSK-003'' (check_pairing_rehandshake since c)"
  by (auto simp: check_pairing_rehandshake_def suite_defs dest!: suite_search intro!: reports_bind
      split: option.splits)

lemma pair_init_reports: "reports_of c ''PAIR-PSK-004'' (check_pair_init since c)"
  by (auto simp: check_pair_init_def suite_defs Let_def dest!: suite_search intro!: reports_bind
      split: option.splits)

lemma pair_finalize_reports: "reports_of c ''PAIR-PSK-005'' (check_pair_finalize since c)"
  by (auto simp: check_pair_finalize_def suite_defs dest!: suite_search split: option.splits)

lemma promotion_reports: "reports_of c ''PAIR-PSK-006'' (check_promotion since c)"
  by (auto simp: check_promotion_def suite_defs dest!: first_after_Some split: option.splits)

lemma paired_activation_reports: "reports_of c ''PAIR-PSK-007'' (check_paired_activation since c)"
  by (auto simp: check_paired_activation_def suite_defs dest!: suite_search split: option.splits)

lemma unpair_reports: "reports_of c ''POSTPAIR-003'' (check_unpair_goodbye c)"
  by (auto simp: check_unpair_goodbye_def suite_defs Let_def set_outbound_of
      dest!: suite_search split: option.splits)

definition suite_table :: "int \<Rightarrow> (string \<times> check) list" where
  "suite_table since = [
     (''UNPAIRED-001'', check_sentinel_handshake),
     (''UNPAIRED-002'', check_pairing_required),
     (''UNPAIRED-003'', check_unpaired_playback),
     (''UNPAIRED-004'', check_inadmissible_activation),
     (''PAIR-PSK-003'', check_pairing_rehandshake since),
     (''PAIR-PSK-004'', check_pair_init since),
     (''PAIR-PSK-005'', check_pair_finalize since),
     (''PAIR-PSK-006'', check_promotion since),
     (''PAIR-PSK-007'', check_paired_activation since),
     (''POSTPAIR-001'', check_long_term_reconnect),
     (''POSTPAIR-002'', check_forgotten_reconnect),
     (''POSTPAIR-003'', check_unpair_goodbye),
     (''POSTPAIR-004'', check_record_dropped),
     (''POSTPAIR-005'', check_restart_keeps_pairing)]"

lemmas suite_check_reports =
  keying_check_reports forgotten_reports pairing_required_reports unpaired_playback_reports
  inadmissible_reports rehandshake_reports pair_init_reports pair_finalize_reports
  promotion_reports paired_activation_reports unpair_reports

lemma suite_table_reports:
  "(cid, chk) \<in> set (suite_table since) \<Longrightarrow> reports_of c cid (chk c)"
  by (auto simp: suite_table_def suite_check_reports)

section \<open>Nothing the client sends makes a suite check raise\<close>

definition returns :: "'a py \<Rightarrow> bool" where
  "returns r \<longleftrightarrow> (\<exists>x. r = Inr x)"

lemma returns_Inr [simp]: "returns (Inr x)"
  by (simp add: returns_def)

lemma returns_bind: "returns r \<Longrightarrow> (\<And>x. r = Inr x \<Longrightarrow> returns (f x)) \<Longrightarrow> returns (py_bind r f)"
  by (auto simp: returns_def)

lemma suite_returns: "cid \<in> fst ` set SUITE_REFS \<Longrightarrow> returns (one (suite_finding cid v msg fs))"
  unfolding returns_def using suite_maker.one_returns by fast

lemmas suite_return_simps [simp] = suite_ids_known [THEN suite_returns]

text \<open>What the validator itself sends and records: its activations are well typed.\<close>

definition own_activation_ok :: "recorded_frame \<Rightarrow> bool" where
  "own_activation_ok f \<longleftrightarrow>
     (let p = payload_or f in
      (\<not> truthy (dict_get ''pairing'' p) \<or> is_dict (dict_get ''pairing'' p))
      \<and> (\<not> truthy (dict_get ''active_roles'' p) \<or> is_list (dict_get ''active_roles'' p)))"

definition known_category :: "recorded_event \<Rightarrow> bool" where
  "known_category e \<longleftrightarrow> (ev_psk_category e = None \<or> ev_psk_category e \<in> Some ` {LONG_TERM, PAIRING, SENTINEL})"

definition own_side_ok :: "connection_record \<Rightarrow> bool" where
  "own_side_ok c \<longleftrightarrow>
     list_all (\<lambda>f. is_out ''server/activate'' f \<longrightarrow> own_activation_ok f) (cr_frames c)
     \<and> list_all (\<lambda>e. ev_kind e = KEYED \<longrightarrow> known_category e) (cr_events c)"

lemma keying_names_known:
  "k \<in> {LONG_TERM, PAIRING, SENTINEL, FALLBACK} \<Longrightarrow> returns (lookup_key KEYING_NAMES k)"
  "k \<in> {LONG_TERM, PAIRING, SENTINEL, FALLBACK} \<Longrightarrow> returns (lookup_key REFERENCED k)"
  by (auto simp: lookup_key_def KEYING_NAMES_def REFERENCED_def LONG_TERM_def PAIRING_def
      SENTINEL_def FALLBACK_def)

lemma initial_keying_known:
  "own_side_ok c \<Longrightarrow> initial_keying c = Some k \<Longrightarrow> k \<in> {LONG_TERM, PAIRING, SENTINEL, FALLBACK}"
  by (auto simp: initial_keying_def own_side_ok_def keyed_events_def known_category_def list_all_iff
      dest!: first_of_Some split: option.splits if_splits)

lemma judge_keying_returns:
  assumes "cid \<in> fst ` set SUITE_REFS" and "own_side_ok c"
    and "expected \<in> {LONG_TERM, PAIRING, SENTINEL, FALLBACK}"
  shows "returns (judge_keying c cid expected passed kept)"
proof (cases "initial_keying c")
  case None
  then show ?thesis
    using keying_names_known(1) [OF assms(3)]
    by (auto simp: judge_keying_def Let_def suite_defs suite_returns [OF assms(1)]
        intro!: returns_bind split: option.split)
next
  case (Some k)
  note known = keying_names_known [OF initial_keying_known [OF assms(2) Some]] keying_names_known [OF assms(3)]
  obtain n r n' r' where "lookup_key KEYING_NAMES k = Inr n" "lookup_key REFERENCED k = Inr r"
      "lookup_key KEYING_NAMES expected = Inr n'" "lookup_key REFERENCED expected = Inr r'"
    using known unfolding returns_def by blast
  then have "returns (judge_keying c cid expected passed kept)" if "k \<noteq> expected"
    unfolding judge_keying_def Let_def Some option.case
    by (cases "k = LONG_TERM"; cases kept) (simp_all add: that suite_returns [OF assms(1)])
  moreover have "returns (judge_keying c cid expected passed kept)" if "k = expected"
    by (simp add: judge_keying_def Let_def Some that suite_returns [OF assms(1)] split: option.split)
  ultimately show ?thesis by blast
qed

lemma judge_refusal_returns:
  "cid \<in> fst ` set SUITE_REFS \<Longrightarrow> returns (judge_refusal c cid activation reason)"
  by (auto simp: judge_refusal_def Let_def suite_defs suite_returns split: option.splits)

lemma judge_abort_returns: "returns (judge_abort c activation)"
  by (auto simp: judge_abort_def Let_def split: option.splits)

lemma get_in_returns: "\<not> truthy v \<or> is_dict v \<Longrightarrow> returns (get_in v key)"
  by (cases v) (auto simp: get_in_def)

lemma find_py_returns: "(\<And>x. x \<in> set xs \<Longrightarrow> returns (P x)) \<Longrightarrow> returns (find_py P xs)"
  by (induction xs) (auto intro!: returns_bind)

lemma pairing_activation_returns: "own_side_ok c \<Longrightarrow> returns (pairing_activation c since)"
  unfolding pairing_activation_def
  by (rule find_py_returns)
    (auto simp: own_side_ok_def list_all_iff own_activation_ok_def Let_def
      intro!: returns_bind get_in_returns)

lemma unpaired_playback_returns:
  assumes "own_side_ok c"
  shows "returns (check_unpaired_playback c)"
proof -
  have "returns (iter_values (let r = dict_get ''active_roles'' (payload_or a)
                              in if truthy r then r else VList []))"
    if "first_outbound_activation c (\<lambda>p. truthy (dict_get ''active_roles'' p)) = Some a" for a
  proof -
    from that have "a \<in> set (outbound_of c ''server/activate'' ''transport'')"
      unfolding first_outbound_activation_def find_Some_split by auto
    then have "is_out ''server/activate'' a" "a \<in> set (cr_frames c)"
      by (auto simp: set_outbound_of is_out_def)
    with assms have "own_activation_ok a" by (simp add: own_side_ok_def list_all_iff)
    then show ?thesis by (auto simp: own_activation_ok_def Let_def is_list_iff)
  qed
  then show ?thesis
    by (auto simp: check_unpaired_playback_def suite_defs intro!: returns_bind split: option.splits)
qed

lemma suite_table_returns:
  assumes "own_side_ok c" and "(cid, chk) \<in> set (suite_table since)"
  shows "returns (chk c)"
proof -
  note k = judge_keying_returns [OF _ assms(1)]
  have "returns (check_sentinel_handshake c)" "returns (check_long_term_reconnect c)"
    "returns (check_record_dropped c)" "returns (check_restart_keeps_pairing c)"
    by (simp_all add: check_sentinel_handshake_def check_long_term_reconnect_def
        check_record_dropped_def check_restart_keeps_pairing_def k suite_ids_known)
  moreover have "returns (check_forgotten_reconnect c)"
    by (auto simp: check_forgotten_reconnect_def k suite_ids_known split: option.splits)
  moreover have "returns (check_pairing_required c)" "returns (check_inadmissible_activation c)"
    by (auto simp: check_pairing_required_def check_inadmissible_activation_def suite_defs
        judge_refusal_returns judge_abort_returns suite_ids_known split: option.splits bool.splits)
  moreover have "returns (check_pairing_rehandshake since c)" "returns (check_pair_init since c)"
    using pairing_activation_returns [OF assms(1)]
    by (auto simp: check_pairing_rehandshake_def check_pair_init_def suite_defs Let_def
        intro!: returns_bind split: option.splits)
  moreover have "returns (check_pair_finalize since c)" "returns (check_promotion since c)"
    "returns (check_paired_activation since c)" "returns (check_unpair_goodbye c)"
    by (auto simp: check_pair_finalize_def check_promotion_def check_paired_activation_def
        check_unpair_goodbye_def suite_defs Let_def split: option.splits)
  ultimately show ?thesis
    using assms(2) unpaired_playback_returns [OF assms(1)] by (auto simp: suite_table_def)
qed

lemma suite_table_answers:
  assumes "own_side_ok c" and "(cid, chk) \<in> set (suite_table since)"
  shows "\<exists>f. chk c = Inr [f] \<and> fi_id f = cid \<and> set (fi_frames f) \<subseteq> frame_ids c"
  using suite_table_returns [OF assms] suite_table_reports [OF assms(2), of c]
  by (auto simp: returns_def map_eq_Cons_conv cites_def)

text \<open>The check of two connections: it raises when the delay set was not echoed as an integer.\<close>

definition echoed_delay :: "connection_record \<Rightarrow> int option \<Rightarrow> bool" where
  "echoed_delay before commanded \<longleftrightarrow> (case commanded of None \<Rightarrow> True
     | Some d \<Rightarrow> list_ex (\<lambda>f. output_delay f = Some d) (inbound_of before ''client/state'' ''transport''))"

lemma output_delay_answers:
  assumes "echoed_delay before commanded"
  shows "\<exists>f. check_restart_keeps_output_delay before after commanded = Inr [f] \<and> fi_id f = ''POSTPAIR-006''
     \<and> set (fi_frames f) \<subseteq> frame_ids before \<union> frame_ids after"
proof -
  let ?r = "check_restart_keeps_output_delay before after commanded"
  let ?c = "before\<lparr>cr_frames := cr_frames before @ cr_frames after\<rparr>"
  have sub: "fr_id x \<in> fr_id ` (set (cr_frames before) \<union> set (cr_frames after))"
    if "inbound_of b t p = us @ x # vs" "b = before \<or> b = after" for b t p us vs x
  proof -
    have "x \<in> set (inbound_of b t p)" using that(1) by simp
    then show ?thesis using that(2) by (auto simp: inbound_of_def)
  qed
  have "returns ?r"
    using assms by (auto simp: check_restart_keeps_output_delay_def echoed_delay_def suite_defs Let_def first_of_def
        list_ex_iff filter_empty_conv split: option.splits list.splits)
  moreover have "reports_of ?c ''POSTPAIR-006'' ?r"
    using sub by (auto simp: check_restart_keeps_output_delay_def suite_defs Let_def first_of_def split: option.splits list.splits
        dest!: filter_eq_ConsD)
  ultimately show ?thesis by (auto simp: returns_def map_eq_Cons_conv cites_def image_Un)
qed

lemma output_delay_raises:
  "\<not> echoed_delay before commanded \<Longrightarrow> check_restart_keeps_output_delay before after commanded = Inl StopIteration"
  by (auto simp: check_restart_keeps_output_delay_def echoed_delay_def first_of_def list_ex_iff filter_empty_conv
      split: option.splits list.splits)

section \<open>Verdicts\<close>

lemma keying_verdict:
  assumes "cid \<in> fst ` set SUITE_REFS" and "initial_keying c = Some keying"
    and "keying \<in> {LONG_TERM, PAIRING, SENTINEL, FALLBACK}"
    and "expected \<in> {LONG_TERM, PAIRING, SENTINEL, FALLBACK}"
  shows "verdict_of (judge_keying c cid expected passed kept) = Some (
    if keying = expected then PASS
    else if {keying, expected} = {LONG_TERM, FALLBACK} then FAIL else TOOL_ERROR)"
proof -
  have d: "LONG_TERM \<noteq> PAIRING" "LONG_TERM \<noteq> SENTINEL" "LONG_TERM \<noteq> FALLBACK"
    "PAIRING \<noteq> SENTINEL" "PAIRING \<noteq> FALLBACK" "SENTINEL \<noteq> FALLBACK"
    by (simp_all add: LONG_TERM_def PAIRING_def SENTINEL_def FALLBACK_def)
  then show ?thesis
    using assms
    by (auto simp: judge_keying_def Let_def lookup_key_def KEYING_NAMES_def REFERENCED_def
        suite_maker.one_verdict d [symmetric] doubleton_eq_iff split: option.splits)
qed

lemma keying_missing_verdict:
  assumes "cid \<in> fst ` set SUITE_REFS" and "initial_keying c = None"
    and "expected \<in> {LONG_TERM, PAIRING, SENTINEL, FALLBACK}"
  shows "verdict_of (judge_keying c cid expected passed kept) = Some (
    if outbound_of c ''noise/handshake'' ''cleartext'' = [] \<or> rejected c
       \<or> (\<exists>f \<in> set (cr_frames c). fr_phase f = ''transport'')
    then NOT_APPLICABLE else FAIL)"
proof -
  obtain name where "lookup_key KEYING_NAMES expected = Inr name"
    using keying_names_known(1) [OF assms(3)] by (auto simp: returns_def)
  with assms show ?thesis
    by (auto simp: judge_keying_def Let_def suite_defs suite_maker.one_verdict list_ex_iff
        dest!: first_of_Some split: option.splits)
qed

text \<open>The pairing index: activations that name pairing, after the last handshake before the frame.\<close>

definition is_handshake_out :: "recorded_frame \<Rightarrow> bool" where
  "is_handshake_out f \<longleftrightarrow> \<not> inbound f \<and> frame_type f = Some ''noise/handshake''"

definition is_pairing_activation :: "recorded_frame \<Rightarrow> bool" where
  "is_pairing_activation f \<longleftrightarrow> is_out ''server/activate'' f
     \<and> VStr ''pairing'' \<in> set (activities (payload_or f))"

definition counted :: "int \<Rightarrow> recorded_frame list \<Rightarrow> nat set" where
  "counted n fs = {i. i < length fs \<and> fr_id (fs ! i) \<le> n \<and> is_pairing_activation (fs ! i)
     \<and> (\<forall>j. i < j \<and> j < length fs \<and> fr_id (fs ! j) \<le> n \<longrightarrow> \<not> is_handshake_out (fs ! j))}"

lemma all_above_Suc: "(\<forall>j. Suc k < j \<longrightarrow> R j) \<longleftrightarrow> (\<forall>j. k < j \<longrightarrow> R (Suc j))"
  by (metis Suc_less_eq Suc_lessE)

lemma all_above_0: "(\<forall>j. 0 < j \<longrightarrow> R j) \<longleftrightarrow> (\<forall>j. R (Suc j))"
  by (metis gr0_conv_Suc)

lemma counted_Cons:
  "counted n (f # fs) = Suc ` counted n fs
     \<union> (if fr_id f \<le> n \<and> is_pairing_activation f
           \<and> (\<forall>g \<in> set fs. fr_id g \<le> n \<longrightarrow> \<not> is_handshake_out g) then {0} else {})"
  (is "_ = ?r")
proof (rule set_eqI)
  fix i
  show "i \<in> counted n (f # fs) \<longleftrightarrow> i \<in> ?r"
  proof (cases i)
    case 0
    then show ?thesis
      by (simp add: counted_def imp_conjL all_above_0 all_set_conv_all_nth)
  next
    case (Suc k)
    then show ?thesis
      by (simp add: counted_def imp_conjL all_above_Suc image_iff)
  qed
qed

lemma finite_counted [simp]: "finite (counted n fs)"
  by (rule finite_subset [of _ "{..< length fs}"]) (auto simp: counted_def)

lemma counted_late: "(\<And>f. f \<in> set fs \<Longrightarrow> n < fr_id f) \<Longrightarrow> counted n fs = {}"
  by (fastforce simp: counted_def dest: nth_mem)

lemma count_pairings_card:
  "sorted_wrt (\<lambda>f g. fr_id f < fr_id g) fs \<Longrightarrow> count_pairings n k fs =
     (if \<exists>f \<in> set fs. fr_id f \<le> n \<and> is_handshake_out f then 0 else k) + int (card (counted n fs))"
proof (induction fs arbitrary: k)
  case Nil
  show ?case by (simp add: counted_def)
next
  case (Cons f fs)
  have card: "card (counted n (f # fs)) = card (counted n fs)
      + (if fr_id f \<le> n \<and> is_pairing_activation f
           \<and> (\<forall>g \<in> set fs. fr_id g \<le> n \<longrightarrow> \<not> is_handshake_out g) then 1 else 0)"
    by (subst counted_Cons) (auto simp: card_image)
  show ?case
  proof (cases "fr_id f > n")
    case True
    then have late: "\<And>g. g \<in> set fs \<Longrightarrow> n < fr_id g" using Cons.prems by fastforce
    then have "\<not> (\<exists>g \<in> set (f # fs). fr_id g \<le> n \<and> is_handshake_out g)"
      using True by force
    moreover have "counted n (f # fs) = {}" using True late by (intro counted_late) auto
    ultimately show ?thesis using True by auto
  next
    case False
    have ne: "is_handshake_out f \<Longrightarrow> \<not> is_pairing_activation f"
      by (auto simp: is_handshake_out_def is_pairing_activation_def is_out_def)
    from False ne Cons show ?thesis
      by (auto simp: card is_handshake_out_def [symmetric] is_pairing_activation_def [symmetric])
  qed
qed

text \<open>The token checks.\<close>

lemma token_verdicts:
  "returns (check_pairing_token token client_id)"
  "check_pairing_token token client_id = Inr [f, g] \<Longrightarrow>
     (fi_verdict f = PASS \<longleftrightarrow> (\<exists>d. decode_psk_token token = Inr d))
     \<and> (fi_verdict g = PASS \<longleftrightarrow> (\<exists>d. decode_psk_token token = Inr d \<and> client_id = Some (pt_client_id d)))
     \<and> (fi_verdict g = FAIL \<longleftrightarrow> (\<exists>d cid. decode_psk_token token = Inr d \<and> client_id = Some cid
           \<and> cid \<noteq> pt_client_id d))"
  by (auto simp: check_pairing_token_def Let_def suite_maker.make_known suite_ids_known returns_def
      split: sum.splits option.splits if_splits)

text \<open>The output delay across a restart.\<close>

lemma output_delay_verdict:
  assumes "f \<in> set (inbound_of before ''client/state'' ''transport'')" and "output_delay f = Some d"
  shows "verdict_of (check_restart_keeps_output_delay before after (Some d)) = Some (
    case find (\<lambda>f. output_delay f \<noteq> None) (inbound_of after ''client/state'' ''transport'') of
      None \<Rightarrow> NOT_APPLICABLE | Some g \<Rightarrow> if output_delay g = Some d then PASS else FAIL)"
proof -
  have hd: "first_of (filter P xs) = find P xs" for P :: "recorded_frame \<Rightarrow> bool" and xs
    by (induction xs) (simp_all add: first_of_def)
  have "first_of (filter (\<lambda>f. output_delay f = Some d)
          (inbound_of before ''client/state'' ''transport'')) \<noteq> None"
    using assms by (auto simp: filter_empty_conv)
  then obtain echo where echo: "find (\<lambda>f. output_delay f = Some d)
      (inbound_of before ''client/state'' ''transport'') = Some echo"
    unfolding hd by blast
  have some: "output_delay g \<noteq> None"
    if "find (\<lambda>f. output_delay f \<noteq> None) xs = Some g" for g xs
    using that unfolding find_Some_split by blast
  show ?thesis
  proof (cases "find (\<lambda>f. output_delay f \<noteq> None) (inbound_of after ''client/state'' ''transport'')")
    case None
    then show ?thesis
      unfolding check_restart_keeps_output_delay_def hd by (simp add: echo suite_defs)
  next
    case (Some g)
    with some obtain now where "output_delay g = Some now" by blast
    with Some show ?thesis
      unfolding check_restart_keeps_output_delay_def hd by (simp add: echo)
  qed
qed

lemma promotion_pass:
  assumes "verdict_of (check_promotion since c) = Some PASS"
  shows "\<exists>ack m1 m2 e. {ack, m1, m2} \<subseteq> set (cr_frames c) \<and> since < fr_id ack
    \<and> is_out ''server/pair-finalize'' ack \<and> is_out ''noise/handshake'' m1 \<and> is_in ''noise/handshake'' m2
    \<and> fr_id ack < fr_id m1 \<and> fr_id m1 < fr_id m2
    \<and> e \<in> set (cr_events c) \<and> ev_kind e = KEYED \<and> fr_id ack < event_frame e
    \<and> ev_psk_category e = Some LONG_TERM"
  using assms
  by (auto simp: check_promotion_def suite_defs keyed_events_def
      dest!: first_after_Some first_of_Some split: option.splits if_splits) blast

end
