(* ===== verification/Code_Pairing_Checks.thy ===== *)
theory Code_Pairing_Checks
  imports Suite_Checks
begin

text \<open>
  \<open>validator/code_pairing_checks.py\<close>: the machine checks of pairing with a code, judged from the
  frame \<open>since\<close> on, and the one check that rests on what the user typed.
\<close>

section \<open>Tables\<close>

definition DYNAMIC :: string where "DYNAMIC = ''PAIR-DYN''"
definition DYNAMIC_QR :: string where "DYNAMIC_QR = ''PAIR-DYN-QR''"

definition DYNAMIC_REFS :: "(string \<times> string) list" where
  "DYNAMIC_REFS = [
     (''001'', ''pairing.md:122, pairing.md:147, pairing.md:341''),
     (''002'', ''pairing.md:327, pairing.md:333, pairing.md:340''),
     (''003'', ''pairing.md:284-289, pairing.md:299, pairing.md:382, pairing.md:391''),
     (''004'', ''pairing.md:171, pairing.md:183-185, pairing.md:375''),
     (''005'', ''pairing.md:173-175, pairing.md:179''),
     (''006'', ''pairing.md:176, pairing.md:179, pairing.md:303''),
     (''007'', ''pairing.md:177, pairing.md:179, pairing.md:303''),
     (''008'', ''pairing.md:3, pairing.md:179, pairing.md:299, pairing.md:391'')]"

definition CODE_REFS :: "(string \<times> string) list" where
  "CODE_REFS =
     map (\<lambda>(n, ref). (DYNAMIC @ ''-'' @ n, ref)) DYNAMIC_REFS
     @ map (\<lambda>(n, ref). (DYNAMIC_QR @ ''-'' @ n, ref)) DYNAMIC_REFS
     @ [(''PAIR-DYN-009'', ''pairing.md:242''),
        (''PAIR-DYN-010'', ''pairing.md:171''),
        (''PAIR-DYN-011'', ''pairing.md:161, pairing.md:314''),
        (''PAIR-DYN-012'', ''pairing.md:161, messaging.md:193''),
        (''PAIR-DYN-QR-009'', ''pairing.md:163, pairing.md:262-268''),
        (''PAIR-STATIC-001'', ''pairing.md:232, pairing.md:238, pairing.md:331''),
        (''PAIR-STATIC-002'', ''pairing.md:327, pairing.md:333, pairing.md:340''),
        (''PAIR-STATIC-003'', ''pairing.md:323, pairing.md:341, pairing.md:382''),
        (''PAIR-STATIC-004'', ''pairing.md:238, pairing.md:338''),
        (''PAIR-STATIC-005'', ''pairing.md:284-289, pairing.md:299, pairing.md:391''),
        (''PAIR-STATIC-006'', ''pairing.md:224, pairing.md:226''),
        (''PAIR-STATIC-007'', ''pairing.md:3, pairing.md:226, pairing.md:299, pairing.md:391''),
        (''PAIR-STATIC-008'', ''pairing.md:242''),
        (''PAIR-STATIC-009'', ''pairing.md:224, pairing.md:230''),
        (''PAIR-STATIC-010'', ''pairing.md:230, pairing.md:232, pairing.md:238''),
        (''PAIR-CTL-001'', ''pairing.md:39-43, pairing.md:401, pairing.md:408''),
        (''PAIR-CTL-002'', ''pairing.md:35, pairing.md:404'')]"

definition CLIENT_FIELD_LENGTHS :: "((string \<times> string) \<times> nat) list" where
  "CLIENT_FIELD_LENGTHS = [
     ((''client/pair-auth'', ''pake_msg_2''), 43),
     ((''client/pair-confirm'', ''client_kc''), 86),
     ((''client/pair-confirm'', ''wrapped_nonce_B''), 64),
     ((''client/pair-finalize'', ''wrapped_psk''), 64)]"

definition COMMIT_LENGTH :: nat where
  "COMMIT_LENGTH = 43"

definition PAIRING_STARTS :: "string list" where
  "PAIRING_STARTS = [''client/pair-init'', ''client/pair-pending'']"

definition LOCKOUT_ATTEMPTS :: nat where
  "LOCKOUT_ATTEMPTS = 5"

datatype stage = CLIENT_KC | COMMIT | BINDING | UNWRAP

primrec stage_rank :: "stage \<Rightarrow> nat" where
  "stage_rank CLIENT_KC = 0"
| "stage_rank COMMIT = 1"
| "stage_rank BINDING = 2"
| "stage_rank UNWRAP = 3"

lemma stage_rank_inject: "stage_rank s = stage_rank t \<longleftrightarrow> s = t"
  by (cases s; cases t) simp_all

instantiation stage :: linorder
begin

definition less_eq_stage :: "stage \<Rightarrow> stage \<Rightarrow> bool" where
  "s \<le> t \<longleftrightarrow> stage_rank s \<le> stage_rank t"

definition less_stage :: "stage \<Rightarrow> stage \<Rightarrow> bool" where
  "s < t \<longleftrightarrow> stage_rank s < stage_rank t"

instance
  by standard (auto simp: less_eq_stage_def less_stage_def stage_rank_inject [symmetric])

end

definition FAILURE_STAGES :: "(string \<times> stage) list" where
  "FAILURE_STAGES = [
     (''malformed client_kc'', CLIENT_KC),
     (''pairing_code_mismatch'', CLIENT_KC),
     (''client/pair-confirm carries wrapped_nonce_B'', CLIENT_KC),
     (''client/pair-confirm missing wrapped_nonce_B'', COMMIT),
     (''client/pair-confirm must carry only nonce_B'', COMMIT),
     (''malformed nonce_B'', COMMIT),
     (''malformed wrapped_nonce_B'', COMMIT),
     (''revealed nonce_B does not match commit_B'', COMMIT),
     (''entered pairing code is not bound to this connection'', BINDING),
     (''ClientPairFinalizeMessage'', UNWRAP),
     (''client/pair-finalize'', UNWRAP),
     (''malformed wrapped_psk'', UNWRAP),
     (''malformed long_term_psk'', UNWRAP),
     (''did not arrive in time'', UNWRAP),
     (''completing the stored pairing record timed out'', UNWRAP)]"

primrec stage_passed :: "stage \<Rightarrow> string" where
  "stage_passed CLIENT_KC = ''client_kc verified under the entered code''"
| "stage_passed COMMIT = ''wrapped_nonce_B unwrapped to a nonce_B that opens commit_B''"
| "stage_passed BINDING = ''the code derived from h, nonce_A and nonce_B is the entered code''"
| "stage_passed UNWRAP = ''wrapped_psk unwrapped and the client re-handshook to that long-term PSK''"

section \<open>Helpers\<close>

definition code_finding :: "string \<Rightarrow> verdict \<Rightarrow> string \<Rightarrow> recorded_frame list \<Rightarrow> finding py" where
  "code_finding check_id v msg frames = ref_finding CODE_REFS check_id v msg (map fr_id frames)"

definition code_n_a :: "string \<Rightarrow> string \<Rightarrow> finding py" where
  "code_n_a check_id msg = code_finding check_id NOT_APPLICABLE msg []"

definition code_not_reached :: "string \<Rightarrow> finding py" where
  "code_not_reached check_id =
     code_n_a check_id ''not reached: the attempt ended at an earlier failure''"

definition code_not_run :: "string list \<Rightarrow> verdict \<Rightarrow> string \<Rightarrow> finding list py" where
  "code_not_run check_ids v msg = collect (map (\<lambda>cid. code_finding cid v msg []) check_ids)"

definition code_not_applicable :: "string list \<Rightarrow> string \<Rightarrow> finding list py" where
  "code_not_applicable check_ids msg = code_not_run check_ids NOT_APPLICABLE msg"

definition unanswered :: "connection_record \<Rightarrow> string \<Rightarrow> string \<Rightarrow> finding py" where
  "unanswered c check_id what =
     (if rejected c then code_not_reached check_id
      else code_finding check_id FAIL (''the client sent no '' @ what) [])"

definition human :: "string \<Rightarrow> verdict \<Rightarrow> string \<Rightarrow> finding py" where
  "human check_id v msg = (case map_of CODE_REFS check_id of
     None \<Rightarrow> Inl (key_error check_id)
   | Some ref \<Rightarrow> Inr \<lparr>fi_id = check_id, fi_verdict = v, fi_spec_ref = ref, fi_message = msg,
                      fi_evidence = HUMAN, fi_frames = []\<rparr>)"

definition failure_stage :: "string option \<Rightarrow> stage option" where
  "failure_stage detail = (case detail of
     None \<Rightarrow> None
   | Some d \<Rightarrow> map_option snd (find (\<lambda>(text, _). contains text d) FAILURE_STAGES))"

definition promotion_failure :: "connection_record \<Rightarrow> recorded_frame \<Rightarrow> stage option" where
  "promotion_failure c acknowledged = (
     case find (\<lambda>e. ev_kind e = KEYED \<and> event_frame e > fr_id acknowledged) (cr_events c) of
       None \<Rightarrow> Some UNWRAP
     | Some keyed \<Rightarrow> if ev_psk_category keyed = Some ''long_term'' then None else Some UNWRAP)"

definition server_gave_up :: "connection_record \<Rightarrow> recorded_frame \<Rightarrow> bool" where
  "server_gave_up c after \<longleftrightarrow> list_ex (\<lambda>e. ev_kind e = PAIRING_FAILED \<and> event_frame e \<ge> fr_id after
     \<and> (case ev_detail e of None \<Rightarrow> False | Some d \<Rightarrow> starts_with d ''PairingTimeoutError''))
     (cr_events c)"

definition pairing_activations :: "connection_record \<Rightarrow> int \<Rightarrow> recorded_frame list" where
  "pairing_activations c since = filter (\<lambda>f. fr_id f > since \<and> is_out ''server/activate'' f
     \<and> VStr ''pairing'' \<in> set (activities (payload_or f))) (cr_frames c)"

definition last_in :: "connection_record \<Rightarrow> int \<Rightarrow> string \<Rightarrow> recorded_frame option" where
  "last_in c since message_type =
     find (\<lambda>f. fr_id f > since \<and> is_in message_type f) (rev (cr_frames c))"

definition index_matches :: "recorded_frame \<Rightarrow> int \<Rightarrow> bool" where
  "index_matches f expected = (
     let index = dict_get ''pairing_index'' (payload_or f)
     in eq_int index expected \<and> \<not> is_bool index)"

definition index_below :: "recorded_frame \<Rightarrow> int \<Rightarrow> bool" where
  "index_below f expected = (case dict_get ''pairing_index'' (payload_or f) of
     VInt n \<Rightarrow> n < expected | _ \<Rightarrow> False)"

definition reason_is :: "string \<Rightarrow> recorded_frame \<Rightarrow> bool" where
  "reason_is reason f \<longleftrightarrow> dict_get ''reason'' (payload_or f) = VStr reason"

section \<open>The dynamic flow\<close>

definition check_commit :: "connection_record \<Rightarrow> int \<Rightarrow> string \<Rightarrow> finding list py" where
  "check_commit c since flow = (
     let check_id = flow @ ''-001'' in
     case first_after c since (is_in ''client/pair-init'') of
       None \<Rightarrow> one (unanswered c check_id ''client/pair-init'')
     | Some pair_init \<Rightarrow>
         (let commit = dict_get ''commit_B'' (payload_or pair_init) in
          if \<not> (case commit of VStr s \<Rightarrow> length s = COMMIT_LENGTH | _ \<Rightarrow> False)
          then one (code_finding check_id FAIL (''client/pair-init carries ''
                 @ (if commit = VNone then ''no commit_B''
                    else ''a commit_B that is not 43 characters'')) [pair_init])
          else (case first_after c since (is_out ''server/pair-init'') of
            Some server_init \<Rightarrow>
              if fr_id server_init < fr_id pair_init
              then one (code_finding check_id TOOL_ERROR
                     ''the validator sent server/pair-init before the client committed'' [server_init])
              else one (code_finding check_id PASS
                     ''client/pair-init committed to nonce_B with commit_B before server/pair-init''
                     [pair_init])
          | None \<Rightarrow> one (code_finding check_id PASS
              ''client/pair-init committed to nonce_B with commit_B before server/pair-init''
              [pair_init]))))"

definition index_answers ::
  "connection_record \<Rightarrow> recorded_frame \<Rightarrow> recorded_frame list \<Rightarrow> recorded_frame list" where
  "index_answers c activation later = filter
     (\<lambda>f. fr_id f > fr_id activation \<and> (case later of [] \<Rightarrow> True | a # _ \<Rightarrow> fr_id f < fr_id a)
        \<and> inbound f \<and> frame_type f \<in> Some ` set PAIRING_STARTS) (cr_frames c)"

definition wrong_answer :: "recorded_frame list \<Rightarrow> int \<Rightarrow> recorded_frame option" where
  "wrong_answer answers expected = (
     case find (\<lambda>f. \<not> index_matches f expected \<and> \<not> index_below f expected) answers of
       Some f \<Rightarrow> Some f
     | None \<Rightarrow> if list_ex (\<lambda>f. index_matches f expected) answers then None else first_of answers)"

text \<open>The loop over the activations: \<open>Inl\<close> is the early return, with what it reports.\<close>

fun judge_indexes ::
  "connection_record \<Rightarrow> recorded_frame list \<Rightarrow> recorded_frame list
   \<Rightarrow> (recorded_frame \<times> recorded_frame \<times> int) + recorded_frame list" where
  "judge_indexes c judged [] = Inr judged"
| "judge_indexes c judged (activation # later) = (
     let answers = index_answers c activation later in
     case answers of
       [] \<Rightarrow> judge_indexes c judged later
     | answer # _ \<Rightarrow>
         (let expected = pairing_activations_since_handshake c activation in
          case wrong_answer answers expected of
            Some wrong \<Rightarrow> Inl (activation, wrong, expected)
          | None \<Rightarrow> judge_indexes c (judged @ [answer]) later))"

definition check_pairing_index :: "connection_record \<Rightarrow> int \<Rightarrow> string \<Rightarrow> finding list py" where
  "check_pairing_index c since check_id = (
     case judge_indexes c [] (pairing_activations c since) of
       Inl (activation, wrong, expected) \<Rightarrow> one (code_finding check_id FAIL
         ((case frame_type wrong of None \<Rightarrow> ''None'' | Some t \<Rightarrow> t) @ '' carries pairing_index ''
          @ py_repr (dict_get ''pairing_index'' (payload_or wrong)) @ '', not '' @ int_str expected)
         [activation, wrong])
     | Inr judged \<Rightarrow>
         if judged = []
         then one (unanswered c check_id ''client/pair-init or client/pair-pending'')
         else one (code_finding check_id PASS
                ''every pairing activation was answered with its own pairing_index'' judged))"

definition fields_sent :: "connection_record \<Rightarrow> int \<Rightarrow> (recorded_frame \<times> string \<times> nat) list" where
  "fields_sent c since = concat (map
     (\<lambda>f. map (\<lambda>((t, field), n). (f, field, n))
        (filter (\<lambda>((t, field), n). frame_type f = Some t \<and> has_key field (payload_or f))
           CLIENT_FIELD_LENGTHS))
     (filter (\<lambda>f. fr_id f > since \<and> inbound f) (cr_frames c)))"

fun wrong_length ::
  "(recorded_frame \<times> string \<times> nat) list
   \<Rightarrow> (recorded_frame \<times> string \<times> nat \<times> nat option) option py" where
  "wrong_length [] = Inr None"
| "wrong_length ((f, field, n) # rest) =
     py_bind (redacted_length (dict_get field (payload_or f))) (\<lambda>actual.
       if actual \<noteq> Some n then Inr (Some (f, field, n, actual)) else wrong_length rest)"

text \<open>\<open>{frame.id: frame ...}.values()\<close>, of which a finding keeps the ids.\<close>

definition distinct_frames :: "recorded_frame list \<Rightarrow> recorded_frame list" where
  "distinct_frames fs =
     foldl (\<lambda>acc f. if fr_id f \<in> fr_id ` set acc then acc else acc @ [f]) [] fs"

definition check_cpace_lengths :: "connection_record \<Rightarrow> int \<Rightarrow> string \<Rightarrow> finding list py" where
  "check_cpace_lengths c since check_id = (
     let sent = fields_sent c since in
     if \<not> list_ex (\<lambda>(f, _, _). frame_type f = Some ''client/pair-auth'') sent
     then one (unanswered c check_id ''client/pair-auth'')
     else py_bind (wrong_length sent) (\<lambda>found. case found of
       Some (f, field, n, actual) \<Rightarrow> one (code_finding check_id FAIL
         ((case frame_type f of None \<Rightarrow> ''None'' | Some t \<Rightarrow> t) @ '' '' @ field @ '' is ''
          @ (case actual of None \<Rightarrow> ''no string'' | Some k \<Rightarrow> nat_str k @ '' characters'')
          @ '', not '' @ nat_str n) [f])
     | None \<Rightarrow>
         if list_ex (\<lambda>f. fr_id f > since \<and> is_in ''client/pair-auth'' f
              \<and> \<not> has_key ''pake_msg_2'' (payload_or f)) (cr_frames c)
         then one (code_finding check_id FAIL ''a client/pair-auth carries no pake_msg_2'' [])
         else one (code_finding check_id PASS
                (join '', '' (sorted_set (map (\<lambda>(_, field, _). field) sent))
                 @ '' had their fixed lengths'')
                (distinct_frames (map fst sent)))))"

definition check_wrong_code :: "connection_record \<Rightarrow> int \<Rightarrow> string \<Rightarrow> finding list py" where
  "check_wrong_code c since flow = (
     let check_id = flow @ ''-004'' in
     case first_after c since (is_out ''server/pair-confirm'') of
       None \<Rightarrow> one (unanswered c check_id ''client/pair-auth'')
     | Some confirm \<Rightarrow>
         (case first_inbound c confirm
                 (Some ([''client/pair-retry'', ''client/pair-confirm''] @ REFUSALS)) of
            None \<Rightarrow>
              if rejected c then one (code_not_reached check_id)
              else one (code_finding check_id FAIL
                     (''after server_kc from a wrong code the client ''
                      @ (if closed c then ''closed the connection'' else ''sent nothing'')
                      @ '', with no client/pair-retry or pair/abort 'pairing_code_mismatch'' @ sq)
                     [confirm])
          | Some answer \<Rightarrow>
              (let t = frame_type answer;
                   (v, msg) =
                     (if t = Some ''client/pair-retry'' \<and> payload answer = Some []
                      then (PASS, ''the client asked for another round with client/pair-retry'')
                      else if t = Some ''client/pair-retry''
                      then (FAIL, ''client/pair-retry carries fields; its payload is {}'')
                      else if t = Some ''pair/abort'' \<and> reason_is ''pairing_code_mismatch'' answer
                      then (PASS, ''the client aborted with 'pairing_code_mismatch'' @ sq)
                      else if t = Some ''client/pair-confirm''
                      then (FAIL, ''the client confirmed after a wrong code: it did not verify server_kc'')
                      else (FAIL, ''the client answered a wrong code with '' @ describe answer
                              @ '', not client/pair-retry or pair/abort 'pairing_code_mismatch'' @ sq))
               in one (code_finding check_id v msg [confirm, answer]))))"

section \<open>The server's verification\<close>

text \<open>
  What failed, with the message and the frames to report: \<open>Some (None, _, _)\<close> when everything
  passed, \<open>None\<close> when nothing tells.
\<close>

definition verification_outcome ::
  "connection_record \<Rightarrow> recorded_frame \<Rightarrow> (stage option \<times> string \<times> recorded_frame list) option" where
  "verification_outcome c confirm = (
     let abort = first_after c (fr_id confirm)
                   (\<lambda>f. is_out ''pair/abort'' f \<and> reason_is ''pairing_code_mismatch'' f);
         failure = find (\<lambda>e. ev_kind e = PAIRING_FAILED \<and> event_frame e \<ge> fr_id confirm) (cr_events c);
         acknowledged = first_after c (fr_id confirm) (is_out ''server/pair-finalize'')
     in case abort of
       Some a \<Rightarrow> Some (Some CLIENT_KC,
         ''client_kc did not verify: the validator aborted with 'pairing_code_mismatch'' @ sq,
         [confirm, a])
     | None \<Rightarrow> (case acknowledged of
         Some ack \<Rightarrow> Some (promotion_failure c ack,
           ''the client did not re-handshake to the long-term PSK it delivered'', [ack])
       | None \<Rightarrow> (case failure of
           None \<Rightarrow> None
         | Some e \<Rightarrow> (case failure_stage (ev_detail e) of
             None \<Rightarrow> None
           | Some s \<Rightarrow> Some (Some s, ''aiosendspin: ''
               @ (case ev_detail e of None \<Rightarrow> ''None'' | Some d \<Rightarrow> d), [confirm])))))"

definition unexplained :: "connection_record \<Rightarrow> recorded_frame \<Rightarrow> string" where
  "unexplained c confirm =
     ''could not tell which check failed after client/pair-confirm: ''
     @ (case find (\<lambda>e. ev_kind e = PAIRING_FAILED \<and> event_frame e \<ge> fr_id confirm) (cr_events c) of
          None \<Rightarrow> ''the attempt ended unobserved''
        | Some e \<Rightarrow> (case ev_detail e of None \<Rightarrow> ''None'' | Some d \<Rightarrow> d))"

definition stage_finding ::
  "stage option \<Rightarrow> string \<Rightarrow> recorded_frame list \<Rightarrow> recorded_frame \<Rightarrow> stage \<times> string \<Rightarrow> finding py" where
  "stage_finding failed message frames confirm entry = (
     let (s, check_id) = entry in
     case failed of
       None \<Rightarrow> code_finding check_id PASS (stage_passed s) [confirm]
     | Some t \<Rightarrow>
         if s < t then code_finding check_id PASS (stage_passed s) [confirm]
         else if s = t then code_finding check_id FAIL message frames
         else code_n_a check_id ''not reached: an earlier verification failed'')"

definition check_verification ::
  "connection_record \<Rightarrow> int \<Rightarrow> (stage \<times> string) list \<Rightarrow> finding list py" where
  "check_verification c since check_ids = (
     case last_in c since ''client/pair-confirm'' of
       None \<Rightarrow> collect (map (\<lambda>(_, check_id). code_n_a check_id
                 ''not reached: the client sent no client/pair-confirm'') check_ids)
     | Some confirm \<Rightarrow> (case verification_outcome c confirm of
         None \<Rightarrow> collect (map (\<lambda>(_, check_id). code_finding check_id TOOL_ERROR
                   (unexplained c confirm) [confirm]) check_ids)
       | Some (failed, message, frames) \<Rightarrow>
           collect (map (stage_finding failed message frames confirm) (sort_key fst check_ids))))"

section \<open>The QR token\<close>

definition check_qr_token :: "string \<Rightarrow> finding list py" where
  "check_qr_token text = (case decode_pairing_code_token text of
     Inl err \<Rightarrow> one (code_finding ''PAIR-DYN-QR-009'' FAIL
                  (''the QR text is not a pairing token: '' @ exc_text err) [])
   | Inr code \<Rightarrow> py_bind (encode_pairing_code_token code) (\<lambda>token.
       if strip text \<noteq> token
       then one (code_finding ''PAIR-DYN-QR-009'' FAIL
              (''the QR text decodes, but is not the exact token the spec builds: it differs ''
               @ ''in its prefix, case, transliteration or length'') [])
       else one (code_finding ''PAIR-DYN-QR-009'' PASS
              ''the QR text is a version-1 pairing token'' [])))"

section \<open>The static flow\<close>

definition check_static_pending :: "connection_record \<Rightarrow> int \<Rightarrow> finding list py" where
  "check_static_pending c since = (case first_of (pairing_activations c since) of
     None \<Rightarrow> one (code_n_a ''PAIR-STATIC-001'' ''the validator sent no pairing activation'')
   | Some activation \<Rightarrow> (case first_inbound c activation (Some (PAIRING_STARTS @ REFUSALS)) of
       None \<Rightarrow> one (unanswered c ''PAIR-STATIC-001'' ''client/pair-pending'')
     | Some answer \<Rightarrow>
         if frame_type answer = Some ''client/pair-pending''
         then one (code_finding ''PAIR-STATIC-001'' PASS
           ''the client held the attempt back with client/pair-pending until its window opened''
           [activation, answer])
         else one (code_finding ''PAIR-STATIC-001'' FAIL
           (if frame_type answer = Some ''client/pair-init''
            then ''the client started the attempt with no pairing window open; if one was open, ''
                 @ ''run the step again with it closed''
            else ''the client answered with '' @ describe answer @ '', not client/pair-pending'')
           [activation, answer])))"

definition misplaced_static :: "recorded_frame \<Rightarrow> bool" where
  "misplaced_static f \<longleftrightarrow> is_in ''client/pair-retry'' f
     \<or> is_in ''client/pair-init'' f \<and> has_key ''commit_B'' (payload_or f)
     \<or> is_in ''client/pair-confirm'' f \<and> has_key ''wrapped_nonce_B'' (payload_or f)"

definition check_static_shape :: "connection_record \<Rightarrow> int \<Rightarrow> finding list py" where
  "check_static_shape c since = (case first_after c since (is_in ''client/pair-init'') of
     None \<Rightarrow> one (unanswered c ''PAIR-STATIC-003'' ''client/pair-init'')
   | Some pair_init \<Rightarrow> (case first_after c since misplaced_static of
       Some misplaced \<Rightarrow> one (code_finding ''PAIR-STATIC-003'' FAIL
         ((case frame_type misplaced of None \<Rightarrow> ''None'' | Some t \<Rightarrow> t)
          @ '' belongs to the dynamic flow, or carries a field that does'') [misplaced])
     | None \<Rightarrow> one (code_finding ''PAIR-STATIC-003'' PASS
         ''the client sent no commit_B, wrapped_nonce_B or client/pair-retry'' [pair_init])))"

definition check_static_order :: "connection_record \<Rightarrow> int \<Rightarrow> finding list py" where
  "check_static_order c since = (
     let pair_init = first_after c since (is_in ''client/pair-init'');
         auth = first_after c since (is_out ''server/pair-auth'')
     in case auth of
       Some a \<Rightarrow> (case pair_init of
           None \<Rightarrow> one (code_finding ''PAIR-STATIC-004'' TOOL_ERROR
             ''the validator sent server/pair-auth before client/pair-init'' [a])
         | Some i \<Rightarrow>
             if fr_id a < fr_id i
             then one (code_finding ''PAIR-STATIC-004'' TOOL_ERROR
               ''the validator sent server/pair-auth before client/pair-init'' [a])
             else one (code_finding ''PAIR-STATIC-004'' PASS
               ''the client sent client/pair-init before any server/pair-auth'' [i, a]))
     | None \<Rightarrow> (case pair_init of
           None \<Rightarrow> one (unanswered c ''PAIR-STATIC-004'' ''client/pair-init'')
         | Some i \<Rightarrow> one (code_finding ''PAIR-STATIC-004'' PASS
             ''the client sent client/pair-init before any server/pair-auth'' [i])))"

text \<open>The first of the wrong-code attempts, counted from \<open>number\<close>, that did not abort as it must.\<close>

fun unclean_attempt ::
  "connection_record \<Rightarrow> nat \<Rightarrow> nat \<Rightarrow> recorded_frame list
   \<Rightarrow> (nat \<times> recorded_frame \<times> recorded_frame option) option" where
  "unclean_attempt c number 0 activations = None"
| "unclean_attempt c number (Suc left) [] = None"
| "unclean_attempt c number (Suc left) (activation # later) = (
     let abort = first_after c (fr_id activation)
           (\<lambda>f. (case later of [] \<Rightarrow> True | a # _ \<Rightarrow> fr_id f < fr_id a) \<and> is_in ''pair/abort'' f)
     in if (case abort of None \<Rightarrow> True | Some f \<Rightarrow> \<not> reason_is ''pairing_code_mismatch'' f)
        then Some (number, activation, abort)
        else unclean_attempt c (number + 1) left later)"

definition check_lockout :: "connection_record \<Rightarrow> int \<Rightarrow> finding list py" where
  "check_lockout c since = (
     let acts = pairing_activations c since in
     case unclean_attempt c 1 LOCKOUT_ATTEMPTS acts of
       Some (number, activation, abort) \<Rightarrow> collect [
         code_finding ''PAIR-STATIC-009'' FAIL
           (''wrong-code attempt '' @ nat_str number @ '' ended with ''
            @ (case abort of None \<Rightarrow> ''no pair/abort'' | Some f \<Rightarrow> describe f)
            @ '', not pair/abort 'pairing_code_mismatch'' @ sq)
           (activation # (case abort of None \<Rightarrow> [] | Some f \<Rightarrow> [f])),
         code_n_a ''PAIR-STATIC-010'' ''not reached: an earlier attempt did not fail cleanly'']
     | None \<Rightarrow>
         if length acts < LOCKOUT_ATTEMPTS
         then collect [code_not_reached ''PAIR-STATIC-009'', code_not_reached ''PAIR-STATIC-010'']
         else (
           let failed = code_finding ''PAIR-STATIC-009'' PASS
                 (''the client aborted each of '' @ nat_str LOCKOUT_ATTEMPTS
                  @ '' wrong-code attempts with 'pairing_code_mismatch'' @ sq)
                 (take LOCKOUT_ATTEMPTS acts)
           in if length acts \<le> LOCKOUT_ATTEMPTS
              then collect [failed, code_not_reached ''PAIR-STATIC-010'']
              else (
                let sixth = acts ! LOCKOUT_ATTEMPTS;
                    answer = first_inbound c sixth (Some (PAIRING_STARTS @ REFUSALS));
                    missed = (\<lambda>what frames. collect [failed,
                      code_finding ''PAIR-STATIC-010'' FAIL
                        (''after '' @ nat_str LOCKOUT_ATTEMPTS
                         @ '' failed attempts the client answered a sixth with '' @ what
                         @ '', not client/pair-pending: the window stayed open'') frames])
                in case answer of
                     None \<Rightarrow> missed ''nothing'' [sixth]
                   | Some f \<Rightarrow>
                       if frame_type f = Some ''client/pair-pending''
                       then collect [failed, code_finding ''PAIR-STATIC-010'' PASS
                         ''the window closed: the sixth attempt was held back with client/pair-pending''
                         [sixth, f]]
                       else missed (describe f) [sixth, f])))"

section \<open>Cancelling, timing out and presentation\<close>

definition check_cancel :: "connection_record \<Rightarrow> int \<Rightarrow> finding list py" where
  "check_cancel c since = (
     case first_after c since (\<lambda>f. is_out ''pair/abort'' f \<and> reason_is ''user_cancelled'' f) of
       None \<Rightarrow> one (code_finding ''PAIR-CTL-001'' TOOL_ERROR
         (''the validator did not cancel the attempt with pair/abort 'user_cancelled'' @ sq) [])
     | Some abort \<Rightarrow>
         (let leave = first_after c (fr_id abort) (\<lambda>f. is_out ''server/activate'' f
                        \<and> VStr ''pairing'' \<notin> set (activities (payload_or f)));
              goodbye = first_inbound c abort (Some [''client/goodbye''])
          in if goodbye \<noteq> None \<or> closed c \<or> rejected c
             then one (code_finding ''PAIR-CTL-001'' FAIL
               (''the client did not drop the cancelled attempt cleanly: ''
                @ (case goodbye of None \<Rightarrow> ''the connection ended'' | Some g \<Rightarrow> describe g))
               (abort # (case goodbye of None \<Rightarrow> [] | Some g \<Rightarrow> [g])))
             else (case leave of
               None \<Rightarrow> one (code_finding ''PAIR-CTL-001'' TOOL_ERROR
                 ''the validator sent no server/activate after cancelling'' [abort])
             | Some l \<Rightarrow> one (code_finding ''PAIR-CTL-001'' PASS
                 ''the client dropped the cancelled attempt and kept the connection'' [abort, l]))))"

definition check_timeout :: "connection_record \<Rightarrow> int \<Rightarrow> finding list py" where
  "check_timeout c since = (case first_after c since (is_in ''client/pair-init'') of
     None \<Rightarrow> one (unanswered c ''PAIR-CTL-002'' ''client/pair-init'')
   | Some pair_init \<Rightarrow>
       (let ended = (\<lambda>what frames. one (code_finding ''PAIR-CTL-002'' FAIL
              (''the idle attempt ended with '' @ what @ '', not pair/abort 'attempt_timeout'' @ sq)
              frames))
        in case first_after c (fr_id pair_init) (is_in ''pair/abort'') of
          Some abort \<Rightarrow>
            if reason_is ''attempt_timeout'' abort
            then one (code_finding ''PAIR-CTL-002'' PASS
              (''the client ended the idle attempt with pair/abort 'attempt_timeout'' @ sq)
              [pair_init, abort])
            else ended (describe abort) [pair_init, abort]
        | None \<Rightarrow>
            if closed c then ended ''the connection ended'' [pair_init]
            else if server_gave_up c pair_init
            then one (code_finding ''PAIR-CTL-002'' WARN
              (''the client had not ended the idle attempt when the validator gave up, after ''
               @ ''3 minutes; the spec recommends a 2-minute attempt timeout'') [pair_init])
            else ended ''no pair/abort'' [pair_init]))"

definition grouped :: "nat \<Rightarrow> string \<Rightarrow> bool" where
  "grouped half s \<longleftrightarrow> length s = 2 * half + 1 \<and> list_all is_digit (take half s)
     \<and> s ! half = CHR ''-'' \<and> list_all is_digit (drop (half + 1) s)"

definition code_shape :: "string \<Rightarrow> string" where
  "code_shape s = map (\<lambda>c. if is_digit c then CHR ''#'' else c) s"

definition check_presentation :: "string \<Rightarrow> string \<Rightarrow> nat \<Rightarrow> finding list py" where
  "check_presentation check_id typed digits = (
     let half = digits div 2 in
     if grouped half (strip typed)
     then one (human check_id PASS ''the code was shown grouped with a hyphen'')
     else one (human check_id WARN
            (''the code was shown as '' @ repr_str (code_shape (strip typed))
             @ '', not grouped as ''
             @ repr_str (replicate half (CHR ''#'') @ ''-'' @ replicate half (CHR ''#'')))))"

end
