(* ===== verification/Code_Facts.thy ===== *)
theory Code_Facts
  imports Code_Pairing_Checks Suite_Facts
begin

text \<open>
  What the checks of \<open>Code_Pairing_Checks\<close> promise: the contract with the report, the order of
  the verification stages, the lockout rule, the pairing indexes of each round, the exactness of
  the QR token and what the presentation check lets out of the code.
\<close>

section \<open>The contract with the report\<close>

interpretation code_maker: finding_maker code_finding CODE_REFS
  by unfold_locales
    (auto simp: code_finding_def ref_finding_def map_of_eq_None_iff split: option.splits)

lemma code_table_ids: "list_all (\<lambda>i. i \<in> set (map fst CODE_REFS))
   [''PAIR-DYN-QR-009'', ''PAIR-STATIC-001'', ''PAIR-STATIC-003'', ''PAIR-STATIC-004'',
    ''PAIR-STATIC-009'', ''PAIR-STATIC-010'', ''PAIR-CTL-001'', ''PAIR-CTL-002'']"
  by code_simp

lemma code_ids_known:
  "''PAIR-DYN-QR-009'' \<in> fst ` set CODE_REFS" "''PAIR-STATIC-001'' \<in> fst ` set CODE_REFS"
  "''PAIR-STATIC-003'' \<in> fst ` set CODE_REFS" "''PAIR-STATIC-004'' \<in> fst ` set CODE_REFS"
  "''PAIR-STATIC-009'' \<in> fst ` set CODE_REFS" "''PAIR-STATIC-010'' \<in> fst ` set CODE_REFS"
  "''PAIR-CTL-001'' \<in> fst ` set CODE_REFS" "''PAIR-CTL-002'' \<in> fst ` set CODE_REFS"
  using code_table_ids by simp_all

lemmas code_one_simps [simp] =
  code_ids_known [THEN code_maker.one_cites] code_ids_known [THEN code_maker.one_verdict]

lemmas code_defs = code_n_a_def code_not_reached_def unanswered_def

lemma set_case_option [simp]: "set (case x of None \<Rightarrow> [] | Some g \<Rightarrow> [g]) = set_option x"
  by (cases x) simp_all

lemma pairing_activations_sub: "set (pairing_activations c since) \<subseteq> set (cr_frames c)"
  by (auto simp: pairing_activations_def)

lemma index_answers_sub: "set (index_answers c a later) \<subseteq> set (cr_frames c)"
  by (auto simp: index_answers_def)

lemma fields_sent_sub: "(f, field, n) \<in> set (fields_sent c since) \<Longrightarrow> f \<in> set (cr_frames c)"
  by (auto simp: fields_sent_def)

lemma distinct_frames_sub: "set (distinct_frames fs) \<subseteq> set fs"
proof -
  have "set (foldl (\<lambda>acc f. if fr_id f \<in> fr_id ` set acc then acc else acc @ [f]) acc fs)
      \<subseteq> set acc \<union> set fs" for acc
  proof (induction fs arbitrary: acc)
    case (Cons f fs)
    from Cons [of acc] Cons [of "acc @ [f]"] show ?case by (auto simp del: foldl_append)
  qed simp
  from this [of "[]"] show ?thesis by (simp add: distinct_frames_def)
qed

lemma wrong_length_mem: "wrong_length xs = Inr (Some (f, field, n, k)) \<Longrightarrow> (f, field, n) \<in> set xs"
  by (induction xs rule: wrong_length.induct) (auto simp: py_simps split: if_splits)

lemma wrong_answer_mem: "wrong_answer answers e = Some f \<Longrightarrow> f \<in> set answers"
  by (auto simp: wrong_answer_def find_Some_split dest!: first_of_Some split: option.splits if_splits)

lemma judge_indexes_frames:
  assumes "set acts \<subseteq> set (cr_frames c)" and "set judged \<subseteq> set (cr_frames c)"
  shows "case judge_indexes c judged acts of
      Inl (a, w, _) \<Rightarrow> {a, w} \<subseteq> set (cr_frames c) | Inr js \<Rightarrow> set js \<subseteq> set (cr_frames c)"
  using assms
proof (induction c judged acts rule: judge_indexes.induct)
  case (1 c judged)
  then show ?case by simp
next
  case (2 c judged a later)
  show ?case
  proof (cases "index_answers c a later")
    case Nil
    with 2 show ?thesis by (simp add: Let_def)
  next
    case (Cons x xs)
    with index_answers_sub [of c a later] have x: "x \<in> set (cr_frames c)" by auto
    show ?thesis
    proof (cases "wrong_answer (index_answers c a later) (pairing_activations_since_handshake c a)")
      case None
      from "2.IH"(2) [OF refl Cons refl None] "2.prems" x have
        "case judge_indexes c (judged @ [x]) later of
           Inl (a, w, _) \<Rightarrow> {a, w} \<subseteq> set (cr_frames c) | Inr js \<Rightarrow> set js \<subseteq> set (cr_frames c)"
        by simp
      then show ?thesis using Cons None by (simp add: Let_def)
    next
      case (Some w)
      have "w \<in> set (cr_frames c)"
        using wrong_answer_mem [OF Some] index_answers_sub [of c a later] Cons by auto
      then show ?thesis using Cons Some "2.prems" by (simp add: Let_def)
    qed
  qed
qed

lemma commit_reports:
  "flow @ ''-001'' \<in> fst ` set CODE_REFS \<Longrightarrow> reports_of c (flow @ ''-001'') (check_commit c since flow)"
  by (auto simp: check_commit_def Let_def code_defs code_maker.one_cites
      dest!: suite_search split: option.splits)

lemma pairing_index_reports:
  assumes "cid \<in> fst ` set CODE_REFS"
  shows "reports_of c cid (check_pairing_index c since cid)"
  using judge_indexes_frames [OF pairing_activations_sub, of "[]" c since]
  by (auto simp: check_pairing_index_def code_defs code_maker.one_cites [OF assms] split: sum.splits)

lemma cpace_reports:
  assumes "cid \<in> fst ` set CODE_REFS"
  shows "reports_of c cid (check_cpace_lengths c since cid)"
proof -
  have "set (distinct_frames (map fst (fields_sent c since))) \<subseteq> set (cr_frames c)"
    using distinct_frames_sub [of "map fst (fields_sent c since)"] fields_sent_sub by fastforce
  then have "fr_id ` set (distinct_frames (map fst (fields_sent c since))) \<subseteq> frame_ids c"
    by (rule image_mono)
  then show ?thesis
    by (auto simp: check_cpace_lengths_def Let_def code_defs code_maker.one_cites [OF assms]
        dest!: wrong_length_mem fields_sent_sub intro!: reports_bind split: option.splits)
qed

lemma wrong_code_reports:
  "flow @ ''-004'' \<in> fst ` set CODE_REFS \<Longrightarrow> reports_of c (flow @ ''-004'') (check_wrong_code c since flow)"
  by (auto simp: check_wrong_code_def Let_def code_defs code_maker.one_cites
      dest!: suite_search split: option.splits)

lemma static_reports:
  "reports_of c ''PAIR-STATIC-001'' (check_static_pending c since)"
  "reports_of c ''PAIR-STATIC-003'' (check_static_shape c since)"
  "reports_of c ''PAIR-STATIC-004'' (check_static_order c since)"
  "reports_of c ''PAIR-CTL-001'' (check_cancel c since)"
  "reports_of c ''PAIR-CTL-002'' (check_timeout c since)"
  "reports_of c ''PAIR-DYN-QR-009'' (check_qr_token text)"
  using pairing_activations_sub [of c since]
  by (auto simp: check_static_pending_def check_static_shape_def check_static_order_def
      check_cancel_def check_timeout_def check_qr_token_def Let_def code_defs
      dest!: suite_search intro!: reports_bind split: option.splits sum.splits)

section \<open>Verification, in the order of the stages\<close>

definition stage_verdict :: "stage option \<Rightarrow> stage \<Rightarrow> verdict" where
  "stage_verdict failed s = (case failed of
     None \<Rightarrow> PASS | Some t \<Rightarrow> if s < t then PASS else if s = t then FAIL else NOT_APPLICABLE)"

lemma stage_finding_verdict:
  assumes "snd entry \<in> fst ` set CODE_REFS"
  shows "\<exists>f. stage_finding failed msg frames confirm entry = Inr f \<and> fi_id f = snd entry
    \<and> fi_verdict f = stage_verdict failed (fst entry)"
  using assms
  by (cases entry)
    (auto simp: stage_finding_def stage_verdict_def code_defs code_maker.make_known split: option.splits)

lemma collect_findings:
  "(\<And>x. x \<in> set xs \<Longrightarrow> \<exists>f. mk x = Inr f \<and> fi_id f = ident x \<and> fi_verdict f = v x) \<Longrightarrow>
   \<exists>fs. collect (map mk xs) = Inr fs \<and> map fi_id fs = map ident xs \<and> map fi_verdict fs = map v xs"
proof (induction xs)
  case Nil
  show ?case by simp
next
  case (Cons x xs)
  then obtain fs where fs: "collect (map mk xs) = Inr fs" "map fi_id fs = map ident xs"
    "map fi_verdict fs = map v xs" by auto
  from Cons.prems obtain f where "mk x = Inr f" "fi_id f = ident x" "fi_verdict f = v x" by auto
  with fs show ?case by (intro exI [of _ "f # fs"]) simp
qed

lemma verification_verdicts:
  assumes "snd ` set check_ids \<subseteq> fst ` set CODE_REFS"
    and "last_in c since ''client/pair-confirm'' = Some confirm"
    and "verification_outcome c confirm = Some (failed, msg, frames)"
  shows "\<exists>fs. check_verification c since check_ids = Inr fs
    \<and> map fi_id fs = map snd (sort_key fst check_ids)
    \<and> map fi_verdict fs = map (\<lambda>e. stage_verdict failed (fst e)) (sort_key fst check_ids)"
  unfolding check_verification_def assms(2,3) option.case prod.case
  by (rule collect_findings, rule stage_finding_verdict) (use assms(1) in auto)

lemma failure_stage_own: "list_all (\<lambda>(text, s). failure_stage (Some text) = Some s) FAILURE_STAGES"
  by code_simp

section \<open>The lockout\<close>

definition clean_attempt :: "connection_record \<Rightarrow> recorded_frame list \<Rightarrow> nat \<Rightarrow> bool" where
  "clean_attempt c acts i \<longleftrightarrow> (\<exists>abort.
     first_after c (fr_id (acts ! i)) (\<lambda>f. (Suc i < length acts \<longrightarrow> fr_id f < fr_id (acts ! Suc i))
        \<and> is_in ''pair/abort'' f) = Some abort
     \<and> reason_is ''pairing_code_mismatch'' abort)"

lemma clean_attempt_Suc: "clean_attempt c (a # acts) (Suc i) = clean_attempt c acts i"
  by (simp add: clean_attempt_def)

lemma clean_attempt_0:
  "clean_attempt c (a # later) 0 \<longleftrightarrow> \<not> (case first_after c (fr_id a)
      (\<lambda>f. (case later of [] \<Rightarrow> True | b # _ \<Rightarrow> fr_id f < fr_id b) \<and> is_in ''pair/abort'' f) of
        None \<Rightarrow> True | Some f \<Rightarrow> \<not> reason_is ''pairing_code_mismatch'' f)"
  by (cases later) (auto simp: clean_attempt_def split: option.splits)

lemma unclean_attempt_None:
  "unclean_attempt c n k acts = None \<longleftrightarrow> (\<forall>i < min k (length acts). clean_attempt c acts i)"
proof (induction c n k acts rule: unclean_attempt.induct)
  case (3 c n left a later)
  have all: "(\<forall>i < min (Suc left) (length (a # later)). clean_attempt c (a # later) i)
      \<longleftrightarrow> clean_attempt c (a # later) 0 \<and> (\<forall>i < min left (length later). clean_attempt c later i)"
    by (auto simp: less_Suc_eq_0_disj clean_attempt_Suc)
  show ?case
    unfolding all clean_attempt_0 using 3 by (simp add: Let_def)
qed simp_all

definition sixth_held_back :: "connection_record \<Rightarrow> recorded_frame list \<Rightarrow> bool" where
  "sixth_held_back c acts \<longleftrightarrow> (\<exists>f. first_inbound c (acts ! 5) (Some (PAIRING_STARTS @ REFUSALS)) = Some f
     \<and> frame_type f = Some ''client/pair-pending'')"

lemma lockout_verdicts:
  "let acts = pairing_activations c since;
       clean = list_all (clean_attempt c acts) [0..<min 5 (length acts)]
   in \<exists>f g. check_lockout c since = Inr [f, g]
      \<and> fi_id f = ''PAIR-STATIC-009'' \<and> fi_id g = ''PAIR-STATIC-010''
      \<and> fi_verdict f = (if clean then (if length acts < 5 then NOT_APPLICABLE else PASS) else FAIL)
      \<and> fi_verdict g = (if clean \<and> 5 < length acts
                        then (if sixth_held_back c acts then PASS else FAIL) else NOT_APPLICABLE)"
proof -
  let ?acts = "pairing_activations c since"
  note mk = code_maker.make_known [OF code_ids_known(5)] code_maker.make_known [OF code_ids_known(6)]
  have clean: "list_all (clean_attempt c ?acts) [0..<min 5 (length ?acts)]
      \<longleftrightarrow> unclean_attempt c 1 LOCKOUT_ATTEMPTS ?acts = None"
    by (auto simp: unclean_attempt_None list_all_iff LOCKOUT_ATTEMPTS_def)
  show ?thesis
  proof (cases "unclean_attempt c 1 LOCKOUT_ATTEMPTS ?acts")
    case (Some x)
    then show ?thesis
      unfolding Let_def clean by (cases x) (simp add: check_lockout_def Let_def code_defs mk)
  next
    case None
    then show ?thesis
      unfolding Let_def clean
      by (auto simp: check_lockout_def Let_def code_defs mk LOCKOUT_ATTEMPTS_def sixth_held_back_def
          split: option.splits)
  qed
qed

section \<open>The pairing index of each round\<close>

fun rounds :: "connection_record \<Rightarrow> recorded_frame list \<Rightarrow> (recorded_frame \<times> recorded_frame list) list" where
  "rounds c [] = []"
| "rounds c (a # later) = (a, index_answers c a later) # rounds c later"

definition round_ok :: "connection_record \<Rightarrow> recorded_frame \<times> recorded_frame list \<Rightarrow> bool" where
  "round_ok c r \<longleftrightarrow> (let e = pairing_activations_since_handshake c (fst r) in
     snd r \<noteq> [] \<longrightarrow> (\<exists>f \<in> set (snd r). index_matches f e)
       \<and> (\<forall>f \<in> set (snd r). index_matches f e \<or> index_below f e))"

lemma wrong_answer_None:
  "answers \<noteq> [] \<Longrightarrow> wrong_answer answers e = None \<longleftrightarrow>
     (\<exists>f \<in> set answers. index_matches f e)
     \<and> (\<forall>f \<in> set answers. index_matches f e \<or> index_below f e)"
  by (auto simp: wrong_answer_def find_None_iff list_ex_iff split: option.splits)
    (auto simp: find_Some_split first_of_def split: list.splits)

lemma judge_indexes_rounds:
  "judge_indexes c judged acts = Inr js \<longleftrightarrow>
     list_all (round_ok c) (rounds c acts)
     \<and> js = judged @ map (hd \<circ> snd) (filter (\<lambda>r. snd r \<noteq> []) (rounds c acts))"
proof (induction c judged acts arbitrary: js rule: judge_indexes.induct)
  case (1 c judged)
  then show ?case by auto
next
  case (2 c judged a later)
  show ?case
  proof (cases "index_answers c a later")
    case Nil
    with 2 show ?thesis by (simp add: Let_def round_ok_def)
  next
    case (Cons x xs)
    let ?e = "pairing_activations_since_handshake c a"
    have ok: "round_ok c (a, index_answers c a later) \<longleftrightarrow> wrong_answer (index_answers c a later) ?e = None"
      using wrong_answer_None [of "x # xs" ?e] Cons by (simp add: round_ok_def Let_def)
    show ?thesis
    proof (cases "wrong_answer (index_answers c a later) ?e")
      case None
      with "2.IH"(2) [OF refl Cons refl None] ok Cons show ?thesis by (auto simp: Let_def)
    next
      case (Some w)
      with ok Cons show ?thesis by (simp add: Let_def)
    qed
  qed
qed

lemma pairing_index_verdict:
  assumes "cid \<in> fst ` set CODE_REFS"
  shows "verdict_of (check_pairing_index c since cid) = Some (
    let rs = rounds c (pairing_activations c since) in
    if \<not> list_all (round_ok c) rs then FAIL
    else if \<forall>r \<in> set rs. snd r = [] then (if rejected c then NOT_APPLICABLE else FAIL)
    else PASS)"
proof (cases "judge_indexes c [] (pairing_activations c since)")
  case (Inl x)
  then have "\<not> list_all (round_ok c) (rounds c (pairing_activations c since))"
    using judge_indexes_rounds [of c "[]" "pairing_activations c since"] by auto
  with Inl show ?thesis
    by (cases x) (simp add: check_pairing_index_def code_maker.one_verdict [OF assms] Let_def)
next
  case (Inr js)
  then have "list_all (round_ok c) (rounds c (pairing_activations c since))"
    and "js = [] \<longleftrightarrow> (\<forall>r \<in> set (rounds c (pairing_activations c since)). snd r = [])"
    using judge_indexes_rounds [of c "[]" "pairing_activations c since" js]
    by (auto simp: filter_empty_conv)
  with Inr show ?thesis
    by (simp add: check_pairing_index_def code_defs code_maker.one_verdict [OF assms] Let_def)
qed

section \<open>The QR token, the presentation and the redacted lengths\<close>

lemma encode_code_size: "encode_pairing_code_token code = Inr t \<Longrightarrow> length code = QR_CODE_SIZE"
  by (auto simp: encode_pairing_code_token_def split: if_splits)

lemma qr_verdict:
  "verdict_of (check_qr_token text) = Some (
     if \<exists>code. is_bytes code \<and> length code = QR_CODE_SIZE
          \<and> strip text = encode_token PAIRING_CODE_TOKEN_VERSION code
     then PASS else FAIL)"
proof (cases "decode_pairing_code_token text")
  case (Inl e)
  then show ?thesis using exact_token [of "text"] by (simp add: check_qr_token_def)
next
  case (Inr code)
  then have "encode_pairing_code_token code = Inr (encode_token PAIRING_CODE_TOKEN_VERSION code)"
    using decode_code_bytes code_token_roundtrip(1) by blast
  then show ?thesis using exact_token [of "text"] Inr by (auto simp: check_qr_token_def)
qed

lemma is_space_shape: "is_space (if is_digit c then CHR ''#'' else c) = is_space c"
proof -
  have "list_all (\<lambda>c. \<not> is_space c) ''0123456789#''" by code_simp
  then show ?thesis by (auto simp: is_digit_def list_all_iff)
qed

lemma code_shape_strip: "code_shape (strip s) = strip (code_shape s)"
proof -
  have d: "dropWhile is_space (code_shape t) = code_shape (dropWhile is_space t)" for t
    by (simp add: code_shape_def dropWhile_map comp_def is_space_shape)
  have r: "rev (code_shape t) = code_shape (rev t)" for t
    by (simp add: code_shape_def rev_map)
  show ?thesis unfolding strip_def d r ..
qed

definition same_digit :: "char \<Rightarrow> char \<Rightarrow> bool" where
  "same_digit c d \<longleftrightarrow> (is_digit c = is_digit d) \<and> (\<not> is_digit c \<longrightarrow> c = d)"

lemma same_digitI:
  "(if is_digit c then h else c) = (if is_digit d then h else d) \<Longrightarrow> c \<noteq> h \<Longrightarrow> d \<noteq> h \<Longrightarrow> same_digit c d"
  unfolding same_digit_def by metis

lemma code_shape_digits:
  "code_shape s = code_shape t \<Longrightarrow> CHR ''#'' \<notin> set s \<Longrightarrow> CHR ''#'' \<notin> set t \<Longrightarrow> list_all2 same_digit s t"
proof (induction s arbitrary: t)
  case Nil
  then show ?case by (simp add: code_shape_def)
next
  case (Cons c s)
  then obtain d u where t: "t = d # u" by (cases t) (simp_all add: code_shape_def)
  have eq: "(if is_digit c then CHR ''#'' else c) = (if is_digit d then CHR ''#'' else d)"
    and rest: "code_shape s = code_shape u"
    using Cons.prems(1) unfolding t code_shape_def list.map list.inject by blast+
  have ne: "c \<noteq> CHR ''#''" "d \<noteq> CHR ''#''" "CHR ''#'' \<notin> set s" "CHR ''#'' \<notin> set u"
    using Cons.prems(2,3) unfolding t by (metis list.set_intros)+
  show ?case
    unfolding t list_all2_Cons
    using same_digitI [OF eq ne(1,2)] Cons.IH [OF rest ne(3,4)] by blast
qed

lemma same_digit_list: "list_all2 same_digit xs ys \<Longrightarrow> list_all is_digit xs = list_all is_digit ys"
  by (induction rule: list_all2_induct) (auto simp: same_digit_def)

lemma grouped_shape:
  assumes "list_all2 same_digit s t"
  shows "grouped half s = grouped half t"
proof -
  have len: "length s = length t" using assms by (rule list_all2_lengthD)
  have dash: "\<not> is_digit (CHR ''-'')" by (simp add: is_digit_def)
  have mid: "s ! half = CHR ''-'' \<longleftrightarrow> t ! half = CHR ''-''" if "half < length t"
    using list_all2_nthD2 [OF assms that] dash unfolding same_digit_def by metis
  have t1: "list_all is_digit (take half s) = list_all is_digit (take half t)"
    using assms by (intro same_digit_list) (rule list_all2_takeI)
  have t2: "list_all is_digit (drop (half + 1) s) = list_all is_digit (drop (half + 1) t)"
    using assms by (intro same_digit_list) (rule list_all2_dropI)
  show ?thesis
    unfolding grouped_def len t1 t2 using mid by auto
qed

lemma set_strip: "set (strip s) \<subseteq> set s"
  by (auto simp: strip_def dest!: set_dropWhileD)

lemma presentation_shape:
  assumes "code_shape s = code_shape t" and "CHR ''#'' \<notin> set s" and "CHR ''#'' \<notin> set t"
  shows "check_presentation cid s digits = check_presentation cid t digits"
proof -
  have shape: "code_shape (strip s) = code_shape (strip t)"
    by (simp add: code_shape_strip assms(1))
  have "grouped half (strip s) = grouped half (strip t)" for half
    using shape assms(2,3) set_strip by (intro grouped_shape code_shape_digits) blast+
  then show ?thesis by (simp only: check_presentation_def shape)
qed

lemma fields_secret:
  "((t, field), n) \<in> set CLIENT_FIELD_LENGTHS \<Longrightarrow> is_secret_field field"
proof -
  have "list_all (\<lambda>((t, field), n). is_secret_field field) CLIENT_FIELD_LENGTHS" by code_simp
  then show "((t, field), n) \<in> set CLIENT_FIELD_LENGTHS \<Longrightarrow> ?thesis" by (auto simp: list_all_iff)
qed

lemma dict_get_redact:
  "dict_get k (redact_pairs S d) =
     (if k \<in> fst ` set d then (if is_secret_field k then VStr (redact_field (dict_get k d)) else redact S (dict_get k d))
      else VNone)"
  by (induction d) (auto split: if_splits)

lemma redacted_field_length:
  assumes "is_secret_field field" and "has_key field p"
    and "\<forall>s. dict_get field p = VStr s \<longrightarrow> length (nat_str (length s)) \<le> 4300"
  shows "redacted_length (dict_get field (redact_pairs S p)) =
    Inr (case dict_get field p of VStr s \<Rightarrow> Some (length s) | _ \<Rightarrow> None)"
proof -
  have "redacted_length (VStr REDACTED) = Inr None"
    by (simp add: redacted_length_def REDACTED_def is_digit_def)
  then show ?thesis
    using assms by (simp add: dict_get_redact redacted_length_marker split: pyval.splits)
qed

end
