(* ===== verification/Protocol.thy ===== *)
theory Protocol
  imports Py_Text "HOL-Library.Multiset"
begin

text \<open>
  \<open>protocol.py\<close>: the assertions every case is judged by. A function that returns the reason of a
  violation or \<open>None\<close> returns a \<open>string option\<close>; the two judges that walk a recorded trace keep
  the state of their loop in a record and stop at the first reason.
\<close>

section \<open>Evidence\<close>

definition HARNESS_GAP :: string where
  "HARNESS_GAP = ''Harness gap, not a protocol result: ''"

definition SPEC_REVISION :: string where
  "SPEC_REVISION = ''8c9577ea8719ad082d051ec13cc73ef15ed68948''"

definition RC1_ACTIVITIES :: "string list" where
  "RC1_ACTIVITIES = [''pairing'', ''playback'']"

definition RC1_PLAYBACK_STATES :: "string list" where
  "RC1_PLAYBACK_STATES = [''playing'', ''stopped'']"

record protocol_assertion =
  pa_id :: string
  pa_title :: string
  pa_specification_url :: string

definition spec_url :: "string \<Rightarrow> string" where
  "spec_url part = ''https://github.com/Sendspin/spec/blob/'' @ SPEC_REVISION @ ''/'' @ part"

definition PROTOCOL_ASSERTIONS :: "protocol_assertion list" where
  "PROTOCOL_ASSERTIONS = [
     \<lparr>pa_id = ''CORE-001'',
      pa_title = ''Handshake messages use the required order and WebSocket frame types.'',
      pa_specification_url = spec_url ''messaging.md#communication''\<rparr>,
     \<lparr>pa_id = ''CORE-002'',
      pa_title = ''No application message is exchanged before the first server/activate.'',
      pa_specification_url = spec_url ''messaging.md#communication''\<rparr>,
     \<lparr>pa_id = ''CORE-003'',
      pa_title = ''The server activates only advertised role versions with required support objects.'',
      pa_specification_url = spec_url ''messaging.md#client--server-clienthello''\<rparr>,
     \<lparr>pa_id = ''CORE-004'',
      pa_title = ''Each activated client sends an initial client/state before role binary data.'',
      pa_specification_url = spec_url ''messaging.md#client--server-clientstate''\<rparr>,
     \<lparr>pa_id = ''PLAYER-001'',
      pa_title = ''A player stream selects an advertised format and sends valid timestamped chunks.'',
      pa_specification_url = spec_url ''roles/player/v1.md#server--client-streamstart-player-object''\<rparr>]"

text \<open>\<open>first_reason\<close>: the loop that returns at the first element with a reason.\<close>

fun first_reason :: "('a \<Rightarrow> string option) \<Rightarrow> 'a list \<Rightarrow> string option" where
  "first_reason f [] = None"
| "first_reason f (x # xs) = (case f x of Some r \<Rightarrow> Some r | None \<Rightarrow> first_reason f xs)"

definition assertion_failure :: "string \<Rightarrow> pydict \<Rightarrow> string \<Rightarrow> string option" where
  "assertion_failure role assertions assertion_id = (case dict_get assertion_id assertions of
     VDict result \<Rightarrow>
       if dict_get ''status'' result \<noteq> VStr ''passed''
       then Some (role @ '' did not pass '' @ assertion_id
              @ (case dict_get ''detail'' result of
                   VStr detail \<Rightarrow> if detail \<noteq> [] then '': '' @ detail else []
                 | _ \<Rightarrow> []))
       else (case dict_get ''events'' result of
               VList events \<Rightarrow>
                 if events = [] then Some (role @ '' '' @ assertion_id @ '' has no trace events'')
                 else None
             | _ \<Rightarrow> Some (role @ '' '' @ assertion_id @ '' has no trace events''))
   | _ \<Rightarrow> Some (role @ '' protocol evidence is missing '' @ assertion_id))"

definition summary_failure :: "string list \<Rightarrow> string \<times> pydict \<Rightarrow> string option" where
  "summary_failure assertion_ids entry = (
     let (role, summary) = entry in
     case dict_get ''protocol'' summary of
       VDict protocol \<Rightarrow>
         if dict_get ''spec_revision'' protocol \<noteq> VStr SPEC_REVISION
         then Some (role @ '' protocol evidence targets spec revision ''
                @ py_repr (dict_get ''spec_revision'' protocol) @ '', expected '' @ repr_str SPEC_REVISION)
         else (case dict_get ''assertions'' protocol of
                 VDict assertions \<Rightarrow> first_reason (assertion_failure role assertions) assertion_ids
               | _ \<Rightarrow> Some (role @ '' protocol evidence is missing its assertions map''))
     | _ \<Rightarrow> Some (role @ '' summary is missing required protocol evidence''))"

definition protocol_evidence_failure ::
  "pydict \<Rightarrow> pydict \<Rightarrow> string list \<Rightarrow> string option" where
  "protocol_evidence_failure server_summary client_summary assertion_ids = (
     let unknown = filter (\<lambda>a. a \<notin> set (map pa_id PROTOCOL_ASSERTIONS)) assertion_ids in
     if unknown \<noteq> []
     then Some (''Scenario references unknown protocol assertion(s): '' @ join '', '' unknown)
     else first_reason (summary_failure assertion_ids)
            [(''Server'', server_summary), (''Client'', client_summary)])"

section \<open>Activation and group updates\<close>

definition is_rc1_activity_set :: "pyval \<Rightarrow> bool" where
  "is_rc1_activity_set v = (case v of
     VList xs \<Rightarrow> list_all (\<lambda>x. case x of VStr s \<Rightarrow> s \<in> set RC1_ACTIVITIES | _ \<Rightarrow> False) xs \<and> distinct xs
   | _ \<Rightarrow> False)"

definition activation_defects :: "pydict \<Rightarrow> string list" where
  "activation_defects p =
     (if \<not> has_key ''activities'' p then [''omitted activities, which RC1 requires'']
      else if \<not> is_rc1_activity_set (dict_get ''activities'' p)
      then [''declared activities '' @ json_dumps (dict_get ''activities'' p)
            @ '', where RC1 requires a list of unique values drawn from 'pairing' and 'playback'' @ sq]
      else [])
     @ (if \<not> has_key ''active_roles'' p
        then [''omitted active_roles, which RC1 requires on the first activation''] else [])"

definition activation_violation :: "pydict \<Rightarrow> string option" where
  "activation_violation server_summary = (
     if \<not> has_key ''activation'' server_summary then None
     else (case dict_get ''activation'' server_summary of
       VNone \<Rightarrow> Some (''Server sent no initial server/activate; RC1 requires the server to send one ''
                     @ ''on every connection, as the last step of the initial sequence'')
     | VDict activation \<Rightarrow>
         if dict_get ''type'' activation \<noteq> VStr ''server/activate'' then None
         else (case dict_get ''payload'' activation of
           VDict p \<Rightarrow>
             if activation_defects p = [] then None
             else Some (''Server's initial server/activate '' @ join ''; '' (activation_defects p))
         | _ \<Rightarrow> None)
     | _ \<Rightarrow> None))"

definition string_field_defects :: "pydict \<Rightarrow> string \<Rightarrow> string list" where
  "string_field_defects p name =
     (if \<not> has_key name p then [''omitted '' @ name @ '', which RC1 requires'']
      else if \<not> is_str (dict_get name p)
      then [''declared '' @ name @ '' '' @ json_dumps (dict_get name p) @ '', where RC1 requires a string'']
      else [])"

definition group_update_defects :: "pyval \<Rightarrow> string list" where
  "group_update_defects v = (case v of
     VDict p \<Rightarrow>
       (if \<not> has_key ''playback_state'' p then [''omitted playback_state, which RC1 requires'']
        else if dict_get ''playback_state'' p \<notin> VStr ` set RC1_PLAYBACK_STATES
        then [''declared playback_state '' @ json_dumps (dict_get ''playback_state'' p)
              @ '', where RC1 requires 'playing' or 'stopped'' @ sq]
        else [])
       @ concat (map (string_field_defects p) [''group_id'', ''group_name''])
   | _ \<Rightarrow> [''carried no payload object, so none of the fields RC1 requires''])"

definition group_update_reason :: "nat \<Rightarrow> nat \<times> pyval \<Rightarrow> string option" where
  "group_update_reason in_all entry = (
     let (index, update) = entry in
     case update of
       VDict m \<Rightarrow>
         if dict_get ''type'' m = VStr ''group/update''
         then (let defects = group_update_defects (dict_get ''payload'' m) in
               if defects = [] then None
               else Some (''Server's group/update '' @ nat_str index @ '' of '' @ nat_str in_all
                      @ '' after server/activate '' @ join ''; '' defects))
         else Some (HARNESS_GAP @ ''the server adapter recorded something other than a ''
                @ ''group/update among those sent: '' @ json_dumps update)
     | _ \<Rightarrow> Some (HARNESS_GAP @ ''the server adapter recorded something other than a ''
              @ ''group/update among those sent: '' @ json_dumps update))"

definition group_update_violation :: "pydict \<Rightarrow> string option" where
  "group_update_violation server_summary = (
     if has_key ''activation'' server_summary \<and> dict_get ''activation'' server_summary = VNone then None
     else (case dict_get ''group_updates'' server_summary of
       VList updates \<Rightarrow>
         if updates = []
         then Some (''Server sent no group/update after its first server/activate; RC1 requires ''
                @ ''the server to send one on every connection'')
         else first_reason (group_update_reason (length updates))
                (zip [1..<length updates + 1] updates)
     | _ \<Rightarrow> Some (HARNESS_GAP @ ''the server adapter does not record the group/update messages ''
              @ ''it sent after its first server/activate'')))"

section \<open>The gate on stream/start\<close>

datatype gate_entry = ClientState pyval | Sending pyval | Sent pyval

definition GATE_RULE :: string where
  "GATE_RULE = ''RC1 forbids stream/start unless the latest client/state the server received ''
     @ ''reports available: true''"

definition gate_entry_of :: "pyval \<Rightarrow> gate_entry option" where
  "gate_entry_of v = (case v of
     VDict e \<Rightarrow>
       if dict_get ''type'' e = VStr ''client/state'' then Some (ClientState (dict_get ''available'' e))
       else if dict_get ''type'' e = VStr ''stream/start'' \<and> dict_get ''phase'' e = VStr ''sending''
       then Some (Sending (dict_get ''roles'' e))
       else if dict_get ''type'' e = VStr ''stream/start'' \<and> dict_get ''phase'' e = VStr ''sent''
       then Some (Sent (dict_get ''roles'' e))
       else None
   | _ \<Rightarrow> None)"

definition gate_entries :: "pyval \<Rightarrow> gate_entry list option" where
  "gate_entries trace = (case trace of VList xs \<Rightarrow> those (map gate_entry_of xs) | _ \<Rightarrow> None)"

definition gate_violation_reason :: "pyval option \<Rightarrow> pyval \<Rightarrow> string" where
  "gate_violation_reason latest roles = (
     let named = (case roles of
           VList rs \<Rightarrow> if rs \<noteq> [] then '' ('' @ join '', '' (map py_str rs) @ '')'' else []
         | _ \<Rightarrow> [])
     in case latest of
       None \<Rightarrow> ''Server sent stream/start'' @ named @ '' before it had received any client/state; ''
               @ GATE_RULE
     | Some v \<Rightarrow>
         if v = VBool False
         then ''Server sent stream/start'' @ named @ '' while the latest client/state it had ''
              @ ''received reported available: false; '' @ GATE_RULE
         else ''Client sent client/state without a boolean `available`, which RC1 requires on ''
              @ ''every client/state; the server then sent stream/start'' @ named @ '', and ''
              @ GATE_RULE)"

definition gate_unrecorded :: string where
  "gate_unrecorded = HARNESS_GAP @ ''the server adapter did not record the client/state messages it ''
     @ ''received and the stream/start messages it sent, so the available gate on ''
     @ ''stream/start cannot be judged''"

record gate_state =
  gs_latest :: "pyval option"
  gs_held :: "pyval option"
  gs_in_flight :: "bool option"
  gs_starts :: nat

definition gate_start :: gate_state where
  "gate_start = \<lparr>gs_latest = None, gs_held = None, gs_in_flight = None, gs_starts = 0\<rparr>"

definition gate_step :: "gate_state \<Rightarrow> gate_entry \<Rightarrow> string + gate_state" where
  "gate_step s e = (case e of
     ClientState v \<Rightarrow> Inr (s\<lparr>gs_latest := Some v,
         gs_in_flight := map_option (\<lambda>a. a \<or> v = VBool True) (gs_in_flight s)\<rparr>)
   | Sending roles \<Rightarrow> Inr (s\<lparr>gs_held := gs_latest s,
         gs_in_flight := Some (gs_latest s = Some (VBool True))\<rparr>)
   | Sent roles \<Rightarrow> (case gs_in_flight s of
       None \<Rightarrow> Inl gate_unrecorded
     | Some available \<Rightarrow>
         if \<not> available then Inl (gate_violation_reason (gs_held s) roles)
         else Inr (s\<lparr>gs_starts := gs_starts s + 1, gs_in_flight := None\<rparr>)))"

text \<open>A loop over a trace, from a state, that returns at the first reason.\<close>

fun run_steps :: "('s \<Rightarrow> 'e \<Rightarrow> 'r + 's) \<Rightarrow> 's \<Rightarrow> 'e list \<Rightarrow> 'r + 's" where
  "run_steps step s [] = Inr s"
| "run_steps step s (e # es) = (case step s e of Inl r \<Rightarrow> Inl r | Inr s' \<Rightarrow> run_steps step s' es)"

definition stream_start_gate_violation :: "pydict \<Rightarrow> string option" where
  "stream_start_gate_violation server_summary = (
     case gate_entries (dict_get ''availability_trace'' server_summary) of
       None \<Rightarrow> Some gate_unrecorded
     | Some entries \<Rightarrow> (case run_steps gate_step gate_start entries of
         Inl reason \<Rightarrow> Some reason
       | Inr s \<Rightarrow>
           if gs_starts s = 0
           then Some (HARNESS_GAP @ ''the server adapter recorded no stream/start reaching the wire ''
                  @ ''in a case that opened a stream, so the available gate on stream/start ''
                  @ ''cannot be judged'')
           else None))"

section \<open>The time exchange\<close>

definition TIME_FIELDS :: "string list" where
  "TIME_FIELDS = [''client_transmitted'', ''server_received'', ''server_transmitted'']"

definition time_field_defects :: "pydict \<Rightarrow> string \<Rightarrow> string list" where
  "time_field_defects p name =
     (if \<not> has_key name p then [''omitted '' @ name @ '', which RC1 requires'']
      else if \<not> is_int (dict_get name p)
      then [''declared '' @ name @ '' '' @ json_dumps (dict_get name p) @ '', where RC1 requires an integer'']
      else [])"

definition server_time_defects :: "pyval \<Rightarrow> string list" where
  "server_time_defects v = (case v of
     VDict p \<Rightarrow> concat (map (time_field_defects p) TIME_FIELDS)
   | _ \<Rightarrow> [''carried no payload object, so none of the fields RC1 requires''])"

fun int_of :: "pyval \<Rightarrow> int" where
  "int_of (VInt n) = n"
| "int_of _ = 0"

record time_state =
  ts_unanswered :: "(int \<times> int) list"
  ts_received :: int
  ts_answered :: int
  ts_latest :: int
  ts_passed :: "int list"

definition time_start :: time_state where
  "time_start = \<lparr>ts_unanswered = [], ts_received = 0, ts_answered = 0, ts_latest = 0, ts_passed = []\<rparr>"

definition client_time_step :: "time_state \<Rightarrow> pyval \<Rightarrow> string + time_state" where
  "client_time_step s payload = (
     let received = ts_received s + 1;
         sent = (case payload of VDict p \<Rightarrow> dict_get ''client_transmitted'' p | _ \<Rightarrow> VNone)
     in case sent of
       VInt n \<Rightarrow> Inr (s\<lparr>ts_received := received, ts_unanswered := ts_unanswered s @ [(received, n)]\<rparr>)
     | _ \<Rightarrow> Inl (''Client's client/time '' @ int_str received @ '' carried client_transmitted ''
              @ json_dumps sent @ '', where RC1 requires an integer''))"

definition server_time_step :: "time_state \<Rightarrow> pyval \<Rightarrow> string + time_state" where
  "server_time_step s payload = (
     let answered = ts_answered s + 1;
         defects = server_time_defects payload
     in if defects \<noteq> []
        then Inl (''Server's server/time '' @ int_str answered @ '' '' @ join ''; '' defects)
        else (
          let p = (case payload of VDict p \<Rightarrow> p | _ \<Rightarrow> []);
              echoed = int_of (dict_get ''client_transmitted'' p);
              received_at = int_of (dict_get ''server_received'' p);
              transmitted_at = int_of (dict_get ''server_transmitted'' p)
          in case find (\<lambda>item. snd item = echoed) (ts_unanswered s) of
               None \<Rightarrow> Inl (''Server's server/time '' @ int_str answered
                 @ '' carried client_transmitted '' @ int_str echoed
                 @ '', which is not the value of any client/time it had received and not yet ''
                 @ ''answered; RC1 defines the field as the timestamp received in the client/time'')
             | Some item \<Rightarrow>
                 if received_at > transmitted_at
                 then Inl (''Server's server/time '' @ int_str answered @ '' carried server_received ''
                   @ int_str received_at @ '' later than its server_transmitted ''
                   @ int_str transmitted_at @ ''; both are readings of the server's ''
                   @ ''monotonic clock, and it receives the client/time before it responds'')
                 else Inr (s\<lparr>ts_answered := answered,
                        ts_unanswered := remove1 item (ts_unanswered s),
                        ts_latest := max (ts_latest s) (fst item)\<rparr>)))"

definition time_step :: "time_state \<Rightarrow> pyval \<Rightarrow> string + time_state" where
  "time_step s entry = (
     let e = (case entry of VDict d \<Rightarrow> d | _ \<Rightarrow> []);
         kind = dict_get ''type'' e
     in if kind = VStr ''other-sent''
        then Inr (s\<lparr>ts_passed := ts_passed s @ map fst (ts_unanswered s)\<rparr>)
        else if kind = VStr ''client/time'' then client_time_step s (dict_get ''payload'' e)
        else if kind = VStr ''server/time'' then server_time_step s (dict_get ''payload'' e)
        else Inl (HARNESS_GAP @ ''the server adapter recorded something other than a ''
               @ ''client/time, server/time or other-sent in the exchange: '' @ json_dumps entry))"

definition unanswered_reason :: "time_state \<Rightarrow> int \<times> int \<Rightarrow> string option" where
  "unanswered_reason s item = (
     let position = fst item;
         reason = (\<lambda>went_on. Some (''Server sent no server/time for client/time '' @ int_str position
           @ '' of '' @ int_str (ts_received s) @ '', yet '' @ went_on
           @ ''; RC1 says the server responds to a client/time with a ''
           @ ''server/time, without marking that as a MUST or a SHOULD''))
     in if position < ts_latest s then reason ''answered one it received later''
        else if position \<in> set (ts_passed s) \<and> position < ts_received s
        then reason ''sent another message after receiving it''
        else None)"

definition time_exchange_violation :: "pydict \<Rightarrow> string option" where
  "time_exchange_violation server_summary = (case dict_get ''time_exchange'' server_summary of
     VList exchange \<Rightarrow> (case run_steps time_step time_start exchange of
       Inl reason \<Rightarrow> Some reason
     | Inr s \<Rightarrow> first_reason (unanswered_reason s) (ts_unanswered s))
   | _ \<Rightarrow> Some (HARNESS_GAP @ ''the server adapter did not record the client/time messages it ''
            @ ''received and the server/time messages it sent, so the exchange cannot be judged''))"

end
