(* ===== verification/Protocol_Facts.thy ===== *)
theory Protocol_Facts
  imports Protocol
begin

text \<open>
  What the judges of \<open>Protocol\<close> decide: each reason-or-\<open>None\<close> result is characterised over the
  summary it reads, and the two trace loops over the trace they walked, by invariants of their
  state that hold after every entry.
\<close>

section \<open>Evidence, activation and group updates\<close>

lemma first_reason_None: "first_reason f xs = None \<longleftrightarrow> (\<forall>x \<in> set xs. f x = None)"
  by (induction xs) (auto split: option.splits)

lemma first_reason_Some:
  "first_reason f xs = Some r \<longleftrightarrow> (\<exists>us x vs. xs = us @ x # vs \<and> f x = Some r \<and> (\<forall>u \<in> set us. f u = None))"
proof (induction xs)
  case Nil
  show ?case by simp
next
  case (Cons y ys)
  show ?case
  proof (cases "f y")
    case None
    then have "first_reason f (y # ys) = first_reason f ys" by simp
    moreover have "(\<exists>us x vs. y # ys = us @ x # vs \<and> f x = Some r \<and> (\<forall>u \<in> set us. f u = None)) \<longleftrightarrow>
        (\<exists>us x vs. ys = us @ x # vs \<and> f x = Some r \<and> (\<forall>u \<in> set us. f u = None))" (is "?l \<longleftrightarrow> ?r")
    proof
      assume ?l
      then obtain us x vs where "y # ys = us @ x # vs" "f x = Some r" "\<forall>u \<in> set us. f u = None" by blast
      with None show ?r by (cases us) auto
    next
      assume ?r
      then obtain us x vs where "ys = us @ x # vs" "f x = Some r" "\<forall>u \<in> set us. f u = None" by blast
      with None show ?l by (intro exI [of _ "y # us"] exI [of _ x] exI [of _ vs]) simp
    qed
    ultimately show ?thesis using Cons.IH by simp
  next
    case (Some q)
    have "(\<exists>us x vs. y # ys = us @ x # vs \<and> f x = Some r \<and> (\<forall>u \<in> set us. f u = None)) \<longleftrightarrow> q = r"
      (is "?l \<longleftrightarrow> _")
    proof
      assume ?l
      then obtain us x vs where "y # ys = us @ x # vs" "f x = Some r" "\<forall>u \<in> set us. f u = None" by blast
      with Some show "q = r" by (cases us) auto
    next
      assume "q = r"
      with Some show ?l by (intro exI [of _ "[]"] exI [of _ y] exI [of _ ys]) simp
    qed
    with Some show ?thesis by simp
  qed
qed

text \<open>Passing evidence of one assertion, and of one summary.\<close>

definition assertion_passed :: "pydict \<Rightarrow> string \<Rightarrow> bool" where
  "assertion_passed assertions a \<longleftrightarrow> (\<exists>result. dict_get a assertions = VDict result
     \<and> dict_get ''status'' result = VStr ''passed''
     \<and> (\<exists>events. dict_get ''events'' result = VList events \<and> events \<noteq> []))"

definition summary_passed :: "string list \<Rightarrow> pydict \<Rightarrow> bool" where
  "summary_passed ids summary \<longleftrightarrow> (\<exists>protocol assertions.
     dict_get ''protocol'' summary = VDict protocol
     \<and> dict_get ''spec_revision'' protocol = VStr SPEC_REVISION
     \<and> dict_get ''assertions'' protocol = VDict assertions
     \<and> (\<forall>a \<in> set ids. assertion_passed assertions a))"

lemma assertion_failure_None: "assertion_failure role d a = None \<longleftrightarrow> assertion_passed d a"
  by (auto simp: assertion_failure_def assertion_passed_def split: pyval.splits if_splits)

lemma summary_failure_None: "summary_failure ids (role, s) = None \<longleftrightarrow> summary_passed ids s"
  by (auto simp: summary_failure_def summary_passed_def first_reason_None assertion_failure_None
      split: pyval.splits if_splits)

lemma evidence_None:
  "protocol_evidence_failure server client ids = None \<longleftrightarrow>
     set ids \<subseteq> pa_id ` set PROTOCOL_ASSERTIONS \<and> summary_passed ids server \<and> summary_passed ids client"
  by (auto simp: protocol_evidence_failure_def Let_def first_reason_None summary_failure_None
      filter_empty_conv simp del: first_reason.simps split: if_splits)

definition activation_conforms :: "pydict \<Rightarrow> bool" where
  "activation_conforms p \<longleftrightarrow> has_key ''active_roles'' p
     \<and> (\<exists>xs. dict_get ''activities'' p = VList (map VStr xs) \<and> distinct xs
          \<and> set xs \<subseteq> {''pairing'', ''playback''})"

lemma rc1_activity_set:
  "is_rc1_activity_set v \<longleftrightarrow> (\<exists>xs. v = VList (map VStr xs) \<and> distinct xs \<and> set xs \<subseteq> {''pairing'', ''playback''})"
proof
  assume "is_rc1_activity_set v"
  then obtain vs where vs: "v = VList vs" "distinct vs"
    and all: "list_all (\<lambda>x. case x of VStr s \<Rightarrow> s \<in> set RC1_ACTIVITIES | _ \<Rightarrow> False) vs"
    by (auto simp: is_rc1_activity_set_def split: pyval.splits)
  from all have "\<exists>xs. vs = map VStr xs \<and> set xs \<subseteq> {''pairing'', ''playback''}"
  proof (induction vs)
    case (Cons y ys)
    then obtain xs s where "ys = map VStr xs" "set xs \<subseteq> {''pairing'', ''playback''}" "y = VStr s"
      "s \<in> {''pairing'', ''playback''}"
      by (cases y) (auto simp: RC1_ACTIVITIES_def)
    then show ?case by (intro exI [of _ "s # xs"]) simp
  qed simp
  with vs show "\<exists>xs. v = VList (map VStr xs) \<and> distinct xs \<and> set xs \<subseteq> {''pairing'', ''playback''}"
    by (auto simp: distinct_map)
next
  assume "\<exists>xs. v = VList (map VStr xs) \<and> distinct xs \<and> set xs \<subseteq> {''pairing'', ''playback''}"
  then show "is_rc1_activity_set v"
    by (auto simp: is_rc1_activity_set_def RC1_ACTIVITIES_def list_all_iff distinct_map inj_on_def)
qed

lemma activation_defects_Nil: "activation_defects p = [] \<longleftrightarrow> activation_conforms p"
  using rc1_activity_set [of "dict_get ''activities'' p"] dict_get_has_key [of "''activities''" p]
  by (auto simp: activation_defects_def activation_conforms_def)

lemma activation_violation_iff:
  "activation_violation s \<noteq> None \<longleftrightarrow> has_key ''activation'' s
     \<and> (dict_get ''activation'' s = VNone
        \<or> (\<exists>m p. dict_get ''activation'' s = VDict m \<and> dict_get ''type'' m = VStr ''server/activate''
             \<and> dict_get ''payload'' m = VDict p \<and> \<not> activation_conforms p))"
  unfolding activation_defects_Nil [symmetric]
  by (auto simp: activation_violation_def split: pyval.splits)

definition group_update_conforms :: "pyval \<Rightarrow> bool" where
  "group_update_conforms v \<longleftrightarrow> (\<exists>m p. v = VDict m \<and> dict_get ''type'' m = VStr ''group/update''
     \<and> dict_get ''payload'' m = VDict p
     \<and> dict_get ''playback_state'' p \<in> {VStr ''playing'', VStr ''stopped''}
     \<and> is_str (dict_get ''group_id'' p) \<and> is_str (dict_get ''group_name'' p))"

lemma string_field_defects_Nil: "string_field_defects p k = [] \<longleftrightarrow> is_str (dict_get k p)"
  using dict_get_has_key [of k p] by (auto simp: string_field_defects_def is_str_iff)

lemma group_update_defects_Nil:
  "group_update_defects (VDict p) = [] \<longleftrightarrow>
     dict_get ''playback_state'' p \<in> {VStr ''playing'', VStr ''stopped''}
     \<and> is_str (dict_get ''group_id'' p) \<and> is_str (dict_get ''group_name'' p)"
  using dict_get_has_key [of "''playback_state''" p]
  by (auto simp: group_update_defects_def RC1_PLAYBACK_STATES_def string_field_defects_Nil)

lemma group_update_reason_None:
  "group_update_reason n (i, v) = None \<longleftrightarrow> group_update_conforms v"
proof -
  have none: "\<not> is_dict w \<Longrightarrow> group_update_defects w \<noteq> []" for w
    by (cases w) (simp_all add: group_update_defects_def)
  show ?thesis
  proof (cases v)
    case (VDict m)
    then show ?thesis
    proof (cases "dict_get ''payload'' m")
      case (VDict p)
      with \<open>v = VDict m\<close> show ?thesis
        by (auto simp: group_update_reason_def group_update_conforms_def Let_def group_update_defects_Nil)
    qed (auto simp: group_update_reason_def group_update_conforms_def Let_def none)
  qed (auto simp: group_update_reason_def group_update_conforms_def)
qed

lemma group_update_None:
  "group_update_violation s = None \<longleftrightarrow>
     (has_key ''activation'' s \<and> dict_get ''activation'' s = VNone)
     \<or> (\<exists>updates. dict_get ''group_updates'' s = VList updates \<and> updates \<noteq> []
          \<and> (\<forall>u \<in> set updates. group_update_conforms u))"
proof -
  have zip: "(\<forall>e \<in> set (zip [Suc 0..<Suc (length us)] us). group_update_reason n e = None)
      \<longleftrightarrow> (\<forall>u \<in> set us. group_update_conforms u)" for us n
  proof -
    have "(\<forall>e \<in> set (zip [Suc 0..<Suc (length us)] us). group_update_reason n e = None)
        \<longleftrightarrow> (\<forall>u \<in> snd ` set (zip [Suc 0..<Suc (length us)] us). group_update_conforms u)"
      by (auto simp: group_update_reason_None simp del: upt_Suc)
    also have "snd ` set (zip [Suc 0..<Suc (length us)] us) = set us"
      by (metis length_upt diff_Suc_1 diff_Suc_Suc list.set_map map_snd_zip diff_zero)
    finally show ?thesis .
  qed
  show ?thesis
    by (auto simp: group_update_violation_def first_reason_None zip simp del: upt_Suc split: pyval.splits)
qed

section \<open>Loops over a trace\<close>

lemma run_steps_append:
  "run_steps step s (xs @ ys) = (case run_steps step s xs of Inl r \<Rightarrow> Inl r | Inr s' \<Rightarrow> run_steps step s' ys)"
  by (induction xs arbitrary: s) (auto split: sum.splits)

lemma run_steps_snoc:
  "run_steps step s (xs @ [e]) = (case run_steps step s xs of Inl r \<Rightarrow> Inl r | Inr s' \<Rightarrow> step s' e)"
  by (simp add: run_steps_append split: sum.splits)

text \<open>
  A relation between the state of the loop and the entries it has read, kept by every step that
  does not return: it holds when the loop ends without a reason.
\<close>

locale traced_loop =
  fixes step :: "'s \<Rightarrow> 'e \<Rightarrow> 'r + 's" and start :: 's and inv :: "'s \<Rightarrow> 'e list \<Rightarrow> bool"
  assumes inv_start: "inv start []"
    and inv_step: "inv s pre \<Longrightarrow> step s e = Inr s' \<Longrightarrow> inv s' (pre @ [e])"
begin

lemma run_inv: "run_steps step start es = Inr s \<Longrightarrow> inv s es"
proof (induction es arbitrary: s rule: rev_induct)
  case Nil
  then show ?case using inv_start by simp
next
  case (snoc e es)
  then show ?case using inv_step by (auto simp: run_steps_snoc split: sum.splits)
qed

lemma run_prefix_inv: "run_steps step start (pre @ post) = Inr s \<Longrightarrow> \<exists>s'. run_steps step start pre = Inr s' \<and> inv s' pre"
  using run_inv by (auto simp: run_steps_append split: sum.splits)

end

section \<open>The gate on stream/start\<close>

primrec is_state :: "gate_entry \<Rightarrow> bool" where
  "is_state (ClientState v) = True"
| "is_state (Sending r) = False"
| "is_state (Sent r) = False"

primrec is_sent :: "gate_entry \<Rightarrow> bool" where
  "is_sent (ClientState v) = False"
| "is_sent (Sending r) = False"
| "is_sent (Sent r) = True"

text \<open>The availability the latest \<open>client/state\<close> of a trace carried.\<close>

fun last_state :: "gate_entry list \<Rightarrow> pyval option" where
  "last_state [] = None"
| "last_state (e # es) = (case last_state es of
     Some v \<Rightarrow> Some v | None \<Rightarrow> (case e of ClientState v \<Rightarrow> Some v | _ \<Rightarrow> None))"

lemma last_state_snoc:
  "last_state (es @ [e]) = (case e of ClientState v \<Rightarrow> Some v | _ \<Rightarrow> last_state es)"
  by (induction es) (auto split: gate_entry.splits option.splits)

text \<open>
  A trace that ends inside a bracket: its last \<open>sending\<close> was followed by client states only, and
  \<open>a\<close> says whether an available state was the latest at any point since.
\<close>

definition in_bracket :: "gate_entry list \<Rightarrow> bool \<Rightarrow> bool" where
  "in_bracket es a \<longleftrightarrow> (\<exists>us r vs. es = us @ Sending r # vs \<and> list_all is_state vs
     \<and> a = (last_state us = Some (VBool True) \<or> ClientState (VBool True) \<in> set vs))"

lemma in_bracket_Nil [simp]: "\<not> in_bracket [] a"
  by (simp add: in_bracket_def)

lemma in_bracket_state:
  "in_bracket (es @ [ClientState v]) a \<longleftrightarrow> (\<exists>b. in_bracket es b \<and> a = (b \<or> v = VBool True))"
proof
  assume "in_bracket (es @ [ClientState v]) a"
  then obtain us r vs where e: "es @ [ClientState v] = us @ Sending r # vs" "list_all is_state vs"
    and a: "a = (last_state us = Some (VBool True) \<or> ClientState (VBool True) \<in> set vs)"
    unfolding in_bracket_def by blast
  from e(1) have "vs \<noteq> []" by auto
  then obtain ws where ws: "vs = ws @ [ClientState v]" "es = us @ Sending r # ws"
    using e(1) by (cases vs rule: rev_cases) auto
  then have "in_bracket es (last_state us = Some (VBool True) \<or> ClientState (VBool True) \<in> set ws)"
    using e(2) unfolding in_bracket_def by (intro exI [of _ us] exI [of _ r] exI [of _ ws]) simp
  then show "\<exists>b. in_bracket es b \<and> a = (b \<or> v = VBool True)" using a ws by auto
next
  assume "\<exists>b. in_bracket es b \<and> a = (b \<or> v = VBool True)"
  then obtain us r vs where "es = us @ Sending r # vs" "list_all is_state vs"
    and "a = ((last_state us = Some (VBool True) \<or> ClientState (VBool True) \<in> set vs) \<or> v = VBool True)"
    unfolding in_bracket_def by blast
  then show "in_bracket (es @ [ClientState v]) a"
    unfolding in_bracket_def by (intro exI [of _ us] exI [of _ r] exI [of _ "vs @ [ClientState v]"]) auto
qed

lemma in_bracket_sending:
  "in_bracket (es @ [Sending r]) a \<longleftrightarrow> a = (last_state es = Some (VBool True))"
proof
  assume "in_bracket (es @ [Sending r]) a"
  then obtain us q vs where e: "es @ [Sending r] = us @ Sending q # vs" "list_all is_state vs"
    and a: "a = (last_state us = Some (VBool True) \<or> ClientState (VBool True) \<in> set vs)"
    unfolding in_bracket_def by blast
  then have "vs = []" by (cases vs rule: rev_cases) auto
  with e a show "a = (last_state es = Some (VBool True))" by simp
next
  assume "a = (last_state es = Some (VBool True))"
  then show "in_bracket (es @ [Sending r]) a"
    unfolding in_bracket_def by (intro exI [of _ es] exI [of _ r] exI [of _ "[]"]) simp
qed

lemma in_bracket_sent [simp]: "\<not> in_bracket (es @ [Sent r]) a"
proof
  assume "in_bracket (es @ [Sent r]) a"
  then obtain us q vs where "es @ [Sent r] = us @ Sending q # vs" "list_all is_state vs"
    unfolding in_bracket_def by blast
  then show False by (cases vs rule: rev_cases) auto
qed

definition gate_inv :: "gate_state \<Rightarrow> gate_entry list \<Rightarrow> bool" where
  "gate_inv s es \<longleftrightarrow> gs_latest s = last_state es
     \<and> (\<forall>a. gs_in_flight s = Some a \<longleftrightarrow> in_bracket es a)
     \<and> gs_starts s = length (filter is_sent es)"

interpretation gate_loop: traced_loop gate_step gate_start gate_inv
proof
  show "gate_inv gate_start []" by (simp add: gate_inv_def gate_start_def)
next
  fix s pre e s'
  assume "gate_inv s pre" "gate_step s e = Inr s'"
  then have latest: "gs_latest s = last_state pre" and starts: "gs_starts s = length (filter is_sent pre)"
    and flight: "\<And>a. in_bracket pre a \<longleftrightarrow> gs_in_flight s = Some a" and st: "gate_step s e = Inr s'"
    by (simp_all add: gate_inv_def)
  show "gate_inv s' (pre @ [e])"
  proof (cases e)
    case (ClientState v)
    have "gs_in_flight s' = Some a \<longleftrightarrow> in_bracket (pre @ [e]) a" for a
      using st unfolding ClientState in_bracket_state flight by (auto simp: gate_step_def)
    then show ?thesis
      using st starts by (auto simp: gate_inv_def ClientState gate_step_def last_state_snoc)
  next
    case (Sending r)
    have "gs_in_flight s' = Some a \<longleftrightarrow> in_bracket (pre @ [e]) a" for a
      using st unfolding Sending in_bracket_sending latest [symmetric] by (auto simp: gate_step_def)
    then show ?thesis
      using st starts latest by (auto simp: gate_inv_def Sending gate_step_def last_state_snoc)
  next
    case (Sent r)
    then show ?thesis
      using st starts latest
      by (auto simp: gate_inv_def gate_step_def last_state_snoc split: option.splits if_splits)
  qed
qed

text \<open>Every \<open>sent\<close> closes a bracket in which an available state was the latest at some point.\<close>

definition gate_kept :: "gate_entry list \<Rightarrow> bool" where
  "gate_kept es \<longleftrightarrow> (\<forall>pre r post. es = pre @ Sent r # post \<longrightarrow> in_bracket pre True)"

lemma gate_kept_snoc:
  "gate_kept (es @ [e]) \<longleftrightarrow> gate_kept es \<and> (is_sent e \<longrightarrow> in_bracket es True)"
proof -
  have "(\<exists>pre r post. es @ [e] = pre @ Sent r # post \<and> \<not> in_bracket pre True)
     \<longleftrightarrow> (\<exists>pre r post. es = pre @ Sent r # post \<and> \<not> in_bracket pre True)
        \<or> (is_sent e \<and> \<not> in_bracket es True)" (is "?l \<longleftrightarrow> ?r")
  proof
    assume ?l
    then obtain pre r post where "es @ [e] = pre @ Sent r # post" "\<not> in_bracket pre True" by blast
    then show ?r by (cases post rule: rev_cases) auto
  next
    assume ?r
    then show ?l
    proof
      assume "\<exists>pre r post. es = pre @ Sent r # post \<and> \<not> in_bracket pre True"
      then obtain pre r post where "es = pre @ Sent r # post" "\<not> in_bracket pre True" by blast
      then show ?l by (intro exI [of _ pre] exI [of _ r] exI [of _ "post @ [e]"]) simp
    next
      assume "is_sent e \<and> \<not> in_bracket es True"
      then show ?l by (cases e) auto
    qed
  qed
  then show ?thesis unfolding gate_kept_def by blast
qed

lemma gate_run_iff: "(\<exists>s. run_steps gate_step gate_start es = Inr s) \<longleftrightarrow> gate_kept es"
proof (induction es rule: rev_induct)
  case Nil
  show ?case by (simp add: gate_kept_def)
next
  case (snoc e es)
  show ?case
  proof (cases "run_steps gate_step gate_start es")
    case (Inl r)
    then show ?thesis using snoc by (auto simp: run_steps_snoc gate_kept_snoc)
  next
    case (Inr s)
    then have kept: "gate_kept es" and inv: "gate_inv s es"
      using snoc gate_loop.run_inv by auto
    have flight: "gs_in_flight s = Some a \<longleftrightarrow> in_bracket es a" for a
      using inv by (simp add: gate_inv_def)
    have "(\<exists>s'. gate_step s e = Inr s') \<longleftrightarrow> (is_sent e \<longrightarrow> in_bracket es True)"
      using flight [of True] by (cases e) (auto simp: gate_step_def split: option.splits)
    then show ?thesis using Inr kept by (simp add: run_steps_snoc gate_kept_snoc)
  qed
qed

lemma gate_None:
  "stream_start_gate_violation summary = None \<longleftrightarrow>
     (\<exists>es. gate_entries (dict_get ''availability_trace'' summary) = Some es
        \<and> (\<exists>e \<in> set es. is_sent e) \<and> gate_kept es)"
proof (cases "gate_entries (dict_get ''availability_trace'' summary)")
  case None
  then show ?thesis by (simp add: stream_start_gate_violation_def)
next
  case (Some es)
  show ?thesis
  proof (cases "run_steps gate_step gate_start es")
    case (Inl r)
    then have "\<not> gate_kept es" using gate_run_iff [of es] by auto
    with Some Inl show ?thesis by (simp add: stream_start_gate_violation_def)
  next
    case (Inr s)
    then have "gate_kept es" "gs_starts s = length (filter is_sent es)"
      using gate_run_iff [of es] gate_loop.run_inv by (auto simp: gate_inv_def)
    with Some Inr show ?thesis
      by (auto simp: stream_start_gate_violation_def filter_empty_conv)
  qed
qed

end
