(* ===== verification/Time_Facts.thy ===== *)
theory Time_Facts
  imports Protocol_Facts
begin

text \<open>
  The client/time to server/time judge of \<open>Protocol\<close>: what an exchange with no violation
  guarantees of every prefix of the record, and that a prompt server passes.
\<close>

section \<open>The time exchange\<close>

definition entry_dict :: "pyval \<Rightarrow> pydict" where
  "entry_dict v = (case v of VDict d \<Rightarrow> d | _ \<Rightarrow> [])"

definition entry_kind :: "pyval \<Rightarrow> pyval" where
  "entry_kind v = dict_get ''type'' (entry_dict v)"

definition entry_payload :: "pyval \<Rightarrow> pydict" where
  "entry_payload v = (case dict_get ''payload'' (entry_dict v) of VDict p \<Rightarrow> p | _ \<Rightarrow> [])"

definition carried :: "pyval \<Rightarrow> string \<Rightarrow> int" where
  "carried v k = int_of (dict_get k (entry_payload v))"

text \<open>The values the client sent, and those the server echoed, in the order of the record.\<close>

definition client_values :: "pyval list \<Rightarrow> int list" where
  "client_values es = map (\<lambda>e. carried e ''client_transmitted'')
     (filter (\<lambda>e. entry_kind e = VStr ''client/time'') es)"

definition echoed_values :: "pyval list \<Rightarrow> int list" where
  "echoed_values es = map (\<lambda>e. carried e ''client_transmitted'')
     (filter (\<lambda>e. entry_kind e = VStr ''server/time'') es)"

lemma values_append [simp]:
  "client_values (xs @ ys) = client_values xs @ client_values ys"
  "echoed_values (xs @ ys) = echoed_values xs @ echoed_values ys"
  by (simp_all add: client_values_def echoed_values_def)

text \<open>Which step an entry takes, and what the state becomes.\<close>

lemma time_step_other:
  "entry_kind e = VStr ''other-sent'' \<Longrightarrow>
   time_step s e = Inr (s\<lparr>ts_passed := ts_passed s @ map fst (ts_unanswered s)\<rparr>)"
  by (simp add: time_step_def Let_def entry_kind_def entry_dict_def)

lemma time_step_client:
  assumes "entry_kind e = VStr ''client/time''" and "time_step s e = Inr s'"
  shows "s' = s\<lparr>ts_received := ts_received s + 1,
      ts_unanswered := ts_unanswered s @ [(ts_received s + 1, carried e ''client_transmitted'')]\<rparr>"
  using assms
  by (auto simp: time_step_def Let_def entry_kind_def entry_dict_def client_time_step_def
      carried_def entry_payload_def split: pyval.splits)

lemma time_step_server:
  assumes "entry_kind e = VStr ''server/time''" and "time_step s e = Inr s'"
  shows "\<exists>p. (p, carried e ''client_transmitted'') \<in> set (ts_unanswered s)
      \<and> s' = s\<lparr>ts_answered := ts_answered s + 1,
          ts_unanswered := remove1 (p, carried e ''client_transmitted'') (ts_unanswered s),
          ts_latest := max (ts_latest s) p\<rparr>
      \<and> carried e ''server_received'' \<le> carried e ''server_transmitted''"
proof -
  have s': "server_time_step s (dict_get ''payload'' (entry_dict e)) = Inr s'"
    using assms by (simp add: time_step_def Let_def entry_kind_def entry_dict_def)
  then have d: "server_time_defects (dict_get ''payload'' (entry_dict e)) = []"
    by (auto simp: server_time_step_def Let_def split: if_splits)
  then obtain p where p: "dict_get ''payload'' (entry_dict e) = VDict p"
    by (auto simp: server_time_defects_def split: pyval.splits)
  then have pl: "entry_payload e = p" by (simp add: entry_payload_def)
  show ?thesis
  proof (cases "find (\<lambda>item. snd item = carried e ''client_transmitted'') (ts_unanswered s)")
    case None
    then show ?thesis using s' d p by (simp add: server_time_step_def Let_def carried_def pl)
  next
    case (Some item)
    then have i: "item \<in> set (ts_unanswered s)" "snd item = carried e ''client_transmitted''"
      by (auto simp: find_Some_iff)
    then have "item = (fst item, carried e ''client_transmitted'')" by (metis prod.collapse)
    with i s' d p Some show ?thesis
      by (intro exI [of _ "fst item"])
        (auto simp: server_time_step_def Let_def carried_def pl split: if_splits)
  qed
qed

lemma time_step_kinds:
  "time_step s e = Inr s' \<Longrightarrow> entry_kind e \<in> {VStr ''other-sent'', VStr ''client/time'', VStr ''server/time''}"
  by (auto simp: time_step_def Let_def entry_kind_def entry_dict_def split: if_splits)

text \<open>
  What every iteration keeps: the client times received are the answered ones and those still
  listed, each listed one under its own number; what was passed over was received before.
\<close>

fun numbered :: "int \<Rightarrow> int list \<Rightarrow> (int \<times> int) list" where
  "numbered k [] = []"
| "numbered k (v # vs) = (k + 1, v) # numbered (k + 1) vs"

lemma numbered_append: "numbered k (us @ vs) = numbered k us @ numbered (k + int (length us)) vs"
  by (induction us arbitrary: k) (simp_all add: algebra_simps)

lemma snd_numbered: "map snd (numbered k vs) = vs"
  by (induction vs arbitrary: k) simp_all

lemma numbered_bounds: "(p, v) \<in> set (numbered k vs) \<Longrightarrow> k < p \<and> p \<le> k + int (length vs)"
  by (induction vs arbitrary: k) force+

lemma mset_snd_remove1:
  "(p, v) \<in> set xs \<Longrightarrow> mset (map snd xs) = add_mset v (mset (map snd (remove1 (p, v) xs)))"
  by (induction xs) auto

lemma subseq_remove1: "subseq xs ys \<Longrightarrow> subseq (remove1 x xs) ys"
proof (induction rule: list_emb.induct)
  case (list_emb_Cons2 a b xs ys)
  then show ?case by (auto intro: list_emb_Cons)
qed auto

lemma subseq_mset: "subseq xs ys \<Longrightarrow> mset xs \<subseteq># mset ys"
proof (induction rule: list_emb.induct)
  case (list_emb_Cons xs ys y)
  have "mset ys \<subseteq># mset (y # ys)" by simp
  then show ?case using list_emb_Cons(2) by (rule subset_mset.order_trans [rotated])
qed simp_all

lemma split_snoc:
  "xs @ [x] = pre @ e # post \<longleftrightarrow> (post = [] \<and> pre = xs \<and> e = x) \<or> (\<exists>post'. post = post' @ [x] \<and> xs = pre @ e # post')"
  by (cases post rule: rev_cases) auto

definition passed_inv :: "time_state \<Rightarrow> pyval list \<Rightarrow> bool" where
  "passed_inv s es \<longleftrightarrow> (\<forall>pre e post p v. es = pre @ e # post \<longrightarrow> entry_kind e = VStr ''other-sent'' \<longrightarrow>
     (p, v) \<in> set (ts_unanswered s) \<longrightarrow> p \<le> int (length (client_values pre)) \<longrightarrow> p \<in> set (ts_passed s))"

lemma passed_invI:
  assumes "\<And>pre x post p v. es = pre @ x # post \<Longrightarrow> entry_kind x = VStr ''other-sent'' \<Longrightarrow>
      (p, v) \<in> set (ts_unanswered s') \<Longrightarrow> p \<le> int (length (client_values pre)) \<Longrightarrow> p \<in> set (ts_passed s')"
    and "\<And>p v. entry_kind e = VStr ''other-sent'' \<Longrightarrow> (p, v) \<in> set (ts_unanswered s') \<Longrightarrow> p \<in> set (ts_passed s')"
  shows "passed_inv s' (es @ [e])"
  unfolding passed_inv_def split_snoc using assms by blast

lemma passed_invD:
  "passed_inv s es \<Longrightarrow> es = pre @ x # post \<Longrightarrow> entry_kind x = VStr ''other-sent'' \<Longrightarrow>
   (p, v) \<in> set (ts_unanswered s) \<Longrightarrow> p \<le> int (length (client_values pre)) \<Longrightarrow> p \<in> set (ts_passed s)"
  unfolding passed_inv_def by blast

definition time_inv :: "time_state \<Rightarrow> pyval list \<Rightarrow> bool" where
  "time_inv s es \<longleftrightarrow> ts_received s = int (length (client_values es))
     \<and> subseq (ts_unanswered s) (numbered 0 (client_values es))
     \<and> mset (client_values es) = mset (echoed_values es) + mset (map snd (ts_unanswered s))
     \<and> (\<forall>e \<in> set es. entry_kind e = VStr ''server/time'' \<longrightarrow>
          carried e ''server_received'' \<le> carried e ''server_transmitted'')
     \<and> passed_inv s es"

lemma kinds_distinct:
  "entry_kind e = VStr ''other-sent'' \<Longrightarrow> client_values [e] = [] \<and> echoed_values [e] = []"
  "entry_kind e = VStr ''client/time'' \<Longrightarrow>
     client_values [e] = [carried e ''client_transmitted''] \<and> echoed_values [e] = []"
  "entry_kind e = VStr ''server/time'' \<Longrightarrow>
     client_values [e] = [] \<and> echoed_values [e] = [carried e ''client_transmitted'']"
  by (simp_all add: client_values_def echoed_values_def)

lemma subseq_filter_numbered:
  assumes "subseq xs (numbered 0 (us @ vs))" and "\<And>p v. (p, v) \<in> set xs \<Longrightarrow> int (length us) < p"
  shows "mset (map snd xs) \<subseteq># mset vs"
proof -
  let ?late = "\<lambda>i. int (length us) < fst i"
  have "filter ?late xs = xs" using assms(2) by (intro filter_True) auto
  moreover have "filter ?late (numbered 0 us) = []"
    by (auto simp: filter_empty_conv dest: numbered_bounds)
  moreover have "filter ?late (numbered (int (length us)) vs) = numbered (int (length us)) vs"
    by (intro filter_True) (auto dest: numbered_bounds)
  ultimately have "subseq xs (numbered (int (length us)) vs)"
    using subseq_filter [OF assms(1), of ?late] by (simp add: numbered_append)
  then have "subseq (map snd xs) (map snd (numbered (int (length us)) vs))" by (rule subseq_map)
  then show ?thesis unfolding snd_numbered by (rule subseq_mset)
qed

interpretation time_loop: traced_loop time_step time_start time_inv
proof
  show "time_inv time_start []"
    by (simp add: time_inv_def time_start_def client_values_def echoed_values_def passed_inv_def)
next
  fix s es e s'
  assume inv: "time_inv s es" and st: "time_step s e = Inr s'"
  let ?cs = "client_values es"
  have len: "ts_received s = int (length ?cs)" and sub: "subseq (ts_unanswered s) (numbered 0 ?cs)"
    and ms: "mset ?cs = mset (echoed_values es) + mset (map snd (ts_unanswered s))"
    and clk: "\<forall>e \<in> set es. entry_kind e = VStr ''server/time'' \<longrightarrow>
        carried e ''server_received'' \<le> carried e ''server_transmitted''"
    and past: "passed_inv s es"
    using inv unfolding time_inv_def by blast+
  from time_step_kinds [OF st] consider "entry_kind e = VStr ''other-sent''"
    | "entry_kind e = VStr ''client/time''" | "entry_kind e = VStr ''server/time''" by blast
  then show "time_inv s' (es @ [e])"
  proof cases
    case 1
    then have s': "s' = s\<lparr>ts_passed := ts_passed s @ map fst (ts_unanswered s)\<rparr>"
      using st time_step_other by simp
    have "passed_inv s' (es @ [e])"
      by (rule passed_invI) (use passed_invD [OF past] in \<open>force simp: s'\<close>)+
    then show ?thesis
      using 1 kinds_distinct(1) [OF 1] len sub ms clk by (auto simp: time_inv_def s')
  next
    case 2
    have s': "s' = s\<lparr>ts_received := ts_received s + 1,
        ts_unanswered := ts_unanswered s @ [(ts_received s + 1, carried e ''client_transmitted'')]\<rparr>"
      using time_step_client [OF 2 st] .
    have late: "int (length (client_values pre)) < ts_received s + 1" if "es = pre @ x # post" for pre x post
      using that by (simp add: len)
    have "passed_inv s' (es @ [e])"
    proof (rule passed_invI)
      fix pre x post p v
      assume split: "es = pre @ x # post" and other: "entry_kind x = VStr ''other-sent''"
        and mem: "(p, v) \<in> set (ts_unanswered s')" and le: "p \<le> int (length (client_values pre))"
      have "p \<noteq> ts_received s + 1" using late [OF split] le by linarith
      then have "(p, v) \<in> set (ts_unanswered s)" using mem by (auto simp: s')
      then show "p \<in> set (ts_passed s')"
        using passed_invD [OF past split other _ le] by (simp add: s')
    qed (use 2 in simp)
    moreover have "subseq (ts_unanswered s') (numbered 0 (client_values (es @ [e])))"
      using list_emb_append_mono [OF sub, of "[(ts_received s + 1, carried e ''client_transmitted'')]"
          "[(ts_received s + 1, carried e ''client_transmitted'')]"]
      by (simp add: s' kinds_distinct(2) [OF 2] numbered_append len)
    ultimately show ?thesis
      using 2 kinds_distinct(2) [OF 2] len ms clk by (simp add: time_inv_def s')
  next
    case 3
    then obtain p where p: "(p, carried e ''client_transmitted'') \<in> set (ts_unanswered s)"
      and s': "s' = s\<lparr>ts_answered := ts_answered s + 1,
          ts_unanswered := remove1 (p, carried e ''client_transmitted'') (ts_unanswered s),
          ts_latest := max (ts_latest s) p\<rparr>"
      and le: "carried e ''server_received'' \<le> carried e ''server_transmitted''"
      using time_step_server [OF 3 st] by blast
    have "mset (map snd (ts_unanswered s)) = add_mset (carried e ''client_transmitted'')
        (mset (map snd (remove1 (p, carried e ''client_transmitted'') (ts_unanswered s))))"
      using p by (rule mset_snd_remove1)
    moreover have "passed_inv s' (es @ [e])"
    proof (rule passed_invI)
      fix pre x post q v
      assume split: "es = pre @ x # post" and other: "entry_kind x = VStr ''other-sent''"
        and mem: "(q, v) \<in> set (ts_unanswered s')" and le: "q \<le> int (length (client_values pre))"
      have "(q, v) \<in> set (ts_unanswered s)"
        using mem set_remove1_subset by (fastforce simp: s')
      then show "q \<in> set (ts_passed s')"
        using passed_invD [OF past split other _ le] by (simp add: s')
    qed (use 3 in simp)
    ultimately show ?thesis
      using 3 kinds_distinct(3) [OF 3] len ms clk subseq_remove1 [OF sub] le
      by (simp add: time_inv_def s')
  qed
qed

lemma time_None_run:
  assumes "time_exchange_violation summary = None"
  shows "\<exists>es s. dict_get ''time_exchange'' summary = VList es \<and> run_steps time_step time_start es = Inr s
    \<and> (\<forall>item \<in> set (ts_unanswered s). unanswered_reason s item = None)"
  using assms
  by (auto simp: time_exchange_violation_def first_reason_None split: pyval.splits sum.splits)

lemma time_sound:
  assumes "time_exchange_violation summary = None" and "dict_get ''time_exchange'' summary = VList (pre @ post)"
  shows "mset (echoed_values pre) \<subseteq># mset (client_values pre)"
    and "\<forall>e \<in> set pre. entry_kind e = VStr ''server/time'' \<longrightarrow>
           carried e ''server_received'' \<le> carried e ''server_transmitted''"
proof -
  obtain s where "run_steps time_step time_start (pre @ post) = Inr s"
    using time_None_run [OF assms(1)] assms(2) by auto
  then obtain s' where "time_inv s' pre" using time_loop.run_prefix_inv by blast
  then show "mset (echoed_values pre) \<subseteq># mset (client_values pre)"
    and "\<forall>e \<in> set pre. entry_kind e = VStr ''server/time'' \<longrightarrow>
           carried e ''server_received'' \<le> carried e ''server_transmitted''"
    unfolding time_inv_def by auto
qed

lemma time_answered:
  assumes "time_exchange_violation summary = None"
    and "dict_get ''time_exchange'' summary = VList (pre @ e # post)"
    and "entry_kind e = VStr ''other-sent''" and "client_values post \<noteq> []"
  shows "mset (client_values pre) \<subseteq># mset (echoed_values (pre @ e # post))"
proof -
  let ?es = "pre @ e # post"
  obtain s where run: "run_steps time_step time_start ?es = Inr s"
    and none: "\<forall>item \<in> set (ts_unanswered s). unanswered_reason s item = None"
    using time_None_run [OF assms(1)] assms(2) by auto
  have inv: "time_inv s ?es" by (rule time_loop.run_inv [OF run])
  have cs: "client_values ?es = client_values pre @ client_values post"
    using kinds_distinct(1) [OF assms(3)] values_append(1) [of "[e]" post] by simp
  have late: "int (length (client_values pre)) < p" if "(p, v) \<in> set (ts_unanswered s)" for p v
  proof (rule ccontr)
    assume "\<not> int (length (client_values pre)) < p"
    moreover have "passed_inv s ?es" using inv by (simp add: time_inv_def)
    ultimately have "p \<in> set (ts_passed s)" using passed_invD [OF _ refl assms(3) that] by simp
    moreover have "p < ts_received s"
    proof -
      have "ts_received s = int (length (client_values pre)) + int (length (client_values post))"
        using inv unfolding time_inv_def cs length_append by simp
      moreover have "0 < length (client_values post)" using assms(4) by simp
      ultimately show ?thesis using \<open>\<not> int (length (client_values pre)) < p\<close> by linarith
    qed
    ultimately show False using none that by (auto simp: unanswered_reason_def Let_def split: if_splits)
  qed
  have "mset (map snd (ts_unanswered s)) \<subseteq># mset (client_values post)"
  proof (rule subseq_filter_numbered [OF _ late])
    show "subseq (ts_unanswered s) (numbered 0 (client_values pre @ client_values post))"
      using inv unfolding time_inv_def cs by blast
  qed
  moreover have "mset (client_values pre) + mset (client_values post)
      = mset (echoed_values ?es) + mset (map snd (ts_unanswered s))"
    using inv unfolding time_inv_def cs mset_append by blast
  ultimately show ?thesis
    by (metis subset_mset.add_le_cancel_right subset_mset.add_left_mono)
qed

text \<open>A server that answers every client time before it reads the next one passes.\<close>

definition client_time :: "int \<Rightarrow> pyval" where
  "client_time n = VDict [(''type'', VStr ''client/time''), (''payload'', VDict [(''client_transmitted'', VInt n)])]"

definition server_time :: "int \<Rightarrow> int \<Rightarrow> int \<Rightarrow> pyval" where
  "server_time n r t = VDict [(''type'', VStr ''server/time''), (''payload'', VDict [
     (''client_transmitted'', VInt n), (''server_received'', VInt r), (''server_transmitted'', VInt t)])]"

fun prompt_exchange :: "(int \<times> int \<times> int) list \<Rightarrow> pyval list" where
  "prompt_exchange [] = []"
| "prompt_exchange ((n, r, t) # xs) = client_time n # server_time n r t # prompt_exchange xs"

lemma prompt_steps:
  assumes "ts_unanswered s = []" and "r \<le> t"
  shows "\<exists>s'. run_steps time_step s [client_time n, server_time n r t] = Inr s' \<and> ts_unanswered s' = []"
  using assms
  by (simp add: time_step_def client_time_def server_time_def client_time_step_def server_time_step_def
      Let_def server_time_defects_def TIME_FIELDS_def time_field_defects_def)

lemma prompt_run:
  "ts_unanswered s = [] \<Longrightarrow> \<forall>(n, r, t) \<in> set xs. r \<le> t \<Longrightarrow>
   \<exists>s'. run_steps time_step s (prompt_exchange xs) = Inr s' \<and> ts_unanswered s' = []"
proof (induction xs arbitrary: s rule: prompt_exchange.induct)
  case (2 n r t xs)
  then obtain s' where s': "run_steps time_step s [client_time n, server_time n r t] = Inr s'"
    "ts_unanswered s' = []"
    using prompt_steps [of s r t n] by auto
  have "run_steps time_step s (prompt_exchange ((n, r, t) # xs))
      = run_steps time_step s ([client_time n, server_time n r t] @ prompt_exchange xs)" by simp
  also have "\<dots> = run_steps time_step s' (prompt_exchange xs)"
    unfolding run_steps_append s'(1) by simp
  finally show ?case using 2 s'(2) by auto
qed simp

lemma prompt_passes:
  assumes "dict_get ''time_exchange'' summary = VList (prompt_exchange xs)"
    and "\<forall>(n, r, t) \<in> set xs. r \<le> t"
  shows "time_exchange_violation summary = None"
  using prompt_run [OF _ assms(2), of time_start] assms(1)
  by (auto simp: time_exchange_violation_def time_start_def)

end
