(* ===== verification/Py_Float.thy ===== *)
theory Py_Float
  imports Py_Text
begin

text \<open>
  Binary64 arithmetic as Python uses it on integers: true division, rounded to nearest with ties
  to even, and the two formats the judges print. A finite float is its exact rational value;
  a quotient too large for a float is \<open>None\<close>, for the \<open>OverflowError\<close> Python raises.
\<close>

definition round_half_even :: "rat \<Rightarrow> int" where
  "round_half_even x = (let n = \<lfloor>x\<rfloor>; d = x - of_int n in
     if d < 1 / 2 then n else if d > 1 / 2 then n + 1 else if even n then n else n + 1)"

function bit_length :: "int \<Rightarrow> nat" where
  "bit_length n = (if n \<le> 0 then 0 else Suc (bit_length (n div 2)))"
  by pat_completeness auto
termination
  by (relation "measure nat") auto

declare bit_length.simps [simp del]

definition pow2 :: "int \<Rightarrow> rat" where
  "pow2 k = (if 0 \<le> k then 2 ^ nat k else 1 / 2 ^ nat (- k))"

text \<open>The exponent of a positive number: \<open>2\<^sup>e \<le> x < 2\<^sup>e\<^sup>+\<^sup>1\<close>.\<close>

definition exponent_of :: "rat \<Rightarrow> int" where
  "exponent_of x = (let (p, q) = quotient_of x;
       k = int (bit_length p) - int (bit_length q)
     in if pow2 k \<le> x then k else k - 1)"

definition unit_of :: "rat \<Rightarrow> rat" where
  "unit_of x = pow2 (max (exponent_of x - 52) (- 1074))"

definition round_pos :: "rat \<Rightarrow> rat" where
  "round_pos x = of_int (round_half_even (x / unit_of x)) * unit_of x"

definition f64 :: "rat \<Rightarrow> rat option" where
  "f64 x = (let r = (if x = 0 then 0 else if x < 0 then - round_pos (- x) else round_pos x)
     in if \<bar>r\<bar> < pow2 1024 then Some r else None)"

abbreviation OverflowError :: py_exc where
  "OverflowError \<equiv> PyExc ''OverflowError'' ''integer division result too large for a float''"

text \<open>\<open>a / b\<close> of two integers, the second not zero, and \<open>x / b\<close> of a float.\<close>

definition int_div :: "int \<Rightarrow> int \<Rightarrow> rat py" where
  "int_div a b = (case f64 (of_int a / of_int b) of None \<Rightarrow> Inl OverflowError | Some r \<Rightarrow> Inr r)"

definition float_div :: "rat \<Rightarrow> int \<Rightarrow> rat" where
  "float_div x b = (case f64 (x / of_int b) of None \<Rightarrow> 0 | Some r \<Rightarrow> r)"

text \<open>The decimal digits of a natural number held as an \<open>int\<close>.\<close>

function int_digits :: "int \<Rightarrow> string" where
  "int_digits n = (if n < 10 then [digit_char (nat n)]
     else int_digits (n div 10) @ [digit_char (nat (n mod 10))])"
  by pat_completeness auto
termination
  by (relation "measure nat") auto

declare int_digits.simps [simp del]

lemma int_digits_nat_str: "int_digits (int n) = nat_str n"
proof (induction n rule: nat_str.induct)
  case (1 n)
  have "int n div 10 = int (n div 10)" "nat (int n mod 10) = n mod 10"
    by (simp_all add: zdiv_int nat_mod_distrib)
  with 1 show ?case
    by (subst int_digits.simps, subst nat_str.simps) (simp only: nat_int of_nat_less_numeral_iff split: if_split, simp)
qed

lemma int_str_digits [code]:
  "int_str i = (if i < 0 then ''-'' @ int_digits (- i) else int_digits i)"
  using int_digits_nat_str [of "nat i"] int_digits_nat_str [of "nat (- i)"]
  by (cases "i < 0") (simp_all add: int_str_def)

text \<open>\<open>f"{x:.1f}"\<close>.\<close>

definition fixed_1 :: "rat \<Rightarrow> string" where
  "fixed_1 x = (let t = round_half_even (\<bar>x\<bar> * 10) in
     (if x < 0 then ''-'' else []) @ int_digits (t div 10) @ ''.'' @ int_digits (t mod 10))"

text \<open>\<open>f"{x:g}"\<close>: six significant digits, without trailing zeros, scientific from a million on.\<close>

definition pow10 :: "int \<Rightarrow> rat" where
  "pow10 k = (if 0 \<le> k then 10 ^ nat k else 1 / 10 ^ nat (- k))"

function decimal_digits :: "int \<Rightarrow> nat" where
  "decimal_digits n = (if n < 10 then 1 else Suc (decimal_digits (n div 10)))"
  by pat_completeness auto
termination
  by (relation "measure nat") auto

declare decimal_digits.simps [simp del]

definition exponent_10 :: "rat \<Rightarrow> int" where
  "exponent_10 x = (let (p, q) = quotient_of x;
       k = int (decimal_digits p) - int (decimal_digits q)
     in if pow10 k \<le> x then k else k - 1)"

definition strip_zeros :: "string \<Rightarrow> string" where
  "strip_zeros s = rev (dropWhile (\<lambda>c. c = CHR ''0'') (rev s))"

definition point_after :: "nat \<Rightarrow> string \<Rightarrow> string" where
  "point_after k s = (let tail = strip_zeros (drop k s) in
     take k s @ (if tail = [] then [] else ''.'' @ tail))"

definition general_pos :: "rat \<Rightarrow> string" where
  "general_pos x = (
     let e0 = exponent_10 x;
         m0 = round_half_even (x / pow10 (e0 - 5));
         (m, e) = (if m0 = 1000000 then (100000, e0 + 1) else (m0, e0));
         digits = int_digits m
     in if e < - 4 \<or> 6 \<le> e
        then point_after 1 digits @ ''e'' @ (if e < 0 then ''-'' else ''+'')
             @ (if \<bar>e\<bar> < 10 then ''0'' else []) @ int_digits \<bar>e\<bar>
        else if e < 0 then ''0.'' @ replicate (nat (- e - 1)) (CHR ''0'') @ strip_zeros digits
        else point_after (nat e + 1) digits)"

definition general :: "rat \<Rightarrow> string" where
  "general x = (if x = 0 then ''0'' else if x < 0 then ''-'' @ general_pos (- x) else general_pos x)"

section \<open>The rounding error\<close>

lemma pow2_pos [simp]: "0 < pow2 k"
  by (simp add: pow2_def)

lemma pow2_Suc: "pow2 (k + 1) = 2 * pow2 k"
proof (cases "0 \<le> k")
  case True
  then have "nat (k + 1) = Suc (nat k)" by simp
  with True show ?thesis by (simp add: pow2_def)
next
  case False
  then have "nat (- k) = Suc (nat (- (k + 1)))" by simp
  with False show ?thesis by (auto simp: pow2_def)
qed

lemma bit_length_bounds:
  assumes "0 < n"
  shows "2 ^ bit_length n \<le> 2 * n \<and> n < 2 ^ bit_length n"
  using assms
proof (induction n rule: bit_length.induct)
  case (1 n)
  then have s: "bit_length n = Suc (bit_length (n div 2))" by (simp add: bit_length.simps)
  show ?case
  proof (cases "n = 1")
    case True
    then show ?thesis by (simp add: bit_length.simps)
  next
    case False
    with 1 have "2 ^ bit_length (n div 2) \<le> 2 * (n div 2) \<and> n div 2 < 2 ^ bit_length (n div 2)"
      by simp
    then have "2 * 2 ^ bit_length (n div 2) \<le> 2 * n" "n < 2 * 2 ^ bit_length (n div 2)"
      by linarith+
    then show ?thesis by (simp add: s)
  qed
qed

text \<open>The exponent brackets the number it is computed from.\<close>

lemma pow2_diff: "pow2 (int a - int b) = 2 ^ a / 2 ^ b"
proof (cases "b \<le> a")
  case True
  then have "nat (int a - int b) = a - b" by simp
  with True show ?thesis by (simp add: pow2_def power_diff)
next
  case False
  then have "nat (- (int a - int b)) = b - a" by simp
  with False show ?thesis by (simp add: pow2_def power_diff)
qed

lemma exponent_of_bounds:
  assumes "0 < x"
  shows "pow2 (exponent_of x) \<le> x \<and> x < pow2 (exponent_of x + 1)"
proof -
  obtain p q where pq: "quotient_of x = (p, q)" by fastforce
  have q: "0 < q" using quotient_of_denom_pos [OF pq] .
  have x: "x = of_int p / of_int q" using quotient_of_div [OF pq] .
  have p: "0 < p" using assms x q by (simp add: zero_less_divide_iff)
  define k where "k = int (bit_length p) - int (bit_length q)"
  have bp: "(2::rat) ^ bit_length p \<le> 2 * of_int p" "of_int p < (2::rat) ^ bit_length p"
    using bit_length_bounds [OF p]
    by (metis of_int_le_iff of_int_mult of_int_numeral of_int_power,
        metis of_int_less_iff of_int_numeral of_int_power)
  have bq: "(2::rat) ^ bit_length q \<le> 2 * of_int q" "of_int q < (2::rat) ^ bit_length q"
    using bit_length_bounds [OF q]
    by (metis of_int_le_iff of_int_mult of_int_numeral of_int_power,
        metis of_int_less_iff of_int_numeral of_int_power)
  have k: "pow2 k = 2 ^ bit_length p / 2 ^ bit_length q" by (simp add: k_def pow2_diff)
  have pr: "0 < (of_int p :: rat)" "0 < (of_int q :: rat)" using p q by simp_all
  have "2 ^ bit_length p * of_int q < 2 * of_int p * (2::rat) ^ bit_length q"
    by (rule mult_le_less_imp_less) (use bp bq pr in auto)
  then have low: "pow2 k < 2 * x"
    using pr by (simp add: k x field_simps)
  have "of_int p * (2::rat) ^ bit_length q < 2 ^ bit_length p * (2 * of_int q)"
    by (rule mult_less_le_imp_less) (use bp bq pr in auto)
  then have up: "x < 2 * pow2 k"
    using pr by (simp add: k x field_simps)
  have half: "pow2 (k - 1) = pow2 k / 2" using pow2_Suc [of "k - 1"] by simp
  show ?thesis
    using low up half pow2_Suc [of k]
    by (auto simp: exponent_of_def pq Let_def k_def [symmetric])
qed

section \<open>Rounding against an integer threshold\<close>

lemma round_half_even_error: "\<bar>of_int (round_half_even x) - x\<bar> \<le> 1 / 2"
proof -
  have "of_int \<lfloor>x\<rfloor> \<le> x" "x < of_int \<lfloor>x\<rfloor> + 1" by linarith+
  then show ?thesis by (auto simp: round_half_even_def Let_def abs_le_iff)
qed

lemma round_half_even_le: "x \<le> of_int n \<Longrightarrow> round_half_even x \<le> n"
  using round_half_even_error [of x] by linarith

lemma round_half_even_ge: "of_int n \<le> x \<Longrightarrow> n \<le> round_half_even x"
  using round_half_even_error [of x] by linarith

lemma round_half_even_gt: "of_int n + 1 / 2 < x \<Longrightarrow> n < round_half_even x"
  using round_half_even_error [of x] by linarith

lemma round_half_even_lt: "x < of_int n - 1 / 2 \<Longrightarrow> round_half_even x < n"
  using round_half_even_error [of x] by linarith

lemma pow2_mono: "k \<le> l \<Longrightarrow> pow2 k \<le> pow2 l"
proof -
  have "pow2 k \<le> pow2 (k + int n)" for n
  proof (induction n)
    case (Suc n)
    have "pow2 (k + int (Suc n)) = 2 * pow2 (k + int n)"
      using pow2_Suc [of "k + int n"] by (simp add: ac_simps)
    with Suc pow2_pos [of "k + int n"] show ?case by linarith
  qed simp
  from this [of "nat (l - k)"] show "k \<le> l \<Longrightarrow> pow2 k \<le> pow2 l" by simp
qed

lemma pow2_less: "k < l \<Longrightarrow> pow2 k < pow2 l"
  using pow2_mono [of "k + 1" l] pow2_Suc [of k] pow2_pos [of k] by linarith

lemma pow2_nonpos: "k \<le> 0 \<Longrightarrow> pow2 k * of_int (2 ^ nat (- k)) = 1"
  by (auto simp: pow2_def)

lemma pow2_52: "pow2 (k + 52) = 2 ^ 52 * pow2 k"
proof (cases "0 \<le> k")
  case True
  then have "nat (k + 52) = 52 + nat k" by simp
  with True show ?thesis by (simp add: pow2_def power_add)
next
  case False
  have "k + 52 = int 52 - int (nat (- k))" using False by simp
  then have "pow2 (k + 52) = pow2 (int 52 - int (nat (- k)))" by (rule arg_cong)
  also have "\<dots> = 2 ^ 52 / 2 ^ nat (- k)" by (rule pow2_diff)
  finally show ?thesis using False by (simp add: pow2_def)
qed

lemma unit_of_pos [simp]: "0 < unit_of x"
  by (simp add: unit_of_def)

lemma exponent_of_unique:
  assumes "pow2 e \<le> x" "x < pow2 (e + 1)"
  shows "exponent_of x = e"
proof -
  have x: "0 < x" using assms(1) pow2_pos [of e] by linarith
  have "\<not> exponent_of x + 1 \<le> e"
    using exponent_of_bounds [OF x] assms pow2_mono [of "exponent_of x + 1" e] by linarith
  moreover have "\<not> e + 1 \<le> exponent_of x"
    using exponent_of_bounds [OF x] assms pow2_mono [of "e + 1" "exponent_of x"] by linarith
  ultimately show ?thesis by linarith
qed

lemma exponent_of_mono:
  assumes "0 < x" "x \<le> y"
  shows "exponent_of x \<le> exponent_of y"
proof (rule ccontr)
  assume "\<not> exponent_of x \<le> exponent_of y"
  then have "pow2 (exponent_of y + 1) \<le> pow2 (exponent_of x)" by (intro pow2_mono) simp
  then show False using exponent_of_bounds [of x] exponent_of_bounds [of y] assms by linarith
qed

text \<open>Below the threshold the rounded value stays there: the threshold is a multiple of the unit.\<close>

lemma round_pos_le_int:
  assumes "0 < x" "x \<le> of_int t" "of_int t < pow2 52"
  shows "round_pos x \<le> of_int t"
proof -
  have "exponent_of x \<le> exponent_of (of_int t)" using assms by (intro exponent_of_mono)
  moreover have "exponent_of (of_int t) \<le> 52"
  proof (rule ccontr)
    assume "\<not> exponent_of (of_int t) \<le> 52"
    then have "pow2 52 \<le> pow2 (exponent_of (of_int t))" by (intro pow2_mono) simp
    then show False using exponent_of_bounds [of "of_int t"] assms by linarith
  qed
  ultimately obtain k where k: "unit_of x = pow2 k" "k \<le> 0" by (simp add: unit_of_def)
  have u: "unit_of x * of_int (2 ^ nat (- k)) = 1" using pow2_nonpos [OF k(2)] k(1) by simp
  have t: "of_int t = of_int (t * 2 ^ nat (- k)) * unit_of x"
    using u by (simp add: mult.assoc mult.commute [of "unit_of x"])
  have "x / unit_of x \<le> of_int (t * 2 ^ nat (- k))"
    by (rule iffD2 [OF pos_divide_le_eq [OF unit_of_pos] ord_le_eq_trans [OF assms(2) t]])
  then have "round_half_even (x / unit_of x) \<le> t * 2 ^ nat (- k)" by (rule round_half_even_le)
  then have "of_int (round_half_even (x / unit_of x)) * unit_of x
      \<le> of_int (t * 2 ^ nat (- k)) * unit_of x"
    by (intro mult_right_mono iffD2 [OF of_int_le_iff]) (simp_all only: less_imp_le unit_of_pos)
  from ord_le_eq_trans [OF this t [symmetric]] show ?thesis unfolding round_pos_def .
qed

lemma round_pos_ge_pow2:
  assumes "pow2 e \<le> x" "- 1022 \<le> e"
  shows "pow2 e \<le> round_pos x"
proof -
  have x: "0 < x" using assms(1) pow2_pos [of e] by linarith
  have le: "e \<le> exponent_of x"
  proof (rule ccontr)
    assume "\<not> e \<le> exponent_of x"
    then have "pow2 (exponent_of x + 1) \<le> pow2 e" by (intro pow2_mono) simp
    then show False using exponent_of_bounds [OF x] assms(1) by linarith
  qed
  define d where "d = exponent_of x"
  have u: "unit_of x = pow2 (d - 52)" using le assms(2) by (simp add: unit_of_def d_def)
  have "pow2 d = 2 ^ 52 * pow2 (d - 52)" using pow2_52 [of "d - 52"] by simp
  then have m: "pow2 d = of_int (2 ^ 52) * unit_of x" by (simp add: u)
  have "of_int (2 ^ 52) \<le> x / unit_of x"
    using exponent_of_bounds [OF x] m by (simp add: pos_le_divide_eq d_def)
  then have "2 ^ 52 \<le> round_half_even (x / unit_of x)" by (rule round_half_even_ge)
  then have "of_int (2 ^ 52) * unit_of x \<le> of_int (round_half_even (x / unit_of x)) * unit_of x"
    by (intro mult_right_mono) (simp_all add: less_imp_le)
  then have "pow2 d \<le> round_pos x" using m by (simp add: round_pos_def)
  then show ?thesis using pow2_mono [of e d] le by (simp add: d_def)
qed

text \<open>Above or below the threshold by more than half a unit, the rounded value stays there too.\<close>

lemma half_unit: "pow2 (e - 52) = 2 * pow2 (e - 53)"
  using pow2_Suc [of "e - 53"] by simp

lemma int_multiple_of_unit:
  assumes "0 \<le> e" "e \<le> 52"
  shows "of_int t = of_int (t * 2 ^ nat (52 - e)) * pow2 (e - 52)"
  using pow2_nonpos [of "e - 52"] assms by (simp add: mult.assoc mult.commute [of "pow2 (e - 52)"])

lemma round_pos_above:
  assumes T: "pow2 e \<le> of_int t" "of_int t < pow2 (e + 1)" and e: "0 \<le> e" "e \<le> 52"
  shows "of_int t \<le> x \<Longrightarrow> of_int t \<le> round_pos x"
    and "of_int t + pow2 (e - 53) < x \<Longrightarrow> of_int t < round_pos x"
proof -
  note m = int_multiple_of_unit [OF e, of t]
  have far: "pow2 (e + 1) \<le> x \<Longrightarrow> of_int t < round_pos x"
    using round_pos_ge_pow2 [of "e + 1" x] e T(2) by linarith
  have near: "unit_of x = pow2 (e - 52)" if "of_int t \<le> x" "x < pow2 (e + 1)"
    using exponent_of_unique [of e x] that T(1) e by (simp add: unit_of_def)
  have up: "of_int k * pow2 (e - 52) \<le> round_pos x" if "unit_of x = pow2 (e - 52)" "k \<le> round_half_even (x / unit_of x)" for k
    using that by (simp add: round_pos_def)
  show "of_int t \<le> round_pos x" if le: "of_int t \<le> x"
  proof (cases "pow2 (e + 1) \<le> x")
    case False
    then have u: "unit_of x = pow2 (e - 52)" using near le by simp
    have "of_int (t * 2 ^ nat (52 - e)) \<le> x / unit_of x"
      unfolding u by (rule iffD2 [OF pos_le_divide_eq [OF pow2_pos] ord_eq_le_trans [OF m [symmetric] le]])
    from ord_eq_le_trans [OF m up [OF u round_half_even_ge [OF this]]] show ?thesis .
  qed (use far in simp)
  show "of_int t < round_pos x" if less: "of_int t + pow2 (e - 53) < x"
  proof (cases "pow2 (e + 1) \<le> x")
    case False
    have le: "of_int t \<le> x" using less pow2_pos [of "e - 53"] by linarith
    then have u: "unit_of x = pow2 (e - 52)" using near False by simp
    define n where "n = t * 2 ^ nat (52 - e)"
    have n: "of_int t = of_int n * pow2 (e - 52)" using m by (simp only: n_def)
    have "(of_int n + 1 / 2) * pow2 (e - 52) < x"
      using less half_unit [of e] unfolding n by (simp add: algebra_simps)
    then have "of_int n + 1 / 2 < x / unit_of x"
      unfolding u by (subst pos_less_divide_eq) simp_all
    then have "n + 1 \<le> round_half_even (x / unit_of x)"
      using round_half_even_gt by force
    from up [OF u this] have "of_int n * pow2 (e - 52) + pow2 (e - 52) \<le> round_pos x"
      by (simp add: algebra_simps)
    then show ?thesis unfolding n using pow2_pos [of "e - 52"] by linarith
  qed (use far in simp)
qed

lemma round_pos_below:
  assumes T: "pow2 e \<le> of_int t" "of_int t < pow2 (e + 1)" and e: "0 \<le> e" "e \<le> 52"
    and x: "0 < x" "x < of_int t - pow2 (e - 53)"
  shows "round_pos x < of_int t"
proof -
  have "exponent_of x \<le> exponent_of (of_int t)"
    using x pow2_pos [of "e - 53"] by (intro exponent_of_mono) linarith+
  also have "\<dots> = e" using T by (rule exponent_of_unique)
  finally obtain k where k: "unit_of x = pow2 k" "k \<le> e - 52"
    using e by (simp add: unit_of_def)
  have le: "pow2 k / 2 \<le> pow2 (e - 53)" using pow2_mono [OF k(2)] half_unit [of e] by simp
  define m where "m = t * 2 ^ nat (- k)"
  have m: "of_int t = of_int m * pow2 k"
    using pow2_nonpos [of k] k(2) e(2) by (simp add: m_def mult.assoc mult.commute [of "pow2 k"])
  have "x < (of_int m - 1 / 2) * pow2 k" using x(2) le m by (simp add: algebra_simps)
  then have "x / unit_of x < of_int m - 1 / 2" unfolding k(1) by (subst pos_divide_less_eq) simp_all
  then have "round_half_even (x / unit_of x) < m" by (rule round_half_even_lt)
  then have "of_int (round_half_even (x / unit_of x)) * unit_of x < of_int m * unit_of x"
    by (intro mult_strict_right_mono) simp_all
  then show ?thesis unfolding m round_pos_def k(1) .
qed

text \<open>Far below \<open>2\<^sup>1\<^sup>0\<^sup>2\<^sup>4\<close> a quotient does not overflow.\<close>

lemma round_pos_small:
  assumes "0 < x" "x < pow2 e" "- 1021 \<le> e"
  shows "round_pos x \<le> 2 * pow2 e"
proof -
  have "exponent_of x < e"
  proof (rule ccontr)
    assume "\<not> exponent_of x < e"
    then have "pow2 e \<le> pow2 (exponent_of x)" by (intro pow2_mono) simp
    then show False using exponent_of_bounds [OF assms(1)] assms(2) by linarith
  qed
  then have u: "unit_of x \<le> pow2 e" unfolding unit_of_def using assms(3) by (intro pow2_mono) simp
  have "round_pos x \<le> (x / unit_of x + 1 / 2) * unit_of x"
    unfolding round_pos_def
  proof (rule mult_right_mono)
    show "of_int (round_half_even (x / unit_of x)) \<le> x / unit_of x + 1 / 2"
      using round_half_even_error [of "x / unit_of x"] by linarith
  qed (simp add: less_imp_le)
  also have "(x / unit_of x + 1 / 2) * unit_of x = x + unit_of x / 2"
    using less_imp_neq [OF unit_of_pos [of x]] by (simp add: distrib_right)
  finally show ?thesis using u assms(2) pow2_pos [of e] by linarith
qed

lemma round_pos_nonneg:
  assumes "0 \<le> x"
  shows "0 \<le> round_pos x"
proof -
  have "0 \<le> round_half_even (x / unit_of x)"
    using assms by (intro round_half_even_ge) (simp add: less_imp_le)
  then show ?thesis by (simp add: round_pos_def less_imp_le)
qed

lemma f64_pos:
  assumes "0 < x" "x < pow2 1000"
  shows "f64 x = Some (round_pos x)"
proof -
  have "round_pos x \<le> 2 * pow2 1000" using assms by (intro round_pos_small) simp_all
  also have "\<dots> = pow2 1001" using pow2_Suc [of 1000] by simp
  also have "\<dots> < pow2 1024" by (intro pow2_less) simp
  finally show ?thesis
    using assms round_pos_nonneg [of x] by (simp add: f64_def)
qed

lemma f64_zero: "f64 0 = Some 0"
  by (simp add: f64_def)

end
