(* ===== verification/Py_Library.thy ===== *)
theory Py_Library
  imports Py_Text "HOL-Library.Product_Lexorder"
begin

text \<open>
  More of what the matrix harness takes from Python: case mapping and splitting of strings, the
  optional-value idioms \<open>str(x or "")\<close> and \<open>x or y\<close>, the last component of a path, and dictionaries
  grouping values under a key in insertion order (\<open>d.setdefault(k, []).append(v)\<close>).
\<close>

section \<open>Case mapping\<close>

text \<open>
  Case mapping is exact on code points below 256 except for the two letters whose mapping leaves
  that range, MICRO SIGN (\<open>casefold\<close> and \<open>upper\<close>) and LATIN SMALL LETTER Y WITH DIAERESIS
  (\<open>upper\<close>), which are kept unchanged here.
\<close>

definition code_of :: "char \<Rightarrow> nat" where
  "code_of c = of_char c"

definition lower_char :: "char \<Rightarrow> char" where
  "lower_char c = (let n = code_of c in
     if (65 \<le> n \<and> n \<le> 90) \<or> (192 \<le> n \<and> n \<le> 222 \<and> n \<noteq> 215) then char_of (n + 32) else c)"

definition upper_char :: "char \<Rightarrow> char" where
  "upper_char c = (let n = code_of c in
     if (97 \<le> n \<and> n \<le> 122) \<or> (224 \<le> n \<and> n \<le> 254 \<and> n \<noteq> 247) then char_of (n - 32) else c)"

definition lower :: "string \<Rightarrow> string" where
  "lower s = map lower_char s"

definition casefold :: "string \<Rightarrow> string" where
  "casefold s = concat (map (\<lambda>c. if code_of c = 223 then ''ss'' else [lower_char c]) s)"

definition upper :: "string \<Rightarrow> string" where
  "upper s = concat (map (\<lambda>c. if code_of c = 223 then ''SS'' else [upper_char c]) s)"

text \<open>\<open>str.capitalize\<close>, for a first letter other than SHARP S.\<close>

fun capitalize :: "string \<Rightarrow> string" where
  "capitalize [] = []"
| "capitalize (c # cs) = upper_char c # lower cs"

section \<open>Splitting\<close>

text \<open>\<open>s.split(c)\<close> for a one-character separator: always at least one part.\<close>

fun split_on :: "char \<Rightarrow> string \<Rightarrow> string list" where
  "split_on c [] = [[]]"
| "split_on c (x # xs) = (if x = c then [] # split_on c xs
     else (case split_on c xs of p # ps \<Rightarrow> (x # p) # ps | [] \<Rightarrow> [[x]]))"

text \<open>\<open>s.splitlines()\<close>, below code point 256.\<close>

definition is_line_end :: "char \<Rightarrow> bool" where
  "is_line_end c \<longleftrightarrow> (let n = code_of c in (10 \<le> n \<and> n \<le> 13) \<or> (28 \<le> n \<and> n \<le> 30) \<or> n = 133)"

fun splitlines_from :: "string \<Rightarrow> string \<Rightarrow> string list" where
  "splitlines_from acc [] = (if acc = [] then [] else [rev acc])"
| "splitlines_from acc (c # cs) = (
     if code_of c = 13 \<and> cs \<noteq> [] \<and> code_of (hd cs) = 10 then splitlines_from acc cs
     else if is_line_end c then rev acc # splitlines_from [] cs
     else splitlines_from (c # acc) cs)"

definition splitlines :: "string \<Rightarrow> string list" where
  "splitlines s = splitlines_from [] s"

text \<open>\<open>Path(s).name\<close> on POSIX: the last component that is not empty and not a single dot.\<close>

definition path_name :: "string \<Rightarrow> string" where
  "path_name s = (let ps = filter (\<lambda>p. p \<noteq> [] \<and> p \<noteq> ''.'') (split_on (CHR ''/'') s)
     in if ps = [] then [] else List.last ps)"

section \<open>Optional values\<close>

text \<open>\<open>str(value or default)\<close>.\<close>

definition str_or :: "string \<Rightarrow> pyval \<Rightarrow> string" where
  "str_or fallback v = (if truthy v then py_str v else fallback)"

text \<open>\<open>type(value) is int\<close>, and \<open>isinstance(value, int)\<close> that excludes a \<open>bool\<close>: an integer.\<close>

fun as_int :: "pyval \<Rightarrow> int option" where
  "as_int (VInt n) = Some n"
| "as_int _ = None"

lemma int_of_eq_Some [simp]: "as_int v = Some n \<longleftrightarrow> v = VInt n"
  by (cases v) auto

section \<open>Displays evaluated left to right\<close>

lemma collect_map_iff: "collect (map h xs) = Inr ys \<longleftrightarrow> list_all2 (\<lambda>x y. h x = Inr y) xs ys"
  by (simp add: collect_Inr_iff list_all2_conv_all_nth list_eq_iff_nth_eq) (metis nth_map)

lemma collect_Inl: "collect xs = Inl e \<Longrightarrow> Inl e \<in> set xs"
  by (induction xs) (auto simp: py_simps)

lemma collect_total: "(\<And>x. x \<in> set xs \<Longrightarrow> \<exists>y. h x = Inr y) \<Longrightarrow> \<exists>ys. collect (map h xs) = Inr ys"
  by (induction xs) fastforce+

section \<open>Grouping\<close>

text \<open>\<open>d.setdefault(k, []).append(v)\<close>, on the items of the dictionary in insertion order.\<close>

fun append_under :: "'k \<Rightarrow> 'v \<Rightarrow> ('k \<times> 'v list) list \<Rightarrow> ('k \<times> 'v list) list" where
  "append_under k v [] = [(k, [v])]"
| "append_under k v ((k', vs) # d) =
     (if k' = k then (k', vs @ [v]) # d else (k', vs) # append_under k v d)"

definition group_by :: "('a \<Rightarrow> 'k) \<Rightarrow> ('a \<Rightarrow> 'v) \<Rightarrow> 'a list \<Rightarrow> ('k \<times> 'v list) list" where
  "group_by key val xs = foldl (\<lambda>d x. append_under (key x) (val x) d) [] xs"

text \<open>\<open>d.get(k, [])\<close>.\<close>

definition group_of :: "'k \<Rightarrow> ('k \<times> 'v list) list \<Rightarrow> 'v list" where
  "group_of k d = (case map_of d k of None \<Rightarrow> [] | Some vs \<Rightarrow> vs)"

text \<open>The first occurrence of every element, in order: the keys of such a dictionary.\<close>

fun first_occurrences :: "'a list \<Rightarrow> 'a list" where
  "first_occurrences [] = []"
| "first_occurrences (x # xs) = x # filter (\<lambda>y. y \<noteq> x) (first_occurrences xs)"

lemma set_first_occurrences [simp]: "set (first_occurrences xs) = set xs"
  by (induction xs) auto

lemma distinct_first_occurrences [simp]: "distinct (first_occurrences xs)"
  by (induction xs) auto

lemma first_occurrences_snoc:
  "first_occurrences (xs @ [x])
     = (if x \<in> set xs then first_occurrences xs else first_occurrences xs @ [x])"
  by (induction xs) (auto simp: filter_id_conv)

lemma first_occurrences_append:
  "first_occurrences (xs @ ys)
     = first_occurrences xs @ filter (\<lambda>y. y \<notin> set xs) (first_occurrences ys)"
proof (induction xs)
  case (Cons x xs)
  have "filter (\<lambda>y. y \<noteq> x) (filter (\<lambda>y. y \<notin> set xs) zs) = filter (\<lambda>y. y \<notin> set (x # xs)) zs" for zs
    by (simp add: conj_commute)
  with Cons show ?case by simp
qed simp

text \<open>A repeated element adds nothing.\<close>

lemma first_occurrences_repeat:
  assumes "x \<in> set xs"
  shows "first_occurrences (xs @ x # ys) = first_occurrences (xs @ ys)"
proof -
  have "filter (\<lambda>y. y \<notin> set xs) (filter (\<lambda>y. y \<noteq> x) zs) = filter (\<lambda>y. y \<notin> set xs) zs" for zs
    using assms by (auto intro: filter_cong)
  then show ?thesis using assms by (simp add: first_occurrences_append)
qed

lemma first_occurrences_distinct: "distinct xs \<Longrightarrow> first_occurrences xs = xs"
  by (induction xs) (auto simp: filter_id_conv)

lemma group_of_append_under:
  "group_of k (append_under k' v d) = (if k = k' then group_of k d @ [v] else group_of k d)"
  by (induction d) (auto simp: group_of_def split: if_splits)

lemma keys_append_under:
  "map fst (append_under k v d) = (if k \<in> fst ` set d then map fst d else map fst d @ [k])"
  by (induction d) force+

text \<open>Grouping filters: under each key are the values of its elements, in their order.\<close>

lemma group_of_group_by:
  "group_of k (group_by key val xs) = map val (filter (\<lambda>x. key x = k) xs)"
proof (induction xs rule: rev_induct)
  case Nil
  show ?case by (simp add: group_by_def group_of_def)
next
  case (snoc x xs)
  then show ?case by (cases "key x = k") (simp_all add: group_by_def group_of_append_under)
qed

lemma keys_group_by: "map fst (group_by key val xs) = first_occurrences (map key xs)"
proof (induction xs rule: rev_induct)
  case Nil
  show ?case by (simp add: group_by_def)
next
  case (snoc x xs)
  have "fst ` set (group_by key val xs) = set (map key xs)"
    using arg_cong [OF snoc.IH, of set] by simp
  with snoc.IH show ?case
    by (simp add: group_by_def keys_append_under first_occurrences_snoc)
qed

lemma distinct_keys_group_by: "distinct (map fst (group_by key val xs))"
  by (simp add: keys_group_by)

section \<open>Facts about splitting\<close>

lemma split_on_nonempty [simp]: "split_on c s \<noteq> []"
  by (induction s) (auto split: list.splits)

lemma split_on_parts: "p \<in> set (split_on c s) \<Longrightarrow> c \<notin> set p"
proof (induction s arbitrary: p)
  case (Cons x xs)
  then show ?case
    by (cases "split_on c xs") (auto split: if_splits)
qed simp

text \<open>A path built from a directory and a plain name ends in that name.\<close>

lemma split_on_append:
  "c \<notin> set p \<Longrightarrow> split_on c (d @ c # p) = split_on c d @ [p]"
proof (induction d)
  case Nil
  then have "split_on c p = [p]"
    by (induction p) auto
  then show ?case by simp
next
  case (Cons x xs)
  then show ?case
    by (cases "split_on c xs") (auto simp: split_on_nonempty)
qed

lemma path_name_join:
  assumes "CHR ''/'' \<notin> set p" "p \<noteq> []" "p \<noteq> ''.''"
  shows "path_name (d @ ''/'' @ p) = p"
  using assms by (simp add: path_name_def split_on_append)

end
