(* ===== verification/Models.thy ===== *)
theory Models
  imports Py_Library
begin

text \<open>
  \<open>models.py\<close> and \<open>environment.py\<close>: the capabilities of one implementation role, a scenario, the
  result of a case, and the test that keeps a role out of a scenario it cannot run. A
  \<open>Literal\<close> of two role names is the datatype \<open>role_name\<close>; the other literals, which the code
  compares with strings and may meet any string in, stay strings. A frozen dataclass with defaults
  is a record and a constructor function of its required fields.
\<close>

section \<open>Roles\<close>

datatype role_name = Server | Client

fun role_str :: "role_name \<Rightarrow> string" where
  "role_str Server = ''server''"
| "role_str Client = ''client''"

lemma role_str_inj [simp]: "role_str a = role_str b \<longleftrightarrow> a = b"
  by (cases a; cases b) auto

definition AUDIO_FORMAT_FIELDS :: "string list" where
  "AUDIO_FORMAT_FIELDS = [''codec'', ''sample_rate'', ''bit_depth'', ''channels'']"

record role_spec =
  rs_supported :: bool
  rs_adapter_kind :: string
  rs_build_adapter :: "string option"
  rs_entrypoint :: "string option"
  rs_supports_server_initiated :: bool
  rs_supports_client_initiated :: bool
  rs_supports_flac :: bool
  rs_supports_opus :: bool
  rs_supports_discovery :: bool
  rs_supports_legacy_unencrypted :: bool
  rs_supported_role_families :: "string list"
  rs_reason :: "string option"

definition RoleSpec :: "bool \<Rightarrow> string \<Rightarrow> role_spec" where
  "RoleSpec supported kind = \<lparr>
     rs_supported = supported, rs_adapter_kind = kind, rs_build_adapter = None,
     rs_entrypoint = None, rs_supports_server_initiated = False,
     rs_supports_client_initiated = False, rs_supports_flac = False, rs_supports_opus = False,
     rs_supports_discovery = False, rs_supports_legacy_unencrypted = False,
     rs_supported_role_families = [], rs_reason = None\<rparr>"

record implementation_spec =
  is_name :: string
  is_display_name :: string
  is_repo_dirname :: string
  is_remote_url :: string
  is_client :: role_spec
  is_server :: role_spec

definition role_of :: "role_name \<Rightarrow> implementation_spec \<Rightarrow> role_spec" where
  "role_of role spec = (if role = Server then is_server spec else is_client spec)"

section \<open>Scenarios\<close>

record scenario_spec =
  ss_id :: string
  ss_display_name :: string
  ss_description :: string
  ss_initiator_role :: role_name
  ss_preferred_codec :: string
  ss_required_role_families :: "string list"
  ss_verification_mode :: string
  ss_scenario_revision :: int
  ss_requires_legacy_unencrypted :: bool
  ss_verifies_format_priority :: bool
  ss_verifies_stream_bit_depth :: "int option"
  ss_extra_cli_args :: "(string \<times> string) list"
  ss_protocol_assertions :: "string list"

definition ScenarioSpec ::
  "string \<Rightarrow> string \<Rightarrow> string \<Rightarrow> role_name \<Rightarrow> string \<Rightarrow> string list \<Rightarrow> string \<Rightarrow> int \<Rightarrow> scenario_spec" where
  "ScenarioSpec ident display description initiator codec families mode revision = \<lparr>
     ss_id = ident, ss_display_name = display, ss_description = description,
     ss_initiator_role = initiator, ss_preferred_codec = codec,
     ss_required_role_families = families, ss_verification_mode = mode,
     ss_scenario_revision = revision, ss_requires_legacy_unencrypted = False,
     ss_verifies_format_priority = False, ss_verifies_stream_bit_depth = None,
     ss_extra_cli_args = [], ss_protocol_assertions = []\<rparr>"

text \<open>A dict literal \<open>{**a, **b}\<close>: a later key replaces the value of an earlier one in place.\<close>

definition dict_update :: "('k \<times> 'v) list \<Rightarrow> ('k \<times> 'v) list \<Rightarrow> ('k \<times> 'v) list" where
  "dict_update d e = foldl (\<lambda>d (k, v). dict_put k v d) d e"

definition cli_args :: "scenario_spec \<Rightarrow> (string \<times> string) list" where
  "cli_args s = dict_update
     [(''scenario_id'', ss_id s), (''initiator_role'', role_str (ss_initiator_role s)),
      (''preferred_codec'', ss_preferred_codec s)]
     (ss_extra_cli_args s)"

section \<open>What a role supports\<close>

definition supports_initiator :: "role_spec \<Rightarrow> role_name \<Rightarrow> bool" where
  "supports_initiator r initiator = (if initiator = Server then rs_supports_server_initiated r
     else rs_supports_client_initiated r)"

definition supports_codec :: "role_spec \<Rightarrow> string \<Rightarrow> bool" where
  "supports_codec r codec = (if codec = ''flac'' then rs_supports_flac r
     else if codec = ''opus'' then rs_supports_opus r else True)"

definition supports_role_families :: "role_spec \<Rightarrow> string list \<Rightarrow> bool" where
  "supports_role_families r families = list_all (\<lambda>f. f \<in> set (rs_supported_role_families r)) families"

definition unsupported_reason :: "role_spec \<Rightarrow> string \<Rightarrow> role_name \<Rightarrow> scenario_spec \<Rightarrow> string option" where
  "unsupported_reason r implementation role s = (
     if supports_initiator r (ss_initiator_role s)
        \<and> supports_codec r (ss_preferred_codec s)
        \<and> supports_role_families r (ss_required_role_families s)
        \<and> (rs_supports_legacy_unencrypted r \<or> \<not> ss_requires_legacy_unencrypted s)
     then None
     else
       let who = implementation @ '' '' @ role_str role @ '' adapter does not support '';
           action = (if ss_initiator_role s = Server
                     then ''server-initiated incoming websocket flow''
                     else ''client-initiated outbound websocket flow'')
       in Some (
         if \<not> supports_initiator r (ss_initiator_role s)
         then who @ ''the '' @ action @ '' required by '' @ ss_id s @ ''.''
         else if \<not> supports_role_families r (ss_required_role_families s)
         then who @ ''role family/families ''
              @ join '', '' (sort (filter (\<lambda>f. f \<notin> set (rs_supported_role_families r))
                                       (ss_required_role_families s)))
              @ '' required by '' @ ss_id s @ ''.''
         else if ss_requires_legacy_unencrypted s \<and> \<not> rs_supports_legacy_unencrypted r
         then who @ ''the legacy unencrypted transition mode required by '' @ ss_id s @ ''.''
         else who @ upper (ss_preferred_codec s) @ '' transport required by '' @ ss_id s @ ''.''))"

section \<open>Environments and results\<close>

record environment_spec =
  env_id :: string
  env_name :: string

text \<open>\<open>system\<close> is what \<open>platform.system()\<close> answers.\<close>

definition default_environment :: "string \<Rightarrow> environment_spec" where
  "default_environment system = (
     if system = ''Darwin'' then \<lparr>env_id = ''macos'', env_name = ''macOS''\<rparr>
     else if system = ''Linux'' then \<lparr>env_id = ''linux'', env_name = ''Linux''\<rparr>
     else if system = ''Windows'' then \<lparr>env_id = ''windows'', env_name = ''Windows''\<rparr>
     else \<lparr>env_id = (if lower system = [] then ''unknown'' else lower system),
           env_name = (if system = [] then ''Unknown'' else system)\<rparr>)"

definition given_or :: "string option \<Rightarrow> string \<Rightarrow> string" where
  "given_or given fallback = (case given of None \<Rightarrow> fallback
     | Some s \<Rightarrow> if s = [] then fallback else s)"

definition resolve_environment ::
  "string \<Rightarrow> string option \<Rightarrow> string option \<Rightarrow> environment_spec" where
  "resolve_environment system environment_id environment_name = (
     let current = default_environment system in
     \<lparr>env_id = given_or environment_id (env_id current),
      env_name = given_or environment_name (env_name current)\<rparr>)"

definition build_log_filename :: "string \<Rightarrow> string \<Rightarrow> string" where
  "build_log_filename environment_id adapter = environment_id @ ''__'' @ adapter @ ''.log''"

record case_result =
  res_environment_id :: string
  res_environment_name :: string
  res_scenario_id :: string
  res_server_impl :: string
  res_client_impl :: string
  res_status :: string
  res_reason :: string
  res_scenario_revision :: int
  res_case_dir :: string
  res_server_exit_code :: "int option"
  res_client_exit_code :: "int option"
  res_unsupported :: bool

section \<open>Facts\<close>

lemma unsupported_reason_None_iff:
  "unsupported_reason r implementation role s = None
     \<longleftrightarrow> supports_initiator r (ss_initiator_role s)
         \<and> supports_codec r (ss_preferred_codec s)
         \<and> supports_role_families r (ss_required_role_families s)
         \<and> (rs_supports_legacy_unencrypted r \<or> \<not> ss_requires_legacy_unencrypted s)"
  by (simp add: unsupported_reason_def Let_def)

lemma map_of_dict_put [simp]: "map_of (dict_put k v d) = (map_of d)(k \<mapsto> v)"
  by (induction d) (auto simp: fun_eq_iff)

lemma map_of_dict_update: "distinct (map fst e) \<Longrightarrow> map_of (dict_update d e) = map_of d ++ map_of e"
proof (induction e rule: rev_induct)
  case (snoc kv e)
  then show ?case
    by (cases kv) (auto simp: dict_update_def fun_eq_iff map_add_def map_of_eq_None_iff
        split: option.splits intro: rev_image_eqI)
qed (simp add: dict_update_def)

end
