(* ===== verification/Registry.thy ===== *)
theory Registry
  imports Models Protocol
begin

text \<open>
  \<open>implementations.py\<close> and \<open>scenarios.py\<close>: the implementations the matrix knows, the scenarios
  it runs, and the functions that select from both. The tables are transcribed from the source,
  with every field the source spells out. What the shipped tables satisfy is proved by evaluation.
\<close>

section \<open>Implementations\<close>

definition impl_aiosendspin :: implementation_spec where
  "impl_aiosendspin = \<lparr>
    is_name = ''aiosendspin'',
    is_display_name = ''aiosendspin'',
    is_repo_dirname = ''aiosendspin'',
    is_remote_url = ''https://github.com/Sendspin/aiosendspin.git'',
    is_client = (RoleSpec True ''python'')
      \<lparr>rs_build_adapter := Some ''python-adapters'',
        rs_entrypoint := Some ''conformance.adapters.aiosendspin_client'',
        rs_supports_server_initiated := True,
        rs_supports_client_initiated := True,
        rs_supports_flac := True,
        rs_supports_opus := False,
        rs_supports_discovery := True,
        rs_supported_role_families := [''player'', ''metadata'', ''controller'', ''artwork'']\<rparr>,
    is_server = (RoleSpec True ''python'')
      \<lparr>rs_build_adapter := Some ''python-adapters'',
        rs_entrypoint := Some ''conformance.adapters.aiosendspin_server'',
        rs_supports_server_initiated := True,
        rs_supports_client_initiated := True,
        rs_supports_flac := True,
        rs_supports_opus := True,
        rs_supports_discovery := True,
        rs_supports_legacy_unencrypted := True,
        rs_supported_role_families := [''player'', ''metadata'', ''controller'', ''artwork'']\<rparr>\<rparr>"

definition impl_sendspin_dotnet :: implementation_spec where
  "impl_sendspin_dotnet = \<lparr>
    is_name = ''sendspin-dotnet'',
    is_display_name = ''sendspin-dotnet'',
    is_repo_dirname = ''sendspin-dotnet'',
    is_remote_url = ''https://github.com/Sendspin/sendspin-dotnet.git'',
    is_client = (RoleSpec True ''dotnet'')
      \<lparr>rs_build_adapter := Some ''sendspin-dotnet-client'',
        rs_entrypoint := Some ''adapters/sendspin-dotnet/client/Conformance.SendspinDotnet.Client.csproj'',
        rs_supports_server_initiated := True,
        rs_supports_client_initiated := True,
        rs_supports_flac := True,
        rs_supports_discovery := True,
        rs_supports_legacy_unencrypted := True,
        rs_supported_role_families := [''player'', ''metadata'', ''controller'', ''artwork'']\<rparr>,
    is_server = (RoleSpec False ''placeholder'')
      \<lparr>rs_entrypoint := Some ''conformance.adapters.placeholder'',
        rs_reason := Some ''The checked-in .NET SDK exposes client host mode, not a server implementation.''\<rparr>\<rparr>"

definition impl_SendspinKit :: implementation_spec where
  "impl_SendspinKit = \<lparr>
    is_name = ''SendspinKit'',
    is_display_name = ''SendspinKit'',
    is_repo_dirname = ''SendspinKit'',
    is_remote_url = ''https://github.com/Sendspin/SendspinKit.git'',
    is_client = (RoleSpec True ''swift'')
      \<lparr>rs_build_adapter := Some ''SendspinKit-client'',
        rs_entrypoint := Some ''adapters/SendspinKit/client:ConformanceSendspinKitClient'',
        rs_supports_server_initiated := True,
        rs_supports_client_initiated := True,
        rs_supports_flac := True,
        rs_supports_opus := True,
        rs_supports_legacy_unencrypted := True,
        rs_supported_role_families := [''player'', ''metadata'', ''controller'', ''artwork'']\<rparr>,
    is_server = (RoleSpec False ''placeholder'')
      \<lparr>rs_entrypoint := Some ''conformance.adapters.placeholder'',
        rs_reason := Some ''SendspinKit is currently a client library in this workspace.''\<rparr>\<rparr>"

definition impl_sendspin_js :: implementation_spec where
  "impl_sendspin_js = \<lparr>
    is_name = ''sendspin-js'',
    is_display_name = ''sendspin-js'',
    is_repo_dirname = ''sendspin-js'',
    is_remote_url = ''https://github.com/Sendspin/sendspin-js.git'',
    is_client = (RoleSpec True ''node'')
      \<lparr>rs_build_adapter := Some ''sendspin-js-adapters'',
        rs_entrypoint := Some ''adapters/sendspin-js/client.mjs'',
        rs_supports_server_initiated := True,
        rs_supports_client_initiated := True,
        rs_supports_legacy_unencrypted := True,
        rs_supported_role_families := [''player'', ''metadata'', ''controller'']\<rparr>,
    is_server = (RoleSpec False ''placeholder'')
      \<lparr>rs_entrypoint := Some ''conformance.adapters.placeholder'',
        rs_reason := Some ''sendspin-js is currently a client library in this workspace.''\<rparr>\<rparr>"

definition impl_sendspin_rs :: implementation_spec where
  "impl_sendspin_rs = \<lparr>
    is_name = ''sendspin-rs'',
    is_display_name = ''sendspin-rs'',
    is_repo_dirname = ''sendspin-rs'',
    is_remote_url = ''https://github.com/Sendspin/sendspin-rs.git'',
    is_client = (RoleSpec True ''cargo'')
      \<lparr>rs_build_adapter := Some ''sendspin-rs-client'',
        rs_entrypoint := Some ''adapters/sendspin-rs/client/Cargo.toml'',
        rs_supports_server_initiated := True,
        rs_supports_client_initiated := True,
        rs_supports_flac := True,
        rs_supports_legacy_unencrypted := True,
        rs_supported_role_families := [''player'', ''metadata'', ''controller'', ''artwork'']\<rparr>,
    is_server = (RoleSpec False ''placeholder'')
      \<lparr>rs_entrypoint := Some ''conformance.adapters.placeholder'',
        rs_reason := Some ''sendspin-rs does not yet expose a server implementation in this workspace.''\<rparr>\<rparr>"

definition impl_sendspin_cpp :: implementation_spec where
  "impl_sendspin_cpp = \<lparr>
    is_name = ''sendspin-cpp'',
    is_display_name = ''sendspin-cpp'',
    is_repo_dirname = ''sendspin-cpp'',
    is_remote_url = ''https://github.com/Sendspin/sendspin-cpp.git'',
    is_client = (RoleSpec True ''cmake'')
      \<lparr>rs_build_adapter := Some ''sendspin-cpp-client'',
        rs_entrypoint := Some ''adapters/sendspin-cpp/client'',
        rs_supports_server_initiated := True,
        rs_supports_client_initiated := True,
        rs_supports_flac := True,
        rs_supports_opus := True,
        rs_supports_legacy_unencrypted := True,
        rs_supported_role_families := [''player'', ''metadata'', ''controller'', ''artwork'']\<rparr>,
    is_server = (RoleSpec False ''placeholder'')
      \<lparr>rs_entrypoint := Some ''conformance.adapters.placeholder'',
        rs_reason := Some (''sendspin-cpp is a client library; its server counterpart is ''
      @ ''sendspin-server-cpp.'')\<rparr>\<rparr>"

definition impl_sendspin_server_cpp :: implementation_spec where
  "impl_sendspin_server_cpp = \<lparr>
    is_name = ''sendspin-server-cpp'',
    is_display_name = ''sendspin-server-cpp'',
    is_repo_dirname = ''sendspin-server-cpp'',
    is_remote_url = ''https://github.com/Sendspin/sendspin-server-cpp.git'',
    is_client = (RoleSpec False ''placeholder'')
      \<lparr>rs_entrypoint := Some ''conformance.adapters.placeholder'',
        rs_reason := Some (''sendspin-server-cpp is a server library; its client counterpart is ''
      @ ''sendspin-cpp.'')\<rparr>,
    is_server = (RoleSpec True ''cmake'')
      \<lparr>rs_build_adapter := Some ''sendspin-server-cpp-server'',
        rs_entrypoint := Some ''adapters/sendspin-server-cpp/server'',
        rs_supports_server_initiated := True,
        rs_supports_client_initiated := True,
        rs_supports_flac := True,
        rs_supports_opus := True,
        rs_supported_role_families := [''player'', ''metadata'', ''controller'', ''artwork'']\<rparr>\<rparr>"

definition impl_sendspin_go :: implementation_spec where
  "impl_sendspin_go = \<lparr>
    is_name = ''sendspin-go'',
    is_display_name = ''sendspin-go'',
    is_repo_dirname = ''sendspin-go'',
    is_remote_url = ''https://github.com/Sendspin/sendspin-go.git'',
    is_client = (RoleSpec False ''placeholder'')
      \<lparr>rs_entrypoint := Some ''conformance.adapters.placeholder'',
        rs_reason := Some ''The sendspin-go client is not currently tested.''\<rparr>,
    is_server = (RoleSpec False ''placeholder'')
      \<lparr>rs_entrypoint := Some ''conformance.adapters.placeholder'',
        rs_reason := Some (''sendspin-go's server library expects client/hello as the first message and has ''
      @ ''no client/init or Noise handshake, so every case would end at the first RC1 ''
      @ ''handshake step.'')\<rparr>\<rparr>"

definition IMPLEMENTATIONS :: "(string \<times> implementation_spec) list" where
  "IMPLEMENTATIONS = [
     (''aiosendspin'', impl_aiosendspin),
     (''sendspin-dotnet'', impl_sendspin_dotnet),
     (''SendspinKit'', impl_SendspinKit),
     (''sendspin-js'', impl_sendspin_js),
     (''sendspin-rs'', impl_sendspin_rs),
     (''sendspin-cpp'', impl_sendspin_cpp),
     (''sendspin-server-cpp'', impl_sendspin_server_cpp),
     (''sendspin-go'', impl_sendspin_go)]"

definition SUPPORTING_REPOS :: "(string \<times> string \<times> string) list" where
  "SUPPORTING_REPOS = [
     (''sendspin-cli'', ''sendspin-cli'', ''https://github.com/Sendspin/sendspin-cli.git''),
     (''spec'', ''spec'', ''https://github.com/Sendspin/spec.git'')]"

section \<open>Scenarios\<close>

definition CLIENT_INITIATED_PCM :: scenario_spec where
  "CLIENT_INITIATED_PCM = (ScenarioSpec
    ''client-initiated-pcm''
    (''Client initiates connection and client wants PCM'')
    (''Start the server first, then the client. The client discovers or looks up the ''
      @ ''server, initiates the WebSocket connection, advertises PCM as its only ''
      @ ''supported audio format, streams audio derived from almost_silent.flac, and ''
      @ ''compares canonical PCM hashes.'')
    Client ''pcm'' [''player'']
    ''audio-pcm'' 6)"

definition SERVER_INITIATED_PCM :: scenario_spec where
  "SERVER_INITIATED_PCM = (ScenarioSpec
    ''server-initiated-pcm''
    (''Server initiates connection and client wants PCM'')
    (''Start the server first, then the client. The client advertises a listener and ''
      @ ''PCM as its only supported audio format, the server connects in, streams audio ''
      @ ''derived from almost_silent.flac, disconnects, and the matrix compares ''
      @ ''canonical PCM hashes.'')
    Server ''pcm'' [''player'']
    ''audio-pcm'' 6)"

definition SERVER_INITIATED_PROTOCOL_BASELINE :: scenario_spec where
  "SERVER_INITIATED_PROTOCOL_BASELINE = (ScenarioSpec
    ''server-initiated-protocol-baseline-v1''
    (''Server initiates a protocol baseline session'')
    (''Start the server first, then the client. The client advertises a listener and ''
      @ ''PCM player support. The server connects, and both adapters record the ''
      @ ''handshake, role activation, initial state, stream negotiation, and timestamped ''
      @ ''player chunks for checks against the pinned spec revision. This test does not ''
      @ ''check audio decoding or playback.'')
    Server ''pcm'' [''player'']
    ''protocol'' 5)
    \<lparr>ss_protocol_assertions := [''CORE-001'', ''CORE-002'', ''CORE-003'', ''CORE-004'', ''PLAYER-001'']\<rparr>"

definition SERVER_INITIATED_FLAC :: scenario_spec where
  "SERVER_INITIATED_FLAC = (ScenarioSpec
    ''server-initiated-flac''
    (''Server initiates connection and client wants FLAC'')
    (''Start the server first, then the client. The server loads the PCM audio ''
      @ ''derived from almost_silent.flac, the client advertises a listener and FLAC as ''
      @ ''its only supported audio format, the server connects in, uses the SDK to ''
      @ ''encode the PCM into FLAC, streams it to the client, and the matrix compares ''
      @ ''the transported FLAC header and chunk bytes as received by the client. Where ''
      @ ''the client reports the audio it decoded and the stream kept the source's ''
      @ ''sample rate and channel count, the matrix also compares its canonical PCM hash ''
      @ ''against the source clip, so a stream that arrived intact but incomplete fails.'')
    Server ''flac'' [''player'']
    ''audio-encoded-bytes'' 6)"

definition SERVER_INITIATED_OPUS :: scenario_spec where
  "SERVER_INITIATED_OPUS = (ScenarioSpec
    ''server-initiated-opus''
    (''Server initiates connection and client prefers OPUS'')
    (''Start the server first, then the client. The server loads the PCM audio ''
      @ ''derived from almost_silent.flac, the client advertises a listener and lists ''
      @ ''OPUS first in its supported audio formats, followed by the PCM or FLAC entry ''
      @ ''every player must list. The server connects in and, being able to produce ''
      @ ''OPUS, is expected to honour that priority: it uses the SDK to encode the PCM ''
      @ ''into OPUS and streams it to the client. The matrix verifies the declared list, ''
      @ ''that the negotiated format is OPUS, and that the transported OPUS chunk bytes ''
      @ ''match as received by the client. OPUS is lossy, so decoded audio is not ''
      @ ''compared against the source.'')
    Server ''opus'' [''player'']
    ''audio-encoded-bytes'' 6)
    \<lparr>ss_verifies_format_priority := True\<rparr>"

definition METADATA_EXTRA_CLI_ARGS :: "(string \<times> string) list" where
  "METADATA_EXTRA_CLI_ARGS = [
     (''metadata_title'', ''Almost Silent''),
     (''metadata_artist'', ''Sendspin Conformance''),
     (''metadata_album_artist'', ''Sendspin''),
     (''metadata_album'', ''Protocol Fixtures''),
     (''metadata_artwork_url'', ''https://example.invalid/almost-silent.jpg''),
     (''metadata_year'', ''2026''),
     (''metadata_track'', ''1''),
     (''metadata_track_progress'', ''12000''),
     (''metadata_track_duration'', ''180000''),
     (''metadata_playback_speed'', ''1000'')]"

definition CONTROLLER_EXTRA_CLI_ARGS :: "(string \<times> string) list" where
  "CONTROLLER_EXTRA_CLI_ARGS = [
     (''controller_command'', ''next''),
     (''controller_repeat'', ''all''),
     (''controller_shuffle'', ''false'')]"

definition ARTWORK_EXTRA_CLI_ARGS :: "(string \<times> string) list" where
  "ARTWORK_EXTRA_CLI_ARGS = [
     (''artwork_format'', ''jpeg''),
     (''artwork_width'', ''256''),
     (''artwork_height'', ''256'')]"

definition SERVER_INITIATED_METADATA :: scenario_spec where
  "SERVER_INITIATED_METADATA = (ScenarioSpec
    ''server-initiated-metadata''
    (''Server initiates connection and client wants Metadata'')
    (''Start the server first, then the client. The client advertises a listener, the ''
      @ ''server connects in, sends a metadata state update, disconnects, and the matrix ''
      @ ''compares a normalized metadata snapshot and checks that the first state ''
      @ ''carrying a metadata object bore a past or present timestamp.'')
    Server ''none'' [''metadata'']
    ''metadata'' 5)
    \<lparr>ss_extra_cli_args := METADATA_EXTRA_CLI_ARGS\<rparr>"

definition SERVER_INITIATED_CONTROLLER :: scenario_spec where
  "SERVER_INITIATED_CONTROLLER = (ScenarioSpec
    ''server-initiated-controller''
    (''Server initiates connection and client wants Controller'')
    (''Start the server first, then the client. The client advertises a listener, the ''
      @ ''server connects in, observes controller state, receives a control command, ''
      @ ''disconnects, and the matrix verifies the recorded command.'')
    Server ''none'' [''controller'']
    ''controller'' 5)
    \<lparr>ss_extra_cli_args := CONTROLLER_EXTRA_CLI_ARGS\<rparr>"

definition SERVER_INITIATED_ARTWORK :: scenario_spec where
  "SERVER_INITIATED_ARTWORK = (ScenarioSpec
    ''server-initiated-artwork''
    (''Server initiates connection and client wants Artwork'')
    (''Start the server first, then the client. The client advertises a listener, the ''
      @ ''server connects in, streams album artwork, disconnects, and the matrix ''
      @ ''compares the received bytes against the server's encoded artwork.'')
    Server ''none'' [''artwork'']
    ''artwork'' 5)
    \<lparr>ss_extra_cli_args := ARTWORK_EXTRA_CLI_ARGS\<rparr>"

definition SERVER_INITIATED_PCM_24BIT :: scenario_spec where
  "SERVER_INITIATED_PCM_24BIT = (ScenarioSpec
    ''server-initiated-pcm-24bit''
    (''Server initiates connection and client wants 24-bit PCM'')
    (''Start the server first, then the client. The server emits PCM in the 24-bit ''
      @ ''packed wire format (3-byte packed, little-endian, two's complement). The ''
      @ ''client advertises a listener and 24-bit PCM as its only supported audio ''
      @ ''format. The matrix compares canonical PCM hashes after the client unpacks the ''
      @ ''24-bit stream. A client SDK with no 24-bit decode path misreads the bytes and ''
      @ ''produces a hash mismatch. The matrix also verifies that the negotiated stream ''
      @ ''was 24-bit, because a 16-bit stream of the same clip yields the same canonical ''
      @ ''hash without exercising the 24-bit path.'')
    Server ''pcm'' [''player'']
    ''audio-pcm'' 7)
    \<lparr>ss_verifies_stream_bit_depth := Some 24\<rparr>"

definition CLIENT_INITIATED_STATE_FORMAT_PCM :: scenario_spec where
  "CLIENT_INITIATED_STATE_FORMAT_PCM = (ScenarioSpec
    ''client-initiated-state-format-pcm''
    (''Client changes its preferred PCM bit depth via client/state'')
    (''Start the server first, then the client. The client connects, advertises two ''
      @ ''PCM formats (24-bit then 16-bit), and the server starts streaming the ''
      @ ''higher-priority 24-bit format. The client then sends a client/state whose ''
      @ ''player format prefers the 16-bit entry. The matrix verifies the server ''
      @ ''received that preference in client/state and the client observed a new ''
      @ ''stream/start in the 16-bit format.'')
    Client ''pcm'' [''player'']
    ''format-preference'' 5)"

definition CLIENT_INITIATED_STATE_FORMAT_FLAC :: scenario_spec where
  "CLIENT_INITIATED_STATE_FORMAT_FLAC = (ScenarioSpec
    ''client-initiated-state-format-flac''
    (''Client changes its preferred format from PCM to FLAC via client/state'')
    (''Start the server first, then the client. The client connects, advertises PCM ''
      @ ''then FLAC, and the server starts streaming the higher-priority PCM format. The ''
      @ ''client then sends a client/state whose player format prefers the FLAC entry. ''
      @ ''The matrix verifies the server received that preference in client/state and ''
      @ ''the client observed a new stream/start in the FLAC format.'')
    Client ''flac'' [''player'']
    ''format-preference'' 5)"

definition CLIENT_INITIATED_METADATA :: scenario_spec where
  "CLIENT_INITIATED_METADATA = (ScenarioSpec
    ''client-initiated-metadata''
    (''Client initiates connection and client wants Metadata'')
    (''Start the server first, then the client. The client discovers or looks up the ''
      @ ''server and initiates the WebSocket connection, the server sends a metadata ''
      @ ''state update, disconnects, and the matrix compares a normalized metadata ''
      @ ''snapshot and checks that the first state carrying a metadata object bore a ''
      @ ''past or present timestamp.'')
    Client ''none'' [''metadata'']
    ''metadata'' 1)
    \<lparr>ss_extra_cli_args := METADATA_EXTRA_CLI_ARGS\<rparr>"

definition CLIENT_INITIATED_CONTROLLER :: scenario_spec where
  "CLIENT_INITIATED_CONTROLLER = (ScenarioSpec
    ''client-initiated-controller''
    (''Client initiates connection and client wants Controller'')
    (''Start the server first, then the client. The client discovers or looks up the ''
      @ ''server and initiates the WebSocket connection, the server observes controller ''
      @ ''state, receives a control command, disconnects, and the matrix verifies the ''
      @ ''recorded command.'')
    Client ''none'' [''controller'']
    ''controller'' 1)
    \<lparr>ss_extra_cli_args := CONTROLLER_EXTRA_CLI_ARGS\<rparr>"

definition CLIENT_INITIATED_ARTWORK :: scenario_spec where
  "CLIENT_INITIATED_ARTWORK = (ScenarioSpec
    ''client-initiated-artwork''
    (''Client initiates connection and client wants Artwork'')
    (''Start the server first, then the client. The client discovers or looks up the ''
      @ ''server and initiates the WebSocket connection, the server streams album ''
      @ ''artwork, disconnects, and the matrix compares the received bytes against the ''
      @ ''server's encoded artwork.'')
    Client ''none'' [''artwork'']
    ''artwork'' 1)
    \<lparr>ss_extra_cli_args := ARTWORK_EXTRA_CLI_ARGS\<rparr>"

definition SERVER_INITIATED_LEGACY_UNENCRYPTED :: scenario_spec where
  "SERVER_INITIATED_LEGACY_UNENCRYPTED = (ScenarioSpec
    ''server-initiated-legacy-unencrypted''
    (''Server initiates connection over the legacy unencrypted transition mode'')
    (''Start the server first, then the client. The server uses aiosendspin's ''
      @ ''allow_unencrypted mode to test clients that do not yet support the required ''
      @ ''Noise handshake. This mode is outside the spec and sends traffic without ''
      @ ''encryption. The test can be removed once all tracked implementations support ''
      @ ''the Noise handshake.'')
    Server ''pcm'' [''player'']
    ''audio-pcm'' 6)
    \<lparr>ss_requires_legacy_unencrypted := True\<rparr>"

definition SERVER_INITIATED_AUDIO_CHUNK_FRAMING :: scenario_spec where
  "SERVER_INITIATED_AUDIO_CHUNK_FRAMING = (ScenarioSpec
    ''server-initiated-audio-chunk-framing''
    (''Server initiates connection and frames PCM audio chunks'')
    (''Start the server first, then the client. The client advertises a listener and ''
      @ ''PCM as its only supported audio format, the server connects in and streams ''
      @ ''audio derived from almost_silent.flac, and both adapters record each audio ''
      @ ''frame as it crossed the transport. The matrix verifies that every frame is ''
      @ ''message type 4 behind the 13-byte header (type, int64 timestamp, uint32 ''
      @ ''send_ahead), that the client read the same 13 bytes off each one, and that no ''
      @ ''chunk lasted longer than 150 ms or, the final chunk aside, less than 15 ms. ''
      @ ''This test does not compare the audio, and does not judge send_ahead ''
      @ ''saturation, which no adapter can observe.'')
    Server ''pcm'' [''player'']
    ''audio-chunk-framing'' 4)"

definition SCENARIO_LIST :: "scenario_spec list" where
  "SCENARIO_LIST = [
     CLIENT_INITIATED_PCM,
     SERVER_INITIATED_PCM,
     SERVER_INITIATED_PROTOCOL_BASELINE,
     SERVER_INITIATED_METADATA,
     SERVER_INITIATED_ARTWORK,
     SERVER_INITIATED_CONTROLLER,
     SERVER_INITIATED_FLAC,
     SERVER_INITIATED_OPUS,
     SERVER_INITIATED_PCM_24BIT,
     CLIENT_INITIATED_STATE_FORMAT_PCM,
     CLIENT_INITIATED_STATE_FORMAT_FLAC,
     CLIENT_INITIATED_METADATA,
     CLIENT_INITIATED_ARTWORK,
     CLIENT_INITIATED_CONTROLLER,
     SERVER_INITIATED_LEGACY_UNENCRYPTED,
     SERVER_INITIATED_AUDIO_CHUNK_FRAMING]"


section \<open>Lookup and selection\<close>

definition get_scenario :: "string \<Rightarrow> scenario_spec option" where
  "get_scenario scenario_id = map_of (map (\<lambda>s. (ss_id s, s)) (rev SCENARIO_LIST)) scenario_id"

definition require_scenario :: "string \<Rightarrow> scenario_spec py" where
  "require_scenario scenario_id = (case get_scenario scenario_id of
     None \<Rightarrow> Inl (PyExc ''ValueError'' (''Unknown scenario: '' @ scenario_id))
   | Some s \<Rightarrow> Inr s)"

definition get_implementation :: "string \<Rightarrow> implementation_spec option" where
  "get_implementation name = map_of IMPLEMENTATIONS name"

definition implementation_names :: "string list" where
  "implementation_names = sort (map fst IMPLEMENTATIONS)"

definition parse_implementation_filter :: "string option \<Rightarrow> string list py" where
  "parse_implementation_filter raw = (case raw of
     None \<Rightarrow> Inr implementation_names
   | Some given \<Rightarrow>
       if given = [] then Inr implementation_names
       else let selected = filter (\<lambda>p. p \<noteq> []) (map strip (split_on (CHR '','') given));
                unknown = filter (\<lambda>n. n \<notin> set implementation_names) selected
            in if unknown \<noteq> []
               then Inl (PyExc ''ValueError'' (''Unknown implementation filter(s): '' @ join '', '' (sort unknown)))
               else Inr selected)"

text \<open>One half of \<open>selected_build_adapters\<close>: the adapters of one role of the selected names.\<close>

definition role_build_adapters :: "role_name \<Rightarrow> string list \<Rightarrow> string list" where
  "role_build_adapters role names = concat (map (\<lambda>n. case get_implementation n of
       None \<Rightarrow> []
     | Some spec \<Rightarrow>
         (case rs_build_adapter (role_of role spec) of
            Some a \<Rightarrow> if rs_supported (role_of role spec) then [a] else []
          | None \<Rightarrow> [])) names)"

definition selected_build_adapters :: "string option \<Rightarrow> string option \<Rightarrow> string set py" where
  "selected_build_adapters from_filter to_filter =
     py_bind (parse_implementation_filter from_filter) (\<lambda>servers.
     py_bind (parse_implementation_filter to_filter) (\<lambda>clients.
       Inr (set (role_build_adapters Server servers) \<union> set (role_build_adapters Client clients))))"

definition role_supports_scenario :: "string \<Rightarrow> role_name \<Rightarrow> scenario_spec \<Rightarrow> bool" where
  "role_supports_scenario implementation role s = (case get_implementation implementation of
     None \<Rightarrow> False
   | Some spec \<Rightarrow>
       rs_supported (role_of role spec)
       \<and> unsupported_reason (role_of role spec) implementation role s = None)"

definition implements_role :: "role_name \<Rightarrow> string \<Rightarrow> bool" where
  "implements_role role implementation = (case get_implementation implementation of
     None \<Rightarrow> False | Some spec \<Rightarrow> rs_supported (role_of role spec))"

definition implementations_with_role :: "role_name \<Rightarrow> string list option \<Rightarrow> string list" where
  "implementations_with_role role names =
     filter (implements_role role) (case names of None \<Rightarrow> implementation_names | Some ns \<Rightarrow> ns)"

definition implementations_for_scenario ::
  "role_name \<Rightarrow> scenario_spec \<Rightarrow> string list option \<Rightarrow> string list" where
  "implementations_for_scenario role s names =
     filter (\<lambda>n. role_supports_scenario n role s)
       (case names of None \<Rightarrow> implementation_names | Some ns \<Rightarrow> ns)"

end
