(* ===== verification/Declared_Formats.thy ===== *)
theory Declared_Formats
  imports Py_Float Registry
begin

text \<open>
  \<open>declared_formats.py\<close>: the audio formats a client declares in \<open>client/hello\<close>, the formats a
  case negotiated, the three verdicts drawn from them, and the report that joins declarations to
  observations. A normalized format is the record \<open>audio_format\<close>; a negotiated one extends it
  with the summary fields that observed it. Labels print the sample rate through a float, so
  everything that builds one can raise \<open>OverflowError\<close> and returns a \<open>py\<close>.
\<close>

definition SCHEMA_VERSION :: int where
  "SCHEMA_VERSION = 1"

definition PLAYER_SUPPORT_KEY :: string where
  "PLAYER_SUPPORT_KEY = ''player@v1_support''"

definition MANDATORY_CODECS :: "string list" where
  "MANDATORY_CODECS = [''flac'', ''pcm'']"

section \<open>Formats\<close>

record audio_format =
  codec :: string
  sample_rate :: int
  bit_depth :: int
  channels :: int

text \<open>A component of the tuples that identify a format. Tuples of one report compare like with like.\<close>

datatype key_part = KStr string | KInt int

type_synonym format_key = "key_part list"

instantiation key_part :: linorder
begin

fun less_eq_key_part :: "key_part \<Rightarrow> key_part \<Rightarrow> bool" where
  "less_eq_key_part (KStr a) (KStr b) = (a \<le> b)"
| "less_eq_key_part (KInt a) (KInt b) = (a \<le> b)"
| "less_eq_key_part (KStr _) (KInt _) = True"
| "less_eq_key_part (KInt _) (KStr _) = False"

definition less_key_part :: "key_part \<Rightarrow> key_part \<Rightarrow> bool" where
  "less_key_part a b \<longleftrightarrow> a \<le> b \<and> \<not> b \<le> a"

instance
proof
  fix a b c :: key_part
  show "(a < b) = (a \<le> b \<and> \<not> b \<le> a)" by (rule less_key_part_def)
  show "a \<le> a" by (cases a) auto
  show "a \<le> b \<Longrightarrow> b \<le> c \<Longrightarrow> a \<le> c" by (cases a; cases b; cases c) auto
  show "a \<le> b \<Longrightarrow> b \<le> a \<Longrightarrow> a = b" by (cases a; cases b) auto
  show "a \<le> b \<or> b \<le> a" by (cases a; cases b) auto
qed

end

definition normalized_format :: "pyval \<Rightarrow> audio_format option" where
  "normalized_format v = (case v of
     VDict d \<Rightarrow>
       (case dict_get ''codec'' d of
          VStr c \<Rightarrow>
            if c = [] then None
            else Option.bind (as_int (dict_get ''sample_rate'' d)) (\<lambda>rate.
                 Option.bind (as_int (dict_get ''bit_depth'' d)) (\<lambda>depth.
                 Option.bind (as_int (dict_get ''channels'' d)) (\<lambda>chans.
                   Some \<lparr>codec = casefold c, sample_rate = rate, bit_depth = depth,
                         channels = chans\<rparr>)))
        | _ \<Rightarrow> None)
   | _ \<Rightarrow> None)"

definition format_key :: "'a audio_format_scheme \<Rightarrow> format_key" where
  "format_key f = [KStr (codec f), KInt (sample_rate f), KInt (bit_depth f), KInt (channels f)]"

text \<open>The separator is MIDDLE DOT, code point 183.\<close>

definition dot_sep :: string where
  "dot_sep = [CHR 0x20, CHR 0xB7, CHR 0x20]"

definition channel_label :: "int \<Rightarrow> string" where
  "channel_label n = (if n = 1 then ''mono'' else if n = 2 then ''stereo'' else int_str n @ '' ch'')"

definition format_label :: "'a audio_format_scheme \<Rightarrow> string py" where
  "format_label f = py_bind (int_div (sample_rate f) 1000) (\<lambda>khz.
     Inr (upper (codec f) @ dot_sep @ channel_label (channels f) @ dot_sep
          @ general khz @ '' kHz'' @ dot_sep @ int_str (bit_depth f) @ ''-bit''))"

definition format_labels :: "'a audio_format_scheme list \<Rightarrow> string py" where
  "format_labels fs = py_bind (collect (map format_label fs)) (\<lambda>ls. Inr (join '', '' ls))"

definition comparable_key :: "'a audio_format_scheme \<Rightarrow> format_key" where
  "comparable_key f = (if codec f = ''opus''
     then [KStr (codec f), KInt (sample_rate f), KInt (channels f)]
     else format_key f)"

section \<open>Declared and negotiated formats\<close>

record unreadable_entry =
  ur_value :: pyval
  ur_reason :: string

definition NOT_A_FORMAT :: string where
  "NOT_A_FORMAT = ''entry does not carry a codec with integer sample_rate, bit_depth and channels''"

text \<open>The loop over \<open>supported_formats\<close> and the three collections it fills.\<close>

record declared_state =
  ds_declared :: "audio_format list"
  ds_unreadable :: "unreadable_entry list"
  ds_seen :: "format_key list"

fun declare_entries :: "pyval list \<Rightarrow> declared_state \<Rightarrow> declared_state" where
  "declare_entries [] st = st"
| "declare_entries (entry # entries) st = (case normalized_format entry of
     None \<Rightarrow> declare_entries entries
       (st\<lparr>ds_unreadable := ds_unreadable st @ [\<lparr>ur_value = entry, ur_reason = NOT_A_FORMAT\<rparr>]\<rparr>)
   | Some f \<Rightarrow>
       if format_key f \<in> set (ds_seen st) then declare_entries entries st
       else declare_entries entries
              (st\<lparr>ds_seen := format_key f # ds_seen st, ds_declared := ds_declared st @ [f]\<rparr>))"

definition supported_formats :: "pydict \<Rightarrow> pyval" where
  "supported_formats server_summary = (case dict_get ''peer_hello'' server_summary of
     VDict peer_hello \<Rightarrow> (case dict_get ''payload'' peer_hello of
       VDict p \<Rightarrow> (case dict_get PLAYER_SUPPORT_KEY p of
         VDict player_support \<Rightarrow> dict_get ''supported_formats'' player_support
       | _ \<Rightarrow> VNone)
     | _ \<Rightarrow> VNone)
   | _ \<Rightarrow> VNone)"

definition declared_formats :: "pydict \<Rightarrow> audio_format list \<times> unreadable_entry list" where
  "declared_formats server_summary = (case supported_formats server_summary of
     VList entries \<Rightarrow>
       (let st = declare_entries entries \<lparr>ds_declared = [], ds_unreadable = [], ds_seen = []\<rparr>
        in (ds_declared st, ds_unreadable st))
   | VNone \<Rightarrow> ([], [])
   | v \<Rightarrow> ([], [\<lparr>ur_value = v, ur_reason = ''supported_formats is not a list''\<rparr>]))"

record negotiated_format = audio_format +
  sources :: "string list"

definition format_candidates :: "pydict \<Rightarrow> pydict \<Rightarrow> (string \<times> pyval) list" where
  "format_candidates server_summary client_summary =
     [(''server.stream'', dict_get ''stream'' server_summary),
      (''client.stream'', dict_get ''stream'' client_summary)]
     @ (case dict_get ''renegotiation'' client_summary of
          VDict r \<Rightarrow> [(''client.renegotiation.initial_format'', dict_get ''initial_format'' r),
                      (''client.renegotiation.final_format'', dict_get ''final_format'' r)]
        | _ \<Rightarrow> [])"

text \<open>
  Each negotiated format holds the list that \<open>sources\<close> keeps for its key, so sources found later
  reach it: the lists are looked up once the loop is over.
\<close>

fun negotiate :: "(string \<times> pyval) list \<Rightarrow> audio_format list \<Rightarrow> (format_key \<times> string list) list
    \<Rightarrow> audio_format list \<times> (format_key \<times> string list) list" where
  "negotiate [] negotiated srcs = (negotiated, srcs)"
| "negotiate ((source, candidate) # cs) negotiated srcs = (case normalized_format candidate of
     None \<Rightarrow> negotiate cs negotiated srcs
   | Some f \<Rightarrow>
       if format_key f \<in> set (map fst srcs)
       then negotiate cs negotiated (append_under (format_key f) source srcs)
       else negotiate cs (negotiated @ [f]) (srcs @ [(format_key f, [source])]))"

definition negotiated_formats :: "pydict \<Rightarrow> pydict \<Rightarrow> negotiated_format list" where
  "negotiated_formats server_summary client_summary = (
     let (negotiated, srcs) = negotiate (format_candidates server_summary client_summary) [] []
     in map (\<lambda>f. audio_format.extend f \<lparr>sources = group_of (format_key f) srcs\<rparr>) negotiated)"

section \<open>Verdicts\<close>

definition undeclared_formats :: "pydict \<Rightarrow> pydict \<Rightarrow> negotiated_format list" where
  "undeclared_formats server_summary client_summary = (
     let declared_keys = map comparable_key (fst (declared_formats server_summary)) in
     filter (\<lambda>f. comparable_key f \<notin> set declared_keys)
            (negotiated_formats server_summary client_summary))"

definition observed_label :: "negotiated_format \<Rightarrow> string py" where
  "observed_label f = py_bind (format_label f) (\<lambda>l.
     Inr (l @ '' (via '' @ join '', '' (sources f) @ '')''))"

definition undeclared_format_violation :: "pydict \<Rightarrow> pydict \<Rightarrow> string option py" where
  "undeclared_format_violation server_summary client_summary = (
     let (declared, unreadable) = declared_formats server_summary in
     if declared = [] \<or> unreadable \<noteq> [] then Inr None
     else
       let undeclared = undeclared_formats server_summary client_summary in
       if undeclared = [] then Inr None
       else py_bind (collect (map observed_label undeclared)) (\<lambda>observed.
            py_bind (format_labels declared) (\<lambda>offered.
              Inr (Some (''Negotiated format not declared by the client: '' @ join '', '' observed
                    @ ''; declared: '' @ offered)))))"

definition format_priority_violation :: "pydict \<Rightarrow> string \<Rightarrow> string option py" where
  "format_priority_violation server_summary preferred_codec = (
     let (declared, unreadable) = declared_formats server_summary in
     if unreadable \<noteq> []
     then Inr (Some (''Client's supported_formats carries an entry that cannot be read as an audio ''
            @ ''format, so the declared priority cannot be checked''))
     else if declared = []
     then Inr (Some (''The server summary records no supported_formats from client/hello, so the ''
            @ ''declared priority cannot be checked''))
     else py_bind (format_labels declared) (\<lambda>offered.
       let codec_label = upper preferred_codec;
           codecs = map codec declared
       in if hd codecs \<noteq> preferred_codec
          then Inr (Some (''Client did not list '' @ codec_label @ '' first, so the case cannot test its ''
                 @ ''priority; declared: '' @ offered))
          else if \<not> list_ex (\<lambda>c. c \<in> set MANDATORY_CODECS) codecs
          then Inr (Some (''Client listed no flac or pcm entry, which roles/player/v1.md requires of ''
                 @ ''every player; declared: '' @ offered))
          else (case normalized_format (dict_get ''stream'' server_summary) of
            Some stream \<Rightarrow>
              if codec stream \<noteq> preferred_codec \<and> codec stream \<in> set codecs
              then py_bind (format_label stream) (\<lambda>l.
                Inr (Some (''Server selected '' @ l @ '' although the client listed ''
                  @ codec_label @ '' first; a server that can produce '' @ codec_label
                  @ '' is expected to honour supported_formats priority (roles/player/v1.md, SHOULD); ''
                  @ ''declared: '' @ offered)))
              else Inr None
          | None \<Rightarrow> Inr None)))"

definition offered_or_none :: "audio_format list \<Rightarrow> string py" where
  "offered_or_none declared = py_bind (format_labels declared) (\<lambda>l.
     Inr (if l = [] then ''none recorded'' else l))"

definition stream_bit_depth_violation :: "pydict \<Rightarrow> pydict \<Rightarrow> int \<Rightarrow> string option py" where
  "stream_bit_depth_violation server_summary client_summary depth = (
     case normalized_format (dict_get ''stream'' server_summary) of
       None \<Rightarrow> Inr (Some (''Harness gap: the server adapter recorded no stream format, so the case ''
                  @ ''cannot show that it tested '' @ int_str depth @ ''-bit audio''))
     | Some stream \<Rightarrow>
         let (declared, unreadable) = declared_formats server_summary in
         py_bind (offered_or_none declared) (\<lambda>offered.
           if bit_depth stream \<noteq> depth
           then py_bind (format_label stream) (\<lambda>l.
             if declared = [] \<or> unreadable \<noteq> []
             then Inr (Some (''Harness gap: the stream was '' @ l @ '', so the case cannot ''
                    @ ''test '' @ int_str depth @ ''-bit audio, and the server summary records no readable ''
                    @ ''supported_formats from client/hello to show which side chose it; ''
                    @ ''declared: '' @ offered))
             else if list_ex (\<lambda>f. bit_depth f = depth) declared
             then Inr (Some (''Server streamed '' @ l @ '' although the client listed a ''
                    @ int_str depth @ ''-bit format, so the case cannot test '' @ int_str depth
                    @ ''-bit audio; declared: '' @ offered))
             else Inr (Some (''Harness gap: the client adapter advertised no '' @ int_str depth
                    @ ''-bit format and the stream was '' @ l @ '', so the case cannot test ''
                    @ int_str depth @ ''-bit audio; declared: '' @ offered)))
           else (case normalized_format (dict_get ''stream'' client_summary) of
             Some observed \<Rightarrow>
               if bit_depth observed \<noteq> depth
               then py_bind (format_label observed) (\<lambda>lo.
                    py_bind (format_label stream) (\<lambda>ls.
                      Inr (Some (''Client observed a '' @ lo @ '' stream although the server ''
                        @ ''sent '' @ ls @ ''; declared: '' @ offered))))
               else Inr None
           | None \<Rightarrow> Inr None)))"

section \<open>The report\<close>

text \<open>
  What \<open>path.exists\<close> and \<open>read_json\<close> find at a path of the results directory. A file that cannot
  be read or parsed carries the \<open>OSError\<close> or \<open>ValueError\<close> that says so.
\<close>

datatype json_file = Absent | Unreadable py_exc | Json pyval

fun read_summary :: "json_file \<Rightarrow> pydict" where
  "read_summary (Json (VDict d)) = d"
| "read_summary _ = []"

record case_declaration =
  cd_case_name :: string
  cd_scenario_id :: string
  cd_server_impl :: string
  cd_client_impl :: string
  cd_status :: string
  cd_declared :: "audio_format list"
  cd_negotiated :: "negotiated_format list"
  cd_unreadable :: "unreadable_entry list"

record case_ref =
  cr_case_name :: string
  cr_scenario_id :: string
  cr_server_impl :: string
  cr_status :: string
  cr_sources :: "string list option"

definition case_reference :: "case_declaration \<Rightarrow> string list option \<Rightarrow> case_ref" where
  "case_reference c srcs = \<lparr>cr_case_name = cd_case_name c, cr_scenario_id = cd_scenario_id c,
     cr_server_impl = cd_server_impl c, cr_status = cd_status c, cr_sources = srcs\<rparr>"

text \<open>\<open>files case_name filename\<close> is the file of that name in the directory of that case.\<close>

definition case_declaration_of ::
  "(string \<Rightarrow> string \<Rightarrow> json_file) \<Rightarrow> pydict \<Rightarrow> case_declaration option" where
  "case_declaration_of files result = (
     let case_name = path_name (str_or [] (dict_get ''case_dir'' result)) in
     if case_name = [] then None
     else
       let server_summary = read_summary (files case_name ''server-summary.json'');
           client_summary = read_summary (files case_name ''client-summary.json'');
           (declared, unreadable) = declared_formats server_summary;
           negotiated = negotiated_formats server_summary client_summary
       in if declared = [] \<and> negotiated = [] \<and> unreadable = [] then None
          else Some \<lparr>cd_case_name = case_name,
                 cd_scenario_id = str_or [] (dict_get ''scenario_id'' result),
                 cd_server_impl = str_or [] (dict_get ''server_impl'' result),
                 cd_client_impl = str_or [] (dict_get ''client_impl'' result),
                 cd_status = str_or [] (dict_get ''status'' result),
                 cd_declared = declared, cd_negotiated = negotiated, cd_unreadable = unreadable\<rparr>)"

definition case_declarations ::
  "(string \<Rightarrow> string \<Rightarrow> json_file) \<Rightarrow> pydict list \<Rightarrow> case_declaration list" where
  "case_declarations files results =
     sort_key (\<lambda>c. (cd_client_impl c, cd_scenario_id c, cd_case_name c))
       (List.map_filter (case_declaration_of files) results)"

record format_entry = audio_format +
  fe_label :: string
  fe_exercised :: bool
  fe_declared_by :: "case_ref list"
  fe_exercised_by :: "case_ref list"

record rolled_up =
  ru_value :: pyval
  ru_reason :: string
  ru_declared_by :: "case_ref list"

record implementation_entry =
  ie_implementation :: string
  ie_declared_count :: nat
  ie_exercised_count :: nat
  ie_formats :: "format_entry list"
  ie_unreadable :: "rolled_up list"

text \<open>\<open>d.setdefault(k, v)\<close> without reading it back.\<close>

definition set_default :: "'k \<Rightarrow> 'v \<Rightarrow> ('k \<times> 'v) list \<Rightarrow> ('k \<times> 'v) list" where
  "set_default k v d = (if k \<in> set (map fst d) then d else d @ [(k, v)])"

text \<open>\<open>json.dumps(..., sort_keys=True)\<close> prints a value whose dictionaries are sorted.\<close>

fun sort_keys :: "pyval \<Rightarrow> pyval"
  and sort_keys_items :: "pyval list \<Rightarrow> pyval list"
  and sort_keys_pairs :: "pydict \<Rightarrow> pydict" where
  "sort_keys (VList xs) = VList (sort_keys_items xs)"
| "sort_keys (VDict d) = VDict (sort_key fst (sort_keys_pairs d))"
| "sort_keys v = v"
| "sort_keys_items [] = []"
| "sort_keys_items (x # xs) = sort_keys x # sort_keys_items xs"
| "sort_keys_pairs [] = []"
| "sort_keys_pairs ((k, v) # d) = (k, sort_keys v) # sort_keys_pairs d"

definition unreadable_identity :: "unreadable_entry \<Rightarrow> string" where
  "unreadable_identity e = json_dumps (VList [sort_keys (ur_value e), VStr (ur_reason e)])"

text \<open>Every unreadable entry of every case, with its case, in the order of the two loops.\<close>

definition unreadable_claims :: "case_declaration list \<Rightarrow> (case_declaration \<times> unreadable_entry) list" where
  "unreadable_claims cases = concat (map (\<lambda>c. map (Pair c) (cd_unreadable c)) cases)"

definition rolled_up_unreadable :: "case_declaration list \<Rightarrow> rolled_up list" where
  "rolled_up_unreadable cases = (
     let claims = unreadable_claims cases;
         grouped = group_by (\<lambda>(c, e). unreadable_identity e) (\<lambda>(c, e). (e, case_reference c None)) claims
     in map (\<lambda>identity. (let group = group_of identity grouped; e = fst (hd group) in
               \<lparr>ru_value = ur_value e, ru_reason = ur_reason e, ru_declared_by = map snd group\<rparr>))
            (sort (map fst grouped)))"

definition declared_claims :: "case_declaration list \<Rightarrow> (case_declaration \<times> audio_format) list" where
  "declared_claims cases = concat (map (\<lambda>c. map (Pair c) (cd_declared c)) cases)"

definition negotiated_claims :: "case_declaration list \<Rightarrow> (case_declaration \<times> negotiated_format) list" where
  "negotiated_claims cases = concat (map (\<lambda>c. map (Pair c) (cd_negotiated c)) cases)"

definition implementation_report :: "string \<Rightarrow> case_declaration list \<Rightarrow> implementation_entry py" where
  "implementation_report client_impl cases = (
     let formats = foldl (\<lambda>d (c, f). set_default (format_key f) f d) [] (declared_claims cases);
         declared_by = group_by (\<lambda>(c, f). format_key f) (\<lambda>(c, f). case_reference c None)
                         (declared_claims cases);
         exercised_by = group_by (\<lambda>(c, f). format_key f)
                          (\<lambda>(c, f). case_reference c (Some (sources f))) (negotiated_claims cases);
         ordered = sort_key fst formats
     in py_bind (collect (map (\<lambda>(key, f). py_bind (format_label f) (\<lambda>l.
          Inr (audio_format.extend f
            \<lparr>fe_label = l, fe_exercised = group_of key exercised_by \<noteq> [],
             fe_declared_by = group_of key declared_by,
             fe_exercised_by = group_of key exercised_by\<rparr>))) ordered)) (\<lambda>entries.
          Inr \<lparr>ie_implementation = client_impl, ie_declared_count = length entries,
               ie_exercised_count = length (filter fe_exercised entries),
               ie_formats = entries, ie_unreadable = rolled_up_unreadable cases\<rparr>))"

record declared_payload =
  dp_schema_version :: int
  dp_implementations :: "implementation_entry list"
  dp_cases :: "case_declaration list"

definition ordered_clients :: "string list \<Rightarrow> string list \<Rightarrow> string list" where
  "ordered_clients known present = filter (\<lambda>n. n \<in> set present) known
     @ sort (filter (\<lambda>n. n \<notin> set known) present)"

definition collect_declared_formats ::
  "(string \<Rightarrow> string \<Rightarrow> json_file) \<Rightarrow> pydict list \<Rightarrow> declared_payload py" where
  "collect_declared_formats files results = (
     let cases = case_declarations files results;
         cases_by_client = group_by cd_client_impl (\<lambda>c. c) cases;
         clients = ordered_clients implementation_names (map fst cases_by_client)
     in py_bind (collect (map (\<lambda>n. implementation_report n (group_of n cases_by_client)) clients))
          (\<lambda>implementations.
            Inr \<lparr>dp_schema_version = SCHEMA_VERSION,
                 dp_implementations = filter (\<lambda>e. ie_formats e \<noteq> [] \<or> ie_unreadable e \<noteq> []) implementations,
                 dp_cases = cases\<rparr>))"

text \<open>The reader of the published report, on its JSON.\<close>

definition declared_formats_for_implementation :: "pydict \<Rightarrow> string \<Rightarrow> pydict option" where
  "declared_formats_for_implementation report implementation = (
     case dict_get ''implementations'' report of
       VList entries \<Rightarrow>
         List.find (\<lambda>d. dict_get ''implementation'' d = VStr implementation)
                   (List.map_filter dict_of entries)
     | _ \<Rightarrow> None)"

end
