(* ===== verification/Chunk_Framing.thy ===== *)
theory Chunk_Framing
  imports Declared_Formats "HOL-Library.Word"
begin

text \<open>
  \<open>chunk_framing.py\<close>: the audio chunk header and the chunk durations, judged from the frames both
  adapters recorded. A byte is an \<open>8 word\<close>, a \<open>Frame\<close> the record \<open>chunk_frame\<close>. Durations are
  binary64 quotients, as Python computes them; a quotient no float can hold raises
  \<open>OverflowError\<close>, so the verdict is a \<open>py\<close>.
\<close>

definition HEADER_BYTES :: int where
  "HEADER_BYTES = 13"

definition AUDIO_CHUNK_TYPE :: int where
  "AUDIO_CHUNK_TYPE = 4"

definition MAX_CHUNK_US :: int where
  "MAX_CHUNK_US = 150000"

definition MIN_CHUNK_US :: int where
  "MIN_CHUNK_US = 15000"

section \<open>Frames\<close>

record chunk_frame =
  cf_byte_count :: int
  cf_leading :: "8 word list"
  cf_payload_byte_count :: "int option"

definition header_bytes :: "chunk_frame \<Rightarrow> int option" where
  "header_bytes f = map_option (\<lambda>n. cf_byte_count f - n) (cf_payload_byte_count f)"

text \<open>\<open>bytes.fromhex\<close>: pairs of hexadecimal digits, with ASCII white space between pairs.\<close>

definition hex_value :: "char \<Rightarrow> nat option" where
  "hex_value c = (let n = code_of c in
     if 48 \<le> n \<and> n \<le> 57 then Some (n - 48)
     else if 97 \<le> n \<and> n \<le> 102 then Some (n - 87)
     else if 65 \<le> n \<and> n \<le> 70 then Some (n - 55)
     else None)"

definition is_ascii_space :: "char \<Rightarrow> bool" where
  "is_ascii_space c \<longleftrightarrow> (let n = code_of c in (9 \<le> n \<and> n \<le> 13) \<or> n = 32)"

fun fromhex :: "string \<Rightarrow> 8 word list option" where
  "fromhex [] = Some []"
| "fromhex (c # cs) = (
     if is_ascii_space c then fromhex cs
     else (case cs of
       [] \<Rightarrow> None
     | d # ds \<Rightarrow> Option.bind (hex_value c) (\<lambda>h. Option.bind (hex_value d) (\<lambda>l.
         map_option (Cons (word_of_nat (16 * h + l))) (fromhex ds)))))"

text \<open>\<open>_count\<close>.\<close>

definition count_of :: "pyval \<Rightarrow> int option" where
  "count_of v = (case v of VInt n \<Rightarrow> if n < 0 then None else Some n | _ \<Rightarrow> None)"

definition frame_of_record :: "pyval \<Rightarrow> chunk_frame option" where
  "frame_of_record v = (case v of
     VDict r \<Rightarrow>
       Option.bind (count_of (dict_get ''byte_count'' r)) (\<lambda>byte_count.
       Option.bind (str_of (dict_get ''leading_hex'' r)) (\<lambda>leading_hex.
       Option.bind (fromhex leading_hex) (\<lambda>leading.
         if leading = [] \<or> int (length leading) \<noteq> min byte_count HEADER_BYTES then None
         else (case count_of (dict_get ''payload_byte_count'' r) of
           Some n \<Rightarrow> if n > byte_count then None else Some \<lparr>cf_byte_count = byte_count, cf_leading = leading, cf_payload_byte_count = Some n\<rparr>
         | None \<Rightarrow> Some \<lparr>cf_byte_count = byte_count, cf_leading = leading, cf_payload_byte_count = None\<rparr>))))
   | _ \<Rightarrow> None)"

fun frames_of_records :: "pyval list \<Rightarrow> chunk_frame list option" where
  "frames_of_records [] = Some []"
| "frames_of_records (v # vs) = Option.bind (frame_of_record v) (\<lambda>f.
     map_option (Cons f) (frames_of_records vs))"

definition transported_frames :: "pyval \<Rightarrow> chunk_frame list option" where
  "transported_frames v = (case v of VList records \<Rightarrow> frames_of_records records | _ \<Rightarrow> None)"

section \<open>Headers\<close>

definition header_violation :: "string \<Rightarrow> chunk_frame list \<Rightarrow> string option" where
  "header_violation role frames = (
     let unpaired = length (filter (\<lambda>f. header_bytes f = None) frames) in
     if unpaired \<noteq> 0
     then Some (HARNESS_GAP @ ''the '' @ role @ '' adapter could not tell which audio ''
            @ nat_str unpaired @ '' of its '' @ nat_str (length frames)
            @ '' frames carried, so their headers cannot be measured'')
     else
       let wrong = filter (\<lambda>n. n \<noteq> HEADER_BYTES) (List.map_filter header_bytes frames) in
       if wrong = [] then None
       else Some (capitalize role @ '' '' @ (if role = ''server'' then ''sent'' else ''read'')
              @ '' a header of '' @ join '', '' (map int_str (sort (remdups wrong))) @ '' bytes on ''
              @ nat_str (length wrong) @ '' of '' @ nat_str (length frames)
              @ '' audio chunks; roles/player/v1.md requires '' @ int_str HEADER_BYTES
              @ '' bytes (type, int64 timestamp, uint32 send_ahead)''))"

definition payload_of :: "chunk_frame \<Rightarrow> int" where
  "payload_of f = (case cf_payload_byte_count f of None \<Rightarrow> 0 | Some n \<Rightarrow> n)"

definition unobserved_client_verdict :: "pydict \<Rightarrow> chunk_frame list \<Rightarrow> string" where
  "unobserved_client_verdict client_audio sent = (
     let sent_audio = sum_list (map payload_of sent);
         gap = HARNESS_GAP @ ''the client adapter does not observe raw audio chunk frames, so ''
                 @ ''the header the client read off each one cannot be judged; the server sent ''
                 @ int_str HEADER_BYTES @ '' bytes on every chunk''
     in case count_of (dict_get ''received_encoded_byte_count'' client_audio) of
          None \<Rightarrow> gap
        | Some delivered \<Rightarrow>
            if delivered \<noteq> sent_audio
            then ''Client delivered '' @ int_str delivered @ '' bytes of audio from ''
                 @ nat_str (length sent) @ '' chunks that carried '' @ int_str sent_audio
                 @ '' behind a '' @ int_str HEADER_BYTES @ ''-byte header each, so it did not read ''
                 @ int_str HEADER_BYTES @ '' bytes off every one''
            else gap)"

section \<open>Durations\<close>

definition bytes_per_second :: "audio_format option \<Rightarrow> int" where
  "bytes_per_second stream = (case stream of
     None \<Rightarrow> 0
   | Some f \<Rightarrow> if bit_depth f > 0 \<and> bit_depth f mod 8 = 0
               then sample_rate f * channels f * (bit_depth f div 8) else 0)"

definition milliseconds :: "rat \<Rightarrow> string" where
  "milliseconds us = fixed_1 (float_div us 1000)"

definition duration_violation :: "nat \<Rightarrow> nat \<Rightarrow> rat \<Rightarrow> string option" where
  "duration_violation number index us = (
     let chunk = ''Server sent audio chunk '' @ nat_str index @ '' of '' @ nat_str number @ '' lasting ''
                   @ milliseconds us @ '' ms; roles/player/v1.md says a server ''
     in if us > of_int MAX_CHUNK_US
        then Some (chunk @ ''MUST NOT send a chunk longer than 150 ms'')
        else if us < of_int MIN_CHUNK_US \<and> index \<noteq> number
        then Some (chunk @ ''SHOULD NOT send a chunk shorter than 15 ms unless it ends the stream'')
        else None)"

definition list_min :: "rat list \<Rightarrow> rat" where
  "list_min xs = fold min (tl xs) (hd xs)"

definition list_max :: "rat list \<Rightarrow> rat" where
  "list_max xs = fold max (tl xs) (hd xs)"

definition chunk_durations :: "int \<Rightarrow> chunk_frame list \<Rightarrow> rat list py" where
  "chunk_durations bps sent = collect (map (\<lambda>f. int_div (payload_of f * 1000000) bps) sent)"

definition durations_verdict :: "rat list \<Rightarrow> bool \<times> string" where
  "durations_verdict us = (
     case first_reason (\<lambda>(index, d). duration_violation (length us) index d) (enumerate 1 us) of
       Some r \<Rightarrow> (False, r)
     | None \<Rightarrow> (True, ''each lasted '' @ milliseconds (list_min us) @ ''-'' @ milliseconds (list_max us) @ '' ms''))"

definition chunk_durations_verdict :: "pydict \<Rightarrow> pydict \<Rightarrow> chunk_frame list \<Rightarrow> (bool \<times> string) py" where
  "chunk_durations_verdict server_summary server_audio sent = (
     let chunked_by = dict_get ''chunked_by'' server_audio;
         stream = normalized_format (dict_get ''stream'' server_summary);
         bps = bytes_per_second stream
     in if chunked_by = VStr ''adapter''
        then Inr (True, ''chunk durations not judged, the server adapter having cut the chunks itself'')
        else if chunked_by \<noteq> VStr ''implementation''
        then Inr (False, HARNESS_GAP @ ''the server adapter does not say whether it or the ''
               @ ''implementation cut the audio into chunks, so their durations cannot be attributed'')
        else (case stream of
          Some f \<Rightarrow>
            if 0 < bps
            then if codec f \<noteq> ''pcm''
                 then Inr (False, ''Server negotiated '' @ codec f @ '' where the client listed only PCM, so ''
                        @ ''chunk durations cannot be read from the audio each frame carried'')
                 else py_bind (chunk_durations bps sent) (\<lambda>us. Inr (durations_verdict us))
            else Inr (False, HARNESS_GAP @ ''the server adapter reported no usable stream format, so chunk ''
                   @ ''durations cannot be read from the audio each frame carried (stream=''
                   @ py_repr (dict_get ''stream'' server_summary) @ '')'')
        | None \<Rightarrow> Inr (False, HARNESS_GAP @ ''the server adapter reported no usable stream format, so chunk ''
                   @ ''durations cannot be read from the audio each frame carried (stream=''
                   @ py_repr (dict_get ''stream'' server_summary) @ '')'')))"

section \<open>The verdict\<close>

text \<open>The two status guards every comparison of summaries opens with.\<close>

definition status_failure :: "pydict \<Rightarrow> pydict \<Rightarrow> string option" where
  "status_failure server_summary client_summary = (
     if dict_get ''status'' server_summary \<noteq> VStr ''ok''
     then Some (''Server summary status is '' @ py_repr (dict_get ''status'' server_summary))
     else if dict_get ''status'' client_summary \<noteq> VStr ''ok''
     then Some (''Client summary status is '' @ py_repr (dict_get ''status'' client_summary))
     else None)"

definition leading_type :: "chunk_frame \<Rightarrow> int" where
  "leading_type f = uint (hd (cf_leading f))"

definition frame_type_violation :: "nat \<Rightarrow> nat \<times> chunk_frame \<Rightarrow> string option" where
  "frame_type_violation number entry = (
     let (index, f) = entry in
     if leading_type f \<noteq> AUDIO_CHUNK_TYPE
     then Some (''Server sent binary message type '' @ int_str (leading_type f) @ '' as frame ''
            @ nat_str index @ '' of '' @ nat_str number
            @ '' in a player-only stream; roles/player/v1.md fixes an audio chunk at type ''
            @ int_str AUDIO_CHUNK_TYPE)
     else None)"

text \<open>\<open>int.from_bytes(data, "big")\<close>.\<close>

definition from_bytes_big :: "8 word list \<Rightarrow> int" where
  "from_bytes_big bs = foldl (\<lambda>n b. 256 * n + uint b) 0 bs"

definition send_ahead :: "chunk_frame \<Rightarrow> int" where
  "send_ahead f = from_bytes_big (take 4 (drop 9 (cf_leading f)))"

definition disagreement :: "nat \<Rightarrow> nat \<times> chunk_frame \<times> chunk_frame \<Rightarrow> string option" where
  "disagreement number entry = (
     let (index, ours, theirs) = entry in
     if cf_byte_count ours \<noteq> cf_byte_count theirs \<or> cf_leading ours \<noteq> cf_leading theirs
     then Some (HARNESS_GAP @ ''the adapters disagree about audio chunk frame '' @ nat_str index
            @ '' of '' @ nat_str number @ '', which the transport delivers unchanged'')
     else None)"

definition stated_violation :: "pydict \<Rightarrow> string \<Rightarrow> string" where
  "stated_violation server_audio violation = violation @ (
     case dict_get ''legacy_header_reason'' server_audio of
       VStr stated \<Rightarrow> if stated \<noteq> [] \<and> \<not> starts_with violation HARNESS_GAP
                     then ''; server adapter reported: '' @ stated else []
     | _ \<Rightarrow> [])"

definition client_framing_verdict :: "pydict \<Rightarrow> chunk_frame list \<Rightarrow> string \<Rightarrow> bool \<times> string" where
  "client_framing_verdict client_summary sent durations = (
     case dict_get ''audio'' client_summary of
       VDict client_audio \<Rightarrow>
         (case transported_frames (dict_get ''received_chunk_frames'' client_audio) of
            None \<Rightarrow> (False, unobserved_client_verdict client_audio sent)
          | Some received \<Rightarrow>
              if length received \<noteq> length sent
              then (False, ''Client received '' @ nat_str (length received) @ '' of the ''
                      @ nat_str (length sent) @ '' audio chunk frames the server sent'')
              else (case first_reason (disagreement (length sent)) (enumerate 1 (zip sent received)) of
                Some r \<Rightarrow> (False, r)
              | None \<Rightarrow>
                  (case header_violation ''client'' received of
                     Some r \<Rightarrow> (False, r)
                   | None \<Rightarrow> (True, ''All '' @ nat_str (length sent) @ '' audio chunks carried the ''
                       @ int_str HEADER_BYTES @ ''-byte header; '' @ durations @ ''; send_ahead read ''
                       @ int_str (Min (set (map send_ahead sent))) @ ''-''
                       @ int_str (Max (set (map send_ahead sent)))
                       @ '' us, its saturation not judged''))))
     | _ \<Rightarrow> (False, ''Client summary is missing an 'audio' section''))"

definition chunk_framing_verdict :: "pydict \<Rightarrow> pydict \<Rightarrow> (bool \<times> string) py" where
  "chunk_framing_verdict server_summary client_summary = (
     case status_failure server_summary client_summary of
       Some r \<Rightarrow> Inr (False, r)
     | None \<Rightarrow>
         (case dict_get ''audio'' server_summary of
            VDict server_audio \<Rightarrow>
              (case transported_frames (dict_get ''sent_chunk_frames'' server_audio) of
                 None \<Rightarrow> Inr (False, HARNESS_GAP @ ''the server adapter did not observe the audio chunk frames it ''
                           @ ''sent, so the header on the wire cannot be judged'')
               | Some sent \<Rightarrow>
                   if sent = [] then Inr (False, ''Server sent no audio chunks'')
                   else (case first_reason (frame_type_violation (length sent)) (enumerate 1 sent) of
                     Some r \<Rightarrow> Inr (False, r)
                   | None \<Rightarrow>
                       (case header_violation ''server'' sent of
                          Some violation \<Rightarrow> Inr (False, stated_violation server_audio violation)
                        | None \<Rightarrow>
                            py_bind (chunk_durations_verdict server_summary server_audio sent)
                              (\<lambda>(passed, durations).
                                Inr (if \<not> passed then (False, durations)
                                     else client_framing_verdict client_summary sent durations)))))
          | _ \<Rightarrow> Inr (False, ''Server summary is missing an 'audio' section'')))"

end
