(* ===== verification/Py_Objects.thy ===== *)
theory Py_Objects
  imports Py_Library
begin

text \<open>
  Operations on JSON values whose type the code takes for granted, with the exceptions they raise on
  another type: attribute access, subscripts, \<open>==\<close>, \<open>int\<close>, \<open>set\<close> and \<open>sorted\<close>.
\<close>

section \<open>Access\<close>

text \<open>\<open>value.get(key)\<close>: only a dict has the method.\<close>

definition no_attribute :: "string \<Rightarrow> pyval \<Rightarrow> py_exc" where
  "no_attribute attr v = PyExc ''AttributeError''
     (sq @ type_name v @ sq @ '' object has no attribute '' @ sq @ attr @ sq)"

definition attr_get :: "string \<Rightarrow> pyval \<Rightarrow> pyval py" where
  "attr_get k v = (case v of VDict d \<Rightarrow> Inr (dict_get k d) | _ \<Rightarrow> Inl (no_attribute ''get'' v))"

text \<open>\<open>d.get(key, {})\<close> and \<open>d[key]\<close>.\<close>

definition get_or_empty :: "string \<Rightarrow> pydict \<Rightarrow> pyval" where
  "get_or_empty k d = (if has_key k d then dict_get k d else VDict [])"

definition subscript :: "string \<Rightarrow> pydict \<Rightarrow> pyval py" where
  "subscript k d = (if has_key k d then Inr (dict_get k d) else Inl (PyExc ''KeyError'' (repr_str k)))"

text \<open>\<open>value or {}\<close>.\<close>

definition or_empty :: "pyval \<Rightarrow> pyval" where
  "or_empty v = (if truthy v then v else VDict [])"

section \<open>Equality\<close>

text \<open>
  \<open>py_same\<close> compares the elements of a container: identical or equal. The reader of JSON makes one
  NaN object, which is identical to itself although it does not equal itself.
\<close>

fun num_val :: "pyval \<Rightarrow> rat option" where
  "num_val (VBool b) = Some (if b then 1 else 0)"
| "num_val (VInt n) = Some (of_int n)"
| "num_val (VFloat (Finite q t)) = Some q"
| "num_val _ = None"

fun py_same :: "pyval \<Rightarrow> pyval \<Rightarrow> bool"
  and same_items :: "pyval list \<Rightarrow> pyval list \<Rightarrow> bool"
  and same_pairs :: "pydict \<Rightarrow> pydict \<Rightarrow> bool" where
  "py_same VNone w = (w = VNone)"
| "py_same (VStr s) w = (w = VStr s)"
| "py_same (VBool b) w = (num_val w = Some (if b then 1 else 0))"
| "py_same (VInt n) w = (num_val w = Some (of_int n))"
| "py_same (VFloat f) w = (case f of Finite q t \<Rightarrow> num_val w = Some q | _ \<Rightarrow> w = VFloat f)"
| "py_same (VList xs) w = (case w of VList ys \<Rightarrow> same_items xs ys | _ \<Rightarrow> False)"
| "py_same (VDict d) w = (case w of VDict e \<Rightarrow> length d = length e \<and> same_pairs d e | _ \<Rightarrow> False)"
| "same_items [] ys = (ys = [])"
| "same_items (x # xs) ys = (case ys of [] \<Rightarrow> False | y # ys' \<Rightarrow> py_same x y \<and> same_items xs ys')"
| "same_pairs [] e = True"
| "same_pairs ((k, v) # d) e = (case map_of e k of None \<Rightarrow> False
     | Some w \<Rightarrow> py_same v w \<and> same_pairs d e)"

definition py_eq :: "pyval \<Rightarrow> pyval \<Rightarrow> bool" where
  "py_eq v w \<longleftrightarrow> v \<noteq> VFloat NaN \<and> py_same v w"

text \<open>\<open>value in list\<close>.\<close>

definition in_list :: "pyval \<Rightarrow> pyval list \<Rightarrow> bool" where
  "in_list v xs \<longleftrightarrow> list_ex (py_same v) xs"

section \<open>int\<close>

definition parse_digits :: "string \<Rightarrow> nat option" where
  "parse_digits s = (let parts = split_on (CHR ''_'') s in
     if list_all (\<lambda>p. p \<noteq> [] \<and> list_all is_digit p) parts then Some (parse_nat (concat parts)) else None)"

definition parse_int :: "string \<Rightarrow> int option" where
  "parse_int s = (case strip s of
     [] \<Rightarrow> None
   | c # cs \<Rightarrow> if c = CHR ''-'' then map_option (\<lambda>n. - int n) (parse_digits cs)
               else if c = CHR ''+'' then map_option int (parse_digits cs)
               else map_option int (parse_digits (c # cs)))"

text \<open>\<open>int(value)\<close> truncates a float towards zero.\<close>

definition py_int :: "pyval \<Rightarrow> int py" where
  "py_int v = (case v of
     VInt n \<Rightarrow> Inr n
   | VBool b \<Rightarrow> Inr (if b then 1 else 0)
   | VFloat (Finite q t) \<Rightarrow> Inr (if q < 0 then - \<lfloor>- q\<rfloor> else \<lfloor>q\<rfloor>)
   | VFloat NaN \<Rightarrow> Inl (PyExc ''ValueError'' ''cannot convert float NaN to integer'')
   | VFloat _ \<Rightarrow> Inl (PyExc ''OverflowError'' ''cannot convert float infinity to integer'')
   | VStr s \<Rightarrow> (case parse_int s of Some n \<Rightarrow> Inr n
       | None \<Rightarrow> Inl (PyExc ''ValueError'' (''invalid literal for int() with base 10: '' @ repr_str s)))
   | _ \<Rightarrow> Inl (PyExc ''TypeError''
       (''int() argument must be a string, a bytes-like object or a real number, not ''
        @ sq @ type_name v @ sq)))"

text \<open>\<open>int(value or 0)\<close>.\<close>

definition int_or_zero :: "pyval \<Rightarrow> int py" where
  "int_or_zero v = (if truthy v then py_int v else Inr 0)"

section \<open>Sets\<close>

text \<open>\<open>set(xs)\<close>, as the list of its members in the order they were added.\<close>

fun add_members :: "pyval list \<Rightarrow> pyval list \<Rightarrow> pyval list py" where
  "add_members members [] = Inr members"
| "add_members members (x # xs) = (case unhashable x of
     Some t \<Rightarrow> Inl (unhashable_error t)
   | None \<Rightarrow> add_members (if in_list x members then members else members @ [x]) xs)"

definition py_set :: "pyval list \<Rightarrow> pyval list py" where
  "py_set xs = add_members [] xs"

definition set_minus :: "pyval list \<Rightarrow> pyval list \<Rightarrow> pyval list" where
  "set_minus xs ys = filter (\<lambda>x. \<not> in_list x ys) xs"

text \<open>
  \<open>sorted\<close> of a set. The strings sort by code point. What CPython does with several members that
  are not all strings depends on the iteration order of the set (which two it compares first, and
  so the text of the \<open>TypeError\<close>): it is the argument \<open>other\<close>.
\<close>

definition sorted_members :: "(pyval list \<Rightarrow> pyval list py) \<Rightarrow> pyval list \<Rightarrow> pyval list py" where
  "sorted_members other xs = (
     if list_all is_str xs then Inr (map VStr (sort (List.map_filter str_of xs)))
     else if length xs = 1 then Inr xs
     else other xs)"

section \<open>Facts\<close>

lemma attr_get_dict [simp]: "attr_get k (VDict d) = Inr (dict_get k d)"
  by (simp add: attr_get_def)

lemma or_empty_dict [simp]: "or_empty (VDict d) = VDict d"
  by (simp add: or_empty_def)

lemma py_same_str [simp]: "py_same v (VStr s) \<longleftrightarrow> v = VStr s"
  by (cases v) (auto split: pyfloat.splits)

lemma py_eq_str [simp]: "py_eq (VStr s) w \<longleftrightarrow> w = VStr s"
  by (simp add: py_eq_def)

lemma py_eq_str_right [simp]: "py_eq v (VStr s) \<longleftrightarrow> v = VStr s"
  by (auto simp: py_eq_def)

lemma in_list_strs: "in_list (VStr s) (map VStr ss) \<longleftrightarrow> s \<in> set ss"
  by (auto simp: in_list_def list_ex_iff)

lemma add_members_strs:
  "add_members (map VStr ms) (map VStr ss) = Inr (map VStr (ms @ filter (\<lambda>s. s \<notin> set ms) (first_occurrences ss)))"
proof (induction ss arbitrary: ms)
  case (Cons s ss)
  have "filter (\<lambda>x. x \<notin> set ms) (filter (\<lambda>x. x \<noteq> s) ys) = filter (\<lambda>x. x \<notin> set (ms @ [s])) ys" for ys
    by (auto intro: filter_cong)
  moreover have "s \<in> set ms \<Longrightarrow> filter (\<lambda>x. x \<notin> set (ms @ [s])) ys = filter (\<lambda>x. x \<notin> set ms) ys" for ys
    by (auto intro: filter_cong)
  ultimately show ?case
    using Cons [of ms] Cons [of "ms @ [s]"] by (cases "s \<in> set ms") (simp_all add: in_list_strs)
qed simp

lemma py_set_strs: "py_set (map VStr ss) = Inr (map VStr (first_occurrences ss))"
  using add_members_strs [of "[]" ss] by (simp add: py_set_def)

lemma set_minus_strs: "set_minus (map VStr xs) (map VStr ys) = map VStr (filter (\<lambda>x. x \<notin> set ys) xs)"
  by (induction xs) (simp_all add: set_minus_def in_list_strs)

lemma map_filter_str_of [simp]: "List.map_filter str_of (map VStr xs) = xs"
  by (induction xs) (simp_all add: map_filter_simps)

lemma sorted_members_strs: "sorted_members other (map VStr xs) = Inr (map VStr (sort xs))"
  by (simp add: sorted_members_def list_all_iff)

lemma int_or_zero_nat [simp]: "int_or_zero (VInt n) = Inr n"
  by (simp add: int_or_zero_def py_int_def)

text \<open>\<open>int(str(n))\<close> gives \<open>n\<close> back.\<close>

lemma split_on_none: "c \<notin> set s \<Longrightarrow> split_on c s = [s]"
  by (induction s) auto

lemma parse_digits_nat_str: "parse_digits (nat_str n) = Some n"
proof -
  have d: "list_all is_digit (nat_str n)" by (rule nat_str_digits)
  moreover have "\<not> is_digit (CHR ''_'')" by code_simp
  ultimately have "CHR ''_'' \<notin> set (nat_str n)" by (auto simp: list_all_iff)
  then show ?thesis
    using d by (simp add: parse_digits_def split_on_none nat_str_nonempty parse_nat_str)
qed

end
