(* ===== verification/Py_Bytes.thy ===== *)
theory Py_Bytes
  imports Py_Library "HOL-Library.Word"
begin

text \<open>
  Byte strings: a byte is an \<open>8 word\<close>. \<open>hashlib.sha256\<close> is written out (FIPS 180-4) and so is
  the lenient decoding of \<open>base64.b64decode\<close>, so that a digest the code compares is a function of
  the bytes it hashes and not a parameter.
\<close>

type_synonym byte_string = "8 word list"

section \<open>SHA-256\<close>

definition sha_primes :: "int list" where
  "sha_primes = [
     2, 3, 5, 7, 11, 13, 17, 19, 23, 29, 31, 37, 41, 43, 47, 53, 59, 61, 67, 71, 73, 79,
     83, 89, 97, 101, 103, 107, 109, 113, 127, 131, 137, 139, 149, 151, 157, 163, 167,
     173, 179, 181, 191, 193, 197, 199, 211, 223, 227, 229, 233, 239, 241, 251, 257, 263,
     269, 271, 277, 281, 283, 293, 307, 311]"

text \<open>The integer part of the root of that degree, bit by bit from the highest.\<close>

definition integer_root :: "nat \<Rightarrow> int \<Rightarrow> int" where
  "integer_root k n = foldl (\<lambda>r b. if (r + 2 ^ b) ^ k \<le> n then r + 2 ^ b else r) 0 (rev [0..<40])"

text \<open>
  The round constants are the first 32 bits of the fractional parts of the cube roots of the first 64
  primes, the initial state those of the square roots of the first eight.
\<close>

definition sha_k :: "32 word list" where
  "sha_k = map (\<lambda>p. word_of_int (integer_root 3 (p * 2 ^ 96))) sha_primes"

definition sha_h0 :: "32 word list" where
  "sha_h0 = map (\<lambda>p. word_of_int (integer_root 2 (p * 2 ^ 64))) (take 8 sha_primes)"

definition word_of_bytes :: "byte_string \<Rightarrow> 32 word" where
  "word_of_bytes bs = foldl (\<lambda>w b. push_bit 8 w + ucast b) 0 bs"

definition bytes_of_word :: "32 word \<Rightarrow> byte_string" where
  "bytes_of_word w = map (\<lambda>k. ucast (drop_bit k w)) [24, 16, 8, 0]"

function chunks_of :: "nat \<Rightarrow> 'a list \<Rightarrow> 'a list list" where
  "chunks_of k xs = (if k = 0 \<or> xs = [] then [] else take k xs # chunks_of k (drop k xs))"
  by pat_completeness auto
termination
  by (relation "measure (\<lambda>(k, xs). length xs)") (auto simp: length_greater_0_conv [symmetric] simp del: length_greater_0_conv)

declare chunks_of.simps [simp del]

text \<open>A one bit, zeros up to eight bytes before the end of a block, then the length in bits.\<close>

definition sha_pad :: "byte_string \<Rightarrow> byte_string" where
  "sha_pad bs = (let n = length bs in
     bs @ [0x80] @ replicate ((64 - (n + 9) mod 64) mod 64) 0
     @ map (\<lambda>k. word_of_int (int (8 * n) div 2 ^ k)) [56, 48, 40, 32, 24, 16, 8, 0])"

fun sha_extend :: "nat \<Rightarrow> 32 word list \<Rightarrow> 32 word list" where
  "sha_extend 0 ws = ws"
| "sha_extend (Suc k) ws = (
     let n = length ws; w15 = ws ! (n - 15); w2 = ws ! (n - 2);
         s0 = xor (xor (word_rotr 7 w15) (word_rotr 18 w15)) (drop_bit 3 w15);
         s1 = xor (xor (word_rotr 17 w2) (word_rotr 19 w2)) (drop_bit 10 w2)
     in sha_extend k (ws @ [ws ! (n - 16) + s0 + ws ! (n - 7) + s1]))"

fun sha_round :: "32 word list \<Rightarrow> 32 word \<times> 32 word \<Rightarrow> 32 word list" where
  "sha_round [a, b, c, d, e, f, g, h] (k, w) = (
     let s1 = xor (xor (word_rotr 6 e) (word_rotr 11 e)) (word_rotr 25 e);
         ch = xor (and e f) (and (not e) g);
         t1 = h + s1 + ch + k + w;
         s0 = xor (xor (word_rotr 2 a) (word_rotr 13 a)) (word_rotr 22 a);
         maj = xor (xor (and a b) (and a c)) (and b c)
     in [t1 + (s0 + maj), a, b, c, d + t1, e, f, g])"
| "sha_round st kw = st"

definition sha_block :: "32 word list \<Rightarrow> byte_string \<Rightarrow> 32 word list" where
  "sha_block h block = (
     let ws = sha_extend 48 (map word_of_bytes (chunks_of 4 block))
     in map2 (+) h (foldl sha_round h (zip sha_k ws)))"

definition sha256 :: "byte_string \<Rightarrow> byte_string" where
  "sha256 bs = concat (map bytes_of_word (foldl sha_block sha_h0 (chunks_of 64 (sha_pad bs))))"

definition hex_of_bytes :: "byte_string \<Rightarrow> string" where
  "hex_of_bytes bs = concat (map (\<lambda>b. [hex_char (unat b div 16), hex_char (unat b)]) bs)"

definition sha256_hex :: "byte_string \<Rightarrow> string" where
  "sha256_hex bs = hex_of_bytes (sha256 bs)"

section \<open>Base64\<close>

definition b64_value :: "char \<Rightarrow> int option" where
  "b64_value c = (let n = int (code_of c) in
     if 65 \<le> n \<and> n \<le> 90 then Some (n - 65)
     else if 97 \<le> n \<and> n \<le> 122 then Some (n - 71)
     else if 48 \<le> n \<and> n \<le> 57 then Some (n + 4)
     else if n = 43 then Some 62
     else if n = 47 then Some 63
     else None)"

text \<open>
  \<open>binascii.a2b_base64\<close>, not strict: \<open>quad\<close> counts the digits of the current group, \<open>left\<close> are the
  bits left over, \<open>pads\<close> the padding seen since the last digit. Characters outside the alphabet are
  skipped; padding that completes a group ends the input.
\<close>

fun b64_scan :: "nat \<Rightarrow> int \<Rightarrow> nat \<Rightarrow> string \<Rightarrow> byte_string option" where
  "b64_scan quad left pads [] = (if quad = 0 then Some [] else None)"
| "b64_scan quad left pads (c # cs) = (
     if c = CHR ''=''
     then if 2 \<le> quad
          then if 4 \<le> quad + (pads + 1) then Some [] else b64_scan quad left (pads + 1) cs
          else b64_scan quad left pads cs
     else (case b64_value c of
       None \<Rightarrow> b64_scan quad left pads cs
     | Some v \<Rightarrow>
         if quad = 0 then b64_scan 1 v 0 cs
         else if quad = 1
         then map_option (Cons (word_of_int (left * 4 + v div 16))) (b64_scan 2 (v mod 16) 0 cs)
         else if quad = 2
         then map_option (Cons (word_of_int (left * 16 + v div 4))) (b64_scan 3 (v mod 4) 0 cs)
         else map_option (Cons (word_of_int (left * 64 + v))) (b64_scan 0 0 0 cs)))"

text \<open>A string with a character outside ASCII is refused with a \<open>ValueError\<close>.\<close>

definition b64decode :: "string \<Rightarrow> byte_string option" where
  "b64decode s = (if list_all is_ascii s then b64_scan 0 0 0 s else None)"

end
