(* ===== verification/Runner_Verdicts.thy ===== *)
theory Runner_Verdicts
  imports Chunk_Framing Py_Objects Py_Bytes
begin

text \<open>
  \<open>runner.py\<close>, the comparisons: what decides whether a case of the matrix passed, from the two
  summaries its adapters wrote. A verdict is \<open>(passed, reason)\<close>; a comparison that meets a summary
  of an unexpected shape raises, and is a \<open>py\<close>. \<open>other\<close> is the argument of \<open>sorted_members\<close>.
\<close>

type_synonym judgement = "bool \<times> string"

section \<open>Reported failures\<close>

text \<open>A summary by role, in the order they are read.\<close>

definition adapter_reported_failures :: "(role_name \<times> pydict) list \<Rightarrow> string option" where
  "adapter_reported_failures summaries = (
     let reported = map (\<lambda>(role, summary). capitalize (role_str role) @ '' adapter reported: ''
                            @ py_str (dict_get ''reason'' summary))
           (filter (\<lambda>(role, summary). dict_get ''status'' summary \<noteq> VStr ''ok''
                       \<and> truthy (dict_get ''reason'' summary)) summaries)
     in if reported = [] then None else Some (join ''; '' reported))"

section \<open>Audio\<close>

definition sample_count_detail :: "pydict \<Rightarrow> pydict \<Rightarrow> string" where
  "sample_count_detail server_audio client_audio = (
     case (dict_get ''frame_count'' server_audio, dict_get ''channels'' server_audio,
           dict_get ''received_sample_count'' client_audio) of
       (VInt frame_count, VInt chans, VInt received) \<Rightarrow>
         let sent = frame_count * chans in
         if received = sent then ''sample counts equal ('' @ int_str sent @ ''), content differs; ''
         else ''client received '' @ int_str received @ '' of '' @ int_str sent @ '' samples (''
              @ int_str \<bar>sent - received\<bar> @ '' '' @ (if received < sent then ''fewer'' else ''more'') @ ''); ''
     | _ \<Rightarrow> [])"

definition compare_audio_summaries :: "pydict \<Rightarrow> pydict \<Rightarrow> judgement py" where
  "compare_audio_summaries server_summary client_summary = (
     case status_failure server_summary client_summary of
       Some r \<Rightarrow> Inr (False, r)
     | None \<Rightarrow>
         (case dict_get ''audio'' server_summary of
            VDict server_audio \<Rightarrow>
              (case dict_get ''audio'' client_summary of
                 VDict client_audio \<Rightarrow>
                   py_bind (subscript ''source_pcm_sha256'' server_audio) (\<lambda>source_hash.
                   py_bind (subscript ''received_pcm_sha256'' client_audio) (\<lambda>received_hash.
                   py_bind (subscript ''audio_chunk_count'' client_audio) (\<lambda>chunk_count.
                     if \<not> truthy chunk_count then Inr (False, ''Client summary shows zero audio chunks'')
                     else if py_eq source_hash received_hash then Inr (True, ''PCM hashes match exactly'')
                     else Inr (False, ''PCM hash mismatch: '' @ sample_count_detail server_audio client_audio
                            @ ''server='' @ py_str source_hash @ '' client='' @ py_str received_hash))))
               | _ \<Rightarrow> Inr (False, ''Client summary is missing an 'audio' section''))
          | _ \<Rightarrow> Inr (False, ''Server summary is missing an 'audio' section'')))"

definition stream_codec :: "pydict \<Rightarrow> string option" where
  "stream_codec summary = (case dict_get ''stream'' summary of
     VDict stream \<Rightarrow> (case dict_get ''codec'' stream of VNone \<Rightarrow> None | v \<Rightarrow> Some (py_str v))
   | _ \<Rightarrow> None)"

text \<open>\<open>{codec!r}\<close> of an optional string.\<close>

definition repr_opt :: "string option \<Rightarrow> string" where
  "repr_opt x = (case x of None \<Rightarrow> ''None'' | Some s \<Rightarrow> repr_str s)"

definition stream_codec_header_sha256 :: "pydict \<Rightarrow> string option" where
  "stream_codec_header_sha256 summary = (case dict_get ''stream'' summary of
     VDict stream \<Rightarrow>
       (case dict_get ''codec_header_sha256'' stream of
          VStr direct \<Rightarrow> if direct \<noteq> [] then Some direct else
            (case dict_get ''codec_header'' stream of
               VStr h \<Rightarrow> if h = [] then None else map_option sha256_hex (b64decode h)
             | _ \<Rightarrow> None)
        | _ \<Rightarrow>
            (case dict_get ''codec_header'' stream of
               VStr h \<Rightarrow> if h = [] then None else map_option sha256_hex (b64decode h)
             | _ \<Rightarrow> None))
   | _ \<Rightarrow> None)"

definition LOSSLESS_CODECS :: "string list" where
  "LOSSLESS_CODECS = [''flac'']"

definition usable_hash :: "pyval \<Rightarrow> string option" where
  "usable_hash v = (case v of VStr h \<Rightarrow> if h = [] then None else Some h | _ \<Rightarrow> None)"

text \<open>The two values of \<open>_decoded_audio_verdict\<close>: the violation, and why nothing was judged.\<close>

definition decoded_audio_verdict ::
  "pydict \<Rightarrow> pydict \<Rightarrow> string \<Rightarrow> (string option \<times> string option) py" where
  "decoded_audio_verdict server_summary client_summary expected_codec = (
     let codec_label = upper expected_codec in
     if expected_codec \<notin> set LOSSLESS_CODECS
     then Inr (None, Some (codec_label @ '' is lossy, so its decoded audio cannot equal the source''))
     else
       let server_audio = get_or_empty ''audio'' server_summary;
           client_audio = get_or_empty ''audio'' client_summary in
       py_bind (attr_get ''received_pcm_sha256'' client_audio) (\<lambda>received.
       py_bind (attr_get ''received_sample_count'' client_audio) (\<lambda>samples.
         if usable_hash received = None \<or> eq_int samples 0
         then Inr (None, Some ''the client reported no decoded audio'')
         else py_bind (attr_get ''source_pcm_sha256'' server_audio) (\<lambda>source.
           if usable_hash source = None then Inr (Some ''Server summary is missing the source PCM hash'', None)
           else
             let stream = or_empty (dict_get ''stream'' server_summary) in
             py_bind (collect (map (\<lambda>field.
                 py_bind (attr_get field stream) (\<lambda>negotiated.
                 py_bind (attr_get field server_audio) (\<lambda>given. Inr (field, given, negotiated))))
               [''sample_rate'', ''channels''])) (\<lambda>compared.
               let converted = filter (\<lambda>(field, given, negotiated). \<not> py_eq negotiated given) compared in
               if converted \<noteq> []
               then Inr (None, Some (''the stream was not negotiated at the source clip's format (''
                      @ join '', '' (map (\<lambda>(field, given, negotiated).
                          field @ '' '' @ py_str given @ '' -> '' @ py_str negotiated) converted) @ '')''))
               else if usable_hash received = usable_hash source then Inr (None, None)
               else Inr (Some (codec_label @ '' decoded audio does not match the source clip: ''
                      @ (case (dict_of server_audio, dict_of client_audio) of
                           (Some sa, Some ca) \<Rightarrow> sample_count_detail sa ca | _ \<Rightarrow> [])
                      @ ''source='' @ py_str source @ '' client='' @ py_str received), None))))))"

text \<open>The tail of \<open>_compare_encoded_audio_summaries\<close>, once the codecs and chunk counts are accepted.\<close>

definition header_hashes :: "pydict \<Rightarrow> pydict \<Rightarrow> pydict \<Rightarrow> (string \<times> string) option" where
  "header_hashes server_summary client_summary server_audio = (
     let server_header = (case dict_get ''sent_codec_header_sha256'' server_audio of
           VStr h \<Rightarrow> Some h | _ \<Rightarrow> stream_codec_header_sha256 server_summary)
     in case (server_header, stream_codec_header_sha256 client_summary) of
          (Some s, Some c) \<Rightarrow> if s \<noteq> [] \<and> c \<noteq> [] then Some (s, c) else None
        | _ \<Rightarrow> None)"

definition encoded_hash_verdict :: "pydict \<Rightarrow> pydict \<Rightarrow> pydict \<Rightarrow> pydict \<Rightarrow> string \<Rightarrow> judgement py" where
  "encoded_hash_verdict server_summary client_summary server_audio client_audio expected_codec = (
     let codec_label = upper expected_codec in
     case usable_hash (dict_get ''sent_encoded_sha256'' server_audio) of
       None \<Rightarrow> Inr (False, ''Server summary is missing sent '' @ codec_label @ '' chunk hash'')
     | Some sent_hash \<Rightarrow>
         (case usable_hash (dict_get ''received_encoded_sha256'' client_audio) of
            None \<Rightarrow> Inr (False, ''Client summary is missing received '' @ codec_label @ '' chunk hash'')
          | Some received_hash \<Rightarrow>
              if sent_hash \<noteq> received_hash
              then Inr (False, codec_label @ '' chunk hash mismatch: ''
                     @ ''server='' @ sent_hash @ '' client='' @ received_hash)
              else
                let headers = header_hashes server_summary client_summary server_audio;
                    transported = (if headers = None then ''chunk bytes'' else ''header and chunk bytes'')
                in if (case headers of None \<Rightarrow> False | Some (s, c) \<Rightarrow> s \<noteq> c)
                   then Inr (False, codec_label @ '' codec header mismatch: ''
                          @ ''server='' @ fst (the headers) @ '' client='' @ snd (the headers))
                   else py_bind (decoded_audio_verdict server_summary client_summary expected_codec)
                     (\<lambda>(violation, unjudged). Inr (case violation of
                        Some v \<Rightarrow> (False, v)
                      | None \<Rightarrow> (case unjudged of
                          Some u \<Rightarrow> (True, codec_label @ '' '' @ transported @ '' match exactly; ''
                             @ ''decoded audio not judged against the source clip: '' @ u)
                        | None \<Rightarrow> (True, codec_label @ '' '' @ transported @ '' match exactly''
                             @ '' and the decoded audio matches the source clip''))))))"

definition compare_encoded_audio_summaries :: "pydict \<Rightarrow> pydict \<Rightarrow> string \<Rightarrow> judgement py" where
  "compare_encoded_audio_summaries server_summary client_summary expected_codec = (
     case status_failure server_summary client_summary of
       Some r \<Rightarrow> Inr (False, r)
     | None \<Rightarrow>
         let codec_label = upper expected_codec;
             server_codec = stream_codec server_summary;
             client_codec = stream_codec client_summary
         in if server_codec \<noteq> Some expected_codec
            then Inr (False, ''Server did not negotiate '' @ codec_label @ '' transport (codec=''
                   @ repr_opt server_codec @ '')'')
            else if client_codec \<noteq> None \<and> client_codec \<noteq> Some expected_codec
            then Inr (False, ''Client did not observe '' @ codec_label @ '' transport (codec=''
                   @ repr_opt client_codec @ '')'')
            else
              let server_audio = get_or_empty ''audio'' server_summary;
                  client_audio = get_or_empty ''audio'' client_summary in
              py_bind (attr_get ''sent_audio_chunk_count'' server_audio) (\<lambda>sent_raw.
              py_bind (int_or_zero sent_raw) (\<lambda>sent_count.
              py_bind (attr_get ''audio_chunk_count'' client_audio) (\<lambda>received_raw.
              py_bind (int_or_zero received_raw) (\<lambda>received_count.
                if sent_count \<le> 0
                then Inr (False, ''Server summary shows zero '' @ codec_label @ '' audio chunks sent'')
                else if received_count \<le> 0
                then Inr (False, ''Client summary shows zero '' @ codec_label @ '' audio chunks received'')
                else (case (server_audio, client_audio) of
                  (VDict sa, VDict ca) \<Rightarrow>
                    encoded_hash_verdict server_summary client_summary sa ca expected_codec
                | (VDict sa, _) \<Rightarrow> Inl (no_attribute ''get'' client_audio)
                | _ \<Rightarrow> Inl (no_attribute ''get'' server_audio)))))))"

section \<open>Metadata\<close>

text \<open>\<open>summary.get("metadata", {}).get(key)\<close>.\<close>

definition section_get :: "string \<Rightarrow> string \<Rightarrow> pydict \<Rightarrow> pyval py" where
  "section_get sec k summary = attr_get k (get_or_empty sec summary)"

text \<open>\<open>_microseconds\<close> is \<open>as_int\<close>: an integer that is not a bool.\<close>

definition first_metadata_state_verdict :: "pydict \<Rightarrow> pydict \<Rightarrow> (bool \<times> string option) py" where
  "first_metadata_state_verdict server_summary client_summary =
     py_bind (section_get ''metadata'' ''first_object_state'' client_summary) (\<lambda>first_state.
       case first_state of
         VDict state \<Rightarrow>
           if \<not> has_key ''timestamp_us'' state then Inr (False, None)
           else if dict_get ''timestamp_us'' state = VNone
           then Inr (True, Some (''The first server/state carrying a metadata object had no timestamp; ''
                  @ ''the spec requires one so the client is current before any scheduled update''))
           else (case as_int (dict_get ''timestamp_us'' state) of
             None \<Rightarrow> Inr (False, None)
           | Some stamped \<Rightarrow>
               py_bind (section_get ''metadata'' ''first_state_sent'' server_summary) (\<lambda>sent.
                 case sent of
                   VDict sd \<Rightarrow>
                     (case (as_int (dict_get ''timestamp_us'' sd), as_int (dict_get ''bound_us'' sd)) of
                        (Some sent_us, Some bound) \<Rightarrow>
                          if stamped \<noteq> sent_us then Inr (False, None)
                          else if stamped > bound
                          then py_bind (int_div (stamped - bound) 1000) (\<lambda>ms.
                            Inr (True, Some (''The first server/state carrying a metadata object was scheduled ''
                              @ fixed_1 ms @ '' ms ahead of the server clock (timestamp='' @ int_str stamped
                              @ '', server clock once sent='' @ int_str bound
                              @ ''); the spec requires a past or present timestamp'')))
                          else Inr (True, None)
                      | _ \<Rightarrow> Inr (False, None))
                 | _ \<Rightarrow> Inr (False, None)))
       | _ \<Rightarrow> Inr (False, None))"

definition compare_metadata_summaries :: "pydict \<Rightarrow> pydict \<Rightarrow> judgement py" where
  "compare_metadata_summaries server_summary client_summary = (
     case status_failure server_summary client_summary of
       Some r \<Rightarrow> Inr (False, r)
     | None \<Rightarrow>
         py_bind (section_get ''metadata'' ''expected'' server_summary) (\<lambda>expected.
         py_bind (section_get ''metadata'' ''received'' client_summary) (\<lambda>received.
         py_bind (section_get ''metadata'' ''update_count'' client_summary) (\<lambda>raw.
         py_bind (int_or_zero raw) (\<lambda>update_count.
           if update_count \<le> 0 then Inr (False, ''Client summary shows zero metadata updates'')
           else if \<not> py_eq expected received
           then Inr (False, ''Metadata mismatch: server='' @ py_repr expected @ '' client='' @ py_repr received)
           else py_bind (first_metadata_state_verdict server_summary client_summary) (\<lambda>(checked, violation).
             Inr (case violation of Some v \<Rightarrow> (False, v)
               | None \<Rightarrow> if checked
                   then (True, ''Metadata snapshot matches and the first state carried a past or present timestamp'')
                   else (True, ''Metadata snapshot matches''))))))))"

section \<open>Controller\<close>

definition compare_supported_commands ::
  "(pyval list \<Rightarrow> pyval list py) \<Rightarrow> pyval \<Rightarrow> pydict \<Rightarrow> judgement py" where
  "compare_supported_commands other server_controller received_state =
     py_bind (attr_get ''supported_commands'' server_controller) (\<lambda>advertised_raw.
       case advertised_raw of
         VList advertised \<Rightarrow>
           if \<not> has_key ''supported_commands'' received_state
           then Inr (False, ''Client controller state is missing supported_commands'')
           else (case dict_get ''supported_commands'' received_state of
             VList observed \<Rightarrow>
               py_bind (py_set advertised) (\<lambda>ours.
               py_bind (py_set observed) (\<lambda>theirs.
               py_bind (sorted_members other (set_minus ours theirs)) (\<lambda>unobserved.
               py_bind (sorted_members other (set_minus theirs ours)) (\<lambda>unadvertised.
                 if unobserved = [] \<and> unadvertised = []
                 then Inr (True, ''Controller supported_commands match'')
                 else Inr (False, ''Controller supported_commands mismatch: '' @ join ''; ''
                   ((if unobserved \<noteq> [] then [''advertised but not observed: '' @ py_repr (VList unobserved)] else [])
                    @ (if unadvertised \<noteq> [] then [''observed but not advertised: '' @ py_repr (VList unadvertised)] else [])))))))
           | _ \<Rightarrow> Inr (False, ''Client controller state reports no supported_commands list''))
       | _ \<Rightarrow> Inr (False, ''Server summary shows no advertised supported_commands''))"

definition controller_field_violation :: "pydict \<Rightarrow> pydict \<Rightarrow> string \<Rightarrow> string option" where
  "controller_field_violation server_controller received_state field = (
     if \<not> has_key field received_state then Some (''Client controller state is missing '' @ field)
     else if \<not> py_eq (dict_get field server_controller) (dict_get field received_state)
     then Some (''Controller '' @ field @ '' mismatch: server='' @ py_repr (dict_get field server_controller)
            @ '' client='' @ py_repr (dict_get field received_state))
     else None)"

definition CONTROLLER_FIELDS :: "string list" where
  "CONTROLLER_FIELDS = [''volume'', ''muted'', ''repeat'', ''shuffle'']"

definition command_verdict :: "pyval \<Rightarrow> pydict \<Rightarrow> judgement" where
  "command_verdict expected received_state = (
     let command_name = (case expected of VDict e \<Rightarrow> dict_get ''command'' e | _ \<Rightarrow> VNone);
         observed = (case dict_get ''supported_commands'' received_state of VList l \<Rightarrow> l | _ \<Rightarrow> [])
     in if \<not> in_list command_name observed
        then (False, ''Controller command '' @ py_repr command_name
               @ '' is absent from the supported_commands the client observed'')
        else (True, ''Controller command matched ('' @ py_str command_name @ '')''))"

definition compare_controller_summaries ::
  "(pyval list \<Rightarrow> pyval list py) \<Rightarrow> pydict \<Rightarrow> pydict \<Rightarrow> judgement py" where
  "compare_controller_summaries other server_summary client_summary = (
     case status_failure server_summary client_summary of
       Some r \<Rightarrow> Inr (False, r)
     | None \<Rightarrow>
         let controller = get_or_empty ''controller'' server_summary in
         py_bind (attr_get ''expected_command'' controller) (\<lambda>expected.
         py_bind (attr_get ''received_command'' controller) (\<lambda>received.
         py_bind (section_get ''controller'' ''sent_command'' client_summary) (\<lambda>sent.
           if received = VNone then Inr (False, ''Server summary shows no controller command received'')
           else if sent = VNone then Inr (False, ''Client summary shows no controller command sent'')
           else if \<not> (py_eq expected received \<and> py_eq received sent)
           then Inr (False, ''Controller command mismatch: expected='' @ py_repr expected
                  @ '' server='' @ py_repr received @ '' client='' @ py_repr sent)
           else
             py_bind (section_get ''controller'' ''received_state'' client_summary) (\<lambda>state_raw.
               case (state_raw, controller) of
                 (VDict received_state, VDict server_controller) \<Rightarrow>
                   (case first_reason (controller_field_violation server_controller received_state) CONTROLLER_FIELDS of
                      Some r \<Rightarrow> Inr (False, r)
                    | None \<Rightarrow>
                        py_bind (compare_supported_commands other controller received_state) (\<lambda>(ok, reason).
                          Inr (if \<not> ok then (False, reason) else command_verdict expected received_state)))
               | _ \<Rightarrow> Inr (False, ''Client summary shows no controller state''))))))"

section \<open>Artwork\<close>

definition compare_artwork_summaries :: "pydict \<Rightarrow> pydict \<Rightarrow> judgement py" where
  "compare_artwork_summaries server_summary client_summary = (
     case status_failure server_summary client_summary of
       Some r \<Rightarrow> Inr (False, r)
     | None \<Rightarrow>
         let expected = get_or_empty ''artwork'' server_summary;
             received = get_or_empty ''artwork'' client_summary in
         py_bind (attr_get ''received_count'' received) (\<lambda>raw.
         py_bind (int_or_zero raw) (\<lambda>received_count.
           if received_count \<le> 0 then Inr (False, ''Client summary shows zero artwork frames'')
           else
             py_bind (attr_get ''channel'' expected) (\<lambda>our_channel.
             py_bind (attr_get ''channel'' received) (\<lambda>their_channel.
             py_bind (attr_get ''encoded_sha256'' expected) (\<lambda>our_hash.
             py_bind (attr_get ''received_sha256'' received) (\<lambda>their_hash.
               if py_eq our_channel their_channel \<and> py_eq our_hash their_hash
               then Inr (True, ''Artwork bytes match'')
               else Inr (False, ''Artwork mismatch: server='' @ py_str our_hash
                      @ '' client='' @ py_str their_hash))))))))"

section \<open>Format preference\<close>

definition pydict_format_label :: "pydict \<Rightarrow> string" where
  "pydict_format_label fmt = (if fmt = [] then ''none''
     else py_str (dict_get ''codec'' fmt) @ ''/'' @ py_str (dict_get ''sample_rate'' fmt) @ ''Hz/''
          @ py_str (dict_get ''bit_depth'' fmt) @ ''bit/'' @ py_str (dict_get ''channels'' fmt) @ ''ch'')"

text \<open>\<open>_format_label\<close> of any value.\<close>

definition runner_format_label :: "pyval \<Rightarrow> string py" where
  "runner_format_label v = (if \<not> truthy v then Inr ''none''
     else case v of VDict fmt \<Rightarrow> Inr (pydict_format_label fmt) | _ \<Rightarrow> Inl (no_attribute ''get'' v))"

definition format_matches :: "pydict \<Rightarrow> pydict \<Rightarrow> bool" where
  "format_matches actual expected = list_all (\<lambda>k.
     dict_get k expected = VNone \<or> py_eq (dict_get k actual) (dict_get k expected)) AUDIO_FORMAT_FIELDS"

definition formats_equal :: "pydict \<Rightarrow> pydict \<Rightarrow> bool" where
  "formats_equal left right = list_all (\<lambda>k. py_eq (dict_get k left) (dict_get k right)) AUDIO_FORMAT_FIELDS"

definition FORMAT_PREFERENCE_TARGETS :: "(string \<times> pydict) list" where
  "FORMAT_PREFERENCE_TARGETS = [
     (''client-initiated-state-format-pcm'', [(''codec'', VStr ''pcm''), (''bit_depth'', VInt 16)]),
     (''client-initiated-state-format-flac'', [(''codec'', VStr ''flac'')])]"

text \<open>The part of the comparison after the preference was received and matches the target.\<close>

definition renegotiation_verdict :: "pydict \<Rightarrow> pydict \<Rightarrow> pydict \<Rightarrow> judgement py" where
  "renegotiation_verdict server_summary client_summary received = (
     case dict_get ''renegotiation'' client_summary of
       VDict renegotiation \<Rightarrow>
         (case dict_get ''requested'' renegotiation of
            VDict requested \<Rightarrow>
              if \<not> format_matches received requested
              then Inr (False, ''Server received client/state format '' @ pydict_format_label received
                     @ '' but the client reports preferring '' @ pydict_format_label requested)
              else py_bind (int_or_zero (dict_get ''stream_start_count'' renegotiation)) (\<lambda>starts.
                let sent = dict_of (dict_get ''stream'' server_summary);
                    server_applied = (case sent of None \<Rightarrow> False | Some d \<Rightarrow> format_matches d requested);
                    initial = dict_get ''initial_format'' renegotiation
                in case (if starts < 2 then None else dict_of (dict_get ''final_format'' renegotiation)) of
                     None \<Rightarrow>
                       if server_applied
                       then Inr (False, ''Server sent a stream/start in the preferred ''
                              @ pydict_format_label requested
                              @ '' but the client did not observe the stream change format (stream_start_count=''
                              @ int_str starts @ '')'')
                       else Inr (False, ''Server kept the stream format after the client/state preference changed, ''
                              @ ''where roles/player/v1.md says it SHOULD select the preferred format (stream_start_count=''
                              @ int_str starts @ '')'')
                   | Some final \<Rightarrow>
                       if \<not> format_matches final requested
                       then Inr (False, ''Renegotiated format '' @ pydict_format_label final
                              @ '' does not match requested '' @ pydict_format_label requested)
                       else if \<not> server_applied
                       then Inr (False, ''Client reports the stream changed to '' @ pydict_format_label final
                              @ '' but the server's last stream/start was ''
                              @ (case sent of None \<Rightarrow> ''none'' | Some d \<Rightarrow> pydict_format_label d))
                       else if (case initial of VDict i \<Rightarrow> formats_equal i final | _ \<Rightarrow> False)
                       then Inr (False, ''Format did not change (stayed '' @ pydict_format_label final @ '')'')
                       else py_bind (runner_format_label initial) (\<lambda>l.
                         Inr (True, ''Renegotiated '' @ l @ '' -> '' @ pydict_format_label final)))
          | _ \<Rightarrow> Inr (False, ''Client did not record a requested format''))
     | _ \<Rightarrow> Inr (False, ''Client summary missing renegotiation block''))"

definition compare_format_preference_summaries :: "string \<Rightarrow> pydict \<Rightarrow> pydict \<Rightarrow> judgement py" where
  "compare_format_preference_summaries scenario_id server_summary client_summary = (
     case status_failure server_summary client_summary of
       Some r \<Rightarrow> Inr (False, r)
     | None \<Rightarrow>
         (case dict_get ''format_preference'' server_summary of
            VDict preference \<Rightarrow>
              (case dict_get ''received'' preference of
                 VDict received \<Rightarrow>
                   (case map_of FORMAT_PREFERENCE_TARGETS scenario_id of
                      None \<Rightarrow> Inl (PyExc ''KeyError'' (repr_str scenario_id))
                    | Some target \<Rightarrow>
                        if \<not> format_matches received target
                        then Inr (False, ''Server received client/state format '' @ pydict_format_label received
                               @ '', but this scenario has the client prefer ''
                               @ join '', '' (map (\<lambda>(field, v). field @ ''='' @ py_str v) target))
                        else renegotiation_verdict server_summary client_summary received)
               | _ \<Rightarrow> Inr (False, ''Server received no player format preference in client/state ''
                      @ ''(roles/player/v1.md, client/state player object `format`)''))
          | _ \<Rightarrow> Inr (False, ''Harness gap: the server adapter does not record the format preference ''
                 @ ''it receives in client/state'')))"

section \<open>One scenario\<close>

definition STREAMED_ROLE_FAMILIES :: "string list" where
  "STREAMED_ROLE_FAMILIES = [''player'', ''artwork'']"

definition unsupported_mode :: "string \<Rightarrow> py_exc" where
  "unsupported_mode mode = PyExc ''ValueError'' (''Unsupported verification mode: '' @ mode)"

definition dispatch_comparison ::
  "(pyval list \<Rightarrow> pyval list py) \<Rightarrow> scenario_spec \<Rightarrow> pydict \<Rightarrow> pydict \<Rightarrow> judgement py" where
  "dispatch_comparison other scenario server_summary client_summary = (
     let mode = ss_verification_mode scenario in
     if mode = ''protocol''
     then (case status_failure server_summary client_summary of
         Some r \<Rightarrow> Inr (False, r)
       | None \<Rightarrow>
           (case protocol_evidence_failure server_summary client_summary (ss_protocol_assertions scenario) of
              Some r \<Rightarrow> Inr (False, r)
            | None \<Rightarrow> Inr (True, ''Passed '' @ nat_str (length (ss_protocol_assertions scenario))
                             @ '' protocol assertions'')))
     else if mode = ''audio-pcm''
     then py_bind (compare_audio_summaries server_summary client_summary) (\<lambda>(matches, reason).
       case ss_verifies_stream_bit_depth scenario of
         None \<Rightarrow> Inr (matches, reason)
       | Some depth \<Rightarrow>
           if \<not> matches then Inr (matches, reason)
           else py_bind (stream_bit_depth_violation server_summary client_summary depth) (\<lambda>violation.
             Inr (case violation of Some v \<Rightarrow> (False, v) | None \<Rightarrow> (matches, reason))))
     else if mode = ''audio-encoded-bytes''
     then py_bind (if ss_verifies_format_priority scenario \<and> dict_get ''status'' server_summary = VStr ''ok''
                   then format_priority_violation server_summary (ss_preferred_codec scenario)
                   else Inr None) (\<lambda>violation.
       case violation of
         Some v \<Rightarrow> Inr (False, v)
       | None \<Rightarrow> compare_encoded_audio_summaries server_summary client_summary (ss_preferred_codec scenario))
     else if mode = ''metadata'' then compare_metadata_summaries server_summary client_summary
     else if mode = ''controller'' then compare_controller_summaries other server_summary client_summary
     else if mode = ''artwork'' then compare_artwork_summaries server_summary client_summary
     else if mode = ''format-preference''
     then compare_format_preference_summaries (ss_id scenario) server_summary client_summary
     else if mode = ''audio-chunk-framing'' then chunk_framing_verdict server_summary client_summary
     else Inl (unsupported_mode mode))"

text \<open>The judges that apply to a case whatever its scenario exercises, in their order.\<close>

definition connection_violation :: "scenario_spec \<Rightarrow> pydict \<Rightarrow> string option" where
  "connection_violation scenario server_summary = (
     case activation_violation server_summary of
       Some v \<Rightarrow> Some v
     | None \<Rightarrow>
         (case group_update_violation server_summary of
            Some v \<Rightarrow> Some v
          | None \<Rightarrow>
              (case (if list_ex (\<lambda>f. f \<in> set STREAMED_ROLE_FAMILIES) (ss_required_role_families scenario)
                     then stream_start_gate_violation server_summary else None) of
                 Some v \<Rightarrow> Some v
               | None \<Rightarrow> time_exchange_violation server_summary)))"

definition compare_summaries ::
  "(pyval list \<Rightarrow> pyval list py) \<Rightarrow> scenario_spec \<Rightarrow> pydict \<Rightarrow> pydict \<Rightarrow> judgement py" where
  "compare_summaries other scenario server_summary client_summary = (
     case adapter_reported_failures [(Server, server_summary), (Client, client_summary)] of
       Some r \<Rightarrow> Inr (False, r)
     | None \<Rightarrow>
         py_bind (dispatch_comparison other scenario server_summary client_summary) (\<lambda>(matches, reason).
           if \<not> matches then Inr (matches, reason)
           else (case connection_violation scenario server_summary of
             Some v \<Rightarrow> Inr (False, v)
           | None \<Rightarrow>
               py_bind (undeclared_format_violation server_summary client_summary) (\<lambda>violation.
                 Inr (case violation of Some v \<Rightarrow> (False, v) | None \<Rightarrow> (matches, reason))))))"

end
