(* ===== verification/Matrix.thy ===== *)
theory Matrix
  imports Runner_Verdicts Noncompliance_Refs
begin

text \<open>
  \<open>runner.py\<close>, the matrix: which cases run, how the adapters of a case are launched, and how a case
  becomes a result. What the host and the processes do is a \<open>world\<close>: the tools on the path, the
  files that exist, how the launched adapters ended and the summaries they left. A \<open>Path\<close> is the
  text \<open>str\<close> gives for it.
\<close>

section \<open>Contexts\<close>

definition SERVER_PORT_BASE :: nat where
  "SERVER_PORT_BASE = 18927"

definition CLIENT_PORT_BASE :: nat where
  "CLIENT_PORT_BASE = 19927"

text \<open>\<open>cc_timeout\<close> is \<open>str(timeout_s)\<close>.\<close>

record case_context =
  cc_results_dir :: string
  cc_environment_id :: string
  cc_environment_name :: string
  cc_scenario :: scenario_spec
  cc_server_impl :: string
  cc_client_impl :: string
  cc_timeout :: string
  cc_slot_index :: nat

definition join_path :: "string \<Rightarrow> string \<Rightarrow> string" where
  "join_path d n = d @ ''/'' @ n"

definition case_name_of :: "string \<Rightarrow> string \<Rightarrow> string \<Rightarrow> string \<Rightarrow> string" where
  "case_name_of env scenario server client = env @ ''__'' @ scenario @ ''__'' @ server @ ''__to__'' @ client"

definition case_name :: "case_context \<Rightarrow> string" where
  "case_name cc = case_name_of (cc_environment_id cc) (ss_id (cc_scenario cc)) (cc_server_impl cc) (cc_client_impl cc)"

definition case_dir :: "case_context \<Rightarrow> string" where
  "case_dir cc = join_path (cc_results_dir cc) (case_name cc)"

definition registry_path :: "case_context \<Rightarrow> string" where
  "registry_path cc = join_path (case_dir cc) ''registry.json''"

definition server_name :: "case_context \<Rightarrow> string" where
  "server_name cc = cc_server_impl cc @ '' server''"

definition server_id :: "case_context \<Rightarrow> string" where
  "server_id cc = cc_server_impl cc @ ''-server''"

definition client_name :: "case_context \<Rightarrow> string" where
  "client_name cc = cc_client_impl cc @ ''-client''"

definition client_id :: "case_context \<Rightarrow> string" where
  "client_id cc = cc_client_impl cc @ ''-client-id''"

definition server_port :: "case_context \<Rightarrow> nat" where
  "server_port cc = SERVER_PORT_BASE + cc_slot_index cc"

definition client_port :: "case_context \<Rightarrow> nat" where
  "client_port cc = CLIENT_PORT_BASE + cc_slot_index cc"

definition summary_path :: "role_name \<Rightarrow> case_context \<Rightarrow> string" where
  "summary_path role cc = join_path (case_dir cc) (role_str role @ ''-summary.json'')"

definition ready_path :: "role_name \<Rightarrow> case_context \<Rightarrow> string" where
  "ready_path role cc = join_path (case_dir cc) (role_str role @ ''-ready.json'')"

definition log_path :: "role_name \<Rightarrow> case_context \<Rightarrow> string" where
  "log_path role cc = join_path (case_dir cc) (role_str role @ ''.log'')"

definition case_implementation :: "role_name \<Rightarrow> case_context \<Rightarrow> string" where
  "case_implementation role cc = (if role = Server then cc_server_impl cc else cc_client_impl cc)"

definition case_role_spec :: "role_name \<Rightarrow> case_context \<Rightarrow> role_spec py" where
  "case_role_spec role cc = (case get_implementation (case_implementation role cc) of
     None \<Rightarrow> Inl (PyExc ''KeyError'' (repr_str (case_implementation role cc)))
   | Some spec \<Rightarrow> Inr (role_of role spec))"

definition capability_failure :: "role_name \<Rightarrow> case_context \<Rightarrow> string option py" where
  "capability_failure role cc = py_bind (case_role_spec role cc) (\<lambda>r.
     Inr (unsupported_reason r (case_implementation role cc) role (cc_scenario cc)))"

section \<open>Launching\<close>

record launch_spec =
  ls_cmd :: "string list"
  ls_cwd :: string

text \<open>\<open>wo_tool\<close> finds an executable, \<open>wo_checkout\<close> is the error of \<open>ensure_repo_checkout\<close> if any.\<close>

datatype role_run = Not_started py_exc | Wait_failed py_exc int | Exited int

datatype pair_run = Server_not_started py_exc | Pair_failed py_exc int "int option" | Pair_exited int int

record world =
  wo_system :: string
  wo_root :: string
  wo_python :: string
  wo_tool :: "string \<Rightarrow> string option"
  wo_exists :: "string \<Rightarrow> bool"
  wo_checkout :: "string \<Rightarrow> py_exc option"
  wo_fixture :: "string py"
  wo_run_role :: "role_name \<Rightarrow> launch_spec \<Rightarrow> role_run"
  wo_run_pair :: "launch_spec \<Rightarrow> launch_spec \<Rightarrow> pair_run"
  wo_summary :: "role_name \<Rightarrow> json_file"

type_synonym kwargs = "(string \<times> string) list"

definition command_with_args :: "string list \<Rightarrow> kwargs \<Rightarrow> string list" where
  "command_with_args pre args = pre @ concat (map (\<lambda>(k, v).
     [''--'' @ map (\<lambda>c. if c = CHR ''_'' then CHR ''-'' else c) k, v]) args)"

definition python_adapter_command :: "world \<Rightarrow> string \<Rightarrow> kwargs \<Rightarrow> launch_spec" where
  "python_adapter_command w m args =
     \<lparr>ls_cmd = command_with_args [wo_python w, ''-m'', m] args, ls_cwd = wo_root w\<rparr>"

definition runtime_command_prefix :: "pydict option \<Rightarrow> string list option" where
  "runtime_command_prefix build_result = (case build_result of
     None \<Rightarrow> None
   | Some b \<Rightarrow> (case dict_get ''runtime_command_prefix'' b of
       VList parts \<Rightarrow> if parts = [] \<or> \<not> list_all is_str parts then None
                     else Some (List.map_filter str_of parts)
     | _ \<Rightarrow> None))"

text \<open>
  The command of a built adapter: its recorded prefix if the build left one, none if the build left
  none, and the tool's own way of running it when nothing was built.
\<close>

definition built_adapter_command ::
  "world \<Rightarrow> pydict option \<Rightarrow> kwargs \<Rightarrow> launch_spec option \<Rightarrow> launch_spec option" where
  "built_adapter_command w build_result args unbuilt = (
     case runtime_command_prefix build_result of
       Some runtime \<Rightarrow> Some \<lparr>ls_cmd = command_with_args runtime args, ls_cwd = wo_root w\<rparr>
     | None \<Rightarrow> if build_result \<noteq> None then None else unbuilt)"

definition dotnet_adapter_command :: "world \<Rightarrow> string \<Rightarrow> pydict option \<Rightarrow> kwargs \<Rightarrow> launch_spec option" where
  "dotnet_adapter_command w project build_result args = built_adapter_command w build_result args
     (map_option (\<lambda>tool. \<lparr>ls_cmd = command_with_args
          [tool, ''run'', ''--no-build'', ''--project'', project, ''--''] args, ls_cwd = wo_root w\<rparr>)
        (wo_tool w ''dotnet''))"

definition node_adapter_command :: "world \<Rightarrow> string \<Rightarrow> kwargs \<Rightarrow> launch_spec option" where
  "node_adapter_command w script args = map_option (\<lambda>tool.
     \<lparr>ls_cmd = command_with_args [tool, script] args, ls_cwd = wo_root w\<rparr>) (wo_tool w ''node'')"

definition cargo_adapter_command :: "world \<Rightarrow> string \<Rightarrow> pydict option \<Rightarrow> kwargs \<Rightarrow> launch_spec option" where
  "cargo_adapter_command w manifest build_result args = built_adapter_command w build_result args
     (map_option (\<lambda>tool. \<lparr>ls_cmd = command_with_args
          [tool, ''run'', ''--quiet'', ''--manifest-path'', manifest, ''--''] args, ls_cwd = wo_root w\<rparr>)
        (wo_tool w ''cargo''))"

definition swift_adapter_command ::
  "world \<Rightarrow> string \<Rightarrow> string \<Rightarrow> pydict option \<Rightarrow> kwargs \<Rightarrow> launch_spec option" where
  "swift_adapter_command w package product build_result args = built_adapter_command w build_result args
     (map_option (\<lambda>tool. \<lparr>ls_cmd = command_with_args
          [tool, ''run'', ''--package-path'', package, product, ''--''] args, ls_cwd = wo_root w\<rparr>)
        (wo_tool w ''swift''))"

definition cmake_adapter_command ::
  "world \<Rightarrow> string \<Rightarrow> string \<Rightarrow> pydict option \<Rightarrow> kwargs \<Rightarrow> launch_spec option" where
  "cmake_adapter_command w adapter_dir binary_name build_result args = built_adapter_command w build_result args
     (case wo_tool w ''cmake'' of
        None \<Rightarrow> None
      | Some tool \<Rightarrow>
          let binary = join_path (join_path (join_path (wo_root w) adapter_dir) ''build'') binary_name
          in if \<not> wo_exists w binary then None
             else Some \<lparr>ls_cmd = command_with_args [binary] args, ls_cwd = wo_root w\<rparr>)"

definition go_adapter_command :: "world \<Rightarrow> string \<Rightarrow> pydict option \<Rightarrow> kwargs \<Rightarrow> launch_spec option" where
  "go_adapter_command w package build_result args = built_adapter_command w build_result args
     (map_option (\<lambda>tool. \<lparr>ls_cmd = command_with_args [tool, ''run'', ''./'' @ path_name package] args,
          ls_cwd = join_path (join_path (wo_root w) ''adapters'') ''sendspin-go''\<rparr>)
        (wo_tool w ''go''))"

text \<open>\<open>s.rsplit(":", 1)\<close> into exactly two parts.\<close>

definition rsplit_colon :: "string \<Rightarrow> (string \<times> string) py" where
  "rsplit_colon s = (if CHR '':'' \<in> set s
     then let back = rev s; tail = rev (takeWhile (\<lambda>c. c \<noteq> CHR '':'') back)
          in Inr (take (length s - length tail - 1) s, tail)
     else Inl (PyExc ''ValueError'' ''not enough values to unpack (expected 2, got 1)''))"

definition checked_out :: "world \<Rightarrow> string \<Rightarrow> launch_spec option py \<Rightarrow> launch_spec option py" where
  "checked_out w dirname k = (case wo_checkout w dirname of Some e \<Rightarrow> Inl e | None \<Rightarrow> k)"

definition build_role_command ::
  "world \<Rightarrow> string \<Rightarrow> role_name \<Rightarrow> string \<Rightarrow> string \<Rightarrow> string \<Rightarrow> kwargs \<Rightarrow> pydict option \<Rightarrow> launch_spec option py" where
  "build_role_command w implementation role summary ready registry extra_args build_result = (
     case get_implementation implementation of
       None \<Rightarrow> Inl (PyExc ''KeyError'' (repr_str implementation))
     | Some spec \<Rightarrow>
         let r = role_of role spec; kind = rs_adapter_kind r;
             args = [(''summary'', summary), (''ready'', ready), (''registry'', registry)] @ extra_args
         in if kind \<notin> set [''python'', ''dotnet'', ''node'', ''cargo'', ''swift'', ''cmake'', ''go'', ''placeholder'']
            then Inr None
            else (case rs_entrypoint r of
              None \<Rightarrow> Inl AssertionError
            | Some entrypoint \<Rightarrow>
                let full = join_path (wo_root w) entrypoint in
                if kind = ''python'' then Inr (Some (python_adapter_command w entrypoint args))
                else if kind = ''dotnet'' then Inr (dotnet_adapter_command w full build_result args)
                else if kind = ''node'' then Inr (node_adapter_command w full args)
                else if kind = ''cargo''
                then checked_out w ''sendspin-rs'' (Inr (cargo_adapter_command w full build_result args))
                else if kind = ''swift''
                then checked_out w ''SendspinKit'' (py_bind (rsplit_colon entrypoint) (\<lambda>(package, product).
                  Inr (swift_adapter_command w (join_path (wo_root w) package) product build_result args)))
                else if kind = ''cmake''
                then checked_out w (is_repo_dirname spec) (Inr (cmake_adapter_command w entrypoint
                  (''conformance-'' @ (case rs_build_adapter r of None \<Rightarrow> ''None'' | Some a \<Rightarrow> a)) build_result args))
                else if kind = ''go''
                then checked_out w ''sendspin-go'' (Inr (go_adapter_command w entrypoint build_result args))
                else (case rs_reason r of
                  None \<Rightarrow> Inl AssertionError
                | Some reason \<Rightarrow> Inr (Some (python_adapter_command w entrypoint
                    ([(''summary'', summary), (''ready'', ready), (''registry'', registry),
                      (''implementation'', implementation), (''role'', role_str role),
                      (''failure_reason'', reason)] @ extra_args))))))"

definition role_args :: "world \<Rightarrow> role_name \<Rightarrow> case_context \<Rightarrow> kwargs py" where
  "role_args w role cc = (
     let common = dict_put ''timeout_seconds'' (cc_timeout cc) (cli_args (cc_scenario cc)) in
     if role = Server
     then py_bind (wo_fixture w) (\<lambda>fixture.
       Inr (dict_update common
         ([(''client_name'', client_name cc), (''client_id'', client_id cc), (''fixture'', fixture),
           (''server_id'', server_id cc), (''server_name'', server_name cc),
           (''port'', nat_str (server_port cc))]
          @ (if ss_requires_legacy_unencrypted (cc_scenario cc) then [(''allow_unencrypted'', ''true'')] else []))))
     else py_bind (case_role_spec role cc) (\<lambda>r.
       Inr (dict_update common
         ([(''client_name'', client_name cc), (''client_id'', client_id cc),
           (''server_id'', server_id cc), (''server_name'', server_name cc)]
          @ (if rs_supports_server_initiated r
             then [(''port'', nat_str (client_port cc)), (''path'', ''/sendspin'')] else [])))))"

section \<open>Results and reasons\<close>

definition make_result ::
  "case_context \<Rightarrow> string \<Rightarrow> string \<Rightarrow> int option \<Rightarrow> int option \<Rightarrow> case_result" where
  "make_result cc status reason server_exit client_exit = \<lparr>
     res_environment_id = cc_environment_id cc, res_environment_name = cc_environment_name cc,
     res_scenario_id = ss_id (cc_scenario cc), res_server_impl = cc_server_impl cc,
     res_client_impl = cc_client_impl cc, res_status = status, res_reason = reason,
     res_scenario_revision = ss_scenario_revision (cc_scenario cc), res_case_dir = case_dir cc,
     res_server_exit_code = server_exit, res_client_exit_code = client_exit, res_unsupported = False\<rparr>"

definition summary_exists :: "world \<Rightarrow> role_name \<Rightarrow> bool" where
  "summary_exists w role \<longleftrightarrow> wo_summary w role \<noteq> Absent"

text \<open>\<open>read_json\<close>, and \<open>payload.get\<close> is \<open>attr_get\<close>.\<close>

definition read_json :: "string \<Rightarrow> json_file \<Rightarrow> pyval py" where
  "read_json path f = (case f of
     Absent \<Rightarrow> Inl (PyExc ''FileNotFoundError'' (''[Errno 2] No such file or directory: '' @ repr_str path))
   | Unreadable e \<Rightarrow> Inl e
   | Json v \<Rightarrow> Inr v)"

definition missing_summary_reason :: "world \<Rightarrow> int \<Rightarrow> int option \<Rightarrow> string" where
  "missing_summary_reason w server_code client_code = (
     let missing = filter (\<lambda>role. \<not> summary_exists w role) [Server, Client];
         client_details = (case client_code of
             None \<Rightarrow> []
           | Some code \<Rightarrow>
               if Client \<notin> set missing then []
               else if server_code = 0 \<and> code = - 9
               then [''client adapter was killed after the server completed before it wrote a summary'']
               else [''client adapter exited '' @ int_str code @ '' before writing a summary'']);
         server_details = (if Server \<in> set missing
             then [''server adapter exited '' @ int_str server_code @ '' before writing a summary''] else []);
         details = client_details @ server_details;
         role_text = (if missing = [] then ''unknown'' else join '', '' (map role_str missing))
     in ''Missing summary output for '' @ role_text
        @ (if details = [] then [] else '': '' @ join ''; '' details))"

definition written_summaries :: "world \<Rightarrow> (role_name \<times> pydict) list" where
  "written_summaries w = List.map_filter (\<lambda>role. case wo_summary w role of
     Json (VDict d) \<Rightarrow> Some (role, d) | _ \<Rightarrow> None) [Server, Client]"

definition incomplete_case_reason :: "world \<Rightarrow> string \<Rightarrow> string" where
  "incomplete_case_reason w observed = (case adapter_reported_failures (written_summaries w) of
     None \<Rightarrow> observed | Some reported \<Rightarrow> reported @ ''; '' @ observed)"

type_synonym build_index = "(string \<times> pydict) list"

definition build_result_index :: "pyval list \<Rightarrow> build_index" where
  "build_result_index results = foldl (\<lambda>index v. case v of
     VDict d \<Rightarrow> if has_key ''adapter'' d then dict_put (py_str (dict_get ''adapter'' d)) d index else index
   | _ \<Rightarrow> index) [] results"

definition role_build_result :: "role_spec \<Rightarrow> build_index \<Rightarrow> pydict option" where
  "role_build_result r index = Option.bind (rs_build_adapter r) (map_of index)"

text \<open>The word "error" on its own, in any case: not part of a longer or a hyphenated word.\<close>

definition word_or_hyphen :: "char \<Rightarrow> bool" where
  "word_or_hyphen c \<longleftrightarrow> is_word_char c \<or> c = CHR ''-''"

fun names_error :: "bool \<Rightarrow> string \<Rightarrow> bool" where
  "names_error inside [] = False"
| "names_error inside (c # cs) = (
     (\<not> inside \<and> lower (take 5 (c # cs)) = ''error''
        \<and> (case drop 5 (c # cs) of [] \<Rightarrow> True | d # ds \<Rightarrow> \<not> word_or_hyphen d))
     \<or> names_error (word_or_hyphen c) cs)"

definition build_failure_reason :: "pydict \<Rightarrow> string" where
  "build_failure_reason b = (
     let lines = filter (\<lambda>l. l \<noteq> []) (map strip (splitlines (strip (str_or [] (dict_get ''detail'' b)))));
         headline = (case List.find (names_error False) lines of
             Some l \<Rightarrow> l
           | None \<Rightarrow> if lines = [] then ''no detail available'' else hd lines)
     in str_or ''adapter'' (dict_get ''adapter'' b) @ '' build '' @ str_or ''failed'' (dict_get ''status'' b)
        @ '': '' @ headline)"

section \<open>Running a case\<close>

definition server_exit_of :: "role_name \<Rightarrow> int \<Rightarrow> int option" where
  "server_exit_of role code = (if role = Server then Some code else None)"

definition client_exit_of :: "role_name \<Rightarrow> int \<Rightarrow> int option" where
  "client_exit_of role code = (if role = Client then Some code else None)"

definition failfast_command :: "world \<Rightarrow> case_context \<Rightarrow> role_name \<Rightarrow> string option \<Rightarrow> launch_spec option py" where
  "failfast_command w cc role failure_reason = py_bind (role_args w role cc) (\<lambda>extra.
     case failure_reason of
       Some reason \<Rightarrow> Inr (Some (python_adapter_command w ''conformance.adapters.placeholder''
         ([(''summary'', summary_path role cc), (''ready'', ready_path role cc),
           (''registry'', registry_path cc), (''implementation'', case_implementation role cc),
           (''role'', role_str role), (''failure_reason'', reason)] @ extra)))
     | None \<Rightarrow> build_role_command w (case_implementation role cc) role (summary_path role cc)
                (ready_path role cc) (registry_path cc) extra None)"

definition run_failfast_role :: "world \<Rightarrow> case_context \<Rightarrow> role_name \<Rightarrow> string option \<Rightarrow> case_result py" where
  "run_failfast_role w cc role failure_reason = py_bind (failfast_command w cc role failure_reason) (\<lambda>cmd.
     let who = case_implementation role cc @ '' '' @ role_str role @ '' adapter'' in
     case cmd of
       None \<Rightarrow> Inr (make_result cc ''failed''
                (''Required runtime toolchain is not available for '' @ who) None None)
     | Some launch \<Rightarrow>
         (case wo_run_role w role launch of
            Not_started e \<Rightarrow> Inl e
          | Wait_failed e code \<Rightarrow> Inr (make_result cc ''failed'' (exc_text e)
                                    (server_exit_of role code) (client_exit_of role code))
          | Exited code \<Rightarrow>
              let unwritten = who @ '' failed without writing a summary'' in
              py_bind (if \<not> summary_exists w role then Inr unwritten
                       else py_bind (read_json (summary_path role cc) (wo_summary w role)) (\<lambda>p.
                            py_bind (attr_get ''reason'' p) (\<lambda>reason. Inr (str_or unwritten reason))))
                (\<lambda>reason. Inr (make_result cc ''failed'' reason
                    (server_exit_of role code) (client_exit_of role code)))))"

definition run_unsupported_role :: "world \<Rightarrow> case_context \<Rightarrow> role_name \<Rightarrow> string option \<Rightarrow> case_result py" where
  "run_unsupported_role w cc role failure_reason = py_bind (run_failfast_role w cc role failure_reason)
     (\<lambda>r. Inr (r\<lparr>res_unsupported := True\<rparr>))"

text \<open>Comparing what the adapters left: an exception of the comparison becomes the reason.\<close>

definition compared ::
  "(pyval list \<Rightarrow> pyval list py) \<Rightarrow> scenario_spec \<Rightarrow> pyval \<Rightarrow> pyval \<Rightarrow> judgement" where
  "compared other scenario server_payload client_payload = (
     let outcome = (case (server_payload, client_payload) of
         (VDict s, VDict c) \<Rightarrow> compare_summaries other scenario s c
       | (VDict s, _) \<Rightarrow> Inl (no_attribute ''get'' client_payload)
       | _ \<Rightarrow> Inl (no_attribute ''get'' server_payload))
     in case outcome of
          Inr v \<Rightarrow> v
        | Inl e \<Rightarrow> (False, ''Comparison raised '' @ exc_name e @ '': '' @ exc_text e))"

definition exited_result ::
  "(pyval list \<Rightarrow> pyval list py) \<Rightarrow> world \<Rightarrow> case_context \<Rightarrow> int \<Rightarrow> int \<Rightarrow> case_result py" where
  "exited_result other w cc server_code client_code = (
     if \<not> summary_exists w Server \<or> \<not> summary_exists w Client
     then Inr (make_result cc ''failed''
            (incomplete_case_reason w (missing_summary_reason w server_code (Some client_code)))
            (Some server_code) (Some client_code))
     else
       py_bind (read_json (summary_path Server cc) (wo_summary w Server)) (\<lambda>server_payload.
       py_bind (read_json (summary_path Client cc) (wo_summary w Client)) (\<lambda>client_payload.
         let (matches, reason) = compared other (cc_scenario cc) server_payload client_payload
         in Inr (if \<not> matches then make_result cc ''failed'' reason (Some server_code) (Some client_code)
                 else if server_code \<noteq> 0 \<or> client_code \<noteq> 0
                 then make_result cc ''failed'' ''One or more adapters exited non-zero''
                        (Some server_code) (Some client_code)
                 else make_result cc ''passed'' reason (Some server_code) (Some client_code)))))"

definition launched_result ::
  "(pyval list \<Rightarrow> pyval list py) \<Rightarrow> world \<Rightarrow> case_context \<Rightarrow> launch_spec \<Rightarrow> launch_spec \<Rightarrow> case_result py" where
  "launched_result other w cc server_launch client_launch = (case wo_run_pair w server_launch client_launch of
     Server_not_started e \<Rightarrow> Inl e
   | Pair_failed e server_code client_code \<Rightarrow>
       Inr (make_result cc ''failed''
         (incomplete_case_reason w (if exc_text e = [] then exc_name e else exc_text e))
         (Some server_code) client_code)
   | Pair_exited server_code client_code \<Rightarrow> exited_result other w cc server_code client_code)"

definition unlaunchable_reason ::
  "case_context \<Rightarrow> launch_spec option \<Rightarrow> launch_spec option \<Rightarrow> pydict option \<Rightarrow> pydict option \<Rightarrow> string" where
  "unlaunchable_reason cc server_launch client_launch server_build client_build = (
     if server_launch = None \<and> server_build \<noteq> None
     then cc_server_impl cc @ '' server adapter was built but no runnable artifact ''
          @ ''was available for the test matrix''
     else if client_launch = None \<and> client_build \<noteq> None
     then cc_client_impl cc @ '' client adapter was built but no runnable artifact ''
          @ ''was available for the test matrix''
     else ''Required runtime toolchain is not available for this adapter'')"

definition not_built :: "pydict option \<Rightarrow> bool" where
  "not_built b \<longleftrightarrow> (case b of None \<Rightarrow> False | Some d \<Rightarrow> py_str (dict_get ''status'' d) \<noteq> ''built'')"

definition run_built_case ::
  "(pyval list \<Rightarrow> pyval list py) \<Rightarrow> world \<Rightarrow> case_context \<Rightarrow> pydict option \<Rightarrow> pydict option \<Rightarrow> case_result py" where
  "run_built_case other w cc server_build client_build =
     py_bind (role_args w Server cc) (\<lambda>server_extra.
     py_bind (build_role_command w (cc_server_impl cc) Server (summary_path Server cc)
                (ready_path Server cc) (registry_path cc) server_extra server_build) (\<lambda>server_launch.
     py_bind (role_args w Client cc) (\<lambda>client_extra.
     py_bind (build_role_command w (cc_client_impl cc) Client (summary_path Client cc)
                (ready_path Client cc) (registry_path cc) client_extra client_build) (\<lambda>client_launch.
       case (server_launch, client_launch) of
         (Some sl, Some cl) \<Rightarrow> launched_result other w cc sl cl
       | _ \<Rightarrow> Inr (make_result cc ''failed''
                (unlaunchable_reason cc server_launch client_launch server_build client_build) None None)))))"

definition run_context ::
  "(pyval list \<Rightarrow> pyval list py) \<Rightarrow> world \<Rightarrow> case_context \<Rightarrow> build_index \<Rightarrow> case_result py" where
  "run_context other w cc index =
     py_bind (case_role_spec Server cc) (\<lambda>server.
       if \<not> rs_supported server then run_unsupported_role w cc Server None
       else py_bind (case_role_spec Client cc) (\<lambda>client.
         if \<not> rs_supported client then run_unsupported_role w cc Client None
         else py_bind (capability_failure Server cc) (\<lambda>server_reason.
           if server_reason \<noteq> None then run_unsupported_role w cc Server server_reason
           else py_bind (capability_failure Client cc) (\<lambda>client_reason.
             if client_reason \<noteq> None then run_unsupported_role w cc Client client_reason
             else
               let server_build = role_build_result server index;
                   client_build = role_build_result client index
               in if not_built server_build
                  then run_failfast_role w cc Server (map_option build_failure_reason server_build)
                  else if not_built client_build
                  then run_failfast_role w cc Client (map_option build_failure_reason client_build)
                  else run_built_case other w cc server_build client_build))))"

record case_request =
  rq_results_dir :: string
  rq_scenario_id :: string
  rq_server_impl :: string
  rq_client_impl :: string
  rq_timeout :: string
  rq_slot_index :: nat
  rq_environment_id :: "string option"
  rq_environment_name :: "string option"

definition run_case ::
  "(pyval list \<Rightarrow> pyval list py) \<Rightarrow> world \<Rightarrow> build_index \<Rightarrow> case_request \<Rightarrow> case_result py" where
  "run_case other w index rq = py_bind (require_scenario (rq_scenario_id rq)) (\<lambda>scenario.
     let environment = resolve_environment (wo_system w) (rq_environment_id rq) (rq_environment_name rq)
     in run_context other w
          \<lparr>cc_results_dir = rq_results_dir rq, cc_environment_id = env_id environment,
           cc_environment_name = env_name environment, cc_scenario = scenario,
           cc_server_impl = rq_server_impl rq, cc_client_impl = rq_client_impl rq,
           cc_timeout = rq_timeout rq, cc_slot_index = rq_slot_index rq\<rparr> index)"

section \<open>Running the matrix\<close>

text \<open>The cases in run order: slot, scenario, server and client.\<close>

definition matrix_cases ::
  "string option \<Rightarrow> string option \<Rightarrow> (nat \<times> string \<times> string \<times> string) list py" where
  "matrix_cases from_filter to_filter =
     py_bind (parse_implementation_filter from_filter) (\<lambda>servers.
     py_bind (parse_implementation_filter to_filter) (\<lambda>clients.
       Inr (enumerate 0 (concat (map (\<lambda>scenario.
         concat (map (\<lambda>server. map (\<lambda>client. (ss_id scenario, server, client))
             (implementations_with_role Client (Some clients)))
           (implementations_for_scenario Server scenario (Some servers)))) SCENARIO_LIST)))))"

text \<open>
  The cases run concurrently, each with the world it meets; \<open>asyncio.gather\<close> keeps their order and
  raises the first exception.
\<close>

definition run_matrix ::
  "(pyval list \<Rightarrow> pyval list py) \<Rightarrow> (nat \<Rightarrow> world) \<Rightarrow> string \<Rightarrow> string option \<Rightarrow> string option \<Rightarrow> string
   \<Rightarrow> int \<Rightarrow> pyval list \<Rightarrow> string option \<Rightarrow> string option \<Rightarrow> case_result list py" where
  "run_matrix other worlds results_dir from_filter to_filter timeout jobs build_results
     environment_id environment_name = (
     if jobs \<le> 0 then Inl (PyExc ''ValueError'' (''jobs must be positive, got '' @ int_str jobs))
     else py_bind (matrix_cases from_filter to_filter) (\<lambda>cases.
       collect (map (\<lambda>(slot, scenario_id, server, client).
         run_case other (worlds slot) (build_result_index build_results)
           \<lparr>rq_results_dir = join_path results_dir ''data'', rq_scenario_id = scenario_id,
            rq_server_impl = server, rq_client_impl = client, rq_timeout = timeout,
            rq_slot_index = slot, rq_environment_id = environment_id,
            rq_environment_name = environment_name\<rparr>) cases)))"

end
