(* ===== verification/Format_Facts.thy ===== *)
theory Format_Facts
  imports Declared_Formats
begin

text \<open>
  Facts about declared formats: keys identify formats, the loops over declarations and observations
  compute what a one-line reference says, casefolding is idempotent, labels fail only for a sample
  rate no float can hold, and the report counts what the cases observed.
\<close>

section \<open>Keys and normal forms\<close>

lemma format_key_inj [simp]: "format_key (f :: audio_format) = format_key g \<longleftrightarrow> f = g"
  by (cases f; cases g) (simp add: format_key_def)

lemma format_key_image [simp]: "format_key (f :: audio_format) \<in> format_key ` A \<longleftrightarrow> f \<in> A"
  by (auto simp: image_iff)

lemma format_key_eq_iff:
  "format_key f = format_key g \<longleftrightarrow> codec f = codec g \<and> sample_rate f = sample_rate g
     \<and> bit_depth f = bit_depth g \<and> channels f = channels g"
  by (simp add: format_key_def)

definition same_for_spec :: "'a audio_format_scheme \<Rightarrow> 'b audio_format_scheme \<Rightarrow> bool" where
  "same_for_spec f g \<longleftrightarrow> codec f = codec g \<and> sample_rate f = sample_rate g \<and> channels f = channels g
     \<and> (codec f = ''opus'' \<or> bit_depth f = bit_depth g)"

lemma comparable_key_eq_iff: "comparable_key f = comparable_key g \<longleftrightarrow> same_for_spec f g"
  by (auto simp: comparable_key_def same_for_spec_def format_key_def)

lemma code_of_char_of: "code_of (char_of n) = n mod 256"
  by (simp add: code_of_def)

lemma code_of_lower_char:
  "code_of (lower_char c) = (if (65 \<le> code_of c \<and> code_of c \<le> 90)
     \<or> (192 \<le> code_of c \<and> code_of c \<le> 222 \<and> code_of c \<noteq> 215) then code_of c + 32 else code_of c)"
  by (auto simp: lower_char_def Let_def code_of_char_of)

lemma lower_char_idem [simp]: "lower_char (lower_char c) = lower_char c"
proof -
  have "\<not> ((65 \<le> code_of (lower_char c) \<and> code_of (lower_char c) \<le> 90)
     \<or> (192 \<le> code_of (lower_char c) \<and> code_of (lower_char c) \<le> 222 \<and> code_of (lower_char c) \<noteq> 215))"
    by (auto simp: code_of_lower_char)
  then show ?thesis unfolding lower_char_def [of "lower_char c"] Let_def by (rule if_not_P)
qed

lemma casefold_char:
  "casefold (if code_of c = 223 then ''ss'' else [lower_char c])
     = (if code_of c = 223 then ''ss'' else [lower_char c])"
proof -
  have "casefold ''ss'' = ''ss''" by code_simp
  moreover have "code_of c \<noteq> 223 \<Longrightarrow> code_of (lower_char c) \<noteq> 223"
    by (auto simp: code_of_lower_char)
  ultimately show ?thesis by (simp add: casefold_def)
qed

lemma casefold_append: "casefold (a @ b) = casefold a @ casefold b"
  by (simp add: casefold_def)

lemma casefold_Cons: "casefold (c # s) = (if code_of c = 223 then ''ss'' else [lower_char c]) @ casefold s"
  by (simp add: casefold_def)

lemma casefold_idem [simp]: "casefold (casefold s) = casefold s"
proof (induction s)
  case Nil
  show ?case by (simp add: casefold_def)
next
  case (Cons c s)
  then show ?case unfolding casefold_Cons [of c s] casefold_append casefold_char by (rule arg_cong)
qed

lemma casefold_eq_Nil [simp]: "casefold s = [] \<longleftrightarrow> s = []"
proof (cases s)
  case (Cons c cs)
  show ?thesis unfolding Cons casefold_Cons by simp
qed (simp add: casefold_def)

text \<open>The JSON of a normalized format, as the summaries and the report write it.\<close>

definition format_json :: "'a audio_format_scheme \<Rightarrow> pyval" where
  "format_json f = VDict [(''codec'', VStr (codec f)), (''sample_rate'', VInt (sample_rate f)),
     (''bit_depth'', VInt (bit_depth f)), (''channels'', VInt (channels f))]"

lemma normalized_format_eq_Some:
  "normalized_format v = Some f \<longleftrightarrow> (\<exists>d c. v = VDict d \<and> dict_get ''codec'' d = VStr c \<and> c \<noteq> []
     \<and> codec f = casefold c \<and> dict_get ''sample_rate'' d = VInt (sample_rate f)
     \<and> dict_get ''bit_depth'' d = VInt (bit_depth f) \<and> dict_get ''channels'' d = VInt (channels f))"
  by (cases f) (auto simp: normalized_format_def bind_eq_Some_conv split: pyval.splits)

lemma normalized_format_json: "normalized_format v = Some f \<Longrightarrow> normalized_format (format_json f) = Some f"
  by (cases f) (auto simp: normalized_format_eq_Some format_json_def)

section \<open>Labels\<close>

lemma int_div_error: "int_div a b = Inl e \<Longrightarrow> e = OverflowError"
  by (auto simp: int_div_def split: option.splits)

lemma int_div_total:
  assumes "0 < b" "\<bar>a\<bar> < 2 ^ 64"
  shows "\<exists>r. int_div a b = Inr r"
proof -
  have "f64 (of_int c / of_int b) = Some (round_pos (of_int c / of_int b))" if "0 < c" "c < 2 ^ 64" for c
  proof (rule f64_pos)
    show "0 < (of_int c :: rat) / of_int b" using that assms(1) by simp
    have "(of_int c :: rat) / of_int b \<le> of_int c"
      using that assms(1) by (simp add: pos_divide_le_eq mult_le_cancel_left1)
    also have "\<dots> < of_int (2 ^ 64)" using that(2) by (simp only: of_int_less_iff)
    also have "\<dots> = pow2 64" by (simp add: pow2_def)
    also have "\<dots> < pow2 1000" by (intro pow2_less) simp
    finally show "(of_int c :: rat) / of_int b < pow2 1000" .
  qed
  note pos = this
  consider "a = 0" | "0 < a" | "a < 0" by linarith
  then show ?thesis
  proof cases
    case 3
    have "f64 (of_int a / of_int b) \<noteq> None"
      using pos [of "- a"] 3 assms
      by (auto simp: f64_def Let_def divide_less_0_iff split: if_splits)
    then show ?thesis by (auto simp: int_div_def split: option.splits)
  qed (use pos [of a] assms in \<open>auto simp: int_div_def f64_zero\<close>)
qed

lemma format_label_total: "\<bar>sample_rate f\<bar> < 2 ^ 64 \<Longrightarrow> \<exists>l. format_label f = Inr l"
  using int_div_total [of 1000 "sample_rate f"] by (auto simp: format_label_def)

section \<open>The declared list\<close>

lemma declare_entries_run:
  "set (ds_seen st) = format_key ` set (ds_declared st) \<Longrightarrow> distinct (ds_declared st) \<Longrightarrow>
   ds_declared (declare_entries es st)
     = first_occurrences (ds_declared st @ List.map_filter normalized_format es) \<and>
   ds_unreadable (declare_entries es st)
     = ds_unreadable st @ map (\<lambda>e. \<lparr>ur_value = e, ur_reason = NOT_A_FORMAT\<rparr>)
                            (filter (\<lambda>e. normalized_format e = None) es)"
proof (induction es arbitrary: st)
  case Nil
  then show ?case by (simp add: first_occurrences_distinct map_filter_simps)
next
  case (Cons e es)
  show ?case
  proof (cases "normalized_format e")
    case None
    then show ?thesis
      using Cons.IH [of "st\<lparr>ds_unreadable := ds_unreadable st @ [\<lparr>ur_value = e, ur_reason = NOT_A_FORMAT\<rparr>]\<rparr>"] Cons.prems
      by (simp add: map_filter_simps)
  next
    case (Some f)
    have seen: "format_key f \<in> set (ds_seen st) \<longleftrightarrow> f \<in> set (ds_declared st)"
      using Cons.prems(1) by auto
    show ?thesis
    proof (cases "f \<in> set (ds_declared st)")
      case True
      then show ?thesis
        using Cons.IH [of st] Cons.prems Some seen by (simp add: map_filter_simps first_occurrences_repeat)
    next
      case False
      then show ?thesis
        using Cons.IH [of "st\<lparr>ds_seen := format_key f # ds_seen st, ds_declared := ds_declared st @ [f]\<rparr>"]
          Cons.prems Some seen by (simp add: map_filter_simps)
    qed
  qed
qed

lemma declared_formats_of_list:
  assumes "supported_formats s = VList es"
  shows "declared_formats s =
    (first_occurrences (List.map_filter normalized_format es),
     map (\<lambda>e. \<lparr>ur_value = e, ur_reason = NOT_A_FORMAT\<rparr>) (filter (\<lambda>e. normalized_format e = None) es))"
  using declare_entries_run [of "\<lparr>ds_declared = [], ds_unreadable = [], ds_seen = []\<rparr>" es]
  by (subst declared_formats_def) (simp add: assms Let_def)

section \<open>The negotiated list\<close>

definition readable_candidates :: "(string \<times> pyval) list \<Rightarrow> (string \<times> audio_format) list" where
  "readable_candidates cs =
     List.map_filter (\<lambda>(s, v). map_option (Pair s) (normalized_format v)) cs"

lemma readable_candidates_simps [simp]:
  "readable_candidates [] = []"
  "readable_candidates ((s, v) # cs) = (case normalized_format v of
     None \<Rightarrow> readable_candidates cs | Some f \<Rightarrow> (s, f) # readable_candidates cs)"
  by (auto simp: readable_candidates_def map_filter_simps split: option.splits)

lemma append_under_new: "k \<notin> set (map fst d) \<Longrightarrow> append_under k v d = d @ [(k, [v])]"
  by (induction d) auto

lemma negotiate_run:
  "map fst srcs = map format_key negotiated \<Longrightarrow> distinct negotiated \<Longrightarrow>
   negotiate cs negotiated srcs =
     (first_occurrences (negotiated @ map snd (readable_candidates cs)),
      foldl (\<lambda>d x. append_under (format_key (snd x)) (fst x) d) srcs (readable_candidates cs))"
proof (induction cs arbitrary: negotiated srcs)
  case Nil
  then show ?case by (simp add: first_occurrences_distinct)
next
  case (Cons c cs)
  obtain s v where c: "c = (s, v)" by (cases c)
  show ?case
  proof (cases "normalized_format v")
    case None
    then show ?thesis using Cons c by simp
  next
    case (Some f)
    have "fst ` set srcs = format_key ` set negotiated"
      using arg_cong [OF Cons.prems(1), of set] by simp
    then have seen: "format_key f \<in> fst ` set srcs \<longleftrightarrow> f \<in> set negotiated" by auto
    show ?thesis
    proof (cases "f \<in> set negotiated")
      case True
      then have "map fst (append_under (format_key f) s srcs) = map format_key negotiated"
        using Cons.prems(1) seen by (simp add: keys_append_under)
      then show ?thesis
        using Cons.IH [of "append_under (format_key f) s srcs" negotiated] Cons.prems Some seen True c
        by (simp add: first_occurrences_repeat)
    next
      case False
      then have "append_under (format_key f) s srcs = srcs @ [(format_key f, [s])]"
        using seen by (simp add: append_under_new)
      then show ?thesis
        using Cons.IH [of "srcs @ [(format_key f, [s])]" "negotiated @ [f]"] Cons.prems Some seen False c
        by simp
    qed
  qed
qed

lemma negotiated_formats_eq:
  "negotiated_formats server_summary client_summary = (
     let cs = readable_candidates (format_candidates server_summary client_summary) in
     map (\<lambda>f. audio_format.extend f \<lparr>sources = map fst (filter (\<lambda>x. snd x = f) cs)\<rparr>)
         (first_occurrences (map snd cs)))"
proof -
  define cs where "cs = readable_candidates (format_candidates server_summary client_summary)"
  have "negotiate (format_candidates server_summary client_summary) [] [] =
      (first_occurrences (map snd cs), group_by (\<lambda>x. format_key (snd x)) fst cs)"
    by (simp add: negotiate_run cs_def group_by_def)
  then show ?thesis
    by (simp add: negotiated_formats_def Let_def group_of_group_by cs_def [symmetric])
qed

section \<open>Verdicts\<close>

lemma label_error: "format_label f = Inl e \<Longrightarrow> e = OverflowError"
  by (auto simp: format_label_def py_simps dest: int_div_error)

lemma labels_error: "format_labels fs = Inl e \<Longrightarrow> e = OverflowError"
  by (auto simp: format_labels_def py_simps dest!: collect_Inl sym [of "Inl _"] label_error)

lemma labels_total:
  "list_all (\<lambda>f. \<bar>sample_rate f\<bar> < 2 ^ 64) fs \<Longrightarrow> \<exists>l. format_labels fs = Inr l"
  using collect_total [of fs format_label] format_label_total
  by (fastforce simp: format_labels_def list_all_iff)

lemma same_for_spec_extend [simp]:
  "same_for_spec (audio_format.extend f m) g \<longleftrightarrow> same_for_spec f g"
  by (simp add: same_for_spec_def audio_format.defs)

lemma undeclared_formats_Nil_iff:
  "undeclared_formats s c = [] \<longleftrightarrow>
     list_all (\<lambda>(src, f). list_ex (same_for_spec f) (fst (declared_formats s)))
       (readable_candidates (format_candidates s c))"
  by (force simp: undeclared_formats_def Let_def filter_empty_conv negotiated_formats_eq
      list_all_iff list_ex_iff image_iff comparable_key_eq_iff)

lemma undeclared_format_None_iff:
  "undeclared_format_violation s c = Inr None \<longleftrightarrow>
     fst (declared_formats s) = [] \<or> snd (declared_formats s) \<noteq> [] \<or> undeclared_formats s c = []"
  by (auto simp: undeclared_format_violation_def split_beta Let_def py_simps)

lemma undeclared_format_error: "undeclared_format_violation s c = Inl e \<Longrightarrow> e = OverflowError"
  by (auto simp: undeclared_format_violation_def split_beta Let_def py_simps observed_label_def
      split: if_splits dest!: labels_error collect_Inl sym [of "Inl _"] label_error)

lemma format_priority_None_iff:
  assumes "list_all (\<lambda>f. \<bar>sample_rate f\<bar> < 2 ^ 64) (fst (declared_formats s))"
  shows "format_priority_violation s p = Inr None \<longleftrightarrow>
     snd (declared_formats s) = [] \<and> fst (declared_formats s) \<noteq> []
     \<and> codec (hd (fst (declared_formats s))) = p
     \<and> list_ex (\<lambda>f. codec f \<in> set MANDATORY_CODECS) (fst (declared_formats s))
     \<and> (case normalized_format (dict_get ''stream'' s) of None \<Rightarrow> True
        | Some f \<Rightarrow> codec f = p \<or> \<not> list_ex (\<lambda>g. codec g = codec f) (fst (declared_formats s)))"
proof -
  obtain l where l: "format_labels (fst (declared_formats s)) = Inr l"
    using labels_total [OF assms] by blast
  have ex: "list_ex (\<lambda>c. c \<in> set MANDATORY_CODECS) (map codec fs)
      \<longleftrightarrow> list_ex (\<lambda>f. codec f \<in> set MANDATORY_CODECS) fs" for fs :: "audio_format list"
    by (simp add: list_ex_iff)
  have mem: "list_ex (\<lambda>g. codec g = k) fs \<longleftrightarrow> k \<in> codec ` set fs" for k and fs :: "audio_format list"
    by (auto simp: list_ex_iff image_iff)
  show ?thesis
    by (auto simp: format_priority_violation_def split_beta Let_def l ex mem hd_map py_simps
        split: option.split)
qed

lemma stream_bit_depth_None_iff:
  assumes "list_all (\<lambda>f. \<bar>sample_rate f\<bar> < 2 ^ 64) (fst (declared_formats s))"
  shows "stream_bit_depth_violation s c depth = Inr None \<longleftrightarrow>
     (\<exists>f. normalized_format (dict_get ''stream'' s) = Some f \<and> bit_depth f = depth)
     \<and> (case normalized_format (dict_get ''stream'' c) of None \<Rightarrow> True | Some g \<Rightarrow> bit_depth g = depth)"
proof -
  obtain l where l: "format_labels (fst (declared_formats s)) = Inr l"
    using labels_total [OF assms] by blast
  show ?thesis
    by (cases "normalized_format (dict_get ''stream'' s)")
       (auto simp: stream_bit_depth_violation_def split_beta Let_def offered_or_none_def l py_simps
          split: option.split)
qed

section \<open>The report\<close>

lemma insort_key_map: "insort_key h (g x) (map g xs) = map g (insort_key (\<lambda>x. h (g x)) x xs)"
  by (induction xs) auto

lemma sort_key_map: "sort_key h (map g xs) = map g (sort_key (\<lambda>x. h (g x)) xs)"
  by (induction xs) (simp_all add: sort_key_simps insort_key_map)

lemma set_default_fold:
  "foldl (\<lambda>d (c, f). set_default (format_key f) f d) (map (\<lambda>f. (format_key f, f)) fs) xs
     = map (\<lambda>f. (format_key f, f :: audio_format))
         (fs @ filter (\<lambda>f. f \<notin> set fs) (first_occurrences (map snd xs)))"
proof (induction xs arbitrary: fs)
  case (Cons x xs)
  obtain c f where x: "x = (c, f)" by (cases x)
  have step: "set_default (format_key f) f (map (\<lambda>f. (format_key f, f)) fs)
      = map (\<lambda>f. (format_key f, f)) (if f \<in> set fs then fs else fs @ [f])"
    by (simp add: set_default_def image_image)
  have "filter (\<lambda>g. g \<notin> set fs) (filter (\<lambda>g. g \<noteq> f) ys) = filter (\<lambda>g. g \<notin> set (fs @ [f])) ys" for ys
    by (auto intro: filter_cong)
  moreover have "f \<in> set fs \<Longrightarrow> filter (\<lambda>g. g \<notin> set (fs @ [f])) ys = filter (\<lambda>g. g \<notin> set fs) ys" for ys
    by (auto intro: filter_cong)
  ultimately show ?case
    using Cons.IH [of fs] Cons.IH [of "fs @ [f]"]
    by (cases "f \<in> set fs") (simp_all add: x step)
qed simp

lemma group_of_nonempty: "group_of k (group_by key val xs) \<noteq> [] \<longleftrightarrow> (\<exists>x \<in> set xs. key x = k)"
  by (auto simp: group_of_group_by filter_empty_conv)

definition observed_by :: "case_declaration list \<Rightarrow> 'a audio_format_scheme \<Rightarrow> bool" where
  "observed_by cases f \<longleftrightarrow>
     list_ex (\<lambda>c. list_ex (\<lambda>g. format_key g = format_key f) (cd_negotiated c)) cases"

lemma implementation_report_entries:
  assumes "implementation_report n cases = Inr r"
  shows "ie_implementation r = n \<and>
    list_all2 (\<lambda>f e. format_key e = format_key f \<and> fe_exercised e = observed_by cases f)
      (sort_key format_key (first_occurrences (concat (map cd_declared cases)))) (ie_formats r)"
proof -
  have formats: "foldl (\<lambda>d (c, f). set_default (format_key f) f d) [] (declared_claims cases)
      = map (\<lambda>f. (format_key f, f)) (first_occurrences (concat (map cd_declared cases)))"
    using set_default_fold [of "[]" "declared_claims cases"]
    by (simp add: declared_claims_def map_concat o_def)
  have used: "(\<exists>x \<in> set (negotiated_claims cases). (case x of (c, f) \<Rightarrow> format_key f) = format_key g)
      \<longleftrightarrow> observed_by cases g" for g :: audio_format
    by (force simp: negotiated_claims_def observed_by_def list_ex_iff)
  have key: "format_key (audio_format.extend f m) = format_key f" for f :: audio_format and m :: 'm
    by (simp add: format_key_def audio_format.defs)
  have exercised: "fe_exercised (audio_format.extend f
      \<lparr>fe_label = l, fe_exercised = x, fe_declared_by = ds, fe_exercised_by = es\<rparr>) = x"
    for f :: audio_format and l x ds es
    by (simp add: audio_format.defs)
  have ordered: "sort_key fst (map (\<lambda>f. (format_key f, f)) fs)
      = map (\<lambda>f. (format_key f, f)) (sort_key format_key fs)" for fs :: "audio_format list"
    by (simp add: sort_key_map)
  from assms show ?thesis
    unfolding implementation_report_def Let_def formats ordered py_bind_Inr_iff collect_map_iff
      list_all2_map1 group_of_nonempty prod.case used
    by (auto simp: key exercised py_simps elim!: list_all2_mono)
qed

lemma set_ordered_clients [simp]: "set (ordered_clients known present) = set present"
  by (auto simp: ordered_clients_def)

lemma collected_report:
  assumes "collect_declared_formats files results = Inr p"
  shows "dp_cases p = case_declarations files results"
    and "e \<in> set (dp_implementations p) \<Longrightarrow>
      implementation_report (ie_implementation e)
        (filter (\<lambda>c. cd_client_impl c = ie_implementation e) (dp_cases p)) = Inr e"
    and "c \<in> set (dp_cases p) \<Longrightarrow> cd_declared c \<noteq> [] \<Longrightarrow>
      \<exists>e \<in> set (dp_implementations p). ie_implementation e = cd_client_impl c"
proof -
  define cases where "cases = case_declarations files results"
  define groups where "groups = group_by cd_client_impl (\<lambda>c. c) cases"
  define names where "names = ordered_clients implementation_names (map fst groups)"
  have of: "group_of n groups = filter (\<lambda>c. cd_client_impl c = n) cases" for n
    by (simp add: groups_def group_of_group_by)
  have keys: "set names = cd_client_impl ` set cases"
    using arg_cong [OF keys_group_by [of cd_client_impl "\<lambda>c. c" cases], of set]
    by (simp add: names_def groups_def)
  obtain es where es: "list_all2 (\<lambda>n e. implementation_report n (group_of n groups) = Inr e) names es"
    and p: "dp_cases p = cases"
      "dp_implementations p = filter (\<lambda>e. ie_formats e \<noteq> [] \<or> ie_unreadable e \<noteq> []) es"
    using assms
    by (auto simp: collect_declared_formats_def Let_def py_simps collect_map_iff
        cases_def [symmetric] groups_def [symmetric] names_def [symmetric])
  show "dp_cases p = case_declarations files results" by (simp add: p cases_def)
  show "implementation_report (ie_implementation e)
      (filter (\<lambda>c. cd_client_impl c = ie_implementation e) (dp_cases p)) = Inr e"
    if "e \<in> set (dp_implementations p)"
  proof -
    from that obtain n where n: "implementation_report n (group_of n groups) = Inr e"
      using es by (auto simp: p list_all2_conv_all_nth in_set_conv_nth)
    then have "ie_implementation e = n" using implementation_report_entries by blast
    with n show ?thesis by (simp add: p of)
  qed
  show "\<exists>e \<in> set (dp_implementations p). ie_implementation e = cd_client_impl c"
    if c: "c \<in> set (dp_cases p)" "cd_declared c \<noteq> []"
  proof -
    have "cd_client_impl c \<in> set names" using c by (simp add: keys p)
    then obtain e where e: "e \<in> set es"
        "implementation_report (cd_client_impl c) (group_of (cd_client_impl c) groups) = Inr e"
      using es by (auto simp: list_all2_conv_all_nth in_set_conv_nth) (metis nth_mem)
    have "c \<in> set (group_of (cd_client_impl c) groups)" using c by (simp add: of p)
    then have "concat (map cd_declared (group_of (cd_client_impl c) groups)) \<noteq> []"
      using c(2) by auto
    then have "length (sort_key format_key (first_occurrences
        (concat (map cd_declared (group_of (cd_client_impl c) groups))))) \<noteq> 0"
      by (simp add: set_empty [symmetric] del: set_empty)
    moreover have "length (sort_key format_key (first_occurrences
        (concat (map cd_declared (group_of (cd_client_impl c) groups))))) = length (ie_formats e)"
      using implementation_report_entries [OF e(2)] list_all2_lengthD by blast
    ultimately have "ie_formats e \<noteq> []" by auto
    then show ?thesis
      using e implementation_report_entries [OF e(2)] by (auto simp: p)
  qed
qed

end
