(* ===== verification/Framing_Facts.thy ===== *)
theory Framing_Facts
  imports Chunk_Framing Format_Facts Protocol_Facts
begin

text \<open>
  Facts about chunk framing: the float comparisons of the duration rule decide the exact inequality
  for every stream below \<open>2\<^sup>3\<^sup>6\<close> bytes a second, hexadecimal printing is read back, and the verdict
  passes exactly on the frames the protocol describes.
\<close>

section \<open>Durations are compared exactly\<close>

lemma quotient_rounds:
  assumes "0 < b" "0 < a" "a < 2 ^ 100"
  shows "int_div a b = Inr (round_pos (of_int a / of_int b))"
proof -
  have "(of_int a :: rat) / of_int b \<le> of_int a"
    using assms by (simp add: pos_divide_le_eq mult_le_cancel_left1)
  also have "\<dots> < of_int (2 ^ 100)" using assms(3) by (simp only: of_int_less_iff)
  also have "\<dots> = pow2 100" by (simp add: pow2_def)
  also have "\<dots> < pow2 1000" by (intro pow2_less) simp
  finally have "f64 (of_int a / of_int b) = Some (round_pos (of_int a / of_int b))"
    using assms by (intro f64_pos) simp_all
  then show ?thesis by (simp add: int_div_def)
qed

lemma quotient_apart:
  assumes b: "0 < b" "b < 2 ^ 36" and t: "t * b < a"
  shows "of_int t + pow2 (- 36) < (of_int a / of_int b :: rat)"
proof -
  have "of_int (t * b + 1) \<le> (of_int a :: rat)" using t by (simp only: of_int_le_iff)
  then have "(of_int t + 1 / of_int b) * of_int b \<le> (of_int a :: rat)"
    using b(1) by (simp add: distrib_right)
  then have "of_int t + 1 / of_int b \<le> (of_int a / of_int b :: rat)"
    using b(1) by (subst pos_le_divide_eq) simp_all
  moreover have "pow2 (- 36) < (1 / of_int b :: rat)"
  proof -
    have "(of_int b :: rat) < of_int (2 ^ 36)" using b(2) by (simp only: of_int_less_iff)
    then show ?thesis using b(1) by (simp add: pow2_def field_simps)
  qed
  ultimately show ?thesis by linarith
qed

lemma quotient_below:
  assumes b: "0 < b" "b < 2 ^ 36" and t: "a < t * b"
  shows "(of_int a / of_int b :: rat) < of_int t - pow2 (- 36)"
proof -
  have "(- t) * b < - a" using t by simp
  from quotient_apart [OF b this] show ?thesis by simp
qed

lemma duration_compared_exactly:
  assumes b: "0 < b" "b < 2 ^ 36" and c: "0 \<le> c" "c < 2 ^ 64"
  obtains d where "int_div (c * 1000000) b = Inr d"
    and "d > of_int MAX_CHUNK_US \<longleftrightarrow> c * 1000000 > MAX_CHUNK_US * b"
    and "d < of_int MIN_CHUNK_US \<longleftrightarrow> c * 1000000 < MIN_CHUNK_US * b"
proof (cases "c = 0")
  case True
  have "int_div (c * 1000000) b = Inr 0" using True by (simp add: int_div_def f64_zero)
  moreover have "\<not> MAX_CHUNK_US * b < 0" "0 < MIN_CHUNK_US * b"
    using b(1) by (simp_all add: MAX_CHUNK_US_def MIN_CHUNK_US_def)
  ultimately show ?thesis using that [of 0] True by (simp add: MAX_CHUNK_US_def MIN_CHUNK_US_def)
next
  case False
  define a where "a = c * 1000000"
  define x :: rat where "x = of_int a / of_int b"
  have a: "0 < a" "a < 2 ^ 100" using c False by (simp_all add: a_def)
  have x: "0 < x" using a b by (simp add: x_def)
  have div: "int_div (c * 1000000) b = Inr (round_pos x)"
    using quotient_rounds [OF b(1) a] by (simp add: x_def a_def)
  have ge: "of_int t \<le> x \<longleftrightarrow> t * b \<le> a" for t
  proof -
    have "of_int t \<le> x \<longleftrightarrow> (of_int (t * b) :: rat) \<le> of_int a"
      using b(1) by (simp add: x_def pos_le_divide_eq)
    then show ?thesis by (simp only: of_int_le_iff)
  qed
  have T1: "pow2 17 \<le> of_int MAX_CHUNK_US" "of_int MAX_CHUNK_US < pow2 (17 + 1)"
    by (simp_all add: MAX_CHUNK_US_def pow2_def)
  have T2: "pow2 13 \<le> of_int MIN_CHUNK_US" "of_int MIN_CHUNK_US < pow2 (13 + 1)"
    by (simp_all add: MIN_CHUNK_US_def pow2_def)
  have "round_pos x > of_int MAX_CHUNK_US \<longleftrightarrow> a > MAX_CHUNK_US * b"
  proof (cases "a > MAX_CHUNK_US * b")
    case True
    then show ?thesis
      using round_pos_above(2) [OF T1, of x] quotient_apart [OF b] by (simp add: x_def)
  next
    case False
    then have "x \<le> of_int MAX_CHUNK_US"
      using b(1) by (simp add: x_def pos_divide_le_eq flip: of_int_mult)
    moreover have "of_int MAX_CHUNK_US < pow2 52" by (simp add: MAX_CHUNK_US_def pow2_def)
    ultimately have "round_pos x \<le> of_int MAX_CHUNK_US" using x by (intro round_pos_le_int)
    with False show ?thesis by simp
  qed
  moreover have "round_pos x < of_int MIN_CHUNK_US \<longleftrightarrow> a < MIN_CHUNK_US * b"
  proof (cases "a < MIN_CHUNK_US * b")
    case True
    have "pow2 (13 - 53) < pow2 (- 36)" by (intro pow2_less) simp
    then show ?thesis
      using round_pos_below [OF T2 _ _ x] quotient_below [OF b True] True by (simp add: x_def)
  next
    case False
    then have "of_int MIN_CHUNK_US \<le> x" using ge by simp
    then have "of_int MIN_CHUNK_US \<le> round_pos x" using round_pos_above(1) [OF T2] by simp
    with False show ?thesis by simp
  qed
  ultimately show ?thesis using that [OF div] by (simp add: a_def)
qed

definition durations_ok :: "int \<Rightarrow> int list \<Rightarrow> bool" where
  "durations_ok bps payloads \<longleftrightarrow> list_all (\<lambda>(i, n). n * 1000000 \<le> MAX_CHUNK_US * bps
     \<and> (i = length payloads \<or> MIN_CHUNK_US * bps \<le> n * 1000000)) (enumerate 1 payloads)"

lemma all_enumerate:
  "(\<forall>p \<in> set (enumerate n xs). P p) \<longleftrightarrow> (\<forall>i < length xs. P (n + i, xs ! i))"
  by (induction xs arbitrary: n) (simp_all add: All_less_Suc2)

lemma payload_of_nonneg: "frame_of_record v = Some f \<Longrightarrow> 0 \<le> payload_of f"
  by (auto simp: frame_of_record_def payload_of_def count_of_def bind_eq_Some_conv
      split: pyval.splits if_splits option.splits)

lemma frames_of_records_iff:
  "frames_of_records vs = Some fs \<longleftrightarrow> list_all2 (\<lambda>v f. frame_of_record v = Some f) vs fs"
  by (induction vs arbitrary: fs) (auto simp: bind_eq_Some_conv list_all2_Cons1)

lemma transported_frames_payloads:
  "transported_frames v = Some fs \<Longrightarrow> list_all (\<lambda>f. 0 \<le> payload_of f) fs"
  by (auto simp: transported_frames_def frames_of_records_iff list_all_iff list_all2_conv_all_nth
      in_set_conv_nth split: pyval.splits) (blast intro: payload_of_nonneg)

lemma durations_verdict_passes:
  "fst (durations_verdict us) \<longleftrightarrow> list_all (\<lambda>(i, d). d \<le> of_int MAX_CHUNK_US
     \<and> (i = length us \<or> of_int MIN_CHUNK_US \<le> d)) (enumerate 1 us)"
  by (auto simp: durations_verdict_def first_reason_None list_all_iff duration_violation_def Let_def
      not_less first_reason_Some split: option.split if_splits)

lemma durations_judged:
  assumes b: "0 < bps" "bps < 2 ^ 36"
    and c: "list_all (\<lambda>f. 0 \<le> payload_of f) sent" "list_all (\<lambda>f. payload_of f < 2 ^ 64) sent"
  obtains us where "chunk_durations bps sent = Inr us"
    and "fst (durations_verdict us) = durations_ok bps (map payload_of sent)"
proof -
  define judged where "judged = (\<lambda>f d. int_div (payload_of f * 1000000) bps = Inr d
    \<and> (d > of_int MAX_CHUNK_US \<longleftrightarrow> payload_of f * 1000000 > MAX_CHUNK_US * bps)
    \<and> (d < of_int MIN_CHUNK_US \<longleftrightarrow> payload_of f * 1000000 < MIN_CHUNK_US * bps))"
  have "\<exists>us. list_all2 judged sent us"
    using c
  proof (induction sent)
    case (Cons f fs)
    then obtain us where "list_all2 judged fs us" by auto
    moreover obtain d where "judged f d"
      using duration_compared_exactly [OF b, of "payload_of f"] Cons.prems by (auto simp: judged_def)
    ultimately show ?case by (auto intro: list_all2_Cons [THEN iffD2, OF conjI])
  qed auto
  then obtain us where us: "list_all2 judged sent us" ..
  then have len: "length us = length sent" by (simp add: list_all2_lengthD)
  have at: "judged (sent ! i) (us ! i)" if "i < length sent" for i
    using us that by (simp add: list_all2_nthD)
  have "chunk_durations bps sent = Inr us"
    using us by (auto simp: chunk_durations_def collect_map_iff judged_def elim: list_all2_mono)
  moreover have "fst (durations_verdict us) = durations_ok bps (map payload_of sent)"
  proof -
    have "fst (durations_verdict us) \<longleftrightarrow> (\<forall>i < length sent. \<not> us ! i > of_int MAX_CHUNK_US
        \<and> (Suc i = length sent \<or> \<not> us ! i < of_int MIN_CHUNK_US))"
      by (simp add: durations_verdict_passes list_all_iff all_enumerate len not_less)
    also have "\<dots> \<longleftrightarrow> (\<forall>i < length sent. \<not> payload_of (sent ! i) * 1000000 > MAX_CHUNK_US * bps
        \<and> (Suc i = length sent \<or> \<not> payload_of (sent ! i) * 1000000 < MIN_CHUNK_US * bps))"
      using at by (simp add: judged_def)
    also have "\<dots> \<longleftrightarrow> durations_ok bps (map payload_of sent)"
      by (simp add: durations_ok_def list_all_iff all_enumerate not_less)
    finally show ?thesis .
  qed
  ultimately show ?thesis using that by blast
qed

section \<open>What passes\<close>

definition framed :: "chunk_frame list \<Rightarrow> bool" where
  "framed fs \<longleftrightarrow> list_all (\<lambda>f. header_bytes f = Some HEADER_BYTES) fs"

definition durations_conform :: "pydict \<Rightarrow> pydict \<Rightarrow> chunk_frame list \<Rightarrow> bool" where
  "durations_conform server_summary server_audio sent \<longleftrightarrow>
     dict_get ''chunked_by'' server_audio = VStr ''adapter''
     \<or> dict_get ''chunked_by'' server_audio = VStr ''implementation''
       \<and> (case normalized_format (dict_get ''stream'' server_summary) of None \<Rightarrow> False
          | Some f \<Rightarrow> codec f = ''pcm'' \<and> 0 < bytes_per_second (Some f)
                     \<and> durations_ok (bytes_per_second (Some f)) (map payload_of sent))"

definition sent_frames :: "pydict \<Rightarrow> (pydict \<times> chunk_frame list) option" where
  "sent_frames summary = Option.bind (dict_of (dict_get ''audio'' summary)) (\<lambda>audio.
     map_option (Pair audio) (transported_frames (dict_get ''sent_chunk_frames'' audio)))"

definition received_frames :: "pydict \<Rightarrow> chunk_frame list option" where
  "received_frames summary = Option.bind (dict_of (dict_get ''audio'' summary)) (\<lambda>audio.
     transported_frames (dict_get ''received_chunk_frames'' audio))"

text \<open>
  The rule: both sides are ok; the server sent audio chunks of the type and the header the protocol
  fixes, of the durations it allows; and the client recorded the same frames and read that header
  off each one.
\<close>

definition framing_conforms :: "pydict \<Rightarrow> pydict \<Rightarrow> bool" where
  "framing_conforms server_summary client_summary \<longleftrightarrow>
     dict_get ''status'' server_summary = VStr ''ok''
     \<and> dict_get ''status'' client_summary = VStr ''ok''
     \<and> (case (sent_frames server_summary, received_frames client_summary) of
          (Some (server_audio, sent), Some received) \<Rightarrow>
            sent \<noteq> [] \<and> framed sent \<and> list_all (\<lambda>f. leading_type f = AUDIO_CHUNK_TYPE) sent
            \<and> durations_conform server_summary server_audio sent
            \<and> framed received
            \<and> list_all2 (\<lambda>s r. cf_byte_count s = cf_byte_count r \<and> cf_leading s = cf_leading r)
                sent received
        | _ \<Rightarrow> False)"

text \<open>Sizes whose durations floats compare exactly.\<close>

definition measurable :: "pydict \<Rightarrow> bool" where
  "measurable server_summary \<longleftrightarrow>
     bytes_per_second (normalized_format (dict_get ''stream'' server_summary)) < 2 ^ 36
     \<and> (case sent_frames server_summary of None \<Rightarrow> True
        | Some (server_audio, sent) \<Rightarrow> list_all (\<lambda>f. payload_of f < 2 ^ 64) sent)"

lemma header_violation_None: "header_violation role fs = None \<longleftrightarrow> framed fs"
proof (cases "list_all (\<lambda>f. header_bytes f \<noteq> None) fs")
  case True
  then have "filter (\<lambda>f. header_bytes f = None) fs = []"
    by (simp add: filter_empty_conv list_all_iff)
  moreover have "filter (\<lambda>n. n \<noteq> HEADER_BYTES) (List.map_filter header_bytes fs) = [] \<longleftrightarrow> framed fs"
    using True by (induction fs) (auto simp: framed_def map_filter_simps split: if_splits)
  ultimately show ?thesis by (auto simp: header_violation_def Let_def)
next
  case False
  then have "\<not> framed fs" by (force simp: framed_def list_all_iff)
  moreover have "filter (\<lambda>f. header_bytes f = None) fs \<noteq> []"
    using False by (auto simp: filter_empty_conv list_all_iff)
  ultimately show ?thesis by (simp add: header_violation_def Let_def)
qed

lemma frame_types_None:
  "first_reason (frame_type_violation n) (enumerate (Suc 0) fs) = None
     \<longleftrightarrow> list_all (\<lambda>f. leading_type f = AUDIO_CHUNK_TYPE) fs"
  by (auto simp: first_reason_None all_enumerate frame_type_violation_def list_all_length)

lemma disagreement_None:
  assumes "length sent = length received"
  shows "first_reason (disagreement n) (enumerate (Suc 0) (zip sent received)) = None
     \<longleftrightarrow> list_all2 (\<lambda>s r. cf_byte_count s = cf_byte_count r \<and> cf_leading s = cf_leading r) sent received"
  using assms by (auto simp: first_reason_None all_enumerate disagreement_def list_all2_conv_all_nth)

lemma client_framing_passes:
  "fst (client_framing_verdict client_summary sent durations) \<longleftrightarrow>
     (case received_frames client_summary of None \<Rightarrow> False
      | Some received \<Rightarrow> framed received
          \<and> list_all2 (\<lambda>s r. cf_byte_count s = cf_byte_count r \<and> cf_leading s = cf_leading r) sent received)"
proof (cases "received_frames client_summary")
  case None
  then show ?thesis
    by (auto simp: client_framing_verdict_def received_frames_def split: pyval.splits option.splits)
next
  case (Some received)
  then obtain audio where audio: "dict_get ''audio'' client_summary = VDict audio"
      "transported_frames (dict_get ''received_chunk_frames'' audio) = Some received"
    by (auto simp: received_frames_def bind_eq_Some_conv)
  show ?thesis
  proof (cases "length sent = length received")
    case True
    note same = disagreement_None [OF True, of "length sent"]
    show ?thesis
    proof (cases "first_reason (disagreement (length sent)) (enumerate (Suc 0) (zip sent received))")
      case None
      then show ?thesis
        using same True header_violation_None [of "''client''" received]
        by (auto simp: client_framing_verdict_def audio Some split: option.split)
    next
      case (Some v)
      then show ?thesis
        using same True \<open>received_frames client_summary = Some received\<close>
        by (simp add: client_framing_verdict_def audio)
    qed
  next
    case False
    then show ?thesis
      by (auto simp: client_framing_verdict_def audio Some dest: list_all2_lengthD)
  qed
qed

lemma durations_conform_iff:
  assumes m: "bytes_per_second (normalized_format (dict_get ''stream'' s)) < 2 ^ 36"
    and c: "list_all (\<lambda>f. 0 \<le> payload_of f) sent" "list_all (\<lambda>f. payload_of f < 2 ^ 64) sent"
  obtains r where "chunk_durations_verdict s audio sent = Inr (durations_conform s audio sent, r)"
proof -
  have "\<exists>v. chunk_durations_verdict s audio sent = Inr v \<and> (fst v \<longleftrightarrow> durations_conform s audio sent)"
  proof (cases "normalized_format (dict_get ''stream'' s)")
    case None
    then show ?thesis
      by (auto simp: chunk_durations_verdict_def durations_conform_def Let_def)
  next
    case (Some f)
    show ?thesis
    proof (cases "0 < bytes_per_second (Some f)")
      case True
      then obtain us where "chunk_durations (bytes_per_second (Some f)) sent = Inr us"
          "fst (durations_verdict us) = durations_ok (bytes_per_second (Some f)) (map payload_of sent)"
        using durations_judged [OF True _ c] m Some by auto
      then show ?thesis
        using True Some by (cases "durations_verdict us")
          (auto simp: chunk_durations_verdict_def durations_conform_def Let_def)
    next
      case False
      then show ?thesis
        using Some by (auto simp: chunk_durations_verdict_def durations_conform_def Let_def)
    qed
  qed
  then obtain v where "chunk_durations_verdict s audio sent = Inr v" "fst v \<longleftrightarrow> durations_conform s audio sent" by blast
  then have "chunk_durations_verdict s audio sent = Inr (durations_conform s audio sent, snd v)" by (cases v) simp
  then show ?thesis by (rule that)
qed

lemma framing_verdict_exact:
  assumes m: "measurable s"
  obtains r where "chunk_framing_verdict s c = Inr (framing_conforms s c, r)"
proof -
  have "\<exists>v. chunk_framing_verdict s c = Inr v \<and> (fst v \<longleftrightarrow> framing_conforms s c)"
  proof (cases "status_failure s c = None \<and> sent_frames s \<noteq> None")
    case False
    then show ?thesis
      by (auto simp: chunk_framing_verdict_def framing_conforms_def status_failure_def sent_frames_def
          split: pyval.splits option.splits if_splits)
  next
    case True
    then obtain audio sent where sent: "dict_get ''audio'' s = VDict audio"
        "transported_frames (dict_get ''sent_chunk_frames'' audio) = Some sent"
        "sent_frames s = Some (audio, sent)"
      by (auto simp: sent_frames_def bind_eq_Some_conv)
    have status: "dict_get ''status'' s = VStr ''ok''" "dict_get ''status'' c = VStr ''ok''"
      using True by (auto simp: status_failure_def split: if_splits)
    have pay: "list_all (\<lambda>f. 0 \<le> payload_of f) sent" using sent(2) by (rule transported_frames_payloads)
    obtain r where r: "chunk_durations_verdict s audio sent = Inr (durations_conform s audio sent, r)"
      using durations_conform_iff [of s sent audio] m pay by (auto simp: measurable_def sent)
    consider "sent = []" | "sent \<noteq> []" "\<not> list_all (\<lambda>f. leading_type f = AUDIO_CHUNK_TYPE) sent"
      | "sent \<noteq> []" "list_all (\<lambda>f. leading_type f = AUDIO_CHUNK_TYPE) sent" "\<not> framed sent"
      | "sent \<noteq> []" "list_all (\<lambda>f. leading_type f = AUDIO_CHUNK_TYPE) sent" "framed sent" by blast
    then show ?thesis
    proof cases
      case 1
      then show ?thesis
        using True sent by (simp add: chunk_framing_verdict_def framing_conforms_def split: option.split)
    next
      case 2
      then obtain v where "first_reason (frame_type_violation (length sent)) (enumerate (Suc 0) sent) = Some v"
        using frame_types_None [of "length sent" sent] by fastforce
      then show ?thesis
        using 2 True sent by (simp add: chunk_framing_verdict_def framing_conforms_def split: option.split)
    next
      case 3
      then obtain v where "header_violation ''server'' sent = Some v"
        using header_violation_None [of "''server''" sent] by fastforce
      moreover have "first_reason (frame_type_violation (length sent)) (enumerate (Suc 0) sent) = None"
        using 3 by (simp add: frame_types_None)
      ultimately show ?thesis
        using 3 True sent by (simp add: chunk_framing_verdict_def framing_conforms_def split: option.split)
    next
      case 4
      have "first_reason (frame_type_violation (length sent)) (enumerate (Suc 0) sent) = None"
        using 4 by (simp add: frame_types_None)
      moreover have "header_violation ''server'' sent = None" using 4 by (simp add: header_violation_None)
      ultimately show ?thesis
        using 4 True sent r status client_framing_passes [of c sent r]
        by (auto simp: chunk_framing_verdict_def framing_conforms_def split: option.split)
    qed
  qed
  then obtain v where "chunk_framing_verdict s c = Inr v" "fst v \<longleftrightarrow> framing_conforms s c" by blast
  then have "chunk_framing_verdict s c = Inr (framing_conforms s c, snd v)" by (cases v) simp
  then show ?thesis by (rule that)
qed

end
