(* ===== verification/Runner_Facts.thy ===== *)
theory Runner_Facts
  imports Runner_Verdicts Framing_Facts
begin

text \<open>
  What a passing case shows. A comparison that passes rests on two summaries that are both ok, on the
  judges common to every scenario, and on the comparison of its own mode, whose accepted summaries
  are characterised one mode at a time.
\<close>

section \<open>Passing\<close>

definition passes :: "judgement py \<Rightarrow> bool" where
  "passes v \<longleftrightarrow> (\<exists>r. v = Inr (True, r))"

lemma passes_Inl [simp]: "\<not> passes (Inl e)"
  by (simp add: passes_def)

lemma passes_Inr [simp]: "passes (Inr v) \<longleftrightarrow> fst v"
  by (cases v) (simp add: passes_def)

lemma passes_bind: "passes (py_bind x f) \<longleftrightarrow> (\<exists>y. x = Inr y \<and> passes (f y))"
  by (auto simp: passes_def py_simps)

lemma status_failure_None:
  "status_failure s c = None \<longleftrightarrow> dict_get ''status'' s = VStr ''ok'' \<and> dict_get ''status'' c = VStr ''ok''"
  by (simp add: status_failure_def)

definition both_ok :: "pydict \<Rightarrow> pydict \<Rightarrow> bool" where
  "both_ok s c \<longleftrightarrow> dict_get ''status'' s = VStr ''ok'' \<and> dict_get ''status'' c = VStr ''ok''"

lemma status_failure_both_ok: "status_failure s c = None \<longleftrightarrow> both_ok s c"
  by (simp add: status_failure_None both_ok_def)

lemma dispatch_both_ok:
  assumes "passes (dispatch_comparison other sc s c)"
  shows "both_ok s c"
proof (rule ccontr)
  assume "\<not> both_ok s c"
  then obtain r where fail: "status_failure s c = Some r"
    using status_failure_both_ok by blast
  have "\<not> passes (dispatch_comparison other sc s c)"
    by (auto simp: dispatch_comparison_def Let_def fail passes_bind compare_audio_summaries_def
        compare_encoded_audio_summaries_def compare_metadata_summaries_def
        compare_controller_summaries_def compare_artwork_summaries_def
        compare_format_preference_summaries_def chunk_framing_verdict_def
        split: option.splits if_splits)
  with assms show False by blast
qed

lemma connection_violation_None:
  "connection_violation sc s = None \<longleftrightarrow> activation_violation s = None \<and> group_update_violation s = None
     \<and> (list_ex (\<lambda>f. f \<in> set STREAMED_ROLE_FAMILIES) (ss_required_role_families sc)
          \<longrightarrow> stream_start_gate_violation s = None)
     \<and> time_exchange_violation s = None"
  by (auto simp: connection_violation_def split: option.splits)

lemma compare_summaries_passes:
  "compare_summaries other sc s c = Inr (True, r) \<longleftrightarrow>
     adapter_reported_failures [(Server, s), (Client, c)] = None
     \<and> dispatch_comparison other sc s c = Inr (True, r)
     \<and> connection_violation sc s = None
     \<and> undeclared_format_violation s c = Inr None"
  by (auto simp: compare_summaries_def py_simps split: option.splits prod.splits if_splits)

lemma adapter_reported_None:
  "both_ok s c \<Longrightarrow> adapter_reported_failures [(Server, s), (Client, c)] = None"
  by (simp add: adapter_reported_failures_def both_ok_def)

section \<open>Audio\<close>

lemma audio_pcm_passes:
  "passes (compare_audio_summaries s c) \<longleftrightarrow> both_ok s c
     \<and> (\<exists>sa ca. dict_get ''audio'' s = VDict sa \<and> dict_get ''audio'' c = VDict ca
          \<and> has_key ''source_pcm_sha256'' sa \<and> has_key ''received_pcm_sha256'' ca
          \<and> truthy (dict_get ''audio_chunk_count'' ca)
          \<and> py_eq (dict_get ''source_pcm_sha256'' sa) (dict_get ''received_pcm_sha256'' ca))"
proof -
  have key: "truthy (dict_get k d) \<Longrightarrow> has_key k d" for k d
    using dict_get_has_key [of k d] by (cases "dict_get k d") auto
  show ?thesis
    using key [of "''audio_chunk_count''"]
    by (auto simp: compare_audio_summaries_def passes_bind subscript_def status_failure_both_ok [symmetric]
        split: option.splits pyval.splits)
qed

lemma usable_hash_Some: "usable_hash v = Some h \<longleftrightarrow> v = VStr h \<and> h \<noteq> []"
  by (auto simp: usable_hash_def split: pyval.splits if_splits)

text \<open>What the decoded audio has to satisfy when nothing kept the rule from being applied.\<close>

definition decoded_matches :: "pydict \<Rightarrow> pydict \<Rightarrow> pydict \<Rightarrow> bool" where
  "decoded_matches s sa ca \<longleftrightarrow>
     (case (usable_hash (dict_get ''received_pcm_sha256'' ca), dict_get ''stream'' s) of
        (Some received, VDict stream) \<Rightarrow>
          eq_int (dict_get ''received_sample_count'' ca) 0
          \<or> usable_hash (dict_get ''source_pcm_sha256'' sa) \<noteq> None
            \<and> (usable_hash (dict_get ''source_pcm_sha256'' sa) = Some received
               \<or> \<not> py_eq (dict_get ''sample_rate'' stream) (dict_get ''sample_rate'' sa)
               \<or> \<not> py_eq (dict_get ''channels'' stream) (dict_get ''channels'' sa))
      | _ \<Rightarrow> True)"

lemma decoded_audio_accepts:
  assumes sa: "get_or_empty ''audio'' s = VDict sa" and ca: "get_or_empty ''audio'' c = VDict ca"
    and st: "dict_get ''stream'' s = VDict stream"
  shows "(\<exists>u. decoded_audio_verdict s c k = Inr (None, u)) \<longleftrightarrow>
     k \<notin> set LOSSLESS_CODECS \<or> decoded_matches s sa ca"
proof -
  consider "k \<notin> set LOSSLESS_CODECS"
    | "k \<in> set LOSSLESS_CODECS" "usable_hash (dict_get ''received_pcm_sha256'' ca) = None"
    | received where "k \<in> set LOSSLESS_CODECS" "usable_hash (dict_get ''received_pcm_sha256'' ca) = Some received"
    by blast
  then show ?thesis
  proof cases
    case 3
    then show ?thesis
      using st by (auto simp: decoded_audio_verdict_def Let_def sa ca decoded_matches_def split: if_splits)
  qed (auto simp: decoded_audio_verdict_def Let_def sa ca decoded_matches_def)
qed

definition chunks_delivered :: "pydict \<Rightarrow> pydict \<Rightarrow> bool" where
  "chunks_delivered sa ca \<longleftrightarrow>
     (case (int_or_zero (dict_get ''sent_audio_chunk_count'' sa), int_or_zero (dict_get ''audio_chunk_count'' ca)) of
        (Inr n, Inr m) \<Rightarrow> 0 < n \<and> 0 < m | _ \<Rightarrow> False)
     \<and> usable_hash (dict_get ''sent_encoded_sha256'' sa) \<noteq> None
     \<and> usable_hash (dict_get ''sent_encoded_sha256'' sa) = usable_hash (dict_get ''received_encoded_sha256'' ca)"

definition headers_agree :: "pydict \<Rightarrow> pydict \<Rightarrow> pydict \<Rightarrow> bool" where
  "headers_agree s c sa \<longleftrightarrow> (case header_hashes s c sa of None \<Rightarrow> True | Some (x, y) \<Rightarrow> x = y)"

lemma encoded_hash_passes:
  assumes "get_or_empty ''audio'' s = VDict sa" "get_or_empty ''audio'' c = VDict ca"
    and "dict_get ''stream'' s = VDict stream"
  shows "passes (encoded_hash_verdict s c sa ca k) \<longleftrightarrow>
     usable_hash (dict_get ''sent_encoded_sha256'' sa) \<noteq> None
     \<and> usable_hash (dict_get ''sent_encoded_sha256'' sa) = usable_hash (dict_get ''received_encoded_sha256'' ca)
     \<and> headers_agree s c sa \<and> (k \<notin> set LOSSLESS_CODECS \<or> decoded_matches s sa ca)"
proof -
  note accepts = decoded_audio_accepts [OF assms, of k]
  consider e where "decoded_audio_verdict s c k = Inl e"
    | v u where "decoded_audio_verdict s c k = Inr (Some v, u)"
    | u where "decoded_audio_verdict s c k = Inr (None, u)"
    by (metis obj_sumE option.exhaust surj_pair)
  then show ?thesis
    using accepts
    by cases (auto simp: encoded_hash_verdict_def Let_def headers_agree_def split: option.splits if_splits)
qed

lemma encoded_audio_passes:
  "passes (compare_encoded_audio_summaries s c k) \<longleftrightarrow>
     both_ok s c \<and> stream_codec s = Some k \<and> (stream_codec c = None \<or> stream_codec c = Some k)
     \<and> (\<exists>sa ca. get_or_empty ''audio'' s = VDict sa \<and> get_or_empty ''audio'' c = VDict ca
          \<and> chunks_delivered sa ca \<and> headers_agree s c sa
          \<and> (k \<notin> set LOSSLESS_CODECS \<or> decoded_matches s sa ca))"
proof (cases "both_ok s c \<and> stream_codec s = Some k \<and> (stream_codec c = None \<or> stream_codec c = Some k)")
  case False
  then show ?thesis
    by (auto simp: compare_encoded_audio_summaries_def Let_def status_failure_both_ok [symmetric]
        split: option.splits)
next
  case True
  then obtain stream where st: "dict_get ''stream'' s = VDict stream"
    by (auto simp: stream_codec_def split: pyval.splits)
  have ok: "status_failure s c = None" using True by (simp add: status_failure_both_ok)
  show ?thesis
  proof (cases "\<exists>sa ca. get_or_empty ''audio'' s = VDict sa \<and> get_or_empty ''audio'' c = VDict ca")
    case False
    then show ?thesis
      using True ok by (auto simp: compare_encoded_audio_summaries_def Let_def passes_bind attr_get_def
          split: pyval.splits)
  next
    case dicts: True
    then obtain sa ca where d: "get_or_empty ''audio'' s = VDict sa" "get_or_empty ''audio'' c = VDict ca"
      by blast
    have "passes (compare_encoded_audio_summaries s c k) \<longleftrightarrow>
        (\<exists>n m. int_or_zero (dict_get ''sent_audio_chunk_count'' sa) = Inr n
           \<and> int_or_zero (dict_get ''audio_chunk_count'' ca) = Inr m \<and> 0 < n \<and> 0 < m)
        \<and> passes (encoded_hash_verdict s c sa ca k)"
      using True ok
      by (cases "int_or_zero (dict_get ''sent_audio_chunk_count'' sa)";
          cases "int_or_zero (dict_get ''audio_chunk_count'' ca)")
         (auto simp: compare_encoded_audio_summaries_def Let_def d)
    then show ?thesis
      using True by (auto simp: encoded_hash_passes [OF d st] chunks_delivered_def d split: sum.splits)
  qed
qed

section \<open>Metadata, controller and artwork\<close>

lemma metadata_passes:
  "passes (compare_metadata_summaries s c) \<longleftrightarrow> both_ok s c
     \<and> (\<exists>sm cm n. get_or_empty ''metadata'' s = VDict sm \<and> get_or_empty ''metadata'' c = VDict cm
          \<and> int_or_zero (dict_get ''update_count'' cm) = Inr n \<and> 0 < n
          \<and> py_eq (dict_get ''expected'' sm) (dict_get ''received'' cm)
          \<and> (\<exists>checked. first_metadata_state_verdict s c = Inr (checked, None)))"
proof (cases "\<exists>sm cm. get_or_empty ''metadata'' s = VDict sm \<and> get_or_empty ''metadata'' c = VDict cm")
  case False
  then show ?thesis
    by (auto simp: compare_metadata_summaries_def passes_bind section_get_def attr_get_def
        split: option.splits pyval.splits)
next
  case True
  then obtain sm cm where d: "get_or_empty ''metadata'' s = VDict sm" "get_or_empty ''metadata'' c = VDict cm"
    by blast
  have tail: "passes (py_bind v (\<lambda>(checked, violation). Inr (case violation of Some r \<Rightarrow> (False, r)
      | None \<Rightarrow> if checked then (True, a) else (True, b)))) \<longleftrightarrow> (\<exists>checked. v = Inr (checked, None))" for v a b
  proof (cases v)
    case (Inr w)
    then show ?thesis by (cases w; cases "snd w") simp_all
  qed simp
  show ?thesis
    by (cases "int_or_zero (dict_get ''update_count'' cm)"; cases "status_failure s c")
       (auto simp: compare_metadata_summaries_def section_get_def d tail status_failure_both_ok [symmetric])
qed

text \<open>When the first metadata state is held against the server.\<close>

lemma first_metadata_state_None:
  assumes "get_or_empty ''metadata'' s = VDict sm" "dict_get ''first_state_sent'' sm = VDict sent"
    and "get_or_empty ''metadata'' c = VDict cm" "dict_get ''first_object_state'' cm = VDict seen"
    and "dict_get ''timestamp_us'' seen = VInt t" "dict_get ''timestamp_us'' sent = VInt t"
    and "dict_get ''bound_us'' sent = VInt bound" "\<bar>t - bound\<bar> < 2 ^ 64"
  shows "(\<exists>checked. first_metadata_state_verdict s c = Inr (checked, None)) \<longleftrightarrow> t \<le> bound"
proof -
  have key: "has_key ''timestamp_us'' seen"
    using dict_get_has_key [of "''timestamp_us''" seen] assms(5) by simp
  obtain ms where "int_div (t - bound) 1000 = Inr ms"
    using int_div_total [of 1000 "t - bound"] assms(8) by auto
  then show ?thesis
    using assms key by (auto simp: first_metadata_state_verdict_def section_get_def)
qed

definition controller_agrees :: "pydict \<Rightarrow> pydict \<Rightarrow> bool" where
  "controller_agrees ctl state \<longleftrightarrow>
     list_all (\<lambda>k. has_key k state \<and> py_eq (dict_get k ctl) (dict_get k state)) CONTROLLER_FIELDS"

lemma controller_fields_None:
  "first_reason (controller_field_violation ctl state) CONTROLLER_FIELDS = None \<longleftrightarrow> controller_agrees ctl state"
  by (auto simp: first_reason_None controller_field_violation_def controller_agrees_def list_all_iff
      simp del: has_key_iff)

lemma sort_eq_Nil [simp]: "sort xs = [] \<longleftrightarrow> xs = []"
  by (metis length_0_conv length_sort)

lemma supported_commands_passes:
  assumes "dict_get ''supported_commands'' ctl = VList (map VStr ours)"
    and "dict_get ''supported_commands'' state = VList (map VStr theirs)"
  shows "passes (compare_supported_commands other (VDict ctl) state) \<longleftrightarrow> set ours = set theirs"
proof -
  have key: "has_key ''supported_commands'' state"
    using dict_get_has_key [of "''supported_commands''" state] assms(2) by simp
  have "filter (\<lambda>x. x \<notin> set (first_occurrences theirs)) (first_occurrences ours) = []
      \<and> filter (\<lambda>x. x \<notin> set (first_occurrences ours)) (first_occurrences theirs) = [] \<longleftrightarrow> set ours = set theirs"
    by (auto simp: filter_empty_conv)
  then show ?thesis
    using key by (auto simp: compare_supported_commands_def assms py_set_strs set_minus_strs sorted_members_strs)
qed

lemma controller_passes:
  assumes "get_or_empty ''controller'' s = VDict ctl" "get_or_empty ''controller'' c = VDict cc"
    and "dict_get ''received_state'' cc = VDict state"
    and "dict_get ''supported_commands'' ctl = VList (map VStr ours)"
    and "dict_get ''supported_commands'' state = VList (map VStr theirs)"
    and "dict_get ''expected_command'' ctl = VDict e" "dict_get ''command'' e = VStr name"
  shows "passes (compare_controller_summaries other s c) \<longleftrightarrow> both_ok s c
     \<and> py_eq (VDict e) (dict_get ''received_command'' ctl)
     \<and> py_eq (dict_get ''received_command'' ctl) (dict_get ''sent_command'' cc)
     \<and> controller_agrees ctl state \<and> set ours = set theirs \<and> name \<in> set ours"
proof -
  have none: "\<not> py_eq (VDict e) VNone" "\<And>v. v \<noteq> VNone \<Longrightarrow> \<not> py_eq v VNone"
    by (simp add: py_eq_def) (auto simp: py_eq_def elim!: py_same.elims split: pyfloat.splits pyval.splits)
  have offered: "fst (command_verdict (VDict e) state) \<longleftrightarrow> name \<in> set theirs"
    by (simp add: command_verdict_def assms Let_def in_list_strs)
  have tail: "passes (py_bind v (\<lambda>(ok, reason). Inr (if \<not> ok then (False, reason)
      else command_verdict (VDict e) state))) \<longleftrightarrow> passes v \<and> name \<in> set theirs" for v :: "judgement py"
    by (cases v) (auto simp: offered split: if_splits)
  note commands = supported_commands_passes [OF assms(4,5), of other]
  show ?thesis
  proof (cases "status_failure s c")
    case None
    show ?thesis
      by (cases "first_reason (controller_field_violation ctl state) CONTROLLER_FIELDS")
         (use none None in \<open>auto simp: compare_controller_summaries_def section_get_def assms Let_def tail
            commands controller_fields_None [symmetric] status_failure_both_ok [symmetric]\<close>)
  next
    case (Some r)
    then have "\<not> both_ok s c" by (simp add: status_failure_both_ok [symmetric])
    with Some show ?thesis by (simp add: compare_controller_summaries_def)
  qed
qed

lemma artwork_passes:
  "passes (compare_artwork_summaries s c) \<longleftrightarrow> both_ok s c
     \<and> (\<exists>sa ca n. get_or_empty ''artwork'' s = VDict sa \<and> get_or_empty ''artwork'' c = VDict ca
          \<and> int_or_zero (dict_get ''received_count'' ca) = Inr n \<and> 0 < n
          \<and> py_eq (dict_get ''channel'' sa) (dict_get ''channel'' ca)
          \<and> py_eq (dict_get ''encoded_sha256'' sa) (dict_get ''received_sha256'' ca))"
proof (cases "\<exists>sa ca. get_or_empty ''artwork'' s = VDict sa \<and> get_or_empty ''artwork'' c = VDict ca")
  case False
  then show ?thesis
    by (auto simp: compare_artwork_summaries_def passes_bind attr_get_def Let_def
        split: option.splits pyval.splits)
next
  case True
  then obtain sa ca where d: "get_or_empty ''artwork'' s = VDict sa" "get_or_empty ''artwork'' c = VDict ca"
    by blast
  show ?thesis
    by (cases "int_or_zero (dict_get ''received_count'' ca)"; cases "status_failure s c")
       (auto simp: compare_artwork_summaries_def d Let_def status_failure_both_ok [symmetric])
qed

section \<open>Format preference\<close>

text \<open>
  The preference was received and is the one the scenario sets; the client asked for it; the server's
  last stream and the client's final format follow it; and that is a change.
\<close>

definition renegotiated :: "pydict \<Rightarrow> pydict \<Rightarrow> pydict \<Rightarrow> bool" where
  "renegotiated s received renegotiation \<longleftrightarrow>
     (case (dict_get ''requested'' renegotiation, dict_get ''stream'' s, dict_get ''final_format'' renegotiation) of
        (VDict requested, VDict sent, VDict final) \<Rightarrow>
          format_matches received requested \<and> format_matches sent requested \<and> format_matches final requested
          \<and> (case int_or_zero (dict_get ''stream_start_count'' renegotiation) of Inr n \<Rightarrow> 2 \<le> n | Inl e \<Rightarrow> False)
          \<and> (case dict_get ''initial_format'' renegotiation of
               VDict initial \<Rightarrow> \<not> formats_equal initial final | v \<Rightarrow> \<not> truthy v)
      | _ \<Rightarrow> False)"

lemma renegotiation_passes:
  assumes "dict_get ''renegotiation'' c = VDict renegotiation"
  shows "passes (renegotiation_verdict s c received) \<longleftrightarrow> renegotiated s received renegotiation"
proof (cases "\<exists>requested. dict_get ''requested'' renegotiation = VDict requested \<and> format_matches received requested")
  case False
  then show ?thesis
    by (auto simp: renegotiation_verdict_def renegotiated_def assms split: pyval.splits)
next
  case True
  then obtain requested where q: "dict_get ''requested'' renegotiation = VDict requested"
      "format_matches received requested" by blast
  show ?thesis
  proof (cases "int_or_zero (dict_get ''stream_start_count'' renegotiation)")
    case (Inl e)
    then show ?thesis
      by (auto simp: renegotiation_verdict_def renegotiated_def assms q split: pyval.splits)
  next
    case (Inr n)
    have label: "passes (py_bind (runner_format_label v) (\<lambda>l. Inr (True, f l))) \<longleftrightarrow> \<not> truthy v \<or> is_dict v"
      for v and f :: "string \<Rightarrow> string"
      by (cases v) (auto simp: runner_format_label_def)
    have dicts: "dict_of v = None \<longleftrightarrow> \<not> is_dict v" for v by (cases v) auto
    show ?thesis
    proof (cases "2 \<le> n \<and> is_dict (dict_get ''final_format'' renegotiation) \<and> is_dict (dict_get ''stream'' s)")
      case False
      then show ?thesis
        by (auto simp: renegotiation_verdict_def renegotiated_def assms q Inr Let_def dicts
            split: pyval.splits option.splits if_splits)
    next
      case True
      then obtain final sent where "dict_get ''final_format'' renegotiation = VDict final"
          "dict_get ''stream'' s = VDict sent" "2 \<le> n"
        by (auto simp: is_dict_iff)
      then show ?thesis
        by (cases "dict_get ''initial_format'' renegotiation")
           (auto simp: renegotiation_verdict_def renegotiated_def assms q Inr Let_def label)
    qed
  qed
qed

lemma format_preference_passes:
  "passes (compare_format_preference_summaries i s c) \<longleftrightarrow> both_ok s c
     \<and> (\<exists>preference received target renegotiation.
          dict_get ''format_preference'' s = VDict preference
          \<and> dict_get ''received'' preference = VDict received
          \<and> map_of FORMAT_PREFERENCE_TARGETS i = Some target \<and> format_matches received target
          \<and> dict_get ''renegotiation'' c = VDict renegotiation
          \<and> renegotiated s received renegotiation)"
proof -
  have none: "\<not> passes (renegotiation_verdict s c received)"
    if "\<not> is_dict (dict_get ''renegotiation'' c)" for received
    using that by (auto simp: renegotiation_verdict_def split: pyval.splits)
  show ?thesis
  proof (cases "is_dict (dict_get ''renegotiation'' c)")
    case True
    then obtain renegotiation where "dict_get ''renegotiation'' c = VDict renegotiation"
      by (auto simp: is_dict_iff)
    note this renegotiation_passes [OF this]
    then show ?thesis
      by (auto simp: compare_format_preference_summaries_def status_failure_both_ok [symmetric]
          split: option.splits pyval.splits)
  next
    case False
    then show ?thesis
      by (auto simp: compare_format_preference_summaries_def none split: option.splits pyval.splits)
  qed
qed

section \<open>The shipped scenarios\<close>

definition VERIFICATION_MODES :: "string list" where
  "VERIFICATION_MODES = [''audio-pcm'', ''audio-encoded-bytes'', ''metadata'', ''controller'', ''artwork'',
     ''format-preference'', ''protocol'', ''audio-chunk-framing'']"

lemma shipped_modes: "list_all (\<lambda>sc. ss_verification_mode sc \<in> set VERIFICATION_MODES) SCENARIO_LIST"
  by code_simp

lemma shipped_targets:
  "list_all (\<lambda>sc. ss_verification_mode sc = ''format-preference'' \<longrightarrow>
     map_of FORMAT_PREFERENCE_TARGETS (ss_id sc) \<noteq> None) SCENARIO_LIST"
  by code_simp

lemma shipped_assertions:
  "list_all (\<lambda>sc. list_all (\<lambda>a. a \<in> set (map pa_id PROTOCOL_ASSERTIONS)) (ss_protocol_assertions sc)) SCENARIO_LIST"
  by code_simp

lemma shipped_ids: "distinct (map ss_id SCENARIO_LIST)"
  by code_simp

end
