(* ===== verification/Matrix_Facts.thy ===== *)
theory Matrix_Facts
  imports Matrix Runner_Facts
begin

text \<open>
  Facts about the matrix: what a result says of the run it came from, which cases there are, that
  their slots, ports and directories do not collide, and when one case stops the whole run.
\<close>

section \<open>Results\<close>

definition result_of_context :: "case_context \<Rightarrow> case_result \<Rightarrow> bool" where
  "result_of_context cc r \<longleftrightarrow> res_scenario_id r = ss_id (cc_scenario cc)
     \<and> res_server_impl r = cc_server_impl cc \<and> res_client_impl r = cc_client_impl cc
     \<and> res_environment_id r = cc_environment_id cc
     \<and> res_scenario_revision r = ss_scenario_revision (cc_scenario cc)
     \<and> res_case_dir r = case_dir cc"

lemma make_result_simps [simp]:
  "res_status (make_result cc st reason a b) = st"
  "res_reason (make_result cc st reason a b) = reason"
  "res_server_exit_code (make_result cc st reason a b) = a"
  "res_client_exit_code (make_result cc st reason a b) = b"
  "res_unsupported (make_result cc st reason a b) = False"
  "result_of_context cc (make_result cc st reason a b)"
  by (simp_all add: make_result_def result_of_context_def)

lemma result_of_context_unsupported [simp]:
  "result_of_context cc (r\<lparr>res_unsupported := u\<rparr>) = result_of_context cc r"
  by (simp add: result_of_context_def)

lemma failfast_result:
  assumes "run_failfast_role w cc role reason = Inr r"
  shows "res_status r = ''failed'' \<and> \<not> res_unsupported r \<and> result_of_context cc r"
proof -
  obtain cmd where cmd: "failfast_command w cc role reason = Inr cmd"
    using assms by (auto simp: run_failfast_role_def py_simps)
  show ?thesis
  proof (cases cmd)
    case None
    then show ?thesis using assms cmd by (auto simp: run_failfast_role_def Let_def)
  next
    case (Some launch)
    then show ?thesis
      using assms cmd by (cases "wo_run_role w role launch")
        (auto simp: run_failfast_role_def Let_def py_bind_Inr_iff)
  qed
qed

lemma unsupported_result:
  assumes "run_unsupported_role w cc role reason = Inr r"
  shows "res_status r = ''failed'' \<and> res_unsupported r \<and> result_of_context cc r"
  using assms failfast_result by (fastforce simp: run_unsupported_role_def py_simps)

text \<open>What the summaries and the exit codes of a passed case are.\<close>

definition passing_run ::
  "(pyval list \<Rightarrow> pyval list py) \<Rightarrow> world \<Rightarrow> scenario_spec \<Rightarrow> case_result \<Rightarrow> bool" where
  "passing_run other w scenario r \<longleftrightarrow>
     (case (wo_summary w Server, wo_summary w Client) of
        (Json (VDict s), Json (VDict c)) \<Rightarrow> compare_summaries other scenario s c = Inr (True, res_reason r)
      | _ \<Rightarrow> False)
     \<and> res_server_exit_code r = Some 0 \<and> res_client_exit_code r = Some 0 \<and> \<not> res_unsupported r"

lemma compared_passes:
  "compared other scenario x y = (True, reason) \<longleftrightarrow>
     (\<exists>s c. x = VDict s \<and> y = VDict c \<and> compare_summaries other scenario s c = Inr (True, reason))"
  by (cases x; cases y) (auto simp: compared_def Let_def split: sum.splits)

lemma exited_result_ok:
  assumes "exited_result other w cc a b = Inr r"
  shows "result_of_context cc r \<and> \<not> res_unsupported r
     \<and> (res_status r = ''passed'' \<and> passing_run other w (cc_scenario cc) r \<or> res_status r = ''failed'')"
proof (cases "summary_exists w Server \<and> summary_exists w Client")
  case False
  then show ?thesis using assms by (auto simp: exited_result_def)
next
  case True
  then obtain x y where xy: "read_json (summary_path Server cc) (wo_summary w Server) = Inr x"
      "read_json (summary_path Client cc) (wo_summary w Client) = Inr y"
      "r = (let (matches, reason) = compared other (cc_scenario cc) x y
            in if \<not> matches then make_result cc ''failed'' reason (Some a) (Some b)
               else if a \<noteq> 0 \<or> b \<noteq> 0
               then make_result cc ''failed'' ''One or more adapters exited non-zero'' (Some a) (Some b)
               else make_result cc ''passed'' reason (Some a) (Some b))"
    using assms by (auto simp: exited_result_def Let_def py_simps split_beta)
  then have json: "wo_summary w Server = Json x" "wo_summary w Client = Json y"
    by (auto simp: read_json_def split: json_file.splits)
  obtain m reason where c: "compared other (cc_scenario cc) x y = (m, reason)" by fastforce
  show ?thesis
  proof (cases "m \<and> a = 0 \<and> b = 0")
    case True
    then have "compared other (cc_scenario cc) x y = (True, reason)" using c by simp
    then obtain s d where "x = VDict s" "y = VDict d"
        "compare_summaries other (cc_scenario cc) s d = Inr (True, reason)"
      by (auto simp: compared_passes)
    then show ?thesis using xy(3) c True json by (simp add: passing_run_def)
  next
    case False
    then show ?thesis using xy(3) c by (auto simp: Let_def)
  qed
qed

lemma built_case_result:
  assumes "run_built_case other w cc sb cb = Inr r"
  shows "result_of_context cc r \<and> \<not> res_unsupported r
     \<and> (res_status r = ''passed'' \<and> passing_run other w (cc_scenario cc) r \<or> res_status r = ''failed'')"
proof -
  obtain sl cl where launches: "(case (sl, cl) of (Some x, Some y) \<Rightarrow> launched_result other w cc x y
      | _ \<Rightarrow> Inr (make_result cc ''failed'' (unlaunchable_reason cc sl cl sb cb) None None)) = Inr r"
    using assms by (auto simp: run_built_case_def py_bind_Inr_iff)
  show ?thesis
  proof (cases "sl = None \<or> cl = None")
    case True
    then show ?thesis using launches by (auto split: option.splits)
  next
    case False
    then obtain x y where "launched_result other w cc x y = Inr r" using launches by auto
    then show ?thesis
      by (cases "wo_run_pair w x y") (auto simp: launched_result_def dest: exited_result_ok)
  qed
qed

text \<open>Whether the harness judges a case unsupported before it launches anything.\<close>

definition judged_unsupported :: "case_context \<Rightarrow> bool" where
  "judged_unsupported cc \<longleftrightarrow>
     \<not> role_supports_scenario (cc_server_impl cc) Server (cc_scenario cc)
     \<or> \<not> role_supports_scenario (cc_client_impl cc) Client (cc_scenario cc)"

lemma run_context_result:
  assumes "run_context other w cc index = Inr r"
  shows "result_of_context cc r \<and> (res_unsupported r \<longleftrightarrow> judged_unsupported cc)
     \<and> (res_status r = ''passed'' \<and> passing_run other w (cc_scenario cc) r \<or> res_status r = ''failed'')"
proof -
  obtain server where server: "case_role_spec Server cc = Inr server"
    using assms by (auto simp: run_context_def py_simps)
  have s: "role_supports_scenario (cc_server_impl cc) Server (cc_scenario cc) \<longleftrightarrow> rs_supported server
      \<and> unsupported_reason server (cc_server_impl cc) Server (cc_scenario cc) = None"
    using server by (auto simp: case_role_spec_def case_implementation_def role_supports_scenario_def
        split: option.splits)
  show ?thesis
  proof (cases "rs_supported server")
    case False
    then show ?thesis
      using assms unsupported_result s by (fastforce simp: run_context_def server judged_unsupported_def)
  next
    case True
    then obtain client where client: "case_role_spec Client cc = Inr client"
      using assms by (auto simp: run_context_def py_simps server)
    have c: "role_supports_scenario (cc_client_impl cc) Client (cc_scenario cc) \<longleftrightarrow> rs_supported client
        \<and> unsupported_reason client (cc_client_impl cc) Client (cc_scenario cc) = None"
      using client by (auto simp: case_role_spec_def case_implementation_def role_supports_scenario_def
          split: option.splits)
    have run: "run_context other w cc index =
      (if \<not> rs_supported client then run_unsupported_role w cc Client None
       else if unsupported_reason server (cc_server_impl cc) Server (cc_scenario cc) \<noteq> None
       then run_unsupported_role w cc Server (unsupported_reason server (cc_server_impl cc) Server (cc_scenario cc))
       else if unsupported_reason client (cc_client_impl cc) Client (cc_scenario cc) \<noteq> None
       then run_unsupported_role w cc Client (unsupported_reason client (cc_client_impl cc) Client (cc_scenario cc))
       else if not_built (role_build_result server index)
       then run_failfast_role w cc Server (map_option build_failure_reason (role_build_result server index))
       else if not_built (role_build_result client index)
       then run_failfast_role w cc Client (map_option build_failure_reason (role_build_result client index))
       else run_built_case other w cc (role_build_result server index) (role_build_result client index))"
      using True by (simp add: run_context_def server client capability_failure_def case_implementation_def Let_def)
    show ?thesis
    proof (cases "judged_unsupported cc")
      case True
      then have "\<exists>role reason. run_unsupported_role w cc role reason = Inr r"
        using assms run s c \<open>rs_supported server\<close> by (auto simp: judged_unsupported_def split: if_splits)
      then show ?thesis using unsupported_result True by blast
    next
      case False
      then have "(\<exists>role reason. run_failfast_role w cc role reason = Inr r)
          \<or> (\<exists>sb cb. run_built_case other w cc sb cb = Inr r)"
        using assms run s c by (auto simp: judged_unsupported_def split: if_splits)
      then show ?thesis using failfast_result built_case_result False by blast
    qed
  qed
qed

section \<open>The shipped tables\<close>

lemma implementation_names_eq:
  "implementation_names = [''SendspinKit'', ''aiosendspin'', ''sendspin-cpp'', ''sendspin-dotnet'',
     ''sendspin-go'', ''sendspin-js'', ''sendspin-rs'', ''sendspin-server-cpp'']"
  by code_simp

lemma server_implementations:
  "filter (implements_role Server) implementation_names = [''aiosendspin'', ''sendspin-server-cpp'']"
  by code_simp

lemma client_implementations:
  "filter (implements_role Client) implementation_names =
     [''SendspinKit'', ''aiosendspin'', ''sendspin-cpp'', ''sendspin-dotnet'', ''sendspin-js'', ''sendspin-rs'']"
  by code_simp

lemma names_without_underscore:
  "list_all (\<lambda>n. CHR ''_'' \<notin> set n) implementation_names"
  unfolding implementation_names_eq by code_simp

lemma scenario_ids_without_underscore: "list_all (\<lambda>sc. CHR ''_'' \<notin> set (ss_id sc)) SCENARIO_LIST"
  by code_simp

lemma scenario_count: "length SCENARIO_LIST = 16"
  by code_simp

lemma implements_role_known: "implements_role role n \<Longrightarrow> n \<in> set implementation_names"
  by (auto simp: implements_role_def get_implementation_def implementation_names_def
      split: option.splits dest: map_of_SomeD intro: rev_image_eqI)

lemma role_supports_scenario_implements: "role_supports_scenario n role sc \<Longrightarrow> implements_role role n"
  by (auto simp: role_supports_scenario_def implements_role_def split: option.splits)

section \<open>The cases\<close>

lemma parse_filter_known:
  "parse_implementation_filter f = Inr ns \<Longrightarrow> set ns \<subseteq> set implementation_names"
  by (auto simp: parse_implementation_filter_def Let_def filter_empty_conv split: option.splits if_splits)

definition scenario_cases :: "string list \<Rightarrow> string list \<Rightarrow> scenario_spec \<Rightarrow> (string \<times> string \<times> string) list" where
  "scenario_cases servers clients sc = concat (map (\<lambda>server. map (\<lambda>client. (ss_id sc, server, client))
       (implementations_with_role Client (Some clients)))
     (implementations_for_scenario Server sc (Some servers)))"

lemma matrix_cases_eq:
  "matrix_cases f t = Inr cases \<longleftrightarrow> (\<exists>servers clients.
     parse_implementation_filter f = Inr servers \<and> parse_implementation_filter t = Inr clients
     \<and> cases = enumerate 0 (concat (map (scenario_cases servers clients) SCENARIO_LIST)))"
  by (auto simp: matrix_cases_def py_simps scenario_cases_def cong: map_cong)

lemma set_scenario_cases:
  "(i, s, c) \<in> set (scenario_cases servers clients sc) \<longleftrightarrow> i = ss_id sc
     \<and> s \<in> set servers \<and> role_supports_scenario s Server sc
     \<and> c \<in> set clients \<and> implements_role Client c"
  by (auto simp: scenario_cases_def implementations_with_role_def implementations_for_scenario_def)

lemma distinct_scenario_cases:
  assumes "distinct servers" "distinct clients"
  shows "distinct (scenario_cases servers clients sc)"
proof -
  have "distinct (concat (map (\<lambda>s. map (Pair i) (map (Pair s) cs)) ss))"
    if "distinct ss" "distinct cs" for i :: string and ss cs :: "string list"
    using that by (induction ss) (auto simp: distinct_map inj_on_def)
  from this [of "implementations_for_scenario Server sc (Some servers)"
      "implementations_with_role Client (Some clients)" "ss_id sc"] assms
  show ?thesis
    by (simp add: scenario_cases_def implementations_with_role_def implementations_for_scenario_def o_def)
qed

lemma distinct_concat_by_key:
  assumes "distinct (map k xs)" "\<And>x. x \<in> set xs \<Longrightarrow> distinct (f x)"
    and "\<And>x y. x \<in> set xs \<Longrightarrow> y \<in> set (f x) \<Longrightarrow> fst y = k x"
  shows "distinct (concat (map f xs))"
  using assms
proof (induction xs)
  case (Cons x xs)
  have "set (f x) \<inter> set (concat (map f xs)) = {}"
  proof (rule ccontr)
    assume "set (f x) \<inter> set (concat (map f xs)) \<noteq> {}"
    then obtain y z where "y \<in> set (f x)" "z \<in> set xs" "y \<in> set (f z)" by auto
    then have "k x = k z" using Cons.prems(3) [of x y] Cons.prems(3) [of z y] by simp
    then show False using Cons.prems(1) \<open>z \<in> set xs\<close> by auto
  qed
  then show ?case using Cons by simp
qed simp

lemma distinct_cases:
  assumes "distinct servers" "distinct clients"
  shows "distinct (concat (map (scenario_cases servers clients) SCENARIO_LIST))"
  using distinct_scenario_cases [OF assms] shipped_ids
  by (intro distinct_concat_by_key [where k = ss_id]) (auto simp: set_scenario_cases)

lemma length_implementers:
  assumes "distinct ns" "\<And>n. P n \<Longrightarrow> implements_role role n"
  shows "length (filter P ns) \<le> length (filter (implements_role role) implementation_names)"
proof -
  have "set (filter P ns) \<subseteq> set (filter (implements_role role) implementation_names)"
    using assms(2) implements_role_known by auto
  then have "card (set (filter P ns)) \<le> card (set (filter (implements_role role) implementation_names))"
    by (intro card_mono) simp_all
  also have "\<dots> \<le> length (filter (implements_role role) implementation_names)" by (rule card_length)
  finally show ?thesis using distinct_card [of "filter P ns"] assms(1) by simp
qed

lemma length_scenario_cases:
  assumes "distinct servers" "distinct clients"
  shows "length (scenario_cases servers clients sc) \<le> 12"
proof -
  have "length (implementations_for_scenario Server sc (Some servers)) \<le> 2"
    using length_implementers [OF assms(1), of "\<lambda>n. role_supports_scenario n Server sc" Server]
      role_supports_scenario_implements
    by (simp add: implementations_for_scenario_def server_implementations)
  moreover have "length (implementations_with_role Client (Some clients)) \<le> 6"
    using length_implementers [OF assms(2), of "implements_role Client" Client]
    by (simp add: implementations_with_role_def client_implementations)
  ultimately have "length (implementations_for_scenario Server sc (Some servers))
      * length (implementations_with_role Client (Some clients)) \<le> 2 * 6"
    by (rule mult_le_mono)
  then show ?thesis by (simp add: scenario_cases_def length_concat o_def sum_list_triv)
qed

lemma length_cases:
  assumes "distinct servers" "distinct clients"
  shows "length (concat (map (scenario_cases servers clients) SCENARIO_LIST)) \<le> 192"
proof -
  have "length (concat (map (scenario_cases servers clients) xs)) \<le> 12 * length xs" for xs
    using length_scenario_cases [OF assms] by (induction xs) (simp_all add: add_mono)
  from this [of SCENARIO_LIST] show ?thesis by (simp add: scenario_count)
qed

section \<open>Directories\<close>

lemma first_underscore:
  assumes "CHR ''_'' \<notin> set a" "CHR ''_'' \<notin> set b" "a @ ''__'' @ x = b @ ''__'' @ y"
  shows "a = b \<and> x = y"
proof -
  have "takeWhile (\<lambda>c. c \<noteq> CHR ''_'') (d @ ''__'' @ z) = d" if "CHR ''_'' \<notin> set d" for d z
    using that by (induction d) auto
  then have "a = b" using assms by metis
  then show ?thesis using assms(3) by simp
qed

lemma case_name_inj:
  assumes "CHR ''_'' \<notin> set i" "CHR ''_'' \<notin> set i'" "CHR ''_'' \<notin> set s" "CHR ''_'' \<notin> set s'"
    and "case_name_of env i s c = case_name_of env i' s' c'"
  shows "i = i' \<and> s = s' \<and> c = c'"
proof -
  have "i @ ''__'' @ (s @ ''__'' @ (''to__'' @ c)) = i' @ ''__'' @ (s' @ ''__'' @ (''to__'' @ c'))"
    using assms(5) by (simp add: case_name_of_def)
  from first_underscore [OF assms(1,2) this] have i: "i = i'"
    and rest: "s @ ''__'' @ (''to__'' @ c) = s' @ ''__'' @ (''to__'' @ c')" by (rule conjunct1, rule conjunct2)
  from first_underscore [OF assms(3,4) rest] have "s = s'" "''to__'' @ c = ''to__'' @ c'"
    by (rule conjunct1, rule conjunct2)
  with i show ?thesis by (simp only: same_append_eq)
qed

lemma case_names_distinct:
  assumes "distinct xs"
    and "\<And>i s c. (i, s, c) \<in> set xs \<Longrightarrow> CHR ''_'' \<notin> set i \<and> CHR ''_'' \<notin> set s"
  shows "distinct (map (\<lambda>(i, s, c). case_name_of env i s c) xs)"
proof -
  have "inj_on (\<lambda>(i, s, c). case_name_of env i s c) (set xs)"
  proof (rule inj_onI)
    fix x y
    assume xy: "x \<in> set xs" "y \<in> set xs"
      and eq: "(\<lambda>(i, s, c). case_name_of env i s c) x = (\<lambda>(i, s, c). case_name_of env i s c) y"
    obtain i s c i' s' c' where p: "x = (i, s, c)" "y = (i', s', c')" by (metis prod_cases3)
    have eq': "case_name_of env i s c = case_name_of env i' s' c'" using eq p by simp
    have "i = i' \<and> s = s' \<and> c = c'"
      by (rule case_name_inj [OF _ _ _ _ eq']) (use assms(2) xy p in blast)+
    then show "x = y" by (simp add: p)
  qed
  then show ?thesis using assms(1) by (simp add: distinct_map)
qed

lemma matrix_case_names:
  assumes "set servers \<subseteq> set implementation_names"
  shows "distinct (map (\<lambda>(i, s, c). case_name_of env i s c)
    (concat (map (scenario_cases servers clients) SCENARIO_LIST)))
    \<longleftrightarrow> distinct (concat (map (scenario_cases servers clients) SCENARIO_LIST))"
proof (intro iffI, simp add: distinct_map, erule case_names_distinct)
  fix i s c
  assume "(i, s, c) \<in> set (concat (map (scenario_cases servers clients) SCENARIO_LIST))"
  then obtain sc where "sc \<in> set SCENARIO_LIST" "i = ss_id sc" "s \<in> set implementation_names"
    using assms by (auto simp: set_scenario_cases)
  then show "CHR ''_'' \<notin> set i \<and> CHR ''_'' \<notin> set s"
    using scenario_ids_without_underscore names_without_underscore by (auto simp: list_all_iff)
qed

section \<open>A run of the matrix\<close>

lemma run_case_result:
  assumes "run_case other w index rq = Inr r"
  obtains scenario cc where "require_scenario (rq_scenario_id rq) = Inr scenario"
    and "run_context other w cc index = Inr r" and "cc_scenario cc = scenario"
    and "cc_server_impl cc = rq_server_impl rq" and "cc_client_impl cc = rq_client_impl rq"
    and "cc_environment_id cc = env_id (resolve_environment (wo_system w) (rq_environment_id rq) (rq_environment_name rq))"
    and "cc_results_dir cc = rq_results_dir rq" and "cc_slot_index cc = rq_slot_index rq"
proof -
  obtain scenario where sc: "require_scenario (rq_scenario_id rq) = Inr scenario"
    using assms by (auto simp: run_case_def py_bind_Inr_iff)
  show ?thesis
    by (rule that [OF sc]) (use assms sc in \<open>auto simp: run_case_def Let_def\<close>)
qed

lemma require_scenario_id: "require_scenario i = Inr sc \<Longrightarrow> ss_id sc = i \<and> sc \<in> set SCENARIO_LIST"
  by (auto simp: require_scenario_def get_scenario_def split: option.splits dest: map_of_SomeD)

lemma get_scenario_shipped: "sc \<in> set SCENARIO_LIST \<Longrightarrow> require_scenario (ss_id sc) = Inr sc"
proof -
  assume "sc \<in> set SCENARIO_LIST"
  then have "map_of (map (\<lambda>s. (ss_id s, s)) (rev SCENARIO_LIST)) (ss_id sc) = Some sc"
    using shipped_ids by (intro map_of_is_SomeI) (auto simp: o_def rev_map [symmetric])
  then show ?thesis by (simp add: require_scenario_def get_scenario_def)
qed

end
