(* ===== verification/Pcm.thy ===== *)
theory Pcm
  imports Py_Float Py_Bytes
begin

unbundle bit_operations_syntax

text \<open>
  \<open>pcm.py\<close> and \<open>flac.py\<close>: the canonical float32 form a PCM stream is hashed in, the incremental
  hasher, and the handling of decoded FLAC audio. The codec itself is PyAV: what it decodes and
  resamples is an argument, a list of frames with their samples, channels and plane. A sample divided
  by a power of two is a float without rounding; packing it as a float32 rounds to nearest, ties to
  even.
\<close>

section \<open>Packing\<close>

text \<open>
  The IEEE 754 binary32 encoding of a number between -2 and 2, as \<open>struct.pack("<f", x)\<close> gives it:
  the exponent is at least -126, the significand is rounded to 24 bits, and a significand rounded up
  to the next power of two carries into the exponent.
\<close>

definition f32_magnitude :: "rat \<Rightarrow> int" where
  "f32_magnitude x = (if x = 0 then 0
     else let e = max (exponent_of x) (- 126)
          in (e + 126) * 2 ^ 23 + round_half_even (x / pow2 (e - 23)))"

definition f32_bits :: "rat \<Rightarrow> 32 word" where
  "f32_bits x = word_of_int (if x < 0 then 2 ^ 31 + f32_magnitude (- x) else f32_magnitude x)"

definition little_endian :: "32 word \<Rightarrow> byte_string" where
  "little_endian w = map (\<lambda>k. ucast (drop_bit k w)) [0, 8, 16, 24]"

definition pack_floats :: "rat list \<Rightarrow> byte_string" where
  "pack_floats xs = concat (map (\<lambda>x. little_endian (f32_bits x)) xs)"

definition struct_error :: "nat \<Rightarrow> py_exc" where
  "struct_error n = PyExc ''error'' (''unpack requires a buffer of '' @ nat_str n @ '' bytes'')"

text \<open>A little-endian two's complement integer, as \<open>struct.unpack\<close> reads one.\<close>

definition signed_le :: "byte_string \<Rightarrow> int" where
  "signed_le bs = (let n = foldr (\<lambda>b n. uint b + 256 * n) bs 0
     in if n < 2 ^ (8 * length bs - 1) then n else n - 2 ^ (8 * length bs))"

definition unpack_ints :: "nat \<Rightarrow> byte_string \<Rightarrow> int list py" where
  "unpack_ints width bs = (let n = length bs div width in
     if length bs \<noteq> n * width then Inl (struct_error (n * width))
     else Inr (map signed_le (chunks_of width bs)))"

text \<open>The loop over packed 24-bit samples, with the bit operations the code writes.\<close>

definition sample_24 :: "byte_string \<Rightarrow> int" where
  "sample_24 bs = (let v = uint (bs ! 0) OR push_bit 8 (uint (bs ! 1)) OR push_bit 16 (uint (bs ! 2))
     in if v AND 0x800000 \<noteq> 0 then v OR NOT 0xFFFFFF else v)"

definition pcm_int_bytes_to_float_bytes :: "byte_string \<Rightarrow> int \<Rightarrow> byte_string py" where
  "pcm_int_bytes_to_float_bytes pcm depth = (
     if depth = 16
     then py_bind (unpack_ints 2 pcm) (\<lambda>ints. Inr (pack_floats (map (\<lambda>s. of_int s / 32768) ints)))
     else if depth = 24
     then if length pcm mod 3 \<noteq> 0
          then Inl (PyExc ''ValueError'' (''PCM buffer of '' @ nat_str (length pcm)
                 @ '' bytes is not a whole number of 24-bit samples''))
          else Inr (pack_floats (map (\<lambda>c. of_int (sample_24 c) / 8388608) (chunks_of 3 pcm)))
     else if depth = 32
     then py_bind (unpack_ints 4 pcm) (\<lambda>ints. Inr (pack_floats (map (\<lambda>s. of_int s / 2147483648) ints)))
     else Inl (PyExc ''ValueError'' (''Unsupported PCM bit depth: '' @ int_str depth)))"

definition float_values_to_bytes :: "rat list \<Rightarrow> byte_string" where
  "float_values_to_bytes values = pack_floats values"

section \<open>The hasher\<close>

text \<open>A \<open>hashlib\<close> object is the bytes it was fed: updating it concatenates.\<close>

record float_pcm_hasher =
  fh_sample_count :: nat
  fh_hash :: byte_string

definition new_hasher :: float_pcm_hasher where
  "new_hasher = \<lparr>fh_sample_count = 0, fh_hash = []\<rparr>"

definition update_from_float_bytes :: "byte_string \<Rightarrow> float_pcm_hasher \<Rightarrow> float_pcm_hasher" where
  "update_from_float_bytes fs h =
     h\<lparr>fh_hash := fh_hash h @ fs, fh_sample_count := fh_sample_count h + length fs div 4\<rparr>"

definition update_from_pcm_bytes :: "byte_string \<Rightarrow> int \<Rightarrow> float_pcm_hasher \<Rightarrow> float_pcm_hasher py" where
  "update_from_pcm_bytes pcm depth h = py_bind (pcm_int_bytes_to_float_bytes pcm depth)
     (\<lambda>fs. Inr (update_from_float_bytes fs h))"

definition hexdigest :: "float_pcm_hasher \<Rightarrow> string" where
  "hexdigest h = sha256_hex (fh_hash h)"

section \<open>Fixtures\<close>

record decoded_fixture =
  fx_path :: string
  fx_pcm_bytes :: byte_string
  fx_sample_rate :: int
  fx_channels :: int
  fx_bit_depth :: int
  fx_frame_count :: int
  fx_duration_seconds :: rat
  fx_source_flac_sha256 :: string
  fx_source_pcm_sha256 :: string

text \<open>\<open>xs[:n]\<close>.\<close>

definition py_take :: "int \<Rightarrow> 'a list \<Rightarrow> 'a list" where
  "py_take n xs = (if 0 \<le> n then take (nat n) xs else take (length xs - nat (- n)) xs)"

definition duration_of :: "int \<Rightarrow> int \<Rightarrow> rat py" where
  "duration_of frames rate = (if rate = 0 then Inr 0 else int_div frames rate)"

definition trim_fixture_to_frame_multiple ::
  "decoded_fixture \<Rightarrow> int \<Rightarrow> (decoded_fixture \<times> int) py" where
  "trim_fixture_to_frame_multiple fixture frame_samples = (
     if frame_samples \<le> 0 then Inr (fixture, 0)
     else
       let trimmed = fx_frame_count fixture mod frame_samples in
       if trimmed = 0 then Inr (fixture, 0)
       else
         let kept = fx_frame_count fixture - trimmed;
             bytes_per_frame = fx_channels fixture * (fx_bit_depth fixture div 8);
             pcm = py_take (kept * bytes_per_frame) (fx_pcm_bytes fixture)
         in py_bind (update_from_pcm_bytes pcm (fx_bit_depth fixture) new_hasher) (\<lambda>hasher.
            py_bind (duration_of kept (fx_sample_rate fixture)) (\<lambda>seconds.
              Inr (fixture\<lparr>fx_pcm_bytes := pcm, fx_frame_count := kept,
                     fx_duration_seconds := seconds, fx_source_pcm_sha256 := hexdigest hasher\<rparr>, trimmed))))"

section \<open>Streams\<close>

text \<open>What the resampler gives for one decoded frame.\<close>

record out_frame =
  of_samples :: int
  of_channels :: int
  of_plane :: byte_string

definition frames_to_pcm :: "int \<Rightarrow> out_frame list \<Rightarrow> byte_string" where
  "frames_to_pcm depth frames = concat (map (\<lambda>f.
     py_take (of_samples f * of_channels f * (depth div 8)) (of_plane f)) frames)"

definition FLAC_HEADER_PREFIX_SIZE :: nat where
  "FLAC_HEADER_PREFIX_SIZE = 8"

definition big_endian_16 :: "int \<Rightarrow> byte_string" where
  "big_endian_16 n = map (\<lambda>k. word_of_int (n div 2 ^ k)) [8, 0]"

definition big_endian_32 :: "int \<Rightarrow> byte_string py" where
  "big_endian_32 n = (if 0 \<le> n \<and> n < 2 ^ 32 then Inr (map (\<lambda>k. word_of_int (n div 2 ^ k)) [24, 16, 8, 0])
     else Inl (PyExc ''error'' (sq @ ''I'' @ sq @ '' format requires 0 <= number <= 4294967295'')))"

definition build_extradata :: "int \<Rightarrow> int \<Rightarrow> int \<Rightarrow> byte_string option \<Rightarrow> byte_string py" where
  "build_extradata rate chans depth codec_header = (
     case codec_header of
       Some header \<Rightarrow> if FLAC_HEADER_PREFIX_SIZE + 34 \<le> length header
                     then Inr (take 34 (drop FLAC_HEADER_PREFIX_SIZE header))
                     else py_bind (big_endian_32 (push_bit 12 rate OR push_bit 9 (chans - 1) OR push_bit 4 (depth - 1)))
                       (\<lambda>packed. Inr (big_endian_16 4096 @ big_endian_16 4096 @ replicate 6 0 @ packed @ replicate 20 0))
     | None \<Rightarrow> py_bind (big_endian_32 (push_bit 12 rate OR push_bit 9 (chans - 1) OR push_bit 4 (depth - 1)))
                 (\<lambda>packed. Inr (big_endian_16 4096 @ big_endian_16 4096 @ replicate 6 0 @ packed @ replicate 20 0)))"

text \<open>
  The two nested loops of \<open>decode_fixture\<close> over everything the resampler gives. The state is the
  parts, the frame count and the hasher; the flag says the loop returned early.
\<close>

record decode_state =
  dc_parts :: "byte_string list"
  dc_frame_count :: int
  dc_hasher :: float_pcm_hasher

definition take_frame :: "int option \<Rightarrow> out_frame \<Rightarrow> decode_state \<Rightarrow> (bool \<times> decode_state) py" where
  "take_frame max_frames f st = (
     let pcm = py_take (of_samples f * of_channels f * 2) (of_plane f);
         remaining = (case max_frames of None \<Rightarrow> of_samples f
                      | Some m \<Rightarrow> if dc_frame_count st + of_samples f > m then m - dc_frame_count st else of_samples f);
         over = (case max_frames of None \<Rightarrow> False | Some m \<Rightarrow> dc_frame_count st + of_samples f > m)
     in if over \<and> remaining \<le> 0 then Inr (True, st)
        else
          let part = (if over then py_take (remaining * of_channels f * 2) pcm else pcm) in
          py_bind (update_from_pcm_bytes part 16 (dc_hasher st)) (\<lambda>hasher.
            let count = dc_frame_count st + remaining in
            Inr (case max_frames of None \<Rightarrow> False | Some m \<Rightarrow> count \<ge> m,
                 \<lparr>dc_parts = dc_parts st @ [part], dc_frame_count = count, dc_hasher = hasher\<rparr>)))"

fun take_frames :: "int option \<Rightarrow> out_frame list \<Rightarrow> decode_state \<Rightarrow> decode_state py" where
  "take_frames max_frames [] st = Inr st"
| "take_frames max_frames (f # fs) st = py_bind (take_frame max_frames f st) (\<lambda>(done, st').
     if done then Inr st' else take_frames max_frames fs st')"

text \<open>\<open>int(sample_rate * max_duration_seconds)\<close> for a duration that is not negative.\<close>

definition max_frames_of :: "int \<Rightarrow> rat option \<Rightarrow> int option" where
  "max_frames_of rate max_duration = map_option (\<lambda>d.
     case f64 (of_int rate * d) of None \<Rightarrow> 0 | Some x \<Rightarrow> \<lfloor>x\<rfloor>) max_duration"

text \<open>A container: the rate and channels its codec gives, and the frames it decodes to.\<close>

record flac_source =
  fs_path :: string
  fs_codec_rate :: "int option"
  fs_stream_rate :: "int option"
  fs_channels :: "int option"
  fs_frames :: "out_frame list"
  fs_bytes :: byte_string

definition nonzero_or :: "int option \<Rightarrow> int \<Rightarrow> int" where
  "nonzero_or x fallback = (case x of None \<Rightarrow> fallback | Some n \<Rightarrow> if n = 0 then fallback else n)"

definition decode_fixture :: "flac_source \<Rightarrow> rat option \<Rightarrow> decoded_fixture py" where
  "decode_fixture src max_duration = (
     let rate = nonzero_or (fs_codec_rate src) (nonzero_or (fs_stream_rate src) 44100);
         chans = nonzero_or (fs_channels src) 2
     in py_bind (take_frames (max_frames_of rate max_duration) (fs_frames src)
                   \<lparr>dc_parts = [], dc_frame_count = 0, dc_hasher = new_hasher\<rparr>) (\<lambda>st.
        py_bind (duration_of (dc_frame_count st) rate) (\<lambda>seconds.
          Inr \<lparr>fx_path = fs_path src, fx_pcm_bytes = concat (dc_parts st), fx_sample_rate = rate,
               fx_channels = chans, fx_bit_depth = 16, fx_frame_count = dc_frame_count st,
               fx_duration_seconds = seconds, fx_source_flac_sha256 = sha256_hex (fs_bytes src),
               fx_source_pcm_sha256 = hexdigest (dc_hasher st)\<rparr>)))"

end
