(* ===== verification/Pcm_Facts.thy ===== *)
theory Pcm_Facts
  imports Pcm
begin

text \<open>
  Facts about PCM: samples are two's complement, conversion works piece by piece (locale
  \<open>piecewise\<close>), so the incremental hasher computes the hash of the whole stream; a widened stream
  converts to the same floats; and a float of at most 24 bits is stored exactly.
\<close>

section \<open>Chunks\<close>

lemma chunks_of_Nil [simp]: "chunks_of k [] = []"
  by (simp add: chunks_of.simps)

lemma chunks_of_step: "0 < k \<Longrightarrow> xs \<noteq> [] \<Longrightarrow> chunks_of k xs = take k xs # chunks_of k (drop k xs)"
  by (subst chunks_of.simps) simp

lemma chunks_of_append:
  assumes "0 < k" "length xs mod k = 0"
  shows "chunks_of k (xs @ ys) = chunks_of k xs @ chunks_of k ys"
  using assms
proof (induction "length xs" arbitrary: xs rule: less_induct)
  case less
  show ?case
  proof (cases "xs = []")
    case False
    then have "k \<le> length xs" using less.prems by (metis length_0_conv mod_less not_le)
    moreover have "length (drop k xs) mod k = 0" using less.prems \<open>k \<le> length xs\<close>
      by (simp add: le_mod_geq)
    ultimately have "chunks_of k (drop k xs @ ys) = chunks_of k (drop k xs) @ chunks_of k ys"
      using less.hyps [of "drop k xs"] less.prems False by simp
    then show ?thesis
      using \<open>k \<le> length xs\<close> False less.prems by (simp add: chunks_of_step)
  qed simp
qed

lemma chunks_of_length: "c \<in> set (chunks_of k xs) \<Longrightarrow> 0 < k \<Longrightarrow> length xs mod k = 0 \<Longrightarrow> length c = k"
proof (induction k xs rule: chunks_of.induct)
  case (1 k xs)
  show ?case
  proof (cases "xs = []")
    case False
    then have "k \<le> length xs" using 1 by (metis length_0_conv mod_less not_le)
    then show ?thesis
      using 1 False by (auto simp: chunks_of_step le_mod_geq)
  qed (use 1 in simp)
qed

lemma length_chunks_of: "0 < k \<Longrightarrow> length xs mod k = 0 \<Longrightarrow> length (chunks_of k xs) = length xs div k"
proof (induction k xs rule: chunks_of.induct)
  case (1 k xs)
  show ?case
  proof (cases "xs = []")
    case False
    then have "k \<le> length xs" using 1 by (metis length_0_conv mod_less not_le)
    then show ?thesis
      using 1 False by (simp add: chunks_of_step le_mod_geq le_div_geq)
  qed (use 1 in simp)
qed

section \<open>Conversion piece by piece\<close>

locale piecewise =
  fixes conv :: "'a list \<Rightarrow> 'b list py"
  assumes conv_Nil: "conv [] = Inr []"
    and conv_append: "conv xs = Inr a \<Longrightarrow> conv ys = Inr b \<Longrightarrow> conv (xs @ ys) = Inr (a @ b)"
begin

text \<open>Converting pieces one after another, appending what each gives.\<close>

primrec feed :: "'a list list \<Rightarrow> 'b list \<Rightarrow> 'b list py" where
  "feed [] acc = Inr acc"
| "feed (p # ps) acc = py_bind (conv p) (\<lambda>b. feed ps (acc @ b))"

lemma feed_from: "conv xs = Inr acc \<Longrightarrow> feed ps acc = Inr out \<Longrightarrow> conv (xs @ concat ps) = Inr out"
proof (induction ps arbitrary: xs acc)
  case (Cons p ps)
  then obtain b where b: "conv p = Inr b" "feed ps (acc @ b) = Inr out" by (auto simp: py_simps)
  have "conv (xs @ p) = Inr (acc @ b)" using Cons.prems(1) b(1) by (rule conv_append)
  from Cons.IH [OF this b(2)] show ?case by simp
qed simp

lemma feed_whole: "feed ps [] = Inr out \<Longrightarrow> conv (concat ps) = Inr out"
  using feed_from [OF conv_Nil] by simp

end

lemma pack_floats_append: "pack_floats (xs @ ys) = pack_floats xs @ pack_floats ys"
  by (simp add: pack_floats_def)

lemma length_little_endian [simp]: "length (little_endian w) = 4"
  by (simp add: little_endian_def)

lemma length_pack_floats [simp]: "length (pack_floats xs) = 4 * length xs"
  by (induction xs) (simp_all add: pack_floats_def)

lemma unpack_ints_eq: "0 < width \<Longrightarrow> unpack_ints width bs =
    (if length bs mod width = 0 then Inr (map signed_le (chunks_of width bs))
     else Inl (struct_error (length bs div width * width)))"
proof -
  have "length bs = length bs div width * width \<longleftrightarrow> length bs mod width = 0"
    using div_mult_mod_eq [of "length bs" width] by linarith
  then show ?thesis by (simp add: unpack_ints_def Let_def)
qed

lemma pcm_conversion:
  "pcm_int_bytes_to_float_bytes pcm 16 = Inr out \<longleftrightarrow> length pcm mod 2 = 0
     \<and> out = pack_floats (map (\<lambda>c. of_int (signed_le c) / 32768) (chunks_of 2 pcm))"
  "pcm_int_bytes_to_float_bytes pcm 24 = Inr out \<longleftrightarrow> length pcm mod 3 = 0
     \<and> out = pack_floats (map (\<lambda>c. of_int (sample_24 c) / 8388608) (chunks_of 3 pcm))"
  "pcm_int_bytes_to_float_bytes pcm 32 = Inr out \<longleftrightarrow> length pcm mod 4 = 0
     \<and> out = pack_floats (map (\<lambda>c. of_int (signed_le c) / 2147483648) (chunks_of 4 pcm))"
  by (auto simp: pcm_int_bytes_to_float_bytes_def unpack_ints_eq o_def)

lemma mod_append: "length xs mod k = 0 \<Longrightarrow> length ys mod k = 0 \<Longrightarrow> length (xs @ ys) mod k = 0" for k :: nat
  by (simp add: mod_add_eq [symmetric])

interpretation pcm16: piecewise "\<lambda>pcm. pcm_int_bytes_to_float_bytes pcm 16"
  by unfold_locales (auto simp: pcm_conversion chunks_of_append pack_floats_append mod_append pack_floats_def [of "[]"])

interpretation pcm24: piecewise "\<lambda>pcm. pcm_int_bytes_to_float_bytes pcm 24"
  by unfold_locales (auto simp: pcm_conversion chunks_of_append pack_floats_append mod_append pack_floats_def [of "[]"])

interpretation pcm32: piecewise "\<lambda>pcm. pcm_int_bytes_to_float_bytes pcm 32"
  by unfold_locales (auto simp: pcm_conversion chunks_of_append pack_floats_append mod_append pack_floats_def [of "[]"])

lemma pcm_depths:
  "pcm_int_bytes_to_float_bytes pcm depth = Inr out \<Longrightarrow> depth = 16 \<or> depth = 24 \<or> depth = 32"
  by (auto simp: pcm_int_bytes_to_float_bytes_def split: if_splits)

lemma conversion_appends:
  "pcm_int_bytes_to_float_bytes xs depth = Inr a \<Longrightarrow> pcm_int_bytes_to_float_bytes ys depth = Inr b \<Longrightarrow>
   pcm_int_bytes_to_float_bytes (xs @ ys) depth = Inr (a @ b)"
  using pcm_depths [of xs depth a] pcm16.conv_append pcm24.conv_append pcm32.conv_append by blast

lemma conversion_length:
  "pcm_int_bytes_to_float_bytes pcm depth = Inr out \<Longrightarrow>
   length out = 4 * (length pcm div nat (depth div 8)) \<and> length pcm mod nat (depth div 8) = 0"
  using pcm_depths [of pcm depth out] by (auto simp: pcm_conversion length_chunks_of)

section \<open>Two's complement\<close>

lemma or_push_bit: "0 \<le> a \<Longrightarrow> a < 2 ^ n \<Longrightarrow> a OR push_bit n b = a + push_bit n b" for a b :: int
proof -
  assume a: "0 \<le> a" "a < 2 ^ n"
  then have t: "take_bit n a = a" by (simp add: take_bit_int_eq_self)
  have "a AND push_bit n b = 0"
    by (subst t [symmetric]) (auto simp: bit_eq_iff bit_simps)
  then show ?thesis by (simp add: disjunctive_add_eq_or)
qed

lemma byte_range: "0 \<le> uint (b :: 8 word)" "uint (b :: 8 word) < 256"
  using uint_lt2p [of b] by simp_all

lemma sample_24_signed: "sample_24 [a, b, c] = signed_le [a, b, c]"
proof -
  define v where "v = uint a + 256 * uint b + 65536 * uint c"
  have "uint a OR push_bit 8 (uint b) = uint a + 256 * uint b"
    using or_push_bit [of "uint a" 8 "uint b"] byte_range [of a] by (simp add: push_bit_eq_mult)
  moreover have "(uint a + 256 * uint b) OR push_bit 16 (uint c) = v"
    using or_push_bit [of "uint a + 256 * uint b" 16 "uint c"] byte_range [of a] byte_range [of b]
    by (simp add: push_bit_eq_mult v_def)
  ultimately have or: "uint a OR push_bit 8 (uint b) OR push_bit 16 (uint c) = v"
    by (simp add: or.assoc [symmetric])
  have v: "0 \<le> v" "v < 2 ^ 24"
    using byte_range [of a] byte_range [of b] byte_range [of c] by (simp_all add: v_def)
  have "(v AND 0x800000 \<noteq> 0) = bit v 23"
    using and_exp_eq_0_iff_not_bit [of v 23] by simp
  also have "\<dots> \<longleftrightarrow> 2 ^ 23 \<le> v"
  proof -
    have "v div 8388608 = (if 8388608 \<le> v then 1 else 0)"
      using v int_div_pos_eq [of v 8388608 1 "v - 8388608"] by (simp add: div_pos_pos_trivial)
    then show ?thesis by (simp add: bit_iff_odd)
  qed
  finally have top: "(v AND 0x800000 \<noteq> 0) \<longleftrightarrow> 2 ^ 23 \<le> v" .
  have "v OR NOT 0xFFFFFF = v - 2 ^ 24"
  proof -
    have "NOT 0xFFFFFF = push_bit 24 (- 1 :: int)" by (simp add: push_bit_eq_mult not_int_def)
    then show ?thesis using or_push_bit [OF v(1) v(2), of "- 1"] by (simp add: push_bit_eq_mult)
  qed
  moreover have "signed_le [a, b, c] = (if v < 2 ^ 23 then v else v - 2 ^ 24)"
    by (simp add: signed_le_def v_def Let_def algebra_simps)
  ultimately show ?thesis
    using top by (simp add: sample_24_def Let_def or not_le)
qed

text \<open>Widening a sample puts zeros below it: the same number over a larger power of two.\<close>

lemma widened_16_24: "signed_le [0, a, b] = 256 * signed_le [a, b]"
  by (simp add: signed_le_def Let_def)

lemma widened_16_32: "signed_le [0, 0, a, b] = 65536 * signed_le [a, b]"
  by (simp add: signed_le_def Let_def)

lemma widened_24_32: "signed_le [0, a, b, c] = 256 * signed_le [a, b, c]"
  by (simp add: signed_le_def Let_def)

section \<open>Widening\<close>

lemma concat_chunks_of: "0 < k \<Longrightarrow> concat (chunks_of k xs) = xs"
proof (induction k xs rule: chunks_of.induct)
  case (1 k xs)
  then show ?case by (cases "xs = []") (simp_all add: chunks_of_step)
qed

lemma chunks_of_concat: "0 < k \<Longrightarrow> list_all (\<lambda>c. length c = k) cs \<Longrightarrow> chunks_of k (concat cs) = cs"
proof (induction cs)
  case (Cons c cs)
  then have "c @ concat cs \<noteq> []" by auto
  with Cons show ?case by (simp add: chunks_of_step)
qed simp

text \<open>The same samples in a wider container: \<open>k\<close> zero bytes below each sample of \<open>n\<close> bytes.\<close>

definition widened :: "nat \<Rightarrow> nat \<Rightarrow> byte_string \<Rightarrow> byte_string" where
  "widened k n pcm = concat (map (\<lambda>c. replicate k 0 @ c) (chunks_of n pcm))"

lemma widened_samples:
  assumes "0 < n" "n dvd length pcm" "w = k + n"
    and samples: "\<And>c. length c = n \<Longrightarrow> f (replicate k 0 @ c) = g c"
  shows "w dvd length (widened k n pcm)"
    and "map f (chunks_of w (widened k n pcm)) = map g (chunks_of n pcm)"
proof -
  have c: "c \<in> set (chunks_of n pcm) \<Longrightarrow> length c = n" for c
    using assms(1,2) by (simp add: chunks_of_length)
  then have lengths: "map length (map (\<lambda>c. replicate k (0 :: 8 word) @ c) (chunks_of n pcm))
      = replicate (length (chunks_of n pcm)) w"
    using assms(3) by (intro replicate_eqI) auto
  then show "w dvd length (widened k n pcm)"
    by (simp only: widened_def length_concat sum_list_replicate) simp
  have "chunks_of w (widened k n pcm) = map (\<lambda>c. replicate k 0 @ c) (chunks_of n pcm)"
    unfolding widened_def using assms(1,3) c by (intro chunks_of_concat) (auto simp: list_all_iff)
  then show "map f (chunks_of w (widened k n pcm)) = map g (chunks_of n pcm)"
    using c samples by simp
qed

lemma two_bytes: "length c = 2 \<Longrightarrow> \<exists>a b. c = [a, b]"
  and three_bytes: "length c = 3 \<Longrightarrow> \<exists>a b d. c = [a, b, d]"
  by (auto simp: length_Suc_conv numeral_2_eq_2 numeral_3_eq_3)

lemma widened_sample:
  "length c = 2 \<Longrightarrow> (of_int (sample_24 (replicate 1 0 @ c)) / 8388608 :: rat) = of_int (signed_le c) / 32768"
  "length c = 2 \<Longrightarrow> (of_int (signed_le (replicate 2 0 @ c)) / 2147483648 :: rat) = of_int (signed_le c) / 32768"
  "length c = 3 \<Longrightarrow> (of_int (signed_le (replicate 1 0 @ c)) / 2147483648 :: rat) = of_int (sample_24 c) / 8388608"
proof -
  show "length c = 2 \<Longrightarrow> (of_int (sample_24 (replicate 1 0 @ c)) / 8388608 :: rat) = of_int (signed_le c) / 32768"
    using two_bytes [of c] by (auto simp: sample_24_signed widened_16_24)
  have "replicate 2 0 @ c = 0 # 0 # c" for c :: byte_string by (simp add: numeral_2_eq_2)
  then show "length c = 2 \<Longrightarrow> (of_int (signed_le (replicate 2 0 @ c)) / 2147483648 :: rat) = of_int (signed_le c) / 32768"
    using two_bytes [of c] by (auto simp: widened_16_32)
  show "length c = 3 \<Longrightarrow> (of_int (signed_le (replicate 1 0 @ c)) / 2147483648 :: rat) = of_int (sample_24 c) / 8388608"
    using three_bytes [of c] by (auto simp: sample_24_signed widened_24_32)
qed

lemma widening_keeps_floats:
  "2 dvd length pcm \<Longrightarrow>
     pcm_int_bytes_to_float_bytes (widened 1 2 pcm) 24 = pcm_int_bytes_to_float_bytes pcm 16"
  "2 dvd length pcm \<Longrightarrow>
     pcm_int_bytes_to_float_bytes (widened 2 2 pcm) 32 = pcm_int_bytes_to_float_bytes pcm 16"
  "3 dvd length pcm \<Longrightarrow>
     pcm_int_bytes_to_float_bytes (widened 1 3 pcm) 32 = pcm_int_bytes_to_float_bytes pcm 24"
proof -
  assume e: "2 dvd length pcm"
  have c: "pcm_int_bytes_to_float_bytes pcm 16
      = Inr (pack_floats (map (\<lambda>c. of_int (signed_le c) / 32768) (chunks_of 2 pcm)))"
    using e by (simp add: pcm_conversion)
  show "pcm_int_bytes_to_float_bytes (widened 1 2 pcm) 24 = pcm_int_bytes_to_float_bytes pcm 16"
    unfolding c pcm_conversion(2)
    using e widened_samples [OF _ e, where k = 1 and w = 3
        and f = "\<lambda>c. of_int (sample_24 c) / 8388608 :: rat"
        and g = "\<lambda>c. of_int (signed_le c) / 32768 :: rat"] widened_sample(1)
    by simp
  show "pcm_int_bytes_to_float_bytes (widened 2 2 pcm) 32 = pcm_int_bytes_to_float_bytes pcm 16"
    unfolding c pcm_conversion(3)
    using e widened_samples [OF _ e, where k = 2 and w = 4
        and f = "\<lambda>c. of_int (signed_le c) / 2147483648 :: rat"
        and g = "\<lambda>c. of_int (signed_le c) / 32768 :: rat"] widened_sample(2)
    by simp
next
  assume e: "3 dvd length pcm"
  have c: "pcm_int_bytes_to_float_bytes pcm 24
      = Inr (pack_floats (map (\<lambda>c. of_int (sample_24 c) / 8388608) (chunks_of 3 pcm)))"
    using e by (simp add: pcm_conversion)
  show "pcm_int_bytes_to_float_bytes (widened 1 3 pcm) 32 = pcm_int_bytes_to_float_bytes pcm 24"
    unfolding c pcm_conversion(3)
    using e widened_samples [OF _ e, where k = 1 and w = 4
        and f = "\<lambda>c. of_int (signed_le c) / 2147483648 :: rat"
        and g = "\<lambda>c. of_int (sample_24 c) / 8388608 :: rat"] widened_sample(3)
    by simp
qed

section \<open>Single precision\<close>

text \<open>The number a binary32 encoding stands for, an infinity or a NaN apart.\<close>

definition f32_value :: "32 word \<Rightarrow> rat" where
  "f32_value w = (let m = uint w mod 2 ^ 31; e = m div 2 ^ 23; f = m mod 2 ^ 23;
     a = (if e = 0 then of_int f * pow2 (- 149) else of_int (2 ^ 23 + f) * pow2 (e - 150))
   in if 2 ^ 31 \<le> uint w then - a else a)"

lemma pow2_add: "pow2 (k + int n) = 2 ^ n * pow2 k"
proof (induction n)
  case (Suc n)
  have "pow2 (k + int (Suc n)) = 2 * pow2 (k + int n)"
    using pow2_Suc [of "k + int n"] by (simp add: ac_simps)
  with Suc show ?case by simp
qed simp

lemma pow2_nonzero [simp]: "pow2 k \<noteq> 0" "\<not> pow2 k < 0"
  using pow2_pos [of k] by linarith+

text \<open>An integer below \<open>2\<^sup>5\<^sup>2\<close> is a float.\<close>

lemma f64_int:
  assumes "0 < n" "n < 2 ^ 52"
  shows "f64 (of_int n) = Some (of_int n)"
proof -
  define e where "e = exponent_of (of_int n)"
  have p: "pow2 52 = of_int (2 ^ 52)" "pow2 0 = 1" by (simp_all add: pow2_def)
  have e: "pow2 e \<le> of_int n" "of_int n < pow2 (e + 1)"
    using exponent_of_bounds [of "of_int n"] assms(1) by (simp_all add: e_def)
  have small: "of_int n < pow2 52" unfolding p using assms(2) by (simp only: of_int_less_iff)
  have "0 \<le> e"
  proof (rule ccontr)
    assume "\<not> 0 \<le> e"
    then have "pow2 (e + 1) \<le> pow2 0" by (intro pow2_mono) simp
    with e(2) assms(1) show False by (simp add: p)
  qed
  moreover have "e \<le> 52"
  proof (rule ccontr)
    assume "\<not> e \<le> 52"
    then have "pow2 52 \<le> pow2 e" by (intro pow2_mono) simp
    with e(1) small show False by linarith
  qed
  ultimately have "of_int n \<le> round_pos (of_int n)" using e by (intro round_pos_above(1)) simp_all
  moreover have "round_pos (of_int n) \<le> of_int n" using assms(1) small by (intro round_pos_le_int) simp_all
  moreover have "of_int n < pow2 1000" using small pow2_mono [of 52 1000] by linarith
  ultimately show ?thesis using f64_pos [of "of_int n"] assms(1) by simp
qed

lemma round_half_even_int [simp]: "round_half_even (of_int n) = n"
  by (simp add: round_half_even_def)

lemma f32_magnitude_exact:
  assumes "2 ^ 23 \<le> s" "s < 2 ^ 24" "- 126 \<le> e"
  shows "f32_magnitude (of_int s * pow2 (e - 23)) = (e + 126) * 2 ^ 23 + s"
proof -
  let ?x = "of_int s * pow2 (e - 23)"
  have e: "pow2 e = 2 ^ 23 * pow2 (e - 23)" "pow2 (e + 1) = 2 ^ 24 * pow2 (e - 23)"
    using pow2_add [of "e - 23" 23] pow2_add [of "e - 23" 24] by (simp_all add: add.commute [of 1])
  have s: "2 ^ 23 \<le> (of_int s :: rat)" "of_int s < (2 ^ 24 :: rat)"
    using assms(1,2) by simp_all
  have "pow2 e \<le> ?x" "?x < pow2 (e + 1)"
    unfolding e using s by simp_all
  then have "exponent_of ?x = e" by (rule exponent_of_unique)
  moreover have "0 < ?x" using s by simp
  moreover have "?x / pow2 (e - 23) = of_int s" using pow2_pos [of "e - 23"] by (simp add: less_le)
  ultimately show ?thesis using assms(1,3) by (auto simp: f32_magnitude_def)
qed

lemma f32_value_bits:
  assumes "2 ^ 23 \<le> s" "s < 2 ^ 24" "- 126 \<le> e" "e \<le> 127"
  shows "f32_value (word_of_int ((e + 126) * 2 ^ 23 + s)) = of_int s * pow2 (e - 23)"
    and "f32_value (word_of_int (2 ^ 31 + ((e + 126) * 2 ^ 23 + s))) = - (of_int s * pow2 (e - 23))"
proof -
  define M where "M = (e + 126) * 2 ^ 23 + s"
  have M: "M = (e + 127) * 2 ^ 23 + (s - 2 ^ 23)" by (simp add: M_def algebra_simps)
  have range: "0 \<le> M" "M < 2 ^ 31" using assms by (simp_all add: M_def)
  have parts: "M div 2 ^ 23 = e + 127" "M mod 2 ^ 23 = s - 2 ^ 23"
    using int_div_pos_eq [of M "2 ^ 23" "e + 127" "s - 2 ^ 23"] int_mod_pos_eq [of M "2 ^ 23" "e + 127" "s - 2 ^ 23"]
      assms M by (simp_all add: mult.commute)
  have u: "uint (word_of_int M :: 32 word) = M" "uint (word_of_int (2 ^ 31 + M) :: 32 word) = 2 ^ 31 + M"
    using range by (simp_all only: uint_word_of_int) (simp_all add: mod_pos_pos_trivial)
  have m: "M mod 2 ^ 31 = M" "(2 ^ 31 + M) mod 2 ^ 31 = M" using range by simp_all
  have bits: "m = M \<Longrightarrow> e' = e + 127 \<Longrightarrow> f = s - 2 ^ 23 \<Longrightarrow>
      (if e' = 0 then of_int f * pow2 (- 149) else of_int (2 ^ 23 + f) * pow2 (e' - 150))
        = of_int s * pow2 (e - 23)" for m e' f :: int
    using assms by simp
  have "f32_value (word_of_int M) = of_int s * pow2 (e - 23)"
    unfolding f32_value_def Let_def u m parts bits [OF refl refl refl] using range by simp
  then show "f32_value (word_of_int ((e + 126) * 2 ^ 23 + s)) = of_int s * pow2 (e - 23)"
    by (simp only: M_def)
  have "f32_value (word_of_int (2 ^ 31 + M)) = - (of_int s * pow2 (e - 23))"
    unfolding f32_value_def Let_def u m parts bits [OF refl refl refl] using range by simp
  then show "f32_value (word_of_int (2 ^ 31 + ((e + 126) * 2 ^ 23 + s))) = - (of_int s * pow2 (e - 23))"
    by (simp only: M_def)
qed

text \<open>An integer of at most 24 bits over a power of two up to \<open>2\<^sup>1\<^sup>2\<^sup>6\<close> is stored exactly.\<close>

lemma f32_exact:
  assumes "\<bar>n\<bar> < 2 ^ 24" "m \<le> 126"
  shows "f32_value (f32_bits (of_int n / 2 ^ m)) = of_int n / 2 ^ m"
proof (cases "n = 0")
  case True
  then show ?thesis by (simp add: f32_bits_def f32_magnitude_def f32_value_def)
next
  case False
  define a where "a = \<bar>n\<bar>"
  have a: "0 < a" "a < 2 ^ 24" using False assms(1) by (simp_all add: a_def)
  define l where "l = exponent_of (of_int a)"
  have bounds: "pow2 l \<le> of_int a" "of_int a < pow2 (l + 1)"
    using exponent_of_bounds [of "of_int a"] a(1) by (simp_all add: l_def)
  have l0: "0 \<le> l"
  proof (rule ccontr)
    assume "\<not> 0 \<le> l"
    then have "pow2 (l + 1) \<le> pow2 0" by (intro pow2_mono) simp
    with bounds(2) a(1) show False by (simp add: pow2_def)
  qed
  have l23: "l \<le> 23"
  proof (rule ccontr)
    assume "\<not> l \<le> 23"
    then have "pow2 24 \<le> pow2 l" by (intro pow2_mono) simp
    with bounds(1) have "pow2 24 \<le> of_int a" by linarith
    with a(2) show False by (simp add: pow2_def)
  qed
  define s where "s = a * 2 ^ nat (23 - l)"
  define e where "e = l - int m"
  have sr: "(of_int s :: rat) = of_int a * 2 ^ nat (23 - l)" by (simp add: s_def)
  have p: "pow2 23 = 2 ^ nat (23 - l) * pow2 l" "pow2 24 = 2 ^ nat (23 - l) * pow2 (l + 1)"
    using pow2_add [of l "nat (23 - l)"] pow2_add [of "l + 1" "nat (23 - l)"] l23 by (simp_all add: algebra_simps)
  have "pow2 23 \<le> of_int s" "of_int s < pow2 24"
    unfolding sr p using bounds by simp_all
  moreover have "pow2 23 = of_int (2 ^ 23)" "pow2 24 = of_int (2 ^ 24)" by (simp_all add: pow2_def)
  ultimately have s: "2 ^ 23 \<le> s" "s < 2 ^ 24" by (simp_all only: of_int_le_iff of_int_less_iff)
  have e: "- 126 \<le> e" "e \<le> 127" using assms(2) l0 l23 by (simp_all add: e_def)
  have x: "of_int a / 2 ^ m = of_int s * pow2 (e - 23)"
  proof -
    have "pow2 (- int m) = 1 / 2 ^ m" by (simp add: pow2_def)
    moreover have "pow2 (- int m) = 2 ^ nat (23 - l) * pow2 (e - 23)"
      using pow2_add [of "e - 23" "nat (23 - l)"] l23 by (simp add: e_def)
    ultimately show ?thesis by (simp add: sr field_simps)
  qed
  show ?thesis
  proof (cases "n < 0")
    case True
    then have "of_int n / 2 ^ m = - (of_int a / 2 ^ m :: rat)" by (simp add: a_def)
    moreover have "0 < (of_int a / 2 ^ m :: rat)" using a(1) by simp
    ultimately show ?thesis
      using f32_magnitude_exact [OF s e(1)] f32_value_bits(2) [OF s e] by (simp add: f32_bits_def x)
  next
    case F: False
    then have "of_int n / 2 ^ m = (of_int a / 2 ^ m :: rat)" by (simp add: a_def)
    with F show ?thesis
      using f32_magnitude_exact [OF s e(1)] f32_value_bits(1) [OF s e] s pow2_pos [of "e - 23"]
      by (simp add: f32_bits_def x mult_less_0_iff)
  qed
qed

section \<open>Reading the canonical form back\<close>

definition word_of_le :: "byte_string \<Rightarrow> 32 word" where
  "word_of_le bs = foldr (\<lambda>b n. ucast b + 256 * n) bs 0"

definition unpack_floats :: "byte_string \<Rightarrow> rat list" where
  "unpack_floats bs = map (\<lambda>c. f32_value (word_of_le c)) (chunks_of 4 bs)"

lemma word_of_little_endian [simp]: "word_of_le (little_endian w) = w"
proof -
  have "word_of_le (little_endian w) = word_of_int (uint w)"
  proof -
    define n where "n = uint w"
    have n: "0 \<le> n" "n < 2 ^ 32" using uint_lt2p [of w] by (simp_all add: n_def)
    have t: "take_bit 32 (uint w) = uint w" using n by (simp add: n_def take_bit_int_eq_self)
    have b: "(ucast (ucast (drop_bit k w) :: 8 word) :: 32 word) = word_of_int (n div 2 ^ k mod 256)" for k
    proof -
      have "uint (ucast (ucast (drop_bit k w) :: 8 word) :: 32 word) = take_bit 8 (drop_bit k n)"
        by (simp add: unsigned_ucast_eq unsigned_drop_bit_eq unsigned_take_bit_eq n_def t)
      also have "\<dots> = n div 2 ^ k mod 256" by (simp add: take_bit_eq_mod drop_bit_eq_div)
      finally show ?thesis by (metis word_of_int_uint)
    qed
    have "n = n mod 256 + 256 * (n div 2 ^ 8 mod 256) + 65536 * (n div 2 ^ 16 mod 256) + 16777216 * (n div 2 ^ 24 mod 256)"
    proof -
      define a b c where "a = n div 256" and "b = a div 256" and "c = b div 256"
      have "n div 2 ^ 8 = a" "n div 2 ^ 16 = b" "n div 2 ^ 24 = c"
        by (simp_all add: a_def b_def c_def flip: zdiv_zmult2_eq)
      moreover have "n = n mod 256 + 256 * a" "a = a mod 256 + 256 * b" "b = b mod 256 + 256 * c"
        by (simp_all add: a_def b_def c_def)
      moreover have "c mod 256 = c"
        using n by (simp add: a_def b_def c_def flip: zdiv_zmult2_eq)
      moreover have "n = x + 256 * a \<Longrightarrow> a = y + 256 * b \<Longrightarrow> b = z + 256 * c \<Longrightarrow>
          n = x + 256 * y + 65536 * z + 16777216 * c" for x y z
        by simp
      ultimately show ?thesis by metis
    qed
    moreover have "word_of_le (little_endian w) = word_of_int (n mod 256 + 256 * (n div 2 ^ 8 mod 256)
        + 65536 * (n div 2 ^ 16 mod 256) + 16777216 * (n div 2 ^ 24 mod 256))"
      using b [of 0] b [of 8] b [of 16] b [of 24]
      by (simp add: word_of_le_def little_endian_def algebra_simps)
    ultimately show ?thesis by (simp only: n_def)
  qed
  then show ?thesis by simp
qed

lemma unpack_packed: "unpack_floats (pack_floats xs) = map (\<lambda>x. f32_value (f32_bits x)) xs"
proof -
  have "chunks_of 4 (pack_floats xs) = map (\<lambda>x. little_endian (f32_bits x)) xs"
    unfolding pack_floats_def by (rule chunks_of_concat) (auto simp: list_all_iff)
  then show ?thesis by (simp add: unpack_floats_def)
qed

lemma bytes_value_range:
  "0 \<le> foldr (\<lambda>b n. uint b + 256 * n) bs 0 \<and> foldr (\<lambda>b n. uint b + 256 * n) bs 0 < 256 ^ length bs"
  for bs :: byte_string
proof (induction bs)
  case (Cons b bs)
  then show ?case using byte_range [of b] by simp
qed simp

lemma signed_le_range: "0 < length bs \<Longrightarrow> - (2 ^ (8 * length bs - 1)) \<le> signed_le bs \<and> signed_le bs < 2 ^ (8 * length bs - 1)"
proof -
  assume "0 < length bs"
  then obtain k where k: "8 * length bs = Suc k" "8 * length bs - 1 = k"
    by (cases bs) simp_all
  have "(256 :: int) ^ length bs = 2 ^ (8 * length bs)" by (simp add: power_mult)
  then show ?thesis
    using bytes_value_range [of bs] by (auto simp: signed_le_def Let_def k)
qed

lemma samples_exact:
  "pcm_int_bytes_to_float_bytes pcm 16 = Inr out \<Longrightarrow>
     unpack_floats out = map (\<lambda>c. of_int (signed_le c) / 2 ^ 15) (chunks_of 2 pcm)"
  "pcm_int_bytes_to_float_bytes pcm 24 = Inr out \<Longrightarrow>
     unpack_floats out = map (\<lambda>c. of_int (signed_le c) / 2 ^ 23) (chunks_of 3 pcm)"
proof -
  assume "pcm_int_bytes_to_float_bytes pcm 16 = Inr out"
  then have o: "length pcm mod 2 = 0" "out = pack_floats (map (\<lambda>c. of_int (signed_le c) / 32768) (chunks_of 2 pcm))"
    by (simp_all only: pcm_conversion)
  have "f32_value (f32_bits (of_int (signed_le c) / 32768)) = of_int (signed_le c) / 32768"
    if "c \<in> set (chunks_of 2 pcm)" for c
  proof -
    have "length c = 2" using chunks_of_length [OF that] o(1) by simp
    then have "\<bar>signed_le c\<bar> < 2 ^ 24" using signed_le_range [of c] by (auto simp: abs_if)
    from f32_exact [OF this, of 15] show ?thesis by simp
  qed
  then show "unpack_floats out = map (\<lambda>c. of_int (signed_le c) / 2 ^ 15) (chunks_of 2 pcm)"
    unfolding o(2) unpack_packed by simp
next
  assume "pcm_int_bytes_to_float_bytes pcm 24 = Inr out"
  then have o: "length pcm mod 3 = 0" "out = pack_floats (map (\<lambda>c. of_int (sample_24 c) / 8388608) (chunks_of 3 pcm))"
    by (simp_all only: pcm_conversion)
  have "f32_value (f32_bits (of_int (sample_24 c) / 8388608)) = of_int (signed_le c) / 8388608"
    if "c \<in> set (chunks_of 3 pcm)" for c
  proof -
    have l: "length c = 3" using chunks_of_length [OF that] o(1) by simp
    then have "\<bar>signed_le c\<bar> < 2 ^ 24" using signed_le_range [of c] by (auto simp: abs_if)
    moreover have "sample_24 c = signed_le c" using three_bytes [OF l] sample_24_signed by auto
    ultimately show ?thesis using f32_exact [of "signed_le c" 23] by simp
  qed
  then show "unpack_floats out = map (\<lambda>c. of_int (signed_le c) / 2 ^ 23) (chunks_of 3 pcm)"
    unfolding o(2) unpack_packed by simp
qed

section \<open>Hashing piece by piece\<close>

text \<open>The hasher over pieces, in the order they arrive.\<close>

primrec feed_pieces :: "byte_string list \<Rightarrow> int \<Rightarrow> float_pcm_hasher \<Rightarrow> float_pcm_hasher py" where
  "feed_pieces [] depth h = Inr h"
| "feed_pieces (p # ps) depth h = py_bind (update_from_pcm_bytes p depth h) (feed_pieces ps depth)"

lemma piecewise_conversion: "depth \<in> {16, 24, 32} \<Longrightarrow> piecewise (\<lambda>pcm. pcm_int_bytes_to_float_bytes pcm depth)"
  using pcm16.piecewise_axioms pcm24.piecewise_axioms pcm32.piecewise_axioms by auto

lemma feed_pieces_hash:
  assumes "depth \<in> {16, 24, 32}" "feed_pieces ps depth h = Inr h'"
  shows "piecewise.feed (\<lambda>pcm. pcm_int_bytes_to_float_bytes pcm depth) ps (fh_hash h) = Inr (fh_hash h')"
  using assms(2)
proof (induction ps arbitrary: h)
  case Nil
  then show ?case by (simp add: piecewise.feed.simps [OF piecewise_conversion [OF assms(1)]])
next
  case (Cons p ps)
  then obtain fs where "pcm_int_bytes_to_float_bytes p depth = Inr fs"
      "feed_pieces ps depth (update_from_float_bytes fs h) = Inr h'"
    by (auto simp: update_from_pcm_bytes_def py_simps)
  with Cons.IH [of "update_from_float_bytes fs h"] show ?case
    by (simp add: piecewise.feed.simps [OF piecewise_conversion [OF assms(1)]] update_from_float_bytes_def)
qed

lemma feed_pieces_count:
  "feed_pieces ps depth h = Inr h' \<Longrightarrow> fh_sample_count h = length (fh_hash h) div 4 \<Longrightarrow>
   4 dvd length (fh_hash h) \<Longrightarrow> fh_sample_count h' = length (fh_hash h') div 4"
proof (induction ps arbitrary: h)
  case (Cons p ps)
  then obtain fs where fs: "pcm_int_bytes_to_float_bytes p depth = Inr fs"
      "feed_pieces ps depth (update_from_float_bytes fs h) = Inr h'"
    by (auto simp: update_from_pcm_bytes_def py_simps)
  have "4 dvd length fs" using conversion_length [OF fs(1)] by simp
  then show ?case
    using Cons.IH [OF fs(2)] Cons.prems by (auto simp: update_from_float_bytes_def)
qed simp

lemma fed_whole:
  assumes "depth \<in> {16, 24, 32}" "feed_pieces ps depth new_hasher = Inr h"
  shows "pcm_int_bytes_to_float_bytes (concat ps) depth = Inr (fh_hash h)"
    and "fh_sample_count h = length (concat ps) div nat (depth div 8)"
proof -
  show whole: "pcm_int_bytes_to_float_bytes (concat ps) depth = Inr (fh_hash h)"
    using piecewise.feed_whole [OF piecewise_conversion [OF assms(1)]]
      feed_pieces_hash [OF assms] by (simp add: new_hasher_def)
  have "fh_sample_count h = length (fh_hash h) div 4"
    using feed_pieces_count [OF assms(2)] by (simp add: new_hasher_def)
  then show "fh_sample_count h = length (concat ps) div nat (depth div 8)"
    using conversion_length [OF whole] by simp
qed

section \<open>Fixtures\<close>

text \<open>What a fixture claims: its hash is that of its samples, and it holds as many as it counts.\<close>

definition consistent :: "decoded_fixture \<Rightarrow> bool" where
  "consistent fx \<longleftrightarrow>
     int (length (fx_pcm_bytes fx)) = fx_frame_count fx * (fx_channels fx * (fx_bit_depth fx div 8))
     \<and> (case pcm_int_bytes_to_float_bytes (fx_pcm_bytes fx) (fx_bit_depth fx) of
          Inl _ \<Rightarrow> False | Inr out \<Rightarrow> fx_source_pcm_sha256 fx = sha256_hex out)"

lemma trimmed_fixture:
  assumes "trim_fixture_to_frame_multiple fx k = Inr (fx', n)" "0 < k" "consistent fx"
    and "0 \<le> fx_frame_count fx" "0 \<le> fx_channels fx" "0 \<le> fx_bit_depth fx"
  shows "consistent fx' \<and> fx_frame_count fx' mod k = 0 \<and> fx_frame_count fx = fx_frame_count fx' + n
     \<and> 0 \<le> n \<and> n < k \<and> fx_pcm_bytes fx' = take (length (fx_pcm_bytes fx')) (fx_pcm_bytes fx)"
proof (cases "fx_frame_count fx mod k = 0")
  case True
  with assms show ?thesis by (simp add: trim_fixture_to_frame_multiple_def)
next
  case False
  define t where "t = fx_frame_count fx mod k"
  define b where "b = fx_channels fx * (fx_bit_depth fx div 8)"
  define kept where "kept = fx_frame_count fx - t"
  have t: "0 \<le> t" "t < k" using assms(2) by (simp_all add: t_def)
  have kept: "0 \<le> kept" "kept mod k = 0"
    using assms(2,4) by (simp_all add: kept_def t_def zmod_le_nonneg_dividend mod_diff_right_eq)
  have b: "0 \<le> b" using assms(5,6) by (simp add: b_def)
  have len: "int (length (fx_pcm_bytes fx)) = fx_frame_count fx * b"
    using assms(3) by (simp add: consistent_def b_def)
  have fits: "kept * b \<le> int (length (fx_pcm_bytes fx))"
    unfolding len kept_def using b t(1) by (intro mult_right_mono) simp_all
  define pcm where "pcm = take (nat (kept * b)) (fx_pcm_bytes fx)"
  have pcm: "py_take (kept * b) (fx_pcm_bytes fx) = pcm" "int (length pcm) = kept * b"
  proof -
    have "0 \<le> kept * b" using kept(1) b by simp
    then show "py_take (kept * b) (fx_pcm_bytes fx) = pcm" "int (length pcm) = kept * b"
      using fits by (simp_all add: py_take_def pcm_def)
  qed
  from assms(1) obtain h s where fx':
      "update_from_pcm_bytes pcm (fx_bit_depth fx) new_hasher = Inr h"
      "fx' = fx\<lparr>fx_pcm_bytes := pcm, fx_frame_count := kept,
         fx_duration_seconds := s, fx_source_pcm_sha256 := hexdigest h\<rparr>" "n = t"
    using False assms(2) pcm(1)
    by (auto simp: trim_fixture_to_frame_multiple_def Let_def py_simps t_def [symmetric] b_def [symmetric]
        kept_def [symmetric])
  obtain out where "pcm_int_bytes_to_float_bytes pcm (fx_bit_depth fx) = Inr out" "hexdigest h = sha256_hex out"
    using fx'(1) by (auto simp: update_from_pcm_bytes_def update_from_float_bytes_def new_hasher_def
        hexdigest_def py_simps)
  then have "consistent fx'" using pcm(2) by (simp add: consistent_def fx'(2) b_def)
  moreover have "fx_pcm_bytes fx' = take (length (fx_pcm_bytes fx')) (fx_pcm_bytes fx)"
    using pcm(2) kept(1) b by (simp add: fx'(2)) (simp add: pcm_def min_def)
  ultimately show ?thesis
    using t kept(2) by (simp add: fx'(2,3) kept_def)
qed

text \<open>Decoded frames as the resampler gives them: each plane holds its samples.\<close>

definition frames_ok :: "int \<Rightarrow> out_frame list \<Rightarrow> bool" where
  "frames_ok chans frames \<longleftrightarrow> 0 < chans \<and> list_all (\<lambda>f. 0 \<le> of_samples f \<and> of_channels f = chans
     \<and> of_samples f * chans * 2 \<le> int (length (of_plane f))) frames"

definition frame_total :: "out_frame list \<Rightarrow> int" where
  "frame_total frames = sum_list (map of_samples frames)"

definition kept_frames :: "int option \<Rightarrow> int \<Rightarrow> int" where
  "kept_frames max_frames n = (case max_frames of None \<Rightarrow> n | Some m \<Rightarrow> min m n)"

lemma convert_even: "even (length pcm) \<Longrightarrow> \<exists>out. pcm_int_bytes_to_float_bytes pcm 16 = Inr out"
  by (auto simp: pcm_conversion)

lemma taken_frame:
  assumes f: "0 \<le> of_samples f" "of_channels f = chans" "of_samples f * chans * 2 \<le> int (length (of_plane f))"
    and "0 < chans" "case max_frames of None \<Rightarrow> True | Some m \<Rightarrow> dc_frame_count st \<le> m"
    and "pcm_int_bytes_to_float_bytes (concat (dc_parts st)) 16 = Inr (fh_hash (dc_hasher st))"
  obtains stop st' k where "take_frame max_frames f st = Inr (stop, st')"
    and "k = kept_frames max_frames (dc_frame_count st + of_samples f) - dc_frame_count st"
    and "0 \<le> k" "k \<le> of_samples f" "dc_frame_count st' = dc_frame_count st + k"
    and "concat (dc_parts st') = concat (dc_parts st) @ take (nat (k * chans * 2)) (of_plane f)"
    and "pcm_int_bytes_to_float_bytes (concat (dc_parts st')) 16 = Inr (fh_hash (dc_hasher st'))"
    and "if stop then max_frames = Some (dc_frame_count st') else k = of_samples f"
proof -
  define k where "k = kept_frames max_frames (dc_frame_count st + of_samples f) - dc_frame_count st"
  have k: "0 \<le> k" "k \<le> of_samples f"
    using f(1) assms(5) by (auto simp: k_def kept_frames_def split: option.splits)
  define part where "part = take (nat (k * chans * 2)) (of_plane f)"
  have fits: "k * chans * 2 \<le> of_samples f * chans * 2" "0 \<le> k * chans * 2"
    using k assms(4) by simp_all
  have "int (length part) = k * chans * 2"
    using fits f(3) by (simp add: part_def)
  then have "even (int (length part))" by simp
  then obtain out where out: "pcm_int_bytes_to_float_bytes part 16 = Inr out"
    using convert_even [of part] by auto
  have pcm: "py_take (of_samples f * of_channels f * 2) (of_plane f) = take (nat (of_samples f * chans * 2)) (of_plane f)"
    using f assms(4) by (simp add: py_take_def)
  have part_eq: "py_take (k * of_channels f * 2) (take (nat (of_samples f * chans * 2)) (of_plane f)) = part"
    using fits f(1,2) assms(4) by (simp add: py_take_def part_def min_def nat_le_iff)
  show thesis
  proof (cases "k \<le> 0 \<and> max_frames \<noteq> None \<and> dc_frame_count st + of_samples f > the max_frames")
    case True
    show thesis
    proof (rule that [of True st k])
      show "take_frame max_frames f st = Inr (True, st)"
        using True by (auto simp: take_frame_def k_def kept_frames_def Let_def)
    qed (use True k assms(5,6) in \<open>auto simp: k_def [symmetric] k_def kept_frames_def\<close>)
  next
    case False
    define st' where "st' = \<lparr>dc_parts = dc_parts st @ [part], dc_frame_count = dc_frame_count st + k,
      dc_hasher = update_from_float_bytes out (dc_hasher st)\<rparr>"
    define d where "d = (case max_frames of None \<Rightarrow> False | Some m \<Rightarrow> dc_frame_count st + k \<ge> m)"
    have whole: "k = of_samples f \<Longrightarrow> part = take (nat (of_samples f * chans * 2)) (of_plane f)"
      by (simp add: part_def)
    show thesis
    proof (rule that [of d st' k])
      show "take_frame max_frames f st = Inr (d, st')"
        using False pcm part_eq out whole
        by (auto simp: take_frame_def k_def kept_frames_def Let_def update_from_pcm_bytes_def st'_def d_def
            split: option.splits)
      show "pcm_int_bytes_to_float_bytes (concat (dc_parts st')) 16 = Inr (fh_hash (dc_hasher st'))"
        using conversion_appends [OF assms(6) out] by (simp add: st'_def update_from_float_bytes_def)
      show "if d then max_frames = Some (dc_frame_count st') else k = of_samples f"
        using assms(5) by (auto simp: d_def k_def kept_frames_def st'_def split: option.splits)
    qed (use k in \<open>simp_all add: k_def [symmetric] st'_def part_def\<close>)
  qed
qed

lemma taken_frames:
  assumes "0 < chans" "list_all (\<lambda>f. 0 \<le> of_samples f \<and> of_channels f = chans
      \<and> of_samples f * chans * 2 \<le> int (length (of_plane f))) frames"
    and "case max_frames of None \<Rightarrow> True | Some m \<Rightarrow> dc_frame_count st \<le> m"
    and "pcm_int_bytes_to_float_bytes (concat (dc_parts st)) 16 = Inr (fh_hash (dc_hasher st))"
  shows "\<exists>st' k. take_frames max_frames frames st = Inr st'
     \<and> k = kept_frames max_frames (dc_frame_count st + frame_total frames) - dc_frame_count st \<and> 0 \<le> k
     \<and> dc_frame_count st' = dc_frame_count st + k
     \<and> concat (dc_parts st') = concat (dc_parts st) @ take (nat (k * chans * 2)) (frames_to_pcm 16 frames)
     \<and> pcm_int_bytes_to_float_bytes (concat (dc_parts st')) 16 = Inr (fh_hash (dc_hasher st'))
     \<and> k * chans * 2 \<le> int (length (frames_to_pcm 16 frames))"
  using assms(2-4)
proof (induction frames arbitrary: st)
  case Nil
  then show ?case by (auto simp: frame_total_def kept_frames_def frames_to_pcm_def split: option.splits)
next
  case (Cons f fs)
  let ?rest = "frames_to_pcm 16 fs"
  have f: "0 \<le> of_samples f" "of_channels f = chans" "of_samples f * chans * 2 \<le> int (length (of_plane f))"
    using Cons.prems(1) by simp_all
  obtain stop st1 k1 where s1: "take_frame max_frames f st = Inr (stop, st1)"
      "k1 = kept_frames max_frames (dc_frame_count st + of_samples f) - dc_frame_count st"
      "0 \<le> k1" "k1 \<le> of_samples f" "dc_frame_count st1 = dc_frame_count st + k1"
      "concat (dc_parts st1) = concat (dc_parts st) @ take (nat (k1 * chans * 2)) (of_plane f)"
      "pcm_int_bytes_to_float_bytes (concat (dc_parts st1)) 16 = Inr (fh_hash (dc_hasher st1))"
      "if stop then max_frames = Some (dc_frame_count st1) else k1 = of_samples f"
    using taken_frame [OF f assms(1) Cons.prems(2,3)] by metis
  have nonneg: "0 \<le> frame_total fs"
    using Cons.prems(1) by (auto simp: frame_total_def list_all_iff intro!: sum_list_nonneg)
  have head: "frames_to_pcm 16 (f # fs) = take (nat (of_samples f * chans * 2)) (of_plane f) @ ?rest"
    using f assms(1) by (simp add: frames_to_pcm_def py_take_def)
  have total: "frame_total (f # fs) = of_samples f + frame_total fs" by (simp add: frame_total_def)
  have size: "int (length (take (nat (of_samples f * chans * 2)) (of_plane f))) = of_samples f * chans * 2"
    using f assms(1) by simp
  show ?case
  proof (cases stop)
    case True
    then have m: "max_frames = Some (dc_frame_count st1)" using s1(8) by simp
    have le: "k1 * chans * 2 \<le> of_samples f * chans * 2" using s1(4) assms(1) by simp
    then have "take (nat (k1 * chans * 2)) (frames_to_pcm 16 (f # fs)) = take (nat (k1 * chans * 2)) (of_plane f)"
      unfolding head using size by (simp add: min_def nat_le_iff)
    moreover have "kept_frames max_frames (dc_frame_count st + frame_total (f # fs)) - dc_frame_count st = k1"
      using s1(4,5) nonneg by (simp add: kept_frames_def m total)
    moreover have "k1 * chans * 2 \<le> int (length (frames_to_pcm 16 (f # fs)))"
      unfolding head using size le by simp
    ultimately show ?thesis
      using True s1(1,3,5,6,7) by (intro exI [of _ st1] exI [of _ k1]) simp
  next
    case False
    then have k1: "k1 = of_samples f" using s1(8) by simp
    have "case max_frames of None \<Rightarrow> True | Some m \<Rightarrow> dc_frame_count st1 \<le> m"
      using s1(2,5) by (auto simp: kept_frames_def split: option.splits)
    then obtain st' k where s': "take_frames max_frames fs st1 = Inr st'"
        "k = kept_frames max_frames (dc_frame_count st1 + frame_total fs) - dc_frame_count st1" "0 \<le> k"
        "dc_frame_count st' = dc_frame_count st1 + k"
        "concat (dc_parts st') = concat (dc_parts st1) @ take (nat (k * chans * 2)) ?rest"
        "pcm_int_bytes_to_float_bytes (concat (dc_parts st')) 16 = Inr (fh_hash (dc_hasher st'))"
        "k * chans * 2 \<le> int (length ?rest)"
      using Cons.IH [of st1] Cons.prems(1) s1(7) by auto
    have nats: "nat ((k1 + k) * chans * 2) = nat (k1 * chans * 2) + nat (k * chans * 2)"
      using s1(3) s'(3) assms(1) by (simp add: distrib_right nat_add_distrib)
    have "take (nat ((k1 + k) * chans * 2)) (frames_to_pcm 16 (f # fs))
        = take (nat (k1 * chans * 2)) (of_plane f) @ take (nat (k * chans * 2)) ?rest"
      unfolding head nats using size k1 by simp
    moreover have "kept_frames max_frames (dc_frame_count st + frame_total (f # fs)) - dc_frame_count st = k1 + k"
      using s1(5) s'(2) by (simp add: total k1 add.assoc)
    moreover have "(k1 + k) * chans * 2 \<le> int (length (frames_to_pcm 16 (f # fs)))"
      unfolding head length_append of_nat_add size using s'(7) by (simp add: k1 distrib_right)
    ultimately show ?thesis
      using False s1(1,3,5,6) s'(1,3-6) by (intro exI [of _ st'] exI [of _ "k1 + k"]) simp
  qed
qed

lemma decoded_fixture:
  assumes "frames_ok (nonzero_or (fs_channels src) 2) (fs_frames src)"
    and "case max_duration of None \<Rightarrow> True | Some d \<Rightarrow> 0 \<le> the (max_frames_of rate max_duration)"
    and "decode_fixture src max_duration = Inr fx"
    and "rate = nonzero_or (fs_codec_rate src) (nonzero_or (fs_stream_rate src) 44100)"
  shows "consistent fx"
    and "fx_frame_count fx = kept_frames (max_frames_of rate max_duration) (frame_total (fs_frames src))"
    and "fx_pcm_bytes fx = take (length (fx_pcm_bytes fx)) (frames_to_pcm 16 (fs_frames src))"
proof -
  let ?c = "nonzero_or (fs_channels src) 2" and ?m = "max_frames_of rate max_duration"
  let ?st = "\<lparr>dc_parts = [], dc_frame_count = 0, dc_hasher = new_hasher\<rparr>"
  have "case ?m of None \<Rightarrow> True | Some m \<Rightarrow> dc_frame_count ?st \<le> m"
    using assms(2) by (cases max_duration) (auto simp: max_frames_of_def)
  moreover have "pcm_int_bytes_to_float_bytes (concat (dc_parts ?st)) 16 = Inr (fh_hash (dc_hasher ?st))"
    by (simp add: pcm_conversion new_hasher_def pack_floats_def)
  ultimately obtain st k where st: "take_frames ?m (fs_frames src) ?st = Inr st"
      "k = kept_frames ?m (frame_total (fs_frames src))" "0 \<le> k" "dc_frame_count st = k"
      "concat (dc_parts st) = take (nat (k * ?c * 2)) (frames_to_pcm 16 (fs_frames src))"
      "pcm_int_bytes_to_float_bytes (concat (dc_parts st)) 16 = Inr (fh_hash (dc_hasher st))"
      "k * ?c * 2 \<le> int (length (frames_to_pcm 16 (fs_frames src)))"
    using taken_frames [of ?c "fs_frames src" ?st ?m] assms(1) by (auto simp: frames_ok_def)
  have "decode_fixture src max_duration = py_bind (duration_of k rate) (\<lambda>seconds. Inr \<lparr>fx_path = fs_path src,
      fx_pcm_bytes = concat (dc_parts st), fx_sample_rate = rate, fx_channels = ?c, fx_bit_depth = 16,
      fx_frame_count = k, fx_duration_seconds = seconds, fx_source_flac_sha256 = sha256_hex (fs_bytes src),
      fx_source_pcm_sha256 = hexdigest (dc_hasher st)\<rparr>)"
    unfolding decode_fixture_def Let_def assms(4) [symmetric] st(1) by (simp only: py_bind.simps st(4))
  then obtain s where fx: "fx = \<lparr>fx_path = fs_path src, fx_pcm_bytes = concat (dc_parts st), fx_sample_rate = rate,
      fx_channels = ?c, fx_bit_depth = 16, fx_frame_count = k, fx_duration_seconds = s,
      fx_source_flac_sha256 = sha256_hex (fs_bytes src), fx_source_pcm_sha256 = hexdigest (dc_hasher st)\<rparr>"
    using assms(3) by (cases "duration_of k rate") auto
  have "0 < ?c" using assms(1) by (simp add: frames_ok_def)
  then have "int (length (concat (dc_parts st))) = k * ?c * 2"
    unfolding st(5) using st(3,7) by simp
  then show "consistent fx" using st(6) by (simp add: consistent_def fx hexdigest_def)
  show "fx_frame_count fx = kept_frames ?m (frame_total (fs_frames src))" by (simp add: fx st(2))
  show "fx_pcm_bytes fx = take (length (fx_pcm_bytes fx)) (frames_to_pcm 16 (fs_frames src))"
    by (simp add: fx) (simp add: st(5) min_def)
qed

end
