(* ===== verification/Regressions.thy ===== *)
theory Regressions
  imports Declared_Formats Py_Objects
begin

text \<open>
  \<open>scripts/detect_regressions.py\<close>: which cases of the local run regressed from the published
  baseline. A row is a JSON object; \<open>row[key]\<close> raises \<open>KeyError\<close> where the row lacks the key. The
  download is an argument: the exception it raised, or the JSON it gave.
\<close>

type_synonym cell = "string \<times> string \<times> string"

definition case_key :: "pydict \<Rightarrow> cell py" where
  "case_key row = py_bind (subscript ''scenario_id'' row) (\<lambda>scenario.
     py_bind (subscript ''server_impl'' row) (\<lambda>server.
     py_bind (subscript ''client_impl'' row) (\<lambda>client.
       Inr (py_str scenario, py_str server, py_str client))))"

text \<open>The classes \<open>fetch_baseline\<close> catches: \<open>OSError\<close> with its subclasses, and \<open>KeyError\<close>.\<close>

definition CAUGHT_FETCH_ERRORS :: "string list" where
  "CAUGHT_FETCH_ERRORS = [''URLError'', ''HTTPError'', ''OSError'', ''KeyError'', ''TimeoutError'',
     ''ConnectionError'', ''ConnectionResetError'', ''ConnectionRefusedError'', ''ConnectionAbortedError'',
     ''BrokenPipeError'', ''InterruptedError'', ''PermissionError'', ''FileNotFoundError'',
     ''BlockingIOError'', ''ChildProcessError'', ''FileExistsError'', ''IsADirectoryError'',
     ''NotADirectoryError'', ''ProcessLookupError'', ''SSLError'', ''SSLCertVerificationError'',
     ''gaierror'', ''herror'']"

text \<open>\<open>list(payload["results"])\<close>.\<close>

definition results_of :: "pyval \<Rightarrow> pyval list py" where
  "results_of p = (case p of
     VDict d \<Rightarrow> py_bind (subscript ''results'' d) iter_values
   | VList _ \<Rightarrow> Inl (PyExc ''TypeError'' ''list indices must be integers or slices, not str'')
   | VStr _ \<Rightarrow> Inl (PyExc ''TypeError'' (''string indices must be integers, not '' @ sq @ ''str'' @ sq))
   | v \<Rightarrow> Inl (PyExc ''TypeError'' (sq @ type_name v @ sq @ '' object is not subscriptable'')))"

definition fetch_baseline :: "pyval py \<Rightarrow> pyval list option py" where
  "fetch_baseline download = (case py_bind download results_of of
     Inr rows \<Rightarrow> Inr (Some rows)
   | Inl e \<Rightarrow> if exc_name e \<in> set CAUGHT_FETCH_ERRORS then Inr None else Inl e)"

section \<open>Comparing\<close>

fun index_passed :: "pydict list \<Rightarrow> (cell \<times> pydict) list \<Rightarrow> (cell \<times> pydict) list py" where
  "index_passed [] index = Inr index"
| "index_passed (row # rows) index = py_bind (subscript ''status'' row) (\<lambda>status.
     if status = VStr ''passed''
     then py_bind (case_key row) (\<lambda>key. index_passed rows (dict_put key row index))
     else index_passed rows index)"

definition baseline_passed_index :: "pydict list \<Rightarrow> (cell \<times> pydict) list py" where
  "baseline_passed_index baseline = index_passed baseline []"

definition baseline_stamps_revisions :: "pydict list \<Rightarrow> bool" where
  "baseline_stamps_revisions baseline = list_ex (has_key ''scenario_revision'') baseline"

fun unstamped_ids :: "pydict list \<Rightarrow> string list py" where
  "unstamped_ids [] = Inr []"
| "unstamped_ids (row # rows) = (
     if is_int (dict_get ''scenario_revision'' row) \<or> is_bool (dict_get ''scenario_revision'' row)
     then unstamped_ids rows
     else py_bind (subscript ''scenario_id'' row) (\<lambda>i.
          py_bind (unstamped_ids rows) (\<lambda>is. Inr (py_str i # is))))"

definition require_scenario_revisions :: "pydict list \<Rightarrow> unit py" where
  "require_scenario_revisions current = py_bind (unstamped_ids current) (\<lambda>is.
     if is = [] then Inr ()
     else Inl (PyExc ''ValueError'' (''Local results carry no integer scenario_revision for: ''
       @ join '', '' (sorted_set is) @ ''. Every scenario must declare one; see ScenarioSpec.scenario_revision.'')))"

definition exemption_reason :: "pydict \<Rightarrow> pydict \<Rightarrow> bool \<Rightarrow> string option py" where
  "exemption_reason baseline_row current_row stamped = (
     if \<not> has_key ''scenario_revision'' baseline_row
     then Inr (if stamped then None else Some ''baseline predates scenario revision stamping'')
     else py_bind (subscript ''scenario_revision'' current_row) (\<lambda>revision.
       Inr (if \<not> py_eq (dict_get ''scenario_revision'' baseline_row) revision
            then Some ''scenario revision changed since the baseline'' else None)))"

fun regressed_rows :: "(cell \<times> pydict) list \<Rightarrow> bool \<Rightarrow> pydict list \<Rightarrow> pydict list py" where
  "regressed_rows index stamped [] = Inr []"
| "regressed_rows index stamped (row # rows) = py_bind (case_key row) (\<lambda>key.
     case map_of index key of
       None \<Rightarrow> regressed_rows index stamped rows
     | Some base \<Rightarrow> py_bind (exemption_reason base row stamped) (\<lambda>reason.
         if reason \<noteq> None then regressed_rows index stamped rows
         else py_bind (subscript ''status'' row) (\<lambda>status.
           py_bind (regressed_rows index stamped rows) (\<lambda>rest.
             Inr (if status \<noteq> VStr ''passed'' then row # rest else rest)))))"

definition detect_regressions :: "pydict list \<Rightarrow> pydict list \<Rightarrow> pydict list py" where
  "detect_regressions baseline current = py_bind (baseline_passed_index baseline) (\<lambda>index.
     regressed_rows index (baseline_stamps_revisions baseline) current)"

fun exempt_rows ::
  "(cell \<times> pydict) list \<Rightarrow> bool \<Rightarrow> pydict list \<Rightarrow> (pydict \<times> string) list py" where
  "exempt_rows index stamped [] = Inr []"
| "exempt_rows index stamped (row # rows) = py_bind (case_key row) (\<lambda>key.
     case map_of index key of
       None \<Rightarrow> exempt_rows index stamped rows
     | Some base \<Rightarrow> py_bind (subscript ''status'' row) (\<lambda>status.
         if status = VStr ''passed'' then exempt_rows index stamped rows
         else py_bind (exemption_reason base row stamped) (\<lambda>reason.
           py_bind (exempt_rows index stamped rows) (\<lambda>rest.
             Inr (case reason of Some r \<Rightarrow> (row, r) # rest | None \<Rightarrow> rest)))))"

definition exempt_cases :: "pydict list \<Rightarrow> pydict list \<Rightarrow> (pydict \<times> string) list py" where
  "exempt_cases baseline current = py_bind (baseline_passed_index baseline) (\<lambda>index.
     exempt_rows index (baseline_stamps_revisions baseline) current)"

section \<open>Reporting\<close>

text \<open>\<open>sorted(rows, key=_case_key)\<close>.\<close>

definition sorted_rows :: "pydict list \<Rightarrow> pydict list py" where
  "sorted_rows rows = py_bind (collect (map (\<lambda>r. py_bind (case_key r) (\<lambda>k. Inr (k, r))) rows))
     (\<lambda>keyed. Inr (map snd (sort_key fst keyed)))"

definition newline :: string where
  "newline = [CHR 0x0A]"

definition field_text :: "pydict \<Rightarrow> string \<Rightarrow> string py" where
  "field_text row k = py_bind (subscript k row) (\<lambda>v. Inr (py_str v))"

definition row_fields :: "pydict \<Rightarrow> string list py" where
  "row_fields row = collect (map (field_text row) [''scenario_id'', ''server_impl'', ''client_impl'', ''status''])"

definition format_rows :: "(string list \<Rightarrow> string) \<Rightarrow> pydict list \<Rightarrow> string list py" where
  "format_rows line rows = py_bind (sorted_rows rows) (\<lambda>ordered.
     collect (map (\<lambda>r. py_bind (row_fields r) (\<lambda>fs. Inr (line fs))) ordered))"

definition table_line :: "string list \<Rightarrow> string" where
  "table_line fs = ''  '' @ fs ! 0 @ ''  '' @ fs ! 1 @ '' -> '' @ fs ! 2 @ ''  ['' @ fs ! 3 @ '']''"

definition format_regression_table :: "pydict list \<Rightarrow> string py" where
  "format_regression_table regressions = py_bind (format_rows table_line regressions)
     (\<lambda>lines. Inr (join newline lines))"

definition BUMP_HINT :: string where
  "BUMP_HINT = ''If a scenario changed deliberately, bump its `scenario_revision` in ''
     @ ''src/conformance/scenarios.py to reset its baseline.''"

definition markdown_line :: "string list \<Rightarrow> string" where
  "markdown_line fs = ''| '' @ fs ! 0 @ '' | '' @ fs ! 1 @ '' | '' @ fs ! 2 @ '' | '' @ fs ! 3 @ '' |''"

definition format_github_summary :: "pydict list \<Rightarrow> string py" where
  "format_github_summary regressions = py_bind (format_rows markdown_line regressions) (\<lambda>rows.
     Inr (join newline ([''## Conformance regressions detected'', [],
       ''**'' @ nat_str (length regressions) @ ''** test(s) that previously passed are now failing.'', [],
       BUMP_HINT, [], ''| Scenario | Server | Client | Status |'', ''| --- | --- | --- | --- |''] @ rows)))"

text \<open>
  The exit code of \<open>main\<close>; what it prints is not modelled. Rows are taken to be objects, as the
  runner writes them: a row that is not one raises where the code subscripts it.
\<close>

definition rows_of :: "pyval list \<Rightarrow> pydict list py" where
  "rows_of vs = collect (map (\<lambda>v. case v of VDict d \<Rightarrow> Inr d
     | _ \<Rightarrow> Inl (PyExc ''TypeError'' (''row of type '' @ type_name v))) vs)"

definition main_exit :: "json_file \<Rightarrow> pyval py \<Rightarrow> int py" where
  "main_exit local_index download = (case local_index of
     Absent \<Rightarrow> Inr 1
   | Unreadable e \<Rightarrow> Inl e
   | Json p \<Rightarrow> py_bind (py_bind (results_of p) rows_of) (\<lambda>current.
       case require_scenario_revisions current of
         Inl e \<Rightarrow> if exc_name e = ''ValueError'' then Inr 1 else Inl e
       | Inr _ \<Rightarrow> py_bind (fetch_baseline download) (\<lambda>fetched.
           case fetched of
             None \<Rightarrow> Inr 0
           | Some raw \<Rightarrow> py_bind (rows_of raw) (\<lambda>baseline.
               py_bind (exempt_cases baseline current) (\<lambda>exempt.
               py_bind (detect_regressions baseline current) (\<lambda>regressions.
                 Inr (if regressions = [] then 0 else 1)))))))"

section \<open>Facts\<close>

definition well_formed_row :: "pydict \<Rightarrow> bool" where
  "well_formed_row row \<longleftrightarrow> list_all (\<lambda>k. has_key k row)
     [''scenario_id'', ''server_impl'', ''client_impl'', ''status'', ''scenario_revision'']"

definition cell_of :: "pydict \<Rightarrow> cell" where
  "cell_of row = (py_str (dict_get ''scenario_id'' row), py_str (dict_get ''server_impl'' row),
     py_str (dict_get ''client_impl'' row))"

definition row_passed :: "pydict \<Rightarrow> bool" where
  "row_passed row \<longleftrightarrow> dict_get ''status'' row = VStr ''passed''"

text \<open>The baseline row a current row is compared with: the last passed one of its cell.\<close>

definition passed_baseline :: "pydict list \<Rightarrow> pydict \<Rightarrow> pydict option" where
  "passed_baseline baseline row =
     List.find (\<lambda>b. row_passed b \<and> cell_of b = cell_of row) (rev baseline)"

definition why_exempt :: "pydict list \<Rightarrow> pydict \<Rightarrow> string option" where
  "why_exempt baseline row = (case passed_baseline baseline row of
     None \<Rightarrow> None
   | Some b \<Rightarrow>
       if has_key ''scenario_revision'' b
       then if py_eq (dict_get ''scenario_revision'' b) (dict_get ''scenario_revision'' row) then None
            else Some ''scenario revision changed since the baseline''
       else if baseline_stamps_revisions baseline then None
       else Some ''baseline predates scenario revision stamping'')"

text \<open>A case that passed in the baseline and does not any more.\<close>

definition lost :: "pydict list \<Rightarrow> pydict \<Rightarrow> bool" where
  "lost baseline row \<longleftrightarrow> \<not> row_passed row \<and> passed_baseline baseline row \<noteq> None"

lemma case_key_cell: "well_formed_row row \<Longrightarrow> case_key row = Inr (cell_of row)"
  by (simp add: well_formed_row_def case_key_def subscript_def cell_of_def del: has_key_iff)

definition indexable :: "pydict \<Rightarrow> bool" where
  "indexable row \<longleftrightarrow> list_all (\<lambda>k. has_key k row)
     [''scenario_id'', ''server_impl'', ''client_impl'', ''status'']"

lemma index_passed_lookup:
  assumes "list_all indexable rows"
  obtains index' where "index_passed rows index = Inr index'"
    and "\<And>key. map_of index' key = (case List.find (\<lambda>b. row_passed b \<and> cell_of b = key) (rev rows) of
           Some b \<Rightarrow> Some b | None \<Rightarrow> map_of index key)"
proof -
  have "\<exists>index'. index_passed rows index = Inr index'
      \<and> (\<forall>key. map_of index' key = (case List.find (\<lambda>b. row_passed b \<and> cell_of b = key) (rev rows) of
           Some b \<Rightarrow> Some b | None \<Rightarrow> map_of index key))"
    using assms
  proof (induction rows arbitrary: index)
    case (Cons row rows)
    have key: "case_key row = Inr (cell_of row)" "subscript ''status'' row = Inr (dict_get ''status'' row)"
      using Cons.prems
      by (simp_all add: indexable_def case_key_def subscript_def cell_of_def del: has_key_iff)
    have found: "List.find P (xs @ [x]) = (case List.find P xs of Some y \<Rightarrow> Some y
        | None \<Rightarrow> if P x then Some x else None)" for P and xs :: "pydict list" and x
      by (induction xs) auto
    show ?case
      using Cons.IH [of index] Cons.IH [of "dict_put (cell_of row) row index"] Cons.prems
      by (fastforce simp: key found row_passed_def split: option.splits)
  qed auto
  then show ?thesis using that by blast
qed

lemma regressed_rows_eq:
  assumes "list_all well_formed_row rows"
    and "\<And>row. row \<in> set rows \<Longrightarrow> map_of index (cell_of row) = passed_baseline baseline row"
  shows "regressed_rows index (baseline_stamps_revisions baseline) rows
     = Inr (filter (\<lambda>r. lost baseline r \<and> why_exempt baseline r = None) rows)"
  using assms
proof (induction rows)
  case (Cons row rows)
  have "subscript ''status'' row = Inr (dict_get ''status'' row)"
      "subscript ''scenario_revision'' row = Inr (dict_get ''scenario_revision'' row)"
    using Cons.prems(1) by (simp_all add: well_formed_row_def subscript_def del: has_key_iff)
  moreover have "regressed_rows index (baseline_stamps_revisions baseline) rows
      = Inr (filter (\<lambda>r. lost baseline r \<and> why_exempt baseline r = None) rows)"
    using Cons by simp
  moreover have "map_of index (cell_of row) = passed_baseline baseline row" "case_key row = Inr (cell_of row)"
    using Cons.prems by (simp_all add: case_key_cell)
  moreover note why_exempt_def [of baseline row] lost_def [of baseline row] row_passed_def [of row]
  ultimately show ?case
    by (cases "passed_baseline baseline row"; cases "baseline_stamps_revisions baseline")
      (simp_all add: exemption_reason_def del: has_key_iff)
qed simp

lemma exempt_rows_eq:
  assumes "list_all well_formed_row rows"
    and "\<And>row. row \<in> set rows \<Longrightarrow> map_of index (cell_of row) = passed_baseline baseline row"
  shows "exempt_rows index (baseline_stamps_revisions baseline) rows
     = Inr (map (\<lambda>r. (r, the (why_exempt baseline r)))
             (filter (\<lambda>r. lost baseline r \<and> why_exempt baseline r \<noteq> None) rows))"
  using assms
proof (induction rows)
  case (Cons row rows)
  have "subscript ''status'' row = Inr (dict_get ''status'' row)"
      "subscript ''scenario_revision'' row = Inr (dict_get ''scenario_revision'' row)"
    using Cons.prems(1) by (simp_all add: well_formed_row_def subscript_def del: has_key_iff)
  moreover have "exempt_rows index (baseline_stamps_revisions baseline) rows
      = Inr (map (\<lambda>r. (r, the (why_exempt baseline r)))
             (filter (\<lambda>r. lost baseline r \<and> why_exempt baseline r \<noteq> None) rows))"
    using Cons by simp
  moreover have "map_of index (cell_of row) = passed_baseline baseline row" "case_key row = Inr (cell_of row)"
    using Cons.prems by (simp_all add: case_key_cell)
  moreover note why_exempt_def [of baseline row] lost_def [of baseline row] row_passed_def [of row]
  ultimately show ?case
    by (cases "passed_baseline baseline row"; cases "baseline_stamps_revisions baseline")
      (simp_all add: exemption_reason_def del: has_key_iff)
qed simp

lemma compared_with_baseline:
  assumes "list_all indexable baseline" "list_all well_formed_row current"
  shows "detect_regressions baseline current
      = Inr (filter (\<lambda>r. lost baseline r \<and> why_exempt baseline r = None) current)"
    and "exempt_cases baseline current
      = Inr (map (\<lambda>r. (r, the (why_exempt baseline r)))
             (filter (\<lambda>r. lost baseline r \<and> why_exempt baseline r \<noteq> None) current))"
proof -
  obtain index where index: "index_passed baseline [] = Inr index"
    and at: "\<And>key. map_of index key = (case List.find (\<lambda>b. row_passed b \<and> cell_of b = key) (rev baseline) of
           Some b \<Rightarrow> Some b | None \<Rightarrow> map_of [] key)"
    using index_passed_lookup [OF assms(1)] by blast
  have look: "map_of index (cell_of row) = passed_baseline baseline row" for row
    by (simp add: at passed_baseline_def split: option.split)
  show "detect_regressions baseline current
      = Inr (filter (\<lambda>r. lost baseline r \<and> why_exempt baseline r = None) current)"
    by (simp add: detect_regressions_def baseline_passed_index_def index regressed_rows_eq [OF assms(2) look])
  show "exempt_cases baseline current
      = Inr (map (\<lambda>r. (r, the (why_exempt baseline r)))
             (filter (\<lambda>r. lost baseline r \<and> why_exempt baseline r \<noteq> None) current))"
    by (simp add: exempt_cases_def baseline_passed_index_def index exempt_rows_eq [OF assms(2) look])
qed

end
