(* ===== verification/Matrix_Properties.thy ===== *)
theory Matrix_Properties
  imports Matrix_Facts Framing_Facts Format_Facts Runner_Facts Pcm_Facts Regressions
begin

text \<open>
  The properties of the matrix: what a passing case says about its summaries, how the audio and the
  declared formats are judged, what the report and the regression gate say, and what the canonical
  PCM form keeps. Each rests on the facts of the component it is about; the sample summaries are
  concrete inputs at which hypotheses hold.
\<close>

section \<open>Sample summaries\<close>

definition pcm_stream :: pyval where
  "pcm_stream = VDict [(''codec'', VStr ''PCM''), (''sample_rate'', VInt 48000), (''bit_depth'', VInt 16),
     (''channels'', VInt 2)]"

definition chunk_record :: "int \<Rightarrow> pyval" where
  "chunk_record n = VDict [(''byte_count'', VInt (13 + n)), (''payload_byte_count'', VInt n),
     (''leading_hex'', VStr ''04000000000000000000000000'')]"

definition framing_server :: pydict where
  "framing_server = [(''status'', VStr ''ok''), (''stream'', pcm_stream),
     (''audio'', VDict [(''chunked_by'', VStr ''implementation''),
        (''sent_chunk_frames'', VList [chunk_record 9600, chunk_record 192])])]"

definition framing_client :: pydict where
  "framing_client = [(''status'', VStr ''ok''),
     (''audio'', VDict [(''received_chunk_frames'', VList [chunk_record 9600, chunk_record 192])])]"

section \<open>Chunk framing\<close>

text \<open>
  C18: The audio-chunk-framing judge accepts exactly the summaries whose sent chunks each carry a
  13-byte header of the audio chunk type, last as long as the protocol allows where the
  implementation cut them, and were received as they were sent, and it never raises.
\<close>

theorem framing_exact:
  assumes "measurable server_summary"
  shows "\<exists>reason. chunk_framing_verdict server_summary client_summary
     = Inr (framing_conforms server_summary client_summary, reason)"
  by (rule framing_verdict_exact [OF assms]) blast

lemma framing_exact_witness:
  "\<exists>reason. chunk_framing_verdict framing_server framing_client = Inr (True, reason)"
proof -
  have "measurable framing_server" by code_simp
  moreover have "framing_conforms framing_server framing_client" by code_simp
  ultimately show ?thesis using framing_exact [of framing_server framing_client] by simp
qed

text \<open>
  C19: The duration rule is decided on binary64 quotients as if on exact numbers of microseconds: a
  chunk of \<open>n\<close> bytes is too long exactly if \<open>n * 1000000 > 150000 * rate\<close>, and too short, unless it
  is the last, exactly if \<open>n * 1000000 < 15000 * rate\<close>.
\<close>

theorem durations_exact:
  assumes "0 < rate" "rate < 2 ^ 36"
    and "list_all (\<lambda>f. 0 \<le> payload_of f \<and> payload_of f < 2 ^ 64) sent"
  shows "\<exists>us. chunk_durations rate sent = Inr us
     \<and> fst (durations_verdict us) = durations_ok rate (map payload_of sent)"
proof -
  have "list_all (\<lambda>f. 0 \<le> payload_of f) sent" "list_all (\<lambda>f. payload_of f < 2 ^ 64) sent"
    using assms(3) by (simp_all add: list_all_iff)
  then show ?thesis using durations_judged [OF assms(1,2)] by metis
qed

lemma durations_exact_witness:
  "\<exists>us. chunk_durations 192000 [\<lparr>cf_byte_count = 28814, cf_leading = [4], cf_payload_byte_count = Some 28801\<rparr>]
     = Inr us \<and> \<not> fst (durations_verdict us)"
proof -
  let ?f = "\<lparr>cf_byte_count = 28814, cf_leading = [4], cf_payload_byte_count = Some 28801\<rparr>"
  have "\<not> durations_ok 192000 (map payload_of [?f])"
    by (simp add: durations_ok_def payload_of_def MAX_CHUNK_US_def)
  then show ?thesis using durations_exact [of 192000 "[?f]"] by (simp add: payload_of_def)
qed

section \<open>Declared formats\<close>

text \<open>
  A server that declares readable formats is accused of streaming an undeclared one exactly if
  a format on record for the case differs from every declared one; the bit depth counts unless the
  codec is Opus, and nothing is judged of a list with an unreadable entry or of no list.
\<close>

theorem undeclared_exact:
  "undeclared_format_violation s c = Inr None \<longleftrightarrow>
     (if snd (declared_formats s) = []
      then fst (declared_formats s) = []
        \<or> list_all (\<lambda>(src, f). list_ex (same_for_spec f) (fst (declared_formats s)))
            (readable_candidates (format_candidates s c))
      else True)"
  by (auto simp: undeclared_format_None_iff undeclared_formats_Nil_iff)

text \<open>
  The report of an implementation has one entry per distinct format its cases declared, in the
  order of the format key, and marks as exercised exactly the formats one of those cases negotiated.
\<close>

theorem reported_formats_exact:
  assumes "collect_declared_formats files results = Inr p" "e \<in> set (dp_implementations p)"
    and "cases = filter (\<lambda>c. cd_client_impl c = ie_implementation e) (dp_cases p)"
  shows "list_all2 (\<lambda>f entry. format_key entry = format_key f \<and> fe_exercised entry = observed_by cases f)
    (sort_key format_key (first_occurrences (concat (map cd_declared cases)))) (ie_formats e)"
  using implementation_report_entries [OF collected_report(2) [OF assms(1,2)]] assms(3) by simp

definition report_files :: "string \<Rightarrow> string \<Rightarrow> json_file" where
  "report_files d n = (if n = ''server-summary.json''
     then Json (VDict [(''peer_hello'', VDict [(''payload'', VDict [(''player@v1_support'',
        VDict [(''supported_formats'', VList [pcm_stream])])])]), (''stream'', pcm_stream)])
     else Absent)"

definition report_rows :: "pydict list" where
  "report_rows = [[(''case_dir'', VStr ''results/a__b''), (''client_impl'', VStr ''aiosendspin'')]]"

lemma reported_formats_exact_witness:
  "case collect_declared_formats report_files report_rows of Inl _ \<Rightarrow> False
   | Inr p \<Rightarrow> (case dp_implementations p of
       [e] \<Rightarrow> list_all2 (\<lambda>f entry. format_key entry = format_key f \<and> fe_exercised entry)
                [\<lparr>codec = ''pcm'', sample_rate = 48000, bit_depth = 16, channels = 2\<rparr>] (ie_formats e)
     | _ \<Rightarrow> False)"
proof -
  let ?f = "\<lparr>codec = ''pcm'', sample_rate = 48000, bit_depth = 16, channels = 2\<rparr>"
  let ?mine = "\<lambda>p e. filter (\<lambda>c. cd_client_impl c = ie_implementation e) (dp_cases p)"
  have "case collect_declared_formats report_files report_rows of Inl _ \<Rightarrow> False
    | Inr p \<Rightarrow> (case dp_implementations p of
        [e] \<Rightarrow> sort_key format_key (first_occurrences (concat (map cd_declared (?mine p e)))) = [?f]
             \<and> observed_by (?mine p e) ?f
      | _ \<Rightarrow> False)"
    by code_simp
  then obtain p e where p: "collect_declared_formats report_files report_rows = Inr p"
    and e: "dp_implementations p = [e]"
    and f: "sort_key format_key (first_occurrences (concat (map cd_declared (?mine p e)))) = [?f]"
      "observed_by (?mine p e) ?f"
    by (auto split: sum.splits list.splits)
  have "list_all2 (\<lambda>f entry. format_key entry = format_key f \<and> fe_exercised entry = observed_by (?mine p e) f)
      [?f] (ie_formats e)"
    using reported_formats_exact [OF p _ refl, of e] e f(1) by simp
  then show ?thesis
    using f(2) by (auto simp: p e list_all2_Cons1)
qed

text \<open>
  C20: A format that was read as one is in canonical form: its codec is a folded name that is not
  empty, and reading the format that was written for it gives it back.
\<close>

theorem normalized_format_stable:
  assumes "normalized_format v = Some f"
  shows "codec f \<noteq> [] \<and> casefold (codec f) = codec f \<and> normalized_format (format_json f) = Some f"
  using assms normalized_format_json [OF assms] by (auto simp: normalized_format_eq_Some)

lemma normalized_format_stable_witness:
  "codec (the (normalized_format pcm_stream)) = ''pcm''
   \<and> normalized_format (format_json (the (normalized_format pcm_stream))) = normalized_format pcm_stream"
proof -
  have "normalized_format pcm_stream = Some \<lparr>codec = ''pcm'', sample_rate = 48000, bit_depth = 16, channels = 2\<rparr>"
    by code_simp
  from normalized_format_stable [OF this] this show ?thesis by simp
qed

section \<open>Comparing summaries\<close>

text \<open>
  C17: A case is judged as passed only on this evidence: both adapters ended with status ok, the
  comparison of its scenario passed, the server's activation, group updates and time exchange were
  as the protocol requires, its stream starts too where the scenario streams, and every format it
  used was one the client declared.
\<close>

theorem passing_summaries:
  assumes "compare_summaries other scenario s c = Inr (True, reason)"
  shows "both_ok s c \<and> passes (dispatch_comparison other scenario s c)
     \<and> activation_violation s = None \<and> group_update_violation s = None \<and> time_exchange_violation s = None
     \<and> (if list_ex (\<lambda>f. f \<in> set STREAMED_ROLE_FAMILIES) (ss_required_role_families scenario)
        then stream_start_gate_violation s = None else True)
     \<and> undeclared_format_violation s c = Inr None"
proof -
  from assms have d: "dispatch_comparison other scenario s c = Inr (True, reason)"
    and "connection_violation scenario s = None" "undeclared_format_violation s c = Inr None"
    by (simp_all add: compare_summaries_passes)
  moreover have "both_ok s c" using d by (intro dispatch_both_ok [of other scenario]) (simp add: passes_def)
  ultimately show ?thesis by (simp add: connection_violation_None)
qed

definition metadata_server :: pydict where
  "metadata_server = [(''status'', VStr ''ok''), (''time_exchange'', VList []),
     (''group_updates'', VList [VDict [(''type'', VStr ''group/update''), (''payload'', VDict
        [(''playback_state'', VStr ''stopped''), (''group_id'', VStr ''g''), (''group_name'', VStr ''n'')])]]),
     (''metadata'', VDict [(''expected'', VStr ''snapshot'')])]"

definition metadata_client :: pydict where
  "metadata_client = [(''status'', VStr ''ok''),
     (''metadata'', VDict [(''update_count'', VInt 1), (''received'', VStr ''snapshot'')])]"

lemma passing_summaries_witness:
  "group_update_violation metadata_server = None \<and> undeclared_format_violation metadata_server metadata_client = Inr None"
proof -
  have "compare_summaries Inr CLIENT_INITIATED_METADATA metadata_server metadata_client
      = Inr (True, ''Metadata snapshot matches'')"
    by code_simp
  from passing_summaries [OF this] show ?thesis by simp
qed

text \<open>
  The comparison of encoded audio passes exactly if both adapters report the scenario's codec, both
  counted chunks and hashed the same encoded bytes, the codec headers they hashed agree, and, for a
  lossless codec, the decoded audio is the source audio wherever it can be compared.
\<close>

theorem encoded_audio_exact:
  "passes (compare_encoded_audio_summaries s c k) \<longleftrightarrow>
     both_ok s c \<and> stream_codec s = Some k \<and> (stream_codec c = None \<or> stream_codec c = Some k)
     \<and> (\<exists>sa ca. get_or_empty ''audio'' s = VDict sa \<and> get_or_empty ''audio'' c = VDict ca
          \<and> chunks_delivered sa ca \<and> headers_agree s c sa
          \<and> (if k \<in> set LOSSLESS_CODECS then decoded_matches s sa ca else True))"
  by (auto simp: encoded_audio_passes)

text \<open>
  The format preference comparison passes exactly if both adapters ended well, the server
  received the preference its scenario has as a target, and the stream the client ended up with is
  the one it requested, after a second stream/start and in another format than at first.
\<close>

theorem format_preference_exact:
  "passes (compare_format_preference_summaries i s c) \<longleftrightarrow> both_ok s c
     \<and> (\<exists>preference received target renegotiation.
          dict_get ''format_preference'' s = VDict preference
          \<and> dict_get ''received'' preference = VDict received
          \<and> map_of FORMAT_PREFERENCE_TARGETS i = Some target \<and> format_matches received target
          \<and> dict_get ''renegotiation'' c = VDict renegotiation
          \<and> renegotiated s received renegotiation)"
  by (rule format_preference_passes)

section \<open>The matrix\<close>

text \<open>
  C16: A case that ends in a result is reported for the scenario, the two implementations and the
  directory it was run for, is marked unsupported exactly if the registry says one of the two does
  not support the scenario, and is passed only if both adapters exited with 0 and the summaries they
  wrote compare as a pass; otherwise it is failed.
\<close>

theorem case_result_exact:
  assumes "run_context other w cc index = Inr r"
  shows "result_of_context cc r \<and> res_unsupported r = judged_unsupported cc
     \<and> (if res_status r = ''passed'' then passing_run other w (cc_scenario cc) r
        else res_status r = ''failed'')"
  using run_context_result [OF assms] by auto

definition sample_world :: "(role_name \<Rightarrow> json_file) \<Rightarrow> world" where
  "sample_world summaries = \<lparr>wo_system = ''Linux'', wo_root = ''/repo'', wo_python = ''python'', wo_tool = (\<lambda>_. None),
     wo_exists = (\<lambda>_. False), wo_checkout = (\<lambda>_. None), wo_fixture = Inr ''/repo/fixture.flac'',
     wo_run_role = (\<lambda>_ _. Exited 1), wo_run_pair = (\<lambda>_ _. Pair_exited 0 0), wo_summary = summaries\<rparr>"

definition metadata_summaries :: "role_name \<Rightarrow> json_file" where
  "metadata_summaries role = Json (VDict (if role = Server then metadata_server else metadata_client))"

definition sample_context :: case_context where
  "sample_context = \<lparr>cc_results_dir = ''results/data'', cc_environment_id = ''linux'',
     cc_environment_name = ''Linux'', cc_scenario = CLIENT_INITIATED_METADATA,
     cc_server_impl = ''aiosendspin'', cc_client_impl = ''aiosendspin'', cc_timeout = ''30.0'', cc_slot_index = 3\<rparr>"

lemma sample_implementation:
  "case_role_spec role sample_context = Inr (role_of role impl_aiosendspin)"
  by (simp add: case_role_spec_def case_implementation_def sample_context_def get_implementation_def IMPLEMENTATIONS_def)

lemma sample_role: "rs_supported (role_of role impl_aiosendspin)" "rs_adapter_kind (role_of role impl_aiosendspin) = ''python''"
    "\<exists>e. rs_entrypoint (role_of role impl_aiosendspin) = Some e"
  by (cases role; simp add: role_of_def impl_aiosendspin_def RoleSpec_def)+

lemma sample_command:
  "\<exists>l. build_role_command (sample_world f) ''aiosendspin'' role s y g a b = Inr (Some l)"
  using sample_role [of role]
  by (auto simp: build_role_command_def get_implementation_def IMPLEMENTATIONS_def)

lemma sample_args: "\<exists>a. role_args (sample_world f) role sample_context = Inr a"
  unfolding role_args_def Let_def
  by (cases role) (simp_all add: sample_implementation sample_world_def del: nat_str.simps)

text \<open>The case of two Python adapters that both exit with 0.\<close>

lemma sample_run:
  "run_context Inr (sample_world f) sample_context [] = exited_result Inr (sample_world f) sample_context 0 0"
proof -
  have able: "capability_failure role sample_context = Inr None" for role
    unfolding capability_failure_def sample_implementation
    by (cases role; simp only:; code_simp)
  obtain sa where sa: "role_args (sample_world f) Server sample_context = Inr sa" using sample_args by blast
  obtain ca where ca: "role_args (sample_world f) Client sample_context = Inr ca" using sample_args by blast
  have names: "cc_server_impl sample_context = ''aiosendspin''" "cc_client_impl sample_context = ''aiosendspin''"
    by (simp_all add: sample_context_def)
  obtain sl where sl: "build_role_command (sample_world f) ''aiosendspin'' Server (summary_path Server sample_context)
      (ready_path Server sample_context) (registry_path sample_context) sa None = Inr (Some sl)"
    using sample_command by blast
  obtain cl where cl: "build_role_command (sample_world f) ''aiosendspin'' Client (summary_path Client sample_context)
      (ready_path Client sample_context) (registry_path sample_context) ca None = Inr (Some cl)"
    using sample_command by blast
  have unbuilt: "role_build_result (role_of role impl_aiosendspin) [] = None" for role
    by (cases "rs_build_adapter (role_of role impl_aiosendspin)") (simp_all add: role_build_result_def)
  have "run_built_case Inr (sample_world f) sample_context None None
      = launched_result Inr (sample_world f) sample_context sl cl"
    using sa ca sl cl by (simp add: run_built_case_def names)
  also have "\<dots> = exited_result Inr (sample_world f) sample_context 0 0"
    by (simp add: launched_result_def sample_world_def)
  finally show ?thesis
    by (simp add: run_context_def sample_implementation sample_role able unbuilt not_built_def)
qed

lemma case_result_exact_witness:
  "case run_context Inr (sample_world metadata_summaries) sample_context [] of Inl _ \<Rightarrow> False
   | Inr r \<Rightarrow> passing_run Inr (sample_world metadata_summaries) CLIENT_INITIATED_METADATA r
       \<and> \<not> judged_unsupported sample_context"
proof -
  have "case exited_result Inr (sample_world metadata_summaries) sample_context 0 0 of Inl _ \<Rightarrow> False
    | Inr r \<Rightarrow> res_status r = ''passed'' \<and> \<not> res_unsupported r"
    by code_simp
  then obtain r where r: "run_context Inr (sample_world metadata_summaries) sample_context [] = Inr r"
      "res_status r = ''passed''" "\<not> res_unsupported r"
    by (auto simp: sample_run split: sum.splits)
  from case_result_exact [OF r(1)] r(2,3) show ?thesis
    by (simp add: r(1)) (simp add: sample_context_def)
qed

text \<open>
  C22: A summary that is there but cannot be read ends the run: once both adapters have exited and left
  their summaries, the error of reading the server's comes out of the case, while whatever readable
  JSON they left gives a result.
\<close>

theorem unreadable_summary_ends_run:
  assumes "wo_run_pair w server_launch client_launch = Pair_exited a b"
    and "wo_summary w Server = Unreadable e" "wo_summary w Client \<noteq> Absent"
  shows "launched_result other w cc server_launch client_launch = Inl e
     \<and> (\<exists>r. launched_result other (w\<lparr>wo_summary := (\<lambda>role. Json (left role))\<rparr>) cc server_launch client_launch = Inr r)"
proof -
  have "launched_result other w cc server_launch client_launch = Inl e"
    using assms by (simp add: launched_result_def exited_result_def summary_exists_def read_json_def)
  moreover have "\<exists>r. launched_result other (w\<lparr>wo_summary := (\<lambda>role. Json (left role))\<rparr>) cc server_launch client_launch = Inr r"
    using assms(1) by (simp add: launched_result_def exited_result_def summary_exists_def read_json_def split_beta Let_def)
  ultimately show ?thesis by simp
qed

lemma unreadable_summary_ends_run_witness:
  "launched_result Inr (sample_world (\<lambda>role. if role = Server then Unreadable (PyExc ''JSONDecodeError'' ''Expecting value'')
       else Json (VDict metadata_client))) sample_context \<lparr>ls_cmd = [], ls_cwd = []\<rparr> \<lparr>ls_cmd = [], ls_cwd = []\<rparr>
   = Inl (PyExc ''JSONDecodeError'' ''Expecting value'')"
  by (rule conjunct1 [OF unreadable_summary_ends_run [where left = "\<lambda>_. VNone"]]) (simp_all add: sample_world_def)

lemma ports_apart:
  "distinct (map (\<lambda>n. SERVER_PORT_BASE + n) [0..<k] @ map (\<lambda>n. CLIENT_PORT_BASE + n) [0..<k]) \<longleftrightarrow> k \<le> 1000"
proof -
  have "(\<lambda>n. SERVER_PORT_BASE + n) ` {0..<k} \<inter> (\<lambda>n. CLIENT_PORT_BASE + n) ` {0..<k} = {} \<longleftrightarrow> k \<le> 1000"
  proof
    assume apart: "(\<lambda>n. SERVER_PORT_BASE + n) ` {0..<k} \<inter> (\<lambda>n. CLIENT_PORT_BASE + n) ` {0..<k} = {}"
    show "k \<le> 1000"
    proof (rule ccontr)
      assume "\<not> k \<le> 1000"
      then have "CLIENT_PORT_BASE + 0 \<in> (\<lambda>n. CLIENT_PORT_BASE + n) ` {0..<k}" "SERVER_PORT_BASE + 1000 \<in> (\<lambda>n. SERVER_PORT_BASE + n) ` {0..<k}"
        by (auto intro!: imageI)
      then show False using apart by (auto simp: SERVER_PORT_BASE_def CLIENT_PORT_BASE_def)
    qed
  qed (auto simp: SERVER_PORT_BASE_def CLIENT_PORT_BASE_def)
  then show ?thesis by (simp add: distinct_map inj_on_def del: image_add_atLeastLessThan)
qed

text \<open>
  C21: The cases of a matrix are numbered from 0 in order. Two of them write to one directory exactly if
  they are the same server, client and scenario, and all their ports differ exactly if there are at most
  1000. With filters that name no implementation twice no case is repeated, there are at most 192, and
  the ports are below 21000; a name given twice in a filter is kept, and repeats its cases.
\<close>

theorem matrix_cases_apart:
  assumes "matrix_cases f t = Inr cases"
    and "parse_implementation_filter f = Inr servers" "parse_implementation_filter t = Inr clients"
    and "map cc_slot_index contexts = map fst cases"
  shows "map fst cases = [0..<length cases]
     \<and> (distinct (map (\<lambda>(slot, i, server, client). case_name_of env i server client) cases) \<longleftrightarrow> distinct (map snd cases))
     \<and> (distinct (map server_port contexts @ map client_port contexts) \<longleftrightarrow> length cases \<le> 1000)
     \<and> (distinct servers \<and> distinct clients \<longrightarrow> distinct (map snd cases) \<and> length cases \<le> 192
         \<and> list_all (\<lambda>p. p < 21000) (map server_port contexts @ map client_port contexts))"
proof -
  let ?cs = "concat (map (scenario_cases servers clients) SCENARIO_LIST)"
  have cases: "cases = enumerate 0 ?cs"
    using assms(1-3) by (auto simp: matrix_cases_eq)
  then have slots: "map fst cases = [0..<length cases]" and len: "length cases = length ?cs" and snds: "map snd cases = ?cs"
    by (simp_all add: map_fst_enumerate)
  have "map (\<lambda>(slot, i, server, client). case_name_of env i server client) cases
      = map (\<lambda>(i, server, client). case_name_of env i server client) ?cs"
    unfolding cases by (rule nth_equalityI) (simp_all add: nth_enumerate_eq split_beta)
  then have names: "distinct (map (\<lambda>(slot, i, server, client). case_name_of env i server client) cases) \<longleftrightarrow> distinct (map snd cases)"
    using matrix_case_names [OF parse_filter_known [OF assms(2)]] snds by simp
  have "map server_port contexts = map (\<lambda>n. SERVER_PORT_BASE + n) (map cc_slot_index contexts)"
    "map client_port contexts = map (\<lambda>n. CLIENT_PORT_BASE + n) (map cc_slot_index contexts)"
    by (simp_all add: server_port_def client_port_def)
  then have ports: "map server_port contexts = map (\<lambda>n. SERVER_PORT_BASE + n) [0..<length cases]"
      "map client_port contexts = map (\<lambda>n. CLIENT_PORT_BASE + n) [0..<length cases]"
    unfolding assms(4) slots .
  have "distinct (map server_port contexts @ map client_port contexts) \<longleftrightarrow> length cases \<le> 1000"
    unfolding ports by (rule ports_apart)
  moreover have "distinct (map snd cases) \<and> length cases \<le> 192
      \<and> list_all (\<lambda>p. p < 21000) (map server_port contexts @ map client_port contexts)" if "distinct servers \<and> distinct clients"
    using that length_cases [of servers clients] distinct_cases [of servers clients]
    unfolding ports snds len by (auto simp: list_all_iff SERVER_PORT_BASE_def CLIENT_PORT_BASE_def)
  ultimately show ?thesis using slots names by blast
qed

lemma matrix_cases_apart_witness:
  "\<exists>cases. matrix_cases (Some ''aiosendspin'') None = Inr cases \<and> length cases \<le> 192
     \<and> distinct (map server_port (map (\<lambda>c. sample_context\<lparr>cc_slot_index := fst c\<rparr>) cases))"
proof -
  have servers: "parse_implementation_filter (Some ''aiosendspin'') = Inr [''aiosendspin'']" by code_simp
  have clients: "parse_implementation_filter None = Inr implementation_names"
    by (simp add: parse_implementation_filter_def)
  have names: "distinct implementation_names" by (simp add: implementation_names_eq)
  obtain cases where cases: "matrix_cases (Some ''aiosendspin'') None = Inr cases"
    using matrix_cases_eq [of "Some ''aiosendspin''" None] servers clients by blast
  let ?contexts = "map (\<lambda>c. sample_context\<lparr>cc_slot_index := fst c\<rparr>) cases"
  have "map cc_slot_index ?contexts = map fst cases" by simp
  note apart = matrix_cases_apart [OF cases servers clients this, of "''linux''"]
  have few: "length cases \<le> 192"
    by (rule apart [THEN conjunct2, THEN conjunct2, THEN conjunct2, rule_format, THEN conjunct2, THEN conjunct1]) (simp add: names)
  then have "length cases \<le> 1000" by simp
  with apart [THEN conjunct2, THEN conjunct2, THEN conjunct1]
  have "distinct (map server_port ?contexts @ map client_port ?contexts)" by (rule iffD2)
  then have "distinct (map server_port ?contexts)" by (simp only: distinct_append)
  with cases few show ?thesis by blast
qed

lemma repeated_filter_repeats:
  "case matrix_cases (Some ''aiosendspin,aiosendspin'') (Some ''aiosendspin'') of
     Inl e \<Rightarrow> False | Inr cases \<Rightarrow> \<not> distinct (map snd cases)"
  by code_simp

section \<open>Regressions\<close>

text \<open>
  C23: The regression gate reports exactly the rows that no longer pass although the last passing row
  of their cell in the baseline is comparable, and lists as exempt, with the reason, exactly those
  whose baseline row is not comparable: no lost case is in both lists or in neither.
\<close>

theorem regressions_exact:
  assumes "list_all indexable baseline" "list_all well_formed_row current"
  shows "detect_regressions baseline current
      = Inr (filter (\<lambda>r. lost baseline r \<and> why_exempt baseline r = None) current)
    \<and> exempt_cases baseline current
      = Inr (map (\<lambda>r. (r, the (why_exempt baseline r)))
             (filter (\<lambda>r. lost baseline r \<and> why_exempt baseline r \<noteq> None) current))"
  using compared_with_baseline [OF assms] by simp

definition result_row :: "string \<Rightarrow> string \<Rightarrow> int \<Rightarrow> pydict" where
  "result_row scenario status revision = [(''scenario_id'', VStr scenario), (''server_impl'', VStr ''a''),
     (''client_impl'', VStr ''b''), (''status'', VStr status), (''scenario_revision'', VInt revision)]"

lemma regressions_exact_witness:
  "detect_regressions [result_row ''x'' ''passed'' 1, result_row ''y'' ''passed'' 1]
      [result_row ''x'' ''failed'' 1, result_row ''y'' ''failed'' 2]
    = Inr [result_row ''x'' ''failed'' 1]
   \<and> exempt_cases [result_row ''x'' ''passed'' 1, result_row ''y'' ''passed'' 1]
      [result_row ''x'' ''failed'' 1, result_row ''y'' ''failed'' 2]
    = Inr [(result_row ''y'' ''failed'' 2, ''scenario revision changed since the baseline'')]"
proof -
  let ?b = "[result_row ''x'' ''passed'' 1, result_row ''y'' ''passed'' 1]"
  let ?c = "[result_row ''x'' ''failed'' 1, result_row ''y'' ''failed'' 2]"
  have "list_all indexable ?b" "list_all well_formed_row ?c" by code_simp+
  moreover have "filter (\<lambda>r. lost ?b r \<and> why_exempt ?b r = None) ?c = [result_row ''x'' ''failed'' 1]"
    by code_simp
  moreover have "map (\<lambda>r. (r, the (why_exempt ?b r))) (filter (\<lambda>r. lost ?b r \<and> why_exempt ?b r \<noteq> None) ?c)
      = [(result_row ''y'' ''failed'' 2, ''scenario revision changed since the baseline'')]"
    by code_simp
  ultimately show ?thesis using regressions_exact [of ?b ?c] by simp
qed

end
