(* ===== verification/Pcm_Properties.thy ===== *)
theory Pcm_Properties
  imports Pcm_Facts
begin

text \<open>
  The properties of the canonical PCM form: what it keeps of the samples, that a wider container
  does not change it, that the incremental hasher computes the hash of the whole stream, and that
  fixtures keep their hash and length in step with their samples.
\<close>

text \<open>
  The canonical form does not depend on the width of the container: a stream of 16-bit samples,
  widened to 24 or 32 bits, and one of 24-bit samples, widened to 32, convert to the same bytes.
\<close>

theorem widening_invisible:
  "(if 2 dvd length pcm
    then pcm_int_bytes_to_float_bytes (widened 1 2 pcm) 24 = pcm_int_bytes_to_float_bytes pcm 16
      \<and> pcm_int_bytes_to_float_bytes (widened 2 2 pcm) 32 = pcm_int_bytes_to_float_bytes pcm 16
    else True)
   \<and> (if 3 dvd length pcm
      then pcm_int_bytes_to_float_bytes (widened 1 3 pcm) 32 = pcm_int_bytes_to_float_bytes pcm 24
      else True)"
  by (simp add: widening_keeps_floats del: One_nat_def)

text \<open>
  Nothing of a 16- or 24-bit stream is lost: reading the canonical bytes back gives each sample
  divided by the full scale of its depth, exactly.
\<close>

theorem canonical_form_exact:
  assumes "pcm_int_bytes_to_float_bytes pcm depth = Inr out" "depth = 8 * int width" "width \<in> {2, 3}"
  shows "unpack_floats out = map (\<lambda>c. of_int (signed_le c) / 2 ^ (8 * width - 1)) (chunks_of width pcm)"
  using samples_exact [of pcm out] assms by auto

lemma canonical_form_exact_witness:
  "\<exists>out. pcm_int_bytes_to_float_bytes [0, 128, 255, 127] 16 = Inr out
     \<and> unpack_floats out = [- 1, 32767 / 32768]"
proof -
  have "\<exists>out. pcm_int_bytes_to_float_bytes [0, 128, 255, 127] 16 = Inr out"
    by (simp add: pcm_conversion)
  then obtain out where out: "pcm_int_bytes_to_float_bytes [0, 128, 255, 127] 16 = Inr out" ..
  have "chunks_of 2 [0, 128, 255, 127] = [[0, 128], [255, 127 :: 8 word]]" by (simp add: chunks_of_step)
  moreover have "signed_le [0, 128] = - 32768" "signed_le [255, 127] = 32767"
    by (simp_all add: signed_le_def Let_def)
  ultimately have "unpack_floats out = [- 1, 32767 / 32768]"
    using canonical_form_exact [OF out, of 2] by simp
  with out show ?thesis by blast
qed

text \<open>
  C24: The incremental hasher refines the hash of the whole stream: fed piece by piece, it holds the
  digest of the canonical bytes of the pieces put together, and counts their samples.
\<close>

theorem hasher_refines_hash:
  assumes "depth \<in> {16, 24, 32}" "feed_pieces ps depth new_hasher = Inr h"
  shows "\<exists>out. pcm_int_bytes_to_float_bytes (concat ps) depth = Inr out
     \<and> hexdigest h = sha256_hex out \<and> fh_sample_count h = length (concat ps) div nat (depth div 8)"
  using fed_whole [OF assms] by (simp add: hexdigest_def)

lemma hasher_refines_hash_witness:
  "\<exists>h out. feed_pieces [[0, 0], [1, 0, 2, 0]] 16 new_hasher = Inr h
     \<and> pcm_int_bytes_to_float_bytes [0, 0, 1, 0, 2, 0] 16 = Inr out
     \<and> hexdigest h = sha256_hex out \<and> fh_sample_count h = 3"
proof -
  obtain h where "feed_pieces [[0, 0], [1, 0, 2, 0]] 16 new_hasher = Inr h"
    by (auto simp: update_from_pcm_bytes_def pcm_int_bytes_to_float_bytes_def unpack_ints_eq)
  with hasher_refines_hash [of 16 "[[0, 0], [1, 0, 2, 0]]" h] show ?thesis by auto
qed

text \<open>
  Decoding a source whose frames hold their samples gives a fixture that is consistent, holds all
  the frames up to the limit of its duration and no more, and whose bytes are the first bytes of the
  decoded stream.
\<close>

theorem decoded_fixture_consistent:
  assumes "frames_ok (nonzero_or (fs_channels src) 2) (fs_frames src)"
    and "decode_fixture src max_duration = Inr fx"
    and "limit = max_frames_of (nonzero_or (fs_codec_rate src) (nonzero_or (fs_stream_rate src) 44100)) max_duration"
    and "case limit of None \<Rightarrow> True | Some m \<Rightarrow> 0 \<le> m"
  shows "consistent fx \<and> fx_frame_count fx = kept_frames limit (frame_total (fs_frames src))
     \<and> fx_pcm_bytes fx = take (length (fx_pcm_bytes fx)) (frames_to_pcm 16 (fs_frames src))"
proof -
  have "case max_duration of None \<Rightarrow> True | Some d \<Rightarrow> 0 \<le> the limit"
    using assms(3,4) by (auto simp: max_frames_of_def split: option.splits)
  with decoded_fixture [OF assms(1) _ assms(2) refl] assms(3) show ?thesis by (simp only: simp_thms)
qed

definition two_frames :: flac_source where
  "two_frames = \<lparr>fs_path = ''a.flac'', fs_codec_rate = Some 1, fs_stream_rate = None, fs_channels = Some 1,
     fs_frames = [\<lparr>of_samples = 2, of_channels = 1, of_plane = [1, 0, 2, 0]\<rparr>], fs_bytes = [7]\<rparr>"

lemma decoded_fixture_consistent_witness:
  "\<exists>fx. decode_fixture two_frames (Some 1) = Inr fx \<and> consistent fx \<and> fx_frame_count fx = 1"
proof -
  have limit: "max_frames_of (nonzero_or (fs_codec_rate two_frames) (nonzero_or (fs_stream_rate two_frames) 44100)) (Some 1)
      = Some 1"
    using f64_int [of 1] by (simp add: max_frames_of_def two_frames_def nonzero_or_def)
  have rate: "nonzero_or (fs_codec_rate two_frames) (nonzero_or (fs_stream_rate two_frames) 44100) = 1" by code_simp
  have seconds: "duration_of 1 1 = Inr 1" using f64_int [of 1] by (simp add: duration_of_def int_div_def)
  have "\<exists>st. take_frames (Some 1) (fs_frames two_frames)
      \<lparr>dc_parts = [], dc_frame_count = 0, dc_hasher = new_hasher\<rparr> = Inr st \<and> dc_frame_count st = 1"
    by (simp add: two_frames_def take_frame_def py_take_def Let_def update_from_pcm_bytes_def
        pcm_int_bytes_to_float_bytes_def unpack_ints_eq)
  then obtain st where "take_frames (Some 1) (fs_frames two_frames)
      \<lparr>dc_parts = [], dc_frame_count = 0, dc_hasher = new_hasher\<rparr> = Inr st" "dc_frame_count st = 1"
    by blast
  then have "\<exists>fx. decode_fixture two_frames (Some 1) = Inr fx"
    unfolding decode_fixture_def Let_def limit by (simp add: rate seconds)
  then obtain fx where fx: "decode_fixture two_frames (Some 1) = Inr fx" ..
  have "frames_ok (nonzero_or (fs_channels two_frames) 2) (fs_frames two_frames)" by code_simp
  moreover have "kept_frames (Some 1) (frame_total (fs_frames two_frames)) = 1" by code_simp
  ultimately show ?thesis
    using decoded_fixture_consistent [OF _ fx refl] fx by (simp add: limit)
qed

text \<open>
  Trimming a consistent fixture to whole codec frames keeps it consistent: what is left is a
  multiple of the frame size, fewer frames than one are dropped, all from the end, and the number
  reported is the number dropped.
\<close>

theorem trimming_keeps_consistency:
  assumes "trim_fixture_to_frame_multiple fx k = Inr (fx', n)" "0 < k" "consistent fx"
    and "0 \<le> fx_frame_count fx" "0 \<le> fx_channels fx" "0 \<le> fx_bit_depth fx"
  shows "consistent fx' \<and> fx_frame_count fx' mod k = 0 \<and> fx_frame_count fx = fx_frame_count fx' + n
     \<and> 0 \<le> n \<and> n < k \<and> fx_pcm_bytes fx' = take (length (fx_pcm_bytes fx')) (fx_pcm_bytes fx)"
  by (rule trimmed_fixture [OF assms])

definition three_frames :: decoded_fixture where
  "three_frames = \<lparr>fx_path = ''a.flac'', fx_pcm_bytes = [1, 0, 2, 0, 3, 0], fx_sample_rate = 0, fx_channels = 1,
     fx_bit_depth = 16, fx_frame_count = 3, fx_duration_seconds = 0, fx_source_flac_sha256 = [],
     fx_source_pcm_sha256 = sha256_hex (projr (pcm_int_bytes_to_float_bytes [1, 0, 2, 0, 3, 0] 16))\<rparr>"

lemma trimming_keeps_consistency_witness:
  "\<exists>fx n. trim_fixture_to_frame_multiple three_frames 2 = Inr (fx, n) \<and> consistent fx \<and> fx_frame_count fx mod 2 = 0"
proof -
  obtain fx n where fx: "trim_fixture_to_frame_multiple three_frames 2 = Inr (fx, n)"
    by (simp add: trim_fixture_to_frame_multiple_def three_frames_def py_take_def update_from_pcm_bytes_def
        pcm_int_bytes_to_float_bytes_def unpack_ints_eq duration_of_def Let_def)
  have "consistent three_frames"
    by (simp add: consistent_def three_frames_def pcm_int_bytes_to_float_bytes_def unpack_ints_eq)
  with trimming_keeps_consistency [OF fx] show ?thesis
    using fx by (simp add: three_frames_def)
qed

end
