(* ===== verification/Evidence.thy ===== *)
theory Evidence
  imports Protocol Chunk_Framing Py_Bytes Py_Objects
begin

text \<open>
  \<open>adapters/_aiosendspin_protocol_evidence.py\<close>: what an aiosendspin adapter writes into its summary
  about the protocol. The collectors of assertion evidence are association lists of recorders; the
  recorders of the transport are state records whose operations are the wrapped calls, split where
  the code awaits the transport.

  \<open>time.time()\<close> is the argument \<open>clock\<close>, which gives the readings of a call in their order.
\<close>

section \<open>Evidence of one assertion\<close>

record assertion_recorder =
  ar_id :: string
  ar_status :: string
  ar_detail :: "string option"
  ar_events :: "pyval list"

definition new_assertion :: "string \<Rightarrow> assertion_recorder" where
  "new_assertion assertion_id = \<lparr>ar_id = assertion_id, ar_status = ''failed'', ar_detail = None, ar_events = []\<rparr>"

definition ar_record :: "pyval \<Rightarrow> string \<Rightarrow> pydict \<Rightarrow> assertion_recorder \<Rightarrow> assertion_recorder" where
  "ar_record now event more_fields r = r\<lparr>ar_events := ar_events r
     @ [VDict (foldl (\<lambda>d kv. dict_put (fst kv) (snd kv) d) [(''event'', VStr event), (''timestamp'', now)] more_fields)]\<rparr>"

definition ar_passed :: "string \<Rightarrow> assertion_recorder \<Rightarrow> assertion_recorder" where
  "ar_passed detail r = r\<lparr>ar_status := ''passed'', ar_detail := Some detail\<rparr>"

definition ar_failed :: "string \<Rightarrow> assertion_recorder \<Rightarrow> assertion_recorder" where
  "ar_failed detail r = r\<lparr>ar_status := ''failed'', ar_detail := Some detail\<rparr>"

definition opt_text :: "string option \<Rightarrow> pyval" where
  "opt_text v = (case v of None \<Rightarrow> VNone | Some s \<Rightarrow> VStr s)"

definition ar_to_dict :: "assertion_recorder \<Rightarrow> pydict" where
  "ar_to_dict r = [(''status'', VStr (ar_status r)), (''detail'', opt_text (ar_detail r)),
     (''events'', VList (ar_events r))]"

text \<open>
  The collector. \<open>collector.assertion(id)\<close> hands out the recorder kept under the id, made when there
  is none; \<open>on_assertion\<close> is a change made through it.
\<close>

type_synonym collector = "(string \<times> assertion_recorder) list"

definition assertion_of :: "string \<Rightarrow> collector \<Rightarrow> assertion_recorder" where
  "assertion_of assertion_id c = (case map_of c assertion_id of Some r \<Rightarrow> r | None \<Rightarrow> new_assertion assertion_id)"

definition on_assertion :: "string \<Rightarrow> (assertion_recorder \<Rightarrow> assertion_recorder) \<Rightarrow> collector \<Rightarrow> collector" where
  "on_assertion assertion_id f c = dict_put assertion_id (f (assertion_of assertion_id c)) c"

definition to_summary_fragment :: "collector \<Rightarrow> pydict" where
  "to_summary_fragment c = [(''spec_revision'', VStr SPEC_REVISION),
     (''assertions'', VDict (map (\<lambda>(assertion_id, r). (assertion_id, VDict (ar_to_dict r))) c))]"

section \<open>Handshake and activation evidence\<close>

text \<open>
  The attributes the code reads off the SDK's connection: \<open>_client_id\<close> or \<open>_server_id\<close>,
  \<open>_handshake_hash\<close> and the category of \<open>_noise_psk\<close>, each absent as \<open>None\<close>.
\<close>

record connection_view =
  cv_peer_id :: "string option"
  cv_handshake_hash :: "byte_string option"
  cv_psk_category :: "string option"

definition record_handshake_evidence :: "(nat \<Rightarrow> pyval) \<Rightarrow> connection_view \<Rightarrow> pyval \<Rightarrow> pyval \<Rightarrow> collector \<Rightarrow> collector" where
  "record_handshake_evidence clock connection start_ts end_ts = on_assertion ''CORE-001''
     (\<lambda>r. ar_passed ''Noise handshake completed; driver enforces strict frame ordering''
       (ar_record (clock 0) ''handshake_completed''
         [(''start_ts'', start_ts), (''end_ts'', end_ts),
          (''peer_id'', opt_text (cv_peer_id connection)),
          (''handshake_hash'', (case cv_handshake_hash connection of None \<Rightarrow> VNone
             | Some h \<Rightarrow> if h = [] then VNone else VStr (hex_of_bytes h))),
          (''psk_category'', opt_text (cv_psk_category connection))] r))"

definition strs :: "string list \<Rightarrow> pyval" where
  "strs xs = VList (map VStr xs)"

definition record_activation_evidence_server ::
    "(nat \<Rightarrow> pyval) \<Rightarrow> string list \<Rightarrow> string list option \<Rightarrow> string list \<Rightarrow> collector \<Rightarrow> collector" where
  "record_activation_evidence_server clock active_role_ids negotiated requested_roles c = (
     let negotiated_role_ids = (case negotiated of None \<Rightarrow> active_role_ids | Some xs \<Rightarrow> xs);
         c2 = on_assertion ''CORE-002'' (\<lambda>r. ar_passed
           (''Server ran with allow_noncompliant_clients=False; no early-message ''
            @ ''compliance error was raised before activation'')
           (ar_record (clock 0) ''connection_established_without_compliance_error''
             [(''active_roles'', strs active_role_ids)] r)) c;
         unexpected = filter (\<lambda>role. role \<notin> set negotiated_role_ids) active_role_ids;
         c3 = on_assertion ''CORE-003'' (\<lambda>r.
           (if unexpected \<noteq> []
            then ar_failed (''Server activated undeclared role(s): '' @ join '', '' unexpected)
            else ar_passed ''Active roles are a subset of the negotiated role set'')
           (ar_record (clock 1) ''server_activate_scoped_to_negotiated_roles''
             [(''requested_roles'', strs requested_roles), (''negotiated_role_ids'', strs negotiated_role_ids),
              (''active_role_ids'', strs active_role_ids)] r)) c2
     in on_assertion ''CORE-004'' (\<lambda>r. ar_passed
           (''Connection reached the active state, which requires the initial ''
            @ ''client/state to have already been accepted'')
           (ar_record (clock 2) ''initial_client_state_gate_satisfied''
             [(''detail'', VStr (''SendspinConnection gates role binary data behind the initial ''
                @ ''client/state and flags noncompliance otherwise''))] r)) c3)"

definition record_activation_evidence_client ::
    "(nat \<Rightarrow> pyval) \<Rightarrow> string option \<Rightarrow> string list \<Rightarrow> collector \<Rightarrow> collector" where
  "record_activation_evidence_client clock server_id roles c = (
     let c2 = on_assertion ''CORE-002'' (\<lambda>r. ar_passed
           ''Client only began sending application messages once activated''
           (ar_record (clock 0) ''client_connected_without_early_messages''
             [(''server_id'', opt_text server_id)] r)) c;
         c3 = on_assertion ''CORE-003'' (\<lambda>r. ar_passed
           ''Client accepted the server/activate role/version set it received''
           (ar_record (clock 1) ''server_activate_accepted'' [(''roles'', strs roles)] r)) c2
     in on_assertion ''CORE-004'' (\<lambda>r. ar_passed
           ''Client sent the initial client/state before any role binary data''
           (ar_record (clock 2) ''initial_client_state_sent''
             [(''detail'', VStr ''SendspinConnection sends the initial client/state immediately after activation'')] r)) c3)"

section \<open>Player stream evidence\<close>

definition matches_format :: "pydict \<Rightarrow> pydict \<Rightarrow> bool" where
  "matches_format negotiated_format fmt =
     list_all (\<lambda>key. py_eq (dict_get key fmt) (dict_get key negotiated_format)) [''codec'', ''sample_rate'', ''channels'']"

definition non_monotonic :: "int list \<Rightarrow> (int \<times> int) list" where
  "non_monotonic ts = filter (\<lambda>(prev, cur). cur < prev) (zip ts (tl ts))"

definition int_or_none :: "int option \<Rightarrow> pyval" where
  "int_or_none v = (case v of None \<Rightarrow> VNone | Some n \<Rightarrow> VInt n)"

definition record_player_stream_evidence ::
    "(nat \<Rightarrow> pyval) \<Rightarrow> pydict list \<Rightarrow> pydict option \<Rightarrow> int \<Rightarrow> int list \<Rightarrow> collector \<Rightarrow> collector" where
  "record_player_stream_evidence clock advertised_formats negotiated_format chunk_count chunk_timestamps_us =
     on_assertion ''PLAYER-001'' (\<lambda>r.
       let r1 = ar_record (clock 0) ''stream_start_observed''
             [(''negotiated_format'', (case negotiated_format of None \<Rightarrow> VNone | Some d \<Rightarrow> VDict d)),
              (''advertised_formats'', VList (map VDict advertised_formats))] r
       in case negotiated_format of
         None \<Rightarrow> ar_failed ''No stream/start with a player object was observed'' r1
       | Some negotiated \<Rightarrow>
           if \<not> list_ex (matches_format negotiated) advertised_formats
           then ar_failed (''Negotiated format '' @ py_repr (VDict negotiated) @ '' was not among the ''
                  @ ''advertised formats '' @ py_repr (VList (map VDict advertised_formats))) r1
           else if chunk_count = 0
           then ar_failed ''No audio chunks were observed after stream/start'' r1
           else
             let r2 = ar_record (clock 1) ''audio_chunks_observed''
                   [(''chunk_count'', VInt chunk_count),
                    (''first_timestamp_us'', if chunk_timestamps_us = [] then VNone else VInt (hd chunk_timestamps_us)),
                    (''last_timestamp_us'', if chunk_timestamps_us = [] then VNone else VInt (last chunk_timestamps_us))] r1
             in if non_monotonic chunk_timestamps_us \<noteq> []
                then ar_failed (''Chunk timestamps were not monotonic: [''
                       @ join '', '' (map (\<lambda>(prev, cur). ''('' @ int_str prev @ '', '' @ int_str cur @ '')'')
                           (take 3 (non_monotonic chunk_timestamps_us))) @ '']'') r2
                else ar_passed (''Selected an advertised format and streamed '' @ int_str chunk_count
                       @ '' timestamped chunks in order'') r2)"

text \<open>
  The evidence one adapter collects in the baseline scenario: the server of \<open>_run_protocol_baseline_scenario\<close>,
  and the client, which asserts that it noted the handshake's start and end, and has no evidence of the
  handshake if it captured no connection. \<open>clock\<close> gives
  the readings of each collecting call; the advertised formats, the format negotiated and the chunks
  are what the adapter has read off the SDK.
\<close>

definition server_evidence ::
    "(nat \<Rightarrow> nat \<Rightarrow> pyval) \<Rightarrow> connection_view \<Rightarrow> pyval \<Rightarrow> pyval \<Rightarrow> string list \<Rightarrow> string list option \<Rightarrow> string list
     \<Rightarrow> pydict list \<Rightarrow> pydict option \<Rightarrow> int list \<Rightarrow> collector" where
  "server_evidence clock connection start end_ts active negotiated requested advertised format ts =
     record_player_stream_evidence (clock 2) advertised format (int (length ts)) ts
       (record_activation_evidence_server (clock 1) active negotiated requested
         (record_handshake_evidence (clock 0) connection start end_ts []))"

definition client_evidence ::
    "(nat \<Rightarrow> nat \<Rightarrow> pyval) \<Rightarrow> connection_view option \<Rightarrow> pyval list \<Rightarrow> string option \<Rightarrow> string list
     \<Rightarrow> pydict list \<Rightarrow> pydict option \<Rightarrow> int \<Rightarrow> int list \<Rightarrow> collector py" where
  "client_evidence clock connection stamps server_id roles advertised format chunks ts = (case stamps of
     [start, end_ts] \<Rightarrow> Inr (record_player_stream_evidence (clock 2) advertised format chunks ts
       (record_activation_evidence_client (clock 1) server_id roles
         (case connection of None \<Rightarrow> [] | Some c \<Rightarrow> record_handshake_evidence (clock 0) c start end_ts [])))
   | _ \<Rightarrow> Inl (PyExc ''AssertionError'' ''handshake start/end timestamps were not captured''))"

section \<open>Binary frames\<close>

definition FRAME_PREFIX_BYTES :: nat where
  "FRAME_PREFIX_BYTES = 13"

definition binary_frame_record :: "byte_string \<Rightarrow> pydict" where
  "binary_frame_record frame = [(''byte_count'', VInt (int (length frame))),
     (''leading_hex'', VStr (hex_of_bytes (take FRAME_PREFIX_BYTES frame)))]"

text \<open>
  The two recorders of binary frames append one record per frame the transport accepted, or
  delivered. A send that raised leaves no record, nor does a message that is not binary.
\<close>

definition record_sent_frame :: "byte_string \<Rightarrow> bool \<Rightarrow> pydict list \<Rightarrow> pydict list" where
  "record_sent_frame data accepted frames = (if accepted then frames @ [binary_frame_record data] else frames)"

definition record_received_frame :: "byte_string option \<Rightarrow> pydict list \<Rightarrow> pydict list" where
  "record_received_frame binary frames = (case binary of
     None \<Rightarrow> frames | Some data \<Rightarrow> frames @ [binary_frame_record data])"

type_synonym chunk_sizes = "int \<rightharpoonup> int option"

definition record_chunk_size :: "int \<Rightarrow> byte_string \<Rightarrow> chunk_sizes \<Rightarrow> chunk_sizes" where
  "record_chunk_size timestamp_us payload sizes =
     sizes(timestamp_us \<mapsto> (if timestamp_us \<in> dom sizes then None else Some (int (length payload))))"

text \<open>\<open>int.from_bytes(bs, "big", signed=True)\<close>.\<close>

definition signed_big :: "byte_string \<Rightarrow> int" where
  "signed_big bs = (
     let n = foldl (\<lambda>n b. 256 * n + uint b) 0 bs
     in if bs \<noteq> [] \<and> 128 \<le> uint (hd bs) then n - 256 ^ length bs else n)"

text \<open>A frame without readable \<open>leading_hex\<close> raises, which is \<open>None\<close>; no record a frame was given is one.\<close>

definition paired_frame :: "chunk_sizes \<Rightarrow> pydict \<Rightarrow> pydict option" where
  "paired_frame sizes frame =
     Option.bind (str_of (dict_get ''leading_hex'' frame)) (\<lambda>text.
     Option.bind (fromhex text) (\<lambda>leading.
       let timestamp_us = signed_big (take 8 (drop 1 leading));
           size = (if 9 \<le> length leading then Option.bind (sizes timestamp_us) id else None)
       in Some (dict_put ''payload_byte_count'' (int_or_none size) frame)))"

definition paired :: "chunk_sizes \<Rightarrow> pydict list \<Rightarrow> pydict list option" where
  "paired sizes frames = those (map (paired_frame sizes) frames)"

end
