(* ===== verification/Evidence_Facts.thy ===== *)
theory Evidence_Facts
  imports Evidence Protocol_Facts Framing_Facts
begin

text \<open>
  What the collectors of \<open>Evidence\<close> promise the judges of \<open>Protocol\<close> and \<open>Chunk_Framing\<close>: which
  evidence the fragments of both adapters give, and that the recorded frames read back as the frames
  that crossed the transport.
\<close>

section \<open>Assertion evidence\<close>

lemma assertion_of_on:
  "assertion_of j (on_assertion k f c) = (if j = k then f (assertion_of k c) else assertion_of j c)"
  by (simp add: assertion_of_def on_assertion_def map_of_dict_put)

lemma fst_set_dict_put: "fst ` set (dict_put k v d) = insert k (fst ` set d)"
  by (induction k v d rule: dict_put.induct) auto

lemma recorded_ids_on: "fst ` set (on_assertion k f c) = insert k (fst ` set c)"
  by (simp add: on_assertion_def fst_set_dict_put)

text \<open>A recorder whose evidence passes: marked so, with at least one event.\<close>

definition recorded_pass :: "assertion_recorder \<Rightarrow> bool" where
  "recorded_pass r \<longleftrightarrow> ar_status r = ''passed'' \<and> ar_events r \<noteq> []"

lemma recorded_pass_simps [simp]:
  "recorded_pass (ar_passed detail (ar_record t e fs r))"
  "\<not> recorded_pass (ar_failed detail r)"
  by (simp_all add: recorded_pass_def ar_passed_def ar_failed_def ar_record_def)

lemma dict_get_fragment:
  "dict_get k (map (\<lambda>(j, r). (j, VDict (ar_to_dict r))) c)
     = (case map_of c k of None \<Rightarrow> VNone | Some r \<Rightarrow> VDict (ar_to_dict r))"
  by (induction c) (auto split: option.splits)

lemma to_dict_passed:
  "(\<exists>result. VDict (ar_to_dict r) = VDict result \<and> dict_get ''status'' result = VStr ''passed''
     \<and> (\<exists>events. dict_get ''events'' result = VList events \<and> events \<noteq> [])) \<longleftrightarrow> recorded_pass r"
  by (simp add: ar_to_dict_def recorded_pass_def)

lemma fragment_assertion_passed:
  "assertion_passed (map (\<lambda>(j, r). (j, VDict (ar_to_dict r))) c) k
     \<longleftrightarrow> recorded_pass (assertion_of k c)"
  unfolding assertion_passed_def dict_get_fragment assertion_of_def
  by (cases "map_of c k") (simp_all only: option.case to_dict_passed, simp add: recorded_pass_def new_assertion_def)

lemma fragment_passed:
  "summary_passed ids [(''protocol'', VDict (to_summary_fragment c))]
     \<longleftrightarrow> (\<forall>k \<in> set ids. recorded_pass (assertion_of k c))"
  by (simp add: summary_passed_def to_summary_fragment_def fragment_assertion_passed)

text \<open>What a player stream's evidence passes for.\<close>

definition streamed_as_advertised :: "pydict list \<Rightarrow> pydict option \<Rightarrow> int \<Rightarrow> int list \<Rightarrow> bool" where
  "streamed_as_advertised advertised negotiated chunks ts \<longleftrightarrow>
     (\<exists>f. negotiated = Some f \<and> list_ex (matches_format f) advertised) \<and> chunks \<noteq> 0 \<and> sorted ts"

lemma non_monotonic_Nil: "non_monotonic ts = [] \<longleftrightarrow> sorted ts"
proof (induction ts)
  case (Cons t ts)
  then show ?case by (cases ts) (auto simp: non_monotonic_def not_less intro: order_trans)
qed (simp add: non_monotonic_def)

lemma player_evidence_pass:
  "recorded_pass (assertion_of ''PLAYER-001'' (record_player_stream_evidence clock advertised negotiated chunks ts c))
     \<longleftrightarrow> streamed_as_advertised advertised negotiated chunks ts"
  by (auto simp: record_player_stream_evidence_def assertion_of_on Let_def streamed_as_advertised_def
      non_monotonic_Nil split: option.splits)

lemmas evidence_defs = record_handshake_evidence_def record_activation_evidence_server_def
  record_activation_evidence_client_def Let_def assertion_of_on

lemma protocol_assertion_ids:
  "map pa_id PROTOCOL_ASSERTIONS = [''CORE-001'', ''CORE-002'', ''CORE-003'', ''CORE-004'', ''PLAYER-001'']"
  by (simp add: PROTOCOL_ASSERTIONS_def)

lemma no_evidence: "\<not> recorded_pass (assertion_of k [])"
  by (simp add: assertion_of_def recorded_pass_def new_assertion_def)

lemma player_keeps_others:
  "k \<noteq> ''PLAYER-001'' \<Longrightarrow>
   assertion_of k (record_player_stream_evidence clock advertised negotiated chunks ts c) = assertion_of k c"
  by (simp add: record_player_stream_evidence_def assertion_of_on)

lemma server_evidence_pass:
  "(\<forall>k \<in> pa_id ` set PROTOCOL_ASSERTIONS. recorded_pass (assertion_of k
      (server_evidence clock connection start end_ts active negotiated requested advertised format ts)))
   \<longleftrightarrow> (case negotiated of None \<Rightarrow> True | Some xs \<Rightarrow> set active \<subseteq> set xs)
     \<and> streamed_as_advertised advertised format (int (length ts)) ts"
  unfolding set_map [symmetric] protocol_assertion_ids server_evidence_def
  by (auto simp: player_evidence_pass player_keeps_others evidence_defs filter_empty_conv split: option.splits)

lemma client_evidence_pass:
  "client_evidence clock connection stamps server_id roles advertised format chunks ts = Inr evidence \<Longrightarrow>
   (\<forall>k \<in> pa_id ` set PROTOCOL_ASSERTIONS. recorded_pass (assertion_of k evidence))
   \<longleftrightarrow> connection \<noteq> None \<and> streamed_as_advertised advertised format chunks ts"
  unfolding set_map [symmetric] protocol_assertion_ids client_evidence_def
  by (cases connection) (auto simp: player_evidence_pass player_keeps_others evidence_defs no_evidence split: list.split_asm)

lemma client_evidence_returns:
  "client_evidence clock connection stamps server_id roles advertised format chunks ts = Inr evidence \<Longrightarrow> length stamps = 2"
  "client_evidence clock connection stamps server_id roles advertised format chunks ts = Inl e \<Longrightarrow> length stamps \<noteq> 2"
  by (auto simp: client_evidence_def split: list.split_asm)

section \<open>Frames\<close>

lemma hex_value_hex_char: "h < 16 \<Longrightarrow> hex_value (hex_char h) = Some h"
proof -
  assume "h < 16"
  then have "h \<in> set [0..<16]" by simp
  moreover have "list_all (\<lambda>h. hex_value (hex_char h) = Some h) [0..<16]" by code_simp
  ultimately show ?thesis by (simp only: list_all_iff)
qed

lemma hex_char_visible: "\<not> is_ascii_space (hex_char h)"
proof -
  have "h mod 16 \<in> set [0..<16]" by simp
  moreover have "list_all (\<lambda>h. \<not> is_ascii_space (hex_char h)) [0..<16]" by code_simp
  ultimately have "\<not> is_ascii_space (hex_char (h mod 16))" unfolding list_all_iff by blast
  then show ?thesis by (simp add: hex_char_def)
qed

lemma hex_char_mod: "hex_char h = hex_char (h mod 16)"
  by (simp add: hex_char_def)

text \<open>\<open>bytes.fromhex(bs.hex())\<close> gives the bytes back.\<close>

lemma fromhex_hex: "fromhex (hex_of_bytes bs) = Some bs"
proof (induction bs)
  case (Cons b bs)
  have "unat b < 256" using unsigned_less [of b, where ?'a = nat] by simp
  then have "hex_value (hex_char (unat b div 16)) = Some (unat b div 16)"
    by (intro hex_value_hex_char) simp
  moreover have "hex_value (hex_char (unat b)) = Some (unat b mod 16)"
    unfolding hex_char_mod [of "unat b"] by (intro hex_value_hex_char) simp
  moreover have "hex_of_bytes (b # bs) = hex_char (unat b div 16) # hex_char (unat b) # hex_of_bytes bs"
    by (simp add: hex_of_bytes_def)
  moreover have "(word_of_nat (16 * (unat b div 16) + unat b mod 16) :: 8 word) = b"
    unfolding mult_div_mod_eq by simp
  ultimately show ?case using Cons by (simp add: hex_char_visible del: of_nat_add of_nat_mult)
qed (simp add: hex_of_bytes_def)

text \<open>The frame a record stands for, with the size paired to it.\<close>

definition frame_with :: "int option \<Rightarrow> byte_string \<Rightarrow> chunk_frame" where
  "frame_with paired_size bs = \<lparr>cf_byte_count = int (length bs), cf_leading = take FRAME_PREFIX_BYTES bs,
     cf_payload_byte_count = paired_size\<rparr>"

definition stamped :: "byte_string \<Rightarrow> int" where
  "stamped frame = signed_big (take 8 (drop 1 frame))"

definition size_of_frame :: "chunk_sizes \<Rightarrow> byte_string \<Rightarrow> int option" where
  "size_of_frame sizes frame = (if 9 \<le> length frame then Option.bind (sizes (stamped frame)) id else None)"

lemma stamped_prefix: "signed_big (take 8 (drop 1 (take FRAME_PREFIX_BYTES frame))) = stamped frame"
  by (simp add: stamped_def FRAME_PREFIX_BYTES_def drop_take)

lemma paired_record:
  "paired_frame sizes (binary_frame_record frame)
     = Some (binary_frame_record frame @ [(''payload_byte_count'', int_or_none (size_of_frame sizes frame))])"
  using stamped_prefix [of frame]
  by (simp add: paired_frame_def binary_frame_record_def fromhex_hex size_of_frame_def FRAME_PREFIX_BYTES_def)

lemma count_of_int_or_none: "(\<And>n. k = Some n \<Longrightarrow> 0 \<le> n) \<Longrightarrow> count_of (int_or_none k) = k"
  by (cases k) (simp_all add: count_of_def int_or_none_def)

lemma paired_reads_back:
  assumes "frame \<noteq> []" and "\<And>n. k = Some n \<Longrightarrow> 0 \<le> n \<and> n \<le> int (length frame)"
  shows "frame_of_record (VDict (binary_frame_record frame @ [(''payload_byte_count'', int_or_none k)]))
     = Some (frame_with k frame)"
proof -
  have l: "count_of (VInt (int n)) = Some (int n)" for n by (simp add: count_of_def)
  have m: "int (length (take FRAME_PREFIX_BYTES frame)) = min (int (length frame)) HEADER_BYTES"
    by (simp add: FRAME_PREFIX_BYTES_def HEADER_BYTES_def)
  have t: "take FRAME_PREFIX_BYTES frame \<noteq> []" using assms(1) by (simp add: FRAME_PREFIX_BYTES_def)
  show ?thesis
  proof (cases k)
    case None
    then show ?thesis using t m
      by (simp add: frame_of_record_def binary_frame_record_def fromhex_hex frame_with_def l
          int_or_none_def count_of_def [of VNone])
  next
    case (Some n)
    then have "count_of (VInt n) = Some n" "n \<le> int (length frame)"
      using assms(2) [of n] by (simp_all add: count_of_def)
    then show ?thesis using Some t m
      by (simp add: frame_of_record_def binary_frame_record_def fromhex_hex frame_with_def l int_or_none_def)
  qed
qed

text \<open>
  The frames of a stream, each a header before the audio of one chunk. The adapter notes the
  audio under the time stamp it was given; the header carries that stamp in its bytes 1 to 8.
\<close>

type_synonym framed_chunk = "byte_string \<times> byte_string"

definition frame_of_chunk :: "framed_chunk \<Rightarrow> byte_string" where
  "frame_of_chunk c = fst c @ snd c"

definition noted_sizes :: "framed_chunk list \<Rightarrow> chunk_sizes" where
  "noted_sizes cs = fold (\<lambda>c. record_chunk_size (stamped (fst c)) (snd c)) cs Map.empty"

definition stamped_header :: "framed_chunk \<Rightarrow> bool" where
  "stamped_header c \<longleftrightarrow> 9 \<le> length (fst c)"

lemma noted_sizes_snoc:
  "noted_sizes (cs @ [c]) = record_chunk_size (stamped (fst c)) (snd c) (noted_sizes cs)"
  by (simp add: noted_sizes_def)

lemma dom_record_chunk_size: "dom (record_chunk_size t payload sizes) = insert t (dom sizes)"
  by (auto simp: record_chunk_size_def domIff)

lemma noted_dom: "dom (noted_sizes cs) = stamped ` fst ` set cs"
proof (induction cs rule: rev_induct)
  case Nil
  show ?case by (simp add: noted_sizes_def)
next
  case (snoc c cs)
  then show ?case by (simp add: noted_sizes_snoc dom_record_chunk_size)
qed

lemma noted_distinct:
  "distinct (map (stamped \<circ> fst) cs) \<Longrightarrow> c \<in> set cs \<Longrightarrow>
   noted_sizes cs (stamped (fst c)) = Some (Some (int (length (snd c))))"
proof (induction cs rule: rev_induct)
  case (snoc d cs)
  have "stamped (fst d) \<notin> dom (noted_sizes cs)"
    using snoc.prems(1) by (auto simp: noted_dom)
  moreover have "stamped (fst c) \<noteq> stamped (fst d)" if "c \<noteq> d"
  proof -
    have "c \<in> set cs" using snoc.prems(2) that by simp
    then show ?thesis using snoc.prems(1) by (auto simp: image_iff)
  qed
  ultimately show ?case
    using snoc by (cases "c = d") (auto simp: noted_sizes_snoc record_chunk_size_def domIff)
qed simp

lemma stamped_frame: "stamped_header c \<Longrightarrow> stamped (frame_of_chunk c) = stamped (fst c)"
  by (simp add: stamped_def stamped_header_def frame_of_chunk_def take_Cons')

lemma noted_size_of_frame:
  assumes "distinct (map (stamped \<circ> fst) cs)" and "c \<in> set cs" and "stamped_header c"
  shows "size_of_frame (noted_sizes cs) (frame_of_chunk c) = Some (int (length (snd c)))"
  using noted_distinct [OF assms(1,2)] assms(3)
  by (simp add: size_of_frame_def stamped_frame [OF assms(3)]) (simp add: stamped_header_def frame_of_chunk_def)

definition sent_records :: "framed_chunk list \<Rightarrow> pydict list" where
  "sent_records cs = fold (\<lambda>c. record_sent_frame (frame_of_chunk c) True) cs []"

lemma sent_records_map: "sent_records cs = map (binary_frame_record \<circ> frame_of_chunk) cs"
  by (induction cs rule: rev_induct) (simp_all add: sent_records_def record_sent_frame_def)

lemma those_map_Some: "(\<And>x. x \<in> set xs \<Longrightarrow> f x = Some (g x)) \<Longrightarrow> those (map f xs) = Some (map g xs)"
  by (induction xs) simp_all

lemma frames_of_records_map:
  "(\<And>x. x \<in> set xs \<Longrightarrow> frame_of_record (f x) = Some (g x)) \<Longrightarrow> frames_of_records (map f xs) = Some (map g xs)"
  by (induction xs) simp_all

text \<open>The paired records of such a stream, and the frames the framing judge reads off them.\<close>

lemma stream_pairs:
  "paired sizes (sent_records cs) = Some (map (\<lambda>c. binary_frame_record (frame_of_chunk c)
     @ [(''payload_byte_count'', int_or_none (size_of_frame sizes (frame_of_chunk c)))]) cs)"
  unfolding paired_def sent_records_map map_map comp_def
  by (rule those_map_Some) (rule paired_record)

lemma stream_reads_back:
  assumes "distinct (map (stamped \<circ> fst) cs)" and "list_all stamped_header cs"
    and "paired (noted_sizes cs) (sent_records cs) = Some records"
  shows "transported_frames (VList (map VDict records))
     = Some (map (\<lambda>c. frame_with (Some (int (length (snd c)))) (frame_of_chunk c)) cs)"
proof -
  have "frame_of_record (VDict (binary_frame_record (frame_of_chunk c)
        @ [(''payload_byte_count'', int_or_none (size_of_frame (noted_sizes cs) (frame_of_chunk c)))]))
      = Some (frame_with (Some (int (length (snd c)))) (frame_of_chunk c))" if c: "c \<in> set cs" for c
  proof -
    have h: "stamped_header c" using assms(2) c by (simp add: list_all_iff)
    have k: "size_of_frame (noted_sizes cs) (frame_of_chunk c) = Some (int (length (snd c)))"
      using noted_size_of_frame [OF assms(1) c h] .
    have "frame_of_chunk c \<noteq> []" "int (length (snd c)) \<le> int (length (frame_of_chunk c))"
      using h by (auto simp: frame_of_chunk_def stamped_header_def)
    then show ?thesis
      using paired_reads_back [of "frame_of_chunk c" "Some (int (length (snd c)))"] k by (simp add: paired_record)
  qed
  then have "frames_of_records (map (\<lambda>c. VDict (binary_frame_record (frame_of_chunk c)
        @ [(''payload_byte_count'', int_or_none (size_of_frame (noted_sizes cs) (frame_of_chunk c)))])) cs)
      = Some (map (\<lambda>c. frame_with (Some (int (length (snd c)))) (frame_of_chunk c)) cs)"
    by (rule frames_of_records_map)
  moreover have "map VDict records = map (\<lambda>c. VDict (binary_frame_record (frame_of_chunk c)
        @ [(''payload_byte_count'', int_or_none (size_of_frame (noted_sizes cs) (frame_of_chunk c)))])) cs"
    using assms(3) unfolding stream_pairs by (auto simp: comp_def)
  ultimately show ?thesis by (simp add: transported_frames_def)
qed

text \<open>The judge measures the real headers of such a stream.\<close>

lemma measured_header: "header_bytes (frame_with (Some (int (length (snd c)))) (frame_of_chunk c)) = Some (int (length (fst c)))"
  by (simp add: header_bytes_def frame_with_def frame_of_chunk_def)

lemma stream_headers_judged:
  "header_violation role (map (\<lambda>c. frame_with (Some (int (length (snd c)))) (frame_of_chunk c)) cs) = None
     \<longleftrightarrow> (\<forall>c \<in> set cs. int (length (fst c)) = HEADER_BYTES)"
proof -
  have "List.map_filter header_bytes (map (\<lambda>c. frame_with (Some (int (length (snd c)))) (frame_of_chunk c)) cs)
      = map (\<lambda>c. int (length (fst c))) cs"
    by (induction cs) (simp_all add: map_filter_simps measured_header)
  then show ?thesis
    by (auto simp: header_violation_def Let_def measured_header filter_empty_conv comp_def)
qed

end
