(* ===== verification/Control_Messages.thy ===== *)
theory Control_Messages
  imports Evidence
begin

text \<open>
  \<open>ControlMessageRecorder\<close> and \<open>SentMetadataStateRecorder\<close> of
  \<open>adapters/_aiosendspin_protocol_evidence.py\<close>. A wrapped \<open>send_str\<close> runs in two parts, before and
  after it awaits the transport, and other calls may run between them: a send that awaits is a
  \<open>pending_send\<close>, with the values its local variables hold, and \<open>wire_step\<close> is one part of one
  call. A socket is a number. \<open>json.loads\<close> is the argument \<open>loads\<close>: the left side is the
  \<open>ValueError\<close> it raises on a text that is not JSON.
\<close>

definition RECORDED_SENT_TYPES :: "string list" where
  "RECORDED_SENT_TYPES = [''server/activate'', ''group/update'', ''stream/start'', ''server/time'']"

definition OTHER_SENT :: pyval where
  "OTHER_SENT = VDict [(''type'', VStr ''other-sent'')]"

section \<open>The recorder\<close>

record control_recorder =
  cm_first :: "nat \<rightharpoonup> pydict"
  cm_group_updates :: "nat \<rightharpoonup> pydict list"
  cm_availability :: "nat \<rightharpoonup> pyval list"
  cm_time_exchange :: "nat \<rightharpoonup> pyval list"

definition new_control_recorder :: control_recorder where
  "new_control_recorder = \<lparr>cm_first = Map.empty, cm_group_updates = Map.empty,
     cm_availability = Map.empty, cm_time_exchange = Map.empty\<rparr>"

definition kept_list :: "'a list option \<Rightarrow> 'a list" where
  "kept_list v = (case v of None \<Rightarrow> [] | Some xs \<Rightarrow> xs)"

text \<open>\<open>d.setdefault(socket, []).append(x)\<close>.\<close>

definition append_at :: "nat \<Rightarrow> 'a \<Rightarrow> (nat \<rightharpoonup> 'a list) \<Rightarrow> nat \<rightharpoonup> 'a list" where
  "append_at socket x d = d(socket \<mapsto> kept_list (d socket) @ [x])"

definition is_type :: "string \<Rightarrow> pydict \<Rightarrow> bool" where
  "is_type name message \<longleftrightarrow> dict_get ''type'' message = VStr name"

text \<open>The body as parsed: only one that names a recorded type is, and one that is no object raises.\<close>

definition parsed_body :: "(string \<Rightarrow> pyval py) \<Rightarrow> string \<Rightarrow> pydict py" where
  "parsed_body loads data = (
     if list_ex (\<lambda>name. contains (dq @ name @ dq) data) RECORDED_SENT_TYPES
     then py_bind (loads data) (\<lambda>v. case v of
       VDict message \<Rightarrow> Inr message
     | _ \<Rightarrow> Inl (no_attribute ''get'' v))
     else Inr [])"

text \<open>The \<open>roles\<close> of a \<open>stream/start\<close>, sorted, and the entry of its bracket.\<close>

definition start_roles :: "pydict \<Rightarrow> string list" where
  "start_roles message = sort (map fst (filter (\<lambda>kv. is_dict (snd kv))
     (case dict_get ''payload'' message of VDict payload \<Rightarrow> payload | _ \<Rightarrow> [])))"

definition start_entry :: "string \<Rightarrow> pydict \<Rightarrow> pyval" where
  "start_entry phase message = VDict [(''type'', VStr ''stream/start''),
     (''roles'', VList (map VStr (start_roles message))), (''phase'', VStr phase)]"

record pending_send =
  ps_socket :: nat
  ps_message :: pydict
  ps_began_at :: nat

definition begin_send :: "nat \<Rightarrow> pydict \<Rightarrow> control_recorder \<Rightarrow> control_recorder \<times> pending_send" where
  "begin_send socket message r = (
     (if is_type ''stream/start'' message
      then r\<lparr>cm_availability := append_at socket (start_entry ''sending'' message) (cm_availability r)\<rparr>
      else r),
     \<lparr>ps_socket = socket, ps_message = message, ps_began_at = length (kept_list (cm_time_exchange r socket))\<rparr>)"

text \<open>
  \<open>_record_other_sent\<close>. A send that began at a position above 0 found a list there, so the case
  without one is not reached.
\<close>

definition record_other_sent :: "nat \<Rightarrow> nat \<Rightarrow> control_recorder \<Rightarrow> control_recorder" where
  "record_other_sent socket began_at r = (case cm_time_exchange r socket of
     None \<Rightarrow> r
   | Some exchange \<Rightarrow>
       if began_at = 0 \<or> in_list OTHER_SENT (take 2 (drop (began_at - 1) exchange)) then r
       else r\<lparr>cm_time_exchange := (cm_time_exchange r)
              (socket \<mapsto> take began_at exchange @ [OTHER_SENT] @ drop began_at exchange)\<rparr>)"

definition finish_send :: "pending_send \<Rightarrow> control_recorder \<Rightarrow> control_recorder" where
  "finish_send p r = (
     let socket = ps_socket p; message = ps_message p
     in if is_type ''stream/start'' message
        then record_other_sent socket (ps_began_at p)
          (r\<lparr>cm_availability := append_at socket (start_entry ''sent'' message) (cm_availability r)\<rparr>)
        else
          let r1 = (if is_type ''server/activate'' message
                then r\<lparr>cm_first := (case cm_first r socket of None \<Rightarrow> (cm_first r)(socket \<mapsto> message) | Some _ \<Rightarrow> cm_first r)\<rparr>
                else if is_type ''group/update'' message \<and> socket \<in> dom (cm_first r)
                then r\<lparr>cm_group_updates := append_at socket message (cm_group_updates r)\<rparr>
                else r)
          in if is_type ''server/time'' message
             then r1\<lparr>cm_time_exchange := append_at socket (VDict message) (cm_time_exchange r1)\<rparr>
             else record_other_sent socket (ps_began_at p) r1)"

text \<open>\<open>observe\<close>, on a received text that \<open>json.loads\<close> read as \<open>v\<close>, or did not.\<close>

definition state_entry :: "pydict \<Rightarrow> pyval" where
  "state_entry message = VDict [(''type'', VStr ''client/state''), (''available'',
     (case dict_get ''payload'' message of VDict payload \<Rightarrow> dict_get ''available'' payload | _ \<Rightarrow> VNone))]"

definition observe_text :: "nat \<Rightarrow> pyval py \<Rightarrow> control_recorder \<Rightarrow> control_recorder" where
  "observe_text socket v r = (
     let time_exchange = kept_list (cm_time_exchange r socket);
         r1 = r\<lparr>cm_time_exchange := (cm_time_exchange r)(socket \<mapsto> time_exchange)\<rparr>
     in case v of
       Inr (VDict message) \<Rightarrow>
         if is_type ''client/state'' message
         then r1\<lparr>cm_availability := append_at socket (state_entry message) (cm_availability r1)\<rparr>
         else if is_type ''client/time'' message
         then r1\<lparr>cm_time_exchange := (cm_time_exchange r)(socket \<mapsto> time_exchange @ [VDict message])\<rparr>
         else r1
     | _ \<Rightarrow> r1)"

section \<open>What an adapter reads back\<close>

definition initial_activation :: "control_recorder \<Rightarrow> nat \<Rightarrow> bool \<Rightarrow> pydict option py" where
  "initial_activation r socket is_encrypted = (case cm_first r socket of
     None \<Rightarrow> if is_encrypted then Inl (PyExc ''RuntimeError''
          (''No server/activate was recorded for an encrypted connection; ''
           @ ''the aiosendspin send path no longer reaches EncryptedWebSocket.send_str''))
        else Inr None
   | Some message \<Rightarrow> Inr (Some message))"

definition group_updates :: "control_recorder \<Rightarrow> nat \<Rightarrow> pydict list" where
  "group_updates r socket = kept_list (cm_group_updates r socket)"

definition availability_trace :: "control_recorder \<Rightarrow> nat \<Rightarrow> pyval list option" where
  "availability_trace r socket = cm_availability r socket"

definition time_exchange :: "control_recorder \<Rightarrow> nat \<Rightarrow> pyval list option" where
  "time_exchange r socket = cm_time_exchange r socket"

section \<open>A run of the transport\<close>

text \<open>
  What crossed the transport, one event per part of a call: the start of a send, the transport's
  accepting or refusing the frame, a send whose body could not be parsed and so never began, a
  received text with its parsed value, and a received frame that is no text.
\<close>

datatype wire_event =
    Starting nat pydict
  | Wrote nat pydict
  | Raised nat pydict
  | Unparsed nat string
  | Read nat "pyval py"
  | Read_other nat

inductive wire_step ::
    "(string \<Rightarrow> pyval py) \<Rightarrow> control_recorder \<times> pending_send list \<Rightarrow> wire_event
     \<Rightarrow> control_recorder \<times> pending_send list \<Rightarrow> bool" for loads where
  starting: "parsed_body loads data = Inr message \<Longrightarrow> begin_send socket message r = (r', p) \<Longrightarrow>
     wire_step loads (r, ps) (Starting socket message) (r', ps @ [p])"
| unparsed: "parsed_body loads data = Inl e \<Longrightarrow> wire_step loads (r, ps) (Unparsed socket data) (r, ps)"
| wrote: "wire_step loads (r, us @ p # vs) (Wrote (ps_socket p) (ps_message p)) (finish_send p r, us @ vs)"
| raised: "wire_step loads (r, us @ p # vs) (Raised (ps_socket p) (ps_message p)) (r, us @ vs)"
| read: "wire_step loads (r, ps) (Read socket (loads data)) (observe_text socket (loads data) r, ps)"
| read_other: "wire_step loads (r, ps) (Read_other socket) (r, ps)"

inductive wire_run ::
    "(string \<Rightarrow> pyval py) \<Rightarrow> wire_event list \<Rightarrow> control_recorder \<times> pending_send list \<Rightarrow> bool" for loads where
  start: "wire_run loads [] (new_control_recorder, [])"
| step: "wire_run loads w s \<Longrightarrow> wire_step loads s e s' \<Longrightarrow> wire_run loads (w @ [e]) s'"

section \<open>The first metadata state\<close>

text \<open>
  \<open>SentMetadataStateRecorder\<close>: the part of its \<open>send_str\<close> after the transport accepted the frame,
  with the reading \<open>now\<close> of the server's clock. An \<open>AttributeError\<close>,
  or the \<open>ValueError\<close> of a text that is not JSON, propagates.
\<close>

definition metadata_timestamp :: "pydict \<Rightarrow> int option py" where
  "metadata_timestamp message = (
     if \<not> is_type ''server/state'' message then Inr None
     else py_bind (attr_get ''metadata'' (or_empty (dict_get ''payload'' message))) (\<lambda>metadata.
       case metadata of
         VDict m \<Rightarrow> (case dict_get ''timestamp'' m of VInt n \<Rightarrow> Inr (Some n) | _ \<Rightarrow> Inr None)
       | _ \<Rightarrow> Inr None))"

definition metadata_sent ::
    "(string \<Rightarrow> pyval py) \<Rightarrow> string \<Rightarrow> int \<Rightarrow> (int \<times> int) option \<Rightarrow> (int \<times> int) option py" where
  "metadata_sent loads data now first = (
     if first \<noteq> None \<or> \<not> contains (dq @ ''server/state'' @ dq) data then Inr first
     else py_bind (loads data) (\<lambda>v. case v of
       VDict message \<Rightarrow> py_bind (metadata_timestamp message) (\<lambda>t.
         Inr (map_option (\<lambda>n. (n, now)) t))
     | _ \<Rightarrow> Inl (no_attribute ''get'' v)))"

definition first_metadata_state :: "(int \<times> int) option \<Rightarrow> pyval" where
  "first_metadata_state first = (case first of None \<Rightarrow> VNone
   | Some (timestamp_us, bound_us) \<Rightarrow> VDict [(''timestamp_us'', VInt timestamp_us), (''bound_us'', VInt bound_us)])"

end
