(* ===== verification/Control_Facts.thy ===== *)
theory Control_Facts
  imports Control_Messages Time_Facts
begin

text \<open>
  What \<open>ControlMessageRecorder\<close> keeps of a run of the transport, in whatever order the parts of
  concurrent calls come: each view of the recorder is a function of the events of the run, and a
  mark for other messages never claims more than had been received when a send began.
\<close>

section \<open>Properties of every reachable state\<close>

locale wire_invariant =
  fixes inv :: "wire_event list \<Rightarrow> control_recorder \<times> pending_send list \<Rightarrow> bool"
  assumes inv_start: "inv [] (new_control_recorder, [])"
    and inv_step: "wire_run loads w s \<Longrightarrow> inv w s \<Longrightarrow> wire_step loads s e s' \<Longrightarrow> inv (w @ [e]) s'"
begin

lemma reachable_inv: "wire_run loads w s \<Longrightarrow> inv w s"
  by (induction rule: wire_run.induct) (auto intro: inv_start inv_step)

end

text \<open>A view of the recorder that is a function of the events: the steps follow it.\<close>

locale recorded_view =
  fixes view :: "control_recorder \<Rightarrow> nat \<Rightarrow> 'v" and spec :: "wire_event list \<Rightarrow> nat \<Rightarrow> 'v"
  assumes view_start: "view new_control_recorder s = spec [] s"
    and view_step: "\<forall>s. view r s = spec w s \<Longrightarrow> wire_step loads (r, ps) e (r', ps') \<Longrightarrow>
      view r' s = spec (w @ [e]) s"

sublocale recorded_view \<subseteq> wire_invariant "\<lambda>w st. \<forall>s. view (fst st) s = spec w s"
proof
  fix loads w and s s' :: "control_recorder \<times> pending_send list" and e
  assume "\<forall>t. view (fst s) t = spec w t" "wire_step loads s e s'"
  then show "\<forall>t. view (fst s') t = spec (w @ [e]) t"
    using view_step [of "fst s" w loads "snd s" e "fst s'" "snd s'"] by simp
qed (simp add: view_start)

context recorded_view
begin

lemma view_spec: "wire_run loads w (r, ps) \<Longrightarrow> view r s = spec w s"
  using reachable_inv by fastforce

end

inductive_cases wire_stepE: "wire_step loads (r, ps) e (r', ps')"

lemma wire_step_elim [consumes 1]:
  assumes "wire_step loads (r, ps) e (r', ps')"
  obtains (starting) t m where "e = Starting t m" "r' = fst (begin_send t m r)" "ps' = ps @ [snd (begin_send t m r)]"
  | (wrote) us p vs where "ps = us @ p # vs" "e = Wrote (ps_socket p) (ps_message p)" "r' = finish_send p r"
      "ps' = us @ vs"
  | (raised) us p vs where "ps = us @ p # vs" "e = Raised (ps_socket p) (ps_message p)" "r' = r" "ps' = us @ vs"
  | (read) t v where "e = Read t v" "r' = observe_text t v r" "ps' = ps"
  | (other) "(\<exists>t data. e = Unparsed t data) \<or> (\<exists>t. e = Read_other t)" "r' = r" "ps' = ps"
  using assms by (elim wire_stepE) (metis fst_conv snd_conv | blast)+

lemma record_other_sent_keeps [simp]:
  "cm_first (record_other_sent t b r) = cm_first r"
  "cm_group_updates (record_other_sent t b r) = cm_group_updates r"
  "cm_availability (record_other_sent t b r) = cm_availability r"
  by (simp_all add: record_other_sent_def split: option.splits)

lemma begin_send_simps [simp]:
  "cm_first (fst (begin_send t m r)) = cm_first r"
  "cm_group_updates (fst (begin_send t m r)) = cm_group_updates r"
  "cm_time_exchange (fst (begin_send t m r)) = cm_time_exchange r"
  "cm_availability (fst (begin_send t m r)) = (if is_type ''stream/start'' m
     then append_at t (start_entry ''sending'' m) (cm_availability r) else cm_availability r)"
  "ps_socket (snd (begin_send t m r)) = t"
  "ps_message (snd (begin_send t m r)) = m"
  "ps_began_at (snd (begin_send t m r)) = length (kept_list (cm_time_exchange r t))"
  by (simp_all add: begin_send_def)

lemma observe_text_keeps [simp]:
  "cm_first (observe_text t v r) = cm_first r"
  "cm_group_updates (observe_text t v r) = cm_group_updates r"
  by (auto simp: observe_text_def Let_def split: sum.splits pyval.splits)

lemma kept_list_append_at: "kept_list (append_at t x d s) = (if s = t then kept_list (d t) @ [x] else kept_list (d s))"
  by (simp add: append_at_def kept_list_def)

lemma kept_list_simps [simp]: "kept_list None = []" "kept_list (Some xs) = xs"
  by (simp_all add: kept_list_def)

lemma is_type_unique: "is_type a m \<Longrightarrow> is_type b m \<longleftrightarrow> a = b"
  by (auto simp: is_type_def)

section \<open>The opening messages\<close>

definition written :: "wire_event list \<Rightarrow> nat \<Rightarrow> pydict list" where
  "written w s = List.map_filter (\<lambda>e. case e of Wrote t m \<Rightarrow> if t = s then Some m else None | _ \<Rightarrow> None) w"

lemma written_snoc:
  "written (w @ [e]) s = written w s @ (case e of Wrote t m \<Rightarrow> if t = s then [m] else [] | _ \<Rightarrow> [])"
  by (induction w) (auto simp: written_def map_filter_simps split: wire_event.splits)

text \<open>The first \<open>server/activate\<close>, and the group updates sent after it.\<close>

definition opening_of :: "pydict list \<Rightarrow> pydict option \<times> pydict list" where
  "opening_of ms = (find (is_type ''server/activate'') ms,
     filter (is_type ''group/update'') (dropWhile (\<lambda>m. \<not> is_type ''server/activate'' m) ms))"

definition opening_view :: "control_recorder \<Rightarrow> nat \<Rightarrow> pydict option \<times> pydict list" where
  "opening_view r s = (cm_first r s, group_updates r s)"

lemma find_snoc: "find P (xs @ [x]) = (case find P xs of None \<Rightarrow> if P x then Some x else None | Some y \<Rightarrow> Some y)"
  by (induction xs) auto

lemma dropWhile_snoc:
  "dropWhile P (xs @ [x]) = (if list_all P xs then dropWhile P [x] else dropWhile P xs @ [x])"
  by (induction xs) auto

lemma find_not_None: "find P xs \<noteq> None \<longleftrightarrow> \<not> list_all (\<lambda>x. \<not> P x) xs"
  by (induction xs) auto

lemma opening_of_snoc:
  "opening_of (ms @ [m]) = (case opening_of ms of (first, updates) \<Rightarrow>
     (case first of None \<Rightarrow> if is_type ''server/activate'' m then Some m else None | Some a \<Rightarrow> Some a,
      if first \<noteq> None \<and> is_type ''group/update'' m then updates @ [m] else updates))"
proof (cases "list_all (\<lambda>m. \<not> is_type ''server/activate'' m) ms")
  case True
  then have first: "find (is_type ''server/activate'') ms = None" using find_not_None by blast
  have none: "dropWhile (\<lambda>m. \<not> is_type ''server/activate'' m) ms = []"
    using True by (simp add: list_all_iff)
  have empty: "opening_of ms = (None, [])" by (simp add: opening_of_def first none)
  have "dropWhile (\<lambda>m. \<not> is_type ''server/activate'' m) (ms @ [m]) = (if is_type ''server/activate'' m then [m] else [])"
    using True by (simp add: dropWhile_append list_all_iff)
  moreover have "is_type ''server/activate'' m \<Longrightarrow> \<not> is_type ''group/update'' m" by (simp add: is_type_def)
  ultimately show ?thesis
    unfolding empty by (simp add: opening_of_def find_snoc first)
next
  case False
  then have "find (is_type ''server/activate'') ms \<noteq> None" unfolding find_not_None .
  then obtain a where "find (is_type ''server/activate'') ms = Some a" by (elim not_None_eq [THEN iffD1, elim_format] exE)
  with False show ?thesis by (simp add: opening_of_def find_snoc dropWhile_snoc)
qed

lemma opening_finish:
  "opening_view (finish_send p r) s = (if s = ps_socket p
     then (case opening_view r s of (first, updates) \<Rightarrow>
       (case first of None \<Rightarrow> if is_type ''server/activate'' (ps_message p) then Some (ps_message p) else None | Some a \<Rightarrow> Some a,
        if first \<noteq> None \<and> is_type ''group/update'' (ps_message p) then updates @ [ps_message p] else updates))
     else opening_view r s)"
  by (auto simp: opening_view_def group_updates_def finish_send_def Let_def kept_list_append_at is_type_def
      split: option.splits)

interpretation opened: recorded_view opening_view "\<lambda>w s. opening_of (written w s)"
proof
  show "opening_view new_control_recorder s = opening_of (written [] s)" for s
    by (simp add: opening_view_def group_updates_def new_control_recorder_def opening_of_def written_def
        map_filter_simps)
next
  fix r w loads ps e r' ps' s
  assume eq: "\<forall>s. opening_view r s = opening_of (written w s)" and st: "wire_step loads (r, ps) e (r', ps')"
  from st show "opening_view r' s = opening_of (written (w @ [e]) s)"
  proof (cases rule: wire_step_elim)
    case (wrote us p vs)
    then show ?thesis
      using eq [rule_format, of s] eq [rule_format, of "ps_socket p"] by (simp add: opening_finish written_snoc opening_of_snoc)
  qed (use eq in \<open>auto simp: opening_view_def group_updates_def written_snoc\<close>)
qed

section \<open>The availability trace\<close>

definition gate_part :: "nat \<Rightarrow> wire_event \<Rightarrow> gate_entry option" where
  "gate_part s e = (case e of
     Starting t m \<Rightarrow> if t = s \<and> is_type ''stream/start'' m then Some (Sending (VList (map VStr (start_roles m)))) else None
   | Wrote t m \<Rightarrow> if t = s \<and> is_type ''stream/start'' m then Some (Sent (VList (map VStr (start_roles m)))) else None
   | Read t (Inr (VDict m)) \<Rightarrow> if t = s \<and> is_type ''client/state'' m
       then Some (ClientState (dict_get ''available'' (case dict_get ''payload'' m of VDict p \<Rightarrow> p | _ \<Rightarrow> []))) else None
   | _ \<Rightarrow> None)"

text \<open>What one socket's events mean to the gate on \<open>stream/start\<close>.\<close>

definition gate_log :: "wire_event list \<Rightarrow> nat \<Rightarrow> gate_entry list" where
  "gate_log w s = List.map_filter (gate_part s) w"

lemma map_filter_snoc:
  "List.map_filter f (xs @ [x]) = List.map_filter f xs @ (case f x of None \<Rightarrow> [] | Some y \<Rightarrow> [y])"
  by (induction xs) (auto simp: map_filter_simps split: option.splits)

lemma gate_log_snoc: "gate_log (w @ [e]) s = gate_log w s @ (case gate_part s e of None \<Rightarrow> [] | Some g \<Rightarrow> [g])"
  by (simp add: gate_log_def map_filter_snoc)

text \<open>The trace as the judge reads it, \<open>None\<close> while there is none.\<close>

definition gate_view :: "control_recorder \<Rightarrow> nat \<Rightarrow> gate_entry list option" where
  "gate_view r s = gate_entries (VList (kept_list (cm_availability r s)))"

lemma those_snoc: "those (xs @ [x]) = (case those xs of None \<Rightarrow> None | Some ys \<Rightarrow> map_option (\<lambda>y. ys @ [y]) x)"
  by (induction xs) (auto simp: option.map_comp comp_def split: option.splits)

lemma gate_entries_snoc:
  "gate_entries (VList (xs @ [x])) = (case gate_entries (VList xs) of None \<Rightarrow> None
     | Some es \<Rightarrow> map_option (\<lambda>g. es @ [g]) (gate_entry_of x))"
  by (simp add: gate_entries_def those_snoc)

lemma gate_entry_of_recorded:
  "gate_entry_of (start_entry ''sending'' m) = Some (Sending (VList (map VStr (start_roles m))))"
  "gate_entry_of (start_entry ''sent'' m) = Some (Sent (VList (map VStr (start_roles m))))"
  "gate_entry_of (state_entry m)
     = Some (ClientState (dict_get ''available'' (case dict_get ''payload'' m of VDict p \<Rightarrow> p | _ \<Rightarrow> [])))"
  by (auto simp: gate_entry_of_def start_entry_def state_entry_def split: pyval.splits)

lemma gate_view_append:
  "gate_entries (VList (kept_list (append_at t x d s))) = (if s = t
     then (case gate_entries (VList (kept_list (d t))) of None \<Rightarrow> None | Some es \<Rightarrow> map_option (\<lambda>g. es @ [g]) (gate_entry_of x))
     else gate_entries (VList (kept_list (d s))))"
  by (simp add: kept_list_append_at gate_entries_snoc)

lemma availability_finish:
  "cm_availability (finish_send p r) = (if is_type ''stream/start'' (ps_message p)
     then append_at (ps_socket p) (start_entry ''sent'' (ps_message p)) (cm_availability r) else cm_availability r)"
  by (simp add: finish_send_def Let_def)

lemma availability_observe:
  "cm_availability (observe_text t v r) = (case v of
     Inr (VDict m) \<Rightarrow> if is_type ''client/state'' m then append_at t (state_entry m) (cm_availability r) else cm_availability r
   | _ \<Rightarrow> cm_availability r)"
  by (auto simp: observe_text_def Let_def split: sum.splits pyval.splits)

interpretation gated: recorded_view gate_view "\<lambda>w s. Some (gate_log w s)"
proof
  show "gate_view new_control_recorder s = Some (gate_log [] s)" for s
    by (simp add: gate_view_def new_control_recorder_def gate_log_def map_filter_simps gate_entries_def)
next
  fix r w loads ps e r' ps' s
  assume eq: "\<forall>s. gate_view r s = Some (gate_log w s)" and st: "wire_step loads (r, ps) e (r', ps')"
  then have eqs: "gate_entries (VList (kept_list (cm_availability r t))) = Some (gate_log w t)" for t
    by (simp add: gate_view_def)
  from st show "gate_view r' s = Some (gate_log (w @ [e]) s)"
  proof (cases rule: wire_step_elim)
    case (read t v)
    then show ?thesis
      by (auto simp: gate_view_def availability_observe gate_log_snoc gate_part_def gate_view_append eqs
          gate_entry_of_recorded split: sum.splits pyval.splits)
  qed (auto simp: gate_view_def availability_finish gate_log_snoc gate_part_def gate_view_append eqs
      gate_entry_of_recorded)
qed

text \<open>The trace the judge is given: \<open>None\<close> exactly as long as there is no entry.\<close>

interpretation traced: recorded_view "\<lambda>r s. map_option (\<lambda>_. ()) (cm_availability r s)"
  "\<lambda>w s. if gate_log w s = [] then None else Some ()"
proof
  show "map_option (\<lambda>_. ()) (cm_availability new_control_recorder s) = (if gate_log [] s = [] then None else Some ())" for s
    by (simp add: new_control_recorder_def gate_log_def map_filter_simps)
next
  fix r w loads ps e r' ps' s
  assume eq: "\<forall>s. map_option (\<lambda>_. ()) (cm_availability r s) = (if gate_log w s = [] then None else Some ())"
    and st: "wire_step loads (r, ps) e (r', ps')"
  note eqs = eq [rule_format]
  from st show "map_option (\<lambda>_. ()) (cm_availability r' s) = (if gate_log (w @ [e]) s = [] then None else Some ())"
  proof (cases rule: wire_step_elim)
    case (read t v)
    then show ?thesis
      using eqs [of s] by (auto simp: availability_observe gate_log_snoc gate_part_def append_at_def split: sum.splits pyval.splits)
  qed (use eqs [of s] in \<open>auto simp: availability_finish gate_log_snoc gate_part_def append_at_def\<close>)
qed

section \<open>The time exchange\<close>

definition is_kind :: "string \<Rightarrow> pyval \<Rightarrow> bool" where
  "is_kind name v \<longleftrightarrow> entry_kind v = VStr name"

lemma is_kind_simps [simp]:
  "is_kind name (VDict m) \<longleftrightarrow> is_type name m"
  "is_kind name OTHER_SENT \<longleftrightarrow> name = ''other-sent''"
  by (auto simp: is_kind_def is_type_def entry_kind_def entry_dict_def OTHER_SENT_def)

text \<open>The client times one socket delivered, and the answers it carried.\<close>

definition time_part :: "nat \<Rightarrow> wire_event \<Rightarrow> pyval option" where
  "time_part s e = (case e of
     Wrote t m \<Rightarrow> if t = s \<and> is_type ''server/time'' m then Some (VDict m) else None
   | Read t (Inr (VDict m)) \<Rightarrow> if t = s \<and> is_type ''client/time'' m then Some (VDict m) else None
   | _ \<Rightarrow> None)"

definition time_log :: "wire_event list \<Rightarrow> nat \<Rightarrow> pyval list" where
  "time_log w s = List.map_filter (time_part s) w"

lemma time_log_snoc: "time_log (w @ [e]) s = time_log w s @ (case time_part s e of None \<Rightarrow> [] | Some v \<Rightarrow> [v])"
  by (simp add: time_log_def map_filter_snoc)

definition exchange_of :: "control_recorder \<Rightarrow> nat \<Rightarrow> pyval list" where
  "exchange_of r s = kept_list (cm_time_exchange r s)"

definition without_marks :: "pyval list \<Rightarrow> pyval list" where
  "without_marks xs = filter (\<lambda>x. x \<noteq> OTHER_SENT) xs"

lemma without_marks_simps [simp]:
  "without_marks [] = []"
  "without_marks (xs @ ys) = without_marks xs @ without_marks ys"
  "without_marks (OTHER_SENT # xs) = without_marks xs"
  by (simp_all add: without_marks_def)

lemma timed_unmarked:
  "is_type ''client/time'' m \<Longrightarrow> without_marks [VDict m] = [VDict m]"
  "is_type ''server/time'' m \<Longrightarrow> without_marks [VDict m] = [VDict m]"
  by (auto simp: without_marks_def OTHER_SENT_def is_type_def)

text \<open>What one step does to the exchange of a socket.\<close>

lemma mark_exchange:
  "exchange_of (record_other_sent t b r) s = exchange_of r s \<or>
   (s = t \<and> exchange_of (record_other_sent t b r) s = take b (exchange_of r s) @ [OTHER_SENT] @ drop b (exchange_of r s))"
  by (auto simp: exchange_of_def record_other_sent_def split: option.splits)

lemma exchange_updates [simp]:
  "exchange_of (r\<lparr>cm_first := a\<rparr>) s = exchange_of r s"
  "exchange_of (r\<lparr>cm_group_updates := g\<rparr>) s = exchange_of r s"
  "exchange_of (r\<lparr>cm_availability := v\<rparr>) s = exchange_of r s"
  by (simp_all add: exchange_of_def)

lemma finish_exchange:
  "exchange_of (finish_send p r) s = exchange_of r s @ (case time_part s (Wrote (ps_socket p) (ps_message p)) of None \<Rightarrow> [] | Some v \<Rightarrow> [v])
   \<or> (s = ps_socket p \<and> \<not> is_type ''server/time'' (ps_message p) \<and>
      exchange_of (finish_send p r) s
        = take (ps_began_at p) (exchange_of r s) @ [OTHER_SENT] @ drop (ps_began_at p) (exchange_of r s))"
proof (cases "is_type ''server/time'' (ps_message p)")
  case True
  then have "\<not> is_type ''stream/start'' (ps_message p)" by (simp add: is_type_def)
  then have "exchange_of (finish_send p r) s = (if s = ps_socket p then exchange_of r s @ [VDict (ps_message p)] else exchange_of r s)"
    using True by (simp add: finish_send_def Let_def exchange_of_def kept_list_append_at)
  then show ?thesis using True by (simp add: time_part_def)
next
  case False
  have "\<exists>r0. finish_send p r = record_other_sent (ps_socket p) (ps_began_at p) r0 \<and> exchange_of r0 s = exchange_of r s"
    using False by (auto simp: finish_send_def Let_def intro!: exI)
  then obtain r0 where "finish_send p r = record_other_sent (ps_socket p) (ps_began_at p) r0"
    "exchange_of r0 s = exchange_of r s" by blast
  then show ?thesis
    using mark_exchange [of "ps_socket p" "ps_began_at p" r0 s] False by (auto simp: time_part_def)
qed

lemma observe_exchange:
  "exchange_of (observe_text t v r) s = exchange_of r s @ (case time_part s (Read t v) of None \<Rightarrow> [] | Some x \<Rightarrow> [x])"
proof -
  have "\<not> (is_type ''client/state'' m \<and> is_type ''client/time'' m)" for m by (simp add: is_type_def)
  then show ?thesis
    by (auto simp: exchange_of_def observe_text_def Let_def time_part_def split: sum.splits pyval.splits)
qed

lemma exchange_step:
  assumes "wire_step loads (r, ps) e (r', ps')"
  shows "exchange_of r' s = exchange_of r s @ (case time_part s e of None \<Rightarrow> [] | Some v \<Rightarrow> [v])
   \<or> (\<exists>p \<in> set ps. s = ps_socket p \<and> e = Wrote s (ps_message p) \<and> \<not> is_type ''server/time'' (ps_message p) \<and>
      exchange_of r' s = take (ps_began_at p) (exchange_of r s) @ [OTHER_SENT] @ drop (ps_began_at p) (exchange_of r s))"
  using assms
proof (cases rule: wire_step_elim)
  case (wrote us p vs)
  then show ?thesis using finish_exchange [of p r s] by auto
next
  case (starting t m)
  then show ?thesis by (simp add: exchange_of_def time_part_def)
qed (auto simp: observe_exchange time_part_def)

interpretation timed: recorded_view "\<lambda>r s. without_marks (exchange_of r s)" time_log
proof
  show "without_marks (exchange_of new_control_recorder s) = time_log [] s" for s
    by (simp add: exchange_of_def new_control_recorder_def time_log_def map_filter_simps)
next
  fix r w loads ps e r' ps' s
  assume eq: "\<forall>s. without_marks (exchange_of r s) = time_log w s" and st: "wire_step loads (r, ps) e (r', ps')"
  have part: "without_marks (case time_part s e of None \<Rightarrow> [] | Some v \<Rightarrow> [v])
      = (case time_part s e of None \<Rightarrow> [] | Some v \<Rightarrow> [v])"
    by (auto simp: time_part_def timed_unmarked split: wire_event.splits sum.splits pyval.splits)
  from exchange_step [OF st, of s] show "without_marks (exchange_of r' s) = time_log (w @ [e]) s"
  proof
    assume "exchange_of r' s = exchange_of r s @ (case time_part s e of None \<Rightarrow> [] | Some v \<Rightarrow> [v])"
    then show ?thesis using eq part by (simp add: time_log_snoc)
  next
    assume "\<exists>p \<in> set ps. s = ps_socket p \<and> e = Wrote s (ps_message p) \<and> \<not> is_type ''server/time'' (ps_message p) \<and>
      exchange_of r' s = take (ps_began_at p) (exchange_of r s) @ [OTHER_SENT] @ drop (ps_began_at p) (exchange_of r s)"
    then obtain p :: pending_send where "e = Wrote s (ps_message p)" "\<not> is_type ''server/time'' (ps_message p)"
      and x: "exchange_of r' s = take (ps_began_at p) (exchange_of r s) @ [OTHER_SENT] @ drop (ps_began_at p) (exchange_of r s)"
      by blast
    then have "time_part s e = None" by (simp add: time_part_def)
    moreover have "without_marks (exchange_of r' s) = without_marks (exchange_of r s)"
      unfolding x by (metis append.assoc append_Cons append_Nil append_take_drop_id without_marks_simps(2,3))
    ultimately show ?thesis using eq by (simp add: time_log_snoc)
  qed
qed

text \<open>The client times among the entries, and those a socket had delivered.\<close>

definition client_entries :: "pyval list \<Rightarrow> pyval list" where
  "client_entries xs = filter (is_kind ''client/time'') xs"

definition delivered :: "wire_event list \<Rightarrow> nat \<Rightarrow> pyval list" where
  "delivered w s = client_entries (time_log w s)"

lemma client_entries_simps [simp]:
  "client_entries [] = []"
  "client_entries (xs @ ys) = client_entries xs @ client_entries ys"
  "client_entries (OTHER_SENT # xs) = client_entries xs"
  by (simp_all add: client_entries_def)

lemma client_entries_unmarked: "client_entries (without_marks xs) = client_entries xs"
  by (induction xs) (auto simp: client_entries_def without_marks_def)

lemma entries_delivered: "wire_run loads w (r, ps) \<Longrightarrow> client_entries (exchange_of r s) = delivered w s"
  using timed.view_spec [of loads w r ps s] client_entries_unmarked [of "exchange_of r s"]
  by (simp add: delivered_def)

lemma delivered_snoc:
  "delivered (w @ [e]) s = delivered w s @ client_entries (case time_part s e of None \<Rightarrow> [] | Some v \<Rightarrow> [v])"
  by (simp add: delivered_def time_log_snoc)

lemma delivered_prefix: "prefix (delivered u s) (delivered (u @ v) s)"
proof (induction v rule: rev_induct)
  case (snoc e v)
  then show ?case
    unfolding append_assoc [symmetric] delivered_snoc by (rule prefix_order.trans) simp
qed simp

text \<open>
  No mark claims too much: at a position with a mark, some other message of the socket had begun to
  be sent when at least the client times before it had been delivered, and it was written since.
\<close>

definition began_after :: "wire_event list \<Rightarrow> nat \<Rightarrow> pydict \<Rightarrow> pyval list \<Rightarrow> bool" where
  "began_after w s m xs \<longleftrightarrow> (\<exists>u v. w = u @ Starting s m # v \<and> length (client_entries xs) \<le> length (delivered u s))"

lemma began_after_snoc: "began_after w s m xs \<Longrightarrow> began_after (w @ [e]) s m xs"
  unfolding began_after_def by (metis append.assoc append_Cons)

lemma began_after_less:
  "began_after w s m xs \<Longrightarrow> length (client_entries ys) \<le> length (client_entries xs) \<Longrightarrow> began_after w s m ys"
  unfolding began_after_def by (elim exE conjE, intro exI conjI, assumption, linarith)

definition mark_true :: "wire_event list \<Rightarrow> nat \<Rightarrow> pyval list \<Rightarrow> bool" where
  "mark_true w s xs \<longleftrightarrow> (\<exists>m. began_after w s m xs \<and> Wrote s m \<in> set w \<and> \<not> is_type ''server/time'' m)"

lemma mark_true_snoc: "mark_true w s xs \<Longrightarrow> mark_true (w @ [e]) s xs"
  unfolding mark_true_def using began_after_snoc by fastforce

lemma mark_true_less:
  "mark_true w s xs \<Longrightarrow> length (client_entries ys) \<le> length (client_entries xs) \<Longrightarrow> mark_true w s ys"
  unfolding mark_true_def using began_after_less by blast

definition marks_true :: "wire_event list \<Rightarrow> nat \<Rightarrow> pyval list \<Rightarrow> bool" where
  "marks_true w s exchange \<longleftrightarrow> (\<forall>pre post. exchange = pre @ OTHER_SENT # post \<longrightarrow> mark_true w s pre)"

definition pending_true :: "wire_event list \<Rightarrow> control_recorder \<Rightarrow> pending_send \<Rightarrow> bool" where
  "pending_true w r p \<longleftrightarrow> ps_began_at p \<le> length (exchange_of r (ps_socket p))
     \<and> began_after w (ps_socket p) (ps_message p) (take (ps_began_at p) (exchange_of r (ps_socket p)))"

text \<open>Marks stay true when an entry is appended, and when a true one is inserted.\<close>

lemma marks_true_append:
  assumes "marks_true w s xs" and "x \<noteq> OTHER_SENT"
  shows "marks_true w s (xs @ [x])"
  unfolding marks_true_def
proof (intro allI impI)
  fix pre post
  assume "xs @ [x] = pre @ OTHER_SENT # post"
  with assms show "mark_true w s pre" by (cases post rule: rev_cases) (auto simp: marks_true_def)
qed

lemma marks_true_insert:
  assumes "marks_true w s (us @ vs)" and "mark_true w s us"
  shows "marks_true w s (us @ [OTHER_SENT] @ vs)"
  unfolding marks_true_def
proof (intro allI impI)
  fix pre post
  assume eq: "us @ [OTHER_SENT] @ vs = pre @ OTHER_SENT # post"
  then consider zs where "us = pre @ OTHER_SENT # zs" | "us = pre" | zs where "pre = us @ OTHER_SENT # zs" "vs = zs @ OTHER_SENT # post"
    by (auto simp: append_eq_append_conv2 append_eq_Cons_conv Cons_eq_append_conv)
  then show "mark_true w s pre"
  proof cases
    case 1
    then show ?thesis using assms(1) by (auto simp: marks_true_def)
  next
    case 2
    then show ?thesis using assms(2) by simp
  next
    case 3
    then have "mark_true w s (us @ zs)" using assms(1) by (auto simp: marks_true_def)
    then show ?thesis by (rule mark_true_less) (simp add: 3)
  qed
qed

lemma insert_keeps_take:
  "b \<le> length xs \<Longrightarrow> length (client_entries (take b (take c xs @ [OTHER_SENT] @ drop c xs))) \<le> length (client_entries (take b xs))"
proof -
  assume b: "b \<le> length xs"
  have mono: "length (client_entries (take i zs)) \<le> length (client_entries (take j zs))" if "i \<le> j" for i j zs
  proof -
    have "take j zs = take i zs @ take (j - i) (drop i zs)" using that by (metis le_add_diff_inverse take_add)
    then show ?thesis by simp
  qed
  show ?thesis
  proof (cases "b \<le> c")
    case True
    then show ?thesis using b by (simp add: min_def)
  next
    case False
    then have "c < length xs" using b by simp
    then have "take b (take c xs @ [OTHER_SENT] @ drop c xs) = take c xs @ OTHER_SENT # take (b - Suc c) (drop c xs)"
      using False by (simp add: take_Cons' min_def Suc_diff_Suc)
    then have "client_entries (take b (take c xs @ [OTHER_SENT] @ drop c xs)) = client_entries (take (b - 1) xs)"
      using False take_add [of c "b - Suc c" xs] by simp
    then show ?thesis using mono [of "b - 1" b xs] by simp
  qed
qed

definition truthful :: "wire_event list \<Rightarrow> control_recorder \<times> pending_send list \<Rightarrow> bool" where
  "truthful w st \<longleftrightarrow> (\<forall>s. marks_true w s (exchange_of (fst st) s)) \<and> (\<forall>p \<in> set (snd st). pending_true w (fst st) p)"

interpretation truthful_run: wire_invariant truthful
proof
  show "truthful [] (new_control_recorder, [])"
    by (simp add: truthful_def marks_true_def exchange_of_def new_control_recorder_def)
next
  fix loads w s e s'
  assume run: "wire_run loads w s" and inv: "truthful w s" and st: "wire_step loads s e s'"
  obtain r ps r' ps' where s: "s = (r, ps)" and s': "s' = (r', ps')" by fastforce
  note step = st [unfolded s s']
  have marks: "\<And>t. marks_true w t (exchange_of r t)" and pend: "\<And>p. p \<in> set ps \<Longrightarrow> pending_true w r p"
    using inv by (simp_all add: truthful_def s)
  have marks': "marks_true (w @ [e]) t (exchange_of r t)" for t
    using marks [of t] mark_true_snoc unfolding marks_true_def by blast
  have all: "marks_true (w @ [e]) t (exchange_of r' t)" for t
    using exchange_step [OF step, of t]
  proof
    assume x: "exchange_of r' t = exchange_of r t @ (case time_part t e of None \<Rightarrow> [] | Some v \<Rightarrow> [v])"
    have "time_part t e = Some v \<Longrightarrow> v \<noteq> OTHER_SENT" for v
      by (auto simp: time_part_def OTHER_SENT_def is_type_def split: wire_event.splits if_splits sum.splits pyval.splits)
    then show ?thesis using marks' [of t] marks_true_append by (auto simp: x split: option.splits)
  next
    assume "\<exists>p \<in> set ps. t = ps_socket p \<and> e = Wrote t (ps_message p) \<and> \<not> is_type ''server/time'' (ps_message p) \<and>
      exchange_of r' t = take (ps_began_at p) (exchange_of r t) @ [OTHER_SENT] @ drop (ps_began_at p) (exchange_of r t)"
    then obtain p :: pending_send where p: "p \<in> set ps" "t = ps_socket p" "e = Wrote t (ps_message p)"
        "\<not> is_type ''server/time'' (ps_message p)"
      and x: "exchange_of r' t = take (ps_began_at p) (exchange_of r t) @ [OTHER_SENT] @ drop (ps_began_at p) (exchange_of r t)"
      by blast
    have "began_after w t (ps_message p) (take (ps_began_at p) (exchange_of r t))"
      using pend [OF p(1)] by (simp add: pending_true_def p(2))
    then have "mark_true (w @ [e]) t (take (ps_began_at p) (exchange_of r t))"
      using p(3,4) began_after_snoc unfolding mark_true_def by fastforce
    then show ?thesis
      unfolding x by (rule marks_true_insert [rotated]) (simp add: marks')
  qed
  have old: "pending_true (w @ [e]) r' p" if "p \<in> set ps" for p
  proof -
    let ?t = "ps_socket p" and ?b = "ps_began_at p"
    have b: "?b \<le> length (exchange_of r ?t)"
      and began: "began_after (w @ [e]) ?t (ps_message p) (take ?b (exchange_of r ?t))"
      using pend [OF that] began_after_snoc by (auto simp: pending_true_def)
    from exchange_step [OF step, of ?t] have "?b \<le> length (exchange_of r' ?t)
        \<and> length (client_entries (take ?b (exchange_of r' ?t))) \<le> length (client_entries (take ?b (exchange_of r ?t)))"
      using b insert_keeps_take [OF b] by auto
    then show ?thesis unfolding pending_true_def using began_after_less [OF began] by blast
  qed
  from step have "p \<in> set ps' \<Longrightarrow> pending_true (w @ [e]) r' p" for p
  proof (cases rule: wire_step_elim)
    case (starting t m)
    have "began_after (w @ [e]) t m (exchange_of r t)"
      using entries_delivered [OF run [unfolded s], of t] unfolding began_after_def starting(1)
      by (intro exI [of _ w] exI [of _ "[]"]) simp
    then have "pending_true (w @ [e]) r' (snd (begin_send t m r))"
      by (simp add: pending_true_def starting(2) exchange_of_def)
    then show "p \<in> set ps' \<Longrightarrow> pending_true (w @ [e]) r' p" using old by (auto simp: starting(3))
  qed (use old in auto)
  with all show "truthful (w @ [e]) s'" by (simp add: truthful_def s')
qed

lemma marks_never_claim_more:
  assumes "wire_run loads w (r, ps)" and "time_exchange r s = Some (pre @ OTHER_SENT # post)"
  shows "\<exists>u m v. w = u @ Starting s m # v \<and> Wrote s m \<in> set w \<and> \<not> is_type ''server/time'' m
    \<and> prefix (client_entries pre) (delivered u s)"
proof -
  have x: "exchange_of r s = pre @ OTHER_SENT # post"
    using assms(2) by (simp add: time_exchange_def exchange_of_def)
  then have "mark_true w s pre"
    using truthful_run.reachable_inv [OF assms(1)] by (auto simp: truthful_def marks_true_def)
  then obtain u m v where w: "w = u @ Starting s m # v" "Wrote s m \<in> set w" "\<not> is_type ''server/time'' m"
    and le: "length (client_entries pre) \<le> length (delivered u s)"
    unfolding mark_true_def began_after_def by blast
  have "prefix (client_entries pre) (delivered w s)"
    using entries_delivered [OF assms(1), of s] unfolding x by (metis client_entries_simps(2) prefixI)
  moreover have "prefix (delivered u s) (delivered w s)"
    unfolding w(1) by (rule delivered_prefix)
  ultimately have "prefix (client_entries pre) (delivered u s)"
    using le by (rule prefix_length_prefix)
  then show ?thesis using w by blast
qed

end
