(* ===== verification/Evidence_Properties.thy ===== *)
theory Evidence_Properties
  imports Evidence_Facts Control_Facts
begin

text \<open>
  The properties of the evidence an aiosendspin adapter records, and of what the judges conclude
  from it: each composes a recorder of \<open>Evidence\<close> or \<open>Control_Messages\<close> with the judge of
  \<open>Protocol\<close> or \<open>Chunk_Framing\<close> that reads it.
\<close>

section \<open>Assertion evidence\<close>

text \<open>
  C30: a client that noted the start and the end of its handshake collects its evidence, and any other
  raises. With the evidence both adapters collect in the baseline scenario, the judge accepts every
  assertion exactly when the server activated only negotiated roles, the client captured its
  connection, and both sides saw a stream in an advertised format with chunks in the order of their timestamps.
\<close>

theorem collected_evidence_exact:
  "case client_evidence clock' connection' stamps server_id roles advertised' format' chunks ts' of
     Inl e \<Rightarrow> length stamps \<noteq> 2
   | Inr evidence \<Rightarrow> length stamps = 2 \<and>
     (protocol_evidence_failure
       [(''protocol'', VDict (to_summary_fragment
          (server_evidence clock connection start end_ts active negotiated requested advertised format ts)))]
       [(''protocol'', VDict (to_summary_fragment evidence))]
       (map pa_id PROTOCOL_ASSERTIONS) = None
     \<longleftrightarrow> (case negotiated of None \<Rightarrow> True | Some rs \<Rightarrow> set active \<subseteq> set rs)
       \<and> streamed_as_advertised advertised format (int (length ts)) ts
       \<and> connection' \<noteq> None \<and> streamed_as_advertised advertised' format' chunks ts')"
proof (cases "client_evidence clock' connection' stamps server_id roles advertised' format' chunks ts'")
  case (Inl e)
  then show ?thesis using client_evidence_returns(2) by simp
next
  case (Inr evidence)
  then show ?thesis
    unfolding Inr sum.case evidence_None fragment_passed set_map server_evidence_pass client_evidence_pass [OF Inr]
    using client_evidence_returns(1) [OF Inr] by blast
qed

section \<open>Binary frames\<close>

text \<open>
  C31: what the server adapter records of its chunks measures their real headers. If the chunks'
  time stamps differ and every header carries its stamp, the recorded and paired frames read back
  as the frames that were sent, and the judge of the headers accepts them exactly when every
  header has the 13 bytes RC1 gives it.
\<close>

theorem recorded_frames_measured:
  assumes "distinct (map (stamped \<circ> fst) cs)" and "list_all stamped_header cs"
  shows "\<exists>records frames. paired (noted_sizes cs) (sent_records cs) = Some records
     \<and> transported_frames (VList (map VDict records)) = Some frames
     \<and> map cf_byte_count frames = map (\<lambda>c. int (length (frame_of_chunk c))) cs
     \<and> (header_violation role frames = None \<longleftrightarrow> (\<forall>c \<in> set cs. int (length (fst c)) = HEADER_BYTES))"
proof -
  obtain records where records: "paired (noted_sizes cs) (sent_records cs) = Some records"
    unfolding stream_pairs by blast
  then show ?thesis
    using stream_reads_back [OF assms records] stream_headers_judged [of role cs]
    by (simp add: frame_with_def comp_def)
qed

definition sample_chunks :: "framed_chunk list" where
  "sample_chunks = [([4, 0, 0, 0, 0, 0, 0, 0, 1, 0, 0, 0, 9], [7, 7]), ([4, 0, 0, 0, 0, 0, 0, 0, 2, 0, 0, 0, 9], [8])]"

theorem recorded_frames_measured_witness:
  "\<exists>records frames. paired (noted_sizes sample_chunks) (sent_records sample_chunks) = Some records
     \<and> transported_frames (VList (map VDict records)) = Some frames
     \<and> map cf_byte_count frames = map (\<lambda>c. int (length (frame_of_chunk c))) sample_chunks
     \<and> (header_violation ''server'' frames = None \<longleftrightarrow> (\<forall>c \<in> set sample_chunks. int (length (fst c)) = HEADER_BYTES))"
  by (rule recorded_frames_measured) (simp_all add: sample_chunks_def stamped_def stamped_header_def signed_big_def)

section \<open>Control messages\<close>

text \<open>
  C32: in every run of the transport, whatever calls were under way at once, the recorder gives
  the first server/activate its socket carried, and the group updates written after it, in order.
\<close>

theorem opening_messages_exact:
  assumes "wire_run loads w (r, ps)"
  shows "initial_activation r socket encrypted = (case find (is_type ''server/activate'') (written w socket) of
       None \<Rightarrow> if encrypted then Inl (PyExc ''RuntimeError''
          (''No server/activate was recorded for an encrypted connection; ''
           @ ''the aiosendspin send path no longer reaches EncryptedWebSocket.send_str'')) else Inr None
     | Some m \<Rightarrow> Inr (Some m))
   \<and> group_updates r socket = filter (is_type ''group/update'')
       (dropWhile (\<lambda>m. \<not> is_type ''server/activate'' m) (written w socket))"
  using opened.view_spec [OF assms, of socket]
  by (simp_all add: opening_view_def opening_of_def initial_activation_def)

text \<open>
  C33: the gate on stream/start is judged on what crossed the transport: from the recorded trace
  the judge finds no violation exactly when some stream/start of the socket was written and each
  written one was, between the start of its send and its end, preceded by an available state.
\<close>

theorem recorded_gate_exact:
  assumes "wire_run loads w (r, ps)" and "availability_trace r socket = Some trace"
  shows "stream_start_gate_violation [(''availability_trace'', VList trace)] = None
     \<longleftrightarrow> list_ex is_sent (gate_log w socket) \<and> gate_kept (gate_log w socket)"
  using gated.view_spec [OF assms(1), of socket] assms(2)
  by (simp add: gate_None gate_view_def availability_trace_def list_ex_iff)

text \<open>
  C34: a mark for other messages never claims too much: every client/time recorded before the mark
  had been delivered when the server began to send some message, other than an answer, that was
  written since.
\<close>

theorem other_sent_truthful:
  assumes "wire_run loads w (r, ps)" and "time_exchange r socket = Some (pre @ OTHER_SENT # post)"
  shows "\<exists>u m v. w = u @ Starting socket m # v \<and> Wrote socket m \<in> set w \<and> \<not> is_type ''server/time'' m
     \<and> prefix (client_entries pre) (delivered u socket)"
  by (rule marks_never_claim_more [OF assms])

text \<open>
  A run for the witnesses: an activation is written, the client reports itself available and sends a
  client/time, and a stream/start is written.
\<close>

definition sample_text :: "string \<Rightarrow> string" where
  "sample_text name = dq @ name @ dq"

definition sample_message :: "string \<Rightarrow> pydict" where
  "sample_message name = [(''type'', VStr name), (''payload'', VDict [(''available'', VBool True)])]"

definition sample_loads :: "string \<Rightarrow> pyval py" where
  "sample_loads text = Inr (VDict (sample_message (butlast (tl text))))"

fun sample_events :: "string list \<Rightarrow> wire_event list" where
  "sample_events [] = []"
| "sample_events (n # ns) =
     (if n = ''client/state'' \<or> n = ''client/time'' then [Read 0 (Inr (VDict (sample_message n)))]
      else [Starting 0 (sample_message n), Wrote 0 (sample_message n)]) @ sample_events ns"

definition sample_names :: "string list" where
  "sample_names = [''server/activate'', ''client/state'', ''client/time'', ''stream/start'', ''group/update'']"

definition sample_wire :: "wire_event list" where
  "sample_wire = sample_events sample_names"

fun sample_recorder :: "control_recorder \<Rightarrow> string list \<Rightarrow> control_recorder" where
  "sample_recorder r [] = r"
| "sample_recorder r (n # ns) = sample_recorder
     (if n = ''client/state'' \<or> n = ''client/time'' then observe_text 0 (Inr (VDict (sample_message n))) r
      else finish_send (snd (begin_send 0 (sample_message n) r)) (fst (begin_send 0 (sample_message n) r))) ns"

definition sample_final :: control_recorder where
  "sample_final = sample_recorder new_control_recorder sample_names"

lemma sample_reads: "sample_loads (sample_text n) = Inr (VDict (sample_message n))"
  by (simp add: sample_loads_def sample_text_def butlast_append)

lemma sample_run_read:
  assumes "wire_run sample_loads w (r, [])"
  shows "wire_run sample_loads (w @ [Read 0 (Inr (VDict (sample_message n)))]) (observe_text 0 (Inr (VDict (sample_message n))) r, [])"
  using wire_run.step [OF assms wire_step.read [of _ _ _ 0 "sample_text n"]] unfolding sample_reads .

lemma sample_run_send:
  assumes "wire_run sample_loads w (r, [])" and "n \<in> set RECORDED_SENT_TYPES"
  shows "wire_run sample_loads (w @ [Starting 0 (sample_message n), Wrote 0 (sample_message n)])
    (finish_send (snd (begin_send 0 (sample_message n) r)) (fst (begin_send 0 (sample_message n) r)), [])"
proof -
  let ?m = "sample_message n" and ?p = "snd (begin_send 0 (sample_message n) r)"
  have "contains (sample_text n) (sample_text n)" unfolding contains_iff by (metis append_Nil append_Nil2)
  then have "list_ex (\<lambda>name. contains (dq @ name @ dq) (sample_text n)) RECORDED_SENT_TYPES"
    using assms(2) unfolding list_ex_iff sample_text_def by blast
  then have "parsed_body sample_loads (sample_text n) = Inr ?m"
    unfolding parsed_body_def sample_reads by simp
  then have "wire_run sample_loads (w @ [Starting 0 ?m]) (fst (begin_send 0 ?m r), [] @ [?p])"
    using wire_run.step [OF assms(1) wire_step.starting] by (metis prod.collapse)
  then have "wire_run sample_loads (w @ [Starting 0 ?m]) (fst (begin_send 0 ?m r), [] @ ?p # [])" by simp
  then have "wire_run sample_loads ((w @ [Starting 0 ?m]) @ [Wrote (ps_socket ?p) (ps_message ?p)])
      (finish_send ?p (fst (begin_send 0 ?m r)), [] @ [])"
    by (rule wire_run.step [OF _ wire_step.wrote])
  then show ?thesis by simp
qed

lemma sample_run_events:
  "wire_run sample_loads w (r, []) \<Longrightarrow>
   list_all (\<lambda>n. n = ''client/state'' \<or> n = ''client/time'' \<or> n \<in> set RECORDED_SENT_TYPES) ns \<Longrightarrow>
   wire_run sample_loads (w @ sample_events ns) (sample_recorder r ns, [])"
proof (induction ns arbitrary: w r)
  case (Cons n ns)
  show ?case
  proof (cases "n = ''client/state'' \<or> n = ''client/time''")
    case True
    then show ?thesis using Cons.IH [OF sample_run_read [OF Cons.prems(1), of n]] Cons.prems(2) by auto
  next
    case False
    then have "n \<in> set RECORDED_SENT_TYPES" using Cons.prems(2) by auto
    then show ?thesis using Cons.IH [OF sample_run_send [OF Cons.prems(1)]] Cons.prems(2) False by auto
  qed
qed simp

lemma sample_run_reached: "wire_run sample_loads sample_wire (sample_final, [])"
proof -
  have "list_all (\<lambda>n. n = ''client/state'' \<or> n = ''client/time'' \<or> n \<in> set RECORDED_SENT_TYPES) sample_names"
    by (simp add: RECORDED_SENT_TYPES_def sample_names_def)
  then show ?thesis
    using sample_run_events [OF wire_run.start] by (simp add: sample_wire_def sample_final_def)
qed

theorem opening_messages_exact_witness:
  "initial_activation sample_final 0 True = (case find (is_type ''server/activate'') (written sample_wire 0) of
       None \<Rightarrow> if True then Inl (PyExc ''RuntimeError''
          (''No server/activate was recorded for an encrypted connection; ''
           @ ''the aiosendspin send path no longer reaches EncryptedWebSocket.send_str'')) else Inr None
     | Some m \<Rightarrow> Inr (Some m))
   \<and> group_updates sample_final 0 = filter (is_type ''group/update'')
       (dropWhile (\<lambda>m. \<not> is_type ''server/activate'' m) (written sample_wire 0))"
  by (rule opening_messages_exact [OF sample_run_reached])

lemmas sample_defs = sample_final_def sample_names_def finish_send_def begin_send_def Let_def new_control_recorder_def
  sample_message_def is_type_def append_at_def observe_text_def record_other_sent_def availability_trace_def
  time_exchange_def state_entry_def

lemma sample_trace: "availability_trace sample_final 0 = Some [state_entry (sample_message ''client/state''),
    start_entry ''sending'' (sample_message ''stream/start''), start_entry ''sent'' (sample_message ''stream/start'')]"
  by (simp add: sample_defs)

theorem recorded_gate_exact_witness:
  "stream_start_gate_violation [(''availability_trace'', VList [state_entry (sample_message ''client/state''),
      start_entry ''sending'' (sample_message ''stream/start''), start_entry ''sent'' (sample_message ''stream/start'')])] = None
   \<longleftrightarrow> list_ex is_sent (gate_log sample_wire 0) \<and> gate_kept (gate_log sample_wire 0)"
  by (rule recorded_gate_exact [OF sample_run_reached sample_trace])

lemma sample_marked: "time_exchange sample_final 0 = Some ([VDict (sample_message ''client/time'')] @ OTHER_SENT # [])"
  by (simp add: sample_defs OTHER_SENT_def in_list_def)

theorem other_sent_truthful_witness:
  "\<exists>u m v. sample_wire = u @ Starting 0 m # v \<and> Wrote 0 m \<in> set sample_wire \<and> \<not> is_type ''server/time'' m
     \<and> prefix (client_entries [VDict (sample_message ''client/time'')]) (delivered u 0)"
  by (rule other_sent_truthful [OF sample_run_reached sample_marked])

end
