(* ===== verification/Waiting.thy ===== *)
theory Waiting
  imports Declared_Formats Py_Objects Py_Float
begin

text \<open>
  The waits of the harness and the registry file its adapters meet through: \<open>wait_for_file\<close> and
  \<open>wait_for_exit\<close> of \<open>process.py\<close>, \<open>registry.py\<close>, \<open>write_json\<close>, and the polling loops of
  \<open>adapters/aiosendspin_server.py\<close>. The loops are partial functions of the number of turns taken:
  \<open>clock k\<close> is the k-th reading of the event loop's clock, and the world the loop looks at is given
  per turn. A deadline no float can hold is \<open>None\<close>, for infinity.
\<close>

section \<open>Deadlines\<close>

definition deadline_of :: "(nat \<Rightarrow> rat) \<Rightarrow> rat \<Rightarrow> rat option" where
  "deadline_of clock timeout_s = f64 (clock 0 + timeout_s)"

definition before_deadline :: "rat \<Rightarrow> rat option \<Rightarrow> bool" where
  "before_deadline now deadline = (case deadline of None \<Rightarrow> True | Some d \<Rightarrow> now < d)"

abbreviation TimeoutError :: "string \<Rightarrow> py_exc" where
  "TimeoutError text \<equiv> PyExc ''TimeoutError'' text"

section \<open>Processes\<close>

partial_function (option) poll_file ::
    "(nat \<Rightarrow> rat) \<Rightarrow> (nat \<Rightarrow> bool) \<Rightarrow> string \<Rightarrow> rat option \<Rightarrow> nat \<Rightarrow> unit py option" where
  "poll_file clock exists path deadline k = (
     if before_deadline (clock k) deadline
     then (if exists k then Some (Inr ()) else poll_file clock exists path deadline (Suc k))
     else Some (Inl (TimeoutError (''Timed out waiting for file: '' @ path))))"

definition wait_for_file :: "(nat \<Rightarrow> rat) \<Rightarrow> (nat \<Rightarrow> bool) \<Rightarrow> string \<Rightarrow> rat \<Rightarrow> unit py option" where
  "wait_for_file clock exists path timeout_s = poll_file clock exists path (deadline_of clock timeout_s) 1"

text \<open>\<open>asyncio.wait_for\<close> gives the exit within the time, or it does not.\<close>

definition wait_for_exit :: "string \<Rightarrow> rat \<Rightarrow> bool \<Rightarrow> unit py" where
  "wait_for_exit role timeout_s exited = (
     if exited then Inr ()
     else Inl (TimeoutError (''Timed out after '' @ general timeout_s @ ''s waiting for the '' @ role @ '' adapter to exit'')))"

section \<open>The registry file\<close>

text \<open>What \<open>json.dumps(..., sort_keys=True)\<close> writes, read back.\<close>

fun sorted_json :: "pyval \<Rightarrow> pyval"
  and sorted_items :: "pyval list \<Rightarrow> pyval list"
  and sorted_pairs :: "pydict \<Rightarrow> pydict" where
  "sorted_json (VList xs) = VList (sorted_items xs)"
| "sorted_json (VDict d) = VDict (sort_key fst (sorted_pairs d))"
| "sorted_json VNone = VNone"
| "sorted_json (VBool b) = VBool b"
| "sorted_json (VInt n) = VInt n"
| "sorted_json (VFloat f) = VFloat f"
| "sorted_json (VStr s) = VStr s"
| "sorted_items [] = []"
| "sorted_items (x # xs) = sorted_json x # sorted_items xs"
| "sorted_pairs [] = []"
| "sorted_pairs ((k, v) # d) = (k, sorted_json v) # sorted_pairs d"

definition write_json :: "pyval \<Rightarrow> json_file" where
  "write_json payload = Json (sorted_json payload)"

text \<open>
  \<open>dict(value)\<close> of a registry that is no object is the argument \<open>other\<close>; \<open>register_endpoint\<close>
  itself writes objects only.
\<close>

definition register_endpoint :: "(pyval \<Rightarrow> pydict py) \<Rightarrow> json_file \<Rightarrow> string \<Rightarrow> string \<Rightarrow> json_file py" where
  "register_endpoint other registry client_name url = py_bind
     (case registry of
        Absent \<Rightarrow> Inr []
      | Unreadable e \<Rightarrow> Inl e
      | Json (VDict d) \<Rightarrow> Inr d
      | Json v \<Rightarrow> other v)
     (\<lambda>payload. Inr (write_json (VDict (dict_put client_name (VDict [(''url'', VStr url)]) payload))))"

definition lookup_endpoint :: "json_file \<Rightarrow> string \<Rightarrow> string option py" where
  "lookup_endpoint registry client_name = (case registry of
     Absent \<Rightarrow> Inr None
   | Unreadable e \<Rightarrow> Inl e
   | Json payload \<Rightarrow> py_bind (attr_get client_name payload) (\<lambda>entry. case entry of
       VDict e \<Rightarrow> Inr (str_of (dict_get ''url'' e))
     | _ \<Rightarrow> Inr None))"

section \<open>Waiting for the client\<close>

text \<open>
  The server adapter looks for a connected client of the given name in every turn. When it dials
  the client itself, the first address the registry gives is dialled, once; \<open>connect\<close> says how
  the dialling of an address ends. The result carries the addresses dialled.
\<close>

definition client_timeout :: "string \<Rightarrow> py_exc" where
  "client_timeout client_name = TimeoutError (''Timed out waiting for client '' @ repr_str client_name)"

partial_function (option) poll_target ::
    "(nat \<Rightarrow> rat) \<Rightarrow> (nat \<Rightarrow> bool) \<Rightarrow> (nat \<Rightarrow> json_file) \<Rightarrow> (string \<Rightarrow> unit py) \<Rightarrow> string \<Rightarrow> rat option
     \<Rightarrow> nat \<Rightarrow> string list \<Rightarrow> (string py \<times> string list) option" where
  "poll_target clock found registry connect client_name deadline k dialled = (
     if before_deadline (clock k) deadline
     then (if found k then Some (Inr (if dialled \<noteq> [] then ''registry_fallback'' else ''mdns''), dialled)
       else if dialled \<noteq> [] then poll_target clock found registry connect client_name deadline (Suc k) dialled
       else (case lookup_endpoint (registry k) client_name of
           Inl e \<Rightarrow> Some (Inl e, dialled)
         | Inr url \<Rightarrow> (case url of
             None \<Rightarrow> poll_target clock found registry connect client_name deadline (Suc k) dialled
           | Some u \<Rightarrow> (case connect u of
               Inl e \<Rightarrow> Some (Inl e, dialled @ [u])
             | Inr ok \<Rightarrow> poll_target clock found registry connect client_name deadline (Suc k) (dialled @ [u])))))
     else Some (Inl (client_timeout client_name), dialled))"

definition wait_for_target_client ::
    "(nat \<Rightarrow> rat) \<Rightarrow> (nat \<Rightarrow> bool) \<Rightarrow> (nat \<Rightarrow> json_file) \<Rightarrow> (string \<Rightarrow> unit py) \<Rightarrow> string \<Rightarrow> rat
     \<Rightarrow> (string py \<times> string list) option" where
  "wait_for_target_client clock found registry connect client_name timeout_s =
     poll_target clock found registry connect client_name (deadline_of clock timeout_s) 1 []"

partial_function (option) poll_incoming ::
    "(nat \<Rightarrow> rat) \<Rightarrow> (nat \<Rightarrow> bool) \<Rightarrow> string \<Rightarrow> rat option \<Rightarrow> nat \<Rightarrow> string py option" where
  "poll_incoming clock found client_name deadline k = (
     if before_deadline (clock k) deadline
     then (if found k then Some (Inr ''registry_advertised'') else poll_incoming clock found client_name deadline (Suc k))
     else Some (Inl (client_timeout client_name)))"

definition wait_for_incoming_client :: "(nat \<Rightarrow> rat) \<Rightarrow> (nat \<Rightarrow> bool) \<Rightarrow> string \<Rightarrow> rat \<Rightarrow> string py option" where
  "wait_for_incoming_client clock found client_name timeout_s =
     poll_incoming clock found client_name (deadline_of clock timeout_s) 1"

text \<open>This loop looks at the client first, so a client that is available is never too late.\<close>

partial_function (option) poll_available ::
    "(nat \<Rightarrow> rat) \<Rightarrow> (nat \<Rightarrow> bool) \<Rightarrow> string \<Rightarrow> rat option \<Rightarrow> nat \<Rightarrow> unit py option" where
  "poll_available clock available client_name deadline k = (
     if available k then Some (Inr ())
     else if before_deadline (clock k) deadline then poll_available clock available client_name deadline (Suc k)
     else Some (Inl (TimeoutError (''Timed out waiting for client '' @ repr_str client_name @ '' to report available''))))"

definition wait_for_client_available :: "(nat \<Rightarrow> rat) \<Rightarrow> (nat \<Rightarrow> bool) \<Rightarrow> string \<Rightarrow> rat \<Rightarrow> unit py option" where
  "wait_for_client_available clock available client_name timeout_s =
     poll_available clock available client_name (deadline_of clock timeout_s) 1"

section \<open>Facts\<close>

text \<open>
  A loop that takes turns: a turn ends it or changes the state it keeps. It returns when some turn
  ends it whatever the state, and what it returns is what the first such turn gives.
\<close>

locale polling =
  fixes turn :: "nat \<Rightarrow> 's \<Rightarrow> 'r + 's" and loop :: "nat \<Rightarrow> 's \<Rightarrow> 'r option"
  assumes loop_turn: "loop k s = (case turn k s of Inl r \<Rightarrow> Some r | Inr s' \<Rightarrow> loop (Suc k) s')"
begin

lemma returns_from: "\<forall>s. \<exists>r. turn n s = Inl r \<Longrightarrow> k \<le> n \<Longrightarrow> \<exists>r. loop k s = Some r"
proof (induction "n - k" arbitrary: k s)
  case 0
  then obtain r where "turn k s = Inl r" by force
  then show ?case using loop_turn [of k s] by simp
next
  case (Suc i)
  then have "Suc k \<le> n" by linarith
  then have "\<And>s'. \<exists>r. loop (Suc k) s' = Some r" using Suc by (metis Suc_diff_Suc Suc_le_lessD nat.inject)
  then show ?case using loop_turn [of k s] by (auto split: sum.splits)
qed

text \<open>An invariant of the state gives what holds of the result.\<close>

lemma returned_inv:
  assumes step: "\<And>k s s'. k0 \<le> k \<Longrightarrow> good s \<Longrightarrow> turn k s = Inr s' \<Longrightarrow> good s'"
    and final: "\<And>k s r. k0 \<le> k \<Longrightarrow> good s \<Longrightarrow> turn k s = Inl r \<Longrightarrow> post r"
    and stop: "\<forall>s. \<exists>r. turn n s = Inl r" and "k0 \<le> k" and "k \<le> n" and "good s" and "loop k s = Some r"
  shows "post r"
  using assms(4-7)
proof (induction "n - k" arbitrary: k s)
  case 0
  then have "k = n" by simp
  then obtain r' where "turn k s = Inl r'" using stop by blast
  then show ?case using final 0 loop_turn [of k s] by auto
next
  case (Suc i)
  show ?case
  proof (cases "turn k s")
    case (Inl r')
    then show ?thesis using final Suc loop_turn [of k s] by auto
  next
    case (Inr s')
    have "i = n - Suc k" "Suc k \<le> n" "k0 \<le> Suc k" using Suc.hyps(2) Suc.prems(1) by linarith+
    then show ?thesis
      using Suc.hyps(1) [of "Suc k" s'] step [OF Suc.prems(1,3) Inr] Inr Suc.prems(4) loop_turn [of k s] by simp
  qed
qed

lemma loop_stays:
  fixes k n :: nat
  shows "\<forall>j. k \<le> j \<longrightarrow> j < n \<longrightarrow> turn j s = Inr s \<Longrightarrow> k \<le> n \<Longrightarrow> loop k s = loop n s"
proof (induction "n - k" arbitrary: k)
  case (Suc i)
  then have "turn k s = Inr s" "Suc k \<le> n" "i = n - Suc k" by auto
  then show ?case using Suc.hyps(1) [of "Suc k"] Suc.prems(1) loop_turn [of k s] by simp
qed simp

end

text \<open>
  A clock that never goes back and advances by some least step in any two turns: every turn sleeps,
  but for the one that dials.
\<close>

definition advancing :: "rat \<Rightarrow> (nat \<Rightarrow> rat) \<Rightarrow> bool" where
  "advancing step clock \<longleftrightarrow> 0 < step \<and> mono clock \<and> (\<forall>k. clock k + step \<le> clock (Suc (Suc k)))"

lemma advancing_le: "advancing step clock \<Longrightarrow> clock 0 + of_nat k * step \<le> clock (2 * k)"
proof (induction k)
  case (Suc k)
  then have "clock (2 * k) + step \<le> clock (Suc (Suc (2 * k)))" unfolding advancing_def by blast
  with Suc show ?case by (simp add: algebra_simps)
qed simp

definition last_turn :: "(nat \<Rightarrow> rat) \<Rightarrow> rat \<Rightarrow> rat \<Rightarrow> nat" where
  "last_turn clock step d = 2 * Suc (nat \<lceil>(d - clock 0) / step\<rceil>)"

lemma deadline_read:
  assumes "advancing step clock" and "last_turn clock step d \<le> k"
  shows "\<not> before_deadline (clock k) (Some d)"
proof -
  let ?n = "Suc (nat \<lceil>(d - clock 0) / step\<rceil>)"
  have pos: "0 < step" using assms(1) by (simp add: advancing_def)
  have "(d - clock 0) / step \<le> of_nat ?n" by linarith
  then have "d - clock 0 \<le> of_nat ?n * step" using pos by (simp only: pos_divide_le_eq)
  then have "d \<le> clock (2 * ?n)" using advancing_le [OF assms(1), of ?n] by linarith
  also have "\<dots> \<le> clock k"
    using assms by (intro monoD [of clock]) (simp_all add: advancing_def last_turn_def)
  finally show ?thesis by (simp add: before_deadline_def)
qed

text \<open>
  A loop without a state that ends well in a turn before the deadline in which what it looks for is
  there, and with the timeout at the deadline.
\<close>

locale plain_wait = polling turn loop
  for turn :: "nat \<Rightarrow> unit \<Rightarrow> 'r + unit" and loop :: "nat \<Rightarrow> unit \<Rightarrow> 'r option" +
  fixes clock :: "nat \<Rightarrow> rat" and deadline :: "rat option" and there :: "nat \<Rightarrow> bool" and ok late :: 'r
  assumes turn_eq: "turn k s = (if before_deadline (clock k) deadline then if there k then Inl ok else Inr () else Inl late)"
begin

lemma wait_exact:
  assumes "advancing step clock" and d: "deadline = Some d"
  shows "loop k0 () = Some (if \<exists>k\<ge>k0. there k \<and> clock k < d then ok else late)"
proof -
  let ?ends = "\<lambda>k. k0 \<le> k \<and> (there k \<or> d \<le> clock k)"
  have bd: "before_deadline (clock k) deadline \<longleftrightarrow> clock k < d" for k by (simp add: before_deadline_def d)
  have "\<not> before_deadline (clock (max k0 (last_turn clock step d))) (Some d)"
    by (rule deadline_read [OF assms(1)]) simp
  then have "?ends (max k0 (last_turn clock step d))" by (simp add: before_deadline_def)
  then obtain n where n: "?ends n" and least: "\<And>j. j < n \<Longrightarrow> \<not> ?ends j"
    using exists_least_iff [of ?ends] by blast
  have "turn j () = Inr ()" if "k0 \<le> j" "j < n" for j
    using least [OF that(2)] that(1) by (simp add: turn_eq bd)
  then have stays: "loop k0 () = loop n ()" using n by (intro loop_stays) auto
  show ?thesis
  proof (cases "clock n < d")
    case True
    then have "there n" using n by auto
    then show ?thesis using True n loop_turn [of n "()"] stays by (auto simp: turn_eq bd)
  next
    case False
    have "\<not> (there k \<and> clock k < d)" if k: "k0 \<le> k" for k
    proof (cases "k < n")
      case True
      then show ?thesis using least [OF True] k by auto
    next
      case False
      then have "clock n \<le> clock k" using assms(1) by (simp add: advancing_def mono_def)
      then show ?thesis using \<open>\<not> clock n < d\<close> by auto
    qed
    then show ?thesis using False loop_turn [of n "()"] stays by (auto simp: turn_eq bd)
  qed
qed

end

text \<open>The loops, turn by turn.\<close>

definition file_turn :: "(nat \<Rightarrow> rat) \<Rightarrow> (nat \<Rightarrow> bool) \<Rightarrow> string \<Rightarrow> rat option \<Rightarrow> nat \<Rightarrow> unit \<Rightarrow> unit py + unit" where
  "file_turn clock exists path deadline k s = (
     if before_deadline (clock k) deadline then if exists k then Inl (Inr ()) else Inr ()
     else Inl (Inl (TimeoutError (''Timed out waiting for file: '' @ path))))"

interpretation file_wait: plain_wait "file_turn clock exists path deadline" "\<lambda>k s. poll_file clock exists path deadline k"
    clock deadline exists "Inr ()" "Inl (TimeoutError (''Timed out waiting for file: '' @ path))"
  for clock exists path deadline
  by unfold_locales (subst poll_file.simps, simp_all add: file_turn_def)

definition incoming_turn :: "(nat \<Rightarrow> rat) \<Rightarrow> (nat \<Rightarrow> bool) \<Rightarrow> string \<Rightarrow> rat option \<Rightarrow> nat \<Rightarrow> unit \<Rightarrow> string py + unit" where
  "incoming_turn clock found client_name deadline k s = (
     if before_deadline (clock k) deadline then if found k then Inl (Inr ''registry_advertised'') else Inr ()
     else Inl (Inl (client_timeout client_name)))"

interpretation incoming_wait: plain_wait "incoming_turn clock found client_name deadline"
    "\<lambda>k s. poll_incoming clock found client_name deadline k"
    clock deadline found "Inr ''registry_advertised''" "Inl (client_timeout client_name)"
  for clock found client_name deadline
  by unfold_locales (subst poll_incoming.simps, simp_all add: incoming_turn_def)

definition available_turn :: "(nat \<Rightarrow> rat) \<Rightarrow> (nat \<Rightarrow> bool) \<Rightarrow> string \<Rightarrow> rat option \<Rightarrow> nat \<Rightarrow> unit \<Rightarrow> unit py + unit" where
  "available_turn clock available client_name deadline k s = (
     if available k then Inl (Inr ())
     else if before_deadline (clock k) deadline then Inr ()
     else Inl (Inl (TimeoutError (''Timed out waiting for client '' @ repr_str client_name @ '' to report available''))))"

interpretation available_wait: polling "available_turn clock available client_name deadline"
  "\<lambda>k s. poll_available clock available client_name deadline k" for clock available client_name deadline
  by unfold_locales (subst poll_available.simps, simp add: available_turn_def)

definition target_turn ::
    "(nat \<Rightarrow> rat) \<Rightarrow> (nat \<Rightarrow> bool) \<Rightarrow> (nat \<Rightarrow> json_file) \<Rightarrow> (string \<Rightarrow> unit py) \<Rightarrow> string \<Rightarrow> rat option
     \<Rightarrow> nat \<Rightarrow> string list \<Rightarrow> (string py \<times> string list) + string list" where
  "target_turn clock found registry connect client_name deadline k dialled = (
     if before_deadline (clock k) deadline
     then (if found k then Inl (Inr (if dialled \<noteq> [] then ''registry_fallback'' else ''mdns''), dialled)
       else if dialled \<noteq> [] then Inr dialled
       else (case lookup_endpoint (registry k) client_name of
           Inl e \<Rightarrow> Inl (Inl e, dialled)
         | Inr None \<Rightarrow> Inr dialled
         | Inr (Some u) \<Rightarrow> (case connect u of
             Inl e \<Rightarrow> Inl (Inl e, dialled @ [u])
           | Inr ok \<Rightarrow> Inr (dialled @ [u]))))
     else Inl (Inl (client_timeout client_name), dialled))"

interpretation target_wait: polling "target_turn clock found registry connect client_name deadline"
  "poll_target clock found registry connect client_name deadline" for clock found registry connect client_name deadline
  by unfold_locales
    (subst poll_target.simps, simp add: target_turn_def split: sum.splits option.splits)

text \<open>What the wait for the target client returns, and which addresses it dialled.\<close>

definition target_result :: "(nat \<Rightarrow> json_file) \<Rightarrow> string \<Rightarrow> string py \<times> string list \<Rightarrow> bool" where
  "target_result registry client_name out \<longleftrightarrow> (case out of (result, dialled) \<Rightarrow>
     length dialled \<le> 1
     \<and> (\<forall>u \<in> set dialled. \<exists>k. lookup_endpoint (registry k) client_name = Inr (Some u))
     \<and> (\<forall>how. result = Inr how \<longrightarrow> how = (if dialled = [] then ''mdns'' else ''registry_fallback'')))"

lemma target_wait_result:
  assumes "advancing step clock" and "deadline = Some d"
  shows "\<exists>out. poll_target clock found registry connect client_name deadline k [] = Some out
    \<and> target_result registry client_name out"
proof -
  let ?turn = "target_turn clock found registry connect client_name deadline"
  let ?n = "max k (last_turn clock step d)"
  let ?good = "\<lambda>dialled. length dialled \<le> 1
     \<and> (\<forall>u \<in> set dialled. \<exists>k. lookup_endpoint (registry k) client_name = Inr (Some u))"
  have "\<not> before_deadline (clock ?n) deadline" unfolding assms(2) by (rule deadline_read [OF assms(1)]) simp
  then have stop: "\<forall>s. \<exists>r. ?turn ?n s = Inl r" by (simp add: target_turn_def)
  have step: "?good s'" if "?good s" "?turn j s = Inr s'" for j s s'
    using that by (auto simp: target_turn_def split: if_splits sum.splits option.splits)
  have final: "target_result registry client_name r" if "?good s" "?turn j s = Inl r" for j s r
    using that by (auto simp: target_turn_def target_result_def split: if_splits sum.splits option.splits)
  obtain out where out: "poll_target clock found registry connect client_name deadline k [] = Some out"
    using target_wait.returns_from [OF stop, of k "[]"] by auto
  moreover have "target_result registry client_name out"
    by (rule target_wait.returned_inv [where good = ?good, OF _ _ stop _ _ _ out])
      (erule (1) step, erule (1) final, rule order_refl, simp_all)
  ultimately show ?thesis by blast
qed

section \<open>The registry\<close>

lemma map_of_sort_key:
  fixes d :: "(string \<times> 'a) list"
  shows "map_of (sort_key fst d) k = map_of d k"
proof -
  have "map_of xs k = map_of (filter (\<lambda>kv. fst kv = k) xs) k" for xs :: "(string \<times> 'a) list"
    by (induction xs) auto
  then show ?thesis by (metis sort_key_stable)
qed

lemma map_of_sorted_pairs: "map_of (sorted_pairs d) k = map_option sorted_json (map_of d k)"
  by (induction d) auto

lemma dict_get_written: "dict_get k (sort_key fst (sorted_pairs d)) = sorted_json (dict_get k d)"
  by (simp add: dict_get_def map_of_sort_key map_of_sorted_pairs split: option.splits)

lemma dict_get_put: "dict_get j (dict_put k v d) = (if j = k then v else dict_get j d)"
  by (induction k v d rule: dict_put.induct) auto

lemma str_of_sorted: "str_of (sorted_json v) = str_of v"
  by (cases v) auto

lemma lookup_written:
  "lookup_endpoint (write_json (VDict d)) name = (case dict_get name d of
     VDict e \<Rightarrow> Inr (str_of (dict_get ''url'' e)) | _ \<Rightarrow> Inr None)"
  by (cases "dict_get name d") (simp_all add: lookup_endpoint_def write_json_def dict_get_written str_of_sorted)

lemma lookup_json:
  "lookup_endpoint (Json (VDict d)) name = (case dict_get name d of
     VDict e \<Rightarrow> Inr (str_of (dict_get ''url'' e)) | _ \<Rightarrow> Inr None)"
  by (simp add: lookup_endpoint_def)

lemma registered_lookup:
  assumes "register_endpoint other registry name url = Inr registry'"
  shows "lookup_endpoint registry' name = Inr (Some url)"
  using assms by (auto simp: register_endpoint_def py_simps lookup_written dict_get_put)

lemma registered_keeps:
  assumes "register_endpoint other registry name url = Inr registry'" and "j \<noteq> name"
    and "\<And>v. registry = Json v \<Longrightarrow> is_dict v"
  shows "lookup_endpoint registry' j = lookup_endpoint registry j"
proof (cases registry)
  case (Json v)
  then obtain d where "v = VDict d" using assms(3) [of v] by (auto simp: is_dict_iff)
  with Json have "registry' = write_json (VDict (dict_put name (VDict [(''url'', VStr url)]) d))"
    using assms(1) by (simp add: register_endpoint_def)
  then show ?thesis
    using assms(2) Json \<open>v = VDict d\<close> by (simp add: lookup_written dict_get_put lookup_json)
next
  case Absent
  then have "registry' = write_json (VDict [(name, VDict [(''url'', VStr url)])])"
    using assms(1) by (simp add: register_endpoint_def)
  then show ?thesis using assms(2) Absent by (simp add: lookup_written) (simp add: lookup_endpoint_def)
qed (use assms(1) in \<open>simp add: register_endpoint_def\<close>)

end
