(* ===== verification/Merging.thy ===== *)
theory Merging
  imports Matrix Waiting
begin

text \<open>
  \<open>merge.py\<close>: the results of several hosts merged into one. An input directory is what the code
  reads of it: its three JSON files and the names of its build logs, in the order the directory gives
  them. The output directory starts empty. Copying the directory of a case is left out; the file
  operations are taken to succeed, and the JSON files to be there from the moment they were found.

  A merged repository is changed after it was added, through the index: \<open>ms_index\<close> holds its
  position in \<open>ms_repositories\<close>.
\<close>

section \<open>The state of a merge\<close>

record merge_input =
  mi_index :: json_file
  mi_build_report :: json_file
  mi_repositories :: json_file
  mi_logs :: "string list"

record merge_state =
  ms_results :: "pydict list"
  ms_builds :: "pyval list"
  ms_repositories :: "pydict list"
  ms_index :: "((string \<times> string) \<times> nat) list"
  ms_seen :: "string list"
  ms_logs :: "string list"

definition new_merge :: merge_state where
  "new_merge = \<lparr>ms_results = [], ms_builds = [], ms_repositories = [], ms_index = [], ms_seen = [], ms_logs = []\<rparr>"

text \<open>A loop whose body can raise.\<close>

fun fold_py :: "('a \<Rightarrow> 's \<Rightarrow> 's py) \<Rightarrow> 'a list \<Rightarrow> 's \<Rightarrow> 's py" where
  "fold_py f [] s = Inr s"
| "fold_py f (x # xs) s = py_bind (f x s) (fold_py f xs)"

section \<open>Results\<close>

definition merged_name :: "pydict \<Rightarrow> string" where
  "merged_name result = path_name (str_or [] (dict_get ''case_dir'' result))"

definition merge_result :: "string \<Rightarrow> pyval \<Rightarrow> merge_state \<Rightarrow> merge_state py" where
  "merge_result data_dir v s = (case v of
     VDict result \<Rightarrow>
       let name = merged_name result
       in if name = [] then Inr s
          else if name \<in> set (ms_seen s)
          then Inl (PyExc ''ValueError'' (''Duplicate case directory while merging: '' @ name))
          else Inr (s\<lparr>ms_seen := ms_seen s @ [name],
            ms_results := ms_results s @ [dict_put ''case_dir'' (VStr (join_path data_dir name)) result]\<rparr>)
   | _ \<Rightarrow> Inr s)"

section \<open>Builds and logs\<close>

text \<open>The list under a key of a report that is there, and \<open>None\<close> if it holds no list.\<close>

definition report_list :: "string \<Rightarrow> json_file \<Rightarrow> pyval list option py" where
  "report_list key report = (case report of
     Absent \<Rightarrow> Inr None
   | Unreadable e \<Rightarrow> Inl e
   | Json payload \<Rightarrow> py_bind (attr_get key payload) (\<lambda>v. case v of VList xs \<Rightarrow> Inr (Some xs) | _ \<Rightarrow> Inr None))"

definition listed :: "pyval list option \<Rightarrow> pyval list" where
  "listed xs = (case xs of None \<Rightarrow> [] | Some ys \<Rightarrow> ys)"

definition merge_log :: "string \<Rightarrow> merge_state \<Rightarrow> merge_state py" where
  "merge_log name s = (
     if name \<in> set (ms_logs s)
     then Inl (PyExc ''ValueError'' (''Duplicate build log while merging: '' @ name))
     else Inr (s\<lparr>ms_logs := ms_logs s @ [name]\<rparr>))"

section \<open>Repositories\<close>

definition first_truthy :: "pyval list \<Rightarrow> string \<Rightarrow> string" where
  "first_truthy vs fallback = (case find truthy vs of Some v \<Rightarrow> py_str v | None \<Rightarrow> fallback)"

definition repository_identity :: "pydict \<Rightarrow> string \<times> string" where
  "repository_identity repository = (str_or [] (dict_get ''key'' repository),
     first_truthy [dict_get ''commit_sha'' repository, dict_get ''reason'' repository, dict_get ''repo_path'' repository]
       ''unknown'')"

text \<open>\<open>environment not in existing_envs\<close>, for an object: only a list has one as a member.\<close>

definition add_environment :: "pyval \<Rightarrow> pyval \<Rightarrow> pyval py" where
  "add_environment environment existing_envs = (
     if \<not> is_dict environment then Inr existing_envs
     else (case existing_envs of
       VList xs \<Rightarrow> Inr (VList (if in_list environment xs then xs else xs @ [environment]))
     | VStr s \<Rightarrow> Inl (PyExc ''TypeError'' (sq @ ''in <string>'' @ sq @ '' requires string as left operand, not dict''))
     | VDict d \<Rightarrow> Inl (unhashable_error ''dict'')
     | v \<Rightarrow> Inl (PyExc ''TypeError'' (''argument of type '' @ sq @ type_name v @ sq @ '' is not iterable''))))"

definition merge_environments :: "pydict \<Rightarrow> pyval \<Rightarrow> pydict py" where
  "merge_environments existing incoming_envs = (
     let existing = (if has_key ''environments'' existing then existing
           else existing @ [(''environments'', VList [])])
     in case incoming_envs of
       VList xs \<Rightarrow> py_bind (fold_py add_environment xs (dict_get ''environments'' existing)) (\<lambda>envs.
         Inr (dict_put ''environments'' envs existing))
     | _ \<Rightarrow> Inr existing)"

definition merge_repository :: "pyval \<Rightarrow> merge_state \<Rightarrow> merge_state py" where
  "merge_repository v s = (case v of
     VDict repository \<Rightarrow>
       let index_key = repository_identity repository
       in (case map_of (ms_index s) index_key of
         Some i \<Rightarrow> py_bind (merge_environments (ms_repositories s ! i) (dict_get ''environments'' repository))
           (\<lambda>existing. Inr (s\<lparr>ms_repositories := (ms_repositories s)[i := existing]\<rparr>))
       | None \<Rightarrow> Inr (s\<lparr>ms_index := ms_index s @ [(index_key, length (ms_repositories s))],
           ms_repositories := ms_repositories s @ [repository]\<rparr>))
   | _ \<Rightarrow> Inr s)"

section \<open>The merge\<close>

text \<open>An input whose index holds no list of results is skipped as a whole.\<close>

definition merge_input_dir :: "string \<Rightarrow> merge_input \<Rightarrow> merge_state \<Rightarrow> merge_state py" where
  "merge_input_dir data_dir input s = py_bind (report_list ''results'' (mi_index input)) (\<lambda>source.
     case source of
       None \<Rightarrow> Inr s
     | Some results \<Rightarrow>
         py_bind (fold_py (merge_result data_dir) results s) (\<lambda>s1.
         py_bind (report_list ''results'' (mi_build_report input)) (\<lambda>builds.
         py_bind (report_list ''repositories'' (mi_repositories input)) (\<lambda>repositories.
         py_bind (fold_py merge_repository (listed repositories)
           (s1\<lparr>ms_builds := ms_builds s1 @ filter is_dict (listed builds)\<rparr>)) (\<lambda>s2.
         fold_py merge_log (mi_logs input) s2)))))"

record merged =
  me_index :: json_file
  me_build_report :: json_file
  me_repositories :: json_file
  me_summary :: pydict

definition written_list :: "string \<Rightarrow> pyval list \<Rightarrow> json_file" where
  "written_list key xs = write_json (VDict [(key, VList xs)])"

definition merge_output :: "string \<Rightarrow> nat \<Rightarrow> merge_state \<Rightarrow> merged" where
  "merge_output output_dir input_count s =
     \<lparr>me_index = written_list ''results'' (map VDict (ms_results s)),
      me_build_report = (if ms_builds s = [] then Absent else written_list ''results'' (ms_builds s)),
      me_repositories = (if ms_repositories s = [] then Absent
        else written_list ''repositories'' (map VDict (ms_repositories s))),
      me_summary = [(''input_count'', VInt (int input_count)),
        (''result_count'', VInt (int (length (ms_results s)))),
        (''build_count'', VInt (int (length (ms_builds s)))), (''output_dir'', VStr output_dir)]\<rparr>"

text \<open>\<open>valid_inputs\<close> are the inputs an \<open>index.json\<close> was found for; \<open>output_dir\<close> is the output's path.\<close>

definition valid_inputs :: "merge_input list \<Rightarrow> merge_input list" where
  "valid_inputs input_dirs = filter (\<lambda>i. mi_index i \<noteq> Absent) input_dirs"

definition merge_results_dirs :: "string \<Rightarrow> merge_input list \<Rightarrow> merged py" where
  "merge_results_dirs output_dir input_dirs = (
     if valid_inputs input_dirs = []
     then Inl (PyExc ''FileNotFoundError'' ''No result directories with data/index.json were found to merge.'')
     else py_bind (fold_py (merge_input_dir (join_path output_dir ''data'')) (valid_inputs input_dirs) new_merge)
       (\<lambda>s. Inr (merge_output output_dir (length (valid_inputs input_dirs)) s)))"

end
