(* ===== verification/Merging_Facts.thy ===== *)
theory Merging_Facts
  imports Merging
begin

text \<open>
  What a merge that succeeds has done: the cases of all inputs in order, each once, and one entry
  per repository identity that holds every environment an input names for it.
\<close>

section \<open>Loops that can raise\<close>

lemma fold_py_inv:
  assumes "\<And>x s s'. x \<in> set xs \<Longrightarrow> good s \<Longrightarrow> f x s = Inr s' \<Longrightarrow> good s'"
  shows "good s \<Longrightarrow> fold_py f xs s = Inr s' \<Longrightarrow> good s'"
  using assms by (induction xs arbitrary: s) (auto simp: py_simps)

text \<open>An effect of the step that later steps keep, for every element of the list.\<close>

lemma fold_py_each:
  assumes step: "\<And>x s s'. x \<in> set xs \<Longrightarrow> good s \<Longrightarrow> f x s = Inr s' \<Longrightarrow> good s' \<and> effect x s' \<and> (\<forall>y. effect y s \<longrightarrow> effect y s')"
  shows "good s \<Longrightarrow> fold_py f xs s = Inr s' \<Longrightarrow> good s' \<and> (\<forall>x \<in> set xs. effect x s') \<and> (\<forall>y. effect y s \<longrightarrow> effect y s')"
  using step
proof (induction xs arbitrary: s)
  case (Cons x xs)
  then obtain t where t: "f x s = Inr t" "fold_py f xs t = Inr s'" by (auto simp: py_simps)
  then have first: "good t \<and> effect x t \<and> (\<forall>y. effect y s \<longrightarrow> effect y t)"
    using Cons.prems(1) Cons.prems(3) [of x s t] by simp
  have "good s' \<and> (\<forall>x \<in> set xs. effect x s') \<and> (\<forall>y. effect y t \<longrightarrow> effect y s')"
    using t(2) first by (intro Cons.IH) (use Cons.prems(3) in auto)
  with first show ?case by auto
qed simp

section \<open>Cases\<close>

definition mergeable :: "pyval list \<Rightarrow> pydict list" where
  "mergeable vs = filter (\<lambda>d. merged_name d \<noteq> []) (List.map_filter dict_of vs)"

definition retargeted :: "string \<Rightarrow> pydict \<Rightarrow> pydict" where
  "retargeted data_dir d = dict_put ''case_dir'' (VStr (join_path data_dir (merged_name d))) d"

definition with_cases :: "string \<Rightarrow> pydict list \<Rightarrow> merge_state \<Rightarrow> merge_state" where
  "with_cases data_dir ds s = s\<lparr>ms_seen := ms_seen s @ map merged_name ds,
     ms_results := ms_results s @ map (retargeted data_dir) ds\<rparr>"

lemma with_cases_simps [simp]:
  "with_cases d [] s = s"
  "with_cases d bs (with_cases d as s) = with_cases d (as @ bs) s"
  "ms_seen (with_cases d as s) = ms_seen s @ map merged_name as"
  "ms_results (with_cases d as s) = ms_results s @ map (retargeted d) as"
  "ms_repositories (with_cases d as s) = ms_repositories s"
  "ms_index (with_cases d as s) = ms_index s"
  by (simp_all add: with_cases_def)

lemma mergeable_Cons:
  "mergeable (v # vs) = (case v of VDict d \<Rightarrow> if merged_name d = [] then mergeable vs else d # mergeable vs
     | _ \<Rightarrow> mergeable vs)"
  by (auto simp: mergeable_def map_filter_simps split: pyval.splits)

lemma merge_results_iff:
  "distinct (ms_seen s) \<Longrightarrow> fold_py (merge_result data_dir) vs s = Inr s' \<longleftrightarrow>
     distinct (ms_seen s @ map merged_name (mergeable vs)) \<and> s' = with_cases data_dir (mergeable vs) s"
proof (induction vs arbitrary: s)
  case Nil
  then show ?case by (auto simp: mergeable_def map_filter_simps)
next
  case (Cons v vs)
  show ?case
  proof (cases "\<exists>d. v = VDict d \<and> merged_name d \<noteq> []")
    case True
    then obtain d where d: "v = VDict d" "merged_name d \<noteq> []" by blast
    show ?thesis
    proof (cases "merged_name d \<in> set (ms_seen s)")
      case True
      then show ?thesis using d by (simp add: merge_result_def mergeable_Cons)
    next
      case False
      have "merge_result data_dir v s = Inr (with_cases data_dir [d] s)"
        using d False by (simp add: merge_result_def with_cases_def retargeted_def Let_def)
      then show ?thesis
        using d False Cons.prems Cons.IH [of "with_cases data_dir [d] s"] by (simp add: mergeable_Cons)
    qed
  next
    case False
    then have "merge_result data_dir v s = Inr s" "mergeable (v # vs) = mergeable vs"
      by (auto simp: merge_result_def mergeable_Cons split: pyval.splits)
    then show ?thesis using Cons by simp
  qed
qed

text \<open>The results one input contributes.\<close>

definition input_cases :: "merge_input \<Rightarrow> pydict list" where
  "input_cases i = (case report_list ''results'' (mi_index i) of Inr (Some vs) \<Rightarrow> mergeable vs | _ \<Rightarrow> [])"

definition input_repositories :: "merge_input \<Rightarrow> pyval list" where
  "input_repositories i = (case report_list ''results'' (mi_index i) of
     Inr (Some vs) \<Rightarrow> (case report_list ''repositories'' (mi_repositories i) of Inr rs \<Rightarrow> listed rs | _ \<Rightarrow> [])
   | _ \<Rightarrow> [])"

definition same_cases :: "merge_state \<Rightarrow> merge_state \<Rightarrow> bool" where
  "same_cases s t \<longleftrightarrow> ms_seen s = ms_seen t \<and> ms_results s = ms_results t"

lemma same_cases_refl [simp]: "same_cases s s"
  by (simp add: same_cases_def)

lemma merge_repository_cases: "merge_repository v s = Inr s' \<Longrightarrow> same_cases s s'"
  by (auto simp: merge_repository_def same_cases_def Let_def py_simps split: pyval.splits option.splits)

lemma merge_log_keeps:
  "merge_log n s = Inr s' \<Longrightarrow> same_cases s s' \<and> ms_repositories s' = ms_repositories s \<and> ms_index s' = ms_index s"
  by (auto simp: merge_log_def same_cases_def split: if_splits)

lemma same_cases_fold:
  assumes "\<And>x s s'. f x s = Inr s' \<Longrightarrow> same_cases s s'"
  shows "fold_py f xs s = Inr s' \<Longrightarrow> same_cases s s'"
  by (rule fold_py_inv [where good = "same_cases s" and s = s and f = f and xs = xs])
    (use assms in \<open>auto simp: same_cases_def\<close>)

text \<open>The parts of an input's merge: nothing, or its results, repositories and logs.\<close>

lemma merge_input_parts:
  assumes "merge_input_dir data_dir i s = Inr s'"
  obtains (skipped) "s' = s" "input_cases i = []" "input_repositories i = []"
  | (taken) vs builds s1 s2 where "fold_py (merge_result data_dir) vs s = Inr s1" "input_cases i = mergeable vs"
      "fold_py merge_repository (input_repositories i) (s1\<lparr>ms_builds := builds\<rparr>) = Inr s2"
      "fold_py merge_log (mi_logs i) s2 = Inr s'"
proof -
  from assms obtain source where src: "report_list ''results'' (mi_index i) = Inr source"
    by (auto simp: merge_input_dir_def py_simps)
  show thesis
  proof (cases source)
    case None
    then show ?thesis using assms src by (intro skipped) (simp_all add: merge_input_dir_def input_cases_def input_repositories_def)
  next
    case (Some vs)
    then obtain s1 builds repositories s2 where parts: "fold_py (merge_result data_dir) vs s = Inr s1"
      "report_list ''repositories'' (mi_repositories i) = Inr repositories"
      "fold_py merge_repository (listed repositories) (s1\<lparr>ms_builds := ms_builds s1 @ filter is_dict (listed builds)\<rparr>) = Inr s2"
      "fold_py merge_log (mi_logs i) s2 = Inr s'"
      using assms src by (auto simp: merge_input_dir_def py_simps)
    then show ?thesis
      using src Some by (intro taken [of vs s1 _ s2]) (simp_all add: input_cases_def input_repositories_def)
  qed
qed

lemma merge_input_cases:
  assumes "merge_input_dir data_dir i s = Inr s'" and "distinct (ms_seen s)"
  shows "distinct (ms_seen s') \<and> same_cases (with_cases data_dir (input_cases i) s) s'"
  using assms(1)
proof (cases rule: merge_input_parts)
  case skipped
  then show ?thesis using assms(2) by simp
next
  case (taken vs builds s1 s2)
  have s1: "distinct (ms_seen s @ map merged_name (mergeable vs))" "s1 = with_cases data_dir (mergeable vs) s"
    using taken(1) unfolding merge_results_iff [OF assms(2)] by blast+
  have "same_cases (s1\<lparr>ms_builds := builds\<rparr>) s2"
    using taken(3) by (rule same_cases_fold [rotated]) (rule merge_repository_cases)
  moreover have "same_cases s2 s'"
    using taken(4) by (rule same_cases_fold [rotated]) (simp add: merge_log_keeps)
  ultimately have "same_cases s1 s'" by (simp add: same_cases_def)
  then show ?thesis using s1 taken(2) by (simp add: same_cases_def)
qed

lemma same_cases_more:
  "same_cases (with_cases d as s) t \<Longrightarrow> same_cases (with_cases d bs t) u \<Longrightarrow> same_cases (with_cases d (as @ bs) s) u"
  by (simp add: same_cases_def) (metis append.assoc)

lemma merge_inputs_cases:
  "fold_py (merge_input_dir data_dir) inputs s = Inr s' \<Longrightarrow> distinct (ms_seen s) \<Longrightarrow>
   distinct (ms_seen s') \<and> same_cases (with_cases data_dir (concat (map input_cases inputs)) s) s'"
proof (induction inputs arbitrary: s)
  case (Cons i inputs)
  then obtain t where t: "merge_input_dir data_dir i s = Inr t" "fold_py (merge_input_dir data_dir) inputs t = Inr s'"
    by (auto simp: py_simps)
  then show ?case
    using merge_input_cases [OF t(1) Cons.prems(2)] Cons.IH [OF t(2)]
      same_cases_more [of data_dir "input_cases i" s t "concat (map input_cases inputs)" s'] by simp
qed simp

section \<open>Repositories\<close>

definition holds_environment :: "pyval \<Rightarrow> pydict \<Rightarrow> bool" where
  "holds_environment e r \<longleftrightarrow> (\<exists>xs. dict_get ''environments'' r = VList xs \<and> (e \<in> set xs \<or> in_list e xs))"

text \<open>The index is the identities of the merged repositories, in order, without repetition.\<close>

definition indexed :: "merge_state \<Rightarrow> bool" where
  "indexed s \<longleftrightarrow> distinct (map repository_identity (ms_repositories s))
     \<and> ms_index s = zip (map repository_identity (ms_repositories s)) [0..<length (ms_repositories s)]"

definition taken_in :: "pyval \<Rightarrow> merge_state \<Rightarrow> bool" where
  "taken_in v s \<longleftrightarrow> (\<forall>r. v = VDict r \<longrightarrow> (\<exists>m \<in> set (ms_repositories s). repository_identity m = repository_identity r
     \<and> (\<forall>xs e. dict_get ''environments'' r = VList xs \<longrightarrow> e \<in> set xs \<longrightarrow> is_dict e \<longrightarrow> holds_environment e m)))"

lemma map_of_zip_index:
  "distinct ks \<Longrightarrow> map_of (zip ks [0..<length ks]) k = Some i \<longleftrightarrow> i < length ks \<and> ks ! i = k"
proof -
  assume d: "distinct ks"
  have "map_of (zip ks [0..<length ks]) k = Some i \<longleftrightarrow> (k, i) \<in> set (zip ks [0..<length ks])"
    by (rule map_of_eq_Some_iff) (simp add: d)
  also have "\<dots> \<longleftrightarrow> i < length ks \<and> ks ! i = k" by (auto simp: set_zip)
  finally show ?thesis .
qed

lemma map_of_zip_None: "length ks = length vs \<Longrightarrow> map_of (zip ks vs) k = None \<longleftrightarrow> k \<notin> set ks"
  unfolding map_of_eq_None_iff set_map [symmetric] by simp

lemma add_environment_result:
  assumes "add_environment e xs = Inr ys"
  shows "(is_dict e \<longrightarrow> (\<exists>zs. ys = VList zs \<and> (e \<in> set zs \<or> in_list e zs)))
     \<and> (\<forall>zs. xs = VList zs \<longrightarrow> (\<exists>more. ys = VList (zs @ more)))"
  using assms by (auto simp: add_environment_def in_list_def list_ex_iff split: if_splits pyval.splits)

lemma add_environments_result:
  assumes "fold_py add_environment es xs = Inr ys"
  shows "(\<forall>e \<in> set es. is_dict e \<longrightarrow> (\<exists>zs. ys = VList zs \<and> (e \<in> set zs \<or> in_list e zs)))
     \<and> (\<forall>zs. xs = VList zs \<longrightarrow> (\<exists>more. ys = VList (zs @ more)))"
  using assms
proof (induction es arbitrary: xs)
  case (Cons e es)
  then obtain t where t: "add_environment e xs = Inr t" "fold_py add_environment es t = Inr ys"
    by (auto simp: py_simps)
  have step: "\<exists>zs. ys = VList zs \<and> (e \<in> set zs \<or> in_list e zs)" if "is_dict e"
    using add_environment_result [OF t(1)] Cons.IH [OF t(2)] that by (fastforce simp: in_list_def)
  have "\<exists>more. ys = VList (zs @ more)" if xs: "xs = VList zs" for zs
  proof -
    obtain a where "t = VList (zs @ a)" using add_environment_result [OF t(1)] xs by blast
    then obtain b where "ys = VList ((zs @ a) @ b)" using Cons.IH [OF t(2)] by blast
    then show ?thesis by simp
  qed
  then show ?case using step Cons.IH [OF t(2)] by simp
qed simp

lemma identity_put: "repository_identity (dict_put ''environments'' v r) = repository_identity r"
  by (simp add: repository_identity_def dict_get_put)

lemma identity_append:
  "\<not> has_key ''environments'' r \<Longrightarrow> repository_identity (r @ [(''environments'', v)]) = repository_identity r"
proof -
  have "dict_get k (r @ [(''environments'', v)]) = dict_get k r" if "k \<noteq> ''environments''" for k
    using that by (induction r) (auto simp: dict_get_def)
  then show ?thesis by (simp add: repository_identity_def)
qed

lemma dict_get_append_new: "\<not> has_key k r \<Longrightarrow> dict_get k (r @ [(k, v)]) = v"
  by (induction r) (auto simp: dict_get_def)

lemma merge_environments_result:
  assumes "merge_environments m incoming = Inr m'"
  shows "repository_identity m' = repository_identity m
    \<and> (\<forall>es e. incoming = VList es \<longrightarrow> e \<in> set es \<longrightarrow> is_dict e \<longrightarrow> holds_environment e m')
    \<and> (\<forall>e. holds_environment e m \<longrightarrow> holds_environment e m')"
proof -
  let ?m = "if has_key ''environments'' m then m else m @ [(''environments'', VList [])]"
  have id: "repository_identity ?m = repository_identity m" using identity_append by simp
  have held: "holds_environment e m \<Longrightarrow> holds_environment e ?m" for e
    using dict_get_has_key [of "''environments''" m] by (auto simp: holds_environment_def)
  show ?thesis
  proof (cases "\<exists>es. incoming = VList es")
    case True
    then obtain es envs where es: "incoming = VList es" "fold_py add_environment es (dict_get ''environments'' ?m) = Inr envs"
      "m' = dict_put ''environments'' envs ?m"
      using assms by (auto simp: merge_environments_def Let_def py_simps)
    have "holds_environment e m'" if "holds_environment e ?m" for e
    proof -
      obtain xs where xs: "dict_get ''environments'' ?m = VList xs" "e \<in> set xs \<or> in_list e xs"
        using \<open>holds_environment e ?m\<close> by (auto simp: holds_environment_def)
      then obtain more where "envs = VList (xs @ more)" using add_environments_result [OF es(2)] by blast
      then show ?thesis using xs(2) es(3) by (auto simp: holds_environment_def dict_get_put in_list_def)
    qed
    moreover have "holds_environment e m'" if "e \<in> set es" "is_dict e" for e
      using add_environments_result [OF es(2)] that es(3) by (fastforce simp: holds_environment_def dict_get_put)
    ultimately show ?thesis using held es(1,3) id by (simp add: identity_put)
  next
    case False
    then have "m' = ?m" using assms by (cases incoming) (simp_all only: merge_environments_def Let_def pyval.case sum.inject, simp_all)
    then show ?thesis using False held id by simp
  qed
qed

lemma merge_repository_step:
  assumes ok: "indexed s" and st: "merge_repository v s = Inr s'"
  shows "indexed s' \<and> taken_in v s' \<and> (\<forall>w. taken_in w s \<longrightarrow> taken_in w s')"
proof (cases "\<exists>r. v = VDict r")
  case False
  then have "s' = s" using st by (auto simp: merge_repository_def split: pyval.splits)
  then show ?thesis using ok False by (simp add: taken_in_def)
next
  case True
  then obtain r where r: "v = VDict r" by blast
  let ?ms = "ms_repositories s" and ?ids = "map repository_identity (ms_repositories s)"
  have ids: "distinct ?ids" and index: "ms_index s = zip ?ids [0..<length ?ids]"
    using ok by (simp_all add: indexed_def)
  show ?thesis
  proof (cases "map_of (ms_index s) (repository_identity r)")
    case None
    then have new: "repository_identity r \<notin> set ?ids" by (simp add: index map_of_zip_None del: set_map)
    have s': "ms_repositories s' = ?ms @ [r]" "ms_index s' = ms_index s @ [(repository_identity r, length ?ms)]"
      using st r None by (auto simp: merge_repository_def Let_def)
    have "holds_environment e r" if "dict_get ''environments'' r = VList xs" "e \<in> set xs" for xs e
      using that by (simp add: holds_environment_def)
    then show ?thesis
      using ids index new by (auto simp: indexed_def s' taken_in_def r)
  next
    case (Some i)
    then have i: "i < length ?ms" "repository_identity (?ms ! i) = repository_identity r"
      using map_of_zip_index [OF ids, of "repository_identity r" i] by (auto simp: index)
    obtain m where m: "merge_environments (?ms ! i) (dict_get ''environments'' r) = Inr m"
      and s': "ms_repositories s' = ?ms[i := m]" "ms_index s' = ms_index s"
      using st r Some by (auto simp: merge_repository_def Let_def py_simps)
    note mm = merge_environments_result [OF m]
    have same: "map repository_identity (?ms[i := m]) = ?ids"
      using i(1) mm by (simp add: map_update) (metis list_update_id nth_map)
    have "indexed s'" using ok unfolding indexed_def s' same by simp
    moreover have "taken_in v s'"
      using mm i by (auto simp: taken_in_def r s' set_update_memI intro!: bexI [of _ m])
    moreover have "taken_in w s'" if w: "taken_in w s" for w
      unfolding taken_in_def
    proof (intro allI impI)
      fix q
      assume "w = VDict q"
      then obtain x where x: "x \<in> set ?ms" "repository_identity x = repository_identity q"
        "\<forall>xs e. dict_get ''environments'' q = VList xs \<longrightarrow> e \<in> set xs \<longrightarrow> is_dict e \<longrightarrow> holds_environment e x"
        using w by (auto simp: taken_in_def)
      show "\<exists>y \<in> set (ms_repositories s'). repository_identity y = repository_identity q \<and>
        (\<forall>xs e. dict_get ''environments'' q = VList xs \<longrightarrow> e \<in> set xs \<longrightarrow> is_dict e \<longrightarrow> holds_environment e y)"
      proof (cases "x = ?ms ! i")
        case True
        then show ?thesis using mm i x by (intro bexI [of _ m]) (auto simp: s' set_update_memI)
      next
        case False
        obtain j where j: "j < length ?ms" "x = ?ms ! j" using x(1) by (auto simp: in_set_conv_nth)
        then have "?ms[i := m] ! j = x" using False by (cases "i = j") auto
        then have "x \<in> set (ms_repositories s')" unfolding s' by (metis j(1) length_list_update nth_mem)
        then show ?thesis using x by blast
      qed
    qed
    ultimately show ?thesis by blast
  qed
qed

lemma merge_input_repositories:
  assumes "merge_input_dir data_dir i s = Inr s'" and "distinct (ms_seen s)" and "indexed s"
  shows "indexed s' \<and> (\<forall>v \<in> set (input_repositories i). taken_in v s') \<and> (\<forall>w. taken_in w s \<longrightarrow> taken_in w s')"
  using assms(1)
proof (cases rule: merge_input_parts)
  case skipped
  then show ?thesis using assms by simp
next
  case (taken vs builds s1 s2)
  have "s1 = with_cases data_dir (mergeable vs) s"
    using taken(1) unfolding merge_results_iff [OF assms(2)] by blast
  then have start: "indexed (s1\<lparr>ms_builds := builds\<rparr>)" "\<And>w. taken_in w s \<Longrightarrow> taken_in w (s1\<lparr>ms_builds := builds\<rparr>)"
    using assms(3) by (auto simp: indexed_def taken_in_def)
  have parts: "indexed s2 \<and> (\<forall>v \<in> set (input_repositories i). taken_in v s2)
      \<and> (\<forall>w. taken_in w (s1\<lparr>ms_builds := builds\<rparr>) \<longrightarrow> taken_in w s2)"
    by (rule fold_py_each [where good = indexed and effect = taken_in, OF _ start(1) taken(3)])
      (rule merge_repository_step)
  have same: "ms_repositories s' = ms_repositories s2 \<and> ms_index s' = ms_index s2"
    by (rule fold_py_inv [where good = "\<lambda>t. ms_repositories t = ms_repositories s2 \<and> ms_index t = ms_index s2",
          OF _ _ taken(4)]) (auto dest: merge_log_keeps)
  have "indexed s' = indexed s2" "\<And>w. taken_in w s' = taken_in w s2"
    using same by (simp_all add: indexed_def taken_in_def)
  then show ?thesis using parts start(2) by simp
qed

lemma merge_inputs_repositories:
  "fold_py (merge_input_dir data_dir) inputs s = Inr s' \<Longrightarrow> distinct (ms_seen s) \<Longrightarrow> indexed s \<Longrightarrow>
   indexed s' \<and> (\<forall>i \<in> set inputs. \<forall>v \<in> set (input_repositories i). taken_in v s') \<and> (\<forall>w. taken_in w s \<longrightarrow> taken_in w s')"
proof (induction inputs arbitrary: s)
  case (Cons i inputs)
  then obtain t where t: "merge_input_dir data_dir i s = Inr t" "fold_py (merge_input_dir data_dir) inputs t = Inr s'"
    by (auto simp: py_simps)
  have "distinct (ms_seen t)" using merge_input_cases [OF t(1) Cons.prems(2)] by blast
  with merge_input_repositories [OF t(1) Cons.prems(2,3)] Cons.IH [OF t(2)] show ?case by auto
qed simp

section \<open>The whole merge\<close>

lemma new_merge_ok: "distinct (ms_seen new_merge)" "indexed new_merge"
  by (simp_all add: new_merge_def indexed_def)

text \<open>The cases of all inputs, as the merge takes them.\<close>

definition all_cases :: "merge_input list \<Rightarrow> pydict list" where
  "all_cases inputs = concat (map input_cases (valid_inputs inputs))"

lemma merged_state:
  assumes "merge_results_dirs out inputs = Inr m"
  obtains s where "fold_py (merge_input_dir (join_path out ''data'')) (valid_inputs inputs) new_merge = Inr s"
    and "m = merge_output out (length (valid_inputs inputs)) s"
proof (cases "fold_py (merge_input_dir (join_path out ''data'')) (valid_inputs inputs) new_merge")
  case (Inl e)
  then show ?thesis using assms by (simp only: merge_results_dirs_def py_bind.simps split: if_splits) simp_all
next
  case (Inr s)
  then have "m = merge_output out (length (valid_inputs inputs)) s"
    using assms by (simp only: merge_results_dirs_def py_bind.simps split: if_splits) simp_all
  with Inr show ?thesis by (rule that)
qed

lemma merged_cases:
  assumes "merge_results_dirs out inputs = Inr m"
  shows "distinct (map merged_name (all_cases inputs))
    \<and> me_index m = written_list ''results'' (map (VDict \<circ> retargeted (join_path out ''data'')) (all_cases inputs))
    \<and> dict_get ''result_count'' (me_summary m) = VInt (int (length (all_cases inputs)))"
proof -
  obtain s where run: "fold_py (merge_input_dir (join_path out ''data'')) (valid_inputs inputs) new_merge = Inr s"
    and m: "m = merge_output out (length (valid_inputs inputs)) s"
    using merged_state [OF assms] .
  have "distinct (ms_seen s)" and same: "same_cases (with_cases (join_path out ''data'') (all_cases inputs) new_merge) s"
    using merge_inputs_cases [OF run new_merge_ok(1)] by (simp_all add: all_cases_def)
  moreover from same have "ms_seen s = map merged_name (all_cases inputs)"
    and "ms_results s = map (retargeted (join_path out ''data'')) (all_cases inputs)"
    by (simp_all add: same_cases_def new_merge_def)
  ultimately show ?thesis unfolding m by (simp add: merge_output_def)
qed

lemma merged_repositories:
  assumes "merge_results_dirs out inputs = Inr m"
  shows "\<exists>rs. me_repositories m = (if rs = [] then Absent else written_list ''repositories'' (map VDict rs))
    \<and> distinct (map repository_identity rs)
    \<and> (\<forall>i \<in> set inputs. \<forall>r. VDict r \<in> set (input_repositories i) \<longrightarrow> (\<exists>q \<in> set rs. repository_identity q = repository_identity r
         \<and> (\<forall>xs e. dict_get ''environments'' r = VList xs \<longrightarrow> e \<in> set xs \<longrightarrow> is_dict e \<longrightarrow> holds_environment e q)))"
proof -
  obtain s where run: "fold_py (merge_input_dir (join_path out ''data'')) (valid_inputs inputs) new_merge = Inr s"
    and m: "m = merge_output out (length (valid_inputs inputs)) s"
    using merged_state [OF assms] .
  have ok: "indexed s" and taken: "\<And>i v. i \<in> set (valid_inputs inputs) \<Longrightarrow> v \<in> set (input_repositories i) \<Longrightarrow> taken_in v s"
    using merge_inputs_repositories [OF run new_merge_ok] by auto
  have all: "\<forall>i \<in> set inputs. \<forall>r. VDict r \<in> set (input_repositories i) \<longrightarrow> taken_in (VDict r) s"
  proof (intro ballI allI impI)
    fix i r
    assume "i \<in> set inputs" and r: "VDict r \<in> set (input_repositories i)"
    moreover have "mi_index i \<noteq> Absent" using r by (auto simp: input_repositories_def report_list_def)
    ultimately show "taken_in (VDict r) s" by (intro taken [OF _ r]) (simp add: valid_inputs_def)
  qed
  show ?thesis
  proof (intro exI [of _ "ms_repositories s"] conjI)
    show "me_repositories m = (if ms_repositories s = [] then Absent
        else written_list ''repositories'' (map VDict (ms_repositories s)))"
      unfolding m by (simp add: merge_output_def)
    show "distinct (map repository_identity (ms_repositories s))" using ok by (simp add: indexed_def)
  qed (use all in \<open>simp add: taken_in_def\<close>)
qed

end
