(* ===== verification/Adapter_Audio.thy ===== *)
theory Adapter_Audio
  imports Evidence Pcm
begin

text \<open>
  The audio path of the aiosendspin adapters (\<open>adapters/aiosendspin_server.py\<close> and
  \<open>adapters/aiosendspin_client.py\<close>): how the server cuts a clip into blocks and accounts for the
  chunks it hands over, and how the client accounts for those it is given. The nested functions of a
  scenario are operations on a record of the variables they share.

  The SDK is not modelled: \<open>header_size\<close> is its \<open>BINARY_HEADER_SIZE\<close>, and the client's FLAC
  decoder is three arguments, one to make it, one to decode a payload and one to flush it;
  \<open>invalid\<close> is the exception \<open>b64decode\<close> raises on a text it refuses. Seconds are
  written into a summary as the values the arguments give.
\<close>

section \<open>The server's source\<close>

text \<open>\<open>xs[start::step]\<close>, and the assignment to such a slice, which raises if the sizes differ.\<close>

definition every :: "nat \<Rightarrow> nat \<Rightarrow> 'a list \<Rightarrow> 'a list" where
  "every start step xs = map (\<lambda>i. xs ! i) (filter (\<lambda>i. start \<le> i \<and> (i - start) mod step = 0) [0..<length xs])"

definition slots :: "nat \<Rightarrow> nat \<Rightarrow> 'a list \<Rightarrow> nat" where
  "slots start step xs = length (every start step xs)"

definition assign_every :: "nat \<Rightarrow> nat \<Rightarrow> 'a list \<Rightarrow> 'a list \<Rightarrow> 'a list py" where
  "assign_every start step values xs = (
     if length values \<noteq> slots start step xs
     then Inl (PyExc ''ValueError'' (''attempt to assign bytes of size '' @ nat_str (length values)
            @ '' to extended slice of size '' @ nat_str (slots start step xs)))
     else Inr (map (\<lambda>i. if start \<le> i \<and> (i - start) mod step = 0 then values ! ((i - start) div step) else xs ! i)
            [0..<length xs]))"

definition expand_pcm_16_to_32 :: "byte_string \<Rightarrow> byte_string py" where
  "expand_pcm_16_to_32 pcm = (
     let sample_count = length pcm div 2 in
     py_bind (assign_every 2 4 (every 0 2 pcm) (replicate (sample_count * 4) 0)) (assign_every 3 4 (every 1 2 pcm)))"

text \<open>
  \<open>range(0, n, k)\<close> raises for a step of 0; a block has at least one frame of samples. The duration is
  a float division, truncated; a rate of 0 raises, but only once there is a block.
\<close>

definition frames_per_block :: "int \<Rightarrow> int" where
  "frames_per_block rate = max 1 (case f64 (of_int rate * float_div 100 1000) of None \<Rightarrow> 0 | Some x \<Rightarrow> round_half_even x)"

definition block_duration :: "int \<Rightarrow> int \<Rightarrow> int py" where
  "block_duration frame_count rate = (
     if rate = 0 then Inl (PyExc ''ZeroDivisionError'' ''division by zero'')
     else py_bind (int_div (frame_count * 1000000) rate) (\<lambda>us. Inr (if us < 0 then - \<lfloor>- us\<rfloor> else \<lfloor>us\<rfloor>)))"

definition iter_pcm_blocks :: "byte_string \<Rightarrow> int \<Rightarrow> nat \<Rightarrow> nat \<Rightarrow> (byte_string \<times> int) list py" where
  "iter_pcm_blocks pcm rate chans depth = (
     let bytes_per_frame = chans * (depth div 8);
         bytes_per_block = nat (frames_per_block rate) * bytes_per_frame
     in if bytes_per_block = 0 then Inl (PyExc ''ValueError'' ''range() arg 3 must not be zero'')
        else collect (map (\<lambda>chunk. py_bind (block_duration (int (length chunk div bytes_per_frame)) rate)
               (\<lambda>us. Inr (chunk, us))) (chunks_of bytes_per_block pcm)))"

section \<open>What the server sends\<close>

text \<open>The player object of a \<open>stream/start\<close>.\<close>

record player_start =
  pl_codec :: string
  pl_sample_rate :: int
  pl_channels :: int
  pl_bit_depth :: int
  pl_codec_header :: "string option"

definition player_stream :: "player_start \<Rightarrow> pydict" where
  "player_stream p = [(''codec'', VStr (pl_codec p)), (''sample_rate'', VInt (pl_sample_rate p)),
     (''channels'', VInt (pl_channels p)), (''bit_depth'', VInt (pl_bit_depth p)),
     (''codec_header'', opt_text (pl_codec_header p))]"

record audio_sender =
  sn_stream :: "pydict option"
  sn_header_sha256 :: "string option"
  sn_hash :: byte_string
  sn_chunk_count :: nat
  sn_byte_count :: nat
  sn_sizes :: chunk_sizes

definition new_sender :: audio_sender where
  "new_sender = \<lparr>sn_stream = None, sn_header_sha256 = None, sn_hash = [], sn_chunk_count = 0,
     sn_byte_count = 0, sn_sizes = Map.empty\<rparr>"

definition capture_stream_start :: "player_start \<Rightarrow> audio_sender \<Rightarrow> audio_sender" where
  "capture_stream_start p s = (case pl_codec_header p of
     None \<Rightarrow> s\<lparr>sn_stream := Some (player_stream p)\<rparr>
   | Some header \<Rightarrow>
       if header = [] then s\<lparr>sn_stream := Some (player_stream p)\<rparr>
       else (case b64decode header of
         None \<Rightarrow> s\<lparr>sn_stream := Some (player_stream p), sn_header_sha256 := None\<rparr>
       | Some bytes \<Rightarrow> s\<lparr>sn_stream := Some (player_stream p @ [(''codec_header_sha256'', VStr (sha256_hex bytes))]),
           sn_header_sha256 := Some (sha256_hex bytes)\<rparr>))"

definition send_binary :: "nat \<Rightarrow> bool \<Rightarrow> bool \<Rightarrow> byte_string \<Rightarrow> int \<Rightarrow> bool \<Rightarrow> audio_sender \<Rightarrow> audio_sender" where
  "send_binary header_size chunk_framing_scenario is_audio_chunk data timestamp_us player_audio_header s = (
     if \<not> is_audio_chunk then s
     else
       let payload = (if player_audio_header then data else drop header_size data);
           s1 = (if chunk_framing_scenario \<and> player_audio_header
                 then s\<lparr>sn_sizes := record_chunk_size timestamp_us payload (sn_sizes s)\<rparr> else s)
       in s1\<lparr>sn_hash := sn_hash s @ payload, sn_chunk_count := sn_chunk_count s + 1,
             sn_byte_count := sn_byte_count s + length payload\<rparr>)"

definition opt_dict :: "pydict option \<Rightarrow> pyval" where
  "opt_dict d = (case d of None \<Rightarrow> VNone | Some e \<Rightarrow> VDict e)"

text \<open>The summary's \<open>audio\<close>, of every audio scenario.\<close>

definition sent_audio :: "decoded_fixture \<Rightarrow> audio_sender \<Rightarrow> int \<Rightarrow> pyval \<Rightarrow> pyval \<Rightarrow> int option \<Rightarrow> int \<Rightarrow> pydict" where
  "sent_audio fixture s wire_bit_depth clip_seconds duration_seconds frame_alignment_samples trimmed_source_frames =
     [(''fixture'', VStr (fx_path fixture)), (''source_flac_sha256'', VStr (fx_source_flac_sha256 fixture)),
      (''source_pcm_sha256'', VStr (fx_source_pcm_sha256 fixture)),
      (''sent_codec_header_sha256'', opt_text (sn_header_sha256 s)),
      (''sent_encoded_sha256'', if sn_chunk_count s \<noteq> 0 then VStr (sha256_hex (sn_hash s)) else VNone),
      (''sent_audio_chunk_count'', VInt (int (sn_chunk_count s))),
      (''sent_encoded_byte_count'', VInt (int (sn_byte_count s))), (''clip_seconds'', clip_seconds),
      (''sample_rate'', VInt (fx_sample_rate fixture)), (''channels'', VInt (fx_channels fixture)),
      (''bit_depth'', VInt wire_bit_depth), (''frame_count'', VInt (fx_frame_count fixture)),
      (''duration_seconds'', duration_seconds),
      (''frame_alignment_samples'', int_or_none frame_alignment_samples),
      (''trimmed_source_frames'', VInt trimmed_source_frames)]"

section \<open>What the client receives\<close>

record 'd audio_receiver =
  rv_stream :: "pydict option"
  rv_chunk_count :: nat
  rv_encoded :: byte_string
  rv_hasher :: float_pcm_hasher
  rv_timestamps :: "int list"
  rv_sizes :: chunk_sizes
  rv_decoder :: "'d option"

definition new_receiver :: "'d audio_receiver" where
  "new_receiver = \<lparr>rv_stream = None, rv_chunk_count = 0, rv_encoded = [], rv_hasher = new_hasher,
     rv_timestamps = [], rv_sizes = Map.empty, rv_decoder = None\<rparr>"

text \<open>A listener changes the record up to where it raises.\<close>

definition flush_decoder :: "('d \<Rightarrow> byte_string py) \<Rightarrow> 'd audio_receiver \<Rightarrow> 'd audio_receiver \<times> py_exc option" where
  "flush_decoder flush r = (case rv_decoder r of
     None \<Rightarrow> (r, None)
   | Some d \<Rightarrow> (case flush d of
       Inl e \<Rightarrow> (r\<lparr>rv_decoder := None\<rparr>, None)
     | Inr pcm \<Rightarrow>
         if pcm = [] then (r\<lparr>rv_decoder := None\<rparr>, None)
         else (case update_from_pcm_bytes pcm 16 (rv_hasher r) of
           Inl e \<Rightarrow> (r\<lparr>rv_decoder := None\<rparr>, Some e)
         | Inr hasher \<Rightarrow> (r\<lparr>rv_decoder := None, rv_hasher := hasher\<rparr>, None))))"

definition on_stream_end :: "('d \<Rightarrow> byte_string py) \<Rightarrow> 'd audio_receiver \<Rightarrow> 'd audio_receiver \<times> py_exc option" where
  "on_stream_end flush r = flush_decoder flush r"

text \<open>\<open>record_disconnect\<close>, and whether it came to set the event the summary waits for.\<close>

definition record_disconnect :: "('d \<Rightarrow> byte_string py) \<Rightarrow> 'd audio_receiver \<Rightarrow> 'd audio_receiver \<times> py_exc option \<times> bool" where
  "record_disconnect flush r = (case flush_decoder flush r of (r', raised) \<Rightarrow> (r', raised, raised = None))"

definition on_stream_start ::
    "(string \<Rightarrow> py_exc) \<Rightarrow> (player_start \<Rightarrow> byte_string option \<Rightarrow> 'd py) \<Rightarrow> player_start \<Rightarrow> 'd audio_receiver
     \<Rightarrow> 'd audio_receiver \<times> py_exc option" where
  "on_stream_start invalid new_decoder p r = (
     let started = (\<lambda>codec_header.
           let r1 = r\<lparr>rv_stream := Some (player_stream p)\<rparr>
           in if pl_codec p = ''flac''
              then (case new_decoder p codec_header of Inl e \<Rightarrow> (r1, Some e) | Inr d \<Rightarrow> (r1\<lparr>rv_decoder := Some d\<rparr>, None))
              else (r1\<lparr>rv_decoder := None\<rparr>, None))
     in case pl_codec_header p of
       None \<Rightarrow> started None
     | Some header \<Rightarrow>
         if header = [] then started None
         else (case b64decode header of
           None \<Rightarrow> (r, Some (invalid header))
         | Some bytes \<Rightarrow> started (Some bytes)))"

definition hashed :: "byte_string \<Rightarrow> int \<Rightarrow> 'd audio_receiver \<Rightarrow> 'd audio_receiver \<times> py_exc option" where
  "hashed pcm depth r = (case update_from_pcm_bytes pcm depth (rv_hasher r) of
     Inl e \<Rightarrow> (r, Some e) | Inr hasher \<Rightarrow> (r\<lparr>rv_hasher := hasher\<rparr>, None))"

definition on_audio_chunk ::
    "('d \<Rightarrow> byte_string \<Rightarrow> (byte_string \<times> 'd) py) \<Rightarrow> bool \<Rightarrow> int \<Rightarrow> byte_string \<Rightarrow> string \<Rightarrow> int \<Rightarrow> 'd audio_receiver
     \<Rightarrow> 'd audio_receiver \<times> py_exc option" where
  "on_audio_chunk decode frames_recorded timestamp_us payload codec_name depth r = (
     let r1 = r\<lparr>rv_timestamps := rv_timestamps r @ [timestamp_us],
           rv_sizes := (if frames_recorded then record_chunk_size timestamp_us payload (rv_sizes r) else rv_sizes r),
           rv_chunk_count := rv_chunk_count r + 1, rv_encoded := rv_encoded r @ payload\<rparr>
     in if codec_name = ''flac''
        then (case rv_decoder r of
          None \<Rightarrow> (r1, Some (PyExc ''RuntimeError'' ''Received FLAC before stream/start''))
        | Some d \<Rightarrow> (case decode d payload of
            Inl e \<Rightarrow> (r1, Some e)
          | Inr (pcm, d') \<Rightarrow> hashed pcm depth (r1\<lparr>rv_decoder := Some d'\<rparr>)))
        else if codec_name = ''pcm'' then hashed payload depth r1
        else if codec_name = ''opus'' then (r1, None)
        else (r1, Some (PyExc ''RuntimeError'' (''Unsupported codec for this adapter: '' @ codec_name))))"

definition received_audio :: "'d audio_receiver \<Rightarrow> pydict" where
  "received_audio r = [(''audio_chunk_count'', VInt (int (rv_chunk_count r))),
     (''received_encoded_sha256'', VStr (sha256_hex (rv_encoded r))),
     (''received_pcm_sha256'', VStr (hexdigest (rv_hasher r))),
     (''received_sample_count'', VInt (int (fh_sample_count (rv_hasher r))))]"

section \<open>The format preference scenarios\<close>

record stream_format =
  sf_codec :: string
  sf_sample_rate :: int
  sf_channels :: int
  sf_bit_depth :: int

record renegotiation =
  rn_stream_start_count :: nat
  rn_requested :: "stream_format option"
  rn_initial_format :: "stream_format option"
  rn_final_format :: "stream_format option"

definition new_renegotiation :: renegotiation where
  "new_renegotiation = \<lparr>rn_stream_start_count = 0, rn_requested = None, rn_initial_format = None, rn_final_format = None\<rparr>"

definition on_format_preference_chunk :: "stream_format \<Rightarrow> stream_format \<Rightarrow> renegotiation \<Rightarrow> renegotiation" where
  "on_format_preference_chunk preferred stream_format r = (
     let current = (case rn_final_format r of Some f \<Rightarrow> Some f | None \<Rightarrow> rn_initial_format r)
     in if Some stream_format = current then r
        else
          let r1 = r\<lparr>rn_stream_start_count := rn_stream_start_count r + 1\<rparr>
          in case current of
            Some f \<Rightarrow> r1\<lparr>rn_final_format := Some stream_format\<rparr>
          | None \<Rightarrow> r1\<lparr>rn_initial_format := Some stream_format, rn_requested := Some preferred\<rparr>)"

end
