(* ===== verification/Adapter_Facts.thy ===== *)
theory Adapter_Facts
  imports Adapter_Audio Pcm_Facts Runner_Facts
begin

text \<open>
  What the adapters' accounts of an audio stream are worth: the totals over any sequence of chunks,
  and what the comparison of the encoded audio decides from them.
\<close>

section \<open>Blocks\<close>

text \<open>Slices with a step, one step at a time.\<close>

lemma step_index:
  assumes "start < step"
  shows "start \<le> step + j \<and> (step + j - start) mod step = 0 \<longleftrightarrow> start \<le> j \<and> (j - start) mod step = 0"
    and "start \<le> j \<Longrightarrow> (step + j - start) div step = Suc ((j - start) div step)"
proof -
  show "start \<le> step + j \<and> (step + j - start) mod step = 0 \<longleftrightarrow> start \<le> j \<and> (j - start) mod step = 0"
  proof (cases "start \<le> j")
    case True
    then have "(step + j - start) mod step = (step + (j - start)) mod step" by simp
    also have "\<dots> = (j - start) mod step" by (rule mod_add_self1)
    finally show ?thesis using True by simp
  next
    case False
    then have "0 < step + j - start" "step + j - start < step" using assms by linarith+
    then show ?thesis using False by simp
  qed
next
  assume "start \<le> j"
  then have "(step + j - start) div step = (step + (j - start)) div step" by simp
  also have "\<dots> = Suc ((j - start) div step)" using div_add_self1 [of step "j - start"] assms by simp
  finally show "(step + j - start) div step = Suc ((j - start) div step)" .
qed

lemma first_index: "start < step \<Longrightarrow> i < step \<Longrightarrow> start \<le> i \<and> (i - start) mod step = 0 \<longleftrightarrow> i = start" for start step i :: nat
  by auto

lemma upt_step: "[0..<step + n] = [0..<step] @ map ((+) step) [0..<n]"
proof -
  have "map ((+) step) [0..<n] = [step..<step + n]"
    using map_add_upt [of step n] by (simp only: add.commute [of _ step])
  then show ?thesis using upt_add_eq_append [of 0 step n] by simp
qed

lemma every_block:
  assumes "start < step" and "length us = step"
  shows "every start step (us @ ys) = us ! start # every start step ys"
proof -
  have "filter (\<lambda>i. start \<le> i \<and> (i - start) mod step = 0) [0..<step] = filter (\<lambda>i. i = start) [0..<step]"
    using first_index [OF assms(1)] by (intro filter_cong) auto
  also have "\<dots> = [start]" using assms(1) by (induction step) auto
  finally have first: "filter (\<lambda>i. start \<le> i \<and> (i - start) mod step = 0) [0..<step] = [start]" .
  show ?thesis
    using assms step_index(1) [OF assms(1)]
    by (simp add: every_def upt_step filter_map comp_def first nth_append)
qed

definition assigned :: "nat \<Rightarrow> nat \<Rightarrow> 'a list \<Rightarrow> 'a list \<Rightarrow> 'a list" where
  "assigned start step values xs = map (\<lambda>i. if start \<le> i \<and> (i - start) mod step = 0
     then values ! ((i - start) div step) else xs ! i) [0..<length xs]"

lemma assigned_block:
  assumes "start < step" and "length us = step"
  shows "assigned start step (v # vs) (us @ ys) = us[start := v] @ assigned start step vs ys"
proof -
  have "map (\<lambda>i. if start \<le> i \<and> (i - start) mod step = 0 then (v # vs) ! ((i - start) div step) else (us @ ys) ! i) [0..<step]
      = us[start := v]"
    using assms first_index [OF assms(1)] by (intro nth_equalityI) (auto simp: nth_append nth_list_update)
  moreover have "(if start \<le> step + j \<and> (step + j - start) mod step = 0
        then (v # vs) ! ((step + j - start) div step) else (us @ ys) ! (step + j))
      = (if start \<le> j \<and> (j - start) mod step = 0 then vs ! ((j - start) div step) else ys ! j)" for j
    using step_index [OF assms(1)] assms(2) by (simp add: nth_append)
  ultimately show ?thesis
    by (simp only: assigned_def length_append assms(2) upt_step map_append map_map comp_def)
qed

lemma assign_every_eq:
  "length values = length (every start step xs) \<Longrightarrow> assign_every start step values xs = Inr (assigned start step values xs)"
  by (simp add: assign_every_def slots_def assigned_def)

text \<open>The expanded clip is the clip in a container of 32 bits.\<close>

lemma every_pair: "every 0 2 (a # b # xs) = a # every 0 2 xs" "every 1 2 (a # b # xs) = b # every 1 2 xs"
  using every_block [of 0 2 "[a, b]" xs] every_block [of 1 2 "[a, b]" xs] by simp_all

lemma every_quad:
  "every 2 4 (a # b # c # d # xs) = c # every 2 4 xs" "every 3 4 (a # b # c # d # xs) = d # every 3 4 xs"
  using every_block [of 2 4 "[a, b, c, d]" xs] every_block [of 3 4 "[a, b, c, d]" xs] by simp_all

lemma assigned_quad:
  "assigned 2 4 (v # vs) (a # b # c # d # xs) = a # b # v # d # assigned 2 4 vs xs"
  "assigned 3 4 (v # vs) (a # b # c # d # xs) = a # b # c # v # assigned 3 4 vs xs"
  using assigned_block [of 2 4 "[a, b, c, d]" v vs xs] assigned_block [of 3 4 "[a, b, c, d]" v vs xs]
  by (simp_all add: numeral_2_eq_2 numeral_3_eq_3)

lemma slice_Nil [simp]: "every s k [] = []" "assigned s k vs [] = []"
  by (simp_all add: every_def assigned_def)

lemma replicate_quad: "replicate (4 * Suc n) x = x # x # x # x # replicate (4 * n) x"
proof -
  have "4 * Suc n = Suc (Suc (Suc (Suc (4 * n))))" by simp
  then show ?thesis by (simp only: replicate_Suc)
qed

lemma expanded_words:
  "length pcm = 2 * n \<Longrightarrow>
   length (every 0 2 pcm) = n \<and> length (every 1 2 pcm) = n
   \<and> length (every 2 4 (replicate (4 * n) (0 :: 8 word))) = n
   \<and> length (every 3 4 (assigned 2 4 (every 0 2 pcm) (replicate (4 * n) 0))) = n
   \<and> assigned 3 4 (every 1 2 pcm) (assigned 2 4 (every 0 2 pcm) (replicate (4 * n) 0)) = widened 2 2 pcm"
proof (induction n arbitrary: pcm)
  case 0
  then show ?case by (simp add: widened_def)
next
  case (Suc n)
  obtain a b r where pcm: "pcm = a # b # r"
    using Suc.prems by (cases pcm; cases "tl pcm") auto
  then have r: "length r = 2 * n" using Suc.prems by simp
  have w: "widened 2 2 (a # b # r) = 0 # 0 # a # b # widened 2 2 r"
    by (simp add: widened_def chunks_of_step numeral_2_eq_2)
  show ?case
    using Suc.IH [OF r] by (simp only: pcm every_pair every_quad replicate_quad assigned_quad w length_Cons simp_thms)
qed

lemma expand_widens:
  assumes "2 dvd length pcm"
  shows "expand_pcm_16_to_32 pcm = Inr (widened 2 2 pcm)"
proof -
  obtain n where n: "length pcm = 2 * n" using assms by (auto elim: dvdE)
  then have d: "length pcm div 2 * 4 = 4 * n" by simp
  show ?thesis
    using expanded_words [OF n]
    by (simp add: expand_pcm_16_to_32_def Let_def d assign_every_eq)
qed

text \<open>The blocks of a clip are the clip, cut up.\<close>

lemma chunks_of_bounds: "c \<in> set (chunks_of k xs) \<Longrightarrow> c \<noteq> [] \<and> length c \<le> k"
proof (induction k xs rule: chunks_of.induct)
  case (1 k xs)
  then show ?case by (auto simp: chunks_of.simps [of k xs] split: if_splits)
qed

lemma blocks_of_clip:
  assumes "iter_pcm_blocks pcm rate chans depth = Inr blocks"
  shows "concat (map fst blocks) = pcm
    \<and> (\<forall>(chunk, us) \<in> set blocks. chunk \<noteq> [] \<and> length chunk \<le> nat (frames_per_block rate) * (chans * (depth div 8))
        \<and> block_duration (int (length chunk div (chans * (depth div 8)))) rate = Inr us)"
proof -
  let ?f = "chans * (depth div 8)" and ?b = "nat (frames_per_block rate) * (chans * (depth div 8))"
  have pos: "0 < ?b" and all: "list_all2 (\<lambda>c y. py_bind (block_duration (int (length c div ?f)) rate) (\<lambda>us. Inr (c, us)) = Inr y)
      (chunks_of ?b pcm) blocks"
    using assms by (auto simp: iter_pcm_blocks_def Let_def collect_map_iff split: if_splits)
  have fst: "map fst blocks = chunks_of ?b pcm"
    using all by (induction rule: list_all2_induct) (auto simp: py_simps)
  have dur: "\<forall>(c, us) \<in> set blocks. block_duration (int (length c div ?f)) rate = Inr us"
    using all by (induction rule: list_all2_induct) (auto simp: py_simps)
  have bounds: "c \<noteq> [] \<and> length c \<le> ?b" if "(c, us) \<in> set blocks" for c us
  proof -
    have "c \<in> set (map fst blocks)" using that by force
    then show ?thesis unfolding fst by (rule chunks_of_bounds)
  qed
  have "concat (map fst blocks) = pcm" unfolding fst by (rule concat_chunks_of [OF pos])
  then show ?thesis using bounds dur by auto
qed

section \<open>Totals\<close>

text \<open>The chunks the SDK hands the server's wrapper with their audio apart from the header.\<close>

definition send_chunks :: "bool \<Rightarrow> (int \<times> byte_string) list \<Rightarrow> audio_sender \<Rightarrow> audio_sender" where
  "send_chunks framing cs s = foldl (\<lambda>s c. send_binary 0 framing True (snd c) (fst c) True s) s cs"

lemma send_chunks_total:
  "sn_hash (send_chunks framing cs s) = sn_hash s @ concat (map snd cs)
   \<and> sn_chunk_count (send_chunks framing cs s) = sn_chunk_count s + length cs
   \<and> sn_byte_count (send_chunks framing cs s) = sn_byte_count s + length (concat (map snd cs))
   \<and> sn_stream (send_chunks framing cs s) = sn_stream s
   \<and> sn_header_sha256 (send_chunks framing cs s) = sn_header_sha256 s"
  unfolding send_chunks_def
  by (induction cs arbitrary: s) (simp_all add: send_binary_def Let_def)

text \<open>Chunks of one codec and depth as the client's listener is given them.\<close>

fun receive_chunks ::
    "('d \<Rightarrow> byte_string \<Rightarrow> (byte_string \<times> 'd) py) \<Rightarrow> bool \<Rightarrow> string \<Rightarrow> int \<Rightarrow> (int \<times> byte_string) list \<Rightarrow> 'd audio_receiver
     \<Rightarrow> 'd audio_receiver" where
  "receive_chunks decode recorded k depth [] r = r"
| "receive_chunks decode recorded k depth ((t, p) # cs) r =
     receive_chunks decode recorded k depth cs (fst (on_audio_chunk decode recorded t p k depth r))"

lemma hashed_fields [simp]:
  "rv_stream (fst (hashed p depth r)) = rv_stream r"
  "rv_chunk_count (fst (hashed p depth r)) = rv_chunk_count r"
  "rv_encoded (fst (hashed p depth r)) = rv_encoded r"
  by (simp_all add: hashed_def split: sum.splits)

lemma chunk_total:
  "rv_encoded (fst (on_audio_chunk decode recorded t p k depth r)) = rv_encoded r @ p
   \<and> rv_chunk_count (fst (on_audio_chunk decode recorded t p k depth r)) = rv_chunk_count r + 1
   \<and> rv_stream (fst (on_audio_chunk decode recorded t p k depth r)) = rv_stream r"
  by (simp add: on_audio_chunk_def Let_def split: option.splits sum.splits)

lemma receive_chunks_total:
  "rv_encoded (receive_chunks decode recorded k depth cs r) = rv_encoded r @ concat (map snd cs)
   \<and> rv_chunk_count (receive_chunks decode recorded k depth cs r) = rv_chunk_count r + length cs
   \<and> rv_stream (receive_chunks decode recorded k depth cs r) = rv_stream r"
proof (induction cs arbitrary: r)
  case (Cons c cs)
  then show ?case
    using chunk_total [of decode recorded "fst c" "snd c" k depth r] by (cases c) simp
qed simp

lemma receive_chunks_hash:
  "feed_pieces (map snd cs) depth (rv_hasher r) = Inr h \<Longrightarrow> rv_hasher (receive_chunks decode recorded ''pcm'' depth cs r) = h"
proof (induction cs arbitrary: r)
  case (Cons c cs)
  obtain t p where c: "c = (t, p)" by fastforce
  obtain h1 where h1: "update_from_pcm_bytes p depth (rv_hasher r) = Inr h1" "feed_pieces (map snd cs) depth h1 = Inr h"
    using Cons.prems c by (auto simp: py_simps)
  have "rv_hasher (fst (on_audio_chunk decode recorded t p ''pcm'' depth r)) = h1"
    using h1(1) by (simp add: on_audio_chunk_def Let_def hashed_def)
  then show ?case using Cons.IH h1(2) by (simp add: c)
qed simp

lemma receive_chunks_undecoded: "rv_decoder r = None \<Longrightarrow> rv_decoder (receive_chunks decode recorded ''pcm'' depth cs r) = None"
proof (induction cs arbitrary: r)
  case (Cons c cs)
  have "rv_decoder (fst (on_audio_chunk decode recorded (fst c) (snd c) ''pcm'' depth r)) = None"
    using Cons.prems by (simp add: on_audio_chunk_def hashed_def Let_def split: sum.split)
  then show ?case using Cons.IH by (cases c) simp
qed simp

text \<open>The end of a stream adds what the decoder held back, once.\<close>

lemma flush_decoder_keeps:
  "rv_stream (fst (flush_decoder flush r)) = rv_stream r" "rv_encoded (fst (flush_decoder flush r)) = rv_encoded r"
  "rv_chunk_count (fst (flush_decoder flush r)) = rv_chunk_count r" "rv_decoder (fst (flush_decoder flush r)) = None"
  "rv_decoder r = None \<Longrightarrow> flush_decoder flush r = (r, None)"
  by (auto simp: flush_decoder_def split: option.splits sum.splits)

text \<open>A digest is never empty.\<close>

lemma sha_round_length: "length (sha_round st kw) = length st"
  by (induction st kw rule: sha_round.induct) (auto simp: Let_def)

lemma sha_rounds_length: "length (foldl sha_round st kws) = length st"
  by (induction kws arbitrary: st) (simp_all add: sha_round_length)

lemma sha_block_length: "length (sha_block h b) = length h"
  by (simp add: sha_block_def Let_def sha_rounds_length)

lemma sha_blocks_length: "length (foldl sha_block h bs) = length h"
  by (induction bs arbitrary: h) (simp_all add: sha_block_length)

lemma sha256_hex_nonempty: "sha256_hex bs \<noteq> []"
proof -
  obtain w ws where w: "foldl sha_block sha_h0 (chunks_of 64 (sha_pad bs)) = w # ws"
    using sha_blocks_length [of sha_h0 "chunks_of 64 (sha_pad bs)"]
    by (cases "foldl sha_block sha_h0 (chunks_of 64 (sha_pad bs))") (auto simp: sha_h0_def sha_primes_def)
  show ?thesis by (simp add: sha256_hex_def sha256_def w bytes_of_word_def hex_of_bytes_def)
qed

lemma usable_sha [simp]: "usable_hash (VStr (sha256_hex bs)) = Some (sha256_hex bs)"
  by (simp add: usable_hash_Some sha256_hex_nonempty)

section \<open>What the comparison sees\<close>

text \<open>The summaries of a PCM stream: how both ended, the stream and the account of its audio.\<close>

definition audio_summary :: "pydict option \<Rightarrow> pydict \<Rightarrow> pydict" where
  "audio_summary stream audio = [(''status'', VStr ''ok''), (''stream'', opt_dict stream), (''audio'', VDict audio)]"

text \<open>A codec header that can be decoded, if there is one.\<close>

definition header_of :: "player_start \<Rightarrow> string option" where
  "header_of p = (case pl_codec_header p of None \<Rightarrow> None | Some h \<Rightarrow> if h = [] then None else Some h)"

definition decodable_header :: "player_start \<Rightarrow> bool" where
  "decodable_header p \<longleftrightarrow> (case header_of p of None \<Rightarrow> True | Some h \<Rightarrow> b64decode h \<noteq> None)"

definition header_digest :: "player_start \<Rightarrow> string option" where
  "header_digest p = Option.bind (header_of p) (\<lambda>h. map_option sha256_hex (b64decode h))"

definition captured_stream :: "player_start \<Rightarrow> pydict" where
  "captured_stream p = player_stream p @ (case header_digest p of None \<Rightarrow> [] | Some d \<Rightarrow> [(''codec_header_sha256'', VStr d)])"

lemma stream_captured:
  assumes "decodable_header p"
  shows "sn_stream (capture_stream_start p new_sender) = Some (captured_stream p)
    \<and> sn_header_sha256 (capture_stream_start p new_sender) = header_digest p
    \<and> sn_hash (capture_stream_start p new_sender) = [] \<and> sn_chunk_count (capture_stream_start p new_sender) = 0"
  using assms
  by (auto simp: decodable_header_def capture_stream_start_def captured_stream_def header_digest_def header_of_def
      new_sender_def split: option.splits)

lemma stream_started:
  assumes "decodable_header p"
  shows "rv_stream (fst (on_stream_start invalid new_decoder p r)) = Some (player_stream p)
    \<and> rv_encoded (fst (on_stream_start invalid new_decoder p r)) = rv_encoded r
    \<and> rv_chunk_count (fst (on_stream_start invalid new_decoder p r)) = rv_chunk_count r
    \<and> rv_hasher (fst (on_stream_start invalid new_decoder p r)) = rv_hasher r"
  using assms
  by (auto simp: decodable_header_def header_of_def on_stream_start_def Let_def split: option.splits sum.splits)

definition server_account :: "bool \<Rightarrow> player_start \<Rightarrow> (int \<times> byte_string) list \<Rightarrow> audio_sender" where
  "server_account framing p cs = send_chunks framing cs (capture_stream_start p new_sender)"

text \<open>
  The client's account when the summary is written: the stream's start, its chunks, its end, and the
  disconnect the summary waits for. A disconnect without the end of the stream leaves the same account.
\<close>

definition client_account ::
    "('d \<Rightarrow> byte_string \<Rightarrow> (byte_string \<times> 'd) py) \<Rightarrow> ('d \<Rightarrow> byte_string py) \<Rightarrow> (string \<Rightarrow> py_exc)
     \<Rightarrow> (player_start \<Rightarrow> byte_string option \<Rightarrow> 'd py) \<Rightarrow> bool \<Rightarrow> player_start \<Rightarrow> (int \<times> byte_string) list \<Rightarrow> 'd audio_receiver" where
  "client_account decode flush invalid new_decoder recorded p cs =
     fst (record_disconnect flush (fst (on_stream_end flush (receive_chunks decode recorded (pl_codec p) (pl_bit_depth p) cs
       (fst (on_stream_start invalid new_decoder p new_receiver))))))"

lemma account_flushed:
  "client_account decode flush invalid new_decoder recorded p cs = fst (flush_decoder flush
     (receive_chunks decode recorded (pl_codec p) (pl_bit_depth p) cs (fst (on_stream_start invalid new_decoder p new_receiver))))"
  by (simp add: client_account_def record_disconnect_def on_stream_end_def flush_decoder_keeps split: prod.split)

lemma server_totals:
  assumes "decodable_header p"
  shows "sn_stream (server_account framing p cs) = Some (captured_stream p)"
    and "sn_header_sha256 (server_account framing p cs) = header_digest p"
    and "sn_hash (server_account framing p cs) = concat (map snd cs)"
    and "sn_chunk_count (server_account framing p cs) = length cs"
  using stream_captured [OF assms] send_chunks_total [of framing cs "capture_stream_start p new_sender"]
  by (simp_all add: server_account_def)

lemma client_totals:
  assumes "decodable_header p"
  shows "rv_stream (client_account decode flush invalid new_decoder recorded p cs) = Some (player_stream p)"
    and "rv_encoded (client_account decode flush invalid new_decoder recorded p cs) = concat (map snd cs)"
    and "rv_chunk_count (client_account decode flush invalid new_decoder recorded p cs) = length cs"
  using stream_started [OF assms, of invalid new_decoder new_receiver]
    receive_chunks_total [of decode recorded "pl_codec p" "pl_bit_depth p" cs "fst (on_stream_start invalid new_decoder p new_receiver)"]
  by (simp_all add: account_flushed flush_decoder_keeps new_receiver_def)

lemma client_hash:
  assumes "decodable_header p" and "pl_codec p = ''pcm''"
    and "feed_pieces (map snd cs) (pl_bit_depth p) new_hasher = Inr h"
  shows "rv_hasher (client_account decode flush invalid new_decoder recorded p cs) = h"
proof -
  let ?r = "fst (on_stream_start invalid new_decoder p new_receiver)"
  have "rv_decoder ?r = None"
    using assms(1,2) by (auto simp: decodable_header_def header_of_def on_stream_start_def new_receiver_def Let_def split: option.splits)
  then have "client_account decode flush invalid new_decoder recorded p cs = receive_chunks decode recorded ''pcm'' (pl_bit_depth p) cs ?r"
    by (simp add: account_flushed flush_decoder_keeps assms(2) receive_chunks_undecoded)
  moreover have "feed_pieces (map snd cs) (pl_bit_depth p) (rv_hasher ?r) = Inr h"
    using assms(3) stream_started [OF assms(1), of invalid new_decoder new_receiver] by (simp add: new_receiver_def)
  ultimately show ?thesis by (simp add: receive_chunks_hash)
qed

lemma summary_parts [simp]:
  "dict_get ''status'' (audio_summary st audio) = VStr ''ok''"
  "dict_get ''stream'' (audio_summary (Some d) audio) = VDict d"
  "dict_get ''audio'' (audio_summary st audio) = VDict audio"
  "get_or_empty ''audio'' (audio_summary st audio) = VDict audio"
  by (simp_all add: audio_summary_def opt_dict_def get_or_empty_def)

lemma captured_get:
  "k \<noteq> ''codec_header_sha256'' \<Longrightarrow> dict_get k (captured_stream p) = dict_get k (player_stream p)"
  by (simp add: captured_stream_def player_stream_def split: option.splits)

lemma player_stream_parts:
  "stream_codec (audio_summary (Some (player_stream p)) audio) = Some (pl_codec p)"
  "stream_codec (audio_summary (Some (captured_stream p)) audio) = Some (pl_codec p)"
  by (simp_all add: stream_codec_def captured_get) (simp_all add: player_stream_def)

lemma client_header: "stream_codec_header_sha256 (audio_summary (Some (player_stream p)) audio) = header_digest p"
  by (auto simp: stream_codec_header_sha256_def player_stream_def opt_text_def header_digest_def header_of_def
      split: option.splits)

lemma server_header:
  "stream_codec_header_sha256 (audio_summary (Some (captured_stream p)) audio) = header_digest p"
proof (cases "header_digest p")
  case None
  then show ?thesis using client_header [of p audio] by (simp add: captured_stream_def)
next
  case (Some d)
  then have "dict_get ''codec_header_sha256'' (captured_stream p) = VStr d"
    by (simp add: captured_stream_def player_stream_def)
  moreover have "d \<noteq> []"
    using Some sha256_hex_nonempty by (auto simp: header_digest_def bind_eq_Some_conv)
  ultimately show ?thesis using Some by (simp add: stream_codec_header_sha256_def)
qed

lemma sent_audio_parts:
  "dict_get ''sent_codec_header_sha256'' (sent_audio fx s w c d a t) = opt_text (sn_header_sha256 s)"
  "dict_get ''sent_encoded_sha256'' (sent_audio fx s w c d a t)
     = (if sn_chunk_count s \<noteq> 0 then VStr (sha256_hex (sn_hash s)) else VNone)"
  "dict_get ''sent_audio_chunk_count'' (sent_audio fx s w c d a t) = VInt (int (sn_chunk_count s))"
  "dict_get ''source_pcm_sha256'' (sent_audio fx s w c d a t) = VStr (fx_source_pcm_sha256 fx)"
  "dict_get ''sample_rate'' (sent_audio fx s w c d a t) = VInt (fx_sample_rate fx)"
  "dict_get ''channels'' (sent_audio fx s w c d a t) = VInt (fx_channels fx)"
  "has_key ''source_pcm_sha256'' (sent_audio fx s w c d a t)"
  by (simp_all add: sent_audio_def)

lemma received_audio_parts:
  "dict_get ''audio_chunk_count'' (received_audio r) = VInt (int (rv_chunk_count r))"
  "dict_get ''received_encoded_sha256'' (received_audio r) = VStr (sha256_hex (rv_encoded r))"
  "dict_get ''received_pcm_sha256'' (received_audio r) = VStr (hexdigest (rv_hasher r))"
  "dict_get ''received_sample_count'' (received_audio r) = VInt (int (fh_sample_count (rv_hasher r)))"
  "has_key ''received_pcm_sha256'' (received_audio r)"
  by (simp_all add: received_audio_def)

lemma py_eq_ints: "py_eq (VInt m) (VInt n) \<longleftrightarrow> m = n"
  by (auto simp: py_eq_def)

text \<open>The summaries both adapters write of a stream.\<close>

definition server_wrote :: "decoded_fixture \<Rightarrow> audio_sender \<Rightarrow> int \<Rightarrow> pyval \<Rightarrow> pyval \<Rightarrow> int option \<Rightarrow> int \<Rightarrow> pydict" where
  "server_wrote fx s w c d a t = audio_summary (sn_stream s) (sent_audio fx s w c d a t)"

definition client_wrote :: "'d audio_receiver \<Rightarrow> pydict" where
  "client_wrote r = audio_summary (rv_stream r) (received_audio r)"

text \<open>The PCM comparison decides whether the client heard the fixture.\<close>

lemma pcm_stream_compared:
  "passes (compare_audio_summaries (server_wrote fx s w c d a t) (client_wrote r))
     \<longleftrightarrow> rv_chunk_count r \<noteq> 0 \<and> fx_source_pcm_sha256 fx = hexdigest (rv_hasher r)"
  using sent_audio_parts(7) [of fx s w c d a t] received_audio_parts(5) [of r]
  by (auto simp: audio_pcm_passes server_wrote_def client_wrote_def both_ok_def sent_audio_parts received_audio_parts)

text \<open>A clip delivered as PCM, in a container of any width, passes.\<close>

lemma delivered_pcm_passes:
  assumes "decodable_header p" and "pl_codec p = ''pcm''" and "chunks \<noteq> []" and "consistent fx"
    and "pl_bit_depth p \<in> {16, 24, 32}"
    and h: "feed_pieces (map snd chunks) (pl_bit_depth p) new_hasher = Inr h"
    and same: "pcm_int_bytes_to_float_bytes (concat (map snd chunks)) (pl_bit_depth p)
      = pcm_int_bytes_to_float_bytes (fx_pcm_bytes fx) (fx_bit_depth fx)"
  shows "passes (compare_audio_summaries (server_wrote fx s w c d a t)
      (client_wrote (client_account decode flush invalid new_decoder recorded p chunks)))"
proof -
  have "fx_source_pcm_sha256 fx = hexdigest h"
    using fed_whole(1) [OF assms(5) h] assms(4) same by (simp add: consistent_def hexdigest_def)
  then show ?thesis
    using assms(3) by (simp add: pcm_stream_compared client_totals [OF assms(1)] client_hash [OF assms(1,2) h])
qed

text \<open>The comparison of encoded bytes decides whether the client was handed the bytes that were sent.\<close>

lemma encoded_stream_compared:
  assumes p: "decodable_header p" and "sent \<noteq> []" and "received \<noteq> []"
    and S: "S = server_account framing p sent" and R: "R = client_account decode flush invalid new_decoder recorded p received"
  shows "passes (compare_encoded_audio_summaries (server_wrote fx S w c d a t) (client_wrote R) (pl_codec p))
    \<longleftrightarrow> sha256_hex (concat (map snd sent)) = sha256_hex (concat (map snd received))
      \<and> (pl_codec p \<notin> set LOSSLESS_CODECS \<or> fh_sample_count (rv_hasher R) = 0 \<or> fx_source_pcm_sha256 fx \<noteq> []
          \<and> (fx_source_pcm_sha256 fx = hexdigest (rv_hasher R) \<or> pl_sample_rate p \<noteq> fx_sample_rate fx \<or> pl_channels p \<noteq> fx_channels fx))"
proof -
  let ?sa = "sent_audio fx S w c d a t" and ?ca = "received_audio R"
  note s = server_totals [OF p, of framing sent, folded S]
    and r = client_totals [OF p, of decode flush invalid new_decoder recorded received, folded R]
  have "chunks_delivered ?sa ?ca \<longleftrightarrow> sha256_hex (concat (map snd sent)) = sha256_hex (concat (map snd received))"
    using assms(2,3) by (simp add: chunks_delivered_def sent_audio_parts received_audio_parts s r)
  moreover have "headers_agree (server_wrote fx S w c d a t) (client_wrote R) ?sa"
    by (simp add: headers_agree_def header_hashes_def Let_def sent_audio_parts s r server_wrote_def client_wrote_def
        client_header server_header opt_text_def split: option.splits)
  moreover have "decoded_matches (server_wrote fx S w c d a t) ?sa ?ca \<longleftrightarrow>
      fh_sample_count (rv_hasher R) = 0 \<or> fx_source_pcm_sha256 fx \<noteq> []
      \<and> (fx_source_pcm_sha256 fx = hexdigest (rv_hasher R) \<or> pl_sample_rate p \<noteq> fx_sample_rate fx \<or> pl_channels p \<noteq> fx_channels fx)"
  proof -
    have "usable_hash (VStr (hexdigest (rv_hasher R))) = Some (hexdigest (rv_hasher R))" by (simp add: hexdigest_def)
    moreover have "dict_get ''sample_rate'' (captured_stream p) = VInt (pl_sample_rate p)"
      "dict_get ''channels'' (captured_stream p) = VInt (pl_channels p)"
      by (simp_all add: captured_get) (simp_all add: player_stream_def)
    ultimately show ?thesis
      by (auto simp: decoded_matches_def sent_audio_parts received_audio_parts server_wrote_def s py_eq_ints usable_hash_def)
  qed
  ultimately show ?thesis
    by (simp add: encoded_audio_passes both_ok_def player_stream_parts server_wrote_def client_wrote_def s(1) r(1))
qed

section \<open>Renegotiation\<close>

lemma remdups_adj_snoc:
  "xs \<noteq> [] \<Longrightarrow> remdups_adj (xs @ [x]) = (if List.last xs = x then remdups_adj xs else remdups_adj xs @ [x])"
  by (induction xs rule: remdups_adj.induct) auto

definition heard :: "stream_format \<Rightarrow> stream_format list \<Rightarrow> renegotiation" where
  "heard preferred fs = foldl (\<lambda>r f. on_format_preference_chunk preferred f r) new_renegotiation fs"

text \<open>The formats of a stream, each time it changes.\<close>

lemma heard_exact:
  "heard preferred fs = (case remdups_adj fs of
     [] \<Rightarrow> new_renegotiation
   | f # gs \<Rightarrow> \<lparr>rn_stream_start_count = Suc (length gs), rn_requested = Some preferred, rn_initial_format = Some f,
       rn_final_format = (if gs = [] then None else Some (List.last gs))\<rparr>)"
proof (induction fs rule: rev_induct)
  case Nil
  show ?case by (simp add: heard_def)
next
  case (snoc x fs)
  have step: "heard preferred (fs @ [x]) = on_format_preference_chunk preferred x (heard preferred fs)"
    by (simp add: heard_def)
  show ?case
  proof (cases "remdups_adj fs")
    case Nil
    then have "fs = []" by simp
    then show ?thesis by (simp add: heard_def on_format_preference_chunk_def Let_def new_renegotiation_def)
  next
    case (Cons f gs)
    then have ne: "fs \<noteq> []" by auto
    have l: "List.last fs = List.last (f # gs)" using last_remdups_adj [of fs] Cons by simp
    show ?thesis
      unfolding step snoc.IH remdups_adj_snoc [OF ne] Cons
      by (auto simp: on_format_preference_chunk_def Let_def l)
  qed
qed

end
