(* ===== verification/Harness_Properties.thy ===== *)
theory Harness_Properties
  imports Waiting Merging_Facts Adapter_Facts
begin

text \<open>
  The properties of the harness around the judges: its waits end, the registry gives back what was
  registered, merging loses no case, and the comparisons decide rightly on the accounts the
  aiosendspin adapters keep of an audio stream.
\<close>

section \<open>Waits\<close>

text \<open>
  C25: the wait for a file returns, on every clock that advances: it ends well if the file is there in
  some turn before the deadline, and otherwise with the timeout that names the file.
\<close>

theorem wait_for_file_exact:
  assumes "advancing step clock" and "deadline_of clock timeout_s = Some d"
  shows "wait_for_file clock exists path timeout_s = Some (
     if \<exists>k\<ge>1. exists k \<and> clock k < d then Inr ()
     else Inl (TimeoutError (''Timed out waiting for file: '' @ path)))"
  unfolding wait_for_file_def by (rule file_wait.wait_exact [OF assms])

definition sample_clock :: "nat \<Rightarrow> rat" where
  "sample_clock k = of_nat k"

lemma sample_clock_advances: "advancing 1 sample_clock"
  by (simp add: advancing_def sample_clock_def mono_def)

lemma sample_deadline: "deadline_of sample_clock 0 = Some 0"
  by (simp add: deadline_of_def sample_clock_def f64_zero)

theorem wait_for_file_exact_witness:
  "wait_for_file sample_clock (\<lambda>k. True) ''x'' 0 = Some (
     if \<exists>k\<ge>1. True \<and> sample_clock k < 0 then Inr ()
     else Inl (TimeoutError (''Timed out waiting for file: '' @ ''x'')))"
  by (rule wait_for_file_exact [OF sample_clock_advances sample_deadline])

text \<open>
  C26: the wait for the target client returns, whatever clients connect and whatever the registry file
  holds in the meantime: it dials at most one address, one the registry gave for the client, and
  reports the registry as the method exactly if it dialled.
\<close>

theorem target_client_found:
  assumes "advancing step clock" and "deadline_of clock timeout_s = Some d"
  shows "\<exists>result dialled. wait_for_target_client clock found registry connect peer timeout_s = Some (result, dialled)
     \<and> length dialled \<le> 1
     \<and> list_all (\<lambda>u. \<exists>k. lookup_endpoint (registry k) peer = Inr (Some u)) dialled
     \<and> (case result of Inl e \<Rightarrow> True | Inr how \<Rightarrow> how = (if dialled = [] then ''mdns'' else ''registry_fallback''))"
proof -
  obtain out where out: "wait_for_target_client clock found registry connect peer timeout_s = Some out"
    and ok: "target_result registry peer out"
    using target_wait_result [OF assms] unfolding wait_for_target_client_def by blast
  show ?thesis
    by (cases out) (use out ok in \<open>auto simp: target_result_def list_all_iff split: sum.splits\<close>)
qed

theorem target_client_found_witness:
  "\<exists>result dialled. wait_for_target_client sample_clock (\<lambda>k. False) (\<lambda>k. Absent) (\<lambda>u. Inr ()) ''c'' 0 = Some (result, dialled)
     \<and> length dialled \<le> 1
     \<and> list_all (\<lambda>u. \<exists>k :: nat. lookup_endpoint Absent ''c'' = Inr (Some u)) dialled
     \<and> (case result of Inl e \<Rightarrow> True | Inr how \<Rightarrow> how = (if dialled = [] then ''mdns'' else ''registry_fallback''))"
  using target_client_found [OF sample_clock_advances sample_deadline,
      of "\<lambda>k. False" "\<lambda>k. Absent" "\<lambda>u. Inr ()" "''c''"] .

section \<open>The registry\<close>

text \<open>
  An address registered in a registry file that is there, or not there yet, is looked up again under
  its name, and every other name still gives what it gave.
\<close>

theorem registry_roundtrip:
  assumes "register_endpoint other registry name url = Inr registry'"
    and "case registry of Json v \<Rightarrow> is_dict v | _ \<Rightarrow> True"
  shows "lookup_endpoint registry' j = (if j = name then Inr (Some url) else lookup_endpoint registry j)"
  using registered_lookup [OF assms(1)] registered_keeps [OF assms(1), of j] assms(2) by (cases registry) auto

section \<open>Merging\<close>

text \<open>
  C27: a merge that succeeds holds the results of all its inputs in their order, each retargeted to
  the output, no case twice, and counts them.
\<close>

theorem merge_keeps_cases:
  assumes "merge_results_dirs out inputs = Inr m"
  shows "distinct (map merged_name (all_cases inputs))
     \<and> me_index m = written_list ''results'' (map (VDict \<circ> retargeted (join_path out ''data'')) (all_cases inputs))
     \<and> dict_get ''result_count'' (me_summary m) = VInt (int (length (all_cases inputs)))"
  by (rule merged_cases [OF assms])

text \<open>
  the merged repositories have an entry of its own for each key and revision the inputs name, and
  none for any twice; an entry holds every environment an input lists for it.
\<close>

theorem merge_joins_repositories:
  assumes "merge_results_dirs out inputs = Inr m"
  shows "\<exists>rs. me_repositories m = (if rs = [] then Absent else written_list ''repositories'' (map VDict rs))
     \<and> distinct (map repository_identity rs)
     \<and> (\<forall>i \<in> set inputs. \<forall>r. VDict r \<in> set (input_repositories i) \<longrightarrow> (\<exists>q \<in> set rs. repository_identity q = repository_identity r
          \<and> (\<forall>xs e. dict_get ''environments'' r = VList xs \<longrightarrow> e \<in> set xs \<longrightarrow> is_dict e \<longrightarrow> holds_environment e q)))"
  by (rule merged_repositories [OF assms])

definition sample_repository :: "string \<Rightarrow> pyval" where
  "sample_repository env = VDict [(''key'', VStr ''r''), (''commit_sha'', VStr ''1''),
     (''environments'', VList [VDict [(''id'', VStr env)]])]"

definition sample_input :: "string \<Rightarrow> merge_input" where
  "sample_input host = \<lparr>mi_index = Json (VDict [(''results'', VList [VDict [(''case_dir'', VStr host)]])]),
     mi_build_report = Absent,
     mi_repositories = Json (VDict [(''repositories'', VList [sample_repository host])]), mi_logs = [host]\<rparr>"

definition sample_merge :: merged where
  "sample_merge = (case merge_results_dirs ''o'' [sample_input ''a'', sample_input ''b''] of Inr m \<Rightarrow> m)"

lemma sample_merge_succeeds: "merge_results_dirs ''o'' [sample_input ''a'', sample_input ''b''] = Inr sample_merge"
proof -
  have "case merge_results_dirs ''o'' [sample_input ''a'', sample_input ''b''] of Inl e \<Rightarrow> False | Inr m \<Rightarrow> True"
    by code_simp
  then show ?thesis by (simp add: sample_merge_def split: sum.splits)
qed

theorem merge_keeps_cases_witness:
  "distinct (map merged_name (all_cases [sample_input ''a'', sample_input ''b'']))
     \<and> me_index sample_merge = written_list ''results''
         (map (VDict \<circ> retargeted (join_path ''o'' ''data'')) (all_cases [sample_input ''a'', sample_input ''b'']))
     \<and> dict_get ''result_count'' (me_summary sample_merge) = VInt (int (length (all_cases [sample_input ''a'', sample_input ''b''])))"
  by (rule merge_keeps_cases [OF sample_merge_succeeds])

theorem merge_joins_repositories_witness:
  "\<exists>rs. me_repositories sample_merge = (if rs = [] then Absent else written_list ''repositories'' (map VDict rs))
     \<and> distinct (map repository_identity rs)
     \<and> (\<forall>i \<in> set [sample_input ''a'', sample_input ''b'']. \<forall>r. VDict r \<in> set (input_repositories i) \<longrightarrow>
          (\<exists>q \<in> set rs. repository_identity q = repository_identity r
            \<and> (\<forall>xs e. dict_get ''environments'' r = VList xs \<longrightarrow> e \<in> set xs \<longrightarrow> is_dict e \<longrightarrow> holds_environment e q)))"
  by (rule merge_joins_repositories [OF sample_merge_succeeds])

section \<open>Audio streams\<close>

text \<open>
  C28: the PCM comparison passes a client that was handed the clip: if the chunks, whatever their
  number and the depth of their samples, carry the samples of a consistent fixture, the summary the
  client adapter writes compares as a pass with the server's.
\<close>

theorem delivered_clip_passes:
  assumes "decodable_header p" and "pl_codec p = ''pcm''" and "chunks \<noteq> []" and "consistent fx"
    and "pl_bit_depth p \<in> {16, 24, 32}"
    and "feed_pieces (map snd chunks) (pl_bit_depth p) new_hasher = Inr h"
    and "pcm_int_bytes_to_float_bytes (concat (map snd chunks)) (pl_bit_depth p)
      = pcm_int_bytes_to_float_bytes (fx_pcm_bytes fx) (fx_bit_depth fx)"
  shows "passes (compare_audio_summaries (server_wrote fx (server_account framing p chunks) w c d a t)
      (client_wrote (client_account decode flush invalid new_decoder recorded p chunks)))"
  by (rule delivered_pcm_passes [OF assms])

text \<open>
  C29: the comparison of encoded bytes passes exactly when the digests of the bytes sent and received
  agree, and, for FLAC, the decoded audio, what the decoder held back to the end included, has the digest
  of the source wherever it can be compared.
\<close>

theorem encoded_stream_exact:
  assumes "decodable_header p" and "sent \<noteq> []" and "received \<noteq> []"
    and "S = server_account framing p sent" and "R = client_account decode flush invalid new_decoder recorded p received"
  shows "passes (compare_encoded_audio_summaries (server_wrote fx S w c d a t) (client_wrote R) (pl_codec p))
    \<longleftrightarrow> sha256_hex (concat (map snd sent)) = sha256_hex (concat (map snd received))
      \<and> (pl_codec p \<notin> set LOSSLESS_CODECS \<or> fh_sample_count (rv_hasher R) = 0 \<or> fx_source_pcm_sha256 fx \<noteq> []
          \<and> (fx_source_pcm_sha256 fx = hexdigest (rv_hasher R) \<or> pl_sample_rate p \<noteq> fx_sample_rate fx \<or> pl_channels p \<noteq> fx_channels fx))"
  by (rule encoded_stream_compared [OF assms])

text \<open>
  The server's source clip expanded to 32 bits hashes as the clip does, and the blocks it is cut into
  are the clip.
\<close>

theorem expanded_clip_same:
  assumes "2 dvd length pcm"
  shows "py_bind (expand_pcm_16_to_32 pcm) (\<lambda>wide. pcm_int_bytes_to_float_bytes wide 32) = pcm_int_bytes_to_float_bytes pcm 16"
  by (simp add: expand_widens [OF assms] widening_keeps_floats(2) [OF assms])

theorem blocks_are_clip:
  assumes "iter_pcm_blocks pcm rate chans depth = Inr blocks"
  shows "concat (map fst blocks) = pcm"
  using blocks_of_clip [OF assms] by blast

text \<open>
  What the client of the format preference scenarios reports: as many stream starts as the format
  changed, the first format, and the last if there was more than one.
\<close>

theorem renegotiation_exact:
  "heard preferred fs = (case remdups_adj fs of
     [] \<Rightarrow> new_renegotiation
   | f # gs \<Rightarrow> \<lparr>rn_stream_start_count = Suc (length gs), rn_requested = Some preferred, rn_initial_format = Some f,
       rn_final_format = (if gs = [] then None else Some (List.last gs))\<rparr>)"
  by (rule heard_exact)

text \<open>A clip of two samples, sent as one chunk of PCM.\<close>

definition sample_player :: "string \<Rightarrow> player_start" where
  "sample_player k = \<lparr>pl_codec = k, pl_sample_rate = 8000, pl_channels = 1, pl_bit_depth = 16, pl_codec_header = None\<rparr>"

definition sample_pcm :: byte_string where
  "sample_pcm = [0, 128, 255, 127]"

definition sample_floats :: byte_string where
  "sample_floats = pack_floats (map (\<lambda>c. of_int (signed_le c) / 32768) (chunks_of 2 sample_pcm))"

definition sample_fixture :: decoded_fixture where
  "sample_fixture = \<lparr>fx_path = ''clip'', fx_pcm_bytes = sample_pcm, fx_sample_rate = 8000, fx_channels = 1, fx_bit_depth = 16,
     fx_frame_count = 2, fx_duration_seconds = 0, fx_source_flac_sha256 = [],
     fx_source_pcm_sha256 = sha256_hex sample_floats\<rparr>"

lemma sample_conversion: "pcm_int_bytes_to_float_bytes sample_pcm 16 = Inr sample_floats"
  by (simp add: pcm_conversion sample_floats_def) (simp add: sample_pcm_def)

lemma sample_fed:
  "feed_pieces [sample_pcm] 16 new_hasher = Inr (update_from_float_bytes sample_floats new_hasher)"
  by (simp add: update_from_pcm_bytes_def sample_conversion)

lemma sample_fixture_consistent: "consistent sample_fixture"
  by (simp add: consistent_def sample_fixture_def sample_conversion) (simp add: sample_pcm_def)

theorem delivered_clip_passes_witness:
  "passes (compare_audio_summaries
      (server_wrote sample_fixture (server_account False (sample_player ''pcm'') [(0, sample_pcm)]) 16 VNone VNone None 0)
      (client_wrote (client_account (\<lambda>d p. Inr (p, d)) (\<lambda>d. Inr []) (\<lambda>h. AssertionError) (\<lambda>p h. Inr ()) False (sample_player ''pcm'') [(0, sample_pcm)])))"
proof (rule delivered_clip_passes [OF _ _ _ sample_fixture_consistent])
  show "feed_pieces (map snd [(0, sample_pcm)]) (pl_bit_depth (sample_player ''pcm'')) new_hasher
      = Inr (update_from_float_bytes sample_floats new_hasher)"
    using sample_fed by (simp add: sample_player_def)
qed (simp_all add: sample_player_def sample_fixture_def decodable_header_def header_of_def)

theorem encoded_stream_exact_witness:
  "passes (compare_encoded_audio_summaries
      (server_wrote sample_fixture (server_account False (sample_player ''opus'') [(0, [1, 2])]) 16 VNone VNone None 0)
      (client_wrote (client_account (\<lambda>d p. Inr (p, d)) (\<lambda>d. Inr []) (\<lambda>h. AssertionError) (\<lambda>p h. Inr ()) False (sample_player ''opus'') [(0, [1]), (1, [2])]))
      (pl_codec (sample_player ''opus'')))
    \<longleftrightarrow> sha256_hex (concat (map snd [(0 :: int, [1, 2])])) = sha256_hex (concat (map snd [(0 :: int, [1]), (1, [2])]))
      \<and> (pl_codec (sample_player ''opus'') \<notin> set LOSSLESS_CODECS
          \<or> fh_sample_count (rv_hasher (client_account (\<lambda>d p. Inr (p, d)) (\<lambda>d. Inr []) (\<lambda>h. AssertionError) (\<lambda>p h. Inr ()) False
              (sample_player ''opus'') [(0, [1]), (1, [2])])) = 0
          \<or> fx_source_pcm_sha256 sample_fixture \<noteq> []
            \<and> (fx_source_pcm_sha256 sample_fixture = hexdigest (rv_hasher (client_account (\<lambda>d p. Inr (p, d)) (\<lambda>d. Inr []) (\<lambda>h. AssertionError)
                 (\<lambda>p h. Inr ()) False (sample_player ''opus'') [(0, [1]), (1, [2])]))
               \<or> pl_sample_rate (sample_player ''opus'') \<noteq> fx_sample_rate sample_fixture
               \<or> pl_channels (sample_player ''opus'') \<noteq> fx_channels sample_fixture))"
  by (rule encoded_stream_exact [OF _ _ _ refl refl]) (simp_all add: sample_player_def decodable_header_def header_of_def)

end
