(* ===== verification/Reports.thy ===== *)
theory Reports
  imports Checks Py_Library
begin

text \<open>
  The end of a validation: \<open>validator/report.py\<close>, the report and the exit status of
  \<open>validator/cli.py\<close>, and \<open>printable\<close> of \<open>validator/prompter.py\<close>. Writing files is left out. The
  text of \<open>VENDORED.md\<close>, the package's version and the time stamp are arguments.
\<close>

section \<open>Who the client is\<close>

record client_identity =
  ci_name :: "string option"
  ci_client_id :: "string option"
  ci_device_info :: "pydict option"
  ci_supported_roles :: "pyval list"
  ci_supported_formats :: "pyval list"

definition first_of_type :: "string \<Rightarrow> recorded_frame list \<Rightarrow> recorded_frame option" where
  "first_of_type message_type frames = find (\<lambda>f. inbound f \<and> frame_type f = Some message_type) frames"

definition payload_of_first :: "string \<Rightarrow> recorded_frame list \<Rightarrow> pydict" where
  "payload_of_first message_type frames = (case first_of_type message_type frames of
     None \<Rightarrow> [] | Some f \<Rightarrow> payload_or f)"

definition list_or_empty :: "pyval \<Rightarrow> pyval list" where
  "list_or_empty v = (case v of VList xs \<Rightarrow> xs | _ \<Rightarrow> [])"

definition identity_from_frames :: "recorded_frame list \<Rightarrow> client_identity" where
  "identity_from_frames frames = (
     let init = payload_of_first ''client/init'' frames;
         hello = payload_of_first ''client/hello'' frames;
         formats = (case dict_get ''player@v1_support'' hello of
           VDict player \<Rightarrow> dict_get ''supported_formats'' player | _ \<Rightarrow> VNone)
     in \<lparr>ci_name = str_of (dict_get ''name'' hello),
         ci_client_id = str_of (dict_get ''client_id'' init),
         ci_device_info = dict_of (dict_get ''device_info'' hello),
         ci_supported_roles = list_or_empty (dict_get ''supported_roles'' hello),
         ci_supported_formats = list_or_empty formats\<rparr>)"

definition identity_to_json :: "client_identity \<Rightarrow> pydict" where
  "identity_to_json c = [(''client_id'', opt_str (ci_client_id c)),
     (''device_info'', VDict (case ci_device_info c of None \<Rightarrow> [] | Some d \<Rightarrow> d)),
     (''name'', opt_str (ci_name c)),
     (''supported_formats'', VList (ci_supported_formats c)),
     (''supported_roles'', VList (ci_supported_roles c))]"

section \<open>The bundled library\<close>

text \<open>
  A line that is the prefix, some text and the suffix: what \<open>.+\<close> matches of it. The patterns are
  matched line by line.
\<close>

definition between :: "string \<Rightarrow> string \<Rightarrow> string \<Rightarrow> string option" where
  "between pre suf line = (
     if starts_with line pre \<and> ends_with line suf \<and> length pre + length suf < length line
     then Some (take (length line - length pre - length suf) (drop (length pre) line)) else None)"

definition vendored_field :: "string \<Rightarrow> string list \<Rightarrow> string option" where
  "vendored_field name lines = (
     let values = List.map_filter (between (''- '' @ name @ '': `'') ''`'') lines
     in if values = [] then None else Some (last values))"

definition vendored_patches :: "string list \<Rightarrow> string list" where
  "vendored_patches lines = map (\<lambda>name. name @ ''.patch'') (List.map_filter (between ''  - `'' ''.patch`'') lines)"

record vendored_bundle =
  bu_commit :: "string option"
  bu_patches :: "string list"
  bu_ref :: "string option"

definition bundled_aiosendspin :: "string \<Rightarrow> vendored_bundle" where
  "bundled_aiosendspin text = (
     let lines = split_on (CHR 0x0A) text
     in \<lparr>bu_commit = vendored_field ''Commit'' lines, bu_patches = vendored_patches lines,
         bu_ref = vendored_field ''Ref'' lines\<rparr>)"

definition bundle_to_json :: "vendored_bundle \<Rightarrow> pydict" where
  "bundle_to_json b = [(''commit'', opt_str (bu_commit b)), (''patches'', VList (map VStr (bu_patches b))),
     (''ref'', opt_str (bu_ref b))]"

section \<open>The report\<close>

definition SPEC_TAG :: string where
  "SPEC_TAG = ''1.0.0-rc1''"

definition SUMMARY_KEYS :: "(verdict \<times> string) list" where
  "SUMMARY_KEYS = [(PASS, ''pass''), (FAIL, ''fail''), (WARN, ''warn''), (SKIPPED, ''skipped''),
     (NOT_APPLICABLE, ''n_a''), (TOOL_ERROR, ''tool_error'')]"

text \<open>Tuples and strings are compared as Python compares them; a verdict is its string.\<close>

definition report_order :: "finding \<Rightarrow> string \<times> int list \<times> string \<times> string" where
  "report_order f = (fi_id f, fi_frames f, fi_message f, verdict_value (fi_verdict f))"

definition sort_findings :: "finding list \<Rightarrow> finding list" where
  "sort_findings findings = sort_key report_order findings"

definition summarize :: "finding list \<Rightarrow> (string \<times> nat) list" where
  "summarize findings = map (\<lambda>(v, key). (key, length (filter (\<lambda>f. fi_verdict f = v) findings))) SUMMARY_KEYS"

definition tool_version :: "string \<Rightarrow> string" where
  "tool_version version = ''sendspin-validate '' @ version"

text \<open>The document, whose \<open>human_answers\<close> are always empty.\<close>

record validation_report =
  vr_aiosendspin :: vendored_bundle
  vr_client :: client_identity
  vr_connection_mode :: string
  vr_findings :: "finding list"
  vr_seed :: int
  vr_summary :: "(string \<times> nat) list"
  vr_tool :: string

definition build_report :: "string \<Rightarrow> string \<Rightarrow> client_identity \<Rightarrow> string \<Rightarrow> int \<Rightarrow> finding list \<Rightarrow> validation_report" where
  "build_report vendored version client connection_mode seed findings = (
     let ordered = sort_findings findings
     in \<lparr>vr_aiosendspin = bundled_aiosendspin vendored, vr_client = client, vr_connection_mode = connection_mode,
         vr_findings = ordered, vr_seed = seed, vr_summary = summarize ordered, vr_tool = tool_version version\<rparr>)"

definition report_to_json :: "validation_report \<Rightarrow> pydict" where
  "report_to_json r = [(''aiosendspin'', VDict (bundle_to_json (vr_aiosendspin r))),
     (''client'', VDict (identity_to_json (vr_client r))), (''connection_mode'', VStr (vr_connection_mode r)),
     (''findings'', VList (map (VDict \<circ> finding_to_json) (vr_findings r))), (''human_answers'', VList []),
     (''seed'', VInt (vr_seed r)), (''spec'', VStr SPEC_TAG),
     (''summary'', VDict (map (\<lambda>(k, n). (k, VInt (int n))) (vr_summary r))), (''tool'', VStr (vr_tool r))]"

definition count_under :: "string \<Rightarrow> validation_report \<Rightarrow> nat" where
  "count_under key r = (case map_of (vr_summary r) key of None \<Rightarrow> 0 | Some n \<Rightarrow> n)"

definition ljust :: "nat \<Rightarrow> string \<Rightarrow> string" where
  "ljust n s = s @ replicate (n - length s) (CHR '' '')"

definition summary_lines :: "validation_report \<Rightarrow> string list" where
  "summary_lines r = ['''', ''Summary'', ''  '' @ ljust 11 ''Verdict'' @ ''Count'']
     @ map (\<lambda>(v, key). ''  '' @ ljust 11 (verdict_value v) @ nat_str (count_under key r)) SUMMARY_KEYS"

section \<open>The run's directory\<close>

definition safe_char :: "char \<Rightarrow> bool" where
  "safe_char c \<longleftrightarrow> is_ascii_upper c \<or> is_ascii_lower c \<or> is_digit c \<or> c \<in> set ''._-''"

text \<open>\<open>re.sub("[^A-Za-z0-9._-]+", "-", s)\<close>; the flag says that a run of other characters has begun.\<close>

fun squeeze :: "bool \<Rightarrow> string \<Rightarrow> string" where
  "squeeze run [] = []"
| "squeeze run (c # cs) = (
     if safe_char c then c # squeeze False cs
     else if run then squeeze True cs
     else CHR ''-'' # squeeze True cs)"

definition strip_of :: "string \<Rightarrow> string \<Rightarrow> string" where
  "strip_of chars s = rev (dropWhile (\<lambda>c. c \<in> set chars) (rev (dropWhile (\<lambda>c. c \<in> set chars) s)))"

definition slug_of :: "string option \<Rightarrow> string" where
  "slug_of client_name = (
     let slug = strip_of ''-.'' (squeeze False (case client_name of None \<Rightarrow> [] | Some s \<Rightarrow> s))
     in if slug = [] then ''unknown-client'' else slug)"

text \<open>\<open>taken\<close> are the names that exist under the parent; \<open>mkdir\<close> of another succeeds.\<close>

partial_function (option) make_directory ::
    "(string \<Rightarrow> bool) \<Rightarrow> string \<Rightarrow> string \<Rightarrow> nat \<Rightarrow> string option" where
  "make_directory taken base directory attempt = (
     if taken directory then make_directory taken base (base @ ''-'' @ nat_str (Suc attempt)) (Suc attempt)
     else Some directory)"

definition run_directory :: "(string \<Rightarrow> bool) \<Rightarrow> string option \<Rightarrow> string \<Rightarrow> string option" where
  "run_directory taken client_name stamp = (
     let base = ''sendspin-validate-'' @ slug_of client_name @ ''-'' @ stamp
     in make_directory taken base base 1)"

end
