(* ===== verification/Report_Page.thy ===== *)
theory Report_Page
  imports Reports
begin

text \<open>
  \<open>render_html\<close> of \<open>validator/report.py\<close>, the exit status of \<open>validator/cli.py\<close>, and what
  \<open>validator/prompter.py\<close> makes of a line the user typed.
\<close>

section \<open>The page\<close>

text \<open>\<open>html.escape\<close>.\<close>

definition escape_char :: "char \<Rightarrow> string" where
  "escape_char c = (
     if c = CHR ''&'' then ''&amp;''
     else if c = CHR ''<'' then ''&lt;''
     else if c = CHR ''>'' then ''&gt;''
     else if c = CHR 0x22 then ''&quot;''
     else if c = CHR 0x27 then ''&#x27;''
     else [c])"

definition html_escape :: "string \<Rightarrow> string" where
  "html_escape s = concat (map escape_char s)"

definition escaped :: "pyval \<Rightarrow> string" where
  "escaped v = html_escape (if v = VNone then [] else py_str v)"

definition verdict_class :: "string \<Rightarrow> string" where
  "verdict_class v = (case map_of [(''FAIL'', ''fail''), (''TOOL_ERROR'', ''fail''), (''WARN'', ''warn''),
       (''PASS'', ''pass'')] v of None \<Rightarrow> ''other'' | Some c \<Rightarrow> c)"

definition opt_text_str :: "string option \<Rightarrow> string" where
  "opt_text_str s = py_str (opt_str s)"

definition page_details :: "validation_report \<Rightarrow> (string \<times> pyval) list" where
  "page_details r = [
     (''Client'', opt_str (ci_name (vr_client r))),
     (''Client id'', opt_str (ci_client_id (vr_client r))),
     (''Roles'', VStr (join '', '' (map py_str (ci_supported_roles (vr_client r))))),
     (''Connection mode'', VStr (vr_connection_mode r)),
     (''Spec'', VStr SPEC_TAG),
     (''Tool'', VStr (vr_tool r)),
     (''aiosendspin'', VStr (opt_text_str (bu_ref (vr_aiosendspin r)) @ '' (''
        @ opt_text_str (bu_commit (vr_aiosendspin r)) @ '')'')),
     (''Patches'', VStr (join '', '' (bu_patches (vr_aiosendspin r)))),
     (''Seed'', VInt (vr_seed r))]"

definition attr :: "string \<Rightarrow> string" where
  "attr value = dq @ value @ dq"

definition page_row :: "finding \<Rightarrow> string" where
  "page_row f = ''<tr class='' @ attr (verdict_class (verdict_value (fi_verdict f))) @ ''><td>'' @ escaped (VStr (fi_id f))
     @ ''</td><td>'' @ escaped (VStr (verdict_value (fi_verdict f)))
     @ ''</td><td>'' @ escaped (VStr (fi_spec_ref f)) @ ''</td><td>'' @ escaped (VStr (fi_message f))
     @ ''</td><td>'' @ escaped (VStr (join '', '' (map int_str (fi_frames f)))) @ ''</td></tr>''"

definition detail_row :: "string \<times> pyval \<Rightarrow> string" where
  "detail_row d = ''<tr><th>'' @ escaped (VStr (fst d)) @ ''</th><td>'' @ escaped (snd d) @ ''</td></tr>''"

definition page_head :: "string list" where
  "page_head = [
     ''<!doctype html>'',
     ''<html lang='' @ attr ''en'' @ ''>'',
     ''<head>'',
     ''<meta charset='' @ attr ''utf-8'' @ ''>'',
     ''<meta name='' @ attr ''viewport'' @ '' content='' @ attr ''width=device-width, initial-scale=1'' @ ''>'',
     ''<title>Sendspin validation report</title>'',
     ''<style>'',
     '':root { --bg: #ffffff; --fg: #1d1d1f; --muted: #6e6e73; --line: #d2d2d7;'',
     ''  --fail: #c62828; --warn: #a15c00; --pass: #2e7d32; }'',
     ''@media (prefers-color-scheme: dark) {'',
     ''  :root { --bg: #161618; --fg: #f5f5f7; --muted: #a1a1a6; --line: #3a3a3c;'',
     ''    --fail: #ef5350; --warn: #ffb74d; --pass: #81c784; }'',
     ''}'',
     ''body { margin: 0 auto; max-width: 1100px; padding: 24px 16px; background: var(--bg);'',
     ''  color: var(--fg); font: 15px/1.5 -apple-system, system-ui, sans-serif; }'',
     ''h1 { font-size: 1.5em; margin: 0 0 16px; }'',
     ''table { border-collapse: collapse; width: 100%; margin: 0 0 24px; }'',
     ''th, td { border-bottom: 1px solid var(--line); padding: 6px 8px; text-align: left;'',
     ''  vertical-align: top; overflow-wrap: anywhere; }'',
     ''th { color: var(--muted); font-weight: 600; }'',
     ''.details th { width: 12em; }'',
     ''.fail td:nth-child(2) { color: var(--fail); font-weight: 600; }'',
     ''.warn td:nth-child(2) { color: var(--warn); font-weight: 600; }'',
     ''.pass td:nth-child(2) { color: var(--pass); }'',
     ''.other td:nth-child(2) { color: var(--muted); }'',
     ''.scroll { overflow-x: auto; }'',
     ''</style>'',
     ''</head>'',
     ''<body>'',
     ''<h1>Sendspin validation report</h1>'',
     ''<table class='' @ attr ''details'' @ ''>'']"

definition page_middle :: "string list" where
  "page_middle = [
     ''<div class='' @ attr ''scroll'' @ ''>'',
     ''<table>'',
     ''<tr><th>Check</th><th>Verdict</th><th>Spec</th><th>Finding</th><th>Frames</th></tr>'']"

definition page_foot :: "string list" where
  "page_foot = [''</table>'', ''</div>'', ''</body>'', ''</html>'', '''']"

definition render_html :: "validation_report \<Rightarrow> string" where
  "render_html r = join [CHR 0x0A] (
     page_head
     @ [concat (map detail_row (page_details r)), ''</table>'', ''<table>'',
        ''<tr>'' @ concat (map (\<lambda>(v, key). ''<th>'' @ escaped (VStr (verdict_value v)) @ ''</th>'') SUMMARY_KEYS) @ ''</tr>'',
        ''<tr>'' @ concat (map (\<lambda>(v, key). ''<td>'' @ nat_str (count_under key r) @ ''</td>'') SUMMARY_KEYS) @ ''</tr>'',
        ''</table>'']
     @ page_middle
     @ [join [CHR 0x0A] (map page_row (vr_findings r))]
     @ page_foot)"

section \<open>The exit status\<close>

definition EXIT_CLEAN :: nat where "EXIT_CLEAN = 0"
definition EXIT_FINDINGS :: nat where "EXIT_FINDINGS = 1"
definition EXIT_NO_REPORT :: nat where "EXIT_NO_REPORT = 2"

record session_result =
  sr_mode :: string
  sr_connection :: int
  sr_txt_name :: "string option"
  sr_url :: "string option"
  sr_later_connections :: "int list"
  sr_findings :: "finding list"

definition ignored_connections :: "recorder \<Rightarrow> session_result \<Rightarrow> int list" where
  "ignored_connections recorder result = sorted_list_of_set
     (fr_connection ` set (rc_frames recorder) - insert (sr_connection result) (set (sr_later_connections result)))"

definition validation_findings :: "recorder \<Rightarrow> session_result \<Rightarrow> finding list py" where
  "validation_findings recorder result = py_bind
     (judge_session (rc_frames recorder) (rc_noncompliance recorder) (rc_tool_errors recorder)
       (sr_connection result) (sr_later_connections result) (sr_txt_name result))
     (\<lambda>first. Inr (first @ sr_findings result))"

definition validation_report_of :: "string \<Rightarrow> string \<Rightarrow> recorder \<Rightarrow> session_result \<Rightarrow> int \<Rightarrow> validation_report py" where
  "validation_report_of vendored version recorder result seed = py_bind (validation_findings recorder result) (\<lambda>findings.
     Inr (build_report vendored version
       (identity_from_frames (filter (\<lambda>f. fr_connection f = sr_connection result) (rc_frames recorder)))
       (sr_mode result) seed findings))"

definition exit_status :: "validation_report \<Rightarrow> nat" where
  "exit_status r = (if count_under ''fail'' r \<noteq> 0 \<or> count_under ''tool_error'' r \<noteq> 0 then EXIT_FINDINGS else EXIT_CLEAN)"

text \<open>
  \<open>main\<close>: what \<open>asyncio.run\<close> gave, or raised. The report is written before the status is returned; an
  exception that is none of the three ends the program.
\<close>

definition validator_main :: "string \<Rightarrow> string \<Rightarrow> recorder \<Rightarrow> session_result option py \<Rightarrow> int \<Rightarrow> nat py" where
  "validator_main vendored version recorder outcome seed = (case outcome of
     Inl e \<Rightarrow> if exc_name e \<in> set [''EOFError'', ''KeyboardInterrupt'', ''PortUnavailableError'']
              then Inr EXIT_NO_REPORT else Inl e
   | Inr None \<Rightarrow> Inr EXIT_NO_REPORT
   | Inr (Some result) \<Rightarrow> py_bind (validation_report_of vendored version recorder result seed)
       (\<lambda>r. Inr (exit_status r)))"

section \<open>The terminal\<close>

text \<open>\<open>printable\<close>; \<open>unicode_escape\<close> of a character that is not printable.\<close>

definition unicode_escape :: "char \<Rightarrow> string" where
  "unicode_escape c = (let n = of_char c :: nat in
     if n = 9 then [CHR 0x5C, CHR ''t'']
     else if n = 10 then [CHR 0x5C, CHR ''n'']
     else if n = 13 then [CHR 0x5C, CHR ''r'']
     else [CHR 0x5C, CHR ''x'', hex_char (n div 16), hex_char n])"

definition printable :: "string \<Rightarrow> string" where
  "printable text = concat (map (\<lambda>c. if is_printable c \<or> c = CHR 0x0A then [c] else unicode_escape c) text)"

datatype reply = ANSWERED | SKIP | RETRY | NOT_SURE

record 'a answer =
  an_reply :: reply
  an_value :: "'a option"

definition answered :: "'a \<Rightarrow> 'a answer" where
  "answered v = \<lparr>an_reply = ANSWERED, an_value = Some v\<rparr>"

definition human_verdict :: "'a answer \<Rightarrow> 'a \<Rightarrow> verdict py" where
  "human_verdict answer expected = (case an_reply answer of
     ANSWERED \<Rightarrow> Inr (if an_value answer = Some expected then PASS else FAIL)
   | SKIP \<Rightarrow> Inr SKIPPED
   | NOT_SURE \<Rightarrow> Inr SKIPPED
   | RETRY \<Rightarrow> Inl (PyExc ''ValueError'' ''a retry has no verdict; repeat the step''))"

text \<open>One turn of \<open>_ask\<close>: \<open>None\<close> when the line is no answer and the question is asked again.\<close>

definition controls :: "(string \<times> reply) list" where
  "controls = [(''s'', SKIP), (''r'', RETRY), (''?'', NOT_SURE)]"

definition read_answer :: "(string \<Rightarrow> 'a option) \<Rightarrow> string \<Rightarrow> 'a answer option" where
  "read_answer parse line = (case map_of controls (lower (strip line)) of
     Some reply \<Rightarrow> Some \<lparr>an_reply = reply, an_value = None\<rparr>
   | None \<Rightarrow> map_option answered (parse (strip line)))"

definition parse_text :: "string \<Rightarrow> string option" where
  "parse_text line = (if line = [] then None else Some line)"

definition parse_choice :: "nat \<Rightarrow> string \<Rightarrow> nat option" where
  "parse_choice choices line = (
     if line \<noteq> [] \<and> list_all is_digit line \<and> 1 \<le> parse_nat line \<and> parse_nat line \<le> choices
     then Some (parse_nat line - 1) else None)"

definition parse_yes :: "string \<Rightarrow> bool option" where
  "parse_yes line = map_of [(''y'', True), (''yes'', True), (''n'', False), (''no'', False)] (lower line)"

end
