(* ===== verification/Report_Facts.thy ===== *)
theory Report_Facts
  imports Report_Page Check_Facts "HOL-Library.Multiset"
begin

text \<open>
  What the report of a validation is: an order of its findings that does not depend on the run's,
  counts, a page whose markup no value of the client's can change, and a directory of its own.
\<close>

section \<open>Findings\<close>

lemma mset_sort_findings: "mset (sort_findings fs) = mset fs"
  by (simp add: sort_findings_def)

lemma set_sort_findings: "set (sort_findings fs) = set fs"
  by (simp add: sort_findings_def)

lemma report_independent:
  assumes "mset fs = mset gs" and "inj_on report_order (set fs)"
  shows "sort_findings fs = sort_findings gs"
proof -
  have "sort_key report_order gs = sort_key report_order fs"
    by (rule sort_key_inj_key_eq) (use assms in \<open>simp_all add: mset_eq_setD [OF assms(1)]\<close>)
  then show ?thesis by (simp add: sort_findings_def)
qed

lemma count_reported:
  "count_under key (build_report vendored version client mode seed fs)
     = (case find (\<lambda>(v, k). k = key) SUMMARY_KEYS of None \<Rightarrow> 0
        | Some (v, k) \<Rightarrow> length (filter (\<lambda>f. fi_verdict f = v) fs))"
proof -
  have "length (filter (\<lambda>f. fi_verdict f = v) (sort_findings fs)) = length (filter (\<lambda>f. fi_verdict f = v) fs)" for v
    unfolding sort_findings_def by (metis filter_sort length_sort)
  then show ?thesis by (simp add: count_under_def build_report_def Let_def summarize_def SUMMARY_KEYS_def)
qed

definition bad_verdict :: "finding \<Rightarrow> bool" where
  "bad_verdict f \<longleftrightarrow> fi_verdict f = FAIL \<or> fi_verdict f = TOOL_ERROR"

lemma exit_of_report:
  "exit_status (build_report vendored version client mode seed fs) = (if list_ex bad_verdict fs then EXIT_FINDINGS else EXIT_CLEAN)"
  by (auto simp: exit_status_def count_reported SUMMARY_KEYS_def bad_verdict_def list_ex_iff filter_empty_conv)

lemma summary_total:
  "sum_list (map snd (summarize fs)) = length fs"
proof (induction fs)
  case (Cons f fs)
  then show ?case by (cases "fi_verdict f") (simp_all add: summarize_def SUMMARY_KEYS_def)
qed (simp add: summarize_def SUMMARY_KEYS_def)

section \<open>Markup\<close>

text \<open>The tags of a text: what stands between angle brackets.\<close>

fun tags :: "bool \<Rightarrow> string \<Rightarrow> string" where
  "tags inside [] = []"
| "tags inside (c # cs) = (
     if c = CHR ''<'' then c # tags True cs
     else if c = CHR ''>'' then c # tags False cs
     else if inside then c # tags inside cs else tags inside cs)"

fun inside_after :: "bool \<Rightarrow> string \<Rightarrow> bool" where
  "inside_after inside [] = inside"
| "inside_after inside (c # cs) = inside_after (c = CHR ''<'' \<or> inside \<and> c \<noteq> CHR ''>'') cs"

lemma tags_append: "tags b (s @ t) = tags b s @ tags (inside_after b s) t"
  by (induction s arbitrary: b) auto

lemma inside_append: "inside_after b (s @ t) = inside_after (inside_after b s) t"
  by (induction s arbitrary: b) auto

definition plain :: "string \<Rightarrow> bool" where
  "plain s \<longleftrightarrow> list_all (\<lambda>c. c \<noteq> CHR ''<'' \<and> c \<noteq> CHR ''>'') s"

lemma plain_simps [simp]:
  "plain (s @ t) \<longleftrightarrow> plain s \<and> plain t"
  "plain [] " "plain (c # s) \<longleftrightarrow> c \<noteq> CHR ''<'' \<and> c \<noteq> CHR ''>'' \<and> plain s"
  by (simp_all add: plain_def)

lemma plain_tags: "plain s \<Longrightarrow> tags False s = [] \<and> \<not> inside_after False s"
  by (induction s) auto

lemma plain_escape: "plain (html_escape s)"
  by (induction s) (simp_all add: html_escape_def escape_char_def)

lemma plain_escaped: "plain (escaped v)"
  by (simp add: escaped_def plain_escape)

lemma plain_nat_str: "plain (nat_str n)"
proof -
  have "\<not> is_digit (CHR ''<'')" "\<not> is_digit (CHR ''>'')" by code_simp+
  then show ?thesis using nat_str_digits [of n] unfolding plain_def list_all_iff by blast
qed

text \<open>Two texts with the same tags, neither ending within one.\<close>

definition same_tags :: "string \<Rightarrow> string \<Rightarrow> bool" where
  "same_tags s t \<longleftrightarrow> tags False s = tags False t \<and> \<not> inside_after False s \<and> \<not> inside_after False t"

lemma same_append: "same_tags s t \<Longrightarrow> same_tags u v \<Longrightarrow> same_tags (s @ u) (t @ v)"
  by (simp add: same_tags_def tags_append inside_append)

lemma same_plain: "plain s \<Longrightarrow> plain t \<Longrightarrow> same_tags s t"
  by (simp add: same_tags_def plain_tags)

lemma same_self: "\<not> inside_after False s \<Longrightarrow> same_tags s s"
  by (simp add: same_tags_def)

lemma same_concat: "list_all2 same_tags ss ts \<Longrightarrow> same_tags (concat ss) (concat ts)"
  by (induction rule: list_all2_induct) (simp_all add: same_plain same_append)

lemma same_join: "list_all2 same_tags ss ts \<Longrightarrow> plain sep \<Longrightarrow> same_tags (join sep ss) (join sep ts)"
proof (induction rule: list_all2_induct)
  case (Cons s ss t ts)
  then show ?case
    by (cases ss; cases ts) (auto intro!: same_append intro: same_plain)
qed (simp add: same_plain)

lemma same_map: "(\<And>x. x \<in> set xs \<Longrightarrow> same_tags (f x) (g x)) \<Longrightarrow> list_all2 same_tags (map f xs) (map g xs)"
  by (induction xs) auto

text \<open>The parts of the page.\<close>

lemma markup_closed: "list_all (\<lambda>l. \<not> inside_after False l) [''<td>'', ''</td>'', ''<th>'', ''</th>'', ''<tr><th>'', ''</th><td>'', ''</td></tr>'', ''</td><td>'', ''<tr>'', ''</tr>'']"
  by code_simp

lemma row_closed: "list_all (\<lambda>c. \<not> inside_after False (''<tr class='' @ attr c @ ''><td>'')) [''pass'', ''fail'', ''warn'', ''other'']"
  by code_simp

lemma same_markup:
  "l \<in> set [''<td>'', ''</td>'', ''<th>'', ''</th>'', ''<tr><th>'', ''</th><td>'', ''</td></tr>'', ''</td><td>'', ''<tr>'', ''</tr>'']
   \<Longrightarrow> same_tags l l"
  using markup_closed unfolding list_all_iff by (intro same_self) (erule (1) bspec)

lemma same_cell:
  "plain u \<Longrightarrow> plain v \<Longrightarrow> same_tags (''<td>'' @ u @ ''</td>'') (''<td>'' @ v @ ''</td>'')"
  "plain u \<Longrightarrow> plain v \<Longrightarrow> same_tags (''<th>'' @ u @ ''</th>'') (''<th>'' @ v @ ''</th>'')"
  by (intro same_append same_plain same_markup; simp only: list.set insert_iff simp_thms)+

lemma detail_rows: "same_tags (detail_row (l, v)) (detail_row (l, w))"
  unfolding detail_row_def
  by (intro same_append same_plain same_markup plain_escaped) (simp_all only: list.set insert_iff simp_thms fst_conv)

definition row_class :: "finding \<Rightarrow> string" where
  "row_class f = verdict_class (verdict_value (fi_verdict f))"

lemma row_classes: "row_class f \<in> {''pass'', ''fail'', ''warn'', ''other''}"
  by (cases "fi_verdict f") (simp_all add: row_class_def verdict_class_def)

lemma page_rows:
  assumes "row_class f = row_class g"
  shows "same_tags (page_row f) (page_row g)"
proof -
  have "row_class f \<in> set [''pass'', ''fail'', ''warn'', ''other'']"
    using row_classes [of f] by (simp only: list.set)
  then have "\<not> inside_after False (''<tr class='' @ attr (row_class f) @ ''><td>'')"
    using row_closed unfolding list_all_iff by (rule bspec [rotated])
  then have head: "same_tags (''<tr class='' @ attr (row_class f) @ ''><td>'') (''<tr class='' @ attr (row_class f) @ ''><td>'')"
    by (rule same_self)
  have cell: "same_tags ''</td><td>'' ''</td><td>''" and foot: "same_tags ''</td></tr>'' ''</td></tr>''"
    by (rule same_markup, simp only: list.set insert_iff simp_thms)+
  have cells: "same_tags (escaped v) (escaped w)" for v w
    by (intro same_plain plain_escaped)
  have "same_tags (h @ escaped a @ c @ escaped b @ c @ escaped x @ c @ escaped y @ c @ escaped z @ f)
      (h @ escaped a' @ c @ escaped b' @ c @ escaped x' @ c @ escaped y' @ c @ escaped z' @ f)"
    if "same_tags h h" "same_tags c c" "same_tags f f" for h c f a b x y z a' b' x' y' z'
    by (intro same_append cells that)
  from this [OF head cell foot] show ?thesis using assms by (simp only: page_row_def row_class_def append_assoc)
qed

lemma head_closed: "list_all (\<lambda>l. \<not> inside_after False l) page_head"
  by code_simp

lemma rest_closed: "list_all (\<lambda>l. \<not> inside_after False l) (page_middle @ page_foot @ [''</table>'', ''<table>''])"
  by code_simp

lemma page_markup:
  assumes "map row_class (vr_findings r) = map row_class (vr_findings r')"
  shows "tags False (render_html r) = tags False (render_html r')"
proof -
  have details: "same_tags (concat (map detail_row (page_details r))) (concat (map detail_row (page_details r')))"
    unfolding page_details_def by (rule same_concat) (simp add: detail_rows)
  have summary: "same_tags (''<tr>'' @ concat (map (\<lambda>(v, key). ''<td>'' @ nat_str (count_under key r) @ ''</td>'') SUMMARY_KEYS) @ ''</tr>'')
      (''<tr>'' @ concat (map (\<lambda>(v, key). ''<td>'' @ nat_str (count_under key r') @ ''</td>'') SUMMARY_KEYS) @ ''</tr>'')"
    by (intro same_append same_concat same_map)
      (simp_all only: case_prod_beta, intro same_self, simp, intro same_cell plain_nat_str, intro same_self, simp)
  have names: "same_tags (''<tr>'' @ concat (map (\<lambda>(v, key). ''<th>'' @ escaped (VStr (verdict_value v)) @ ''</th>'') SUMMARY_KEYS) @ ''</tr>'')
      (''<tr>'' @ concat (map (\<lambda>(v, key). ''<th>'' @ escaped (VStr (verdict_value v)) @ ''</th>'') SUMMARY_KEYS) @ ''</tr>'')"
    by (intro same_append same_concat same_map)
      (simp_all only: case_prod_beta, intro same_self, simp, intro same_cell plain_escaped, intro same_self, simp)
  have "list_all2 same_tags (map page_row (vr_findings r)) (map page_row (vr_findings r'))"
    using assms by (auto simp: list_all2_conv_all_nth list_eq_iff_nth_eq page_rows)
  then have rows: "same_tags (join [CHR 0x0A] (map page_row (vr_findings r))) (join [CHR 0x0A] (map page_row (vr_findings r')))"
    by (rule same_join) simp
  have fixed: "list_all2 same_tags ls ls" if "list_all (\<lambda>l. \<not> inside_after False l) ls" for ls
    using that by (induction ls) (simp_all add: same_self)
  have "same_tags (render_html r) (render_html r')"
    unfolding render_html_def
    by (intro same_join list_all2_appendI fixed head_closed)
      (use rest_closed details summary names rows in \<open>auto simp: same_self intro: fixed\<close>)
  then show ?thesis by (simp add: same_tags_def)
qed

section \<open>The run's directory\<close>

text \<open>The name of the n-th attempt.\<close>

definition attempt_name :: "string \<Rightarrow> nat \<Rightarrow> string" where
  "attempt_name base n = (if n \<le> 1 then base else base @ ''-'' @ nat_str n)"

lemma make_directory_from:
  "1 \<le> n \<Longrightarrow> n \<le> m \<Longrightarrow> \<not> taken (attempt_name base m) \<Longrightarrow> \<forall>j. n \<le> j \<longrightarrow> j < m \<longrightarrow> taken (attempt_name base j) \<Longrightarrow>
   make_directory taken base (attempt_name base n) n = Some (attempt_name base m)"
proof (induction "m - n" arbitrary: n)
  case 0
  then show ?case by (subst make_directory.simps) simp
next
  case (Suc i)
  then have "taken (attempt_name base n)" by simp
  moreover have "attempt_name base (Suc n) = base @ ''-'' @ nat_str (Suc n)" using Suc.prems(1) by (simp add: attempt_name_def)
  moreover have "make_directory taken base (attempt_name base (Suc n)) (Suc n) = Some (attempt_name base m)"
    using Suc by (intro Suc.hyps(1)) auto
  ultimately show ?case by (subst make_directory.simps) simp
qed

lemma inj_attempt_name: "attempt_name base m = attempt_name base n \<Longrightarrow> 1 \<le> m \<Longrightarrow> 1 \<le> n \<Longrightarrow> m = n"
  by (auto simp: attempt_name_def nat_str_inj split: if_splits)

text \<open>With finitely many names taken, the first free one is found.\<close>

lemma first_free:
  assumes "finite {d. taken d}"
  obtains m where "1 \<le> m" "\<not> taken (attempt_name base m)" "\<forall>j. 1 \<le> j \<longrightarrow> j < m \<longrightarrow> taken (attempt_name base j)"
proof -
  have "\<exists>m. 1 \<le> m \<and> \<not> taken (attempt_name base m)"
  proof (rule ccontr)
    assume "\<not> ?thesis"
    then have "attempt_name base ` {1..} \<subseteq> {d. taken d}" by auto
    then have "finite (attempt_name base ` {1..})" using assms finite_subset by blast
    moreover have "inj_on (attempt_name base) {1..}" by (auto intro!: inj_onI inj_attempt_name)
    ultimately have "finite {(1::nat)..}" using finite_imageD by blast
    then show False using infinite_Ici by blast
  qed
  then obtain m where "1 \<le> m \<and> \<not> taken (attempt_name base m)"
    and "\<And>j. j < m \<Longrightarrow> \<not> (1 \<le> j \<and> \<not> taken (attempt_name base j))"
    using exists_least_iff [of "\<lambda>m. 1 \<le> m \<and> \<not> taken (attempt_name base m)"] by blast
  then show thesis using that by blast
qed

lemma squeeze_safe: "list_all safe_char (squeeze run s)"
proof (induction run s rule: squeeze.induct)
  case (2 run c cs)
  have "safe_char (CHR ''-'')" by code_simp
  with 2 show ?case by simp
qed simp

lemma set_strip_of: "set (strip_of chars s) \<subseteq> set s"
  by (auto simp: strip_of_def dest!: set_dropWhileD)

lemma slug_safe: "list_all safe_char (slug_of name) \<and> slug_of name \<noteq> []"
proof -
  have "list_all safe_char ''unknown-client''" by code_simp
  then show ?thesis
    using squeeze_safe [of False "case name of None \<Rightarrow> [] | Some s \<Rightarrow> s"]
      set_strip_of [of "''-.''" "squeeze False (case name of None \<Rightarrow> [] | Some s \<Rightarrow> s)"]
    by (auto simp: slug_of_def Let_def list_all_iff)
qed

section \<open>The terminal\<close>

definition terminal_safe :: "char \<Rightarrow> bool" where
  "terminal_safe c \<longleftrightarrow> is_printable c \<or> c = CHR 0x0A"

lemma escape_safe: "list_all terminal_safe (unicode_escape c)"
proof -
  have digits: "list_all (\<lambda>d. terminal_safe (hex_char d)) [0..<16]" by code_simp
  have "terminal_safe (hex_char d)" for d
  proof -
    have "hex_char d = hex_char (d mod 16)" by (simp add: hex_char_def)
    moreover have "d mod 16 \<in> set [0..<16]" by simp
    ultimately show ?thesis using digits unfolding list_all_iff by metis
  qed
  moreover have "list_all terminal_safe [CHR 0x5C, CHR ''t'', CHR ''n'', CHR ''r'', CHR ''x'']" by code_simp
  ultimately show ?thesis by (simp add: unicode_escape_def Let_def)
qed

lemma printable_safe: "list_all terminal_safe (printable s)"
  using escape_safe by (induction s) (auto simp: printable_def terminal_safe_def)

lemma printable_keeps: "list_all terminal_safe s \<Longrightarrow> printable s = s"
  by (induction s) (auto simp: printable_def terminal_safe_def)

end
