(* ===== verification/Report_Properties.thy ===== *)
theory Report_Properties
  imports Report_Facts
begin

text \<open>
  The properties of a validation's end: the exit status is decided by the findings alone, the report
  does not depend on the order the run found them in, no value of the client's changes the markup of
  the page or reaches the terminal as a control character, and a run gets a directory of its own.
\<close>

text \<open>
  a validation that got a client ends with a status, whatever was recorded: 1 exactly when a
  finding of the opening exchange or of the suites is a FAIL or a TOOL_ERROR, and 0 otherwise.
\<close>

theorem exit_status_exact:
  "\<exists>first. judge_session (rc_frames recorder) (rc_noncompliance recorder) (rc_tool_errors recorder)
       (sr_connection result) (sr_later_connections result) (sr_txt_name result) = Inr first
     \<and> validator_main vendored version recorder (Inr (Some result)) seed
       = Inr (if list_ex bad_verdict (first @ sr_findings result) then EXIT_FINDINGS else EXIT_CLEAN)"
proof -
  obtain fs where "run_checks (sr_txt_name result)
      (connection_of (sr_connection result) (rc_frames recorder) (rc_noncompliance recorder) []) = Inr fs"
    using run_checks_reports by blast
  then show ?thesis
    by (simp add: judge_session_Inr validator_main_def validation_report_of_def validation_findings_def exit_of_report)
qed

text \<open>
  the report is the same in whatever order the findings were reached, if no two agree in id,
  frames, message and verdict.
\<close>

theorem report_order_independent:
  assumes "mset fs = mset gs" and "inj_on report_order (set fs)"
  shows "build_report vendored version client mode seed fs = build_report vendored version client mode seed gs"
  using report_independent [OF assms] by (simp add: build_report_def)

definition sample_finding :: "string \<Rightarrow> verdict \<Rightarrow> finding" where
  "sample_finding i v = \<lparr>fi_id = i, fi_verdict = v, fi_spec_ref = ''-'', fi_message = ''<b>'', fi_evidence = MACHINE, fi_frames = []\<rparr>"

theorem report_order_independent_witness:
  "build_report ''x'' ''1'' c m 0 [sample_finding ''A'' PASS, sample_finding ''B'' FAIL]
     = build_report ''x'' ''1'' c m 0 [sample_finding ''B'' FAIL, sample_finding ''A'' PASS]"
  by (rule report_order_independent) (simp_all add: sample_finding_def report_order_def)

text \<open>
  C35: the markup of the page depends on the verdicts only: two reports whose findings have the same
  classes, in order, render with the same tags, whatever the client's name, its roles and the
  messages contain.
\<close>

theorem page_markup_fixed:
  assumes "map row_class (vr_findings r) = map row_class (vr_findings r')"
  shows "tags False (render_html r) = tags False (render_html r')"
  by (rule page_markup [OF assms])

definition sample_report :: "string \<Rightarrow> validation_report" where
  "sample_report client = \<lparr>vr_aiosendspin = \<lparr>bu_commit = None, bu_patches = [], bu_ref = None\<rparr>,
     vr_client = \<lparr>ci_name = Some client, ci_client_id = None, ci_device_info = None, ci_supported_roles = [],
       ci_supported_formats = []\<rparr>, vr_connection_mode = '''', vr_findings = [sample_finding client PASS], vr_seed = 0,
     vr_summary = [], vr_tool = ''''\<rparr>"

theorem page_markup_fixed_witness:
  "tags False (render_html (sample_report ''<script>'')) = tags False (render_html (sample_report ''x''))"
  by (rule page_markup_fixed) (simp add: sample_report_def sample_finding_def row_class_def)

text \<open>
  while finitely many names are taken under the parent, a run's directory is found: it is the
  first free one of the base name and its numbered variants.
\<close>

theorem run_directory_found:
  assumes "finite {d. taken d}"
  shows "\<exists>n\<ge>1. run_directory taken client_name stamp
       = Some (attempt_name (''sendspin-validate-'' @ slug_of client_name @ ''-'' @ stamp) n)
     \<and> \<not> taken (attempt_name (''sendspin-validate-'' @ slug_of client_name @ ''-'' @ stamp) n)
     \<and> list_all (\<lambda>j. taken (attempt_name (''sendspin-validate-'' @ slug_of client_name @ ''-'' @ stamp) j)) [1..<n]"
proof -
  let ?base = "''sendspin-validate-'' @ slug_of client_name @ ''-'' @ stamp"
  obtain n where n: "1 \<le> n" "\<not> taken (attempt_name ?base n)" "\<forall>j. 1 \<le> j \<longrightarrow> j < n \<longrightarrow> taken (attempt_name ?base j)"
    using first_free [OF assms] by blast
  have "make_directory taken ?base (attempt_name ?base 1) 1 = Some (attempt_name ?base n)"
    by (rule make_directory_from [where taken = taken]) (use n in auto)
  then have "run_directory taken client_name stamp = Some (attempt_name ?base n)"
    by (simp add: run_directory_def attempt_name_def)
  then show ?thesis using n by (intro exI [of _ n]) (simp add: list_all_iff)
qed

theorem run_directory_found_witness:
  "\<exists>n\<ge>1. run_directory (\<lambda>d. d \<in> {''sendspin-validate-a-b-t''}) (Some ''a/b'') ''t''
       = Some (attempt_name (''sendspin-validate-'' @ slug_of (Some ''a/b'') @ ''-'' @ ''t'') n)
     \<and> \<not> attempt_name (''sendspin-validate-'' @ slug_of (Some ''a/b'') @ ''-'' @ ''t'') n \<in> {''sendspin-validate-a-b-t''}
     \<and> list_all (\<lambda>j. attempt_name (''sendspin-validate-'' @ slug_of (Some ''a/b'') @ ''-'' @ ''t'') j
         \<in> {''sendspin-validate-a-b-t''}) [1..<n]"
  by (rule run_directory_found) simp

text \<open>A client's name adds no separator to its directory's name.\<close>

theorem slug_is_file_name:
  "slug_of client_name \<noteq> [] \<and> list_all safe_char (slug_of client_name)"
  using slug_safe by blast

text \<open>
  What is printed has no control character but the newline, and text without any is printed as
  it is.
\<close>

theorem terminal_text_safe:
  "list_all terminal_safe (printable s) \<and> (list_all terminal_safe s \<longrightarrow> printable s = s)"
  by (simp add: printable_safe printable_keeps)

end
