(* ===== verification/Session_Actions.thy ===== *)
theory Session_Actions
  imports Report_Page Suite_Checks
begin

text \<open>
  What the drivers of a validation (\<open>validator/session.py\<close>, \<open>validator/suites.py\<close>,
  \<open>validator/code_pairing.py\<close>) run on: actions on the validator's state that can raise, and the
  connections of the client under test (\<open>Link\<close>).

  An action gives its value or exception and the state after it; \<open>None\<close> is a loop that never ends.
  Wherever the code awaits something, a turn passes, and everything that is not the validator's own
  is an argument: \<open>surroundings\<close> says, for each turn, what the recorder observes meanwhile, whether
  a wait runs out of time, what the user answers (or that the input ended), the connection
  aiosendspin has attached, what it did to the pairing store, how a call of it ended, how many codes
  a pairing attempt asks for before the turn, and how it ends, in that turn or when it is awaited. An
  exception is named by the class the code catches it as.
  Instructions to the user and the sending of messages have no effect on the state.
\<close>

section \<open>Actions\<close>

text \<open>
  How an attempt to pair failed: the type and text of the exception, whether it is the \<open>Skipped\<close> of a
  user who entered no code, and the reason of a client's abort.
\<close>

record attempt_error =
  ae_type :: string
  ae_text :: string
  ae_skipped :: bool
  ae_reason :: "string option"

record 'p validation =
  vs_turn :: nat
  vs_draws :: nat
  vs_recorder :: recorder
  vs_store :: "string \<rightharpoonup> 'p"
  vs_admit_unpaired :: bool
  vs_findings :: "finding list"
  vs_static_code :: "string option"

record 'p surroundings =
  su_loads :: "nat list \<Rightarrow> pyval py"
  su_seen :: "nat \<Rightarrow> recorder_op list"
  su_late :: "nat \<Rightarrow> bool"
  su_text :: "nat \<Rightarrow> string answer py"
  su_yes :: "nat \<Rightarrow> bool answer py"
  su_choice :: "nat \<Rightarrow> nat answer py"
  su_attached :: "nat \<Rightarrow> (int \<times> string option) option"
  su_player :: "nat \<Rightarrow> bool"
  su_store :: "nat \<Rightarrow> (string \<rightharpoonup> 'p) \<Rightarrow> string \<rightharpoonup> 'p"
  su_call :: "nat \<Rightarrow> unit py"
  su_asked :: "nat \<Rightarrow> nat"
  su_ended :: "nat \<Rightarrow> attempt_error option py option"
  su_outcome :: "nat \<Rightarrow> attempt_error option py"
  su_draw :: "nat \<Rightarrow> nat"

type_synonym ('p, 'a) act = "'p validation \<Rightarrow> ('a py \<times> 'p validation) option"

definition ret :: "'a \<Rightarrow> ('p, 'a) act" where
  "ret x s = Some (Inr x, s)"

definition try_act :: "('p, 'a) act \<Rightarrow> ('p, 'a py) act" where
  "try_act m s = (case m s of None \<Rightarrow> None | Some (r, s') \<Rightarrow> Some (Inr r, s'))"

definition raising :: "py_exc \<Rightarrow> ('p, 'a) act" where
  "raising e s = Some (Inl e, s)"

definition lift :: "'a py \<Rightarrow> ('p, 'a) act" where
  "lift r s = Some (r, s)"

definition bind_act :: "('p, 'a) act \<Rightarrow> ('a \<Rightarrow> ('p, 'b) act) \<Rightarrow> ('p, 'b) act" where
  "bind_act m f s = (case m s of
     None \<Rightarrow> None
   | Some (r, s') \<Rightarrow> (case r of Inl e \<Rightarrow> Some (Inl e, s') | Inr x \<Rightarrow> f x s'))"

definition read_state :: "('p validation \<Rightarrow> 'a) \<Rightarrow> ('p, 'a) act" where
  "read_state f s = Some (Inr (f s), s)"

definition change :: "('p validation \<Rightarrow> 'p validation) \<Rightarrow> ('p, unit) act" where
  "change f s = Some (Inr (), f s)"

text \<open>\<open>try: m finally: fin\<close>.\<close>

definition finally_do :: "('p, 'a) act \<Rightarrow> ('p, unit) act \<Rightarrow> ('p, 'a) act" where
  "finally_do m fin s = (case m s of
     None \<Rightarrow> None
   | Some (r, s') \<Rightarrow> (case fin s' of
       None \<Rightarrow> None
     | Some (q, s2) \<Rightarrow> (case q of Inl e \<Rightarrow> Some (Inl e, s2) | Inr u \<Rightarrow> Some (r, s2))))"

text \<open>\<open>while True\<close>: the body ends the loop with a result, or has changed the state.\<close>

partial_function (option) loop_act ::
    "('p validation \<Rightarrow> ('a py + unit) \<times> 'p validation) \<Rightarrow> 'p validation \<Rightarrow> ('a py \<times> 'p validation) option" where
  "loop_act body s = (case body s of (r, s') \<Rightarrow> (case r of Inl x \<Rightarrow> Some (x, s') | Inr u \<Rightarrow> loop_act body s'))"

declare loop_act.simps [code]

text \<open>A list display of several lists of findings.\<close>

fun gather :: "'a list py list \<Rightarrow> 'a list py" where
  "gather [] = Inr []"
| "gather (r # rs) = py_bind r (\<lambda>xs. py_bind (gather rs) (\<lambda>ys. Inr (xs @ ys)))"

text \<open>A turn.\<close>

definition on_recorder :: "(recorder \<Rightarrow> recorder) \<Rightarrow> 'p validation \<Rightarrow> 'p validation" where
  "on_recorder f s = s\<lparr>vs_recorder := f (vs_recorder s)\<rparr>"

definition pass_turn :: "'p surroundings \<Rightarrow> 'p validation \<Rightarrow> 'p validation" where
  "pass_turn w s = s\<lparr>vs_turn := Suc (vs_turn s),
     vs_recorder := run_recorder (su_loads w) (su_seen w (vs_turn s)) (vs_recorder s),
     vs_store := su_store w (vs_turn s) (vs_store s)\<rparr>"

definition ask_confirm :: "'p surroundings \<Rightarrow> ('p, bool answer) act" where
  "ask_confirm w s = Some (su_yes w (vs_turn s), pass_turn w s)"

definition ask_choice :: "'p surroundings \<Rightarrow> ('p, nat answer) act" where
  "ask_choice w s = Some (su_choice w (vs_turn s), pass_turn w s)"

definition call :: "'p surroundings \<Rightarrow> ('p, unit) act" where
  "call w s = Some (su_call w (vs_turn s), pass_turn w s)"

definition draw_below :: "'p surroundings \<Rightarrow> nat \<Rightarrow> ('p, nat) act" where
  "draw_below w n s = Some (Inr (su_draw w (vs_draws s) mod n), s\<lparr>vs_draws := Suc (vs_draws s)\<rparr>)"

section \<open>The client's connections\<close>

record client_link =
  lk_client_id :: string
  lk_url :: "string option"

definition keyed_connections :: "string \<Rightarrow> recorder \<Rightarrow> int list" where
  "keyed_connections client_id r = map ev_connection
     (filter (\<lambda>e. ev_client_id e = client_id \<and> ev_kind e = KEYED) (rc_events r))"

definition current_connection :: "client_link \<Rightarrow> recorder \<Rightarrow> int option" where
  "current_connection lk r = (let keyed = keyed_connections (lk_client_id lk) r in if keyed = [] then None else Some (last keyed))"

definition link_record :: "recorder \<Rightarrow> int \<Rightarrow> connection_record" where
  "link_record r number = connection_of number (rc_frames r) (rc_noncompliance r) (rc_events r)"

definition is_open :: "recorder \<Rightarrow> int option \<Rightarrow> bool" where
  "is_open r number = (case number of
     None \<Rightarrow> False
   | Some n \<Rightarrow> (let c = link_record r n in
       list_ex (\<lambda>e. ev_kind e = KEYED) (cr_events c) \<and> \<not> closed c
         \<and> inbound_of c ''client/goodbye'' ''transport'' = []))"

definition connections_since :: "client_link \<Rightarrow> recorder \<Rightarrow> int \<Rightarrow> int list" where
  "connections_since lk r watermark = sorted_list_of_set (set (map fr_connection
     (filter (\<lambda>f. watermark < fr_connection f \<and> frame_type f = Some ''client/init''
        \<and> dict_get ''client_id'' (payload_or f) = VStr (lk_client_id lk)) (rc_frames r))))"

definition last_frame_id :: "recorder \<Rightarrow> int \<Rightarrow> int" where
  "last_frame_id r number = (let frames = cr_frames (link_record r number) in if frames = [] then 0 else fr_id (last frames))"

definition is_keyed :: "recorder \<Rightarrow> int \<Rightarrow> bool" where
  "is_keyed r number = list_ex (\<lambda>e. ev_connection e = number \<and> ev_kind e = KEYED) (rc_events r)"

definition link_settled :: "client_link \<Rightarrow> recorder \<Rightarrow> int \<Rightarrow> bool" where
  "link_settled lk r watermark = (
     let new = connections_since lk r watermark
     in list_ex (is_keyed r) new \<or> new \<noteq> [] \<and> (rejected (link_record r (hd new)) \<or> 1 < length new))"

definition watermark_of :: "recorder \<Rightarrow> int" where
  "watermark_of r = (if rc_frames r = [] then 0 else Max (set (map fr_connection (rc_frames r))))"

definition attached :: "'p surroundings \<Rightarrow> int \<Rightarrow> 'p validation \<Rightarrow> bool" where
  "attached w number s \<longleftrightarrow> (case su_attached w (vs_turn s) of None \<Rightarrow> False | Some (n, psk) \<Rightarrow> n = number)"

definition note_keying :: "'p surroundings \<Rightarrow> client_link \<Rightarrow> int \<Rightarrow> ('p, unit) act" where
  "note_keying w lk number = change (\<lambda>s. case su_attached w (vs_turn s) of
     Some (n, Some psk) \<Rightarrow> if n = number
       then on_recorder (observe_event number (lk_client_id lk) KEYED (Some psk) None) s else s
   | _ \<Rightarrow> s)"

text \<open>
  \<open>until\<close>: the condition holds when the wait ends, or it ran out of time, be it just then. A
  condition that raises ends the wait with it.
\<close>

definition until_py :: "'p surroundings \<Rightarrow> int \<Rightarrow> (connection_record \<Rightarrow> bool py) \<Rightarrow> ('p, bool) act" where
  "until_py w number condition s = (let s' = pass_turn w s in
     Some (py_bind (condition (link_record (vs_recorder s') number)) (\<lambda>b. Inr (b \<and> \<not> su_late w (vs_turn s))), s'))"

definition until :: "'p surroundings \<Rightarrow> int \<Rightarrow> (connection_record \<Rightarrow> bool) \<Rightarrow> ('p, bool) act" where
  "until w number condition = until_py w number (\<lambda>c. Inr (condition c))"

definition record_now :: "int \<Rightarrow> ('p, connection_record) act" where
  "record_now number = read_state (\<lambda>s. link_record (vs_recorder s) number)"

definition close_connection :: "'p surroundings \<Rightarrow> client_link \<Rightarrow> ('p, unit) act" where
  "close_connection w lk s = (
     let number = current_connection lk (vs_recorder s);
         s1 = (case number of
           None \<Rightarrow> s
         | Some n \<Rightarrow> if lk_url lk = None \<and> attached w n s then pass_turn w s else s)
     in case number of
       None \<Rightarrow> Some (Inr (), s1)
     | Some n \<Rightarrow> if is_open (vs_recorder s1) number
         then bind_act (until w n closed) (\<lambda>b. ret ()) s1 else Some (Inr (), s1))"

text \<open>
  \<open>_next\<close>. The dialling and the wait share one timeout: a call that ends with it skips the wait.
\<close>

definition dial :: "'p surroundings \<Rightarrow> ('p, bool) act" where
  "dial w s = (case su_call w (vs_turn s) of
     Inr u \<Rightarrow> Some (Inr True, pass_turn w s)
   | Inl e \<Rightarrow> if exc_name e = ''TimeoutError'' then Some (Inr False, pass_turn w s) else Some (Inl e, pass_turn w s))"

definition next_of :: "client_link \<Rightarrow> recorder \<Rightarrow> int \<Rightarrow> int option" where
  "next_of lk r watermark = (
     let new = connections_since lk r watermark; keyed = filter (is_keyed r) new
     in if keyed \<noteq> [] then Some (hd keyed) else if new \<noteq> [] then Some (hd new) else None)"

definition next_connection :: "'p surroundings \<Rightarrow> client_link \<Rightarrow> int \<Rightarrow> ('p, int option) act" where
  "next_connection w lk watermark = bind_act (read_state vs_recorder) (\<lambda>r.
     bind_act (if lk_url lk \<noteq> None \<and> connections_since lk r watermark = [] then dial w else ret True) (\<lambda>dialled.
     bind_act (if dialled then change (pass_turn w) else ret ()) (\<lambda>u.
     read_state (\<lambda>s. next_of lk (vs_recorder s) watermark))))"

definition reconnect :: "'p surroundings \<Rightarrow> client_link \<Rightarrow> ('p, int option) act" where
  "reconnect w lk = bind_act (close_connection w lk) (\<lambda>u.
     bind_act (read_state (\<lambda>s. watermark_of (vs_recorder s))) (next_connection w lk))"

definition open_connection :: "'p surroundings \<Rightarrow> client_link \<Rightarrow> ('p, int option) act" where
  "open_connection w lk s = (let number = current_connection lk (vs_recorder s) in
     if is_open (vs_recorder s) number then Some (Inr number, s) else reconnect w lk s)"

definition await_reconnect :: "'p surroundings \<Rightarrow> client_link \<Rightarrow> int \<Rightarrow> ('p, int option) act" where
  "await_reconnect w lk previous = bind_act (until w previous closed) (\<lambda>ended.
     if \<not> ended then ret None else next_connection w lk previous)"

definition MATCH_ATTEMPTS :: nat where
  "MATCH_ATTEMPTS = 5"

text \<open>The loop of \<open>connect_matching\<close>, with the attempts left; the first asks nothing.\<close>

definition matching :: "(connection_record \<Rightarrow> bool) \<Rightarrow> int option \<Rightarrow> recorder \<Rightarrow> bool" where
  "matching holds number r \<longleftrightarrow> is_open r number \<and> (case number of None \<Rightarrow> False | Some n \<Rightarrow> holds (link_record r n))"

fun match_attempts ::
    "'p surroundings \<Rightarrow> client_link \<Rightarrow> (connection_record \<Rightarrow> bool) \<Rightarrow> bool \<Rightarrow> nat \<Rightarrow> int option \<Rightarrow> ('p, int option) act" where
  "match_attempts w lk holds first 0 number s =
     Some (Inr (if matching holds number (vs_recorder s) then number else None), s)"
| "match_attempts w lk holds first (Suc left) number s = (
     if matching holds number (vs_recorder s) then Some (Inr number, s)
     else bind_act (if first then ret True else bind_act (ask_confirm w) (\<lambda>a.
            ret (an_reply a = RETRY \<or> an_reply a = ANSWERED \<and> an_value a = Some True))) (\<lambda>again.
          if \<not> again then ret None
          else bind_act (reconnect w lk) (\<lambda>next_number.
            if next_number = None then ret None else match_attempts w lk holds False left next_number)) s)"

definition connect_matching :: "'p surroundings \<Rightarrow> client_link \<Rightarrow> (connection_record \<Rightarrow> bool) \<Rightarrow> ('p, int option) act" where
  "connect_matching w lk holds s =
     match_attempts w lk holds True MATCH_ATTEMPTS (current_connection lk (vs_recorder s)) s"

end
