(* ===== verification/Code_Steps.thy ===== *)
theory Code_Steps
  imports Session_Actions Code_Pairing_Checks
begin

text \<open>
  \<open>validator/code_pairing.py\<close>: the steps that pair with a code. The coroutine that runs an attempt
  takes turns with the step: \<open>stretch\<close> is what it does up to the end of one turn, namely to ask the
  step's code provider for codes and perhaps to end, and \<open>await_attempt\<close> is what is left of it when
  the step awaits it. A provider changes the entry it keeps up to where it raises.
\<close>

section \<open>Tables\<close>

definition STATIC :: string where "STATIC = ''PAIR-STATIC''"
definition CONTROL :: string where "CONTROL = ''PAIR-CTL''"

definition SPOKEN_LANGUAGES :: "(string \<times> string) list" where
  "SPOKEN_LANGUAGES = [(''de'', ''German''), (''es'', ''Spanish''), (''fr'', ''French''), (''it'', ''Italian''), (''nl'', ''Dutch'')]"

definition numbered_ids :: "string \<Rightarrow> nat \<Rightarrow> nat \<Rightarrow> string list" where
  "numbered_ids flow a b = map (\<lambda>n. flow @ ''-'' @ replicate (3 - length (nat_str n)) (CHR ''0'') @ nat_str n) [a..<b]"

definition CODE_STEP_CHECKS :: "(string \<times> string list) list" where
  "CODE_STEP_CHECKS = [
     (''P2 QR'', numbered_ids DYNAMIC_QR 1 10),
     (''P2'', numbered_ids DYNAMIC 1 13),
     (''P3'', numbered_ids STATIC 1 9),
     (''P4 cancel'', numbered_ids CONTROL 1 2),
     (''P4 timeout'', numbered_ids CONTROL 2 3),
     (''P3 lockout'', numbered_ids STATIC 9 11)]"

definition code_step_checks :: "string \<Rightarrow> string list" where
  "code_step_checks step = (case map_of CODE_STEP_CHECKS step of None \<Rightarrow> [] | Some ids \<Rightarrow> ids)"

definition DYNAMIC_DIGITS :: nat where "DYNAMIC_DIGITS = 6"
definition STATIC_DIGITS :: nat where "STATIC_DIGITS = 8"

text \<open>The classes \<open>ATTEMPT_ERRORS\<close> names.\<close>

definition ATTEMPT_ERRORS :: "string list" where
  "ATTEMPT_ERRORS = [''PairingError'', ''HandshakeAbortedError'', ''ClientComplianceError'', ''ConnectionError'', ''ValueError'']"

definition code_complete :: "string \<Rightarrow> finding list \<Rightarrow> finding list py" where
  "code_complete step findings = py_bind
     (code_not_applicable (filter (\<lambda>i. i \<notin> fi_id ` set findings) (code_step_checks step))
       ''not reached: the attempt ended first'')
     (\<lambda>missing. Inr (findings @ missing))"

definition code_step_not_reached :: "string \<Rightarrow> string \<Rightarrow> finding list py" where
  "code_step_not_reached step why = code_not_applicable (code_step_checks step) (''not reached: '' @ why)"

definition yes_verdict :: "reply \<Rightarrow> bool \<Rightarrow> verdict" where
  "yes_verdict reply yes = (if reply \<noteq> ANSWERED then SKIPPED else if yes then PASS else FAIL)"

definition mismatched :: "attempt_error option \<Rightarrow> bool" where
  "mismatched error \<longleftrightarrow> (case error of None \<Rightarrow> False | Some e \<Rightarrow> ae_reason e = Some ''pairing_code_mismatch'')"

section \<open>Conditions\<close>

definition inbound_type :: "string list \<Rightarrow> recorded_frame \<Rightarrow> bool" where
  "inbound_type types f \<longleftrightarrow> inbound f \<and> frame_type f \<in> Some ` set types"

definition answered_after :: "int \<Rightarrow> connection_record \<Rightarrow> bool" where
  "answered_after mark c \<longleftrightarrow> closed c \<or> list_ex (\<lambda>f. mark < fr_id f
     \<and> inbound_type [''client/pair-retry'', ''client/pair-confirm'', ''pair/abort'', ''client/goodbye''] f) (cr_frames c)"

definition started_after :: "int \<Rightarrow> connection_record \<Rightarrow> bool" where
  "started_after mark c \<longleftrightarrow> closed c \<or> list_ex (\<lambda>f. mark < fr_id f
     \<and> (inbound_type [''client/pair-pending'', ''client/pair-init'', ''pair/abort'', ''client/goodbye''] f
        \<or> \<not> inbound f \<and> frame_type f = Some ''server/pair-init'')) (cr_frames c)"

definition held_after :: "int \<Rightarrow> connection_record \<Rightarrow> bool" where
  "held_after mark c \<longleftrightarrow> closed c \<or> list_ex (\<lambda>f. mark < fr_id f \<and> inbound_type [''client/pair-pending''] f) (cr_frames c)"

section \<open>Entering codes\<close>

definition strip_separators :: "string \<Rightarrow> string" where
  "strip_separators code = py_replace ''-'' '''' (py_replace '' '' '''' code)"

definition format_pairing_code :: "string \<Rightarrow> string py" where
  "format_pairing_code code = (
     if length code \<notin> {6, 8} \<or> \<not> list_all is_digit code
     then Inl (PyExc ''ValueError'' ''pairing code must be 6 or 8 ASCII digits'')
     else Inr (take (length code div 2) code @ ''-'' @ drop (length code div 2) code))"

definition register_secret :: "string \<Rightarrow> recorder \<Rightarrow> recorder" where
  "register_secret secret r = add_secret (upper secret) (add_secret secret r)"

definition no_code_entered :: py_exc where
  "no_code_entered = PyExc ''Skipped'' ''no code was entered''"

text \<open>
  \<open>ask_code\<close>. What was typed is registered before anything else is done with it, and a code in each of
  its forms before it is returned.
\<close>

definition enter_code :: "nat \<Rightarrow> string \<Rightarrow> 'p validation \<Rightarrow> (string py + unit) \<times> 'p validation" where
  "enter_code digits typed s = (
     let s1 = on_recorder (register_secret typed) s; code = strip_separators typed
     in if length code = digits \<and> list_all is_digit code
        then (let s2 = on_recorder (register_secret code) s1 in
          case format_pairing_code code of
            Inl e \<Rightarrow> (Inl (Inl e), s2)
          | Inr formatted \<Rightarrow> (Inl (Inr typed), on_recorder (register_secret formatted) s2))
        else (Inr (), s1))"

definition ask_code_turn ::
    "'p surroundings \<Rightarrow> nat \<Rightarrow> 'p validation \<Rightarrow> (string py + unit) \<times> 'p validation" where
  "ask_code_turn w digits s = (case su_text w (vs_turn s) of
     Inl e \<Rightarrow> (Inl (Inl e), pass_turn w s)
   | Inr answer \<Rightarrow>
       if an_reply answer = RETRY then (Inr (), pass_turn w s)
       else (case (if an_reply answer = ANSWERED then an_value answer else None) of
         None \<Rightarrow> (Inl (Inl no_code_entered), pass_turn w s)
       | Some line \<Rightarrow> enter_code digits (strip line) (pass_turn w s)))"

definition ask_code :: "'p surroundings \<Rightarrow> nat \<Rightarrow> ('p, string) act" where
  "ask_code w digits = loop_act (ask_code_turn w digits)"

text \<open>\<open>ask_token\<close>; the token's canonical forms are registered when it decodes.\<close>

definition ask_token_turn :: "'p surroundings \<Rightarrow> 'p validation \<Rightarrow> (string answer py + unit) \<times> 'p validation" where
  "ask_token_turn w s = (case su_text w (vs_turn s) of
     Inl e \<Rightarrow> (Inl (Inl e), pass_turn w s)
   | Inr answer \<Rightarrow> (if an_reply answer = RETRY then Inr () else Inl (Inr answer), pass_turn w s))"

definition canonical_token :: "string \<Rightarrow> string py" where
  "canonical_token token = py_bind (decode_pairing_code_token token) encode_pairing_code_token"

definition register_token :: "string \<Rightarrow> recorder \<Rightarrow> recorder" where
  "register_token token r = (case canonical_token token of
     Inl e \<Rightarrow> register_secret token r
   | Inr canonical \<Rightarrow> register_secret (removeprefix canonical ''SP:'') (register_secret canonical (register_secret token r)))"

definition ask_token :: "'p surroundings \<Rightarrow> ('p, string) act" where
  "ask_token w = bind_act (loop_act (ask_token_turn w)) (\<lambda>answer.
     case (if an_reply answer = ANSWERED then an_value answer else None) of
       None \<Rightarrow> raising no_code_entered
     | Some line \<Rightarrow> bind_act (change (on_recorder (register_token (strip line)))) (\<lambda>u. ret (strip line)))"

definition padded :: "nat \<Rightarrow> nat \<Rightarrow> string" where
  "padded width n = replicate (width - length (nat_str n)) (CHR ''0'') @ nat_str n"

definition wrong_token :: "'p surroundings \<Rightarrow> ('p, string) act" where
  "wrong_token w = bind_act (draw_below w (256 ^ QR_CODE_SIZE)) (\<lambda>n.
     bind_act (lift (encode_pairing_code_token (to_digits 256 QR_CODE_SIZE n))) (\<lambda>token.
     bind_act (change (on_recorder (register_secret token))) (\<lambda>u. ret token)))"

definition wrong_static_turn :: "'p surroundings \<Rightarrow> 'p validation \<Rightarrow> (string py + unit) \<times> 'p validation" where
  "wrong_static_turn w s = (
     let code = padded STATIC_DIGITS (su_draw w (vs_draws s) mod 10 ^ STATIC_DIGITS); s' = s\<lparr>vs_draws := Suc (vs_draws s)\<rparr>
     in if Some code \<noteq> vs_static_code s then (Inl (Inr code), s') else (Inr (), s'))"

definition wrong_static_code :: "'p surroundings \<Rightarrow> ('p, string) act" where
  "wrong_static_code w = bind_act (loop_act (wrong_static_turn w)) (\<lambda>code.
     bind_act (change (on_recorder (register_secret code))) (\<lambda>u. ret code))"

section \<open>The entry of a dynamic code\<close>

record dynamic_entry =
  de_digits :: bool
  de_channels :: "pyval list"
  de_language :: string
  de_right :: "string option"
  de_first :: "string option"
  de_round :: nat
  de_wrong_entered :: bool
  de_wrong_mark :: int
  de_right_entered_as_wrong :: bool
  de_findings :: "finding list"

definition new_entry :: "bool \<Rightarrow> pyval list \<Rightarrow> string \<Rightarrow> dynamic_entry" where
  "new_entry digits chans language = \<lparr>de_digits = digits, de_channels = chans, de_language = language, de_right = None,
     de_first = None, de_round = 0, de_wrong_entered = False, de_wrong_mark = 0, de_right_entered_as_wrong = False,
     de_findings = []\<rparr>"

definition restart_entry :: "dynamic_entry \<Rightarrow> dynamic_entry" where
  "restart_entry e = e\<lparr>de_round := 2, de_right := None\<rparr>"

definition ask_right :: "'p surroundings \<Rightarrow> dynamic_entry \<Rightarrow> ('p, string py \<times> dynamic_entry) act" where
  "ask_right w e = bind_act (try_act (if de_digits e then ask_code w DYNAMIC_DIGITS else ask_token w)) (\<lambda>r. case r of
     Inl x \<Rightarrow> ret (Inl x, e)
   | Inr code \<Rightarrow> (let e1 = e\<lparr>de_right := Some code\<rparr> in
       if de_digits e \<or> de_findings e \<noteq> [] then ret (Inr code, e1)
       else (case check_qr_token code of
           Inl x \<Rightarrow> ret (Inl x, e1)
         | Inr fs \<Rightarrow> ret (Inr code, e1\<lparr>de_findings := fs\<rparr>))))"

definition mark_wrong :: "int \<Rightarrow> string \<Rightarrow> dynamic_entry \<Rightarrow> ('p, string py \<times> dynamic_entry) act" where
  "mark_wrong number wrong e = read_state (\<lambda>s. (Inr wrong,
     e\<lparr>de_wrong_mark := last_frame_id (vs_recorder s) number, de_wrong_entered := True\<rparr>))"

text \<open>\<open>_wrong\<close>; the code drawn in the digits format is a suggestion to the auto-answerer only.\<close>

definition enter_wrong :: "'p surroundings \<Rightarrow> int \<Rightarrow> string \<Rightarrow> dynamic_entry \<Rightarrow> ('p, string py \<times> dynamic_entry) act" where
  "enter_wrong w number right e = (
     if de_digits e
     then bind_act (draw_below w (10 ^ DYNAMIC_DIGITS)) (\<lambda>suggestion.
       bind_act (try_act (ask_code w DYNAMIC_DIGITS)) (\<lambda>r. case r of
         Inl x \<Rightarrow> ret (Inl x, e)
       | Inr wrong \<Rightarrow>
           if strip_separators wrong = strip_separators right
           then ret (Inr right, e\<lparr>de_right_entered_as_wrong := True\<rparr>)
           else mark_wrong number wrong e))
     else bind_act (try_act (wrong_token w)) (\<lambda>r. case r of
         Inl x \<Rightarrow> ret (Inl x, e)
       | Inr wrong \<Rightarrow> mark_wrong number wrong e))"

definition same_code_finding :: "bool \<Rightarrow> finding py" where
  "same_code_finding same = human (DYNAMIC @ ''-010'') (if same then PASS else FAIL)
     (if same then ''the same code was shown again after the wrong one''
      else ''a different code was shown after the wrong one'')"

definition ask_again :: "'p surroundings \<Rightarrow> string \<Rightarrow> dynamic_entry \<Rightarrow> ('p, string py \<times> dynamic_entry) act" where
  "ask_again w right e = bind_act (try_act (ask_code w DYNAMIC_DIGITS)) (\<lambda>r. case r of
     Inl x \<Rightarrow> ret (Inl x, e)
   | Inr again \<Rightarrow>
       if de_round e \<noteq> 2 then ret (Inr again, e)
       else (case same_code_finding (strip_separators again = strip_separators right) of
           Inl x \<Rightarrow> ret (Inl x, e)
         | Inr f \<Rightarrow> ret (Inr again, e\<lparr>de_findings := de_findings e @ [f]\<rparr>)))"

definition provide_dynamic :: "'p surroundings \<Rightarrow> int \<Rightarrow> dynamic_entry \<Rightarrow> ('p, string py \<times> dynamic_entry) act" where
  "provide_dynamic w number e0 = (
     let e = e0\<lparr>de_round := Suc (de_round e0)\<rparr> in
     if de_round e = 1
     then bind_act (ask_right w e) (\<lambda>(r, e1). case r of
         Inl x \<Rightarrow> ret (Inl x, e1)
       | Inr right \<Rightarrow> enter_wrong w number right (e1\<lparr>de_first := Some right\<rparr>))
     else (case de_right e of
         None \<Rightarrow> ask_right w e
       | Some right \<Rightarrow> if \<not> de_digits e then ret (Inr right, e) else ask_again w right e))"

text \<open>The human checks, asked once the attempt is over.\<close>

definition presentation_findings :: "dynamic_entry \<Rightarrow> string \<Rightarrow> finding list py" where
  "presentation_findings e typed = (
     if VStr ''display'' \<in> set (de_channels e) then check_presentation (DYNAMIC @ ''-009'') typed DYNAMIC_DIGITS
     else code_not_applicable [DYNAMIC @ ''-009''] ''the client does not advertise the display out-channel'')"

definition spoke_finding :: "bool answer \<Rightarrow> finding py" where
  "spoke_finding spoke = human (DYNAMIC @ ''-011'') (yes_verdict (an_reply spoke) (an_value spoke = Some True))
     (if an_value spoke = Some True then ''the device spoke the code''
      else if an_reply spoke = ANSWERED then ''the device did not speak the code''
      else ''the user did not say whether the device spoke'')"

definition language_names :: "string list" where
  "language_names = ''English'' # map snd SPOKEN_LANGUAGES @ [''Another language'']"

definition server_language :: "string \<Rightarrow> string" where
  "server_language language = (case map_of SPOKEN_LANGUAGES language of None \<Rightarrow> ''English'' | Some name \<Rightarrow> name)"

definition expected_choice :: "string \<Rightarrow> nat" where
  "expected_choice language = length (takeWhile (\<lambda>n. n \<noteq> server_language language) language_names)"

definition language_finding :: "string \<Rightarrow> nat answer \<Rightarrow> finding py" where
  "language_finding language heard = py_bind
     (if an_reply heard = RETRY then Inr SKIPPED else human_verdict heard (expected_choice language)) (\<lambda>v0.
     let v = (if v0 = FAIL then WARN else v0) in
     human (DYNAMIC @ ''-012'') v
       (if v = PASS then ''the device spoke the server's language, '' @ server_language language
        else if v = WARN then ''the device did not speak the server's language, '' @ server_language language
          @ '', which it should when it can''
        else ''the user did not say which language they heard''))"

definition ask_human_checks :: "'p surroundings \<Rightarrow> dynamic_entry \<Rightarrow> ('p, finding list) act" where
  "ask_human_checks w e = (case (if de_digits e then de_first e else None) of
     None \<Rightarrow> ret (de_findings e)
   | Some typed \<Rightarrow> bind_act (lift (presentation_findings e typed)) (\<lambda>shown.
       if VStr ''speaker'' \<notin> set (de_channels e)
       then bind_act (lift (code_not_applicable [DYNAMIC @ ''-011'', DYNAMIC @ ''-012'']
              ''the client does not advertise the speaker out-channel'')) (\<lambda>fs. ret (de_findings e @ shown @ fs))
       else bind_act (ask_confirm w) (\<lambda>spoke.
         bind_act (lift (spoke_finding spoke)) (\<lambda>f.
         bind_act (ask_choice w) (\<lambda>heard.
         bind_act (lift (language_finding (de_language e) heard)) (\<lambda>g.
         ret (de_findings e @ shown @ [f, g])))))))"

section \<open>Attempts\<close>

definition finish_attempt :: "'p surroundings \<Rightarrow> client_link \<Rightarrow> int \<Rightarrow> attempt_error option py \<Rightarrow> ('p, unit) act" where
  "finish_attempt w lk number outcome = (case outcome of
     Inl e \<Rightarrow> ret ()
   | Inr None \<Rightarrow> note_keying w lk number
   | Inr (Some err) \<Rightarrow> change (on_recorder (observe_event number (lk_client_id lk) PAIRING_FAILED None
       (Some (ae_type err @ '': '' @ ae_text err)))))"

type_synonym ('p, 'e) provider = "'e \<Rightarrow> ('p, string py \<times> 'e) act"

fun provide_times :: "('p, 'e) provider \<Rightarrow> nat \<Rightarrow> 'e \<Rightarrow> ('p, 'e) act" where
  "provide_times provide 0 e = ret e"
| "provide_times provide (Suc n) e = bind_act (provide e) (\<lambda>(r, e'). case r of
     Inl x \<Rightarrow> ret e' | Inr code \<Rightarrow> provide_times provide n e')"

definition stretch :: "'p surroundings \<Rightarrow> client_link \<Rightarrow> int \<Rightarrow> ('p, 'e) provider \<Rightarrow> 'e \<times> attempt_error option py option
     \<Rightarrow> ('p, 'e \<times> attempt_error option py option) act" where
  "stretch w lk number provide task = (case snd task of
     Some outcome \<Rightarrow> bind_act (change (pass_turn w)) (\<lambda>u. ret task)
   | None \<Rightarrow> bind_act (read_state (\<lambda>s. su_asked w (vs_turn s))) (\<lambda>n.
       bind_act (provide_times provide n (fst task)) (\<lambda>e.
       bind_act (read_state (\<lambda>s. su_ended w (vs_turn s))) (\<lambda>ended.
       bind_act (change (pass_turn w)) (\<lambda>u.
       bind_act (case ended of None \<Rightarrow> ret () | Some outcome \<Rightarrow> finish_attempt w lk number outcome) (\<lambda>u.
       ret (e, ended)))))))"

text \<open>\<open>await task\<close>: an exception that is none of \<open>ATTEMPT_ERRORS\<close> is raised.\<close>

definition await_attempt :: "'p surroundings \<Rightarrow> client_link \<Rightarrow> int \<Rightarrow> ('p, 'e) provider \<Rightarrow> 'e \<times> attempt_error option py option
     \<Rightarrow> ('p, attempt_error option \<times> 'e) act" where
  "await_attempt w lk number provide task = (case snd task of
     Some outcome \<Rightarrow> bind_act (lift outcome) (\<lambda>err. ret (err, fst task))
   | None \<Rightarrow> bind_act (read_state (\<lambda>s. su_asked w (vs_turn s))) (\<lambda>n.
       bind_act (provide_times provide n (fst task)) (\<lambda>e.
       bind_act (read_state (\<lambda>s. su_outcome w (vs_turn s))) (\<lambda>outcome.
       bind_act (change (pass_turn w)) (\<lambda>u.
       bind_act (finish_attempt w lk number outcome) (\<lambda>u.
       bind_act (lift outcome) (\<lambda>err. ret (err, e))))))))"

definition end_attempt :: "'p surroundings \<Rightarrow> int \<Rightarrow> ('p, unit) act" where
  "end_attempt w number s = (
     if \<not> attached w number s then Some (Inr (), s)
     else bind_act (try_act (call w)) (\<lambda>r. case r of
         Inr u \<Rightarrow> ret ()
       | Inl e \<Rightarrow> if exc_name e \<in> set ATTEMPT_ERRORS then ret () else raising e) s)"

text \<open>A provider that is never answered.\<close>

definition never :: "('p, unit) provider" where
  "never e = ret (Inl AssertionError, e)"

end
