(* ===== verification/Code_Attempts.thy ===== *)
theory Code_Attempts
  imports Code_Steps
begin

text \<open>
  The steps of \<open>validator/code_pairing.py\<close>: pairing with a dynamic code, with the static code,
  cancelling an attempt, letting one run out of time, and locking the pairing window out. A step that
  waits for something while the attempt runs beside it gives the attempt a stretch of its own.
\<close>

definition spoken_language :: "nat \<Rightarrow> string" where
  "spoken_language draw = (let tags = sort (map fst SPOKEN_LANGUAGES) in tags ! (draw mod length tags))"

definition since_now :: "int \<Rightarrow> ('p, int) act" where
  "since_now number = read_state (\<lambda>s. last_frame_id (vs_recorder s) number)"

definition was_skipped :: "attempt_error option \<Rightarrow> bool" where
  "was_skipped error \<longleftrightarrow> (case error of None \<Rightarrow> False | Some e \<Rightarrow> ae_skipped e)"

text \<open>A wait beside an attempt.\<close>

definition watch_attempt :: "'p surroundings \<Rightarrow> client_link \<Rightarrow> int \<Rightarrow> ('p, 'e) provider \<Rightarrow> (connection_record \<Rightarrow> bool)
     \<Rightarrow> 'e \<times> attempt_error option py option \<Rightarrow> ('p, ('e \<times> attempt_error option py option) \<times> bool) act" where
  "watch_attempt w lk number provide condition task = bind_act (stretch w lk number provide task) (\<lambda>task'.
     read_state (\<lambda>s. (task', condition (link_record (vs_recorder s) number) \<and> \<not> su_late w (vs_turn s - 1))))"

section \<open>A dynamic code\<close>

definition watch_wrong :: "'p surroundings \<Rightarrow> client_link \<Rightarrow> int \<Rightarrow> dynamic_entry \<times> attempt_error option py option
     \<Rightarrow> ('p, dynamic_entry \<times> attempt_error option py option) act" where
  "watch_wrong w lk number task = (
     if de_wrong_entered (fst task)
     then bind_act (watch_attempt w lk number (provide_dynamic w number) (answered_after (de_wrong_mark (fst task))) task)
       (\<lambda>(task', answered). if answered then ret task' else bind_act (end_attempt w number) (\<lambda>u. ret task'))
     else ret task)"

definition run_dynamic :: "'p surroundings \<Rightarrow> client_link \<Rightarrow> int \<Rightarrow> dynamic_entry \<Rightarrow> ('p, attempt_error option \<times> dynamic_entry) act" where
  "run_dynamic w lk number entry =
     bind_act (stretch w lk number (provide_dynamic w number) (entry, None)) (\<lambda>begun.
     bind_act (watch_wrong w lk number begun) (\<lambda>watched.
     bind_act (await_attempt w lk number (provide_dynamic w number) watched) (\<lambda>(error, e).
       if mismatched error \<and> de_wrong_entered e
       then await_attempt w lk number (provide_dynamic w number) (restart_entry e, None)
       else ret (error, e))))"

definition stage_ids :: "string \<Rightarrow> (stage \<times> string) list" where
  "stage_ids flow = [(CLIENT_KC, flow @ ''-005''), (COMMIT, flow @ ''-006''), (BINDING, flow @ ''-007''),
     (UNWRAP, flow @ ''-008'')]"

definition wrong_code_findings :: "dynamic_entry \<Rightarrow> string \<Rightarrow> connection_record \<Rightarrow> int \<Rightarrow> finding list py" where
  "wrong_code_findings e flow c since = (
     if de_wrong_entered e then check_wrong_code c since flow
     else code_not_applicable [flow @ ''-004'']
       (if de_right_entered_as_wrong e then ''the code entered as wrong was the right one''
        else ''not reached: no wrong code was entered''))"

definition dynamic_verdicts :: "string \<Rightarrow> string \<Rightarrow> dynamic_entry \<Rightarrow> finding list \<Rightarrow> connection_record \<Rightarrow> int \<Rightarrow> finding list py" where
  "dynamic_verdicts step flow e answers c since = py_bind
     (gather [check_commit c since flow, check_pairing_index c since (flow @ ''-002''),
        check_cpace_lengths c since (flow @ ''-003''), wrong_code_findings e flow c since,
        check_verification c since (stage_ids flow), Inr answers])
     (code_complete step)"

definition dynamic_step :: "'p surroundings \<Rightarrow> client_link \<Rightarrow> string \<Rightarrow> bool \<Rightarrow> pydict \<Rightarrow> ('p, finding list) act" where
  "dynamic_step w lk language digits descriptor = (
     let step = (if digits then ''P2'' else ''P2 QR''); flow = (if digits then DYNAMIC else DYNAMIC_QR)
     in bind_act (open_connection w lk) (\<lambda>connection. case connection of
       None \<Rightarrow> lift (code_step_not_reached step ''your app did not reconnect in time'')
     | Some number \<Rightarrow> bind_act (since_now number) (\<lambda>since.
         bind_act (run_dynamic w lk number
           (new_entry digits (list_or_empty (dict_get ''out_channels'' descriptor)) language)) (\<lambda>(error, e).
         if was_skipped error then lift (code_not_run (code_step_checks step) SKIPPED ''no code was entered'')
         else bind_act (until w number closed) (\<lambda>b.
           bind_act (ask_human_checks w e) (\<lambda>answers.
           bind_act (record_now number) (\<lambda>c. lift (dynamic_verdicts step flow e answers c since))))))))"

section \<open>The static code\<close>

definition provide_static :: "'p surroundings \<Rightarrow> ('p, finding list) provider" where
  "provide_static w shown = bind_act (try_act (ask_code w STATIC_DIGITS)) (\<lambda>r. case r of
     Inl x \<Rightarrow> ret (Inl x, shown)
   | Inr code \<Rightarrow> (case check_presentation (STATIC @ ''-008'') code STATIC_DIGITS of
       Inl x \<Rightarrow> ret (Inl x, shown)
     | Inr fs \<Rightarrow> bind_act (change (\<lambda>s. s\<lparr>vs_static_code := Some (strip_separators code)\<rparr>)) (\<lambda>u.
         ret (Inr code, shown @ fs))))"

definition static_verdicts :: "finding list \<Rightarrow> connection_record \<Rightarrow> int \<Rightarrow> finding list py" where
  "static_verdicts shown c since = py_bind
     (gather [check_static_pending c since, check_pairing_index c since (STATIC @ ''-002''),
        check_static_shape c since, check_static_order c since, check_cpace_lengths c since (STATIC @ ''-005''),
        check_verification c since [(CLIENT_KC, STATIC @ ''-006''), (UNWRAP, STATIC @ ''-007'')], Inr shown])
     (code_complete ''P3'')"

definition static_step :: "'p surroundings \<Rightarrow> client_link \<Rightarrow> ('p, finding list) act" where
  "static_step w lk = bind_act (open_connection w lk) (\<lambda>connection. case connection of
     None \<Rightarrow> lift (code_step_not_reached ''P3'' ''your app did not reconnect in time'')
   | Some number \<Rightarrow> bind_act (since_now number) (\<lambda>since.
       bind_act (await_attempt w lk number (provide_static w) ([], None)) (\<lambda>(error, shown).
       if was_skipped error then lift (code_not_run (code_step_checks ''P3'') SKIPPED ''no code was entered'')
       else bind_act (until w number closed) (\<lambda>b.
         bind_act (record_now number) (\<lambda>c. lift (static_verdicts shown c since))))))"

section \<open>Attempts that enter no code\<close>

text \<open>\<open>_idle_attempt\<close>: the method of the attempt, and its format.\<close>

definition idle_attempt :: "pydict \<Rightarrow> (string \<times> string option) option" where
  "idle_attempt methods = (
     let formats = (case dict_get ''dynamic_pairing_code'' methods of VDict d \<Rightarrow> list_or_empty (dict_get ''formats'' d) | _ \<Rightarrow> [])
     in if formats \<noteq> []
        then Some (''dynamic_pairing_code'', Some (if VStr ''digits'' \<in> set formats then ''digits'' else ''qr_code''))
        else if has_key ''static_pairing_code'' methods then Some (''static_pairing_code'', None) else None)"

definition no_attempt :: "pydict \<Rightarrow> string" where
  "no_attempt methods = (if idle_attempt methods = None then ''the client offers no pairing-code method'' else ''no connection'')"

definition cancel_step :: "'p surroundings \<Rightarrow> client_link \<Rightarrow> pydict \<Rightarrow> ('p, finding list) act" where
  "cancel_step w lk methods = bind_act (open_connection w lk) (\<lambda>connection.
     case (if idle_attempt methods = None then None else connection) of
       None \<Rightarrow> lift (code_step_not_reached ''P4 cancel'' (no_attempt methods))
     | Some number \<Rightarrow> bind_act (since_now number) (\<lambda>since.
         bind_act (watch_attempt w lk number never (started_after since) ((), None)) (\<lambda>(task, started).
         bind_act (end_attempt w number) (\<lambda>u.
         bind_act (await_attempt w lk number never task) (\<lambda>(error, e).
         bind_act (until w number closed) (\<lambda>b.
         bind_act (record_now number) (\<lambda>c. lift (check_cancel c since))))))))"

definition timeout_step :: "'p surroundings \<Rightarrow> client_link \<Rightarrow> pydict \<Rightarrow> ('p, finding list) act" where
  "timeout_step w lk methods = bind_act (open_connection w lk) (\<lambda>connection.
     case (if idle_attempt methods = None then None else connection) of
       None \<Rightarrow> lift (code_step_not_reached ''P4 timeout'' (no_attempt methods))
     | Some number \<Rightarrow> bind_act (since_now number) (\<lambda>since.
         bind_act (await_attempt w lk number never ((), None)) (\<lambda>(error, e).
         bind_act (until w number closed) (\<lambda>b.
         bind_act (record_now number) (\<lambda>c. lift (check_timeout c since))))))"

section \<open>Lockout\<close>

definition fixed_code :: "string option \<Rightarrow> ('p, unit) provider" where
  "fixed_code code e = (case code of None \<Rightarrow> never e | Some c \<Rightarrow> ret (Inr c, e))"

text \<open>Only the first attempt may wait for a gesture; the sixth enters no code.\<close>

definition lockout_watch :: "'p surroundings \<Rightarrow> client_link \<Rightarrow> int \<Rightarrow> nat \<Rightarrow> int \<Rightarrow> ('p, unit) provider
     \<Rightarrow> ('p, unit \<times> attempt_error option py option) act" where
  "lockout_watch w lk number tried mark provide = (
     if tried = 0 then ret ((), None)
     else
       let held = (if tried = LOCKOUT_ATTEMPTS then started_after mark else held_after mark)
       in bind_act (stretch w lk number provide ((), None)) (\<lambda>task.
          bind_act (record_now number) (\<lambda>c.
          if snd task = None \<and> (tried = LOCKOUT_ATTEMPTS \<or> held c) then bind_act (end_attempt w number) (\<lambda>u. ret task)
          else ret task)))"

fun lockout_attempts :: "'p surroundings \<Rightarrow> client_link \<Rightarrow> int \<Rightarrow> nat list \<Rightarrow> ('p, unit) act" where
  "lockout_attempts w lk number [] = ret ()"
| "lockout_attempts w lk number (tried # rest) =
     bind_act (if tried = LOCKOUT_ATTEMPTS then ret None else bind_act (wrong_static_code w) (\<lambda>code. ret (Some code))) (\<lambda>code.
     bind_act (since_now number) (\<lambda>mark.
     bind_act (lockout_watch w lk number tried mark (fixed_code code)) (\<lambda>task.
     bind_act (await_attempt w lk number (fixed_code code) task) (\<lambda>(error, e).
     bind_act (read_state (\<lambda>s. is_open (vs_recorder s) (Some number))) (\<lambda>still_open.
     if tried = LOCKOUT_ATTEMPTS \<or> \<not> still_open \<or> \<not> mismatched error then ret ()
     else lockout_attempts w lk number rest)))))"

definition lockout_step :: "'p surroundings \<Rightarrow> client_link \<Rightarrow> ('p, finding list) act" where
  "lockout_step w lk = bind_act (open_connection w lk) (\<lambda>connection. case connection of
     None \<Rightarrow> lift (code_step_not_reached ''P3 lockout'' ''your app did not reconnect in time'')
   | Some number \<Rightarrow> bind_act (since_now number) (\<lambda>since.
       bind_act (lockout_attempts w lk number [0..<Suc LOCKOUT_ATTEMPTS]) (\<lambda>u.
       bind_act (until w number closed) (\<lambda>b.
       bind_act (record_now number) (\<lambda>c. lift (check_lockout c since))))))"

end
