(* ===== verification/Suite_Steps.thy ===== *)
theory Suite_Steps
  imports Code_Attempts Py_Objects
begin

text \<open>
  \<open>validator/suites.py\<close>: \<open>SuiteRunner\<close>, which runs the steps of the selected suites on the client its
  \<open>Link\<close> follows. An operation of the pairing store takes no turn: the file it writes is not modelled.
\<close>

section \<open>Suites and their steps\<close>

datatype suite = UNPAIRED_SUITE | PAIRING_SUITE | POST_PAIRING_SUITE

primrec suite_value :: "suite \<Rightarrow> string" where
  "suite_value UNPAIRED_SUITE = ''unpaired''"
| "suite_value PAIRING_SUITE = ''pairing''"
| "suite_value POST_PAIRING_SUITE = ''post-pairing''"

definition all_suites :: "suite list" where
  "all_suites = [UNPAIRED_SUITE, PAIRING_SUITE, POST_PAIRING_SUITE]"

definition suite_named :: "string \<Rightarrow> suite option" where
  "suite_named name = find (\<lambda>x. suite_value x = name) all_suites"

definition parse_suites :: "string \<Rightarrow> suite set py" where
  "parse_suites text = (
     let names = filter (\<lambda>n. n \<noteq> []) (map strip (split_on (CHR '','') text));
         known = join '', '' (map suite_value all_suites)
     in if names = [] then Inl (value_error (''name at least one suite: '' @ known))
        else if list_ex (\<lambda>n. suite_named n = None) names
        then Inl (value_error (''unknown suite in '' @ repr_str text @ ''; choose from '' @ known))
        else Inr (set (List.map_filter suite_named names)))"

definition STEP_CHECKS :: "(string \<times> string list) list" where
  "STEP_CHECKS = [
     (''U1'', [''UNPAIRED-001'']),
     (''U2'', [''UNPAIRED-002'']),
     (''U3'', [''UNPAIRED-003'']),
     (''U4'', [''UNPAIRED-004'']),
     (''P1'', numbered_ids ''PAIR-PSK'' 1 8)]
     @ CODE_STEP_CHECKS
     @ [(''R1'', [''POSTPAIR-001'']),
     (''R3'', [''POSTPAIR-002'']),
     (''R4'', [''POSTPAIR-003'', ''POSTPAIR-004'']),
     (''R5'', [''POSTPAIR-005'', ''POSTPAIR-006''])]"

definition step_checks :: "string \<Rightarrow> string list" where
  "step_checks step = (case map_of STEP_CHECKS step of None \<Rightarrow> [] | Some ids \<Rightarrow> ids)"

record suite_options =
  so_suites :: "suite set"
  so_fault_injection :: bool

text \<open>\<open>_not_run\<close> and \<open>_not_reached\<close>.\<close>

definition step_not_run :: "string \<Rightarrow> verdict \<Rightarrow> string \<Rightarrow> nat \<Rightarrow> finding list py" where
  "step_not_run step v msg skip = (
     if step \<in> fst ` set CODE_STEP_CHECKS then code_not_run (drop skip (step_checks step)) v msg
     else not_run (drop skip (step_checks step)) v msg)"

definition step_not_reached :: "string \<Rightarrow> string \<Rightarrow> nat \<Rightarrow> finding list py" where
  "step_not_reached step why skip = step_not_run step NOT_APPLICABLE (''not reached: '' @ why) skip"

text \<open>The steps of \<open>steps\<close>, none of which was reached.\<close>

definition none_reached :: "string list \<Rightarrow> string \<Rightarrow> finding list py" where
  "none_reached steps why = gather (map (\<lambda>step. step_not_reached step why 0) steps)"

definition report_findings :: "finding list \<Rightarrow> ('p, unit) act" where
  "report_findings fs = change (\<lambda>s. s\<lparr>vs_findings := vs_findings s @ fs\<rparr>)"

definition report_py :: "finding list py \<Rightarrow> ('p, unit) act" where
  "report_py r = bind_act (lift r) report_findings"

text \<open>\<open>_step\<close>: the user is asked until they do not ask for a retry.\<close>

definition ready_turn :: "'p surroundings \<Rightarrow> 'p validation \<Rightarrow> (bool answer py + unit) \<times> 'p validation" where
  "ready_turn w s = (case su_yes w (vs_turn s) of
     Inl e \<Rightarrow> (Inl (Inl e), pass_turn w s)
   | Inr answer \<Rightarrow> (if an_reply answer = RETRY then Inr () else Inl (Inr answer), pass_turn w s))"

definition said_yes :: "bool answer \<Rightarrow> bool" where
  "said_yes answer \<longleftrightarrow> an_reply answer = ANSWERED \<and> an_value answer = Some True"

definition with_evidence :: "evidence option \<Rightarrow> finding \<Rightarrow> finding" where
  "with_evidence ev f = (case ev of None \<Rightarrow> f | Some e \<Rightarrow> f\<lparr>fi_evidence := e\<rparr>)"

definition run_step :: "'p surroundings \<Rightarrow> string \<Rightarrow> evidence option \<Rightarrow> ('p, finding list) act \<Rightarrow> ('p, unit) act" where
  "run_step w step ev run = bind_act (loop_act (ready_turn w)) (\<lambda>answer.
     bind_act (if said_yes answer then run else lift (step_not_run step SKIPPED (''the user skipped '' @ step) 0)) (\<lambda>fs.
     report_findings (map (with_evidence ev) fs)))"

section \<open>The pairing store\<close>

definition record_by_client_id :: "client_link \<Rightarrow> ('p, 'p option) act" where
  "record_by_client_id lk = read_state (\<lambda>s. vs_store s (lk_client_id lk))"

definition remove_record :: "client_link \<Rightarrow> ('p, unit) act" where
  "remove_record lk = change (\<lambda>s. s\<lparr>vs_store := (vs_store s)(lk_client_id lk := None)\<rparr>)"

definition store_record :: "client_link \<Rightarrow> 'p \<Rightarrow> ('p, unit) act" where
  "store_record lk record = change (\<lambda>s. s\<lparr>vs_store := (vs_store s)(lk_client_id lk \<mapsto> record)\<rparr>)"

definition set_admit_unpaired :: "bool \<Rightarrow> ('p, unit) act" where
  "set_admit_unpaired b = change (\<lambda>s. s\<lparr>vs_admit_unpaired := b\<rparr>)"

section \<open>Conditions\<close>

definition ended_or_said :: "string list \<Rightarrow> connection_record \<Rightarrow> bool" where
  "ended_or_said types c \<longleftrightarrow> closed c \<or> list_ex (inbound_type types) (cr_frames c)"

definition activations_sent :: "connection_record \<Rightarrow> recorded_frame list" where
  "activations_sent c = outbound_of c ''server/activate'' ''transport''"

definition ended_or_activated :: "connection_record \<Rightarrow> bool" where
  "ended_or_activated c \<longleftrightarrow> closed c \<or> activations_sent c \<noteq> []"

definition hello_value :: "string \<Rightarrow> connection_record \<Rightarrow> pyval" where
  "hello_value field c = (case first_of (inbound_of c ''client/hello'' ''transport'') of
     None \<Rightarrow> VNone | Some hello \<Rightarrow> dict_get field (payload_or hello))"

text \<open>\<open>_preferred_roles\<close>, the roles a declaration activates: the first version listed of each family.\<close>

fun preferred_from :: "string list \<Rightarrow> pyval list \<Rightarrow> string list" where
  "preferred_from families [] = []"
| "preferred_from families (v # vs) = (case v of
     VStr role \<Rightarrow> (let family = takeWhile (\<lambda>c. c \<noteq> CHR ''@'') role in
       if family \<in> set families then preferred_from families vs else role # preferred_from (family # families) vs)
   | _ \<Rightarrow> preferred_from families vs)"

definition preferred_roles :: "connection_record \<Rightarrow> string list" where
  "preferred_roles c = preferred_from [] (list_or_empty (hello_value ''supported_roles'' c))"

definition dict_or_empty :: "pyval \<Rightarrow> pydict" where
  "dict_or_empty v = (case v of VDict d \<Rightarrow> d | _ \<Rightarrow> [])"

definition pair_methods :: "connection_record \<Rightarrow> pydict" where
  "pair_methods c = dict_or_empty (hello_value ''supported_pair_methods'' c)"

definition player_of :: "pydict \<Rightarrow> pydict" where
  "player_of p = dict_or_empty (dict_get ''player'' p)"

section \<open>The unpaired suite\<close>

definition u1 :: "'p surroundings \<Rightarrow> client_link \<Rightarrow> ('p, finding list) act" where
  "u1 w lk = bind_act (read_state (\<lambda>s. current_connection lk (vs_recorder s))) (\<lambda>number.
     bind_act (record_by_client_id lk) (\<lambda>paired.
     bind_act (if paired = None then ret number else bind_act (remove_record lk) (\<lambda>u. reconnect w lk)) (\<lambda>connection.
     case connection of
       None \<Rightarrow> lift (step_not_reached ''U1'' ''your app did not reconnect in time'' 0)
     | Some n \<Rightarrow> bind_act (record_now n) (\<lambda>c. lift (check_sentinel_handshake c)))))"

text \<open>\<open>_declare\<close>: the message goes out after aiosendspin's own activation.\<close>

definition declare_activities :: "'p surroundings \<Rightarrow> int \<Rightarrow> ('p, bool) act" where
  "declare_activities w number =
     bind_act (until w number ended_or_activated) (\<lambda>initial.
     bind_act (read_state (\<lambda>s. initial \<and> attached w number s \<and> is_open (vs_recorder s) (Some number))) (\<lambda>ready.
     if \<not> ready then ret False
     else bind_act (record_now number) (\<lambda>c.
       let before = length (activations_sent c) in
       bind_act (until w number (\<lambda>c. closed c \<or> before < length (activations_sent c))) (\<lambda>b.
       bind_act (record_now number) (\<lambda>c. ret (before < length (activations_sent c)))))))"

text \<open>What U2 and U4 share: declare on a connection of the wanted access, wait, and judge.\<close>

definition declared_step :: "'p surroundings \<Rightarrow> client_link \<Rightarrow> string \<Rightarrow> string list \<Rightarrow> check \<Rightarrow> ('p, finding list) act" where
  "declared_step w lk step answers judge =
     bind_act (connect_matching w lk (\<lambda>c. unpaired_access c = Some False)) (\<lambda>connection. case connection of
       None \<Rightarrow> lift (step_not_reached step ''no connection reported unpaired access off in time'' 0)
     | Some number \<Rightarrow> bind_act (declare_activities w number) (\<lambda>declared.
         if \<not> declared
         then lift (step_not_reached step ''the connection ended before the validator could activate'' 0)
         else bind_act (until w number (ended_or_said answers)) (\<lambda>b.
           bind_act (record_now number) (\<lambda>c. lift (judge c)))))"

definition u2 :: "'p surroundings \<Rightarrow> client_link \<Rightarrow> ('p, finding list) act" where
  "u2 w lk = declared_step w lk ''U2'' [''client/goodbye''] check_pairing_required"

definition u4 :: "'p surroundings \<Rightarrow> client_link \<Rightarrow> ('p, finding list) act" where
  "u4 w lk = declared_step w lk ''U4'' [''client/goodbye'', ''pair/abort''] check_inadmissible_activation"

definition u3 :: "'p surroundings \<Rightarrow> client_link \<Rightarrow> ('p, finding list) act" where
  "u3 w lk = bind_act (connect_matching w lk (\<lambda>c. unpaired_access c = Some True)) (\<lambda>connection. case connection of
     None \<Rightarrow> lift (step_not_reached ''U3'' ''no connection reported unpaired access on in time'' 0)
   | Some number \<Rightarrow> bind_act (until w number (ended_or_said [''client/state'', ''client/goodbye''])) (\<lambda>b.
       bind_act (record_now number) (\<lambda>c. lift (check_unpaired_playback c))))"

definition unpaired_steps :: "'p surroundings \<Rightarrow> client_link \<Rightarrow> bool \<Rightarrow> ('p, unit) act" where
  "unpaired_steps w lk fault_injection =
     bind_act (run_step w ''U1'' None (u1 w lk)) (\<lambda>u.
     bind_act (run_step w ''U2'' (Some HUMAN) (u2 w lk)) (\<lambda>u.
     bind_act (if fault_injection then run_step w ''U4'' None (u4 w lk)
       else report_py (not_run (step_checks ''U4'') NOT_APPLICABLE ''fault injection is opt-in: run with --fault-injection'')) (\<lambda>u.
     run_step w ''U3'' (Some HUMAN) (u3 w lk))))"

definition unpaired_suite :: "'p surroundings \<Rightarrow> client_link \<Rightarrow> bool \<Rightarrow> ('p, unit) act" where
  "unpaired_suite w lk fault_injection = bind_act (record_by_client_id lk) (\<lambda>earlier.
     finally_do (unpaired_steps w lk fault_injection)
       (case earlier of None \<Rightarrow> ret () | Some record \<Rightarrow> store_record lk record))"

end
