(* ===== verification/Suite_Runs.thy ===== *)
theory Suite_Runs
  imports Suite_Steps
begin

text \<open>
  \<open>SuiteRunner\<close> of \<open>validator/suites.py\<close>, continued: the pairing and the post-pairing suite, and \<open>run\<close>.
\<close>

section \<open>The pairing suite\<close>

text \<open>\<open>_ask_token\<close>: the token is registered before anything else is done with it, its PSK once it decodes.\<close>

definition psk_token_turn :: "'p surroundings \<Rightarrow> 'p validation \<Rightarrow> (string option py + unit) \<times> 'p validation" where
  "psk_token_turn w s = (
     let s' = pass_turn w s in
     case su_text w (vs_turn s) of
       Inl e \<Rightarrow> (Inl (Inl e), s')
     | Inr answer \<Rightarrow>
         if an_reply answer = RETRY then (Inr (), s')
         else (case (if an_reply answer = ANSWERED then an_value answer else None) of
           None \<Rightarrow> (Inl (Inr None), s')
         | Some line \<Rightarrow>
             let token = strip line; s1 = on_recorder (add_secret token) s'
             in case decode_psk_token token of
                  Inl e \<Rightarrow> if exc_name e = ''ValueError'' then (Inr (), s1) else (Inl (Inl e), s1)
                | Inr decoded \<Rightarrow> (Inl (Inr (Some token)), on_recorder (add_secret (b64url_encode (pt_pairing_psk decoded))) s1)))"

definition ask_psk_token :: "'p surroundings \<Rightarrow> ('p, string option) act" where
  "ask_psk_token w = loop_act (psk_token_turn w)"

definition initiate_psk_pairing :: "'p surroundings \<Rightarrow> client_link \<Rightarrow> int \<Rightarrow> ('p, unit) act" where
  "initiate_psk_pairing w lk number = bind_act (try_act (call w)) (\<lambda>r. case r of
     Inr u \<Rightarrow> note_keying w lk number
   | Inl e \<Rightarrow> if exc_name e \<in> set ATTEMPT_ERRORS then ret () else raising e)"

definition p1_verdicts :: "finding list \<Rightarrow> connection_record \<Rightarrow> int \<Rightarrow> finding list py" where
  "p1_verdicts findings c since = gather [Inr findings, check_pairing_rehandshake since c, check_pair_init since c,
     check_pair_finalize since c, check_promotion since c, check_paired_activation since c]"

definition p1_pair :: "'p surroundings \<Rightarrow> client_link \<Rightarrow> finding list \<Rightarrow> ('p, finding list) act" where
  "p1_pair w lk findings = bind_act (open_connection w lk) (\<lambda>connection. case connection of
     None \<Rightarrow> lift (gather [Inr findings, step_not_reached ''P1'' ''your app did not reconnect in time'' 2])
   | Some number \<Rightarrow> bind_act (since_now number) (\<lambda>since.
       bind_act (initiate_psk_pairing w lk number) (\<lambda>u.
       bind_act (until w number closed) (\<lambda>b.
       bind_act (record_now number) (\<lambda>c. lift (p1_verdicts findings c since))))))"

definition p1 :: "'p surroundings \<Rightarrow> client_link \<Rightarrow> ('p, finding list) act" where
  "p1 w lk = bind_act (ask_psk_token w) (\<lambda>answer. case answer of
     None \<Rightarrow> lift (not_run (step_checks ''P1'') SKIPPED ''no pairing token was entered'')
   | Some token \<Rightarrow> bind_act (lift (check_pairing_token token (Some (lk_client_id lk)))) (\<lambda>findings.
       if list_ex (\<lambda>f. fi_verdict f \<noteq> PASS) findings
       then lift (gather [Inr findings, step_not_reached ''P1'' ''no usable pairing token'' 2])
       else bind_act (lift (decode_psk_token token)) (\<lambda>decoded. p1_pair w lk findings)))"

text \<open>\<open>_offered\<close>: a step of a method the client's hello does not offer is not run.\<close>

definition offered_step :: "'p surroundings \<Rightarrow> string \<Rightarrow> bool \<Rightarrow> string \<Rightarrow> ('p, finding list) act \<Rightarrow> ('p, unit) act" where
  "offered_step w step offered method run = (
     if offered then run_step w step None run
     else report_py (step_not_reached step (''the client's hello does not offer '' @ method) 0))"

definition PAIRING_STEPS :: "string list" where
  "PAIRING_STEPS = [''P2 QR'', ''P1'', ''P2'', ''P3'', ''P4 cancel'', ''P4 timeout'', ''P3 lockout'']"

definition pairing_steps :: "'p surroundings \<Rightarrow> client_link \<Rightarrow> string \<Rightarrow> pydict \<Rightarrow> ('p, unit) act" where
  "pairing_steps w lk language methods = (
     let dynamic = dict_or_empty (dict_get ''dynamic_pairing_code'' methods);
         formats = list_or_empty (dict_get ''formats'' dynamic);
         static = has_key ''static_pairing_code'' methods;
         coded = (formats \<noteq> [] \<or> static)
     in bind_act (offered_step w ''P2 QR'' (VStr ''qr_code'' \<in> set formats) ''dynamic_pairing_code in the qr_code format''
            (dynamic_step w lk language False dynamic)) (\<lambda>u.
        bind_act (offered_step w ''P1'' (has_key ''pairing_psk'' methods) ''pairing_psk'' (p1 w lk)) (\<lambda>u.
        bind_act (offered_step w ''P2'' (VStr ''digits'' \<in> set formats) ''dynamic_pairing_code in the digits format''
            (dynamic_step w lk language True dynamic)) (\<lambda>u.
        bind_act (offered_step w ''P3'' static ''static_pairing_code'' (static_step w lk)) (\<lambda>u.
        bind_act (offered_step w ''P4 cancel'' coded ''a pairing-code method'' (cancel_step w lk methods)) (\<lambda>u.
        bind_act (offered_step w ''P4 timeout'' coded ''a pairing-code method'' (timeout_step w lk methods)) (\<lambda>u.
        offered_step w ''P3 lockout'' static ''static_pairing_code'' (lockout_step w lk))))))))"

definition pairing_suite :: "'p surroundings \<Rightarrow> client_link \<Rightarrow> string \<Rightarrow> ('p, unit) act" where
  "pairing_suite w lk language = bind_act (read_state (\<lambda>s. current_connection lk (vs_recorder s))) (\<lambda>connection.
     case connection of
       None \<Rightarrow> report_py (none_reached PAIRING_STEPS ''no connection of the client completed its handshake'')
     | Some number \<Rightarrow> bind_act (record_now number) (\<lambda>c. pairing_steps w lk language (pair_methods c)))"

section \<open>The post-pairing suite\<close>

definition r1 :: "'p surroundings \<Rightarrow> client_link \<Rightarrow> ('p, finding list) act" where
  "r1 w lk = bind_act (reconnect w lk) (\<lambda>connection. case connection of
     None \<Rightarrow> lift (step_not_reached ''R1'' ''your app did not reconnect in time'' 0)
   | Some number \<Rightarrow> bind_act (until w number ended_or_activated) (\<lambda>b.
       bind_act (record_now number) (\<lambda>c. lift (check_long_term_reconnect c))))"

text \<open>\<open>_r3\<close>: the reconnect while the pairing is forgotten and unpaired playback withheld.\<close>

definition forgotten_reconnect :: "'p surroundings \<Rightarrow> client_link \<Rightarrow> ('p, int option) act" where
  "forgotten_reconnect w lk = bind_act (reconnect w lk) (\<lambda>connection. case connection of
     None \<Rightarrow> ret None
   | Some number \<Rightarrow> bind_act (until w number ended_or_activated) (\<lambda>b. ret (Some number)))"

definition r3 :: "'p surroundings \<Rightarrow> client_link \<Rightarrow> ('p, finding list) act" where
  "r3 w lk = bind_act (record_by_client_id lk) (\<lambda>paired. case paired of
     None \<Rightarrow> lift (step_not_reached ''R3'' ''the validator is not paired with the client'' 0)
   | Some record \<Rightarrow>
       bind_act (remove_record lk) (\<lambda>u.
       bind_act (set_admit_unpaired False) (\<lambda>u.
       bind_act (finally_do (forgotten_reconnect w lk)
         (bind_act (store_record lk record) (\<lambda>u. set_admit_unpaired True))) (\<lambda>connection.
       case connection of
         None \<Rightarrow> lift (step_not_reached ''R3'' ''your app did not reconnect in time'' 0)
       | Some number \<Rightarrow> bind_act (record_now number) (\<lambda>c. lift (check_forgotten_reconnect c))))))"

text \<open>\<open>text in value\<close>, which a value that is no container raises on, and \<open>any\<close> over such tests.\<close>

fun contains_py :: "string \<Rightarrow> pyval \<Rightarrow> bool py" where
  "contains_py x (VList vs) = Inr (VStr x \<in> set vs)"
| "contains_py x (VDict d) = Inr (has_key x d)"
| "contains_py x (VStr t) = Inr (sublist x t)"
| "contains_py x v = Inl (PyExc ''TypeError'' (''argument of type '' @ sq @ type_name v @ sq @ '' is not iterable''))"

fun any_py :: "('a \<Rightarrow> bool py) \<Rightarrow> 'a list \<Rightarrow> bool py" where
  "any_py holds [] = Inr False"
| "any_py holds (x # xs) = py_bind (holds x) (\<lambda>b. if b then Inr True else any_py holds xs)"

definition states_said :: "connection_record \<Rightarrow> recorded_frame list" where
  "states_said c = inbound_of c ''client/state'' ''transport''"

definition offers_delay :: "recorded_frame \<Rightarrow> bool py" where
  "offers_delay f = (let commands = dict_get ''supported_commands'' (player_of (payload_or f))
     in if truthy commands then contains_py ''set_output_delay'' commands else Inr False)"

definition reports_delay :: "nat \<Rightarrow> connection_record \<Rightarrow> bool" where
  "reports_delay delay c = list_ex (\<lambda>f. eq_int (dict_get ''output_delay_ms'' (player_of (payload_or f))) (int delay)) (states_said c)"

definition DELAY_MIN_MS :: nat where "DELAY_MIN_MS = 100"
definition DELAY_SPAN_MS :: nat where "DELAY_SPAN_MS = 400"

definition set_output_delay :: "'p surroundings \<Rightarrow> int \<Rightarrow> ('p, int option) act" where
  "set_output_delay w number = bind_act (record_now number) (\<lambda>c.
     bind_act (lift (any_py offers_delay (states_said c))) (\<lambda>offered.
     bind_act (read_state (\<lambda>s. su_player w (vs_turn s))) (\<lambda>player.
     if \<not> offered \<or> \<not> player then ret None
     else bind_act (draw_below w DELAY_SPAN_MS) (\<lambda>n.
       bind_act (until w number (reports_delay (DELAY_MIN_MS + n))) (\<lambda>echoed.
       ret (if echoed then Some (int (DELAY_MIN_MS + n)) else None))))))"

text \<open>A \<open>StopIteration\<close> that leaves a coroutine is a \<open>RuntimeError\<close>.\<close>

definition leave_coroutine :: "'a py \<Rightarrow> 'a py" where
  "leave_coroutine r = (case r of
     Inl e \<Rightarrow> if exc_name e = ''StopIteration'' then Inl (PyExc ''RuntimeError'' ''coroutine raised StopIteration'') else Inl e
   | Inr x \<Rightarrow> Inr x)"

definition r5_verdicts :: "connection_record \<Rightarrow> connection_record \<Rightarrow> int option \<Rightarrow> finding list py" where
  "r5_verdicts before after delay = leave_coroutine
     (gather [check_restart_keeps_pairing after, check_restart_keeps_output_delay before after delay])"

definition r5_restart :: "'p surroundings \<Rightarrow> client_link \<Rightarrow> int \<Rightarrow> int option \<Rightarrow> ('p, finding list) act" where
  "r5_restart w lk number delay = bind_act (await_reconnect w lk number) (\<lambda>connection. case connection of
     None \<Rightarrow> lift (step_not_reached ''R5'' ''your app did not disconnect and reconnect in time'' 0)
   | Some restarted \<Rightarrow> bind_act (until w restarted (ended_or_said [''client/state''])) (\<lambda>b.
       bind_act (record_now restarted) (\<lambda>after.
       bind_act (record_now number) (\<lambda>before. lift (r5_verdicts before after delay)))))"

definition r5 :: "'p surroundings \<Rightarrow> client_link \<Rightarrow> ('p, finding list) act" where
  "r5 w lk = bind_act (reconnect w lk) (\<lambda>connection. case connection of
     None \<Rightarrow> lift (step_not_reached ''R5'' ''your app did not reconnect in time'' 0)
   | Some number \<Rightarrow>
       bind_act (until w number (ended_or_said [''client/state''])) (\<lambda>b.
       bind_act (set_output_delay w number) (\<lambda>delay.
       bind_act (ask_confirm w) (\<lambda>answer.
       if \<not> said_yes answer then lift (not_run (step_checks ''R5'') SKIPPED ''the user did not restart the app'')
       else r5_restart w lk number delay))))"

text \<open>\<open>_r4\<close>: what follows the unpairing; the record is removed in the end, whatever happens.\<close>

definition r4_reconnect :: "'p surroundings \<Rightarrow> client_link \<Rightarrow> 'p \<Rightarrow> int \<Rightarrow> ('p, finding list) act" where
  "r4_reconnect w lk record number =
     bind_act (until w number closed) (\<lambda>b.
     bind_act (record_now number) (\<lambda>c.
     bind_act (lift (check_unpair_goodbye c)) (\<lambda>findings.
     bind_act (store_record lk record) (\<lambda>u.
     bind_act (reconnect w lk) (\<lambda>connection. case connection of
       None \<Rightarrow> lift (gather [Inr findings, step_not_reached ''R4'' ''your app did not reconnect in time'' 1])
     | Some again \<Rightarrow> bind_act (until w again ended_or_activated) (\<lambda>b.
         bind_act (record_now again) (\<lambda>c. lift (gather [Inr findings, check_record_dropped c]))))))))"

definition r4 :: "'p surroundings \<Rightarrow> client_link \<Rightarrow> ('p, finding list) act" where
  "r4 w lk = bind_act (record_by_client_id lk) (\<lambda>paired.
     bind_act (open_connection w lk) (\<lambda>connection.
     case (paired, connection) of
       (Some record, Some number) \<Rightarrow>
         bind_act (try_act (call w)) (\<lambda>r. case r of
           Inl e \<Rightarrow> if exc_name e = ''ValueError''
             then lift (step_not_reached ''R4'' ''the client disconnected before server/unpair'' 0) else raising e
         | Inr u \<Rightarrow> finally_do (r4_reconnect w lk record number) (remove_record lk))
     | _ \<Rightarrow> lift (step_not_reached ''R4'' ''no paired connection to unpair'' 0)))"

definition post_pairing_suite :: "'p surroundings \<Rightarrow> client_link \<Rightarrow> ('p, unit) act" where
  "post_pairing_suite w lk = bind_act (record_by_client_id lk) (\<lambda>paired.
     if paired = None
     then report_py (none_reached [''R1'', ''R3'', ''R5'', ''R4''] ''the validator is not paired with the client'')
     else bind_act (run_step w ''R1'' None (r1 w lk)) (\<lambda>u.
       bind_act (run_step w ''R3'' None (r3 w lk)) (\<lambda>u.
       bind_act (run_step w ''R5'' (Some HUMAN) (r5 w lk)) (\<lambda>u.
       run_step w ''R4'' None (r4 w lk)))))"

section \<open>The run\<close>

definition when_selected :: "suite \<Rightarrow> suite_options \<Rightarrow> ('p, unit) act \<Rightarrow> ('p, unit) act" where
  "when_selected x options run = (if x \<in> so_suites options then run else ret ())"

definition run_suites :: "'p surroundings \<Rightarrow> client_link \<Rightarrow> string \<Rightarrow> suite_options \<Rightarrow> ('p, finding list) act" where
  "run_suites w lk language options =
     bind_act (when_selected UNPAIRED_SUITE options (unpaired_suite w lk (so_fault_injection options))) (\<lambda>u.
     bind_act (when_selected PAIRING_SUITE options (pairing_suite w lk language)) (\<lambda>u.
     bind_act (when_selected POST_PAIRING_SUITE options (post_pairing_suite w lk)) (\<lambda>u.
     read_state vs_findings)))"

end
