(* ===== verification/Session_Facts.thy ===== *)
theory Session_Facts
  imports Suite_Runs Suite_Facts Code_Facts Recorder_Facts
begin

text \<open>
  Rules for actions, one per combinator: what a normal result satisfies (\<open>gives\<close>), how the state moves
  whatever the result (locale \<open>moving\<close>), and that an action returns (\<open>ends\<close>).
\<close>

section \<open>Results\<close>

definition gives :: "('p, 'a) act \<Rightarrow> ('a \<Rightarrow> bool) \<Rightarrow> bool" where
  "gives m P \<longleftrightarrow> (\<forall>s x s'. m s = Some (Inr x, s') \<longrightarrow> P x)"

lemma givesI: "(\<And>s x s'. m s = Some (Inr x, s') \<Longrightarrow> P x) \<Longrightarrow> gives m P"
  by (simp add: gives_def)

lemma givesD: "gives m P \<Longrightarrow> m s = Some (Inr x, s') \<Longrightarrow> P x"
  by (auto simp: gives_def)

lemma bind_act_Some:
  "bind_act m f s = Some (r, s') \<longleftrightarrow>
     (\<exists>e. m s = Some (Inl e, s') \<and> r = Inl e) \<or> (\<exists>x t. m s = Some (Inr x, t) \<and> f x t = Some (r, s'))"
  by (auto simp: bind_act_def split: option.splits sum.splits)

lemma bind_act_None:
  "bind_act m f s = None \<longleftrightarrow> m s = None \<or> (\<exists>x t. m s = Some (Inr x, t) \<and> f x t = None)"
  by (auto simp: bind_act_def split: option.splits sum.splits)

lemma gives_bind: "gives m Q \<Longrightarrow> (\<And>x. Q x \<Longrightarrow> gives (f x) P) \<Longrightarrow> gives (bind_act m f) P"
  unfolding gives_def bind_act_Some by blast

lemma gives_any: "gives m (\<lambda>x. True)"
  by (simp add: gives_def)

lemma gives_after: "(\<And>x. gives (f x) P) \<Longrightarrow> gives (bind_act m f) P"
  by (rule gives_bind [OF gives_any])

lemma gives_ret: "P x \<Longrightarrow> gives (ret x) P"
  by (simp add: gives_def ret_def)

lemma gives_lift: "(\<And>x. r = Inr x \<Longrightarrow> P x) \<Longrightarrow> gives (lift r) P"
  by (simp add: gives_def lift_def)

lemma gives_raising: "gives (raising e) P"
  by (simp add: gives_def raising_def)

lemma gives_mono: "gives m Q \<Longrightarrow> (\<And>x. Q x \<Longrightarrow> P x) \<Longrightarrow> gives m P"
  unfolding gives_def by blast

lemma gives_finally: "gives m P \<Longrightarrow> gives (finally_do m fin) P"
  by (fastforce simp: gives_def finally_do_def split: option.splits sum.splits)

lemma gives_if: "(b \<Longrightarrow> gives m P) \<Longrightarrow> (\<not> b \<Longrightarrow> gives n P) \<Longrightarrow> gives (if b then m else n) P"
  by simp

lemma gives_option: "(x = None \<Longrightarrow> gives m P) \<Longrightarrow> (\<And>y. x = Some y \<Longrightarrow> gives (f y) P) \<Longrightarrow>
   gives (case x of None \<Rightarrow> m | Some y \<Rightarrow> f y) P"
  by (cases x) auto

lemma gives_sum: "(\<And>e. x = Inl e \<Longrightarrow> gives (m e) P) \<Longrightarrow> (\<And>y. x = Inr y \<Longrightarrow> gives (f y) P) \<Longrightarrow>
   gives (case x of Inl e \<Rightarrow> m e | Inr y \<Rightarrow> f y) P"
  by (cases x) auto

lemma gives_pair: "(\<And>a b. x = (a, b) \<Longrightarrow> gives (f a b) P) \<Longrightarrow> gives (case x of (a, b) \<Rightarrow> f a b) P"
  by (cases x) auto

lemmas gives_rules = gives_ret gives_lift gives_raising gives_finally gives_if gives_option gives_sum gives_pair

section \<open>How the state moves\<close>

text \<open>
  A reflexive and transitive relation that every primitive change of the state respects is respected
  by every action made of them, be its result a value or an exception.
\<close>

definition moves_by :: "('p validation \<Rightarrow> 'p validation \<Rightarrow> bool) \<Rightarrow> ('p, 'a) act \<Rightarrow> bool" where
  "moves_by le m \<longleftrightarrow> (\<forall>s r s'. m s = Some (r, s') \<longrightarrow> le s s')"

lemma moves_byD: "moves_by le m \<Longrightarrow> m s = Some (r, s') \<Longrightarrow> le s s'"
  by (auto simp: moves_by_def)

lemma loop_act_rule:
  assumes loop: "loop_act body s = Some (r, s')"
    and step: "\<And>s t. body s = (Inr (), t) \<Longrightarrow> le s t"
    and last: "\<And>s x t. body s = (Inl x, t) \<Longrightarrow> le s t \<and> P x t"
    and trans: "\<And>s t u. le s t \<Longrightarrow> le t u \<Longrightarrow> le s u"
  shows "le s s' \<and> P r s'"
proof -
  define Q where "Q body s y \<longleftrightarrow> (\<forall>s t. body s = (Inr (), t) \<longrightarrow> le s t)
      \<longrightarrow> (\<forall>s x t. body s = (Inl x, t) \<longrightarrow> le s t \<and> P x t) \<longrightarrow> le s (snd y) \<and> P (fst y) (snd y)" for body s y
  have "Q body s (r, s')"
  proof (rule loop_act.raw_induct [where P = Q, OF _ loop])
    fix again body s y
    assume IH: "\<And>body s y. again body s = Some y \<Longrightarrow> Q body s y"
      and turn: "(case body s of (Inl x, s') \<Rightarrow> Some (x, s') | (Inr u, s') \<Rightarrow> again body s') = Some y"
    obtain r t where rt: "body s = (r, t)" by (cases "body s")
    show "Q body s y"
    proof (cases r)
      case (Inl x)
      then show ?thesis using turn rt by (auto simp: Q_def)
    next
      case (Inr u)
      then have "Q body t y" using turn rt IH by auto
      moreover have "body s = (Inr (), t)" using Inr rt by simp
      ultimately show ?thesis unfolding Q_def by (blast intro: trans)
    qed
  qed
  then show ?thesis using step last by (simp add: Q_def)
qed

lemma gives_loop:
  assumes "\<And>s x t. body s = (Inl (Inr x), t) \<Longrightarrow> P x"
  shows "gives (loop_act body) P"
proof (rule givesI)
  fix s x s'
  assume "loop_act body s = Some (Inr x, s')"
  from loop_act_rule [where le = "\<lambda>_ _. True" and P = "\<lambda>r _. \<forall>y. r = Inr y \<longrightarrow> P y", OF this] assms
  show "P x" by blast
qed

locale moving =
  fixes le :: "'p validation \<Rightarrow> 'p validation \<Rightarrow> bool"
  assumes refl: "le s s"
    and trans: "le s t \<Longrightarrow> le t u \<Longrightarrow> le s u"
    and turn: "le s (pass_turn w s)"
    and event: "le s (on_recorder (observe_event n c k p d) s)"
    and secret: "le s (on_recorder (add_secret x) s)"
    and drawn: "le s (s\<lparr>vs_draws := j\<rparr>)"
    and static_code: "le s (s\<lparr>vs_static_code := code\<rparr>)"
begin

lemma moves_simple:
  "moves_by le (ret x)" "moves_by le (raising e)" "moves_by le (lift r)" "moves_by le (read_state f)"
  "moves_by le (record_now number)" "moves_by le (since_now number)"
  by (auto simp: moves_by_def ret_def raising_def lift_def read_state_def record_now_def since_now_def intro: refl)

lemma moves_bind: "moves_by le m \<Longrightarrow> (\<And>x. moves_by le (f x)) \<Longrightarrow> moves_by le (bind_act m f)"
  unfolding moves_by_def bind_act_Some using trans by blast

lemma moves_try: "moves_by le m \<Longrightarrow> moves_by le (try_act m)"
  by (auto simp: moves_by_def try_act_def split: option.splits)

lemma moves_finally: "moves_by le m \<Longrightarrow> moves_by le fin \<Longrightarrow> moves_by le (finally_do m fin)"
  unfolding moves_by_def finally_do_def
  by (auto split: option.splits sum.splits) (blast intro: trans)+

lemma moves_loop:
  assumes "\<And>s r t. body s = (r, t) \<Longrightarrow> le s t"
  shows "moves_by le (loop_act body)"
  unfolding moves_by_def
proof (intro allI impI)
  fix s r s'
  assume "loop_act body s = Some (r, s')"
  then have "le s s' \<and> True" by (rule loop_act_rule) (use assms trans in blast)+
  then show "le s s'" ..
qed

lemma moves_change: "(\<And>s. le s (f s)) \<Longrightarrow> moves_by le (change f)"
  by (simp add: moves_by_def change_def)

lemma moves_if: "moves_by le m \<Longrightarrow> moves_by le n \<Longrightarrow> moves_by le (if b then m else n)"
  by simp

lemma moves_option: "moves_by le m \<Longrightarrow> (\<And>x. moves_by le (f x)) \<Longrightarrow> moves_by le (case v of None \<Rightarrow> m | Some x \<Rightarrow> f x)"
  by (cases v) auto

lemma moves_sum: "(\<And>e. moves_by le (m e)) \<Longrightarrow> (\<And>x. moves_by le (f x)) \<Longrightarrow> moves_by le (case v of Inl e \<Rightarrow> m e | Inr x \<Rightarrow> f x)"
  by (cases v) auto

lemma moves_pair: "(\<And>a b. moves_by le (f a b)) \<Longrightarrow> moves_by le (case v of (a, b) \<Rightarrow> f a b)"
  by (cases v) auto

lemma moves_turn: "moves_by le (\<lambda>s. Some (f s, pass_turn w s))"
  by (auto simp: moves_by_def intro: turn)

lemma moves_ask: "moves_by le (ask_confirm w)" "moves_by le (ask_choice w)" "moves_by le (call w)"
  using moves_turn by (simp_all add: ask_confirm_def [abs_def] ask_choice_def [abs_def] call_def [abs_def])

lemma moves_draw: "moves_by le (draw_below w n)"
  by (auto simp: moves_by_def draw_below_def intro: drawn)

lemmas moves_rules = moves_simple moves_bind moves_try moves_finally moves_change moves_if moves_option moves_sum
  moves_pair moves_ask moves_draw

text \<open>The client's connections.\<close>

lemma moves_link:
  "moves_by le (note_keying w lk number)"
  "moves_by le (until_py w number condition)"
  "moves_by le (until w number holds)"
  "moves_by le (dial w)"
  by (auto simp: note_keying_def until_def until_py_def moves_by_def dial_def Let_def change_def refl turn event
      split: option.splits sum.splits)

lemma moves_close: "moves_by le (close_connection w lk)"
proof -
  have wait: "moves_by le (bind_act (until w n closed) (\<lambda>b. ret ()))" for n
    by (intro moves_rules moves_link)
  show ?thesis
    unfolding moves_by_def close_connection_def Let_def
    by (auto split: option.splits if_splits intro: refl turn dest: moves_byD [OF wait] intro: trans [OF turn])
qed

lemma moves_next: "moves_by le (next_connection w lk watermark)"
  unfolding next_connection_def by (intro moves_rules moves_link turn)

lemma moves_reconnect: "moves_by le (reconnect w lk)"
  unfolding reconnect_def by (intro moves_rules moves_close moves_next)

lemma moves_open: "moves_by le (open_connection w lk)"
  using moves_reconnect unfolding moves_by_def open_connection_def Let_def
  by (auto intro: refl)

lemma moves_await: "moves_by le (await_reconnect w lk previous)"
  unfolding await_reconnect_def by (intro moves_rules moves_link moves_next)

lemma moves_match: "moves_by le (match_attempts w lk holds first left number)"
proof (induction left arbitrary: first number)
  case 0
  show ?case by (simp add: moves_by_def refl)
next
  case (Suc left)
  have "moves_by le (bind_act (if first then ret True else bind_act (ask_confirm w) (\<lambda>a.
            ret (an_reply a = RETRY \<or> an_reply a = ANSWERED \<and> an_value a = Some True))) (\<lambda>again.
          if \<not> again then ret None
          else bind_act (reconnect w lk) (\<lambda>next_number.
            if next_number = None then ret None else match_attempts w lk holds False left next_number)))"
    by (intro moves_rules moves_reconnect Suc)
  then show ?case by (auto simp: moves_by_def refl)
qed

lemma moves_matching: "moves_by le (connect_matching w lk holds)"
  using moves_match by (auto simp: moves_by_def connect_matching_def)

lemmas moves_connections = moves_link moves_close moves_next moves_reconnect moves_open moves_await moves_matching

end

end
