(* ===== verification/Step_Facts.thy ===== *)
theory Step_Facts
  imports Session_Facts
begin

text \<open>
  How the state moves in the steps of the suites, for any relation its primitive changes respect
  (locale \<open>moving\<close>, and \<open>moving_store\<close> for the steps that change the pairing store), with what every
  step leaves alone as interpretations.
\<close>

lemma on_recorder_register: "on_recorder (register_secret x) s = on_recorder (add_secret (upper x)) (on_recorder (add_secret x) s)"
  by (simp add: on_recorder_def register_secret_def)

lemma on_recorder_id: "on_recorder (\<lambda>r. r) s = s"
  by (simp add: on_recorder_def)

context moving
begin

section \<open>Steps that leave the store alone\<close>

lemma registered: "le s (on_recorder (register_secret x) s)"
  unfolding on_recorder_register by (rule trans [OF secret secret])

lemma token_registered: "le s (on_recorder (register_token x) s)"
proof (cases "canonical_token x")
  case (Inl e)
  then have "register_token x = register_secret x" by (simp add: register_token_def fun_eq_iff)
  then show ?thesis using registered by simp
next
  case (Inr canonical)
  then have "on_recorder (register_token x) s = on_recorder (register_secret (removeprefix canonical ''SP:''))
      (on_recorder (register_secret canonical) (on_recorder (register_secret x) s))"
    by (simp add: on_recorder_def register_token_def)
  moreover have "le s \<dots>" by (rule trans [OF trans [OF registered registered] registered])
  ultimately show ?thesis by simp
qed

lemma moves_enter_code: "le s (snd (enter_code digits typed s))"
proof -
  have twice: "le s (on_recorder (register_secret b) (on_recorder (register_secret a) s))" for a b
    by (rule trans [OF registered registered])
  have thrice: "le s (on_recorder (register_secret c) (on_recorder (register_secret b) (on_recorder (register_secret a) s)))" for a b c
    by (rule trans [OF twice registered])
  show ?thesis
    unfolding enter_code_def Let_def
    by (cases "format_pairing_code (strip_separators typed)")
      (simp_all only: if_split prod.sel sum.case registered twice thrice simp_thms if_distrib [of snd] cong: if_cong)
qed

lemma moves_ask_code: "moves_by le (ask_code w digits)"
  unfolding ask_code_def
proof (rule moves_loop)
  fix s r t
  have enter_moves: "le s (snd (enter_code digits typed (pass_turn w s)))" for typed
    by (rule trans [OF turn moves_enter_code])
  assume "ask_code_turn w digits s = (r, t)"
  then show "le s t"
    unfolding ask_code_turn_def
    by (auto split: sum.splits if_splits option.splits intro: turn) (metis enter_moves snd_conv)
qed

lemma moves_ask_token: "moves_by le (ask_token w)"
proof -
  have "moves_by le (loop_act (ask_token_turn w))"
    by (rule moves_loop) (auto simp: ask_token_turn_def split: sum.splits intro: turn)
  then show ?thesis
    unfolding ask_token_def by (intro moves_rules token_registered)
qed

lemma moves_wrong: "moves_by le (wrong_token w)" "moves_by le (wrong_static_code w)"
proof -
  show "moves_by le (wrong_token w)"
    unfolding wrong_token_def by (intro moves_rules registered)
  have "moves_by le (loop_act (wrong_static_turn w))"
    by (rule moves_loop) (auto simp: wrong_static_turn_def Let_def drawn split: if_splits)
  then show "moves_by le (wrong_static_code w)"
    unfolding wrong_static_code_def by (intro moves_rules registered)
qed

lemmas moves_codes = moves_ask_code moves_ask_token moves_wrong

lemma moves_dynamic_entry: "moves_by le (provide_dynamic w number e)"
  unfolding provide_dynamic_def ask_right_def enter_wrong_def mark_wrong_def ask_again_def Let_def
  by (intro moves_rules moves_codes)

lemma moves_human_checks: "moves_by le (ask_human_checks w e)"
  unfolding ask_human_checks_def by (intro moves_rules)

lemma moves_finish: "moves_by le (finish_attempt w lk number outcome)"
  unfolding finish_attempt_def by (intro moves_rules moves_link event)

lemma moves_times:
  assumes "\<And>e. moves_by le (provide e)"
  shows "moves_by le (provide_times provide n e)"
proof (induction n arbitrary: e)
  case (Suc n)
  show ?case unfolding provide_times.simps by (intro moves_rules assms Suc)
qed (simp add: moves_simple)

lemma moves_attempt:
  assumes "\<And>e. moves_by le (provide e)"
  shows "moves_by le (stretch w lk number provide task)"
    and "moves_by le (await_attempt w lk number provide task)"
    and "moves_by le (watch_attempt w lk number provide condition task)"
proof -
  show stretch: "moves_by le (stretch w lk number provide task)"
    unfolding stretch_def by (intro moves_rules moves_times assms moves_finish turn)
  show "moves_by le (await_attempt w lk number provide task)"
    unfolding await_attempt_def by (intro moves_rules moves_times assms moves_finish turn)
  show "moves_by le (watch_attempt w lk number provide condition task)"
    unfolding watch_attempt_def by (intro moves_rules stretch)
qed

lemma moves_end: "moves_by le (end_attempt w number)"
proof -
  have "moves_by le (bind_act (try_act (call w)) (\<lambda>r. case r of
         Inr u \<Rightarrow> ret () | Inl e \<Rightarrow> if exc_name e \<in> set ATTEMPT_ERRORS then ret () else raising e))"
    by (intro moves_rules)
  then show ?thesis by (auto simp: moves_by_def end_attempt_def refl)
qed

lemma moves_never: "moves_by le (never e)" "moves_by le (fixed_code code e)"
  unfolding fixed_code_def never_def by (intro moves_rules)+

lemma moves_provide_static: "moves_by le (provide_static w shown)"
  unfolding provide_static_def by (intro moves_rules moves_codes static_code)

lemmas moves_attempts = moves_attempt [OF moves_dynamic_entry] moves_attempt [OF moves_provide_static]
  moves_attempt [OF moves_never(1)] moves_attempt [OF moves_never(2)]

lemma moves_run_dynamic: "moves_by le (run_dynamic w lk number e)"
  unfolding run_dynamic_def watch_wrong_def by (intro moves_rules moves_attempts moves_end)

lemma moves_lockout: "moves_by le (lockout_attempts w lk number tries)"
proof (induction tries)
  case (Cons tried rest)
  show ?case
    unfolding lockout_attempts.simps lockout_watch_def Let_def
    by (intro moves_rules moves_attempts moves_end moves_codes Cons)
qed (simp add: moves_simple)

lemma moves_code_steps:
  "moves_by le (dynamic_step w lk language digits descriptor)"
  "moves_by le (static_step w lk)"
  "moves_by le (cancel_step w lk methods)"
  "moves_by le (timeout_step w lk methods)"
  "moves_by le (lockout_step w lk)"
  unfolding dynamic_step_def static_step_def cancel_step_def timeout_step_def lockout_step_def Let_def
  by (intro moves_rules moves_connections moves_run_dynamic moves_attempts moves_human_checks moves_end moves_lockout)+

lemma moves_unpaired_steps:
  "moves_by le (u2 w lk)" "moves_by le (u3 w lk)" "moves_by le (u4 w lk)"
  unfolding u2_def u3_def u4_def declared_step_def declare_activities_def Let_def
  by (intro moves_rules moves_connections)+

lemma moves_psk_token: "moves_by le (ask_psk_token w)"
  unfolding ask_psk_token_def
  by (rule moves_loop) (auto simp: psk_token_turn_def Let_def turn trans [OF turn secret] trans [OF trans [OF turn secret] secret]
      split: sum.splits if_splits option.splits)

lemma moves_p1: "moves_by le (p1 w lk)"
  unfolding p1_def p1_pair_def initiate_psk_pairing_def by (intro moves_rules moves_connections moves_psk_token)

lemma moves_reconnects: "moves_by le (r1 w lk)" "moves_by le (r5 w lk)"
  unfolding r1_def r5_def r5_restart_def set_output_delay_def by (intro moves_rules moves_connections)+

lemma moves_ready: "moves_by le (loop_act (ready_turn w))"
  by (rule moves_loop) (auto simp: ready_turn_def split: sum.splits intro: turn)

end

section \<open>Steps that change the pairing store\<close>

locale moving_store = moving le for le :: "'p validation \<Rightarrow> 'p validation \<Rightarrow> bool" +
  assumes store: "le s (s\<lparr>vs_store := st\<rparr>)"
begin

lemma moves_store: "moves_by le (record_by_client_id lk)" "moves_by le (remove_record lk)" "moves_by le (store_record lk record)"
  unfolding record_by_client_id_def remove_record_def store_record_def by (intro moves_rules store)+

lemma moves_u1: "moves_by le (u1 w lk)"
  unfolding u1_def by (intro moves_rules moves_store moves_connections)

lemma moves_r4: "moves_by le (r4 w lk)"
  unfolding r4_def r4_reconnect_def by (intro moves_rules moves_store moves_connections)

lemma moves_forgotten: "moves_by le (forgotten_reconnect w lk)"
  unfolding forgotten_reconnect_def by (intro moves_rules moves_connections)

lemma moves_r3_admitting:
  assumes "\<And>s b. le s (s\<lparr>vs_admit_unpaired := b\<rparr>)"
  shows "moves_by le (r3 w lk)"
  unfolding r3_def set_admit_unpaired_def
  by (intro moves_rules moves_store moves_forgotten assms)

end

end
