(* ===== verification/Step_Results.thy ===== *)
theory Step_Results
  imports Step_Facts
begin

text \<open>
  What each step reports: its own checks. A verdict function names the ids of its findings, whatever
  it is given (\<open>names\<close>); a step answers its checks when it gives findings for exactly those.
\<close>

section \<open>The ids of findings\<close>

definition names :: "string list \<Rightarrow> finding list py \<Rightarrow> bool" where
  "names ids r \<longleftrightarrow> (\<forall>fs. r = Inr fs \<longrightarrow> map fi_id fs = ids)"

lemma names_reports: "reports P ids r \<Longrightarrow> names ids r"
  by (simp add: names_def reports_def)

lemma names_gives: "names ids r \<Longrightarrow> (\<And>fs. map fi_id fs = ids \<Longrightarrow> P fs) \<Longrightarrow> gives (lift r) P"
  by (auto simp: names_def intro: gives_lift)

lemma names_gather: "list_all2 names idss rs \<Longrightarrow> names (concat idss) (gather rs)"
proof (induction rule: list_all2_induct)
  case (Cons ids idss r rs)
  then show ?case by (cases r; cases "gather rs") (auto simp: names_def)
qed (simp add: names_def)

lemma names_Inr: "map fi_id fs = ids \<Longrightarrow> names ids (Inr fs)"
  by (simp add: names_def)

lemma names_if: "(b \<Longrightarrow> names ids r) \<Longrightarrow> (\<not> b \<Longrightarrow> names ids q) \<Longrightarrow> names ids (if b then r else q)"
  by simp

lemma ref_finding_id: "ref_finding refs cid v msg frames = Inr f \<Longrightarrow> fi_id f = cid"
  by (auto simp: ref_finding_Inr_iff)

lemma human_id: "human cid v msg = Inr f \<Longrightarrow> fi_id f = cid"
  by (auto simp: human_def split: option.splits)

lemma collect_ids:
  assumes "\<And>x f. mk x = Inr f \<Longrightarrow> fi_id f = x"
  shows "names xs (collect (map mk xs))"
  unfolding names_def
proof (induction xs)
  case (Cons x xs)
  show ?case
    using Cons assms by (cases "mk x"; cases "collect (map mk xs)") auto
qed simp

lemma names_not_run: "names ids (not_run ids v msg)" "names ids (code_not_run ids v msg)"
    "names ids (code_not_applicable ids msg)"
  by (auto simp: not_run_def code_not_run_def code_not_applicable_def suite_finding_def code_finding_def
      intro!: collect_ids dest: ref_finding_id)

lemma names_step_not_run: "names (drop skip (step_checks step)) (step_not_run step v msg skip)"
  by (simp add: step_not_run_def names_not_run)

lemma names_step_not_reached: "names (drop skip (step_checks step)) (step_not_reached step why skip)"
  by (simp add: step_not_reached_def names_step_not_run)

lemma names_none_reached: "names (concat (map step_checks steps)) (none_reached steps why)"
  unfolding none_reached_def
  by (rule names_gather) (auto simp: list_all2_map1 list_all2_map2 list_all2_conv_all_nth
      intro: names_step_not_reached [where skip = 0, simplified])

lemma code_steps_listed:
  "list_all (\<lambda>(step, ids). code_step_checks step = ids \<and> step_checks step = ids \<and> distinct ids
     \<and> list_all (\<lambda>i. i \<in> set (map fst CODE_REFS)) ids) CODE_STEP_CHECKS"
  by code_simp

lemma step_checks_of:
  "step_checks ''U1'' = [''UNPAIRED-001'']" "step_checks ''U2'' = [''UNPAIRED-002'']"
  "step_checks ''U3'' = [''UNPAIRED-003'']" "step_checks ''U4'' = [''UNPAIRED-004'']"
  "step_checks ''P1'' = [''PAIR-PSK-001'', ''PAIR-PSK-002'', ''PAIR-PSK-003'', ''PAIR-PSK-004'', ''PAIR-PSK-005'',
     ''PAIR-PSK-006'', ''PAIR-PSK-007'']"
  "step_checks ''R1'' = [''POSTPAIR-001'']" "step_checks ''R3'' = [''POSTPAIR-002'']"
  "step_checks ''R4'' = [''POSTPAIR-003'', ''POSTPAIR-004'']" "step_checks ''R5'' = [''POSTPAIR-005'', ''POSTPAIR-006'']"
  by code_simp+

lemma names_one: "(\<And>f. r = Inr f \<Longrightarrow> fi_id f = cid) \<Longrightarrow> names [cid] (one r)"
  by (cases r) (simp_all add: names_def one_def)

lemma names_Inl: "names ids (Inl e)"
  by (simp add: names_def)

lemma suite_finding_id: "suite_finding cid v msg fs = Inr f \<Longrightarrow> fi_id f = cid"
  and code_finding_id: "code_finding cid v msg fs = Inr f \<Longrightarrow> fi_id f = cid"
  by (auto simp: suite_finding_def code_finding_def dest: ref_finding_id)

section \<open>The steps of the unpaired and post-pairing suites, and P1\<close>

definition answered_by :: "string \<Rightarrow> finding list \<Rightarrow> bool" where
  "answered_by step fs \<longleftrightarrow> map fi_id fs = step_checks step"

lemma answers_names: "names (step_checks step) r \<Longrightarrow> gives (lift r) (answered_by step)"
  by (rule names_gives) (simp_all add: answered_by_def)

lemma answers_not_reached: "gives (lift (step_not_reached step why 0)) (answered_by step)"
  using names_step_not_reached [of 0 step why] by (intro answers_names) simp

lemma answers_not_run: "gives (lift (not_run (step_checks step) v msg)) (answered_by step)"
  by (intro answers_names names_not_run)

lemma answers_reports: "reports P [cid] r \<Longrightarrow> step_checks step = [cid] \<Longrightarrow> gives (lift r) (answered_by step)"
  using names_reports [of P "[cid]" r] by (intro answers_names) simp

lemma answers_skipped:
  "names ids r \<Longrightarrow> ids @ drop (length ids) (step_checks step) = step_checks step \<Longrightarrow>
   gives (lift (gather [r, step_not_reached step why (length ids)])) (answered_by step)"
  using names_gather [of "[ids, drop (length ids) (step_checks step)]"] names_step_not_reached [of "length ids" step why]
  by (intro answers_names) (simp del: gather.simps)

lemma u1_answers: "gives (u1 w lk) (answered_by ''U1'')"
  unfolding u1_def
  by (intro gives_after gives_rules answers_not_reached answers_reports [OF keying_check_reports(1)] step_checks_of(1))

lemma declared_answers:
  assumes "\<And>c. reports (cites (frame_ids c)) [cid] (judge c)" and "step_checks step = [cid]"
  shows "gives (declared_step w lk step said judge) (answered_by step)"
  unfolding declared_step_def
  by (intro gives_after gives_rules answers_not_reached answers_reports [OF assms])

lemma u2_answers: "gives (u2 w lk) (answered_by ''U2'')"
  unfolding u2_def by (rule declared_answers [OF pairing_required_reports step_checks_of(2)])

lemma u4_answers: "gives (u4 w lk) (answered_by ''U4'')"
  unfolding u4_def by (rule declared_answers [OF inadmissible_reports step_checks_of(4)])

lemma u3_answers: "gives (u3 w lk) (answered_by ''U3'')"
  unfolding u3_def
  by (intro gives_after gives_rules answers_not_reached answers_reports [OF unpaired_playback_reports] step_checks_of)

lemma r1_answers: "gives (r1 w lk) (answered_by ''R1'')"
  unfolding r1_def
  by (intro gives_after gives_rules answers_not_reached answers_reports [OF keying_check_reports(2)] step_checks_of)

lemma r3_answers: "gives (r3 w lk) (answered_by ''R3'')"
  unfolding r3_def
  by (intro gives_after gives_rules answers_not_reached answers_reports [OF forgotten_reports] step_checks_of)

lemma names_leave: "names ids r \<Longrightarrow> names ids (leave_coroutine r)"
  by (cases r) (simp_all add: names_def leave_coroutine_def)

lemma delay_reports: "names [''POSTPAIR-006''] (check_restart_keeps_output_delay before after delay)"
  unfolding check_restart_keeps_output_delay_def n_a_def Let_def
  by (auto intro!: names_one suite_finding_id simp: names_Inl split: option.splits)

lemma r5_answers: "gives (r5 w lk) (answered_by ''R5'')"
proof -
  have "names (step_checks ''R5'') (r5_verdicts before after delay)" for before after delay
    using names_gather [of "[[''POSTPAIR-005''], [''POSTPAIR-006'']]", OF list_all2_Cons [THEN iffD2]]
      names_reports [OF keying_check_reports(4)] delay_reports
    unfolding r5_verdicts_def step_checks_of
    by (intro names_leave) (auto simp del: gather.simps)
  then show ?thesis
    unfolding r5_def r5_restart_def
    by (intro gives_after gives_rules answers_not_reached answers_not_run answers_names)
qed

lemma r4_answers: "gives (r4 w lk) (answered_by ''R4'')"
proof -
  have bye: "gives (lift (check_unpair_goodbye c)) (\<lambda>fs. map fi_id fs = [''POSTPAIR-003''])" for c
    by (rule names_gives [OF names_reports [OF unpair_reports]])
  have late: "gives (lift (gather [Inr fs, step_not_reached ''R4'' why 1])) (answered_by ''R4'')"
    if "map fi_id fs = [''POSTPAIR-003'']" for fs why
    using answers_skipped [OF names_Inr [OF that], of "''R4''" why] by (simp add: step_checks_of del: gather.simps)
  have dropped: "gives (lift (gather [Inr fs, check_record_dropped c])) (answered_by ''R4'')"
    if "map fi_id fs = [''POSTPAIR-003'']" for fs c
    using names_gather [of "[[''POSTPAIR-003''], [''POSTPAIR-004'']]" "[Inr fs, check_record_dropped c]"]
      names_Inr [OF that] names_reports [OF keying_check_reports(3)]
    by (intro answers_names) (simp add: step_checks_of del: gather.simps)
  have "gives (r4_reconnect w lk paired number) (answered_by ''R4'')" for paired number
    unfolding r4_reconnect_def
    by (intro gives_after gives_bind [OF bye] gives_rules late dropped) 
  then show ?thesis
    unfolding r4_def by (intro gives_after gives_rules answers_not_reached)
qed

lemma names_two:
  assumes "\<And>f. r = Inr f \<Longrightarrow> fi_id f = a" and "\<And>f. q = Inr f \<Longrightarrow> fi_id f = b"
  shows "names [a, b] (collect [r, q])"
  unfolding names_def collect.simps py_bind_Inr_iff by (auto dest: assms)

lemma token_names: "names [''PAIR-PSK-001'', ''PAIR-PSK-002''] (check_pairing_token token client_id)"
proof (cases "decode_psk_token token")
  case (Inl e)
  show ?thesis unfolding check_pairing_token_def Inl sum.case by (intro names_two) (erule suite_finding_id)+
next
  case (Inr decoded)
  have "names [''PAIR-PSK-001'', ''PAIR-PSK-002'']
      (collect [suite_finding ''PAIR-PSK-001'' PASS m fs, suite_finding ''PAIR-PSK-002'' v m' fs'])" for m fs v m' fs'
    by (intro names_two) (erule suite_finding_id)+
  then show ?thesis unfolding check_pairing_token_def Inr sum.case Let_def by (simp split: option.split)
qed

lemma p1_pair_answers:
  assumes "map fi_id fs = [''PAIR-PSK-001'', ''PAIR-PSK-002'']"
  shows "gives (p1_pair w lk fs) (answered_by ''P1'')"
proof -
  have skipped: "gives (lift (gather [Inr fs, step_not_reached ''P1'' why 2])) (answered_by ''P1'')" for why
    using answers_skipped [OF names_Inr [OF assms], of "''P1''" why] by (simp add: step_checks_of numeral_2_eq_2 del: gather.simps)
  have "names (step_checks ''P1'') (p1_verdicts fs c since)" for c since
    using names_gather [of "[[''PAIR-PSK-001'', ''PAIR-PSK-002''], [''PAIR-PSK-003''], [''PAIR-PSK-004''], [''PAIR-PSK-005''],
        [''PAIR-PSK-006''], [''PAIR-PSK-007'']]" "[Inr fs, check_pairing_rehandshake since c, check_pair_init since c,
        check_pair_finalize since c, check_promotion since c, check_paired_activation since c]"]
      names_Inr [OF assms] names_reports [OF rehandshake_reports] names_reports [OF pair_init_reports]
      names_reports [OF pair_finalize_reports] names_reports [OF promotion_reports] names_reports [OF paired_activation_reports]
    unfolding p1_verdicts_def step_checks_of by (simp del: gather.simps)
  then show ?thesis
    unfolding p1_pair_def by (intro gives_after gives_rules skipped answers_names)
qed

lemma p1_answers: "gives (p1 w lk) (answered_by ''P1'')"
proof -
  have judged: "gives (lift (check_pairing_token token (Some (lk_client_id lk)))) (\<lambda>fs. map fi_id fs = [''PAIR-PSK-001'', ''PAIR-PSK-002''])" for token
    by (rule names_gives [OF token_names])
  have skipped: "gives (lift (gather [Inr fs, step_not_reached ''P1'' why 2])) (answered_by ''P1'')"
    if "map fi_id fs = [''PAIR-PSK-001'', ''PAIR-PSK-002'']" for fs why
    using answers_skipped [OF names_Inr [OF that], of "''P1''" why] by (simp add: step_checks_of numeral_2_eq_2 del: gather.simps)
  have "gives (case answer of None \<Rightarrow> lift (not_run (step_checks ''P1'') SKIPPED ''no pairing token was entered'')
     | Some token \<Rightarrow> bind_act (lift (check_pairing_token token (Some (lk_client_id lk)))) (\<lambda>findings.
       if list_ex (\<lambda>f. fi_verdict f \<noteq> PASS) findings
       then lift (gather [Inr findings, step_not_reached ''P1'' ''no usable pairing token'' 2])
       else bind_act (lift (decode_psk_token token)) (\<lambda>decoded. p1_pair w lk findings))) (answered_by ''P1'')" for answer
  proof (rule gives_option)
    fix token
    show "gives (bind_act (lift (check_pairing_token token (Some (lk_client_id lk)))) (\<lambda>findings.
       if list_ex (\<lambda>f. fi_verdict f \<noteq> PASS) findings
       then lift (gather [Inr findings, step_not_reached ''P1'' ''no usable pairing token'' 2])
       else bind_act (lift (decode_psk_token token)) (\<lambda>decoded. p1_pair w lk findings))) (answered_by ''P1'')"
      by (rule gives_bind [OF judged]) (intro gives_if skipped gives_after p1_pair_answers)
  qed (rule answers_not_run)
  then show ?thesis
    unfolding p1_def by (rule gives_after)
qed

end
