(* ===== verification/Code_Results.thy ===== *)
theory Code_Results
  imports Step_Results
begin

text \<open>
  What the steps of pairing with a code report, and what the whole run reports: each step its own
  checks. The entry of a dynamic code keeps an invariant over whatever codes an attempt asks for
  (locale \<open>entry_invariant\<close>).
\<close>

section \<open>What a provider keeps\<close>

locale entry_invariant =
  fixes provide :: "('p, 'e) provider" and inv :: "'e \<Rightarrow> bool"
  assumes keeps: "inv e \<Longrightarrow> gives (provide e) (\<lambda>(r, e'). inv e')"
begin

lemma times_keeps: "inv e \<Longrightarrow> gives (provide_times provide n e) inv"
proof (induction n arbitrary: e)
  case (Suc n)
  then show ?case
    unfolding provide_times.simps
    by (intro gives_bind [OF keeps]) (auto intro!: gives_sum gives_ret split: prod.splits)
qed (simp add: gives_ret)

lemma stretch_keeps:
  assumes "inv (fst task)"
  shows "gives (stretch w lk number provide task) (\<lambda>task'. inv (fst task'))"
proof -
  have asked: "gives (bind_act (read_state (\<lambda>s. su_asked w (vs_turn s))) (\<lambda>n. bind_act (provide_times provide n (fst task)) f))
      (\<lambda>task'. inv (fst task'))" if "\<And>e. inv e \<Longrightarrow> gives (f e) (\<lambda>task'. inv (fst task'))" for f :: "'e \<Rightarrow> ('p, 'e \<times> attempt_error option py option) act"
    by (intro gives_after gives_bind [OF times_keeps [OF assms] that])
  show ?thesis
    unfolding stretch_def
    by (intro gives_option gives_after gives_ret assms asked) simp
qed

lemma await_keeps:
  assumes "inv (fst task)"
  shows "gives (await_attempt w lk number provide task) (\<lambda>(error, e). inv e)"
proof -
  have asked: "gives (bind_act (read_state (\<lambda>s. su_asked w (vs_turn s))) (\<lambda>n. bind_act (provide_times provide n (fst task)) f))
      (\<lambda>(error, e). inv e)" if "\<And>e. inv e \<Longrightarrow> gives (f e) (\<lambda>(error, e). inv e)" for f :: "'e \<Rightarrow> ('p, attempt_error option \<times> 'e) act"
    by (intro gives_after gives_bind [OF times_keeps [OF assms] that])
  show ?thesis
    unfolding await_attempt_def
    by (intro gives_option asked; intro gives_after gives_ret; simp add: assms)
qed

lemma watch_keeps:
  assumes "inv (fst task)"
  shows "gives (watch_attempt w lk number provide condition task) (\<lambda>(task', b). inv (fst task'))"
  unfolding watch_attempt_def
  by (rule gives_bind [OF stretch_keeps [OF assms]]) (simp add: gives_def read_state_def)

end

section \<open>The entry of a dynamic code\<close>

text \<open>
  The findings an entry collects: the token check of the QR format, once; in the digits format the check that
  the same code is shown again, which is made in the second round only.
\<close>

definition entry_ok :: "bool \<Rightarrow> dynamic_entry \<Rightarrow> bool" where
  "entry_ok digits e \<longleftrightarrow> de_digits e = digits \<and>
     (de_findings e = [] \<or> map fi_id (de_findings e) = [if digits then ''PAIR-DYN-010'' else ''PAIR-DYN-QR-009'']
        \<and> (digits \<longrightarrow> 2 \<le> de_round e))"

lemma qr_names: "names [''PAIR-DYN-QR-009''] (check_qr_token code)"
  using static_reports(6) by (rule names_reports)

lemma same_code_id: "same_code_finding same = Inr f \<Longrightarrow> fi_id f = ''PAIR-DYN-010''"
  by (auto simp: same_code_finding_def DYNAMIC_def dest: human_id)

lemma ask_right_ok:
  "entry_ok digits e \<Longrightarrow> gives (ask_right w e) (\<lambda>(r, e'). entry_ok digits e' \<and> de_round e' = de_round e)"
  unfolding ask_right_def
  by (intro gives_after gives_sum)
    (use qr_names in \<open>auto simp: entry_ok_def Let_def names_def intro!: gives_ret split: sum.splits\<close>)

lemma enter_wrong_ok:
  "entry_ok digits e \<Longrightarrow> gives (enter_wrong w number right e) (\<lambda>(r, e'). entry_ok digits e')"
  unfolding enter_wrong_def mark_wrong_def
  by (intro gives_if gives_after gives_sum) (auto simp: entry_ok_def gives_def read_state_def ret_def)

lemma ask_again_ok:
  assumes "entry_ok digits e" and "de_digits e" and "de_round e = 2 \<Longrightarrow> de_findings e = []"
  shows "gives (ask_again w right e) (\<lambda>(r, e'). entry_ok digits e')"
  unfolding ask_again_def
  by (intro gives_after gives_sum gives_if gives_ret)
    (use assms in \<open>auto simp: entry_ok_def dest: same_code_id intro!: gives_ret split: sum.splits\<close>)

lemma provide_dynamic_ok:
  assumes "entry_ok digits e0"
  shows "gives (provide_dynamic w number e0) (\<lambda>(r, e). entry_ok digits e)"
proof -
  let ?e = "e0\<lparr>de_round := Suc (de_round e0)\<rparr>"
  have next_ok: "entry_ok digits ?e" using assms by (auto simp: entry_ok_def)
  have first: "entry_ok digits (e1\<lparr>de_first := r\<rparr>)" if "entry_ok digits e1" for e1 r
    using that by (simp add: entry_ok_def)
  have right: "gives (ask_right w ?e) (\<lambda>(r, e). entry_ok digits e)"
    by (rule gives_mono [OF ask_right_ok [OF next_ok]]) auto
  have again: "gives (ask_again w code ?e) (\<lambda>(r, e). entry_ok digits e)" if "de_digits ?e" for code
    by (rule ask_again_ok [OF next_ok that]) (use that assms in \<open>auto simp: entry_ok_def\<close>)
  show ?thesis
    unfolding provide_dynamic_def Let_def
    by (intro gives_if gives_option gives_bind [OF right])
      (use next_ok right again in \<open>auto intro!: gives_sum gives_ret enter_wrong_ok first split: prod.splits\<close>)
qed

interpretation dynamic_entries: entry_invariant "provide_dynamic w number" "entry_ok digits"
  by unfold_locales (rule provide_dynamic_ok)

text \<open>The static code is judged each time it is asked for.\<close>

definition shown_ok :: "finding list \<Rightarrow> bool" where
  "shown_ok fs \<longleftrightarrow> fi_id ` set fs \<subseteq> {''PAIR-STATIC-008''}"

lemma presentation_names: "names [cid] (check_presentation cid typed digits)"
  unfolding check_presentation_def Let_def by (intro names_if names_one) (erule human_id)+

lemma provide_static_ok:
  assumes "shown_ok shown"
  shows "gives (provide_static w shown) (\<lambda>(r, e). shown_ok e)"
proof -
  have "shown_ok (shown @ fs)" if "check_presentation (STATIC @ ''-008'') code STATIC_DIGITS = Inr fs" for code fs
  proof -
    have "map fi_id fs = [''PAIR-STATIC-008'']"
      using that presentation_names [of "STATIC @ ''-008''" code STATIC_DIGITS] by (simp add: names_def STATIC_def)
    then have "fi_id ` set fs = {''PAIR-STATIC-008''}" by (metis list.set_map list.simps(15) empty_set)
    then show ?thesis using assms by (auto simp: shown_ok_def)
  qed
  then show ?thesis
    unfolding provide_static_def using assms by (intro gives_after gives_sum gives_ret) auto
qed

interpretation static_entries: entry_invariant "provide_static w" shown_ok
  by unfold_locales (rule provide_static_ok)

lemma run_dynamic_ok:
  assumes "entry_ok digits e"
  shows "gives (run_dynamic w lk number e) (\<lambda>(error, e'). entry_ok digits e')"
proof -
  have watched: "gives (watch_wrong w lk number task) (\<lambda>task'. entry_ok digits (fst task'))" if "entry_ok digits (fst task)" for task
    unfolding watch_wrong_def
    by (intro gives_if gives_bind [OF dynamic_entries.watch_keeps [OF that]])
      (use that in \<open>auto intro!: gives_after gives_ret split: prod.splits\<close>)
  have restarted: "entry_ok digits (restart_entry e)" if "entry_ok digits e" for e
    using that by (auto simp: entry_ok_def restart_entry_def)
  show ?thesis
    unfolding run_dynamic_def
    by (intro gives_bind [OF dynamic_entries.stretch_keeps] gives_bind [OF watched] gives_bind [OF dynamic_entries.await_keeps])
      (use assms in \<open>auto intro!: gives_if gives_ret dynamic_entries.await_keeps restarted\<close>)
qed

section \<open>Completing a step's checks\<close>

text \<open>Each check once, but for the one of P3 that judges every code asked for.\<close>

definition reported_once :: "string \<Rightarrow> string list \<Rightarrow> bool" where
  "reported_once step ids \<longleftrightarrow> distinct (filter (\<lambda>i. step = ''P3'' \<longrightarrow> i \<noteq> ''PAIR-STATIC-008'') ids)"

lemma distinct_once: "distinct ids \<Longrightarrow> reported_once step ids"
  by (simp add: reported_once_def)

lemma once_append:
  "reported_once step xs \<Longrightarrow> reported_once step ys \<Longrightarrow> set xs \<inter> set ys = {} \<Longrightarrow> reported_once step (xs @ ys)"
  by (auto simp: reported_once_def)

definition answered_code :: "string \<Rightarrow> finding list \<Rightarrow> bool" where
  "answered_code step fs \<longleftrightarrow> set (map fi_id fs) = set (step_checks step) \<and> reported_once step (map fi_id fs)"

lemma code_step_ids:
  "(step, ids) \<in> set CODE_STEP_CHECKS \<Longrightarrow> code_step_checks step = ids \<and> step_checks step = ids \<and> distinct ids"
  using code_steps_listed unfolding list_all_iff by fastforce

lemma named_answers:
  assumes "(step, ids) \<in> set CODE_STEP_CHECKS" and "names ids r"
  shows "gives (lift r) (answered_code step)"
  using assms(2) code_step_ids [OF assms(1)] by (intro names_gives [where ids = ids]) (auto simp: answered_code_def distinct_once)

lemma completed_answers:
  assumes "(step, ids) \<in> set CODE_STEP_CHECKS"
    and "\<And>fs. r = Inr fs \<Longrightarrow> set (map fi_id fs) \<subseteq> set ids \<and> reported_once step (map fi_id fs)"
  shows "gives (lift (py_bind r (code_complete step))) (answered_code step)"
proof (rule gives_lift)
  fix gs
  assume "py_bind r (code_complete step) = Inr gs"
  then obtain fs missing where fs: "r = Inr fs" and gs: "gs = fs @ missing"
    and missing: "code_not_applicable (filter (\<lambda>i. i \<notin> fi_id ` set fs) (code_step_checks step))
       ''not reached: the attempt ended first'' = Inr missing"
    by (auto simp: code_complete_def py_bind_Inr_iff)
  have "map fi_id missing = filter (\<lambda>i. i \<notin> fi_id ` set fs) ids"
    using missing names_not_run(3) code_step_ids [OF assms(1)] by (fastforce simp: names_def)
  then have "map fi_id gs = map fi_id fs @ filter (\<lambda>i. i \<notin> fi_id ` set fs) ids"
    by (simp add: gs)
  moreover have "reported_once step (map fi_id fs @ filter (\<lambda>i. i \<notin> fi_id ` set fs) ids)"
    by (rule once_append) (use assms(2) [OF fs] code_step_ids [OF assms(1)] in \<open>auto simp: distinct_once\<close>)
  ultimately show "answered_code step gs"
    using assms(2) [OF fs] code_step_ids [OF assms(1)] by (auto simp: answered_code_def)
qed

lemma names_verification:
  assumes "sort_key fst ids = ids"
  shows "names (map snd ids) (check_verification c since ids)"
proof -
  have mapped: "names (map snd ids) (collect (map mk ids))" if "\<And>x f. mk x = Inr f \<Longrightarrow> fi_id f = snd x" for mk
    unfolding names_def
  proof (induction ids)
    case (Cons x xs)
    then show ?case using that by (cases "mk x"; cases "collect (map mk xs)") auto
  qed simp
  have staged: "stage_finding failed msg frames confirm x = Inr f \<Longrightarrow> fi_id f = snd x" for failed msg frames confirm x f
    by (cases x) (auto simp: stage_finding_def code_n_a_def dest: code_finding_id split: option.splits if_splits)
  show ?thesis
    unfolding check_verification_def assms
    by (auto simp: code_n_a_def intro!: mapped dest: code_finding_id staged split: option.split)
qed

lemma code_ids: "DYNAMIC = ''PAIR-DYN''" "DYNAMIC_QR = ''PAIR-DYN-QR''" "STATIC = ''PAIR-STATIC''" "CONTROL = ''PAIR-CTL''"
  by (simp_all add: DYNAMIC_def DYNAMIC_QR_def STATIC_def CONTROL_def)

text \<open>The steps, with their checks.\<close>

lemma code_steps_here:
  "(''P2 QR'', [''PAIR-DYN-QR-001'', ''PAIR-DYN-QR-002'', ''PAIR-DYN-QR-003'', ''PAIR-DYN-QR-004'', ''PAIR-DYN-QR-005'',
     ''PAIR-DYN-QR-006'', ''PAIR-DYN-QR-007'', ''PAIR-DYN-QR-008'', ''PAIR-DYN-QR-009'']) \<in> set CODE_STEP_CHECKS"
  "(''P2'', [''PAIR-DYN-001'', ''PAIR-DYN-002'', ''PAIR-DYN-003'', ''PAIR-DYN-004'', ''PAIR-DYN-005'', ''PAIR-DYN-006'',
     ''PAIR-DYN-007'', ''PAIR-DYN-008'', ''PAIR-DYN-009'', ''PAIR-DYN-010'', ''PAIR-DYN-011'', ''PAIR-DYN-012'']) \<in> set CODE_STEP_CHECKS"
  "(''P3'', [''PAIR-STATIC-001'', ''PAIR-STATIC-002'', ''PAIR-STATIC-003'', ''PAIR-STATIC-004'', ''PAIR-STATIC-005'',
     ''PAIR-STATIC-006'', ''PAIR-STATIC-007'', ''PAIR-STATIC-008'']) \<in> set CODE_STEP_CHECKS"
  "(''P4 cancel'', [''PAIR-CTL-001'']) \<in> set CODE_STEP_CHECKS"
  "(''P4 timeout'', [''PAIR-CTL-002'']) \<in> set CODE_STEP_CHECKS"
  "(''P3 lockout'', [''PAIR-STATIC-009'', ''PAIR-STATIC-010'']) \<in> set CODE_STEP_CHECKS"
  by code_simp+

lemma answers_not_reached_code:
  "(step, ids) \<in> set CODE_STEP_CHECKS \<Longrightarrow> gives (lift (code_step_not_reached step why)) (answered_code step)"
  using code_step_ids [of step ids] unfolding code_step_not_reached_def by (intro named_answers) (auto simp: names_not_run)

lemma answers_not_run_code:
  "(step, ids) \<in> set CODE_STEP_CHECKS \<Longrightarrow> gives (lift (code_not_run (code_step_checks step) v msg)) (answered_code step)"
  using code_step_ids [of step ids] by (intro named_answers) (auto simp: names_not_run)

section \<open>The steps of pairing with a code\<close>

lemma cancel_answers: "gives (cancel_step w lk methods) (answered_code ''P4 cancel'')"
  unfolding cancel_step_def
  by (intro gives_after gives_rules answers_not_reached_code [OF code_steps_here(4)]
      named_answers [OF code_steps_here(4)] names_reports [OF static_reports(4)])

lemma timeout_answers: "gives (timeout_step w lk methods) (answered_code ''P4 timeout'')"
  unfolding timeout_step_def
  by (intro gives_after gives_rules answers_not_reached_code [OF code_steps_here(5)]
      named_answers [OF code_steps_here(5)] names_reports [OF static_reports(5)])

lemma lockout_names: "names [''PAIR-STATIC-009'', ''PAIR-STATIC-010''] (check_lockout c since)"
  using lockout_verdicts [of c since] by (auto simp: names_def Let_def)

lemma lockout_answers: "gives (lockout_step w lk) (answered_code ''P3 lockout'')"
  unfolding lockout_step_def
  by (intro gives_after gives_rules answers_not_reached_code [OF code_steps_here(6)]
      named_answers [OF code_steps_here(6)] lockout_names)

lemma static_ids_known: "list_all (\<lambda>i. i \<in> set (map fst CODE_REFS)) [''PAIR-STATIC-002'', ''PAIR-STATIC-005'']"
  by code_simp

lemma static_verdict_names:
  "names ([''PAIR-STATIC-001'', ''PAIR-STATIC-002'', ''PAIR-STATIC-003'', ''PAIR-STATIC-004'', ''PAIR-STATIC-005'',
      ''PAIR-STATIC-006'', ''PAIR-STATIC-007''] @ map fi_id shown)
    (gather [check_static_pending c since, check_pairing_index c since (STATIC @ ''-002''), check_static_shape c since,
      check_static_order c since, check_cpace_lengths c since (STATIC @ ''-005''),
      check_verification c since [(CLIENT_KC, STATIC @ ''-006''), (UNWRAP, STATIC @ ''-007'')], Inr shown])"
proof -
  have "names (map snd [(CLIENT_KC, ''PAIR-STATIC-006''), (UNWRAP, ''PAIR-STATIC-007'')])
      (check_verification c since [(CLIENT_KC, ''PAIR-STATIC-006''), (UNWRAP, ''PAIR-STATIC-007'')])"
    by (intro names_verification sort_key_id_if_sorted) (simp add: less_eq_stage_def)
  moreover have "names [''PAIR-STATIC-002''] (check_pairing_index c since ''PAIR-STATIC-002'')"
    "names [''PAIR-STATIC-005''] (check_cpace_lengths c since ''PAIR-STATIC-005'')"
    using static_ids_known by (auto intro!: names_reports [OF pairing_index_reports] names_reports [OF cpace_reports])
  ultimately have "names (concat [[''PAIR-STATIC-001''], [''PAIR-STATIC-002''], [''PAIR-STATIC-003''], [''PAIR-STATIC-004''],
      [''PAIR-STATIC-005''], [''PAIR-STATIC-006'', ''PAIR-STATIC-007''], map fi_id shown])
    (gather [check_static_pending c since, check_pairing_index c since (STATIC @ ''-002''), check_static_shape c since,
      check_static_order c since, check_cpace_lengths c since (STATIC @ ''-005''),
      check_verification c since [(CLIENT_KC, STATIC @ ''-006''), (UNWRAP, STATIC @ ''-007'')], Inr shown])"
    by (intro names_gather)
      (simp add: code_ids names_Inr names_reports [OF static_reports(1)] names_reports [OF static_reports(2)]
        names_reports [OF static_reports(3)])
  then show ?thesis by simp
qed

lemma static_answers: "gives (static_step w lk) (answered_code ''P3'')"
proof -
  have judged: "gives (lift (static_verdicts shown c since)) (answered_code ''P3'')" if "shown_ok shown" for shown c since
    unfolding static_verdicts_def
  proof (rule completed_answers [OF code_steps_here(3)])
    fix fs
    assume "gather [check_static_pending c since, check_pairing_index c since (STATIC @ ''-002''), check_static_shape c since,
      check_static_order c since, check_cpace_lengths c since (STATIC @ ''-005''),
      check_verification c since [(CLIENT_KC, STATIC @ ''-006''), (UNWRAP, STATIC @ ''-007'')], Inr shown] = Inr fs"
    then have ids: "map fi_id fs = [''PAIR-STATIC-001'', ''PAIR-STATIC-002'', ''PAIR-STATIC-003'', ''PAIR-STATIC-004'',
        ''PAIR-STATIC-005'', ''PAIR-STATIC-006'', ''PAIR-STATIC-007''] @ map fi_id shown"
      using static_verdict_names unfolding names_def by blast
    then show "set (map fi_id fs) \<subseteq> set [''PAIR-STATIC-001'', ''PAIR-STATIC-002'', ''PAIR-STATIC-003'', ''PAIR-STATIC-004'',
        ''PAIR-STATIC-005'', ''PAIR-STATIC-006'', ''PAIR-STATIC-007'', ''PAIR-STATIC-008''] \<and> reported_once ''P3'' (map fi_id fs)"
    proof -
      have "filter (\<lambda>i. i \<noteq> ''PAIR-STATIC-008'') (map fi_id shown) = []"
        using that by (auto simp: shown_ok_def filter_empty_conv simp del: filter_map)
      then have "reported_once ''P3'' (map fi_id fs)" by (simp add: reported_once_def ids)
      moreover have "set (map fi_id fs) \<subseteq> set [''PAIR-STATIC-001'', ''PAIR-STATIC-002'', ''PAIR-STATIC-003'', ''PAIR-STATIC-004'',
          ''PAIR-STATIC-005'', ''PAIR-STATIC-006'', ''PAIR-STATIC-007'', ''PAIR-STATIC-008'']"
        using that unfolding ids by (simp add: shown_ok_def) blast
      ultimately show ?thesis by blast
    qed
  qed
  have entered: "gives (await_attempt w lk number (provide_static w) ([], None)) (\<lambda>(error, shown). shown_ok shown)" for number
    by (rule static_entries.await_keeps) (simp add: shown_ok_def)
  show ?thesis
    unfolding static_step_def
    by (intro gives_after gives_option answers_not_reached_code [OF code_steps_here(3)] gives_bind [OF entered])
      (auto intro!: gives_if gives_after judged answers_not_run_code [OF code_steps_here(3)])
qed

text \<open>The dynamic code, in either format: its step, the prefix of its checks and their numbers.\<close>

definition flow_of :: "bool \<Rightarrow> string" where
  "flow_of digits = (if digits then DYNAMIC else DYNAMIC_QR)"

definition dynamic_name :: "bool \<Rightarrow> string" where
  "dynamic_name digits = (if digits then ''P2'' else ''P2 QR'')"

definition judged_ids :: "bool \<Rightarrow> string list" where
  "judged_ids digits = map ((@) (flow_of digits)) [''-001'', ''-002'', ''-003'', ''-004'', ''-005'', ''-006'', ''-007'', ''-008'']"

definition human_ids :: "bool \<Rightarrow> string list" where
  "human_ids digits = map ((@) (flow_of digits)) (if digits then [''-009'', ''-010'', ''-011'', ''-012''] else [''-009''])"

lemma dynamic_step_listed: "(dynamic_name digits, judged_ids digits @ human_ids digits) \<in> set CODE_STEP_CHECKS"
proof (cases digits)
  case True
  have "(''P2'', judged_ids True @ human_ids True) \<in> set CODE_STEP_CHECKS" by code_simp
  then show ?thesis using True by (simp add: dynamic_name_def)
next
  case False
  have "(''P2 QR'', judged_ids False @ human_ids False) \<in> set CODE_STEP_CHECKS" by code_simp
  then show ?thesis using False by (simp add: dynamic_name_def)
qed

lemma dynamic_ids_known: "i \<in> set (judged_ids digits @ human_ids digits) \<Longrightarrow> i \<in> fst ` set CODE_REFS"
  using code_steps_listed dynamic_step_listed [of digits] unfolding list_all_iff by fastforce

lemma dynamic_verdict_names:
  "names (judged_ids digits @ map fi_id answers)
    (gather [check_commit c since (flow_of digits), check_pairing_index c since (flow_of digits @ ''-002''),
      check_cpace_lengths c since (flow_of digits @ ''-003''), wrong_code_findings e (flow_of digits) c since,
      check_verification c since (stage_ids (flow_of digits)), Inr answers])"
proof -
  have known: "flow_of digits @ n \<in> fst ` set CODE_REFS" if "n \<in> set [''-001'', ''-002'', ''-003'', ''-004'']" for n
    by (rule dynamic_ids_known [of _ digits]) (use that in \<open>auto simp: judged_ids_def\<close>)
  have stages: "names (map snd (stage_ids (flow_of digits))) (check_verification c since (stage_ids (flow_of digits)))"
    by (intro names_verification sort_key_id_if_sorted) (simp add: stage_ids_def less_eq_stage_def)
  have wrong: "names [flow_of digits @ ''-004''] (wrong_code_findings e (flow_of digits) c since)"
    unfolding wrong_code_findings_def
    using known names_reports [OF wrong_code_reports] by (intro names_if names_not_run) auto
  have "names (concat [[flow_of digits @ ''-001''], [flow_of digits @ ''-002''], [flow_of digits @ ''-003''],
      [flow_of digits @ ''-004''], map snd (stage_ids (flow_of digits)), map fi_id answers])
    (gather [check_commit c since (flow_of digits), check_pairing_index c since (flow_of digits @ ''-002''),
      check_cpace_lengths c since (flow_of digits @ ''-003''), wrong_code_findings e (flow_of digits) c since,
      check_verification c since (stage_ids (flow_of digits)), Inr answers])"
    by (intro names_gather)
      (simp add: names_Inr stages wrong names_reports [OF commit_reports] names_reports [OF pairing_index_reports]
        names_reports [OF cpace_reports] known)
  then show ?thesis by (simp add: judged_ids_def stage_ids_def)
qed

definition answers_ok :: "bool \<Rightarrow> finding list \<Rightarrow> bool" where
  "answers_ok digits fs \<longleftrightarrow> distinct (map fi_id fs) \<and> set (map fi_id fs) \<subseteq> set (human_ids digits)"

lemma judged_not_human: "set (judged_ids digits) \<inter> set (human_ids digits) = {}" "distinct (judged_ids digits)"
  using code_step_ids [OF dynamic_step_listed [of digits]] by auto

lemma dynamic_verdicts_answer:
  assumes "answers_ok digits answers"
  shows "gives (lift (dynamic_verdicts (dynamic_name digits) (flow_of digits) e answers c since)) (answered_code (dynamic_name digits))"
  unfolding dynamic_verdicts_def
proof (rule completed_answers [OF dynamic_step_listed [of digits]])
  fix fs
  assume "gather [check_commit c since (flow_of digits), check_pairing_index c since (flow_of digits @ ''-002''),
      check_cpace_lengths c since (flow_of digits @ ''-003''), wrong_code_findings e (flow_of digits) c since,
      check_verification c since (stage_ids (flow_of digits)), Inr answers] = Inr fs"
  then have "map fi_id fs = judged_ids digits @ map fi_id answers"
    using dynamic_verdict_names unfolding names_def by blast
  moreover have "distinct (judged_ids digits @ map fi_id answers)" "set (map fi_id answers) \<subseteq> set (human_ids digits)"
    using assms judged_not_human [of digits] unfolding answers_ok_def distinct_append by blast+
  ultimately show "set (map fi_id fs) \<subseteq> set (judged_ids digits @ human_ids digits)
      \<and> reported_once (dynamic_name digits) (map fi_id fs)"
    by (simp add: distinct_once le_supI2)
qed

lemma human_checks_ok:
  assumes "entry_ok digits e"
  shows "gives (ask_human_checks w e) (answers_ok digits)"
proof -
  have kept: "answers_ok digits (de_findings e)"
    using assms by (auto simp: entry_ok_def answers_ok_def human_ids_def flow_of_def code_ids)
  have more: "answers_ok True (de_findings e @ shown @ fs)"
    if "digits" "map fi_id shown = [''PAIR-DYN-009'']" "map fi_id fs = [''PAIR-DYN-011'', ''PAIR-DYN-012'']" for shown fs
    using assms that by (auto simp: entry_ok_def answers_ok_def human_ids_def flow_of_def code_ids)
  have shown: "names [''PAIR-DYN-009''] (presentation_findings e typed)" for typed
    unfolding presentation_findings_def code_ids by (auto intro: names_if presentation_names names_not_run)
  have spoke: "fi_id f = ''PAIR-DYN-011''" if "spoke_finding a = Inr f" for a f
    using that by (auto simp: spoke_finding_def code_ids dest: human_id)
  have heard: "fi_id f = ''PAIR-DYN-012''" if "language_finding l a = Inr f" for l a f
    using that by (auto simp: language_finding_def code_ids Let_def py_bind_Inr_iff dest: human_id)
  have silent: "map fi_id fs = [''PAIR-DYN-011'', ''PAIR-DYN-012'']"
    if "code_not_applicable [DYNAMIC @ ''-011'', DYNAMIC @ ''-012''] msg = Inr fs" for fs msg
    using that names_not_run(3) [of "[DYNAMIC @ ''-011'', DYNAMIC @ ''-012'']" msg] by (simp add: names_def code_ids)
  show ?thesis
  proof (cases digits)
    case False
    then show ?thesis using kept assms unfolding ask_human_checks_def by (simp add: entry_ok_def gives_ret)
  next
    case True
    have "gives (if VStr ''speaker'' \<notin> set (de_channels e)
       then bind_act (lift (code_not_applicable [DYNAMIC @ ''-011'', DYNAMIC @ ''-012'']
              ''the client does not advertise the speaker out-channel'')) (\<lambda>fs. ret (de_findings e @ shown @ fs))
       else bind_act (ask_confirm w) (\<lambda>spoke.
         bind_act (lift (spoke_finding spoke)) (\<lambda>f.
         bind_act (ask_choice w) (\<lambda>heard.
         bind_act (lift (language_finding (de_language e) heard)) (\<lambda>g.
         ret (de_findings e @ shown @ [f, g])))))) (answers_ok digits)"
      if "map fi_id shown = [''PAIR-DYN-009'']" for shown
    proof (rule gives_if)
      show "gives (bind_act (lift (code_not_applicable [DYNAMIC @ ''-011'', DYNAMIC @ ''-012'']
              ''the client does not advertise the speaker out-channel'')) (\<lambda>fs. ret (de_findings e @ shown @ fs))) (answers_ok digits)"
        using more [OF True that] True by (intro gives_bind [OF gives_lift [OF silent]] gives_ret) auto
      show "gives (bind_act (ask_confirm w) (\<lambda>spoke.
         bind_act (lift (spoke_finding spoke)) (\<lambda>f.
         bind_act (ask_choice w) (\<lambda>heard.
         bind_act (lift (language_finding (de_language e) heard)) (\<lambda>g.
         ret (de_findings e @ shown @ [f, g])))))) (answers_ok digits)"
        by (rule gives_after, rule gives_bind [OF gives_lift [OF spoke]], assumption, rule gives_after,
            rule gives_bind [OF gives_lift [OF heard]], assumption, rule gives_ret)
          (use more [OF True that] True in auto)
    qed
    then show ?thesis
      unfolding ask_human_checks_def
      using kept by (intro gives_option gives_bind [OF names_gives [OF shown]] gives_ret) auto
  qed
qed

lemma new_entry_ok: "entry_ok digits (new_entry digits chans language)"
  by (simp add: entry_ok_def new_entry_def)

lemma dynamic_answers: "gives (dynamic_step w lk language digits descriptor) (answered_code (dynamic_name digits))"
proof -
  have "dynamic_step w lk language digits descriptor = bind_act (open_connection w lk) (\<lambda>connection. case connection of
       None \<Rightarrow> lift (code_step_not_reached (dynamic_name digits) ''your app did not reconnect in time'')
     | Some number \<Rightarrow> bind_act (since_now number) (\<lambda>since.
         bind_act (run_dynamic w lk number
           (new_entry digits (list_or_empty (dict_get ''out_channels'' descriptor)) language)) (\<lambda>(error, e).
         if was_skipped error then lift (code_not_run (code_step_checks (dynamic_name digits)) SKIPPED ''no code was entered'')
         else bind_act (until w number closed) (\<lambda>b.
           bind_act (ask_human_checks w e) (\<lambda>answers.
           bind_act (record_now number) (\<lambda>c. lift (dynamic_verdicts (dynamic_name digits) (flow_of digits) e answers c since)))))))"
    by (simp only: dynamic_step_def Let_def dynamic_name_def flow_of_def)
  moreover have "gives (if was_skipped error then lift (code_not_run (code_step_checks (dynamic_name digits)) SKIPPED ''no code was entered'')
         else bind_act (until w number closed) (\<lambda>b.
           bind_act (ask_human_checks w e) (\<lambda>answers.
           bind_act (record_now number) (\<lambda>c. lift (dynamic_verdicts (dynamic_name digits) (flow_of digits) e answers c since)))))
       (answered_code (dynamic_name digits))" if "entry_ok digits e" for error e number since
    by (rule gives_if [OF answers_not_run_code [OF dynamic_step_listed]], rule gives_after, rule gives_bind [OF human_checks_ok [OF that]])
      (intro gives_after dynamic_verdicts_answer)
  ultimately show ?thesis
    by (auto intro!: gives_after gives_option answers_not_reached_code [OF dynamic_step_listed]
        gives_bind [OF run_dynamic_ok [OF new_entry_ok]])
qed

end
