(* ===== verification/Run_Results.thy ===== *)
theory Run_Results
  imports Code_Results
begin

text \<open>
  What a run of the suites reports, and what every step leaves alone: the interpretations of \<open>moving\<close>
  on the findings reported so far, the secrets registered, and the approval of unpaired playback.
\<close>

section \<open>What the steps leave alone\<close>

lemma pass_turn_keeps:
  "vs_findings (pass_turn w s) = vs_findings s" "vs_admit_unpaired (pass_turn w s) = vs_admit_unpaired s"
  by (simp_all add: pass_turn_def)

interpretation reported: moving_store "\<lambda>s s'. vs_findings s' = vs_findings s"
  by unfold_locales (simp_all add: pass_turn_keeps on_recorder_def)

interpretation admitted: moving_store "\<lambda>s s'. vs_admit_unpaired s' = vs_admit_unpaired s"
  by unfold_locales (simp_all add: pass_turn_keeps on_recorder_def)

lemma reported_r3: "moves_by (\<lambda>s s'. vs_findings s' = vs_findings s) (r3 w lk)"
  by (rule reported.moves_r3_admitting) simp

lemmas reported_steps = reported.moves_u1 reported.moves_unpaired_steps reported.moves_p1 reported.moves_code_steps
  reported.moves_reconnects reported_r3 reported.moves_r4

section \<open>Parts of a run\<close>

definition covers_step :: "string \<Rightarrow> finding list \<Rightarrow> bool" where
  "covers_step step fs \<longleftrightarrow> set (map fi_id fs) = set (step_checks step) \<and> reported_once step (map fi_id fs)"

definition covers_steps :: "string list \<Rightarrow> finding list \<Rightarrow> bool" where
  "covers_steps steps fs \<longleftrightarrow> (\<exists>parts. fs = concat parts \<and> list_all2 covers_step steps parts)"

definition adds :: "('p, unit) act \<Rightarrow> string list \<Rightarrow> bool" where
  "adds m steps \<longleftrightarrow> (\<forall>s s'. m s = Some (Inr (), s') \<longrightarrow>
     (\<exists>fs. vs_findings s' = vs_findings s @ fs \<and> covers_steps steps fs))"

lemma covers_Nil: "covers_steps [] []"
  by (simp add: covers_steps_def)

lemma covers_one: "covers_step step fs \<Longrightarrow> covers_steps [step] fs"
  unfolding covers_steps_def by (intro exI [of _ "[fs]"]) simp

lemma covers_append: "covers_steps xs fs \<Longrightarrow> covers_steps ys gs \<Longrightarrow> covers_steps (xs @ ys) (fs @ gs)"
  unfolding covers_steps_def by (metis concat_append list_all2_appendI)

lemma adds_ret: "adds (ret ()) []"
  using covers_Nil by (auto simp: adds_def ret_def)

lemma adds_seq: "adds m xs \<Longrightarrow> adds n ys \<Longrightarrow> adds (bind_act m (\<lambda>u. n)) (xs @ ys)"
  unfolding adds_def bind_act_Some by (fastforce intro: covers_append)

lemma adds_cons: "adds m [x] \<Longrightarrow> adds n ys \<Longrightarrow> adds (bind_act m (\<lambda>u. n)) (x # ys)"
  using adds_seq [of m "[x]"] by simp

lemma adds_if: "adds m steps \<Longrightarrow> adds n steps \<Longrightarrow> adds (if b then m else n) steps"
  by simp

lemma adds_after: "moves_by (\<lambda>s s'. vs_findings s' = vs_findings s) m \<Longrightarrow> (\<And>x. adds (f x) steps) \<Longrightarrow> adds (bind_act m f) steps"
  unfolding adds_def moves_by_def bind_act_Some by fastforce

lemma adds_finally: "adds m steps \<Longrightarrow> moves_by (\<lambda>s s'. vs_findings s' = vs_findings s) fin \<Longrightarrow> adds (finally_do m fin) steps"
  unfolding adds_def moves_by_def finally_do_def by (fastforce split: option.splits sum.splits)

lemma steps_distinct: "list_all (\<lambda>(step, ids). step_checks step = ids \<and> distinct ids) STEP_CHECKS"
  by code_simp

lemma step_checks_distinct: "distinct (step_checks step)"
proof (cases "map_of STEP_CHECKS step")
  case (Some ids)
  then show ?thesis using steps_distinct map_of_SomeD unfolding list_all_iff by (fastforce simp: step_checks_def)
qed (simp add: step_checks_def)

lemma answered_covers: "answered_by step fs \<Longrightarrow> covers_step step fs"
  using distinct_once [OF step_checks_distinct] unfolding answered_by_def covers_step_def by metis

lemma answered_code_covers: "answered_code step fs \<Longrightarrow> covers_step step fs"
  by (simp add: answered_code_def covers_step_def)

lemma covers_evidence: "covers_step step (map (with_evidence ev) fs) = covers_step step fs"
proof -
  have "fi_id \<circ> with_evidence ev = fi_id" by (auto simp: with_evidence_def split: option.splits)
  then show ?thesis by (simp add: covers_step_def)
qed

lemma names_covers: "map fi_id fs = concat (map step_checks steps) \<Longrightarrow> covers_steps steps fs"
proof (induction steps arbitrary: fs)
  case (Cons step steps)
  then have "map fi_id (take (length (step_checks step)) fs) = step_checks step"
    "map fi_id (drop (length (step_checks step)) fs) = concat (map step_checks steps)"
    by (simp_all flip: take_map drop_map)
  then have "covers_steps ([step] @ steps) (take (length (step_checks step)) fs @ drop (length (step_checks step)) fs)"
    by (intro covers_append covers_one answered_covers Cons.IH) (simp_all add: answered_by_def)
  then show ?case by simp
qed (simp add: covers_Nil)

lemma adds_report: "gives (lift r) (covers_steps steps) \<Longrightarrow> adds (report_py r) steps"
  by (auto simp: adds_def report_py_def bind_act_Some lift_def report_findings_def change_def gives_def)

lemma adds_run_step:
  assumes "gives run (covers_step step)" and "moves_by (\<lambda>s s'. vs_findings s' = vs_findings s) run"
  shows "adds (run_step w step ev run) [step]"
proof -
  have skipped: "gives (lift (step_not_run step v msg 0)) (covers_step step)" for v msg
    using names_step_not_run [of 0 step v msg]
    by (intro names_gives [where ids = "step_checks step"] answered_covers) (simp_all add: answered_by_def)
  have ran: "adds (bind_act m (\<lambda>fs. report_findings (map (with_evidence ev) fs))) [step]"
    if "gives m (covers_step step)" "moves_by (\<lambda>s s'. vs_findings s' = vs_findings s) m" for m
    using that covers_evidence covers_one
    by (fastforce simp: adds_def bind_act_Some report_findings_def change_def gives_def moves_by_def)
  show ?thesis
    unfolding run_step_def
    by (intro adds_after reported.moves_ready ran gives_if assms skipped reported.moves_if reported.moves_simple)
qed

lemma adds_step: "gives run (answered_by step) \<Longrightarrow> moves_by (\<lambda>s s'. vs_findings s' = vs_findings s) run \<Longrightarrow>
   adds (run_step w step ev run) [step]"
  by (rule adds_run_step) (rule gives_mono, assumption, rule answered_covers)

lemma adds_offered:
  assumes "gives run (covers_step step)" and "moves_by (\<lambda>s s'. vs_findings s' = vs_findings s) run"
  shows "adds (offered_step w step offered method run) [step]"
proof -
  have "gives (lift (step_not_reached step why 0)) (covers_steps [step])" for why
    using names_step_not_reached [of 0 step why]
    by (intro names_gives [where ids = "step_checks step"] covers_one answered_covers) (simp_all add: answered_by_def)
  then have "adds (report_py (step_not_reached step why 0)) [step]" for why by (rule adds_report)
  then show ?thesis
    unfolding offered_step_def by (intro adds_if adds_run_step assms)
qed

section \<open>The suites\<close>

definition suite_steps :: "suite \<Rightarrow> string list" where
  "suite_steps x = (case x of UNPAIRED_SUITE \<Rightarrow> [''U1'', ''U2'', ''U4'', ''U3''] | PAIRING_SUITE \<Rightarrow> PAIRING_STEPS
     | POST_PAIRING_SUITE \<Rightarrow> [''R1'', ''R3'', ''R5'', ''R4''])"

definition steps_of :: "suite_options \<Rightarrow> string list" where
  "steps_of options = concat (map (\<lambda>x. if x \<in> so_suites options then suite_steps x else []) all_suites)"

lemma adds_unpaired: "adds (unpaired_suite w lk fault_injection) (suite_steps UNPAIRED_SUITE)"
proof -
  have "gives (lift (not_run (step_checks ''U4'') v msg)) (covers_steps [''U4''])" for v msg
    by (intro names_gives [OF names_not_run(1)] covers_one answered_covers) (simp add: answered_by_def)
  then have "adds (report_py (not_run (step_checks ''U4'') v msg)) [''U4'']" for v msg by (rule adds_report)
  then have u4: "adds (if fault_injection then run_step w ''U4'' None (u4 w lk)
       else report_py (not_run (step_checks ''U4'') NOT_APPLICABLE ''fault injection is opt-in: run with --fault-injection'')) [''U4'']"
    by (intro adds_if adds_step u4_answers reported_steps)
  have "adds (unpaired_steps w lk fault_injection) [''U1'', ''U2'', ''U4'', ''U3'']"
    unfolding unpaired_steps_def
    by (intro adds_cons u4 adds_step u1_answers u2_answers u3_answers reported_steps)
  then show ?thesis
    unfolding unpaired_suite_def suite_steps_def suite.case
    by (intro adds_after reported.moves_store adds_finally reported.moves_option reported.moves_simple)
qed

lemma code_covers:
  fixes w :: "'p surroundings"
  shows "gives (dynamic_step w lk language True d) (covers_step ''P2'')"
  "gives (dynamic_step w lk language False d) (covers_step ''P2 QR'')"
  "gives (static_step w lk) (covers_step ''P3'')"
  "gives (cancel_step w lk methods) (covers_step ''P4 cancel'')"
  "gives (timeout_step w lk methods) (covers_step ''P4 timeout'')"
  "gives (lockout_step w lk) (covers_step ''P3 lockout'')"
  "gives (p1 w lk) (covers_step ''P1'')"
proof -
  have code: "gives m (covers_step step)" if "gives m (answered_code step)" for m :: "('p, finding list) act" and step
    using that by (rule gives_mono) (rule answered_code_covers)
  show "gives (dynamic_step w lk language True d) (covers_step ''P2'')"
    "gives (dynamic_step w lk language False d) (covers_step ''P2 QR'')"
    using code dynamic_answers [of w lk language True d] dynamic_answers [of w lk language False d]
    by (simp_all add: dynamic_name_def)
  show "gives (static_step w lk) (covers_step ''P3'')" "gives (cancel_step w lk methods) (covers_step ''P4 cancel'')"
    "gives (timeout_step w lk methods) (covers_step ''P4 timeout'')" "gives (lockout_step w lk) (covers_step ''P3 lockout'')"
    by (rule code [OF static_answers] code [OF cancel_answers] code [OF timeout_answers] code [OF lockout_answers])+
  show "gives (p1 w lk) (covers_step ''P1'')"
    using p1_answers by (rule gives_mono) (rule answered_covers)
qed

lemma adds_pairing: "adds (pairing_suite w lk language) (suite_steps PAIRING_SUITE)"
proof -
  have "adds (pairing_steps w lk language methods) PAIRING_STEPS" for methods
    unfolding pairing_steps_def Let_def PAIRING_STEPS_def
    by (intro adds_cons adds_offered code_covers reported_steps)
  moreover have "adds (report_py (none_reached PAIRING_STEPS why)) PAIRING_STEPS" for why
    by (intro adds_report names_gives [OF names_none_reached] names_covers)
  ultimately show ?thesis
    unfolding pairing_suite_def suite_steps_def suite.case
    by (intro adds_after reported.moves_simple) (auto intro!: adds_after reported.moves_simple split: option.split)
qed

lemma adds_post_pairing: "adds (post_pairing_suite w lk) (suite_steps POST_PAIRING_SUITE)"
proof -
  have "adds (report_py (none_reached [''R1'', ''R3'', ''R5'', ''R4''] why)) [''R1'', ''R3'', ''R5'', ''R4'']" for why
    by (intro adds_report names_gives [OF names_none_reached] names_covers)
  moreover have "adds (bind_act (run_step w ''R1'' None (r1 w lk)) (\<lambda>u.
       bind_act (run_step w ''R3'' None (r3 w lk)) (\<lambda>u.
       bind_act (run_step w ''R5'' (Some HUMAN) (r5 w lk)) (\<lambda>u.
       run_step w ''R4'' None (r4 w lk))))) [''R1'', ''R3'', ''R5'', ''R4'']"
    by (intro adds_cons adds_step r1_answers r3_answers r5_answers r4_answers reported_steps)
  ultimately show ?thesis
    unfolding post_pairing_suite_def suite_steps_def suite.case
    by - (rule adds_after [OF reported.moves_store(1)], rule adds_if)
qed

lemma adds_selected: "adds run (suite_steps x) \<Longrightarrow>
   adds (when_selected x options run) (if x \<in> so_suites options then suite_steps x else [])"
  by (simp add: when_selected_def adds_ret)

lemma run_reports:
  assumes "run_suites w lk language options s = Some (Inr fs, s')"
  shows "fs = vs_findings s' \<and> (\<exists>new. fs = vs_findings s @ new \<and> covers_steps (steps_of options) new)"
proof -
  have "adds (bind_act (when_selected UNPAIRED_SUITE options (unpaired_suite w lk (so_fault_injection options))) (\<lambda>u.
     bind_act (when_selected PAIRING_SUITE options (pairing_suite w lk language)) (\<lambda>u.
     when_selected POST_PAIRING_SUITE options (post_pairing_suite w lk)))) (steps_of options)"
    unfolding steps_of_def all_suites_def list.map concat.simps append_Nil2
    by (intro adds_seq adds_selected adds_unpaired adds_pairing adds_post_pairing)
  then show ?thesis
    using assms unfolding run_suites_def adds_def by (fastforce simp: bind_act_Some read_state_def)
qed

end
