(* ===== verification/Run_Ends.thy ===== *)
theory Run_Ends
  imports Run_Results
begin

text \<open>
  That a run of the suites returns: every loop in it ends once the user answers in earnest, and every
  other wait is bounded.
\<close>

section \<open>Loops\<close>

definition ends :: "('p, 'a) act \<Rightarrow> bool" where
  "ends m \<longleftrightarrow> (\<forall>s. m s \<noteq> None)"

text \<open>
  A loop that counts its turns ends when some turn to come is good, a turn being good for a key of the
  state that the loop does not change.
\<close>

lemma loop_act_ends:
  assumes step: "\<And>s t. body s = (Inr (), t) \<Longrightarrow> count t = Suc (count s) \<and> key t = key s"
    and last: "\<And>s. good (key s) (count s) \<Longrightarrow> \<exists>x t. body s = (Inl x, t)"
    and ever: "\<And>k n. \<exists>n'\<ge>n. good k n'"
  shows "ends (loop_act body)"
proof -
  have "loop_act body s \<noteq> None" if "good (key s) n" "count s \<le> n" for s n
    using that
  proof (induction "n - count s" arbitrary: s)
    case 0
    then obtain x t where "body s = (Inl x, t)" using last by (metis diff_is_0_eq le_antisym)
    then show ?case by (subst loop_act.simps) simp
  next
    case (Suc d)
    show ?case
    proof (cases "body s")
      case (Pair r t)
      show ?thesis
      proof (cases r)
        case (Inl x)
        then show ?thesis using Pair by (subst loop_act.simps) simp
      next
        case (Inr u)
        then have "count t = Suc (count s)" "key t = key s" using step Pair by auto
        then have "loop_act body t \<noteq> None" using Suc by (intro Suc.hyps(1)) auto
        then show ?thesis using Pair Inr by (subst loop_act.simps) simp
      qed
    qed
  qed
  then show ?thesis unfolding ends_def using ever by metis
qed

section \<open>Rules\<close>

lemma ends_bind: "ends m \<Longrightarrow> (\<And>x. ends (f x)) \<Longrightarrow> ends (bind_act m f)"
  unfolding ends_def using bind_act_None by metis

lemma ends_simple:
  "ends (ret x)" "ends (raising e)" "ends (lift r)" "ends (read_state f)" "ends (change g)" "ends (record_now number)"
  "ends (since_now number)" "ends (ask_confirm w)" "ends (ask_choice w)" "ends (call w)" "ends (draw_below w n)"
  "ends (note_keying w lk number)" "ends (until_py w number condition)" "ends (until w number holds)" "ends (dial w)"
  by (simp_all add: ends_def ret_def raising_def lift_def read_state_def change_def record_now_def since_now_def
      ask_confirm_def ask_choice_def call_def draw_below_def note_keying_def until_def until_py_def Let_def dial_def split: sum.split)

lemma ends_try: "ends m \<Longrightarrow> ends (try_act m)"
  by (auto simp: ends_def try_act_def split: option.splits)

lemma ends_finally: "ends m \<Longrightarrow> ends fin \<Longrightarrow> ends (finally_do m fin)"
  unfolding ends_def finally_do_def by (auto split: option.splits sum.splits) (metis option.distinct(1))

lemma ends_if: "ends m \<Longrightarrow> ends n \<Longrightarrow> ends (if b then m else n)"
  by simp

lemma ends_option: "ends m \<Longrightarrow> (\<And>x. ends (f x)) \<Longrightarrow> ends (case v of None \<Rightarrow> m | Some x \<Rightarrow> f x)"
  by (cases v) auto

lemma ends_sum: "(\<And>e. ends (m e)) \<Longrightarrow> (\<And>x. ends (f x)) \<Longrightarrow> ends (case v of Inl e \<Rightarrow> m e | Inr x \<Rightarrow> f x)"
  by (cases v) auto

lemma ends_pair: "(\<And>a b. ends (f a b)) \<Longrightarrow> ends (case v of (a, b) \<Rightarrow> f a b)"
  by (cases v) auto

lemmas ends_rules = ends_simple ends_bind ends_try ends_finally ends_if ends_option ends_sum ends_pair

section \<open>The client's connections\<close>

lemma ends_close: "ends (close_connection w lk)"
proof -
  have "ends (bind_act (until w n closed) (\<lambda>b. ret ()))" for n by (intro ends_rules)
  then show ?thesis unfolding ends_def close_connection_def Let_def by (auto split: option.splits)
qed

lemma ends_next: "ends (next_connection w lk watermark)"
  unfolding next_connection_def by (intro ends_rules)

lemma ends_reconnect: "ends (reconnect w lk)"
  unfolding reconnect_def by (intro ends_rules ends_close ends_next)

lemma ends_open: "ends (open_connection w lk)"
  using ends_reconnect [of w lk] unfolding ends_def open_connection_def Let_def by auto

lemma ends_await: "ends (await_reconnect w lk previous)"
  unfolding await_reconnect_def by (intro ends_rules ends_next)

lemma ends_match: "ends (match_attempts w lk holds first left number)"
proof (induction left arbitrary: first number)
  case (Suc left)
  have "ends (bind_act (if first then ret True else bind_act (ask_confirm w) (\<lambda>a.
            ret (an_reply a = RETRY \<or> an_reply a = ANSWERED \<and> an_value a = Some True))) (\<lambda>again.
          if \<not> again then ret None
          else bind_act (reconnect w lk) (\<lambda>next_number.
            if next_number = None then ret None else match_attempts w lk holds False left next_number)))"
    by (intro ends_rules ends_reconnect Suc)
  then show ?case by (auto simp: ends_def)
qed (simp add: ends_def)

lemma ends_matching: "ends (connect_matching w lk holds)"
  using ends_match [of w lk holds True MATCH_ATTEMPTS] unfolding ends_def connect_matching_def by blast

lemmas ends_connections = ends_close ends_next ends_reconnect ends_open ends_await ends_matching

section \<open>Questions\<close>

text \<open>
  An answer that settles a question for text: the user does not ask for a retry, and what they typed,
  if they did, will do.
\<close>

definition settles :: "(string \<Rightarrow> bool) \<Rightarrow> string answer py \<Rightarrow> bool" where
  "settles will_do r \<longleftrightarrow> (case r of
     Inl e \<Rightarrow> True
   | Inr answer \<Rightarrow> an_reply answer \<noteq> RETRY
       \<and> (case (if an_reply answer = ANSWERED then an_value answer else None) of
            None \<Rightarrow> True | Some line \<Rightarrow> will_do (strip line)))"

definition is_code :: "nat \<Rightarrow> string \<Rightarrow> bool" where
  "is_code digits typed \<longleftrightarrow> length (strip_separators typed) = digits \<and> list_all is_digit (strip_separators typed)"

definition is_psk_token :: "string \<Rightarrow> bool" where
  "is_psk_token token \<longleftrightarrow> (\<exists>decoded. decode_psk_token token = Inr decoded)"

definition drawn_code :: "'p surroundings \<Rightarrow> nat \<Rightarrow> string" where
  "drawn_code w draw = padded STATIC_DIGITS (su_draw w draw mod 10 ^ STATIC_DIGITS)"

definition cooperative :: "'p surroundings \<Rightarrow> bool" where
  "cooperative w \<longleftrightarrow>
     (\<forall>t. \<exists>t'\<ge>t. \<forall>answer. su_yes w t' = Inr answer \<longrightarrow> an_reply answer \<noteq> RETRY)
     \<and> (\<forall>t. \<exists>t'\<ge>t. settles (is_code DYNAMIC_DIGITS) (su_text w t'))
     \<and> (\<forall>t. \<exists>t'\<ge>t. settles (is_code STATIC_DIGITS) (su_text w t'))
     \<and> (\<forall>t. \<exists>t'\<ge>t. settles is_psk_token (su_text w t'))
     \<and> (\<forall>d. \<exists>d'\<ge>d. drawn_code w d' \<noteq> drawn_code w d)"

lemma turn_passes: "vs_turn (pass_turn w s) = Suc (vs_turn s)" "vs_turn (on_recorder f s) = vs_turn s"
  by (simp_all add: pass_turn_def on_recorder_def)

text \<open>\<open>ends_loop\<close> for a loop that passes one turn of the user's each time.\<close>

lemma asking_ends:
  assumes "\<And>s t. body s = (Inr (), t) \<Longrightarrow> vs_turn t = Suc (vs_turn s)"
    and "\<And>s. good (vs_turn s) \<Longrightarrow> \<exists>x t. body s = (Inl x, t)" and "\<forall>n. \<exists>n'\<ge>n. good n'"
  shows "ends (loop_act body)"
  by (rule loop_act_ends [where count = vs_turn and key = "\<lambda>s. ()" and good = "\<lambda>k. good"]) (use assms in auto)

lemma ends_ready:
  assumes "cooperative w"
  shows "ends (loop_act (ready_turn w))"
proof (rule asking_ends)
  show "\<forall>t. \<exists>t'\<ge>t. \<forall>answer. su_yes w t' = Inr answer \<longrightarrow> an_reply answer \<noteq> RETRY"
    using assms by (simp add: cooperative_def)
qed (auto simp: ready_turn_def turn_passes split: sum.splits if_splits)

lemma enter_code_turn: "enter_code digits typed s = (Inr (), t) \<Longrightarrow> vs_turn t = vs_turn s"
  by (auto simp: enter_code_def Let_def turn_passes split: if_splits sum.splits)

lemma enter_code_settled: "is_code digits typed \<Longrightarrow> \<exists>x t. enter_code digits typed s = (Inl x, t)"
  by (auto simp: enter_code_def Let_def is_code_def split: sum.splits)

lemma ends_ask_code:
  assumes "\<forall>t. \<exists>t'\<ge>t. settles (is_code digits) (su_text w t')"
  shows "ends (ask_code w digits)"
  unfolding ask_code_def
proof (rule asking_ends [OF _ _ assms])
  show "ask_code_turn w digits s = (Inr (), t) \<Longrightarrow> vs_turn t = Suc (vs_turn s)" for s t
    by (auto simp: ask_code_turn_def turn_passes dest!: enter_code_turn split: sum.splits if_splits option.splits)
  show "settles (is_code digits) (su_text w (vs_turn s)) \<Longrightarrow> \<exists>x t. ask_code_turn w digits s = (Inl x, t)" for s
    using enter_code_settled
    by (auto simp: ask_code_turn_def settles_def split: sum.splits if_splits option.splits)
qed

lemma ends_ask_token:
  assumes "cooperative w"
  shows "ends (ask_token w)"
proof -
  have "ends (loop_act (ask_token_turn w))"
  proof (rule asking_ends)
    show "\<forall>t. \<exists>t'\<ge>t. settles is_psk_token (su_text w t')" using assms by (simp add: cooperative_def)
  qed (auto simp: ask_token_turn_def settles_def turn_passes split: sum.splits if_splits)
  then show ?thesis unfolding ask_token_def by (intro ends_rules)
qed

lemma ends_ask_psk_token:
  assumes "cooperative w"
  shows "ends (ask_psk_token w)"
  unfolding ask_psk_token_def
proof (rule asking_ends)
  show "\<forall>t. \<exists>t'\<ge>t. settles is_psk_token (su_text w t')" using assms by (simp add: cooperative_def)
  show "psk_token_turn w s = (Inr (), t) \<Longrightarrow> vs_turn t = Suc (vs_turn s)" for s t
    by (auto simp: psk_token_turn_def Let_def turn_passes split: sum.splits if_splits option.splits)
  show "settles is_psk_token (su_text w (vs_turn s)) \<Longrightarrow> \<exists>x t. psk_token_turn w s = (Inl x, t)" for s
    by (auto simp: psk_token_turn_def settles_def is_psk_token_def Let_def split: sum.splits if_splits option.splits)
qed

lemma ends_wrong_static:
  assumes "cooperative w"
  shows "ends (wrong_static_code w)"
proof -
  have "ends (loop_act (wrong_static_turn w))"
  proof (rule loop_act_ends)
    show "wrong_static_turn w s = (Inr (), t) \<Longrightarrow> vs_draws t = Suc (vs_draws s) \<and> vs_static_code t = vs_static_code s" for s t
      by (auto simp: wrong_static_turn_def Let_def split: if_splits)
    show "Some (drawn_code w (vs_draws s)) \<noteq> vs_static_code s \<Longrightarrow> \<exists>x t. wrong_static_turn w s = (Inl x, t)" for s
      by (simp add: wrong_static_turn_def drawn_code_def Let_def)
    show "\<exists>n'\<ge>n. Some (drawn_code w n') \<noteq> k" for k n
      using assms unfolding cooperative_def by (metis option.inject order_refl)
  qed
  then show ?thesis unfolding wrong_static_code_def by (intro ends_rules)
qed

lemma ends_questions:
  assumes "cooperative w"
  shows "ends (loop_act (ready_turn w))" "ends (ask_code w DYNAMIC_DIGITS)" "ends (ask_code w STATIC_DIGITS)"
    "ends (ask_token w)" "ends (ask_psk_token w)" "ends (wrong_static_code w)" "ends (wrong_token w)"
  using assms
  by (auto simp: cooperative_def wrong_token_def intro!: ends_ask_code intro: ends_ready ends_ask_token ends_ask_psk_token ends_wrong_static ends_rules)

section \<open>Pairing with a code\<close>

lemma ends_dynamic_entry:
  assumes "cooperative w"
  shows "ends (provide_dynamic w number e)"
  unfolding provide_dynamic_def ask_right_def enter_wrong_def mark_wrong_def ask_again_def Let_def
  by (intro ends_rules ends_questions [OF assms])

lemma ends_provide_static:
  assumes "cooperative w"
  shows "ends (provide_static w shown)"
  unfolding provide_static_def by (intro ends_rules ends_questions [OF assms])

lemma ends_never: "ends (never e)" "ends (fixed_code code e)"
  unfolding fixed_code_def never_def by (intro ends_rules)+

lemma ends_finish: "ends (finish_attempt w lk number outcome)"
  unfolding finish_attempt_def by (intro ends_rules)

lemma ends_times:
  assumes "\<And>e. ends (provide e)"
  shows "ends (provide_times provide n e)"
proof (induction n arbitrary: e)
  case (Suc n)
  show ?case unfolding provide_times.simps by (intro ends_rules assms Suc)
qed (simp add: ends_simple)

lemma ends_attempt:
  assumes "\<And>e. ends (provide e)"
  shows "ends (stretch w lk number provide task)" and "ends (await_attempt w lk number provide task)"
    and "ends (watch_attempt w lk number provide condition task)"
  unfolding watch_attempt_def stretch_def await_attempt_def
  by (intro ends_rules ends_times assms ends_finish)+

lemma ends_end: "ends (end_attempt w number)"
proof -
  have "ends (bind_act (try_act (call w)) (\<lambda>r. case r of
         Inr u \<Rightarrow> ret () | Inl e \<Rightarrow> if exc_name e \<in> set ATTEMPT_ERRORS then ret () else raising e))"
    by (intro ends_rules)
  then show ?thesis by (auto simp: ends_def end_attempt_def)
qed

lemma ends_attempts:
  assumes "cooperative w"
  shows "ends (stretch w lk number (provide_dynamic w n) task)" "ends (await_attempt w lk number (provide_dynamic w n) task)"
    "ends (watch_attempt w lk number (provide_dynamic w n) condition task)"
    "ends (await_attempt w lk number (provide_static w) task')"
    "ends (await_attempt w lk number never task2)" "ends (watch_attempt w lk number never condition task2)"
    "ends (stretch w lk number (fixed_code code) task2)" "ends (await_attempt w lk number (fixed_code code) task2)"
  by (intro ends_attempt ends_dynamic_entry ends_provide_static ends_never assms)+

lemma ends_lockout:
  assumes "cooperative w"
  shows "ends (lockout_attempts w lk number tries)"
proof (induction tries)
  case (Cons tried rest)
  show ?case
    unfolding lockout_attempts.simps lockout_watch_def Let_def
    by (intro ends_rules ends_attempts ends_end ends_questions assms Cons)
qed (simp add: ends_simple)

lemma ends_code_steps:
  assumes "cooperative w"
  shows "ends (dynamic_step w lk language digits descriptor)" "ends (static_step w lk)" "ends (cancel_step w lk methods)"
    "ends (timeout_step w lk methods)" "ends (lockout_step w lk)"
  unfolding dynamic_step_def static_step_def cancel_step_def timeout_step_def lockout_step_def run_dynamic_def watch_wrong_def
    ask_human_checks_def Let_def
  by (intro ends_rules ends_connections ends_attempts ends_end ends_lockout assms)+

section \<open>The suites\<close>

lemma ends_store: "ends (record_by_client_id lk)" "ends (remove_record lk)" "ends (store_record lk paired)" "ends (set_admit_unpaired b)"
  "ends (report_findings fs)" "ends (report_py r)"
  unfolding record_by_client_id_def remove_record_def store_record_def set_admit_unpaired_def report_findings_def report_py_def
  by (intro ends_rules)+

lemma ends_steps:
  assumes "cooperative w"
  shows "ends (u1 w lk)" "ends (u2 w lk)" "ends (u3 w lk)" "ends (u4 w lk)" "ends (p1 w lk)" "ends (r1 w lk)" "ends (r3 w lk)"
    "ends (r4 w lk)" "ends (r5 w lk)"
  unfolding u1_def u2_def u3_def u4_def declared_step_def declare_activities_def p1_def p1_pair_def initiate_psk_pairing_def
    r1_def r3_def forgotten_reconnect_def r4_def r4_reconnect_def r5_def r5_restart_def set_output_delay_def Let_def
  by (intro ends_rules ends_connections ends_store ends_questions assms)+

lemma ends_run_step:
  assumes "cooperative w" and "ends run"
  shows "ends (run_step w step ev run)" "ends (offered_step w step offered method run)"
  unfolding offered_step_def run_step_def by (intro ends_rules ends_store ends_questions assms)+

lemma ends_unpaired:
  assumes "cooperative w"
  shows "ends (unpaired_suite w lk fault_injection)"
  unfolding unpaired_suite_def unpaired_steps_def
  by (intro ends_rules ends_store ends_run_step ends_steps assms)

lemma run_ends:
  assumes "cooperative w"
  shows "ends (run_suites w lk language options)"
proof -
  note ends_unpaired [OF assms]
  moreover have "ends (pairing_suite w lk language)"
    unfolding pairing_suite_def pairing_steps_def Let_def
    by (intro ends_rules ends_store ends_run_step ends_steps ends_code_steps assms)
  moreover have "ends (post_pairing_suite w lk)"
    unfolding post_pairing_suite_def by (intro ends_rules ends_store ends_run_step ends_steps assms)
  ultimately show ?thesis
    unfolding run_suites_def when_selected_def by (intro ends_rules)
qed

end
