(* ===== verification/Run_Properties.thy ===== *)
theory Run_Properties
  imports Run_Ends
begin

text \<open>
  The properties of a run of the suites: it returns, reports every check of every step, puts back what
  it took away, registers every code before it is used, and enters no right code as a wrong one.
\<close>

section \<open>Secrets\<close>

definition registered_in :: "'p validation \<Rightarrow> string \<Rightarrow> bool" where
  "registered_in s p \<longleftrightarrow> p = [] \<or> p \<in> set (rc_secrets (vs_recorder s))"

text \<open>
  What a run does to its recorder is a sequence of the recorder's operations, whatever else it does.
\<close>

definition apply_ops :: "((nat list \<Rightarrow> pyval py) \<times> recorder_op) list \<Rightarrow> recorder \<Rightarrow> recorder" where
  "apply_ops = fold (\<lambda>(loads, x). apply_op loads x)"

definition recorded_later :: "'p validation \<Rightarrow> 'p validation \<Rightarrow> bool" where
  "recorded_later s s' \<longleftrightarrow> (\<exists>xs. vs_recorder s' = apply_ops xs (vs_recorder s))"

lemma later_kept: "vs_recorder s' = vs_recorder s \<Longrightarrow> recorded_later s s'"
  unfolding recorded_later_def by (intro exI [of _ "[]"]) (simp add: apply_ops_def)

lemma later_trans: "recorded_later s t \<Longrightarrow> recorded_later t u \<Longrightarrow> recorded_later s u"
  unfolding recorded_later_def by (metis apply_ops_def comp_apply fold_append)

lemma later_op: "recorded_later s (on_recorder (apply_op loads x) s)"
  unfolding recorded_later_def by (intro exI [of _ "[(loads, x)]"]) (simp add: apply_ops_def on_recorder_def)

lemma later_turn: "recorded_later s (pass_turn w s)"
proof -
  have "apply_ops (map (Pair loads) ops) r = run_recorder loads ops r" for loads ops r
    by (induction ops arbitrary: r) (simp_all add: apply_ops_def run_recorder_def)
  then show ?thesis unfolding recorded_later_def pass_turn_def by (metis validation.select_convs(3) validation.surjective validation.update_convs(1,3,4))
qed

interpretation recording: moving_store recorded_later
proof unfold_locales
  show "recorded_later s (on_recorder (observe_event n c k q d) s)" for s :: "'p validation" and n c k q d
    using later_op [of s undefined "ObserveEvent n c k q d"] by (simp add: on_recorder_def)
  show "recorded_later s (on_recorder (add_secret x) s)" for s :: "'p validation" and x
    using later_op [of s undefined "AddSecret x"] by (simp add: on_recorder_def)
qed (auto intro: later_trans later_turn later_kept)

lemma ops_secrets:
  "set (rc_secrets r) \<subseteq> set (rc_secrets (apply_ops xs r)) \<and> (secrets_ok r \<longrightarrow> secrets_ok (apply_ops xs r))"
proof (induction xs arbitrary: r)
  case (Cons x xs)
  then show ?case using apply_op_secrets [of r "fst x" "snd x"] by (auto simp: apply_ops_def split_beta)
qed (simp add: apply_ops_def)

lemma ops_hide:
  "secrets_ok r \<Longrightarrow> clean_secret p \<Longrightarrow> p \<in> set (rc_secrets r) \<Longrightarrow> hidden_between p r (apply_ops xs r)"
proof (induction xs arbitrary: r)
  case Nil
  then show ?case by (simp add: apply_ops_def hidden_refl)
next
  case (Cons x xs)
  obtain loads op where x: "x = (loads, op)" by fastforce
  have "secrets_ok (apply_op loads op r)" "p \<in> set (rc_secrets (apply_op loads op r))"
    using apply_op_secrets [where r = r] Cons.prems by blast+
  then have "hidden_between p (apply_op loads op r) (apply_ops (x # xs) r)"
    using Cons.IH Cons.prems(2) by (simp add: apply_ops_def x)
  then show ?case using apply_op_hides Cons.prems by (blast intro: hidden_trans)
qed

lemma later_secrets_ok: "recorded_later s s' \<Longrightarrow> secrets_ok (vs_recorder s) \<Longrightarrow> secrets_ok (vs_recorder s')"
  using ops_secrets by (auto simp: recorded_later_def)

lemma later_registered: "recorded_later s s' \<Longrightarrow> registered_in s p \<Longrightarrow> registered_in s' p"
  using ops_secrets by (fastforce simp: recorded_later_def registered_in_def)

text \<open>What is registered stays registered.\<close>

interpretation keeping: moving_store "\<lambda>s s'. set (rc_secrets (vs_recorder s)) \<subseteq> set (rc_secrets (vs_recorder s'))"
proof unfold_locales
  show "set (rc_secrets (vs_recorder s)) \<subseteq> set (rc_secrets (vs_recorder (pass_turn w s)))" for w and s :: "'p validation"
  proof -
    have "set (rc_secrets r) \<subseteq> set (rc_secrets (fold (apply_op loads) ops r))" for loads ops r
      by (induction ops arbitrary: r) (use apply_op_secrets(1) in fastforce)+
    then show ?thesis by (simp add: pass_turn_def run_recorder_def)
  qed
qed (auto simp: on_recorder_def observe_event_def add_secret_def Let_def)

lemma registered_later:
  "moves_by (\<lambda>s s'. set (rc_secrets (vs_recorder s)) \<subseteq> set (rc_secrets (vs_recorder s'))) m \<Longrightarrow> m s = Some (r, s') \<Longrightarrow>
   registered_in s p \<Longrightarrow> registered_in s' p"
  unfolding registered_in_def using moves_byD by fastforce

lemma register_secret_registers: "registered_in (on_recorder (register_secret p) s) p"
  "registered_in s q \<Longrightarrow> registered_in (on_recorder (register_secret p) s) q"
  by (auto simp: registered_in_def on_recorder_def register_secret_def add_secret_def)

lemma enter_code_registers: "enter_code digits typed s = (Inl (Inr code), t) \<Longrightarrow> registered_in t code"
  by (auto simp: enter_code_def Let_def register_secret_registers split: if_splits sum.splits)

definition registers :: "('p, string) act \<Rightarrow> bool" where
  "registers m \<longleftrightarrow> (\<forall>s code s'. m s = Some (Inr code, s') \<longrightarrow> registered_in s' code)"

lemma registers_loop:
  assumes "\<And>s code t. body s = (Inl (Inr code), t) \<Longrightarrow> registered_in t code"
  shows "registers (loop_act body)"
  unfolding registers_def
proof (intro allI impI)
  fix s code s'
  assume "loop_act body s = Some (Inr code, s')"
  from loop_act_rule [where le = "\<lambda>_ _. True" and P = "\<lambda>r t. \<forall>c. r = Inr c \<longrightarrow> registered_in t c", OF this] assms
  show "registered_in s' code" by blast
qed

lemma registers_code: "registers (ask_code w digits)"
  unfolding ask_code_def
  by (rule registers_loop) (auto simp: ask_code_turn_def enter_code_registers split: sum.splits if_splits option.splits)

lemma register_token_registers: "registered_in (on_recorder (register_token p) s) p"
  by (auto simp: registered_in_def on_recorder_def register_token_def register_secret_def add_secret_def split: sum.split)

lemma registers_after: "(\<And>x. registers (f x)) \<Longrightarrow> registers (bind_act m f)"
  unfolding registers_def bind_act_Some by blast

lemma registers_change: "(\<And>s. registered_in (g s) code) \<Longrightarrow> registers (bind_act (change g) (\<lambda>u. ret code))"
  by (auto simp: registers_def bind_act_Some change_def ret_def)

lemma registers_token: "registers (ask_token w)" "registers (wrong_token w)" "registers (wrong_static_code w)"
proof -
  have asked: "registers (case v of None \<Rightarrow> raising e | Some line \<Rightarrow>
      bind_act (change (on_recorder (register_token (strip line)))) (\<lambda>u. ret (strip line)))" for v e
    by (cases v) (auto simp: registers_def raising_def intro: register_token_registers
      dest: registers_change [OF register_token_registers, unfolded registers_def, rule_format])
  show "registers (ask_token w)" "registers (wrong_token w)" "registers (wrong_static_code w)"
    unfolding ask_token_def wrong_token_def wrong_static_code_def
    by (intro registers_after asked registers_change register_secret_registers)+
qed

lemma registersD: "registers m \<Longrightarrow> m s = Some (Inr code, s') \<Longrightarrow> registered_in s' code"
  by (simp add: registers_def)

lemmas registering = registersD [OF registers_code] registersD [OF registers_token(1)] registersD [OF registers_token(2)]
  registersD [OF registers_token(3)]

text \<open>The code a provider hands to the attempt, and the one its entry keeps.\<close>

definition entry_registered :: "'p validation \<Rightarrow> dynamic_entry \<Rightarrow> bool" where
  "entry_registered s e \<longleftrightarrow> (\<forall>c. de_right e = Some c \<longrightarrow> registered_in s c)"

lemma try_act_Some: "try_act m s = Some (r, s') \<longleftrightarrow> (\<exists>q. m s = Some (q, s') \<and> r = Inr q)"
  by (auto simp: try_act_def split: option.splits)

lemma ret_Some: "ret x s = Some (r, s') \<longleftrightarrow> r = Inr x \<and> s' = s"
  "lift q s = Some (r, s') \<longleftrightarrow> r = q \<and> s' = s" "read_state f s = Some (r, s') \<longleftrightarrow> r = Inr (f s) \<and> s' = s"
  by (auto simp: ret_def lift_def read_state_def)

lemma change_Some: "change g s = Some (r, s') \<longleftrightarrow> r = Inr () \<and> s' = g s"
  by (auto simp: change_def)

lemmas act_Some = bind_act_Some try_act_Some ret_Some change_Some

lemma try_bind_Some: "bind_act (try_act m) f s = Some (r, s') \<longleftrightarrow>
   (\<exists>e t. m s = Some (Inl e, t) \<and> f (Inl e) t = Some (r, s')) \<or> (\<exists>x t. m s = Some (Inr x, t) \<and> f (Inr x) t = Some (r, s'))"
  unfolding bind_act_Some try_act_Some by (metis (no_types, opaque_lifting) obj_sumE sum.distinct(1) sum.inject(2))

lemma entry_later:
  "moves_by (\<lambda>s s'. set (rc_secrets (vs_recorder s)) \<subseteq> set (rc_secrets (vs_recorder s'))) m \<Longrightarrow> m s = Some (r, s') \<Longrightarrow>
   entry_registered s e \<Longrightarrow> entry_registered s' e"
  unfolding entry_registered_def using registered_later by blast

lemma ask_right_registers:
  assumes "ask_right w e s = Some (Inr (r, e'), s')" and "entry_registered s e"
  shows "entry_registered s' e' \<and> (\<forall>code. r = Inr code \<longrightarrow> registered_in s' code)"
proof -
  let ?ask = "if de_digits e then ask_code w DYNAMIC_DIGITS else ask_token w"
  let ?rest = "\<lambda>q. case q of
     Inl x \<Rightarrow> ret (Inl x, e)
   | Inr code \<Rightarrow> (let e1 = e\<lparr>de_right := Some code\<rparr> in
       if de_digits e \<or> de_findings e \<noteq> [] then ret (Inr code, e1)
       else (case check_qr_token code of
           Inl x \<Rightarrow> ret (Inl x, e1)
         | Inr fs \<Rightarrow> ret (Inr code, e1\<lparr>de_findings := fs\<rparr>)))"
  obtain q t where q: "?ask s = Some (q, t)" and rest: "?rest q t = Some (Inr (r, e'), s')"
    using assms(1) unfolding ask_right_def bind_act_Some try_act_Some by blast
  have "entry_registered t e" by (rule entry_later [where m = ?ask, OF _ q assms(2)]) (simp add: keeping.moves_codes)
  moreover have "registered_in t code" if "q = Inr code" for code
    using q that by (auto intro: registering split: if_splits)
  ultimately show ?thesis
    using rest by (auto simp: ret_Some Let_def entry_registered_def split: sum.splits if_splits)
qed

lemma enter_wrong_registers:
  assumes "enter_wrong w number right e s = Some (Inr (r, e'), s')" and "entry_registered s e" and "registered_in s right"
  shows "entry_registered s' e' \<and> (\<forall>code. r = Inr code \<longrightarrow> registered_in s' code)"
proof -
  have moved: "moves_by (\<lambda>s s'. set (rc_secrets (vs_recorder s)) \<subseteq> set (rc_secrets (vs_recorder s'))) (enter_wrong w number right e)"
    unfolding enter_wrong_def mark_wrong_def by (intro keeping.moves_rules keeping.moves_codes)
  have kept: "entry_registered s' e" "registered_in s' right"
    using entry_later [OF moved assms(1,2)] registered_later [OF moved assms(1,3)] by auto
  show ?thesis
  proof (cases "de_digits e")
    case True
    then obtain suggestion t where "bind_act (try_act (ask_code w DYNAMIC_DIGITS)) (\<lambda>r. case r of
         Inl x \<Rightarrow> ret (Inl x, e)
       | Inr wrong \<Rightarrow>
           if strip_separators wrong = strip_separators right
           then ret (Inr right, e\<lparr>de_right_entered_as_wrong := True\<rparr>)
           else mark_wrong number wrong e) t = Some (Inr (r, e'), s')"
      using assms(1) by (auto simp: enter_wrong_def bind_act_Some [of "draw_below w n" for n])
    then show ?thesis
      using kept unfolding try_bind_Some mark_wrong_def
      by (auto simp: ret_Some entry_registered_def intro: registering split: if_splits)
  next
    case False
    then have "bind_act (try_act (wrong_token w)) (\<lambda>r. case r of
         Inl x \<Rightarrow> ret (Inl x, e) | Inr wrong \<Rightarrow> mark_wrong number wrong e) s = Some (Inr (r, e'), s')"
      using assms(1) by (simp add: enter_wrong_def)
    then show ?thesis
      using kept unfolding try_bind_Some mark_wrong_def
      by (auto simp: ret_Some entry_registered_def intro: registering)
  qed
qed

lemma ask_again_registers:
  assumes "ask_again w right e s = Some (Inr (r, e'), s')" and "entry_registered s e"
  shows "entry_registered s' e' \<and> (\<forall>code. r = Inr code \<longrightarrow> registered_in s' code)"
proof -
  let ?rest = "\<lambda>q. case q of
     Inl x \<Rightarrow> ret (Inl x, e)
   | Inr again \<Rightarrow>
       if de_round e \<noteq> 2 then ret (Inr again, e)
       else (case same_code_finding (strip_separators again = strip_separators right) of
           Inl x \<Rightarrow> ret (Inl x, e)
         | Inr f \<Rightarrow> ret (Inr again, e\<lparr>de_findings := de_findings e @ [f]\<rparr>))"
  obtain q t where q: "ask_code w DYNAMIC_DIGITS s = Some (q, t)" and rest: "?rest q t = Some (Inr (r, e'), s')"
    using assms(1) unfolding ask_again_def bind_act_Some try_act_Some by blast
  have "entry_registered t e"
    by (rule entry_later [where m = "ask_code w DYNAMIC_DIGITS", OF _ q assms(2)]) (rule keeping.moves_codes)
  moreover have "registered_in t code" if "q = Inr code" for code
    using q that by (auto intro: registering)
  ultimately show ?thesis
    using rest by (auto simp: ret_Some entry_registered_def split: sum.splits if_splits)
qed

lemma provide_dynamic_registers:
  assumes "provide_dynamic w number e0 s = Some (Inr (r, e'), s')" and "entry_registered s e0"
  shows "entry_registered s' e' \<and> (\<forall>code. r = Inr code \<longrightarrow> registered_in s' code)"
proof -
  let ?e = "e0\<lparr>de_round := Suc (de_round e0)\<rparr>"
  have e: "entry_registered s ?e" using assms(2) by (simp add: entry_registered_def)
  show ?thesis
  proof (cases "de_round ?e = 1")
    case True
    then obtain q e1 t where q: "ask_right w ?e s = Some (Inr (q, e1), t)"
      and rest: "(case q of Inl x \<Rightarrow> ret (Inl x, e1) | Inr right \<Rightarrow> enter_wrong w number right (e1\<lparr>de_first := Some right\<rparr>)) t = Some (Inr (r, e'), s')"
      using assms(1) by (auto simp: provide_dynamic_def Let_def act_Some)
    note first = ask_right_registers [OF q e]
    show ?thesis
    proof (cases q)
      case (Inl x)
      then show ?thesis using rest first by (simp add: act_Some)
    next
      case (Inr right)
      then have "entry_registered t (e1\<lparr>de_first := Some right\<rparr>)" "registered_in t right"
        using first by (simp_all add: entry_registered_def)
      then show ?thesis using rest Inr enter_wrong_registers by simp
    qed
  next
    case False
    show ?thesis
    proof (cases "de_right ?e")
      case None
      then show ?thesis using assms(1) False ask_right_registers [OF _ e] by (simp add: provide_dynamic_def Let_def)
    next
      case (Some right)
      then show ?thesis
        using assms(1) False e ask_again_registers [OF _ e]
        by (auto simp: provide_dynamic_def Let_def act_Some entry_registered_def split: if_splits)
    qed
  qed
qed

lemma provide_static_registers:
  assumes "provide_static w shown s = Some (Inr (Inr code, shown'), s')"
  shows "registered_in s' code"
proof -
  obtain x t where asked: "ask_code w STATIC_DIGITS s = Some (Inr x, t)"
    and rest: "(case check_presentation (STATIC @ ''-008'') x STATIC_DIGITS of
       Inl e \<Rightarrow> ret (Inl e, shown)
     | Inr fs \<Rightarrow> bind_act (change (\<lambda>s. s\<lparr>vs_static_code := Some (strip_separators x)\<rparr>)) (\<lambda>u.
         ret (Inr x, shown @ fs))) t = Some (Inr (Inr code, shown'), s')"
    using assms unfolding provide_static_def try_bind_Some by (auto simp: ret_Some)
  have "code = x" "vs_recorder s' = vs_recorder t"
    using rest by (cases "check_presentation (STATIC @ ''-008'') x STATIC_DIGITS"; auto simp: act_Some)+
  then show ?thesis using registering(1) [OF asked] by (simp add: registered_in_def)
qed

lemma ask_psk_token_registers:
  assumes "ask_psk_token w s = Some (Inr (Some token), s')"
  shows "registered_in s' token \<and> (\<exists>decoded. decode_psk_token token = Inr decoded
     \<and> registered_in s' (b64url_encode (pt_pairing_psk decoded)))"
proof -
  let ?P = "\<lambda>r t. \<forall>token. r = Inr (Some token) \<longrightarrow> registered_in t token \<and> (\<exists>decoded. decode_psk_token token = Inr decoded
     \<and> registered_in t (b64url_encode (pt_pairing_psk decoded)))"
  have turn: "?P x t" if "psk_token_turn w s = (Inl x, t)" for s x t
    using that by (auto simp: psk_token_turn_def Let_def registered_in_def on_recorder_def add_secret_def
        split: sum.splits if_splits option.splits)
  from loop_act_rule [where le = "\<lambda>_ _. True" and P = ?P, OF assms [unfolded ask_psk_token_def]] turn
  show ?thesis by simp
qed

text \<open>The entries of a dynamic code a run can come to, and the codes and keys its user or its generator enters.\<close>

inductive entry_reached :: "'p surroundings \<Rightarrow> 'p validation \<Rightarrow> dynamic_entry \<Rightarrow> bool" for w where
  entry_new: "entry_reached w s (new_entry digits chans language)"
| entry_provided: "entry_reached w s e \<Longrightarrow> provide_dynamic w number e s = Some (Inr (r, e'), s') \<Longrightarrow> entry_reached w s' e'"
| entry_restarted: "entry_reached w s e \<Longrightarrow> entry_reached w s (restart_entry e)"
| entry_later: "entry_reached w s e \<Longrightarrow> recorded_later s s' \<Longrightarrow> entry_reached w s' e"

lemma reached_registered: "entry_reached w s e \<Longrightarrow> entry_registered s e"
proof (induction rule: entry_reached.induct)
  case (entry_provided s e number r e' s')
  then show ?case using provide_dynamic_registers by blast
next
  case (entry_later s e s')
  then show ?case using later_registered by (auto simp: entry_registered_def)
qed (simp_all add: entry_registered_def new_entry_def restart_entry_def)

inductive entered :: "'p surroundings \<Rightarrow> 'p validation \<Rightarrow> string \<Rightarrow> 'p validation \<Rightarrow> bool" for w where
  entered_dynamic: "entry_reached w s e \<Longrightarrow> provide_dynamic w number e s = Some (Inr (Inr code, e'), s') \<Longrightarrow> entered w s code s'"
| entered_static: "provide_static w shown s = Some (Inr (Inr code, shown'), s') \<Longrightarrow> entered w s code s'"
| entered_lockout: "wrong_static_code w s = Some (Inr code, s') \<Longrightarrow> entered w s code s'"
| entered_token: "ask_psk_token w s = Some (Inr (Some token), s') \<Longrightarrow> entered w s token s'"
| entered_key: "ask_psk_token w s = Some (Inr (Some token), s') \<Longrightarrow> decode_psk_token token = Inr decoded \<Longrightarrow>
     entered w s (b64url_encode (pt_pairing_psk decoded)) s'"

lemma entered_registered: "entered w s code s' \<Longrightarrow> registered_in s' code"
proof (induction rule: entered.induct)
  case (entered_dynamic s e number code e' s')
  then show ?case using provide_dynamic_registers reached_registered by blast
next
  case (entered_key s token s' decoded)
  then show ?case using ask_psk_token_registers by fastforce
qed (use provide_static_registers registering(4) ask_psk_token_registers in blast)+

lemma entered_later: "entered w s code s' \<Longrightarrow> recorded_later s s'"
  by (induction rule: entered.induct)
    (use moves_byD [OF recording.moves_dynamic_entry] moves_byD [OF recording.moves_provide_static]
      moves_byD [OF recording.moves_wrong(2)] moves_byD [OF recording.moves_psk_token] in blast)+

section \<open>What is put back\<close>

lemma finally_restores:
  assumes "finally_do m fin s = Some (r, s')" and "\<And>t q t'. fin t = Some (q, t') \<Longrightarrow> P t'"
  shows "P s'"
  using assms by (auto simp: finally_do_def split: option.splits sum.splits prod.splits)

lemma store_record_stores: "store_record lk paired s = Some (q, s') \<Longrightarrow> vs_store s' (lk_client_id lk) = Some paired"
  by (auto simp: store_record_def change_Some)

lemma unpaired_restores:
  assumes "unpaired_suite w lk fault_injection s = Some (r, s')" and "vs_store s (lk_client_id lk) = Some paired"
  shows "vs_store s' (lk_client_id lk) = Some paired"
proof -
  have "finally_do (unpaired_steps w lk fault_injection) (store_record lk paired) s = Some (r, s')"
    using assms by (auto simp: unpaired_suite_def bind_act_Some record_by_client_id_def ret_Some)
  then show ?thesis by (rule finally_restores) (rule store_record_stores)
qed

lemma r3_restores:
  assumes "r3 w lk s = Some (r, s')" and "vs_store s (lk_client_id lk) = Some paired"
  shows "vs_store s' (lk_client_id lk) = Some paired \<and> vs_admit_unpaired s'"
proof -
  obtain t q u where restored: "finally_do (forgotten_reconnect w lk)
      (bind_act (store_record lk paired) (\<lambda>u. set_admit_unpaired True)) t = Some (q, u)"
    and rest: "s' = u"
    using assms
    by (fastforce simp: r3_def bind_act_Some record_by_client_id_def ret_Some remove_record_def set_admit_unpaired_def
        change_Some record_now_def split: option.splits)
  have "vs_store u (lk_client_id lk) = Some paired \<and> vs_admit_unpaired u"
    using restored by (rule finally_restores)
      (auto simp: bind_act_Some store_record_def set_admit_unpaired_def change_Some)
  then show ?thesis by (simp add: rest)
qed

text \<open>Unpaired playback stays approved over a run.\<close>

interpretation approving: moving_store "\<lambda>s s'. vs_admit_unpaired s \<longrightarrow> vs_admit_unpaired s'"
  by unfold_locales (simp_all add: pass_turn_keeps on_recorder_def)

lemma approving_r3: "moves_by (\<lambda>s s'. vs_admit_unpaired s \<longrightarrow> vs_admit_unpaired s') (r3 w lk)"
  unfolding moves_by_def
proof (intro allI impI)
  fix s r s'
  assume r3: "r3 w lk s = Some (r, s')" and "vs_admit_unpaired s"
  then show "vs_admit_unpaired s'"
    by (cases "vs_store s (lk_client_id lk)")
      (auto simp: r3_def bind_act_Some record_by_client_id_def ret_Some dest: r3_restores [OF r3])
qed

lemma approving_step:
  assumes "moves_by (\<lambda>s s'. vs_admit_unpaired s \<longrightarrow> vs_admit_unpaired s') run"
  shows "moves_by (\<lambda>s s'. vs_admit_unpaired s \<longrightarrow> vs_admit_unpaired s') (run_step w step ev run)"
    "moves_by (\<lambda>s s'. vs_admit_unpaired s \<longrightarrow> vs_admit_unpaired s') (offered_step w step offered method run)"
    "moves_by (\<lambda>s s'. vs_admit_unpaired s \<longrightarrow> vs_admit_unpaired s') (report_py r)"
  unfolding offered_step_def run_step_def report_findings_def report_py_def
  by (intro approving.moves_rules approving.moves_ready assms; simp)+

lemmas approving_steps = approving_step [OF approving.moves_u1] approving_step [OF approving.moves_unpaired_steps(1)]
  approving_step [OF approving.moves_unpaired_steps(2)] approving_step [OF approving.moves_unpaired_steps(3)]
  approving_step [OF approving.moves_p1] approving_step [OF approving.moves_code_steps(1)]
  approving_step [OF approving.moves_code_steps(2)] approving_step [OF approving.moves_code_steps(3)]
  approving_step [OF approving.moves_code_steps(4)] approving_step [OF approving.moves_code_steps(5)]
  approving_step [OF approving.moves_reconnects(1)] approving_step [OF approving.moves_reconnects(2)]
  approving_step [OF approving_r3] approving_step [OF approving.moves_r4]

lemma run_approves: "moves_by (\<lambda>s s'. vs_admit_unpaired s \<longrightarrow> vs_admit_unpaired s') (run_suites w lk language options)"
  unfolding run_suites_def when_selected_def unpaired_suite_def unpaired_steps_def pairing_suite_def pairing_steps_def
    post_pairing_suite_def Let_def
  by (intro approving.moves_rules approving.moves_store approving_steps)

text \<open>So is the record of a whole run.\<close>

lemma recording_step:
  assumes "moves_by recorded_later run"
  shows "moves_by recorded_later (run_step w step ev run)" "moves_by recorded_later (offered_step w step offered method run)"
    "moves_by recorded_later (report_py r)"
  unfolding offered_step_def run_step_def report_findings_def report_py_def
  by (intro recording.moves_rules recording.moves_ready assms later_kept; simp)+

lemma recording_r3: "moves_by recorded_later (r3 w lk)"
  by (rule recording.moves_r3_admitting) (simp add: later_kept)

lemmas recording_steps = recording_step [OF recording.moves_u1] recording_step [OF recording.moves_unpaired_steps(1)]
  recording_step [OF recording.moves_unpaired_steps(2)] recording_step [OF recording.moves_unpaired_steps(3)]
  recording_step [OF recording.moves_p1] recording_step [OF recording.moves_code_steps(1)]
  recording_step [OF recording.moves_code_steps(2)] recording_step [OF recording.moves_code_steps(3)]
  recording_step [OF recording.moves_code_steps(4)] recording_step [OF recording.moves_code_steps(5)]
  recording_step [OF recording.moves_reconnects(1)] recording_step [OF recording.moves_reconnects(2)]
  recording_step [OF recording_r3] recording_step [OF recording.moves_r4]

lemma run_records: "moves_by recorded_later (run_suites w lk language options)"
  unfolding run_suites_def when_selected_def unpaired_suite_def unpaired_steps_def pairing_suite_def pairing_steps_def
    post_pairing_suite_def Let_def
  by (intro recording.moves_rules recording.moves_store recording_steps)

end
