(* ===== verification/Validation_Properties.thy ===== *)
theory Validation_Properties
  imports Run_Properties
begin

text \<open>
  The properties of the validation's drivers, and a world to evaluate them in: one client, connected
  to the validator, and a user who skips whatever they are asked.
\<close>

definition skipping :: "'a answer py" where
  "skipping = Inr \<lparr>an_reply = SKIP, an_value = None\<rparr>"

definition idle_world :: "unit surroundings" where
  "idle_world = \<lparr>su_loads = (\<lambda>bytes. Inr VNone), su_seen = (\<lambda>t. []), su_late = (\<lambda>t. False), su_text = (\<lambda>t. skipping),
     su_yes = (\<lambda>t. skipping), su_choice = (\<lambda>t. skipping), su_attached = (\<lambda>t. None), su_player = (\<lambda>t. False),
     su_store = (\<lambda>t st. st), su_call = (\<lambda>t. Inr ()), su_asked = (\<lambda>t. 0), su_ended = (\<lambda>t. None),
     su_outcome = (\<lambda>t. Inr None), su_draw = (\<lambda>d. d mod 2)\<rparr>"

definition sample_link :: client_link where
  "sample_link = \<lparr>lk_client_id = ''c'', lk_url = None\<rparr>"

definition idle_state :: "unit validation" where
  "idle_state = \<lparr>vs_turn = 0, vs_draws = 0,
     vs_recorder = observe_event 1 ''c'' KEYED (Some LONG_TERM) None new_recorder,
     vs_store = [''c'' \<mapsto> ()], vs_admit_unpaired = True, vs_findings = [], vs_static_code = None\<rparr>"

definition unpaired_only :: suite_options where
  "unpaired_only = \<lparr>so_suites = {UNPAIRED_SUITE}, so_fault_injection = False\<rparr>"

definition every_suite :: suite_options where
  "every_suite = \<lparr>so_suites = {UNPAIRED_SUITE, PAIRING_SUITE, POST_PAIRING_SUITE}, so_fault_injection = True\<rparr>"

lemma idle_cooperative: "cooperative idle_world"
proof -
  have "drawn_code idle_world (Suc d) \<noteq> drawn_code idle_world d" for d
  proof -
    have "padded 8 0 \<noteq> padded 8 1" by code_simp
    then show ?thesis by (cases "even d") (simp_all add: drawn_code_def STATIC_DIGITS_def idle_world_def even_iff_mod_2_eq_zero odd_iff_mod_2_eq_one mod_Suc)
  qed
  then have "\<forall>d. \<exists>d'\<ge>d. drawn_code idle_world d' \<noteq> drawn_code idle_world d" by (metis le_SucI order_refl)
  then show ?thesis
    unfolding cooperative_def by (auto simp: idle_world_def settles_def skipping_def)
qed



lemma idle_run: "\<exists>fs s'. run_suites idle_world sample_link ''de'' unpaired_only idle_state = Some (Inr fs, s')"
proof -
  have "(case run_suites idle_world sample_link ''de'' unpaired_only idle_state of Some (Inr fs, s') \<Rightarrow> True | _ \<Rightarrow> False)"
    by code_simp
  then show ?thesis by (auto split: option.splits prod.splits sum.splits)
qed

text \<open>
  C4: a run of the suites that returns findings reports, step by step in the order of the selected
  suites, every check of each step and no other, and each once but for one: PAIR-STATIC-008, how the static
  code is shown, is judged in step P3 whenever the code is asked for. So a step the user skips, a client
  does not offer or the run does not reach leaves no check out.
\<close>

theorem suites_report_every_check:
  assumes "run_suites w lk language options s = Some (Inr fs, s')"
  shows "\<exists>parts. fs = vs_findings s @ concat parts
     \<and> list_all2 (\<lambda>step part. set (map fi_id part) = set (step_checks step)
         \<and> distinct (filter (\<lambda>i. step = ''P3'' \<longrightarrow> i \<noteq> ''PAIR-STATIC-008'') (map fi_id part))) (steps_of options) parts"
  using run_reports [OF assms] unfolding covers_steps_def covers_step_def reported_once_def by blast

theorem suites_report_every_check_witness:
  "\<exists>fs s'. run_suites idle_world sample_link ''de'' unpaired_only idle_state = Some (Inr fs, s')
     \<and> (\<exists>parts. fs = vs_findings idle_state @ concat parts
     \<and> list_all2 (\<lambda>step part. set (map fi_id part) = set (step_checks step)
         \<and> distinct (filter (\<lambda>i. step = ''P3'' \<longrightarrow> i \<noteq> ''PAIR-STATIC-008'') (map fi_id part))) (steps_of unpaired_only) parts)"
proof -
  obtain fs s' where run: "run_suites idle_world sample_link ''de'' unpaired_only idle_state = Some (Inr fs, s')"
    using idle_run by blast
  show ?thesis by (rule exI [of _ fs], rule exI [of _ s'], rule conjI, rule run, rule suites_report_every_check [OF run])
qed

text \<open>
  C5: a run of the suites returns, with findings or an exception, in every world in which the user
  keeps coming back to an answer that is no request for a retry and, where text is asked for, will do,
  and in which the codes drawn are not the same for ever. What the client does, and how pairing with
  it ends, does not matter.
\<close>

theorem suites_return:
  assumes "cooperative w"
  shows "\<exists>r s'. run_suites w lk language options s = Some (r, s')"
  using run_ends [OF assms] unfolding ends_def by (metis not_None_eq surj_pair)

theorem suites_return_witness:
  "\<exists>r s'. run_suites idle_world sample_link ''de'' every_suite idle_state = Some (r, s')"
  by (rule suites_return) (rule idle_cooperative)

text \<open>
  C36: what a step takes away for a while is put back, be the step's result findings or an exception:
  the pairing record that the unpaired suite forgets, and the record and the approval of unpaired
  playback that R3 takes back; and unpaired playback is approved after any run that began with it.
\<close>

theorem forgetting_undone:
  assumes "vs_store s (lk_client_id lk) = Some paired" and "vs_admit_unpaired s"
    and "unpaired_suite w lk fault_injection s = Some (r, s')" and "r3 w lk s = Some (q, t)"
    and "run_suites w lk language options s = Some (p, u)"
  shows "vs_store s' (lk_client_id lk) = Some paired \<and> vs_store t (lk_client_id lk) = Some paired
     \<and> vs_admit_unpaired t \<and> vs_admit_unpaired u"
  using unpaired_restores [OF assms(3,1)] r3_restores [OF assms(4,1)] moves_byD [OF run_approves assms(5)] assms(2) by blast

lemma idle_ends: "\<exists>x s'. unpaired_suite idle_world sample_link True idle_state = Some (x, s')"
  "\<exists>x s'. r3 idle_world sample_link idle_state = Some (x, s')"
  "\<exists>x s'. run_suites idle_world sample_link ''de'' every_suite idle_state = Some (x, s')"
  using ends_unpaired [OF idle_cooperative, of sample_link True] ends_steps(7) [OF idle_cooperative, of sample_link]
    run_ends [OF idle_cooperative, of sample_link "''de''" every_suite]
  unfolding ends_def by (metis not_None_eq surj_pair)+

theorem forgetting_undone_witness:
  "\<exists>s' t u. vs_store s' ''c'' = Some () \<and> vs_store t ''c'' = Some () \<and> vs_admit_unpaired t \<and> vs_admit_unpaired u
     \<and> (\<exists>x. unpaired_suite idle_world sample_link True idle_state = Some (x, s'))
     \<and> (\<exists>x. r3 idle_world sample_link idle_state = Some (x, t))
     \<and> (\<exists>x. run_suites idle_world sample_link ''de'' every_suite idle_state = Some (x, u))"
proof -
  obtain x s' y t z u where runs: "unpaired_suite idle_world sample_link True idle_state = Some (x, s')"
    "r3 idle_world sample_link idle_state = Some (y, t)"
    "run_suites idle_world sample_link ''de'' every_suite idle_state = Some (z, u)"
    using idle_ends by blast
  have "vs_store idle_state (lk_client_id sample_link) = Some ()" "vs_admit_unpaired idle_state"
    by (simp_all add: idle_state_def sample_link_def)
  from forgetting_undone [OF this runs] runs show ?thesis by (auto simp: sample_link_def)
qed

lemma provided_outcome:
  assumes "case x of Some (Inr (Inr code, e), s) \<Rightarrow> code = p \<and> Q s | _ \<Rightarrow> False"
  obtains e s where "x = Some (Inr (Inr p, e), s)" "Q s"
proof -
  from assms obtain q s where x: "x = Some (q, s)" by (cases x) auto
  with assms obtain y where q: "q = Inr y" by (cases q) auto
  obtain c e where y: "y = (c, e)" by (cases y)
  with assms x q obtain z where "c = Inr z" by (cases c) auto
  with assms x q y that show thesis by simp
qed

text \<open>
  C37: a code or key that is entered into a pairing attempt, the dynamic code typed or pasted or drawn as a
  wrong one, the static code, a code drawn for the lockout, a pasted token and the key in it, was registered
  as a secret by then, and from then on nothing the run records shows it: no string value of a message, no
  reason of a violation and no detail of an event, in whatever comes later, further runs of the suites
  included. This is for codes and keys without angle brackets that are no part of the word redacted, and
  object keys are recorded as they are.
\<close>

theorem entered_code_hidden:
  assumes "vs_recorder s0 = new_recorder" and "recorded_later s0 s" and "entered w s code s1"
    and "recorded_later s1 s2" and "clean_secret code"
  shows "code \<in> set (rc_secrets (vs_recorder s1)) \<and> hidden_between code (vs_recorder s1) (vs_recorder s2)
     \<and> (\<forall>v lk language options r t. run_suites v lk language options s2 = Some (r, t) \<longrightarrow>
          hidden_between code (vs_recorder s1) (vs_recorder t))"
proof -
  have "secrets_ok (vs_recorder s0)" by (simp add: assms(1) secrets_ok_def new_recorder_def)
  then have ok: "secrets_ok (vs_recorder s1)"
    using later_secrets_ok later_trans [OF assms(2) entered_later [OF assms(3)]] by blast
  have known: "code \<in> set (rc_secrets (vs_recorder s1))"
    using entered_registered [OF assms(3)] assms(5) by (auto simp: registered_in_def clean_secret_def)
  have hidden: "hidden_between code (vs_recorder s1) (vs_recorder t)" if "recorded_later s1 t" for t
    using that ops_hide [OF ok assms(5) known] by (auto simp: recorded_later_def)
  then show ?thesis using known assms(4) later_trans moves_byD [OF run_records] by blast
qed

text \<open>A static code typed as printed, and a message of the client's, a turn later, with the code in it.\<close>

definition printed_world :: "unit surroundings" where
  "printed_world = idle_world\<lparr>su_text := (\<lambda>t. Inr (answered ''1234-5678'')),
     su_loads := (\<lambda>bytes. Inr (VDict [(''code'', VStr ''is 1234-5678'')])),
     su_seen := (\<lambda>t. if t = 1 then [ObserveFrame \<lparr>of_connection = 1, of_client_id = Some ''c'', of_direction = ''in'',
       of_phase = ''cleartext'', of_monotonic_us = 0, of_data = [1], of_error = None\<rparr>] else [])\<rparr>"

lemma printed_run:
  "\<exists>shown s1. provide_static printed_world [] idle_state = Some (Inr (Inr ''1234-5678'', shown), s1)"
proof -
  have "(case provide_static printed_world [] idle_state of Some (Inr (Inr code, shown), s1) \<Rightarrow> code = ''1234-5678'' \<and> True | _ \<Rightarrow> False)"
    by code_simp
  then show ?thesis by (rule provided_outcome) blast
qed

theorem entered_code_hidden_witness:
  "\<exists>shown s1. provide_static printed_world [] idle_state = Some (Inr (Inr ''1234-5678'', shown), s1)
     \<and> ''1234-5678'' \<in> set (rc_secrets (vs_recorder s1))
     \<and> hidden_between ''1234-5678'' (vs_recorder s1) (vs_recorder (pass_turn printed_world s1))"
proof -
  obtain shown s1 where run: "provide_static printed_world [] idle_state = Some (Inr (Inr ''1234-5678'', shown), s1)"
    using printed_run by blast
  let ?s0 = "idle_state\<lparr>vs_recorder := new_recorder\<rparr>"
  have fresh: "vs_recorder ?s0 = new_recorder" by simp
  have "idle_state = on_recorder (apply_op undefined (ObserveEvent 1 ''c'' KEYED (Some LONG_TERM) None)) ?s0"
    by (simp add: idle_state_def on_recorder_def)
  then have started: "recorded_later ?s0 idle_state" using later_op by metis
  have clean: "clean_secret ''1234-5678''" by code_simp
  from entered_code_hidden [OF fresh started entered_static [OF run] later_turn clean] run show ?thesis by blast
qed

definition typing_world :: "unit surroundings" where
  "typing_world = idle_world\<lparr>su_text := (\<lambda>t. Inr (answered ''123-456''))\<rparr>"

text \<open>
  C38: a code entered as wrong is wrong. In the digits format what the user types counts as a wrong entry
  only if it differs from the code the app showed, and if it does not the right code is entered; in the QR
  format the wrong code is drawn and always counts as wrong, without a comparison. A code drawn for the
  lockout is not the static code.
\<close>

theorem wrong_codes_are_wrong:
  assumes "enter_wrong w number right e s = Some (Inr (Inr code, e'), s')" and "\<not> de_wrong_entered e"
    and "wrong_static_code v t = Some (Inr drawn, t')"
  shows "(if de_digits e
       then (de_wrong_entered e' \<longleftrightarrow> strip_separators code \<noteq> strip_separators right)
         \<and> (\<not> de_wrong_entered e' \<longrightarrow> code = right \<and> de_right_entered_as_wrong e')
       else de_wrong_entered e' \<and> wrong_token w s = Some (Inr code, s'))
     \<and> vs_static_code t \<noteq> Some drawn"
proof -
  have "(de_wrong_entered e' \<longleftrightarrow> strip_separators code \<noteq> strip_separators right)
     \<and> (\<not> de_wrong_entered e' \<longrightarrow> code = right \<and> de_right_entered_as_wrong e')" if "de_digits e"
  proof -
    let ?entered = "bind_act (try_act (ask_code w DYNAMIC_DIGITS)) (\<lambda>r. case r of
         Inl x \<Rightarrow> ret (Inl x, e)
       | Inr wrong \<Rightarrow>
           if strip_separators wrong = strip_separators right
           then ret (Inr right, e\<lparr>de_right_entered_as_wrong := True\<rparr>)
           else mark_wrong number wrong e)"
    have "bind_act (draw_below w (10 ^ DYNAMIC_DIGITS)) (\<lambda>suggestion. ?entered) s = Some (Inr (Inr code, e'), s')"
      using assms(1) by (simp only: enter_wrong_def that if_True)
    then obtain u where "?entered u = Some (Inr (Inr code, e'), s')"
      unfolding bind_act_Some [of "draw_below w n" for n] by blast
    then show ?thesis
      using assms(2) unfolding try_bind_Some mark_wrong_def by (auto simp: ret_Some split: if_splits)
  qed
  moreover have "de_wrong_entered e' \<and> wrong_token w s = Some (Inr code, s')" if "\<not> de_digits e"
  proof -
    have "bind_act (try_act (wrong_token w)) (\<lambda>r. case r of
         Inl x \<Rightarrow> ret (Inl x, e) | Inr wrong \<Rightarrow> mark_wrong number wrong e) s = Some (Inr (Inr code, e'), s')"
      using assms(1) that by (simp add: enter_wrong_def)
    then show ?thesis unfolding try_bind_Some mark_wrong_def by (auto simp: ret_Some)
  qed
  moreover have "vs_static_code t \<noteq> Some drawn"
  proof -
    obtain t1 where loop: "loop_act (wrong_static_turn v) t = Some (Inr drawn, t1)"
      using assms(3) by (auto simp: wrong_static_code_def act_Some)
    have turn: "vs_static_code u = vs_static_code s" "r = Inl (Inr code) \<Longrightarrow> vs_static_code u \<noteq> Some code" "r \<noteq> Inl (Inl x)"
      if "wrong_static_turn v s = (r, u)" for s r u code x
      using that by (auto simp: wrong_static_turn_def Let_def split: if_splits)
    from loop_act_rule [where le = "\<lambda>s s'. vs_static_code s' = vs_static_code s"
        and P = "\<lambda>r u. \<forall>c. r = Inr c \<longrightarrow> vs_static_code u \<noteq> Some c", OF loop] turn
    have "vs_static_code t1 = vs_static_code t \<and> vs_static_code t1 \<noteq> Some drawn" by auto
    then show ?thesis by metis
  qed
  ultimately show ?thesis by simp
qed

text \<open>
  The wrong code typed is 123456, the right one 654321; the code drawn for the lockout is first the static code
  itself, then another.
\<close>

definition static_state :: "unit validation" where
  "static_state = idle_state\<lparr>vs_static_code := Some (drawn_code idle_world 0)\<rparr>"

lemma typed_run: "\<exists>s'. ask_code typing_world DYNAMIC_DIGITS (idle_state\<lparr>vs_draws := Suc 0\<rparr>) = Some (Inr ''123-456'', s')"
proof -
  have "(case ask_code typing_world DYNAMIC_DIGITS (idle_state\<lparr>vs_draws := Suc 0\<rparr>) of
      Some (Inr code, s') \<Rightarrow> code = ''123-456'' | _ \<Rightarrow> False)"
    by code_simp
  then show ?thesis by (auto split: option.split_asm prod.split_asm sum.split_asm)
qed

lemma drawn_differs: "drawn_code idle_world 1 \<noteq> drawn_code idle_world 0"
proof -
  have "padded 8 0 \<noteq> padded 8 1" by code_simp
  then show ?thesis by (simp add: drawn_code_def STATIC_DIGITS_def idle_world_def)
qed

lemma static_run: "\<exists>t'. wrong_static_code idle_world static_state = Some (Inr (drawn_code idle_world 1), t')"
proof -
  have turns: "wrong_static_turn idle_world static_state = (Inr (), static_state\<lparr>vs_draws := Suc 0\<rparr>)"
    "wrong_static_turn idle_world (static_state\<lparr>vs_draws := Suc 0\<rparr>)
     = (Inl (Inr (drawn_code idle_world 1)), static_state\<lparr>vs_draws := 2\<rparr>)"
    using drawn_differs unfolding wrong_static_turn_def drawn_code_def
    by (simp_all add: Let_def static_state_def idle_state_def drawn_code_def numeral_2_eq_2)
  have "loop_act (wrong_static_turn idle_world) static_state
     = Some (Inr (drawn_code idle_world 1), static_state\<lparr>vs_draws := 2\<rparr>)"
    by (simp add: turns loop_act.simps [of "wrong_static_turn idle_world" static_state]
        loop_act.simps [of "wrong_static_turn idle_world" "static_state\<lparr>vs_draws := Suc 0\<rparr>"])
  then show ?thesis by (simp add: wrong_static_code_def bind_act_def change_def ret_def)
qed

theorem wrong_codes_are_wrong_witness:
  "\<exists>e' s' drawn t'. enter_wrong typing_world 1 ''654321'' (new_entry True [] ''de'') idle_state = Some (Inr (Inr ''123-456'', e'), s')
     \<and> de_wrong_entered e' \<and> wrong_static_code idle_world static_state = Some (Inr drawn, t')
     \<and> vs_static_code static_state \<noteq> Some drawn"
proof -
  obtain s1 where typed: "ask_code typing_world DYNAMIC_DIGITS (idle_state\<lparr>vs_draws := Suc 0\<rparr>) = Some (Inr ''123-456'', s1)"
    using typed_run by blast
  have differs: "strip_separators ''123-456'' \<noteq> strip_separators ''654321''" by code_simp
  have drawn: "vs_draws idle_state = 0" by (simp add: idle_state_def)
  obtain e' s' where entered: "enter_wrong typing_world 1 ''654321'' (new_entry True [] ''de'') idle_state = Some (Inr (Inr ''123-456'', e'), s')"
    using differs by (simp add: enter_wrong_def new_entry_def bind_act_def try_act_def draw_below_def drawn typed mark_wrong_def read_state_def)
  obtain t' where lockout: "wrong_static_code idle_world static_state = Some (Inr (drawn_code idle_world 1), t')"
    using static_run by blast
  have new: "de_digits (new_entry True [] ''de'')" "\<not> de_wrong_entered (new_entry True [] ''de'')" by (simp_all add: new_entry_def)
  from wrong_codes_are_wrong [OF entered new(2) lockout] new(1) differs entered lockout show ?thesis by (auto simp: if_P)
qed

text \<open>
  C39: two states a client may send end the run with an exception, where the checks mean to report: one whose
  commands are a value that can hold nothing and is not empty in the sense of Python, and one that gives the
  delay it was set to as a number that is no integer, which the wait accepts and the check's search does not.
\<close>

theorem odd_states_raise:
  assumes "states_said (link_record (vs_recorder s) number) = before @ f # after"
    and "\<forall>g\<in>set before. offers_delay g = Inr False"
    and "dict_get ''supported_commands'' (player_of (payload_or f)) = commands" and "truthy commands"
    and "\<forall>b. contains_py ''set_output_delay'' commands \<noteq> Inr b"
    and "reports_delay delay c" and "\<forall>g\<in>set (states_said c). output_delay g \<noteq> Some (int delay)"
    and "check_restart_keeps_pairing later = Inr fs"
  shows "(\<exists>msg. set_output_delay w number s = Some (Inl (PyExc ''TypeError'' msg), s))
     \<and> r5_verdicts c later (Some (int delay)) = Inl (PyExc ''RuntimeError'' ''coroutine raised StopIteration'')"
proof
  have "\<exists>msg. offers_delay f = Inl (PyExc ''TypeError'' msg)"
    using assms(3-5) by (cases commands) (auto simp: offers_delay_def Let_def)
  then obtain msg where raised: "offers_delay f = Inl (PyExc ''TypeError'' msg)" ..
  have "any_py offers_delay (before @ f # after) = Inl (PyExc ''TypeError'' msg)"
    using assms(2) by (induction before) (simp_all add: raised)
  then show "\<exists>msg. set_output_delay w number s = Some (Inl (PyExc ''TypeError'' msg), s)"
    by (simp add: set_output_delay_def bind_act_def record_now_def read_state_def lift_def assms(1))
  have "check_restart_keeps_output_delay c later (Some (int delay)) = Inl StopIteration"
    using assms(7) by (simp add: check_restart_keeps_output_delay_def states_said_def first_of_def filter_empty_conv)
  then show "r5_verdicts c later (Some (int delay)) = Inl (PyExc ''RuntimeError'' ''coroutine raised StopIteration'')"
    using assms(8) by (simp add: r5_verdicts_def leave_coroutine_def)
qed

text \<open>
  A client that reports, as the validator waits for its first state, one number as its commands, or its commands
  and, as a float, the delay it is set to; the user runs R5 only and restarts the app when asked.
\<close>

definition said :: "int \<Rightarrow> string \<Rightarrow> nat list \<Rightarrow> recorder_op" where
  "said number phase bytes = ObserveFrame \<lparr>of_connection = number, of_client_id = Some ''c'', of_direction = ''in'',
     of_phase = phase, of_monotonic_us = 0, of_data = bytes, of_error = None\<rparr>"

definition message :: "string \<Rightarrow> pydict \<Rightarrow> pyval" where
  "message kind content = VDict [(''type'', VStr kind), (''payload'', VDict content)]"

definition reporting_world :: "pyval \<Rightarrow> unit surroundings" where
  "reporting_world commands = idle_world\<lparr>
     su_loads := (\<lambda>bytes. Inr (
       if bytes = [1] then message ''client/init'' [(''client_id'', VStr ''c'')]
       else message ''client/state'' [(''player'', VDict [(''supported_commands'', commands),
         (''output_delay_ms'', VFloat (Finite 100 ''100.0''))])])),
     su_seen := (\<lambda>t. case_list [] (\<lambda>x xs. [said x ''cleartext'' [1], ObserveEvent x ''c'' KEYED (Some LONG_TERM) None,
         said x ''transport'' [0, 2]]) (if t = 3 then [1] else if t = 8 then [2] else [])
       @ (if t = 7 then [ObserveEvent 1 ''c'' CLOSED None None] else [])),
     su_yes := (\<lambda>t. if t < 2 then skipping else Inr (answered True)), su_player := (\<lambda>t. True), su_draw := (\<lambda>d. 0)\<rparr>"

definition reporting_state :: "unit validation" where
  "reporting_state = idle_state\<lparr>vs_recorder := new_recorder\<rparr>"

definition raised_by :: "('a py \<times> 'b) option \<Rightarrow> string" where
  "raised_by r = (case r of Some (Inl e, s) \<Rightarrow> exc_name e | _ \<Rightarrow> '''')"

definition r5_only :: suite_options where
  "r5_only = \<lparr>so_suites = {POST_PAIRING_SUITE}, so_fault_injection = False\<rparr>"

text \<open>The state as the validator looks at it: the first one the client said.\<close>

definition odd_frame :: "pyval \<Rightarrow> recorded_frame" where
  "odd_frame commands = \<lparr>fr_id = 1, fr_connection = 1, fr_client_id = Some ''c'', fr_direction = ''in'', fr_phase = ''transport'',
     fr_monotonic_us = 0, fr_size = 2, fr_message = Some [(''type'', VStr ''client/state''),
       (''payload'', VDict [(''player'', VDict [(''supported_commands'', commands), (''output_delay_ms'', VFloat (Finite 100 ''100.0''))])])],
     fr_binary_type = None, fr_error = None\<rparr>"

definition odd_state :: "unit validation" where
  "odd_state = idle_state\<lparr>vs_recorder := new_recorder\<lparr>rc_frames := [odd_frame (VInt 5)]\<rparr>\<rparr>"

definition odd_record :: connection_record where
  "odd_record = link_record (vs_recorder odd_state) 1"

lemma reporting_run:
  "raised_by (run_suites (reporting_world (VInt 5)) sample_link ''de'' r5_only reporting_state) = ''TypeError''"
  by code_simp

lemma delayed_run:
  "raised_by (run_suites (reporting_world (VList [VStr ''set_output_delay''])) sample_link ''de'' r5_only reporting_state) = ''RuntimeError''"
  by code_simp

lemma odd_judged: "\<exists>fs. check_restart_keeps_pairing odd_record = Inr fs"
proof -
  have "(case check_restart_keeps_pairing odd_record of Inr fs \<Rightarrow> True | Inl e \<Rightarrow> False)" by code_simp
  then show ?thesis by (auto split: sum.split_asm)
qed

theorem odd_states_raise_witness:
  "(\<exists>msg. set_output_delay idle_world 1 odd_state = Some (Inl (PyExc ''TypeError'' msg), odd_state))
     \<and> r5_verdicts odd_record odd_record (Some 100) = Inl (PyExc ''RuntimeError'' ''coroutine raised StopIteration'')
     \<and> raised_by (run_suites (reporting_world (VInt 5)) sample_link ''de'' r5_only reporting_state) = ''TypeError''
     \<and> raised_by (run_suites (reporting_world (VList [VStr ''set_output_delay''])) sample_link ''de'' r5_only reporting_state)
       = ''RuntimeError''"
proof -
  have said: "states_said (link_record (vs_recorder odd_state) 1) = [] @ odd_frame (VInt 5) # []" by code_simp
  have commands: "dict_get ''supported_commands'' (player_of (payload_or (odd_frame (VInt 5)))) = VInt 5" by code_simp
  have delay: "reports_delay 100 odd_record" by code_simp
  have float: "\<forall>g\<in>set (states_said odd_record). output_delay g \<noteq> Some (int 100)"
  proof -
    have "list_all (\<lambda>g. output_delay g = None) (states_said odd_record)" by code_simp
    then show ?thesis by (simp add: list_all_iff)
  qed
  obtain fs where judged: "check_restart_keeps_pairing odd_record = Inr fs" using odd_judged ..
  from odd_states_raise [OF said _ commands _ _ delay float judged] reporting_run delayed_run
  show ?thesis by simp
qed

end
