(* ===== verification/Sessions.thy ===== *)
theory Sessions
  imports Suite_Runs
begin

text \<open>
  \<open>validator/session.py\<close>: getting one client connected, watching its opening exchange, and running the
  suites. What a browse over mDNS found in a turn, and the server's way to listen and to dial, belong to
  the world around it; the events aiosendspin reports are turned into what the recorder observes.
\<close>

section \<open>Options and clients\<close>

record session_options =
  ss_connect_url :: "string option"
  ss_suites :: "suite set"
  ss_fault_injection :: bool

record discovered_client =
  dc_service :: string
  dc_url :: string
  dc_name :: "string option"

definition client_label :: "discovered_client \<Rightarrow> string" where
  "client_label c = (case dc_name c of None \<Rightarrow> dc_url c | Some name \<Rightarrow> repr_str name @ '' '' @ dc_url c)"

definition CLIENT_INITIATED :: string where "CLIENT_INITIATED = ''client-initiated''"
definition SERVER_INITIATED :: string where "SERVER_INITIATED = ''server-initiated''"

section \<open>Getting a client connected\<close>

text \<open>\<open>_choose\<close>.\<close>

definition choose_turn :: "'p surroundings \<Rightarrow> 'p validation \<Rightarrow> (nat option py + unit) \<times> 'p validation" where
  "choose_turn w s = (case su_choice w (vs_turn s) of
     Inl e \<Rightarrow> (Inl (Inl e), pass_turn w s)
   | Inr answer \<Rightarrow>
       (if an_reply answer = ANSWERED then Inl (Inr (an_value answer))
        else if an_reply answer \<noteq> RETRY then Inl (Inr None) else Inr (), pass_turn w s))"

definition choose_mode :: "'p surroundings \<Rightarrow> ('p, nat option) act" where
  "choose_mode w = loop_act (choose_turn w)"

text \<open>
  \<open>_pick_client\<close>: one browse, in a turn of its own, and the question after it. An index beyond the
  list raises.
\<close>

definition nth_client :: "discovered_client list \<Rightarrow> nat \<Rightarrow> discovered_client option py" where
  "nth_client clients n = (if n < length clients then Inr (Some (clients ! n))
     else Inl (PyExc ''IndexError'' ''list index out of range''))"

definition browse_turn :: "'p surroundings \<Rightarrow> (nat \<Rightarrow> discovered_client list py) \<Rightarrow> 'p validation
     \<Rightarrow> (discovered_client option py + unit) \<times> 'p validation" where
  "browse_turn w found s = (
     let s1 = pass_turn w s; s2 = pass_turn w s1 in
     case found (vs_turn s) of
       Inl e \<Rightarrow> (Inl (Inl e), s1)
     | Inr [] \<Rightarrow> (case su_yes w (vs_turn s1) of
         Inl e \<Rightarrow> (Inl (Inl e), s2)
       | Inr answer \<Rightarrow> (if an_reply answer = RETRY \<or> said_yes answer then Inr () else Inl (Inr None), s2))
     | Inr clients \<Rightarrow> (case su_choice w (vs_turn s1) of
         Inl e \<Rightarrow> (Inl (Inl e), s2)
       | Inr answer \<Rightarrow>
           (if an_reply answer = RETRY then Inr ()
            else (case (if an_reply answer = ANSWERED then an_value answer else None) of
              None \<Rightarrow> Inl (Inr None) | Some n \<Rightarrow> Inl (nth_client clients n)), s2)))"

definition pick_client :: "'p surroundings \<Rightarrow> (nat \<Rightarrow> discovered_client list py) \<Rightarrow> ('p, discovered_client option) act" where
  "pick_client w found = loop_act (browse_turn w found)"

text \<open>\<open>recorder.wait_until(lambda: bool(recorder.frames))\<close> under a timeout: whether it came to a frame.\<close>

definition first_frame :: "'p surroundings \<Rightarrow> ('p, bool) act" where
  "first_frame w s = (let s' = pass_turn w s in Some (Inr (rc_frames (vs_recorder s') \<noteq> [] \<and> \<not> su_late w (vs_turn s)), s'))"

definition observed_session :: "string \<Rightarrow> string option \<Rightarrow> string option \<Rightarrow> recorder \<Rightarrow> session_result" where
  "observed_session mode name url r = \<lparr>sr_mode = mode, sr_connection = fr_connection (hd (rc_frames r)), sr_txt_name = name,
     sr_url = url, sr_later_connections = [], sr_findings = []\<rparr>"

definition when_frame :: "'p surroundings \<Rightarrow> (recorder \<Rightarrow> session_result) \<Rightarrow> ('p, session_result option) act" where
  "when_frame w result = bind_act (first_frame w) (\<lambda>came.
     if came then read_state (\<lambda>s. Some (result (vs_recorder s))) else ret None)"

definition accept :: "'p surroundings \<Rightarrow> ('p, session_result option) act" where
  "accept w = bind_act (try_act (call w)) (\<lambda>r. case r of
     Inl e \<Rightarrow> if exc_name e = ''OSError'' then raising (PyExc ''PortUnavailableError'' (exc_text e)) else raising e
   | Inr u \<Rightarrow> when_frame w (observed_session CLIENT_INITIATED None None))"

definition DIAL_ERRORS :: "string list" where
  "DIAL_ERRORS = [''ClientConnectionError'', ''ClientResponseError'', ''TimeoutError'']"

definition dial_client :: "'p surroundings \<Rightarrow> string \<Rightarrow> string option \<Rightarrow> ('p, session_result option) act" where
  "dial_client w url name = bind_act (try_act (call w)) (\<lambda>r. case r of
     Inl e \<Rightarrow> if exc_name e \<in> set DIAL_ERRORS then ret None else raising e
   | Inr u \<Rightarrow> when_frame w (observed_session SERVER_INITIATED name (Some url)))"

definition connect_client :: "'p surroundings \<Rightarrow> (nat \<Rightarrow> discovered_client list py) \<Rightarrow> session_options
     \<Rightarrow> ('p, session_result option) act" where
  "connect_client w found options = (case ss_connect_url options of
     Some url \<Rightarrow> dial_client w url None
   | None \<Rightarrow> bind_act (choose_mode w) (\<lambda>choice. case choice of
       None \<Rightarrow> ret None
     | Some n \<Rightarrow> if n = 0 then accept w
         else bind_act (pick_client w found) (\<lambda>target. case target of
             None \<Rightarrow> ret None
           | Some c \<Rightarrow> dial_client w (dc_url c) (dc_name c))))"

section \<open>The opening exchange\<close>

definition opening_record :: "int \<Rightarrow> recorder \<Rightarrow> connection_record" where
  "opening_record number r = connection_of number (rc_frames r) (rc_noncompliance r) []"

text \<open>
  \<open>_Observation._until\<close>: a wait ends when the condition holds or the connection is over; the condition
  is tested again either way, so what ended the wait does not matter.
\<close>

definition observe_until :: "'p surroundings \<Rightarrow> int \<Rightarrow> (connection_record \<Rightarrow> bool) \<Rightarrow> ('p, bool) act" where
  "observe_until w number condition s = (let s' = pass_turn w s in
     Some (Inr (condition (opening_record number (vs_recorder s')) \<and> \<not> su_late w (vs_turn s)), s'))"

definition watch_opening :: "'p surroundings \<Rightarrow> int \<Rightarrow> ('p, unit) act" where
  "watch_opening w number =
     bind_act (observe_until w number (\<lambda>c. inbound_of c ''client/hello'' ''transport'' \<noteq> [])) (\<lambda>greeted.
     if \<not> greeted then ret ()
     else bind_act (observe_until w number (\<lambda>c. activations_sent c \<noteq> [])) (\<lambda>activated.
     if \<not> activated then ret ()
     else bind_act (read_state (\<lambda>s. truthy (dict_get ''active_roles'' (payload_or (hd
            (activations_sent (opening_record number (vs_recorder s)))))))) (\<lambda>roles.
     bind_act (if roles then observe_until w number (\<lambda>c. states_said c \<noteq> []) else ret True) (\<lambda>settled.
     if \<not> settled then ret ()
     else bind_act (observe_until w number (\<lambda>c. False)) (\<lambda>b. ret ())))))"

section \<open>The session\<close>

text \<open>\<open>_run_suites\<close>: the suites need a client that said who it is and that aiosendspin attached once.\<close>

definition client_under_test :: "session_result \<Rightarrow> recorder \<Rightarrow> string option" where
  "client_under_test result r = (
     case first_of (inbound_of (opening_record (sr_connection result) r) ''client/init'' ''cleartext'') of
       None \<Rightarrow> None
     | Some init \<Rightarrow> (case dict_get ''client_id'' (payload_or init) of
         VStr client_id \<Rightarrow> if list_ex (\<lambda>e. ev_client_id e = client_id) (rc_events r) then Some client_id else None
       | _ \<Rightarrow> None))"

definition session_suites :: "'p surroundings \<Rightarrow> string \<Rightarrow> session_options \<Rightarrow> session_result \<Rightarrow> ('p, session_result) act" where
  "session_suites w language options result = bind_act (read_state (\<lambda>s. client_under_test result (vs_recorder s))) (\<lambda>client.
     case client of
       None \<Rightarrow> ret result
     | Some client_id \<Rightarrow>
         let lk = \<lparr>lk_client_id = client_id, lk_url = sr_url result\<rparr> in
         bind_act (change (\<lambda>s. s\<lparr>vs_findings := [], vs_static_code := None\<rparr>)) (\<lambda>u.
         bind_act (run_suites w lk language \<lparr>so_suites = ss_suites options, so_fault_injection = ss_fault_injection options\<rparr>) (\<lambda>fs.
         read_state (\<lambda>s. result\<lparr>sr_later_connections := connections_since lk (vs_recorder s) (sr_connection result),
           sr_findings := fs\<rparr>))))"

definition session_body :: "'p surroundings \<Rightarrow> (nat \<Rightarrow> discovered_client list py) \<Rightarrow> string \<Rightarrow> session_options
     \<Rightarrow> ('p, session_result option) act" where
  "session_body w found language options = bind_act (connect_client w found options) (\<lambda>connected. case connected of
     None \<Rightarrow> ret None
   | Some result \<Rightarrow> bind_act (watch_opening w (sr_connection result)) (\<lambda>u.
       if ss_suites options = {} then ret (Some result)
       else bind_act (session_suites w language options result) (\<lambda>final. ret (Some final))))"

text \<open>\<open>run_session\<close>; closing the server takes a call, in which connections may still be recorded.\<close>

definition run_session :: "'p surroundings \<Rightarrow> (nat \<Rightarrow> discovered_client list py) \<Rightarrow> string \<Rightarrow> session_options
     \<Rightarrow> ('p, session_result option) act" where
  "run_session w found language options = finally_do (session_body w found language options) (call w)"

section \<open>Connection events\<close>

text \<open>
  \<open>_ConnectionEvents\<close>: the events aiosendspin reports, with the number and the PSK category of the
  client's connection where it has one, and the connection each client attached last.
\<close>

datatype server_event =
    ClientConnected string "(int option \<times> string option) option"
  | CredentialMismatch string
  | ClientDisconnected string

fun on_event :: "server_event \<Rightarrow> (string \<rightharpoonup> int) \<Rightarrow> (string \<rightharpoonup> int) \<times> recorder_op list" where
  "on_event (ClientConnected client_id connection) known = (case connection of
     Some (Some number, Some category) \<Rightarrow>
       (known(client_id \<mapsto> number), [ObserveEvent number client_id KEYED (Some category) None])
   | _ \<Rightarrow> (known, []))"
| "on_event (CredentialMismatch client_id) known = (case known client_id of
     None \<Rightarrow> (known, []) | Some number \<Rightarrow> (known, [ObserveEvent number client_id CREDENTIAL_MISMATCH None None]))"
| "on_event (ClientDisconnected client_id) known = (case known client_id of
     None \<Rightarrow> (known, [])
   | Some number \<Rightarrow> (known(client_id := None), [ObserveEvent number client_id CLOSED None None]))"

fun on_events :: "server_event list \<Rightarrow> (string \<rightharpoonup> int) \<Rightarrow> (string \<rightharpoonup> int) \<times> recorder_op list" where
  "on_events [] known = (known, [])"
| "on_events (e # es) known = (case on_event e known of (known', ops) \<Rightarrow>
     (case on_events es known' of (final, rest) \<Rightarrow> (final, ops @ rest)))"

end
