(* ===== verification/Session_Properties.thy ===== *)
theory Session_Properties
  imports Validation_Properties Sessions Report_Facts
begin

text \<open>
  The properties of a whole session: what its status says of what was found, and what its record of
  connections says of the events it was given.
\<close>

section \<open>The session\<close>

definition fresh :: "session_result option \<Rightarrow> bool" where
  "fresh r \<longleftrightarrow> (case r of None \<Rightarrow> True | Some x \<Rightarrow> sr_findings x = [] \<and> sr_later_connections x = [])"

lemma gives_when_frame: "gives (when_frame w (observed_session mode name url)) fresh"
  unfolding when_frame_def
  by (intro gives_after gives_rules)
    (auto simp: gives_def read_state_def fresh_def observed_session_def)

lemma gives_connect: "gives (connect_client w found options) fresh"
proof -
  have none: "fresh None" by (simp add: fresh_def)
  show ?thesis
    unfolding connect_client_def dial_client_def accept_def
    by (intro gives_option gives_after gives_rules gives_when_frame none)
qed

lemma connections_later: "n \<in> set (connections_since lk r watermark) \<Longrightarrow> watermark < n"
  by (auto simp: connections_since_def)

text \<open>The checks of a session: every one of the selected suites, or none when the suites did not run.\<close>

definition suite_checks_of :: "session_options \<Rightarrow> string set" where
  "suite_checks_of options = (\<Union>step\<in>set (steps_of
     \<lparr>so_suites = ss_suites options, so_fault_injection = ss_fault_injection options\<rparr>). set (step_checks step))"

definition complete_result :: "session_options \<Rightarrow> session_result \<Rightarrow> bool" where
  "complete_result options result \<longleftrightarrow> (\<forall>n\<in>set (sr_later_connections result). sr_connection result < n)
     \<and> (sr_findings result = [] \<or> ss_suites options \<noteq> {} \<and> set (map fi_id (sr_findings result)) = suite_checks_of options)"

lemma covered_ids: "list_all2 covers_step steps parts \<Longrightarrow> set (map fi_id (concat parts)) = (\<Union>step\<in>set steps. set (step_checks step))"
  by (induction rule: list_all2_induct) (simp_all add: covers_step_def)

lemma fresh_complete: "fresh (Some x) \<Longrightarrow> complete_result options x"
  by (simp add: fresh_def complete_result_def)

lemma suites_complete:
  assumes "session_suites w language options result s = Some (Inr final, s')" and "fresh (Some result)" and "ss_suites options \<noteq> {}"
  shows "complete_result options final"
proof (cases "client_under_test result (vs_recorder s)")
  case None
  then show ?thesis using assms fresh_complete by (auto simp: session_suites_def bind_act_Some ret_Some)
next
  case (Some client_id)
  let ?lk = "\<lparr>lk_client_id = client_id, lk_url = sr_url result\<rparr>"
  let ?o = "\<lparr>so_suites = ss_suites options, so_fault_injection = ss_fault_injection options\<rparr>"
  let ?s = "s\<lparr>vs_findings := [], vs_static_code := None\<rparr>"
  obtain fs t where run: "run_suites w ?lk language ?o ?s = Some (Inr fs, t)"
    and final: "final = result\<lparr>sr_later_connections := connections_since ?lk (vs_recorder t) (sr_connection result), sr_findings := fs\<rparr>"
    using assms(1) Some by (auto simp: session_suites_def bind_act_Some ret_Some change_Some Let_def)
  obtain parts where "fs = concat parts" "list_all2 covers_step (steps_of ?o) parts"
    using run_reports [OF run] unfolding covers_steps_def by auto
  then have "set (map fi_id fs) = suite_checks_of options" unfolding suite_checks_of_def by (metis covered_ids)
  then show ?thesis using final assms(3) by (auto simp: complete_result_def dest: connections_later)
qed

lemma session_complete:
  assumes "run_session w found language options s = Some (Inr (Some result), s')"
  shows "complete_result options result"
proof -
  obtain t where body: "session_body w found language options s = Some (Inr (Some result), t)"
    using assms by (auto simp: run_session_def finally_do_def split: option.splits sum.splits)
  obtain first u where connected: "fresh (Some first)"
    and rest: "bind_act (watch_opening w (sr_connection first)) (\<lambda>u.
       if ss_suites options = {} then ret (Some first)
       else bind_act (session_suites w language options first) (\<lambda>final. ret (Some final))) u = Some (Inr (Some result), t)"
    using body givesD [OF gives_connect, of w found options]
    by (fastforce simp: session_body_def bind_act_Some ret_Some split: option.splits)
  show ?thesis
  proof (cases "ss_suites options = {}")
    case True
    then show ?thesis using rest fresh_complete [OF connected] by (auto simp: bind_act_Some ret_Some)
  next
    case False
    then obtain v where "session_suites w language options first v = Some (Inr result, t)"
      using rest by (auto simp: bind_act_Some ret_Some)
    then show ?thesis by (rule suites_complete [OF _ connected False])
  qed
qed

text \<open>
  C6: what a session that returns comes to. With no client there is no report; with one, the validation
  ends with status 1 exactly when a finding of the opening exchange or of the suites is a FAIL or a
  TOOL_ERROR. The suites' findings are none at all or every check of every selected suite and no other,
  and the connections judged beside the first one were opened after it.
\<close>

theorem session_judged:
  assumes "run_session w found language options s = Some (Inr outcome, s')"
  shows "case outcome of None \<Rightarrow> validator_main vendored version (vs_recorder s') (Inr None) seed = Inr EXIT_NO_REPORT
   | Some result \<Rightarrow>
      (\<exists>first. judge_session (rc_frames (vs_recorder s')) (rc_noncompliance (vs_recorder s')) (rc_tool_errors (vs_recorder s'))
           (sr_connection result) (sr_later_connections result) (sr_txt_name result) = Inr first
         \<and> validator_main vendored version (vs_recorder s') (Inr (Some result)) seed
           = Inr (if list_ex bad_verdict (first @ sr_findings result) then EXIT_FINDINGS else EXIT_CLEAN))
      \<and> (sr_findings result = [] \<or> ss_suites options \<noteq> {} \<and> set (map fi_id (sr_findings result)) = suite_checks_of options)
      \<and> (\<forall>n\<in>set (sr_later_connections result). sr_connection result < n)"
proof (cases outcome)
  case None
  then show ?thesis by (simp add: validator_main_def)
next
  case (Some result)
  obtain fs where "run_checks (sr_txt_name result)
      (connection_of (sr_connection result) (rc_frames (vs_recorder s')) (rc_noncompliance (vs_recorder s')) []) = Inr fs"
    using run_checks_reports by blast
  then show ?thesis
    using session_complete [of w found language options s result s'] assms Some
    by (simp add: complete_result_def judge_session_Inr validator_main_def validation_report_of_def validation_findings_def exit_of_report)
qed

definition joining_world :: "unit surroundings" where
  "joining_world = (reporting_world VNone)\<lparr>su_seen := (\<lambda>t. if t = 1
     then [said 1 ''cleartext'' [1], ObserveEvent 1 ''c'' KEYED (Some LONG_TERM) None] else [])\<rparr>"

definition joining_options :: session_options where
  "joining_options = \<lparr>ss_connect_url = Some ''ws://app'', ss_suites = {POST_PAIRING_SUITE}, ss_fault_injection = False\<rparr>"

definition joining_state :: "unit validation" where
  "joining_state = reporting_state\<lparr>vs_store := Map.empty\<rparr>"

lemma joining_run: "\<exists>result s'. run_session joining_world (\<lambda>t. Inr []) ''de'' joining_options joining_state = Some (Inr (Some result), s')
   \<and> sr_findings result \<noteq> []"
proof -
  have "(case run_session joining_world (\<lambda>t. Inr []) ''de'' joining_options joining_state of
      Some (Inr (Some result), s') \<Rightarrow> sr_findings result \<noteq> [] | _ \<Rightarrow> False)"
    by code_simp
  then show ?thesis by (auto split: option.split_asm prod.split_asm sum.split_asm)
qed

theorem session_judged_witness:
  "\<exists>result s' status. run_session joining_world (\<lambda>t. Inr []) ''de'' joining_options joining_state = Some (Inr (Some result), s')
     \<and> validator_main ''v'' ''1'' (vs_recorder s') (Inr (Some result)) 0 = Inr status \<and> status \<in> {EXIT_FINDINGS, EXIT_CLEAN}
     \<and> set (map fi_id (sr_findings result)) = suite_checks_of joining_options"
proof -
  obtain result s' where run: "run_session joining_world (\<lambda>t. Inr []) ''de'' joining_options joining_state = Some (Inr (Some result), s')"
    and found: "sr_findings result \<noteq> []" using joining_run by blast
  from session_judged [OF run, of "''v''" "''1''" 0] run found show ?thesis by (auto split: if_split_asm)
qed

section \<open>Connection events\<close>

text \<open>What the recorded events say is attached: a keyed connection until it is closed.\<close>

fun replay :: "recorder_op \<Rightarrow> (string \<rightharpoonup> int) \<Rightarrow> (string \<rightharpoonup> int)" where
  "replay (ObserveEvent n c k q d) known = (if k = KEYED then known(c \<mapsto> n) else if k = CLOSED then known(c := None) else known)"
| "replay x known = known"

fun true_to :: "(string \<rightharpoonup> int) \<Rightarrow> recorder_op list \<Rightarrow> bool" where
  "true_to known [] = True"
| "true_to known (x # xs) \<longleftrightarrow> (case x of ObserveEvent n c k q d \<Rightarrow> k = KEYED \<or> known c = Some n | _ \<Rightarrow> False)
     \<and> true_to (replay x known) xs"

lemma true_to_append: "true_to known (xs @ ys) \<longleftrightarrow> true_to known xs \<and> true_to (fold replay xs known) ys"
  by (induction xs arbitrary: known) auto

lemma on_event_true: "on_event e known = (known', xs) \<Longrightarrow> true_to known xs \<and> known' = fold replay xs known"
  by (cases e) (auto split: option.splits prod.splits)

lemma on_events_true: "on_events es known = (final, xs) \<Longrightarrow> true_to known xs \<and> final = fold replay xs known"
proof (induction es arbitrary: known final xs)
  case (Cons e es)
  obtain known' ops rest where "on_event e known = (known', ops)" "on_events es known' = (final, rest)" "xs = ops @ rest"
    using Cons.prems by (auto split: prod.splits)
  then show ?case using Cons.IH on_event_true by (auto simp: true_to_append)
qed simp

text \<open>
  C40: in every sequence of events aiosendspin reports, what the validator records of a client refers to
  the connection that the record itself shows attached at that point: a mismatch or a close only ever
  follows the keying of the very connection it names, with no close in between, and what the validator
  keeps is what its record says.
\<close>

theorem events_recorded_truthfully:
  "case on_events es Map.empty of (known, xs) \<Rightarrow> known = fold replay xs Map.empty
     \<and> (\<forall>before x after. xs = before @ x # after \<longrightarrow> (case x of ObserveEvent n c k q d \<Rightarrow>
           k = KEYED \<or> fold replay before Map.empty c = Some n | _ \<Rightarrow> False))"
proof -
  obtain known xs where run: "on_events es Map.empty = (known, xs)" by (cases "on_events es Map.empty")
  then have "true_to Map.empty xs" "known = fold replay xs Map.empty" using on_events_true by blast+
  moreover have "true_to Map.empty (before @ x # after) \<Longrightarrow> (case x of ObserveEvent n c k q d \<Rightarrow>
       k = KEYED \<or> fold replay before Map.empty c = Some n | _ \<Rightarrow> False)" for before x after
    by (simp add: true_to_append)
  ultimately show ?thesis by (simp add: run) blast
qed

theorem events_recorded_truthfully_witness:
  "on_events [ClientConnected ''c'' (Some (Some 3, Some LONG_TERM)), CredentialMismatch ''d'', ClientDisconnected ''c'',
     ClientDisconnected ''c''] Map.empty = (Map.empty, [ObserveEvent 3 ''c'' KEYED (Some LONG_TERM) None, ObserveEvent 3 ''c'' CLOSED None None])
   \<and> fold replay [ObserveEvent 3 ''c'' KEYED (Some LONG_TERM) None, ObserveEvent 3 ''c'' CLOSED None None] Map.empty = Map.empty"
  using events_recorded_truthfully [of "[ClientConnected ''c'' (Some (Some 3, Some LONG_TERM)), CredentialMismatch ''d'', ClientDisconnected ''c'',
     ClientDisconnected ''c'']"] by (simp add: fun_eq_iff)

end
