(* ===== verification/Spec2Isabelle.thy ===== *)
theory Spec2Isabelle
  imports Recorder_Facts Check_Facts Suite_Facts Code_Facts Protocol_Facts Time_Facts
    Matrix_Properties Pcm_Properties Evidence_Properties Harness_Properties Report_Properties Session_Properties
begin

text \<open>
  A verification of the Sendspin conformance harness (\<open>src/src/conformance\<close>): what turns the frames,
  events and summaries of a run into verdicts, what collects them, and what decides over a whole
  matrix of implementations.

  The program. It has two halves. The validator tests one client: it records every frame its server
  exchanges with the client, redacted as it is recorded (\<open>validator/recorder.py\<close>), together with the
  violations aiosendspin flags and the events no frame shows; once a step is over, pure functions of
  one connection's record judge it: the core checks and the session verdict
  (\<open>validator/checks.py\<close>), the checks of the unpaired, pairing and post-pairing suites
  (\<open>validator/suite_checks.py\<close>) and of pairing with a code (\<open>validator/code_pairing_checks.py\<close>).
  The steps themselves, which reconnect the client, ask the user and pair with it, are run by
  \<open>validator/session.py\<close>, \<open>validator/suites.py\<close> and \<open>validator/code_pairing.py\<close>. A violation is cited through a table of patterns (\<open>validator/noncompliance_refs.py\<close>), and a pasted or
  scanned token is decoded by \<open>_vendor/aiosendspin/noise/pairing_token.py\<close>. The matrix runs every
  server implementation against every client in every scenario: \<open>runner.py\<close> forms the cases from the
  registry (\<open>implementations.py\<close>, \<open>scenarios.py\<close>), launches two adapters per case, which find each
  other through a registry file (\<open>registry.py\<close>) and write summaries, and compares those, with the
  judges of \<open>protocol.py\<close>, \<open>chunk_framing.py\<close> and \<open>declared_formats.py\<close>. The aiosendspin adapters
  record the protocol evidence (\<open>adapters/_aiosendspin_protocol_evidence.py\<close>) and account for the
  audio they send and receive (\<open>adapters/aiosendspin_server.py\<close>, \<open>adapters/aiosendspin_client.py\<close>, with
  \<open>pcm.py\<close> and \<open>flac.py\<close>). Results of several hosts are merged (\<open>merge.py\<close>), and compared with a
  published baseline (\<open>scripts/detect_regressions.py\<close>).

  The theories, in the order they build on one another.
  \<^item> \<open>Py_Prelude\<close>, \<open>Py_Text\<close>, \<open>Py_Library\<close>, \<open>Py_Objects\<close>, \<open>Py_Float\<close> and \<open>Py_Bytes\<close> hold Python's values
    and exceptions, string operations, attribute access and formatting, double precision as rationals
    rounded to nearest even, and byte strings with their digests and packed numbers.
  \<^item> \<open>Findings\<close>: verdicts and findings, and the contract of a check's result (\<open>reports\<close>).
  \<^item> \<open>Recorder\<close>: the state is the record \<open>recorder\<close>; \<open>observe_frame\<close>,
    \<open>observe_noncompliance\<close>, \<open>observe_event\<close>, \<open>add_secret\<close> and \<open>notify\<close> are the class's methods
    and \<open>run_recorder\<close> a sequence of them. \<open>Recorder_Facts\<close> follows a secret through a run.
  \<^item> \<open>Noncompliance_Refs\<close>: the table, and \<open>spec_ref_for\<close> by full matching of its patterns.
  \<^item> \<open>Checks\<close>: one definition per check, \<open>run_checks\<close> and \<open>judge_session\<close>; \<open>Check_Facts\<close>: their
    contract (locale \<open>check_table\<close>) and verdicts.
  \<^item> \<open>Pairing_Token\<close>: base32, base64url and the tokens, with their round trips.
  \<^item> \<open>Suite_Checks\<close> and \<open>Suite_Facts\<close>, \<open>Code_Pairing_Checks\<close> and \<open>Code_Facts\<close>: the checks of
    the suites and what they promise; each module's \<open>_finding\<close> interprets \<open>finding_maker\<close>.
  \<^item> \<open>Protocol\<close>, \<open>Protocol_Facts\<close> and \<open>Time_Facts\<close>: the judges of a summary. The two that walk a
    trace are steps on a state record under \<open>run_steps\<close>, and interpret \<open>traced_loop\<close> with the
    invariant that relates their state to the entries read.
  \<^item> \<open>Models\<close> and \<open>Registry\<close>: the records of implementations, scenarios and results
    (\<open>models.py\<close>, \<open>environment.py\<close>) and the tables of \<open>implementations.py\<close> and \<open>scenarios.py\<close>.
  \<^item> \<open>Declared_Formats\<close> and \<open>Format_Facts\<close> (\<open>declared_formats.py\<close>), \<open>Chunk_Framing\<close> and
    \<open>Framing_Facts\<close> (\<open>chunk_framing.py\<close>): the judges of formats, of binary headers and of chunk
    durations.
  \<^item> \<open>Runner_Verdicts\<close> and \<open>Runner_Facts\<close>: the comparisons of \<open>runner.py\<close>, one definition each;
    \<open>Matrix\<close> and \<open>Matrix_Facts\<close>: contexts, commands, the path from a case to its result
    (\<open>run_case\<close>) and the cases of a matrix.
  \<^item> \<open>Pcm\<close> and \<open>Pcm_Facts\<close>: the canonical form of samples, the incremental hasher, and the decoding of
    fixtures; \<open>Regressions\<close>: the regression gate. \<open>Matrix_Properties\<close> and \<open>Pcm_Properties\<close> state what
    the theories since \<open>Models\<close> show.
  \<^item> \<open>Evidence\<close> and \<open>Evidence_Facts\<close>: the evidence of assertions and the recorders of binary frames.
    \<open>Control_Messages\<close> and \<open>Control_Facts\<close>: the recorder of control messages. A wrapped
    send is two operations, before and after it awaits the transport; \<open>wire_run\<close> is the reachability
    of any interleaving of them, and each view an adapter reads back interprets
    \<open>wire_invariant\<close> or \<open>recorded_view\<close>. \<open>Evidence_Properties\<close> composes the recorders with the judges.
  \<^item> \<open>Waiting\<close>: the polling loops and the registry file, the loops interpreting \<open>polling\<close> and
    \<open>plain_wait\<close>. \<open>Merging\<close> and \<open>Merging_Facts\<close>: the merge, as a state record under loops that can
    raise. \<open>Adapter_Audio\<close> and \<open>Adapter_Facts\<close>: the variables a scenario's nested functions share, and
    those functions. \<open>Harness_Properties\<close> states what these show.
  \<^item> \<open>Reports\<close>, \<open>Report_Page\<close>, \<open>Report_Facts\<close> and \<open>Report_Properties\<close>: the end of a validation, that is the
    report, its page and directory, the exit status (\<open>validator/report.py\<close>, \<open>validator/cli.py\<close>), and what
    \<open>validator/prompter.py\<close> makes of a typed line and of text for the terminal.

  \<^item> \<open>Session_Actions\<close>: actions, that is functions on the state of a running validation that can raise or
    loop, and the client's connections (\<open>Link\<close> of \<open>validator/suites.py\<close>). \<open>Code_Steps\<close> and
    \<open>Code_Attempts\<close>: \<open>validator/code_pairing.py\<close>, the codes a user enters and the attempts made with
    them. \<open>Suite_Steps\<close> and \<open>Suite_Runs\<close>: \<open>SuiteRunner\<close>, step by step, and \<open>run\<close>. \<open>Sessions\<close>:
    \<open>validator/session.py\<close>, from getting a client connected to the result of the session.
  \<^item> \<open>Session_Facts\<close> and \<open>Step_Facts\<close>: rules for actions, one per combinator: what a result satisfies, and
    how the state moves (locales \<open>moving\<close> and \<open>moving_store\<close>). \<open>Step_Results\<close>, \<open>Code_Results\<close> and
    \<open>Run_Results\<close>: the checks each step reports (locale \<open>entry_invariant\<close> for the entry of codes);
    \<open>Run_Ends\<close>: that every action returns; \<open>Run_Properties\<close>: that whatever a run adds to the record
    are operations of the recorder (\<open>recorded_later\<close>), the codes and keys it enters (\<open>entered\<close>) with
    their registration, and what is put back.
    \<open>Validation_Properties\<close> and \<open>Session_Properties\<close> state what these show.

  The model. A function that can raise returns a sum whose left side is the exception. A JSON value is
  a \<open>pyval\<close>; a \<open>dict\<close> keeps its items in order. Strings are lists of characters below 256; the
  model says nothing of longer code points. A file is absent, unreadable or a JSON value.

  Bounds and fuel. Definitions are total and executable. \<open>read_quanta\<close> has fuel, the length of the
  text it reads, of which each turn takes at least one character. The polling loops of \<open>Waiting\<close> are
  partial functions of the number of turns taken, and are shown to return on every clock that
  advances by some least step in any two turns; the loops of the drivers, which ask the user again, are
  partial functions of the state, and are shown to return where the user keeps coming back to an answer
  that will do. A float is the rational it is, or \<open>None\<close> beyond the
  largest; where a float rule is compared with exact arithmetic the theorem states the range.

  Parameters. Each stands for code or a world not under \<open>src\<close>, and nothing is assumed about it but
  what a theorem names. \<open>loads\<close> is \<open>json.loads\<close>; \<open>clock\<close> a clock's readings; \<open>world\<close> in \<open>Matrix\<close>
  how launched processes end and what they leave behind; \<open>files\<close> and \<open>download\<close> files and the
  fetched baseline; \<open>connect\<close> the dialling of a client; the frames PyAV decodes, and a decoder's
  making, decoding and flushing; \<open>header_size\<close> the SDK's; \<open>invalid\<close> and \<open>other\<close> what Python raises or
  gives for a value the harness never writes. \<open>surroundings\<close> is all a running validation waits for: for
  each turn, what the recorder observes meanwhile, the user's answers, the deadlines missed, and what
  calls of the server and attempts to pair come to; it need not be consistent, so what is shown holds of
  whatever a client and the library do. \<open>cooperative\<close> is the one hypothesis on it, about the user and the
  codes drawn.

  The properties say: every check of a connection answers once, under its own id, about that connection,
  and fails only on evidence (the one check of two connections can raise, and it is stated when); the
  verdicts of the hard checks are exactly their rule over the frames; records are
  numbered, append-only and, from a secret's registration on, free of it in their string values, if it has
  no angle bracket and is no part of the word redacted (\<open>clean_secret\<close>); the judges of a summary and the comparisons
  accept exactly what they describe, and the traces they accept have the safety and the liveness the
  judges are there for; a case is passed only on evidence from both sides; what the recorders of the
  adapters hand to the judges is what crossed the transport, in every interleaving; the accounts of an
  audio stream compare as a pass exactly if the audio arrived; waits end; and merging and the
  regression gate lose no case. Behaviours that differ from what the code says of itself are stated as
  they are.

  Further, a run of the suites returns, reports every check of every selected step (each once, but for
  PAIR-STATIC-008, which P3 judges for every code asked for), puts back the pairing it took away,
  registers every code and key before it is used, and decides the exit status by its findings.

  Not modelled: what the validator sends and tells its user, the browsing over mDNS and its
  identity on disk; the command line, builds, checkouts and the starting and killing of processes; the
  scenarios by which an adapter drives the SDK, its metadata, controller and artwork handlers, and the
  wrapping of the SDK's methods; the rendering of the site; the adapters in other
  languages; and the vendored library but for the pairing tokens and the form of a pairing code.
\<close>

section \<open>The core checks\<close>

text \<open>
  C1: whatever frames, violations and events one connection has, the runner of the core checks
  returns exactly one finding for each check of its table, in the order of the table; every
  finding cites only frames of that connection, and a failure cites at least one.
\<close>

theorem run_checks_complete:
  "\<exists>fs. run_checks txt_name c = Inr fs \<and> map fi_id fs = map fst CHECKS \<and> list_all (core_ok c) fs"
  by (rule run_checks_reports)

text \<open>
  CORE-ORDER-001 fails exactly when some transport frame of the client, other than its hello
  or goodbye, has no server/activate before it; without transport frames it does not apply.
\<close>

theorem order_check_exact:
  "verdict_of (check_nothing_before_activation c) = Some
     (let tr = filter (\<lambda>f. fr_phase f = ''transport'') (cr_frames c) in
      if tr = [] then NOT_APPLICABLE else if speaks_early tr then FAIL else PASS)"
  by (rule order_verdict)

text \<open>
  CORE-HELLO-002 passes exactly when each listed role version that needs a support object
  sends one, and every support object sent names a role version that is listed.
\<close>

theorem support_objects_exact:
  assumes "client_hello c = Some hello"
  shows "verdict_of (check_hello_support_objects c) = Some PASS \<longleftrightarrow>
     list_all (\<lambda>role. role \<notin> set (roles_of (payload_or hello))
         \<or> is_dict (dict_get (role @ SUPPORT_SUFFIX) (payload_or hello))) SUPPORT_OBJECT_ROLES
     \<and> (\<forall>role. CHR ''@'' \<in> set role \<and> has_key (role @ SUPPORT_SUFFIX) (payload_or hello) \<longrightarrow>
          role \<in> set (roles_of (payload_or hello)))"
  using assms support_problems_Nil_iff [of "payload_or hello"]
  by (auto simp: support_verdict list_all_iff)

definition sample_frame :: "int \<Rightarrow> string \<Rightarrow> string \<Rightarrow> string \<Rightarrow> pydict \<Rightarrow> recorded_frame" where
  "sample_frame i direction phase message_type p =
     \<lparr>fr_id = i, fr_connection = 1, fr_client_id = None, fr_direction = direction,
      fr_phase = phase, fr_monotonic_us = i, fr_size = 0,
      fr_message = Some [(''type'', VStr message_type), (''payload'', VDict p)],
      fr_binary_type = None, fr_error = None\<rparr>"

definition sample_record :: "recorded_frame list \<Rightarrow> connection_record" where
  "sample_record fs = \<lparr>cr_number = 1, cr_frames = fs, cr_noncompliance = [], cr_events = []\<rparr>"

definition sample_hello :: recorded_frame where
  "sample_hello = sample_frame 3 ''in'' ''transport'' ''client/hello''
     [(''supported_roles'', VList [VStr ''player@v1'']), (''player@v1_support'', VDict [])]"

lemma sample_hello_found: "client_hello (sample_record [sample_hello]) = Some sample_hello"
  by code_simp

theorem support_objects_exact_witness:
  "verdict_of (check_hello_support_objects (sample_record [sample_hello])) = Some PASS \<longleftrightarrow>
     list_all (\<lambda>role. role \<notin> set (roles_of (payload_or sample_hello))
         \<or> is_dict (dict_get (role @ SUPPORT_SUFFIX) (payload_or sample_hello))) SUPPORT_OBJECT_ROLES
     \<and> (\<forall>role. CHR ''@'' \<in> set role \<and> has_key (role @ SUPPORT_SUFFIX) (payload_or sample_hello) \<longrightarrow>
          role \<in> set (roles_of (payload_or sample_hello)))"
  by (rule support_objects_exact) (rule sample_hello_found)

text \<open>
  a \<open>suite\<close> in client/init that is a list or an object is reported as an error of the tool,
  because the membership test raises, and not as the client's failure.
\<close>

theorem unhashable_suite_is_tool_error:
  assumes "client_init c = Inr (Some f)" and "unhashable (dict_get ''suite'' (payload_or f)) = Some t"
  shows "\<exists>g. run_check c (''CORE-INIT-004'', check_init_suite) = Inr [g] \<and> fi_verdict g = TOOL_ERROR"
  using suite_raises [OF assms] by simp

definition sample_init :: "pyval \<Rightarrow> recorded_frame" where
  "sample_init suite = sample_frame 1 ''in'' ''cleartext'' ''client/init'' [(''suite'', suite)]"

lemma sample_init_found:
  "client_init (sample_record [sample_init v]) = Inr (Some (sample_init v))"
  "payload_or (sample_init v) = [(''suite'', v)]"
  by (simp_all add: client_init_def sample_record_def sample_init_def sample_frame_def inbound_def
      frame_type_def payload_or_def payload_def)

theorem unhashable_suite_is_tool_error_witness:
  "\<exists>g. run_check (sample_record [sample_init (VList [])]) (''CORE-INIT-004'', check_init_suite) = Inr [g]
     \<and> fi_verdict g = TOOL_ERROR"
  by (rule unhashable_suite_is_tool_error [OF sample_init_found(1), of _ "''list''"])
    (simp add: sample_init_found(2))

section \<open>Judging a session\<close>

text \<open>
  the verdicts of one connection depend on nothing another connection did: sessions that
  agree on the frames and violations of the judged connections get the same findings.
\<close>

theorem judge_session_isolated:
  assumes "filter (\<lambda>f. fr_connection f = k) frames = filter (\<lambda>f. fr_connection f = k) frames'"
    and "filter (\<lambda>n. nc_connection n \<in> Some ` set (k # later)) nc
       = filter (\<lambda>n. nc_connection n \<in> Some ` set (k # later)) nc'"
  shows "judge_session frames nc errors k later txt = judge_session frames' nc' errors k later txt"
proof -
  have "filter (\<lambda>n. nc_connection n = Some k) nc = filter (\<lambda>n. nc_connection n = Some k) nc'"
    by (rule filter_weaken [OF assms(2)]) auto
  then show ?thesis
    using connection_of_cong [OF assms(1)] assms(2) by (simp add: judge_session_def)
qed

theorem judge_session_isolated_witness:
  "judge_session [sample_init VNone] [] [] 1 [] None =
   judge_session [sample_init VNone, (sample_init VNone)\<lparr>fr_connection := 2\<rparr>] [] [] 1 [] None"
  by (rule judge_session_isolated) (simp_all add: sample_init_def sample_frame_def)

text \<open>
  a violation of Noise message 2's payload that aiosendspin reports on a later connection of
  the session leaves no finding: it is filtered out, and only the first connection is judged
  for it.
\<close>

theorem later_noise_violation_dropped:
  assumes "nc_reason v = NOISE_PAYLOAD_REASON" and "nc_connection v \<noteq> Some k"
    and "nc_connection v \<in> Some ` set later" and "nc \<noteq> []"
    and "list_ex (\<lambda>n. nc_connection n \<in> Some ` set (k # later)) nc"
  shows "judge_session frames (nc @ [v]) errors k later txt = judge_session frames nc errors k later txt"
  using assms
  by (auto simp: judge_session_def connection_of_def check_noncompliance_def filter_empty_conv list_ex_iff)

definition sample_violation :: "int \<Rightarrow> string \<Rightarrow> recorded_noncompliance" where
  "sample_violation k reason = \<lparr>nc_connection = Some k, nc_client_id = None, nc_reason = reason,
     nc_monotonic_us = 0, nc_after_frame = None\<rparr>"

theorem later_noise_violation_dropped_witness:
  "judge_session [] ([sample_violation 1 ''x''] @ [sample_violation 2 NOISE_PAYLOAD_REASON]) [] 1 [2] None
   = judge_session [] [sample_violation 1 ''x''] [] 1 [2] None"
  by (rule later_noise_violation_dropped) (simp_all add: sample_violation_def)

section \<open>The recorder\<close>

text \<open>
  C9: whatever a run observes, in whatever order and with whatever decoder, the recorded frames
  carry the ids 1, 2, 3 and so on in recording order.
\<close>

theorem frames_numbered:
  "map fr_id (rc_frames (run_recorder loads ops new_recorder))
     = map int [1..<Suc (length (rc_frames (run_recorder loads ops new_recorder)))]"
  using frame_log.run_numbered [of new_recorder loads ops]
  by (simp add: frame_log.numbered_def run_recorder_def new_recorder_def del: upt_Suc)

text \<open>
  C14: nothing recorded is ever changed or dropped: the frames, violations and events of a run are
  a prefix of those of any continuation.
\<close>

theorem records_append_only:
  "prefix (rc_frames (run_recorder loads ops r)) (rc_frames (run_recorder loads (ops @ later) r))
   \<and> prefix (rc_noncompliance (run_recorder loads ops r)) (rc_noncompliance (run_recorder loads (ops @ later) r))
   \<and> prefix (rc_events (run_recorder loads ops r)) (rc_events (run_recorder loads (ops @ later) r))"
  unfolding run_recorder_def fold_append comp_def
  by (intro conjI frame_log.run_keeps violation_log.run_keeps event_log.run_keeps)

text \<open>
  C10: once a secret is registered that has no angle bracket and is no part of the word redacted, nothing
  recorded later shows it: no string value of a message, at any depth, but for the digits of a length mark,
  no reason of a violation and no detail of an event. The keys of objects are recorded as they are, and what
  was recorded before stays.
\<close>

theorem registered_secret_hidden:
  assumes "clean_secret p"
  shows "hidden_between p (run_recorder loads before new_recorder) (run_recorder loads (before @ AddSecret p # ops) new_recorder)"
proof -
  let ?r = "run_recorder loads before new_recorder"
  have "secrets_ok new_recorder" by (simp add: secrets_ok_def new_recorder_def)
  then have "secrets_ok (add_secret p ?r)"
    using run_secrets_ok apply_op_secrets(2) [of ?r loads "AddSecret p"] by simp
  moreover have "p \<in> set (rc_secrets (add_secret p ?r))"
    using assms by (simp add: add_secret_def clean_secret_def)
  moreover have "hidden_between p ?r (add_secret p ?r)" by (auto simp: add_secret_def intro: hidden_refl)
  moreover have "run_recorder loads (before @ AddSecret p # ops) new_recorder
      = run_recorder loads ops (add_secret p ?r)"
    by (simp add: run_recorder_def)
  ultimately show ?thesis
    using run_hides [of "add_secret p ?r" p loads ops] assms by (metis hidden_trans)
qed

definition sample_loads :: "nat list \<Rightarrow> pyval py" where
  "sample_loads bytes = Inr (VDict [(''code'', VStr ''12'')])"

definition sample_observed :: observed_frame where
  "sample_observed = \<lparr>of_connection = 1, of_client_id = None, of_direction = ''in'',
     of_phase = ''cleartext'', of_monotonic_us = 0, of_data = [1, 2], of_error = None\<rparr>"

theorem registered_secret_hidden_witness:
  "hidden_between ''12'' (run_recorder sample_loads [] new_recorder)
     (run_recorder sample_loads ([] @ AddSecret ''12'' # [ObserveFrame sample_observed]) new_recorder)"
  by (rule registered_secret_hidden) code_simp

text \<open>
  two cleartext messages of one size that differ only in the strings under secret fields, or
  in which non-string stands there, leave the recorder in the same state: the record tells
  nothing of a secret but its length.
\<close>

theorem secrets_indistinguishable:
  assumes "of_error f = None" and "of_phase f = ''cleartext''"
    and "loads (of_data f) = Inr (VDict d)" and "loads bytes = Inr (VDict e)"
    and "length bytes = length (of_data f)" and "same_public_pairs d e"
  shows "observe_frame loads (f\<lparr>of_data := bytes\<rparr>) r = observe_frame loads f r"
  by (rule decode_same_public [OF assms])

definition sample_secret_loads :: "nat list \<Rightarrow> pyval py" where
  "sample_secret_loads bytes = Inr (VDict [(''wrapped_psk'',
     VStr (if bytes = [1, 2] then ''abc'' else ''xyz''))])"

theorem secrets_indistinguishable_witness:
  "observe_frame sample_secret_loads (sample_observed\<lparr>of_data := [3, 4]\<rparr>) new_recorder
     = observe_frame sample_secret_loads sample_observed new_recorder"
proof (rule secrets_indistinguishable)
  show "same_public_pairs [(''wrapped_psk'', VStr ''abc'')] [(''wrapped_psk'', VStr ''xyz'')]"
    by code_simp
qed (simp_all add: sample_observed_def sample_secret_loads_def)

text \<open>
  C15: the length a check reads back from a redacted secret field is the length of the string the
  client sent, and a field that held no string reads as none, so redaction takes nothing from the
  length checks of the pairing flows.
\<close>

theorem redaction_keeps_length:
  assumes "((t, field), n) \<in> set CLIENT_FIELD_LENGTHS" and "has_key field p"
    and "\<not> is_str (dict_get field p) \<or> dict_get field p = VStr s \<and> length (nat_str (length s)) \<le> 4300"
  shows "redacted_length (dict_get field (redact_pairs S p)) =
    Inr (case dict_get field p of VStr s \<Rightarrow> Some (length s) | _ \<Rightarrow> None)"
  by (rule redacted_field_length [OF fields_secret [OF assms(1)] assms(2)]) (use assms(3) in auto)

theorem redaction_keeps_length_witness:
  "redacted_length (dict_get ''client_kc'' (redact_pairs [] [(''client_kc'', VStr ''abc'')])) = Inr (Some 3)"
  using redaction_keeps_length [of "''client/pair-confirm''" "''client_kc''" 86
      "[(''client_kc'', VStr ''abc'')]" "''abc''" "[]"]
  by (simp add: CLIENT_FIELD_LENGTHS_def nat_str.simps)

section \<open>The suite checks\<close>

text \<open>
  C11: as long as the validator's own activations and key events are well typed, nothing a client
  sends makes a suite check of its connection raise: each returns one finding, under its own id, over
  frames of the connection. The check of two connections does so too, unless the first does not report
  the delay it was set to as an integer; then it raises.
\<close>

theorem suite_checks_answer:
  assumes "own_side_ok c" and "(cid, chk) \<in> set (suite_table since)"
  shows "(\<exists>f. chk c = Inr [f] \<and> fi_id f = cid \<and> set (fi_frames f) \<subseteq> frame_ids c)
     \<and> (if echoed_delay before commanded
        then \<exists>f. check_restart_keeps_output_delay before c commanded = Inr [f] \<and> fi_id f = ''POSTPAIR-006''
          \<and> set (fi_frames f) \<subseteq> frame_ids before \<union> frame_ids c
        else check_restart_keeps_output_delay before c commanded = Inl StopIteration)"
  using suite_table_answers [OF assms] output_delay_answers output_delay_raises by simp

definition sample_activation :: recorded_frame where
  "sample_activation = sample_frame 4 ''out'' ''transport'' ''server/activate''
     [(''activities'', VList [VStr ''pairing'']), (''pairing'', VDict [(''method'', VStr ''pairing_psk'')])]"

definition sample_pair_init :: recorded_frame where
  "sample_pair_init = sample_frame 5 ''in'' ''transport'' ''client/pair-init'' [(''pairing_index'', VInt 1)]"

definition sample_pairing :: connection_record where
  "sample_pairing = sample_record [sample_activation, sample_pair_init]"

theorem suite_checks_answer_witness:
  "(\<exists>f. check_pair_init 0 sample_pairing = Inr [f] \<and> fi_id f = ''PAIR-PSK-004''
     \<and> set (fi_frames f) \<subseteq> frame_ids sample_pairing)
   \<and> check_restart_keeps_output_delay sample_pairing sample_pairing (Some 100) = Inl StopIteration"
proof -
  have "own_side_ok sample_pairing" by code_simp
  moreover have "(''PAIR-PSK-004'', check_pair_init 0) \<in> set (suite_table 0)" by (simp add: suite_table_def)
  moreover have "\<not> echoed_delay sample_pairing (Some 100)" by code_simp
  ultimately show ?thesis
    using suite_checks_answer [of sample_pairing "''PAIR-PSK-004''" "check_pair_init 0" 0 sample_pairing "Some 100"] by simp
qed

text \<open>
  what the keying checks conclude, by what keyed the session and what was expected: the
  expected key passes, a session keyed otherwise fails only when the validator referenced the
  long-term PSK in both cases, and any other mismatch is the validator's own error.
\<close>

theorem keying_exact:
  assumes "cid \<in> fst ` set SUITE_REFS" and "initial_keying c = Some keying"
    and "keying \<in> {LONG_TERM, PAIRING, SENTINEL, FALLBACK}"
    and "expected \<in> {LONG_TERM, PAIRING, SENTINEL, FALLBACK}"
  shows "verdict_of (judge_keying c cid expected passed kept) = Some (
    if keying = expected then PASS
    else if {keying, expected} = {LONG_TERM, FALLBACK} then FAIL else TOOL_ERROR)"
  by (rule keying_verdict [OF assms])

definition sample_keyed :: "string \<Rightarrow> connection_record" where
  "sample_keyed category = (sample_record [])\<lparr>cr_events := [\<lparr>ev_connection = 1, ev_client_id = [],
     ev_kind = KEYED, ev_after_frame = None, ev_psk_category = Some category, ev_detail = None\<rparr>]\<rparr>"

theorem keying_exact_witness:
  "verdict_of (judge_keying (sample_keyed SENTINEL) ''POSTPAIR-001'' LONG_TERM ''p'' None) = Some TOOL_ERROR"
proof -
  have k: "initial_keying (sample_keyed SENTINEL) = Some SENTINEL"
    by (simp add: initial_keying_def sample_keyed_def sample_record_def keyed_events_def first_of_def)
  have "SENTINEL \<noteq> LONG_TERM" "SENTINEL \<noteq> FALLBACK"
    by (simp_all add: SENTINEL_def LONG_TERM_def FALLBACK_def)
  then show ?thesis
    using keying_exact [OF suite_ids_known(12) k, of LONG_TERM "''p''" None]
    by (simp add: doubleton_eq_iff)
qed

text \<open>
  without a key event the keying checks do not apply when the handshake was not begun, was
  rejected, or reached the transport, and fail otherwise.
\<close>

theorem keying_missing_exact:
  assumes "cid \<in> fst ` set SUITE_REFS" and "initial_keying c = None"
    and "expected \<in> {LONG_TERM, PAIRING, SENTINEL, FALLBACK}"
  shows "verdict_of (judge_keying c cid expected passed kept) = Some (
    if outbound_of c ''noise/handshake'' ''cleartext'' = [] \<or> rejected c
       \<or> (\<exists>f \<in> set (cr_frames c). fr_phase f = ''transport'')
    then NOT_APPLICABLE else FAIL)"
  by (rule keying_missing_verdict [OF assms])

definition sample_message_1 :: recorded_frame where
  "sample_message_1 = sample_frame 2 ''out'' ''cleartext'' ''noise/handshake'' []"

theorem keying_missing_exact_witness:
  "verdict_of (judge_keying (sample_record [sample_message_1]) ''UNPAIRED-001'' SENTINEL ''p'' None) = Some FAIL"
proof -
  have k: "initial_keying (sample_record [sample_message_1]) = None"
    by (simp add: initial_keying_def sample_record_def keyed_events_def first_of_def)
  show ?thesis
    using keying_missing_exact [OF suite_ids_known(1) k, of SENTINEL "''p''" None]
    by (simp add: sample_record_def sample_message_1_def sample_frame_def
        outbound_of_def inbound_def frame_type_def rejected_def)
qed

text \<open>
  over frames in recording order, the pairing index a client must answer with is the number of
  pairing activations up to the activation that no outbound handshake follows.
\<close>

theorem pairing_index_counts:
  assumes "sorted_wrt (\<lambda>f g. fr_id f < fr_id g) (cr_frames c)"
  shows "pairing_activations_since_handshake c activation
     = int (card (counted (fr_id activation) (cr_frames c)))"
  using count_pairings_card [OF assms, of "fr_id activation" 0]
  by (simp add: pairing_activations_since_handshake_def)

theorem pairing_index_counts_witness:
  "pairing_activations_since_handshake sample_pairing sample_activation
     = int (card (counted (fr_id sample_activation) (cr_frames sample_pairing)))"
  by (rule pairing_index_counts)
    (simp add: sample_pairing_def sample_record_def sample_activation_def sample_pair_init_def
      sample_frame_def)

text \<open>
  PAIR-PSK-006 passes only on a connection that shows, after the step began, the server's
  finalize, then its re-handshake, then the client's answer, and a long-term key event after the
  finalize.
\<close>

theorem promotion_pass_evidence:
  assumes "verdict_of (check_promotion since c) = Some PASS"
  shows "\<exists>ack m1 m2 e. {ack, m1, m2} \<subseteq> set (cr_frames c) \<and> since < fr_id ack
    \<and> is_out ''server/pair-finalize'' ack \<and> is_out ''noise/handshake'' m1 \<and> is_in ''noise/handshake'' m2
    \<and> fr_id ack < fr_id m1 \<and> fr_id m1 < fr_id m2
    \<and> e \<in> set (cr_events c) \<and> ev_kind e = KEYED \<and> fr_id ack < event_frame e
    \<and> ev_psk_category e = Some LONG_TERM"
  by (rule promotion_pass [OF assms])

definition sample_promotion :: connection_record where
  "sample_promotion = \<lparr>cr_number = 1,
     cr_frames = [sample_frame 6 ''out'' ''transport'' ''server/pair-finalize'' [],
       sample_frame 7 ''out'' ''transport'' ''noise/handshake'' [],
       sample_frame 8 ''in'' ''transport'' ''noise/handshake'' []],
     cr_noncompliance = [],
     cr_events = [\<lparr>ev_connection = 1, ev_client_id = [], ev_kind = KEYED, ev_after_frame = Some 8,
        ev_psk_category = Some LONG_TERM, ev_detail = None\<rparr>]\<rparr>"

theorem promotion_pass_evidence_witness:
  "\<exists>ack m1 m2 e. {ack, m1, m2} \<subseteq> set (cr_frames sample_promotion) \<and> 0 < fr_id ack
    \<and> is_out ''server/pair-finalize'' ack \<and> is_out ''noise/handshake'' m1 \<and> is_in ''noise/handshake'' m2
    \<and> fr_id ack < fr_id m1 \<and> fr_id m1 < fr_id m2
    \<and> e \<in> set (cr_events sample_promotion) \<and> ev_kind e = KEYED \<and> fr_id ack < event_frame e
    \<and> ev_psk_category e = Some LONG_TERM"
  by (rule promotion_pass_evidence) code_simp

text \<open>
  once the client reported the delay the validator set, POSTPAIR-006 compares it with the first
  delay reported after the restart, and applies only when one was reported.
\<close>

theorem output_delay_exact:
  assumes "f \<in> set (inbound_of before ''client/state'' ''transport'')" and "output_delay f = Some d"
  shows "verdict_of (check_restart_keeps_output_delay before after (Some d)) = Some (
    case find (\<lambda>f. output_delay f \<noteq> None) (inbound_of after ''client/state'' ''transport'') of
      None \<Rightarrow> NOT_APPLICABLE | Some g \<Rightarrow> if output_delay g = Some d then PASS else FAIL)"
  by (rule output_delay_verdict [OF assms])

definition sample_state :: "int \<Rightarrow> recorded_frame" where
  "sample_state d = sample_frame 9 ''in'' ''transport'' ''client/state''
     [(''player'', VDict [(''output_delay_ms'', VInt d)])]"

lemma sample_state_delay:
  "output_delay (sample_state d) = Some d"
  "inbound_of (sample_record [sample_state d]) ''client/state'' ''transport'' = [sample_state d]"
  by (simp_all add: sample_state_def sample_frame_def output_delay_def payload_or_def payload_def
      inbound_of_def sample_record_def inbound_def frame_type_def)

theorem output_delay_exact_witness:
  "verdict_of (check_restart_keeps_output_delay (sample_record [sample_state 20])
     (sample_record [sample_state 0]) (Some 20)) = Some FAIL"
  by (subst output_delay_exact [of "sample_state 20"]) (simp_all add: sample_state_delay)

section \<open>Pairing tokens\<close>

text \<open>
  C7: decoding gives back every byte string that was encoded, for both token versions: base32, the
  stripped padding and the exchange of 2 and 9 lose nothing.
\<close>

theorem token_decodes:
  assumes "is_bytes bs" and "version \<in> {CHR ''0'', CHR ''1''}"
  shows "decode_token (encode_token version bs) version = Inr bs"
  by (rule token_roundtrip [OF assms])

theorem token_decodes_witness:
  "decode_token (encode_token (CHR ''1'') [1, 255, 3]) (CHR ''1'') = Inr [1, 255, 3]"
  by (rule token_decodes) (simp_all add: digit_below_def)

text \<open>
  the token of a client key and a pairing PSK passes both token checks for the client whose
  id is that key in base64url, and fails the second for any other client.
\<close>

theorem psk_token_checks:
  assumes "is_bytes key" and "is_bytes psk" and "length key = KEY_SIZE"
    and "length psk = PSK_TOKEN_SIZE - KEY_SIZE"
  shows "\<exists>f g. check_pairing_token (encode_token PSK_TOKEN_VERSION (key @ psk)) (Some cid) = Inr [f, g]
    \<and> fi_verdict f = PASS \<and> fi_verdict g = (if cid = b64url_encode key then PASS else FAIL)"
proof -
  have d: "decode_psk_token (encode_token PSK_TOKEN_VERSION (key @ psk)) =
      Inr \<lparr>pt_client_id = b64url_encode key, pt_pairing_psk = psk\<rparr>"
    by (rule decode_psk_encoded [OF assms])
  then show ?thesis
    by (simp add: check_pairing_token_def Let_def suite_maker.make_known suite_ids_known)
qed

theorem psk_token_checks_witness:
  "\<exists>f g. check_pairing_token (encode_token PSK_TOKEN_VERSION (replicate 32 7 @ replicate 32 9)) (Some ''x'')
     = Inr [f, g] \<and> fi_verdict f = PASS
     \<and> fi_verdict g = (if ''x'' = b64url_encode (replicate 32 7) then PASS else FAIL)"
  by (rule psk_token_checks)
    (simp_all add: KEY_SIZE_def PSK_TOKEN_SIZE_def digit_below_def list_all_iff)

text \<open>
  PAIR-DYN-QR-009 passes exactly when the scanned text, without the white space around it, is
  the token that encodes some 24-byte pairing code: the leniency of the decoder lets nothing else
  through.
\<close>

theorem qr_token_exact:
  "verdict_of (check_qr_token scanned) = Some (
     if \<exists>code. is_bytes code \<and> length code = QR_CODE_SIZE
          \<and> strip scanned = encode_token PAIRING_CODE_TOKEN_VERSION code
     then PASS else FAIL)"
  by (rule qr_verdict)

section \<open>Pairing with a code\<close>

text \<open>
  C8: after a confirm whose outcome is known, the verification checks report each stage of the
  flow once, in the order of the stages: those before the failed one pass, it fails, and those
  after it are not reached; all pass when nothing failed.
\<close>

theorem verification_staged:
  assumes "snd ` set check_ids \<subseteq> fst ` set CODE_REFS"
    and "last_in c since ''client/pair-confirm'' = Some confirm"
    and "verification_outcome c confirm = Some (failed, msg, frames)"
  shows "\<exists>fs. check_verification c since check_ids = Inr fs
    \<and> map fi_id fs = map snd (sort_key fst check_ids)
    \<and> map fi_verdict fs = map (\<lambda>e. stage_verdict failed (fst e)) (sort_key fst check_ids)"
  by (rule verification_verdicts [OF assms])

definition sample_confirm :: connection_record where
  "sample_confirm = sample_record [
     sample_frame 1 ''in'' ''transport'' ''client/pair-confirm'' [],
     sample_frame 2 ''out'' ''transport'' ''pair/abort'' [(''reason'', VStr ''pairing_code_mismatch'')]]"

theorem verification_staged_witness:
  "\<exists>fs. check_verification sample_confirm 0 [(UNWRAP, ''PAIR-STATIC-007''), (CLIENT_KC, ''PAIR-STATIC-005'')] = Inr fs
    \<and> map fi_id fs = map snd (sort_key fst [(UNWRAP, ''PAIR-STATIC-007''), (CLIENT_KC, ''PAIR-STATIC-005'')])
    \<and> map fi_verdict fs = map (\<lambda>e. stage_verdict (Some CLIENT_KC) (fst e))
        (sort_key fst [(UNWRAP, ''PAIR-STATIC-007''), (CLIENT_KC, ''PAIR-STATIC-005'')])"
proof (rule verification_staged)
  show "snd ` set [(UNWRAP, ''PAIR-STATIC-007''), (CLIENT_KC, ''PAIR-STATIC-005'')] \<subseteq> fst ` set CODE_REFS"
    by (simp add: CODE_REFS_def)
  show "last_in sample_confirm 0 ''client/pair-confirm''
      = Some (sample_frame 1 ''in'' ''transport'' ''client/pair-confirm'' [])"
    by code_simp
  show "verification_outcome sample_confirm (sample_frame 1 ''in'' ''transport'' ''client/pair-confirm'' [])
      = Some (Some CLIENT_KC, ''client_kc did not verify: the validator aborted with 'pairing_code_mismatch'' @ sq,
          [sample_frame 1 ''in'' ''transport'' ''client/pair-confirm'' [],
           sample_frame 2 ''out'' ''transport'' ''pair/abort'' [(''reason'', VStr ''pairing_code_mismatch'')]])"
    by code_simp
qed

text \<open>
  no reason of aiosendspin the table lists is shadowed by an earlier entry whose text it
  contains: each is classified as its own stage.
\<close>

theorem failure_reasons_distinguished:
  "list_all (\<lambda>(reason, s). failure_stage (Some reason) = Some s) FAILURE_STAGES"
  by (rule failure_stage_own)

text \<open>
  C12: the lockout checks always give both findings. The first passes exactly when there were five
  activations and the client's first pair/abort before the next activation gives
  pairing_code_mismatch in each; the second judges the sixth activation only after that, and
  passes exactly when the client answers it with client/pair-pending.
\<close>

theorem lockout_exact:
  "let acts = pairing_activations c since;
       clean = list_all (clean_attempt c acts) [0..<min 5 (length acts)]
   in \<exists>f g. check_lockout c since = Inr [f, g]
      \<and> fi_id f = ''PAIR-STATIC-009'' \<and> fi_id g = ''PAIR-STATIC-010''
      \<and> fi_verdict f = (if clean then (if length acts < 5 then NOT_APPLICABLE else PASS) else FAIL)
      \<and> fi_verdict g = (if clean \<and> 5 < length acts
                        then (if sixth_held_back c acts then PASS else FAIL) else NOT_APPLICABLE)"
  by (rule lockout_verdicts)

text \<open>
  the pairing-index check of the code flows, over the rounds the activations cut: it fails when
  an answered round has no answer with its own index or one that is neither its own nor lower; it
  passes when every answered round is right and at least one is answered.
\<close>

theorem round_indexes_exact:
  assumes "cid \<in> fst ` set CODE_REFS"
  shows "verdict_of (check_pairing_index c since cid) = Some (
    let rs = rounds c (pairing_activations c since) in
    if \<not> list_all (round_ok c) rs then FAIL
    else if list_all (\<lambda>r. snd r = []) rs then (if rejected c then NOT_APPLICABLE else FAIL)
    else PASS)"
  using pairing_index_verdict [OF assms, of c since] by (simp add: list_all_iff Let_def)

definition sample_unanswered :: connection_record where
  "sample_unanswered = sample_record [sample_activation, sample_pair_init,
     sample_frame 6 ''out'' ''transport'' ''server/activate''
       [(''activities'', VList [VStr ''pairing'']), (''pairing'', VDict [(''method'', VStr ''pairing_psk'')])]]"

theorem round_indexes_exact_witness:
  "verdict_of (check_pairing_index sample_unanswered 0 ''PAIR-STATIC-002'') = Some PASS"
proof -
  have "list_all (round_ok sample_unanswered) (rounds sample_unanswered (pairing_activations sample_unanswered 0))"
    "\<not> list_all (\<lambda>r. snd r = []) (rounds sample_unanswered (pairing_activations sample_unanswered 0))"
    by code_simp+
  then show ?thesis
    by (subst round_indexes_exact) (simp_all add: CODE_REFS_def Let_def)
qed

text \<open>
  the pairing-index check passes, with a message that every activation was answered, on a
  connection whose second activation got no answer at all.
\<close>

theorem unanswered_activation_passes:
  "map_sum id (map (\<lambda>f. (fi_verdict f, fi_message f)))
     (check_pairing_index sample_unanswered 0 ''PAIR-STATIC-002'')
     = Inr [(PASS, ''every pairing activation was answered with its own pairing_index'')]
   \<and> index_answers sample_unanswered (last (cr_frames sample_unanswered)) [] = []"
  by code_simp

text \<open>
  what the presentation check reports depends on the shape of the typed code only: two codes
  without the mark that stands for a digit, and with digits in the same places and the same text
  elsewhere, give the same finding, so no digit of the code reaches the report.
\<close>

theorem presentation_hides_digits:
  assumes "code_shape typed = code_shape other" and "CHR ''#'' \<notin> set typed" and "CHR ''#'' \<notin> set other"
  shows "check_presentation cid typed digits = check_presentation cid other digits"
  by (rule presentation_shape [OF assms])

theorem presentation_hides_digits_witness:
  "check_presentation ''PAIR-DYN-009'' ''123 456'' 6 = check_presentation ''PAIR-DYN-009'' ''987 012'' 6"
  by (rule presentation_hides_digits) code_simp+

section \<open>The protocol assertions of the matrix\<close>

text \<open>
  evidence is accepted exactly when every assertion the scenario names is known and both
  summaries carry, for the cited revision, a passed result with trace events for each.
\<close>

theorem evidence_exact:
  "protocol_evidence_failure server client ids = None \<longleftrightarrow>
     set ids \<subseteq> pa_id ` set PROTOCOL_ASSERTIONS \<and> summary_passed ids server \<and> summary_passed ids client"
  by (rule evidence_None)

text \<open>
  the activation is held against the server exactly when it is recorded as never sent, or is a
  server/activate whose payload lacks active_roles or whose activities are not a list of unique
  values among pairing and playback.
\<close>

theorem activation_exact:
  "activation_violation s \<noteq> None \<longleftrightarrow> has_key ''activation'' s
     \<and> (dict_get ''activation'' s = VNone
        \<or> (\<exists>m p. dict_get ''activation'' s = VDict m \<and> dict_get ''type'' m = VStr ''server/activate''
             \<and> dict_get ''payload'' m = VDict p \<and> \<not> activation_conforms p))"
  by (rule activation_violation_iff)

text \<open>
  the group updates are accepted exactly when no activation was sent, or at least one update
  was recorded and each carries a defined playback state, a string group_id and a string
  group_name.
\<close>

theorem group_updates_exact:
  "group_update_violation s = None \<longleftrightarrow>
     (has_key ''activation'' s \<and> dict_get ''activation'' s = VNone)
     \<or> (\<exists>updates. dict_get ''group_updates'' s = VList updates \<and> updates \<noteq> []
          \<and> list_all group_update_conforms updates)"
  by (simp add: group_update_None list_all_iff)

text \<open>
  C2: the gate on stream/start is kept exactly when the trace can be read, some stream/start
  reached the wire, and each that did closes a bracket in which an available state was the latest
  at some point between its two entries.
\<close>

theorem gate_exact:
  "stream_start_gate_violation summary = None \<longleftrightarrow>
     (\<exists>es. gate_entries (dict_get ''availability_trace'' summary) = Some es
        \<and> list_ex is_sent es \<and> gate_kept es)"
  by (simp add: gate_None list_ex_iff)

text \<open>
  C13: an exchange with no violation answers no client/time twice: at every point of the record the
  values the server had echoed are, with multiplicity, among those it had received, and no answer
  was received later than it was sent.
\<close>

theorem time_exchange_sound:
  assumes "time_exchange_violation summary = None" and "dict_get ''time_exchange'' summary = VList (pre @ post)"
  shows "mset (echoed_values pre) \<subseteq># mset (client_values pre)
    \<and> list_all (\<lambda>e. entry_kind e \<noteq> VStr ''server/time''
         \<or> carried e ''server_received'' \<le> carried e ''server_transmitted'') pre"
  using time_sound [OF assms] by (auto simp: list_all_iff)

definition sample_exchange :: pydict where
  "sample_exchange = [(''time_exchange'', VList [client_time 5, server_time 5 7 8])]"

lemma sample_exchange_passes: "time_exchange_violation sample_exchange = None"
  by code_simp

theorem time_exchange_sound_witness:
  "mset (echoed_values [client_time 5]) \<subseteq># mset (client_values [client_time 5])
    \<and> list_all (\<lambda>e. entry_kind e \<noteq> VStr ''server/time''
         \<or> carried e ''server_received'' \<le> carried e ''server_transmitted'') [client_time 5]"
  by (rule time_exchange_sound [OF sample_exchange_passes, of _ "[server_time 5 7 8]"])
    (simp add: sample_exchange_def)

text \<open>
  C3: an exchange with no violation left nothing behind: if the server began sending something
  else and a further client/time came later, every client/time from before that was answered in
  the end.
\<close>

theorem time_exchange_answered:
  assumes "time_exchange_violation summary = None"
    and "dict_get ''time_exchange'' summary = VList (pre @ e # post)"
    and "entry_kind e = VStr ''other-sent''" and "client_values post \<noteq> []"
  shows "mset (client_values pre) \<subseteq># mset (echoed_values (pre @ e # post))"
  by (rule time_answered [OF assms])

definition other_sent :: pyval where
  "other_sent = VDict [(''type'', VStr ''other-sent'')]"

theorem time_exchange_answered_witness:
  "mset (client_values [client_time 5, server_time 5 7 8]) \<subseteq>#
     mset (echoed_values ([client_time 5, server_time 5 7 8] @ other_sent # [client_time 9]))"
  by (rule time_exchange_answered
      [of "[(''time_exchange'', VList ([client_time 5, server_time 5 7 8] @ other_sent # [client_time 9]))]"])
    code_simp+

text \<open>
  a server that answers each client/time before the next, with readings of its clock in order,
  is never accused, however long the exchange.
\<close>

theorem prompt_server_passes:
  assumes "dict_get ''time_exchange'' summary = VList (prompt_exchange xs)"
    and "\<forall>(n, r, t) \<in> set xs. r \<le> t"
  shows "time_exchange_violation summary = None"
  by (rule prompt_passes [OF assms])

theorem prompt_server_passes_witness:
  "time_exchange_violation [(''time_exchange'', VList (prompt_exchange [(1, 2, 3), (4, 5, 5)]))] = None"
  by (rule prompt_server_passes [of _ "[(1, 2, 3), (4, 5, 5)]"]) simp_all

end
